(* ===== verification/Js_Prelude.thy ===== *)
theory Js_Prelude
  imports Complex_Main "HOL-Library.List_Lexorder" "HOL-Library.Char_ord" "HOL-Library.Sublist"
    "HOL-Library.AList"
begin

text \<open>
  The shared prelude of the development: the JavaScript values the SDK manipulates and
  the parts of the language and its standard library that its code uses (truthiness,
  \<open>typeof\<close>, \<open>String\<close>, \<open>Number\<close>, \<open>trim\<close>, the JSON clone), the result type of
  fallible code, and the effect monad of asynchronous code, together with the lemma
  collections that the component theories extend.

  Conventions. A string is a list of characters (code units up to 255 only). A finite
  number is an exact rational: the rounding of binary64 arithmetic is not modelled, and
  the times, versions and counters of the SDK are far below \<open>2^53\<close>. The decimal
  printing of a non-integral number stops after 17 digits. Functions are no values of
  \<open>jsval\<close>: a callback is a parameter of the definition that calls it.
\<close>

section \<open>Values\<close>

datatype jnum = Fin rat | NaN | PInf | NInf

datatype jsval =
    JUndef
  | JNull
  | JBool bool
  | JNum jnum
  | JStr string
  | JArr "jsval list"
  | JObj "(string \<times> jsval) list"

abbreviation JInt :: "int \<Rightarrow> jsval" where
  "JInt n \<equiv> JNum (Fin (of_int n))"

named_theorems js_defs \<open>definitional equations of the language layer\<close>
named_theorems io_simps \<open>evaluation rules of the effect monad\<close>

fun js_truthy :: "jsval \<Rightarrow> bool" where
  "js_truthy JUndef = False"
| "js_truthy JNull = False"
| "js_truthy (JBool b) = b"
| "js_truthy (JNum (Fin q)) = (q \<noteq> 0)"
| "js_truthy (JNum NaN) = False"
| "js_truthy (JNum PInf) = True"
| "js_truthy (JNum NInf) = True"
| "js_truthy (JStr s) = (s \<noteq> [])"
| "js_truthy (JArr xs) = True"
| "js_truthy (JObj ps) = True"

text \<open>\<open>a || b\<close> on values.\<close>

definition js_or :: "jsval \<Rightarrow> jsval \<Rightarrow> jsval" where
  "js_or a b = (if js_truthy a then a else b)"

fun js_typeof :: "jsval \<Rightarrow> string" where
  "js_typeof JUndef = ''undefined''"
| "js_typeof JNull = ''object''"
| "js_typeof (JBool b) = ''boolean''"
| "js_typeof (JNum n) = ''number''"
| "js_typeof (JStr s) = ''string''"
| "js_typeof (JArr xs) = ''object''"
| "js_typeof (JObj ps) = ''object''"

fun is_array :: "jsval \<Rightarrow> bool" where
  "is_array (JArr xs) = True"
| "is_array v = False"

text \<open>\<open>v && typeof v === "object"\<close>: an object or an array, not \<open>null\<close>.\<close>

fun is_object :: "jsval \<Rightarrow> bool" where
  "is_object (JObj ps) = True"
| "is_object (JArr xs) = True"
| "is_object v = False"

text \<open>An object that is neither \<open>null\<close> nor an array.\<close>

fun is_plain_object :: "jsval \<Rightarrow> bool" where
  "is_plain_object (JObj ps) = True"
| "is_plain_object v = False"

fun is_string :: "jsval \<Rightarrow> bool" where
  "is_string (JStr s) = True"
| "is_string v = False"

fun isFinite_num :: "jnum \<Rightarrow> bool" where
  "isFinite_num (Fin q) = True"
| "isFinite_num n = False"

text \<open>\<open>Number.isInteger\<close> on a value: no conversion takes place.\<close>

fun js_isInteger :: "jsval \<Rightarrow> bool" where
  "js_isInteger (JNum (Fin q)) = (of_int \<lfloor>q\<rfloor> = q)"
| "js_isInteger v = False"

text \<open>Property access on a value that is not \<open>null\<close> or \<open>undefined\<close>.\<close>

fun getp :: "jsval \<Rightarrow> string \<Rightarrow> jsval" where
  "getp (JObj ps) k = (case map_of ps k of None \<Rightarrow> JUndef | Some v \<Rightarrow> v)"
| "getp v k = JUndef"

text \<open>Assignment to a property: in place for a present key, at the end otherwise.\<close>

fun assoc_set :: "string \<Rightarrow> jsval \<Rightarrow> (string \<times> jsval) list \<Rightarrow> (string \<times> jsval) list" where
  "assoc_set k v [] = [(k, v)]"
| "assoc_set k v ((k', v') # ps) = (if k' = k then (k, v) # ps else (k', v') # assoc_set k v ps)"

fun set_prop :: "string \<Rightarrow> jsval \<Rightarrow> jsval \<Rightarrow> jsval" where
  "set_prop k v (JObj ps) = JObj (assoc_set k v ps)"
| "set_prop k v w = w"

text \<open>The object literal \<open>{ ...base, k1: v1, ... }\<close>.\<close>

definition spread :: "jsval \<Rightarrow> (string \<times> jsval) list \<Rightarrow> jsval" where
  "spread base kvs = JObj (foldl (\<lambda>ps (k, v). assoc_set k v ps)
     (case base of JObj ps \<Rightarrow> ps | _ \<Rightarrow> []) kvs)"

section \<open>Strings and numbers\<close>

definition is_ws :: "char \<Rightarrow> bool" where
  "is_ws c \<longleftrightarrow> of_char c \<in> {9, 10, 11, 12, 13, 32, 160 :: nat}"

definition js_trim :: "string \<Rightarrow> string" where
  "js_trim s = rev (dropWhile is_ws (rev (dropWhile is_ws s)))"

text \<open>\<open>typeof v === "string" ? v.trim() : ""\<close>.\<close>

fun trimmed :: "jsval \<Rightarrow> string" where
  "trimmed (JStr s) = js_trim s"
| "trimmed v = []"

definition digit_char :: "nat \<Rightarrow> char" where
  "digit_char d = char_of (48 + d)"

fun show_nat :: "nat \<Rightarrow> string" where
  "show_nat n = (if n < 10 then [digit_char n] else show_nat (n div 10) @ [digit_char (n mod 10)])"

declare show_nat.simps [simp del]

fun frac_digits :: "nat \<Rightarrow> rat \<Rightarrow> string" where
  "frac_digits 0 r = []"
| "frac_digits (Suc k) r =
     (if r = 0 then [] else digit_char (nat \<lfloor>10 * r\<rfloor>) # frac_digits k (10 * r - of_int \<lfloor>10 * r\<rfloor>))"

definition show_rat :: "rat \<Rightarrow> string" where
  "show_rat q =
     (let a = \<bar>q\<bar>; i = \<lfloor>a\<rfloor>; f = a - of_int i
      in (if q < 0 then ''-'' else []) @ show_nat (nat i)
         @ (if f = 0 then [] else ''.'' @ frac_digits 17 f))"

fun show_num :: "jnum \<Rightarrow> string" where
  "show_num (Fin q) = show_rat q"
| "show_num NaN = ''NaN''"
| "show_num PInf = ''Infinity''"
| "show_num NInf = ''-Infinity''"

text \<open>\<open>String(v)\<close>; an array joins its elements with commas, \<open>null\<close> and \<open>undefined\<close>
  elements being empty.\<close>

fun join_with :: "string \<Rightarrow> string list \<Rightarrow> string" where
  "join_with sep [] = []"
| "join_with sep [x] = x"
| "join_with sep (x # y # zs) = x @ sep @ join_with sep (y # zs)"

fun js_String :: "jsval \<Rightarrow> string" where
  "js_String JUndef = ''undefined''"
| "js_String JNull = ''null''"
| "js_String (JBool b) = (if b then ''true'' else ''false'')"
| "js_String (JNum n) = show_num n"
| "js_String (JStr s) = s"
| "js_String (JArr xs) =
     join_with '','' (map (\<lambda>x. if x = JUndef \<or> x = JNull then [] else js_String x) xs)"
| "js_String (JObj ps) = ''[object Object]''"

text \<open>\<open>String(v || "")\<close>.\<close>

definition str_or_empty :: "jsval \<Rightarrow> string" where
  "str_or_empty v = js_String (js_or v (JStr []))"

definition is_digit :: "char \<Rightarrow> bool" where
  "is_digit c \<longleftrightarrow> 48 \<le> (of_char c :: nat) \<and> (of_char c :: nat) \<le> 57"

definition digit_val :: "char \<Rightarrow> nat" where
  "digit_val c =
     (let n = of_char c in
      if 48 \<le> n \<and> n \<le> 57 then n - 48
      else if 97 \<le> n \<and> n \<le> 122 then n - 87
      else if 65 \<le> n \<and> n \<le> 90 then n - 55
      else 99)"

definition digits_val :: "nat \<Rightarrow> string \<Rightarrow> nat" where
  "digits_val b s = foldl (\<lambda>acc c. acc * b + digit_val c) 0 s"

definition radix_num :: "nat \<Rightarrow> string \<Rightarrow> jnum" where
  "radix_num b s =
     (if s \<noteq> [] \<and> list_all (\<lambda>c. digit_val c < b) s then Fin (of_nat (digits_val b s)) else NaN)"

text \<open>An unsigned decimal literal: digits, an optional fraction, an optional exponent.\<close>

definition exponent_of :: "string \<Rightarrow> int option" where
  "exponent_of s =
     (case s of
        [] \<Rightarrow> Some 0
      | c # r \<Rightarrow>
          if c = CHR ''e'' \<or> c = CHR ''E'' then
            (let (neg, ds) = (case r of
                 [] \<Rightarrow> (False, [])
               | d # r' \<Rightarrow> if d = CHR ''-'' then (True, r')
                           else if d = CHR ''+'' then (False, r') else (False, r))
             in if ds \<noteq> [] \<and> list_all is_digit ds
                then Some (if neg then - int (digits_val 10 ds) else int (digits_val 10 ds))
                else None)
          else None)"

definition decimal_num :: "string \<Rightarrow> jnum" where
  "decimal_num s =
     (let ip = takeWhile is_digit s; r1 = dropWhile is_digit s;
          (fp, r2) = (case r1 of
              [] \<Rightarrow> ([], [])
            | c # r \<Rightarrow> if c = CHR ''.'' then (takeWhile is_digit r, dropWhile is_digit r) else ([], r1))
      in if ip = [] \<and> fp = [] then NaN
         else (case exponent_of r2 of
             None \<Rightarrow> NaN
           | Some e \<Rightarrow>
               Fin ((of_nat (digits_val 10 ip) + of_nat (digits_val 10 fp) / 10 ^ length fp)
                    * (if 0 \<le> e then 10 ^ nat e else 1 / 10 ^ nat (- e)))))"

fun neg_num :: "jnum \<Rightarrow> jnum" where
  "neg_num (Fin q) = Fin (- q)"
| "neg_num NaN = NaN"
| "neg_num PInf = NInf"
| "neg_num NInf = PInf"

text \<open>The string-to-number conversion of \<open>Number\<close>.\<close>

definition unsigned_num :: "string \<Rightarrow> jnum" where
  "unsigned_num s = (if s = ''Infinity'' then PInf else decimal_num s)"

definition string_to_number :: "string \<Rightarrow> jnum" where
  "string_to_number s =
     (let t = js_trim s in
      case t of
        [] \<Rightarrow> Fin 0
      | c # r \<Rightarrow>
          if c = CHR ''-'' then neg_num (unsigned_num r)
          else if c = CHR ''+'' then unsigned_num r
          else (case r of
              [] \<Rightarrow> unsigned_num t
            | d # r' \<Rightarrow>
                if c = CHR ''0'' \<and> (d = CHR ''x'' \<or> d = CHR ''X'') then radix_num 16 r'
                else if c = CHR ''0'' \<and> (d = CHR ''o'' \<or> d = CHR ''O'') then radix_num 8 r'
                else if c = CHR ''0'' \<and> (d = CHR ''b'' \<or> d = CHR ''B'') then radix_num 2 r'
                else unsigned_num t))"

fun js_Number :: "jsval \<Rightarrow> jnum" where
  "js_Number JUndef = NaN"
| "js_Number JNull = Fin 0"
| "js_Number (JBool b) = Fin (if b then 1 else 0)"
| "js_Number (JNum n) = n"
| "js_Number (JStr s) = string_to_number s"
| "js_Number (JArr xs) = string_to_number (js_String (JArr xs))"
| "js_Number (JObj ps) = NaN"

text \<open>\<open>a + b\<close> on numbers.\<close>

fun num_add :: "jnum \<Rightarrow> jnum \<Rightarrow> jnum" where
  "num_add (Fin a) (Fin b) = Fin (a + b)"
| "num_add NaN b = NaN"
| "num_add a NaN = NaN"
| "num_add PInf NInf = NaN"
| "num_add NInf PInf = NaN"
| "num_add PInf b = PInf"
| "num_add NInf b = NInf"
| "num_add a PInf = PInf"
| "num_add a NInf = NInf"

text \<open>\<open>a < b\<close> on numbers; every comparison with \<open>NaN\<close> is false.\<close>

fun num_less :: "jnum \<Rightarrow> jnum \<Rightarrow> bool" where
  "num_less (Fin a) (Fin b) = (a < b)"
| "num_less (Fin a) PInf = True"
| "num_less NInf (Fin b) = True"
| "num_less NInf PInf = True"
| "num_less a b = False"

fun num_eq :: "jnum \<Rightarrow> jnum \<Rightarrow> bool" where
  "num_eq NaN b = False"
| "num_eq a NaN = False"
| "num_eq a b = (a = b)"

definition num_le :: "jnum \<Rightarrow> jnum \<Rightarrow> bool" where
  "num_le a b \<longleftrightarrow> num_less a b \<or> num_eq a b"

text \<open>\<open>===\<close> on the primitive values and on references that are never shared: two objects
  are equal here when they have the same contents, and the code compares only primitives.\<close>

fun js_eq :: "jsval \<Rightarrow> jsval \<Rightarrow> bool" where
  "js_eq (JNum a) (JNum b) = num_eq a b"
| "js_eq a b = (a = b)"

lemma js_eq_D: "js_eq a b \<Longrightarrow> a = b"
  by (induction a b rule: js_eq.induct) (auto elim: num_eq.elims)

section \<open>The JSON clone\<close>

text \<open>
  \<open>JSON.parse(JSON.stringify(v))\<close>: undefined properties disappear, undefined elements
  and the non-finite numbers become \<open>null\<close>.
\<close>

fun json_clone :: "jsval \<Rightarrow> jsval" where
  "json_clone JUndef = JNull"
| "json_clone (JNum n) = (if isFinite_num n then JNum n else JNull)"
| "json_clone (JArr xs) = JArr (map json_clone xs)"
| "json_clone (JObj ps) = JObj (map (\<lambda>(k, v). (k, json_clone v)) (filter (\<lambda>(k, v). v \<noteq> JUndef) ps))"
| "json_clone v = v"

fun json_clean :: "jsval \<Rightarrow> bool" where
  "json_clean JUndef = False"
| "json_clean (JNum n) = isFinite_num n"
| "json_clean (JArr xs) = list_all json_clean xs"
| "json_clean (JObj ps) = list_all (\<lambda>(k, v). json_clean v) ps"
| "json_clean v = True"

text \<open>\<open>value === undefined ? undefined : JSON.parse(JSON.stringify(value))\<close>.\<close>

definition cloneJsonValue :: "jsval \<Rightarrow> jsval" where
  "cloneJsonValue v = (if v = JUndef then JUndef else json_clone v)"

section \<open>Errors, results and effects\<close>

text \<open>A thrown \<open>Error\<close>: its \<open>code\<close> property (empty when it has none), its message, and the
  further properties the code attaches to it.\<close>

datatype js_err = JsErr (err_code: string) (err_msg: string) (err_info: "(string \<times> jsval) list")

type_synonym 'a res = "js_err + 'a"

abbreviation plain_err :: "string \<Rightarrow> js_err" where
  "plain_err msg \<equiv> JsErr [] msg []"

abbreviation code_err :: "string \<Rightarrow> string \<Rightarrow> js_err" where
  "code_err code msg \<equiv> JsErr code msg []"

definition bind_r :: "'a res \<Rightarrow> ('a \<Rightarrow> 'b res) \<Rightarrow> 'b res" where
  "bind_r m f = (case m of Inl e \<Rightarrow> Inl e | Inr x \<Rightarrow> f x)"

text \<open>
  An asynchronous operation: it reads and changes a world and either throws or returns.
  \<open>await\<close> is \<open>bindE\<close>.
\<close>

type_synonym ('w, 'a) io = "'w \<Rightarrow> (js_err + 'a) \<times> 'w"

definition retE :: "'a \<Rightarrow> ('w, 'a) io" where
  "retE x w = (Inr x, w)"

definition throwE :: "js_err \<Rightarrow> ('w, 'a) io" where
  "throwE e w = (Inl e, w)"

definition bindE :: "('w, 'a) io \<Rightarrow> ('a \<Rightarrow> ('w, 'b) io) \<Rightarrow> ('w, 'b) io" where
  "bindE m f w = (case m w of (Inl e, w') \<Rightarrow> (Inl e, w') | (Inr x, w') \<Rightarrow> f x w')"

text \<open>\<open>try { ... } catch (err) { ... }\<close>.\<close>

definition catchE :: "('w, 'a) io \<Rightarrow> (js_err \<Rightarrow> ('w, 'a) io) \<Rightarrow> ('w, 'a) io" where
  "catchE m h w = (case m w of (Inl e, w') \<Rightarrow> h e w' | (Inr x, w') \<Rightarrow> (Inr x, w'))"

text \<open>A synchronous result used inside an asynchronous operation.\<close>

definition liftE :: "'a res \<Rightarrow> ('w, 'a) io" where
  "liftE r w = (r, w)"

text \<open>\<open>if (!c) throw e\<close>.\<close>

definition requireE :: "bool \<Rightarrow> js_err \<Rightarrow> ('w, unit) io" where
  "requireE c e w = (if c then (Inr (), w) else (Inl e, w))"

fun mapE :: "('a \<Rightarrow> ('w, 'b) io) \<Rightarrow> 'a list \<Rightarrow> ('w, 'b list) io" where
  "mapE f [] = retE []"
| "mapE f (x # xs) = bindE (f x) (\<lambda>y. bindE (mapE f xs) (\<lambda>ys. retE (y # ys)))"

text \<open>
  An object with private fields over a world: a call into the world, a read of the fields, an
  assignment to them.
\<close>

definition ext :: "('w, 'a) io \<Rightarrow> ('s \<times> 'w, 'a) io" where
  "ext m = (\<lambda>(st, w). case m w of (r, w') \<Rightarrow> (r, (st, w')))"

definition getsE :: "('s \<Rightarrow> 'a) \<Rightarrow> ('s \<times> 'w, 'a) io" where
  "getsE f = (\<lambda>(st, w). (Inr (f st), (st, w)))"

definition modifyE :: "('s \<Rightarrow> 's) \<Rightarrow> ('s \<times> 'w, unit) io" where
  "modifyE f = (\<lambda>(st, w). (Inr (), (f st, w)))"

text \<open>\<open>Array.prototype.sort\<close> with a comparator: stable, here an insertion sort.\<close>

fun insert_by :: "('a \<Rightarrow> 'a \<Rightarrow> bool) \<Rightarrow> 'a \<Rightarrow> 'a list \<Rightarrow> 'a list" where
  "insert_by le x [] = [x]"
| "insert_by le x (y # ys) = (if le x y then x # y # ys else y # insert_by le x ys)"

definition sort_by :: "('a \<Rightarrow> 'a \<Rightarrow> bool) \<Rightarrow> 'a list \<Rightarrow> 'a list" where
  "sort_by le xs = foldr (insert_by le) xs []"

text \<open>A \<open>Set\<close> is a list in insertion order; \<open>Set.prototype.add\<close> keeps the place of a present element.\<close>

definition set_add :: "'a \<Rightarrow> 'a list \<Rightarrow> 'a list" where
  "set_add x xs = (if x \<in> set xs then xs else xs @ [x])"

lemma set_add_simps [simp]: "set_add x xs \<noteq> []" "distinct xs \<Longrightarrow> distinct (set_add x xs)" "set (set_add x xs) = insert x (set xs)"
  by (auto simp: set_add_def)

section \<open>Lemmas on the effect monad\<close>

lemma retE_run [simp, io_simps]: "retE x w = (Inr x, w)"
  by (simp add: retE_def)

lemma throwE_run [simp, io_simps]: "throwE e w = (Inl e, w)"
  by (simp add: throwE_def)

lemma liftE_Inr [simp, io_simps]: "liftE (Inr x) = retE x"
  and liftE_Inl [simp, io_simps]: "liftE (Inl e) = throwE e"
  by (simp_all add: liftE_def retE_def throwE_def fun_eq_iff)

lemma requireE_True [simp, io_simps]: "requireE True e = retE ()"
  and requireE_False [simp, io_simps]: "requireE False e = throwE e"
  by (simp_all add: requireE_def retE_def throwE_def fun_eq_iff)

lemma bindE_retE [simp, io_simps]: "bindE (retE x) f = f x"
  and bindE_throwE [simp, io_simps]: "bindE (throwE e) f = throwE e"
  and bindE_retE_right [simp, io_simps]: "bindE m retE = m"
  by (auto simp: bindE_def retE_def throwE_def fun_eq_iff split: prod.splits sum.splits)

lemma bindE_assoc: "bindE (bindE m f) g = bindE m (\<lambda>x. bindE (f x) g)"
  by (auto simp: bindE_def fun_eq_iff split: prod.splits sum.splits)

lemma bindE_step [io_simps]: "m w = (Inr x, w') \<Longrightarrow> bindE m f w = f x w'"
  and bindE_fail [io_simps]: "m w = (Inl e, w') \<Longrightarrow> bindE m f w = (Inl e, w')"
  by (simp_all add: bindE_def)

lemma bindE_InrD:
  "bindE m f w = (Inr y, w'') \<Longrightarrow> \<exists>x w'. m w = (Inr x, w') \<and> f x w' = (Inr y, w'')"
  by (auto simp: bindE_def split: prod.splits sum.splits)

lemma bindE_InrE [elim?]:
  assumes "bindE m f w = (Inr y, w'')"
  obtains x w' where "m w = (Inr x, w')" "f x w' = (Inr y, w'')"
  using bindE_InrD [OF assms] by blast

lemma catchE_retE [simp, io_simps]: "catchE (retE x) h = retE x"
  and catchE_throwE [simp, io_simps]: "catchE (throwE e) h = h e"
  by (simp_all add: catchE_def retE_def throwE_def fun_eq_iff)

lemma requireE_InrD: "requireE c e w = (Inr u, w') \<Longrightarrow> c \<and> w' = w"
  by (simp add: requireE_def split: if_splits)

lemma bind_r_InrD: "bind_r m f = Inr y \<Longrightarrow> \<exists>x. m = Inr x \<and> f x = Inr y"
  by (auto simp: bind_r_def split: sum.splits)

lemma bind_r_simps [simp]: "bind_r (Inr x) f = f x" "bind_r (Inl e) f = Inl e"
  by (simp_all add: bind_r_def)

section \<open>Lemmas on values\<close>

lemma map_of_assoc_set [simp]:
  "map_of (assoc_set k v ps) = (map_of ps)(k \<mapsto> v)"
  by (induction k v ps rule: assoc_set.induct) (auto simp: fun_upd_twist)

lemma getp_set_prop [simp]:
  "is_plain_object r \<Longrightarrow> getp (set_prop k v r) k' = (if k' = k then v else getp r k')"
  by (cases r) auto

lemma set_prop_plain [simp]: "is_plain_object (set_prop k v r) = is_plain_object r"
  by (cases r) auto

lemma foldl_assoc_set:
  "map_of (foldl (\<lambda>ps (k, v). assoc_set k v ps) ps kvs) = map_of ps ++ map_of (rev kvs)"
  by (induction kvs arbitrary: ps) (auto simp: fun_eq_iff map_add_def split: option.splits)

lemma spread_plain [simp]: "is_plain_object (spread r kvs)"
  by (simp add: spread_def)

lemma getp_spread:
  "is_plain_object r \<Longrightarrow> getp (spread r kvs) k =
     (case map_of (rev kvs) k of None \<Rightarrow> getp r k | Some v \<Rightarrow> v)"
  by (cases r) (auto simp: spread_def foldl_assoc_set map_add_def split: option.splits)

lemma map_of_map_filter_undef:
  "distinct (map fst ps) \<Longrightarrow>
   map_of (map (\<lambda>(k, v). (k, f v)) (filter (\<lambda>(k, v). v \<noteq> JUndef) ps)) k =
     (case map_of ps k of None \<Rightarrow> None | Some v \<Rightarrow> if v = JUndef then None else Some (f v))"
  by (induction ps) (auto simp: map_of_eq_None_iff image_iff split: option.splits)

lemma json_clone_clean: "json_clean v \<Longrightarrow> json_clone v = v"
proof (induction v rule: json_clone.induct)
  case (3 xs)
  then show ?case by (auto simp: list_all_iff intro: map_idI)
next
  case (4 ps)
  have "filter (\<lambda>(k, v). v \<noteq> JUndef) ps = ps"
    using "4.prems" by (auto simp: list_all_iff intro!: filter_True)
  moreover have "map (\<lambda>(k, v). (k, json_clone v)) ps = ps"
    using 4 calculation by (intro map_idI) (auto simp: list_all_iff)
  ultimately show ?case by simp
qed auto

lemma json_clean_clone [simp]: "json_clean (json_clone v)"
  by (induction v rule: json_clone.induct) (auto simp: list_all_iff)

lemma json_clone_idem [simp]: "json_clone (json_clone v) = json_clone v"
  by (simp add: json_clone_clean)

lemma json_clone_not_undef [simp]: "json_clone v \<noteq> JUndef"
  by (cases v rule: json_clone.cases) auto

lemma json_clone_plain [simp]: "is_plain_object (json_clone v) = is_plain_object v"
  by (cases v rule: json_clone.cases) auto

lemma json_clean_not_undef [simp]: "json_clean v \<Longrightarrow> v \<noteq> JUndef"
  by (cases v) auto

lemma json_clone_JStr [simp]: "json_clone v = JStr s \<longleftrightarrow> v = JStr s"
  by (cases v rule: json_clone.cases) auto

lemma cloneJsonValue_clean [simp]: "json_clean v \<Longrightarrow> cloneJsonValue v = v"
  by (simp add: cloneJsonValue_def json_clone_clean)

lemma json_clean_assoc_set:
  "list_all (\<lambda>(k, v). json_clean v) ps \<Longrightarrow> json_clean v \<Longrightarrow>
   list_all (\<lambda>(k, v). json_clean v) (assoc_set k v ps)"
  by (induction k v ps rule: assoc_set.induct) auto

lemma json_clean_set_prop [simp]:
  "json_clean r \<Longrightarrow> json_clean v \<Longrightarrow> json_clean (set_prop k v r)"
  by (cases r) (auto intro: json_clean_assoc_set)

lemma is_string_iff: "is_string v \<longleftrightarrow> (\<exists>s. v = JStr s)"
  by (cases v) auto

lemma is_plain_object_iff: "is_plain_object v \<longleftrightarrow> (\<exists>ps. v = JObj ps)"
  by (cases v) auto

lemma js_isInteger_iff: "js_isInteger v \<longleftrightarrow> (\<exists>n. v = JInt n)"
proof
  assume "js_isInteger v"
  then show "\<exists>n. v = JInt n"
    by (cases v rule: js_isInteger.cases) (auto intro!: exI [of _ "\<lfloor>_\<rfloor>"])
qed auto

lemma num_eq_refl_Fin [simp]: "num_eq (Fin a) (Fin b) = (a = b)"
  by simp

section \<open>Lemmas on strings and sorting\<close>

lemma js_trim_Nil [simp]: "js_trim [] = []"
  by (simp add: js_trim_def)

lemma js_trim_eq_Nil: "js_trim s = [] \<longleftrightarrow> (\<forall>c\<in>set s. is_ws c)"
proof -
  have "(\<forall>c\<in>set (dropWhile is_ws s). is_ws c) \<longleftrightarrow> (\<forall>c\<in>set s. is_ws c)"
    by (induction s) auto
  then show ?thesis by (simp add: js_trim_def)
qed

lemma set_insert_by [simp]: "set (insert_by le x xs) = insert x (set xs)"
  by (induction xs) auto

lemma set_sort_by [simp]: "set (sort_by le xs) = set xs"
  by (induction xs) (auto simp: sort_by_def)

lemma length_insert_by [simp]: "length (insert_by le x xs) = Suc (length xs)"
  by (induction xs) auto

lemma length_sort_by [simp]: "length (sort_by le xs) = length xs"
  by (induction xs) (auto simp: sort_by_def)

lemma js_trim_idem [simp]: "js_trim (js_trim s) = js_trim s"
proof -
  have hd_drop: "dropWhile is_ws (dropWhile is_ws t) = dropWhile is_ws t" for t :: string
    by (induction t) auto
  define u where "u = dropWhile is_ws s"
  define v where "v = dropWhile is_ws (rev u)"
  have "dropWhile is_ws (rev v) = rev v"
  proof (cases "rev v")
    case (Cons c r)
    have "suffix v (rev u)" unfolding v_def by (rule suffix_dropWhile)
    then obtain p where "rev u = p @ v" by (auto simp: suffix_def)
    then have "u = rev v @ rev p" by (metis rev_append rev_rev_ident)
    then have "hd u = c" "u \<noteq> []" using Cons by auto
    then have "\<not> is_ws c" using hd_dropWhile [of is_ws s] by (simp add: u_def)
    then show ?thesis using Cons by simp
  qed simp
  then have "js_trim (rev v) = rev v" by (simp add: js_trim_def v_def hd_drop)
  then show ?thesis by (simp add: js_trim_def u_def v_def)
qed

section \<open>Lemmas on insertion-ordered maps\<close>

text \<open>A \<open>Map\<close> of the language is an association list: \<open>set\<close> keeps the place of a present key and
  appends a new one.\<close>

lemma update_same: "map_of cs k = Some c \<Longrightarrow> AList.update k c cs = cs"
  by (induction cs) (auto split: if_splits)

lemma delete_restore: "map_of cs k = None \<Longrightarrow> AList.delete k (AList.update k c cs) = cs"
  by (induction cs) (auto split: if_splits)

lemma update_new: "map_of cs k = None \<Longrightarrow> AList.update k c cs = cs @ [(k, c)]"
  by (induction cs) (auto split: if_splits)

lemma set_update_subset: "set (AList.update k c cs) \<subseteq> insert (k, c) (set cs)"
  by (induction cs) auto

end
