(* ===== verification/Kv_Store.thy ===== *)
theory Kv_Store
  imports Js_Prelude "HOL-Library.AList"
begin

text \<open>
  The key-value layer. \<open>kv_ops\<close> is the interface every store of the SDK is written
  against (\<open>get\<close>, \<open>set\<close>, \<open>delete\<close>, \<open>keys\<close>), the locale \<open>kv_store\<close> states what a
  provider of it promises, and the browser provider of
  \<open>src/storage/IndexedDbStorageProvider.js\<close> is modelled and shown to keep that promise.
  The wrapper \<open>absenceNormalizingStore\<close> of the peer-link storage keeps it too.

  An object store of IndexedDB is an association list from physical keys to values; its
  transactions commit (a rejected transaction is an error of the host and not modelled
  here). The unencrypted configuration of the provider is modelled.
\<close>

section \<open>The interface\<close>

record 'w kv_ops =
  kv_get :: "string \<Rightarrow> ('w, jsval) io"
  kv_set :: "string \<Rightarrow> jsval \<Rightarrow> ('w, unit) io"
  kv_delete :: "string \<Rightarrow> ('w, bool) io"
  kv_keys :: "string \<Rightarrow> ('w, string list) io"

locale kv_store =
  fixes K :: "'w kv_ops"
    and view :: "'w \<Rightarrow> string \<Rightarrow> jsval"
    and inv :: "'w \<Rightarrow> bool"
  assumes get_law: "inv w \<Longrightarrow> kv_get K k w = (Inr (view w k), w)"
    and set_law: "inv w \<Longrightarrow> json_clean v \<Longrightarrow> v \<noteq> JNull \<Longrightarrow>
      \<exists>w'. kv_set K k v w = (Inr (), w') \<and> inv w' \<and> view w' = (view w)(k := v)"
    and delete_law: "inv w \<Longrightarrow>
      \<exists>w'. kv_delete K k w = (Inr (view w k \<noteq> JUndef), w') \<and> inv w' \<and> view w' = (view w)(k := JUndef)"
    and keys_law: "inv w \<Longrightarrow>
      \<exists>ks. kv_keys K p w = (Inr ks, w) \<and> distinct ks \<and> set ks = {k. prefix p k \<and> view w k \<noteq> JUndef}"
    and view_clean: "inv w \<Longrightarrow> view w k \<noteq> JUndef \<Longrightarrow> json_clean (view w k) \<and> view w k \<noteq> JNull"
begin

lemma set_run:
  assumes "inv w" "json_clean v" "v \<noteq> JNull"
  obtains w' where "kv_set K k v w = (Inr (), w')" "inv w'" "view w' = (view w)(k := v)"
  using set_law [OF assms] by blast

lemma delete_run:
  assumes "inv w"
  obtains w' where "kv_delete K k w = (Inr (view w k \<noteq> JUndef), w')" "inv w'"
    "view w' = (view w)(k := JUndef)"
  using delete_law [OF assms] by blast

lemma keys_run:
  assumes "inv w"
  obtains ks where "kv_keys K p w = (Inr ks, w)" "distinct ks"
    "set ks = {k. prefix p k \<and> view w k \<noteq> JUndef}"
  using keys_law [OF assms] by blast

lemma not_null: "inv w \<Longrightarrow> view w k \<noteq> JNull"
  using view_clean [of w k] by auto

lemma clone_view: "inv w \<Longrightarrow> cloneJsonValue (view w k) = view w k"
  using view_clean [of w k] by (cases "view w k = JUndef") (auto simp: cloneJsonValue_def json_clone_clean)

text \<open>Reading the values behind a list of keys is reading the view.\<close>

lemma mapE_get: "inv w \<Longrightarrow> mapE (kv_get K) ks w = (Inr (map (view w) ks), w)"
  by (induction ks) (simp_all add: bindE_def get_law)

end

section \<open>\<open>absenceNormalizingStore\<close>\<close>

definition absenceNormalizingStore :: "'w kv_ops \<Rightarrow> 'w kv_ops" where
  "absenceNormalizingStore keyValueStore =
     \<lparr>kv_get = (\<lambda>key. bindE (kv_get keyValueStore key)
        (\<lambda>value. retE (if value = JNull then JUndef else value))),
      kv_set = kv_set keyValueStore,
      kv_delete = kv_delete keyValueStore,
      kv_keys = kv_keys keyValueStore\<rparr>"

text \<open>
  The hosts of the storage encode absence differently: IndexedDB-backed stores answer
  \<open>undefined\<close> for a missing key, SQLite-shaped ones \<open>null\<close>. \<open>absent\<close> is the host's choice.
\<close>

locale kv_host =
  fixes H :: "'w kv_ops"
    and absent :: jsval
    and hview :: "'w \<Rightarrow> string \<Rightarrow> jsval"
    and hinv :: "'w \<Rightarrow> bool"
  assumes absent: "absent = JNull \<or> absent = JUndef"
    and host_get: "hinv w \<Longrightarrow>
      kv_get H k w = (Inr (if hview w k = JUndef then absent else hview w k), w)"
    and host_set: "hinv w \<Longrightarrow> json_clean v \<Longrightarrow> v \<noteq> JNull \<Longrightarrow>
      \<exists>w'. kv_set H k v w = (Inr (), w') \<and> hinv w' \<and> hview w' = (hview w)(k := v)"
    and host_delete: "hinv w \<Longrightarrow>
      \<exists>w'. kv_delete H k w = (Inr (hview w k \<noteq> JUndef), w') \<and> hinv w' \<and> hview w' = (hview w)(k := JUndef)"
    and host_keys: "hinv w \<Longrightarrow>
      \<exists>ks. kv_keys H p w = (Inr ks, w) \<and> distinct ks \<and> set ks = {k. prefix p k \<and> hview w k \<noteq> JUndef}"
    and host_clean: "hinv w \<Longrightarrow> hview w k \<noteq> JUndef \<Longrightarrow> json_clean (hview w k) \<and> hview w k \<noteq> JNull"
begin

lemma normalized_get: "hinv w \<Longrightarrow> kv_get (absenceNormalizingStore H) k w = (Inr (hview w k), w)"
  using absent host_clean [of w k]
  by (auto simp: absenceNormalizingStore_def bindE_def host_get)

end

text \<open>After the wrapper every host is a store of the one contract.\<close>

sublocale kv_host \<subseteq> nrm: kv_store "absenceNormalizingStore H" hview hinv
proof
  show "hinv w \<Longrightarrow> kv_get (absenceNormalizingStore H) k w = (Inr (hview w k), w)" for w k
    by (rule normalized_get)
qed (use host_set host_delete host_keys host_clean in \<open>auto simp: absenceNormalizingStore_def\<close>)

section \<open>The IndexedDB provider\<close>

type_synonym idb = "(string \<times> jsval) list"

text \<open>\<open>cloneJson\<close> of the provider maps both empty values to \<open>null\<close>.\<close>

definition idb_cloneJson :: "jsval \<Rightarrow> jsval" where
  "idb_cloneJson v = (if v = JUndef \<or> v = JNull then JNull else json_clone v)"

definition idb_get :: "string \<Rightarrow> (idb, jsval) io" where
  "idb_get key db = (Inr (idb_cloneJson (case map_of db key of None \<Rightarrow> JNull | Some v \<Rightarrow> v)), db)"

text \<open>The code resolves at the success of the request; here the record is durable from then on, that is, the
  transaction of a request that succeeded commits.\<close>

definition idb_put :: "string \<Rightarrow> jsval \<Rightarrow> (idb, jsval) io" where
  "idb_put key v db = (let payload = idb_cloneJson v in (Inr payload, AList.update key payload db))"

definition idb_del :: "string \<Rightarrow> (idb, unit) io" where
  "idb_del key db = (Inr (), AList.delete key db)"

definition idb_listKeys :: "(idb, string list) io" where
  "idb_listKeys db = (Inr (sort (filter (\<lambda>k. k \<noteq> []) (map fst db))), db)"

definition idb_clear :: "(idb, unit) io" where
  "idb_clear db = (Inr (), [])"

text \<open>\<open>encodeURIComponent\<close>: the unreserved marks stay, every other code unit becomes its
  UTF-8 octets in hexadecimal.\<close>

definition hex_char :: "nat \<Rightarrow> char" where
  "hex_char d = (if d < 10 then char_of (48 + d) else char_of (55 + d))"

definition pct :: "nat \<Rightarrow> string" where
  "pct b = [CHR ''%'', hex_char (b div 16), hex_char (b mod 16)]"

definition unreserved :: "char \<Rightarrow> bool" where
  "unreserved c \<longleftrightarrow>
     (let n = of_char c :: nat in
      (48 \<le> n \<and> n \<le> 57) \<or> (65 \<le> n \<and> n \<le> 90) \<or> (97 \<le> n \<and> n \<le> 122)
      \<or> c \<in> set ''-_.!~*()'' \<or> n = 39)"

definition encode_char :: "char \<Rightarrow> string" where
  "encode_char c =
     (let n = of_char c :: nat in
      if unreserved c then [c]
      else if n < 128 then pct n
      else pct (192 + n div 64) @ pct (128 + n mod 64))"

definition encodeURIComponent :: "string \<Rightarrow> string" where
  "encodeURIComponent s = concat (map encode_char s)"

definition kv_partition :: "string \<Rightarrow> string" where
  "kv_partition ownerAccountId =
     ''kv/'' @ (if ownerAccountId \<noteq> [] then encodeURIComponent ownerAccountId else ''root'') @ ''/''"

text \<open>The \<open>IndexedDbKeyValueStore\<close> with a given key prefix.\<close>

definition idb_kv :: "string \<Rightarrow> idb kv_ops" where
  "idb_kv pfx =
     \<lparr>kv_get = (\<lambda>key. bindE (idb_get (pfx @ key))
        (\<lambda>stored. retE (if stored = JNull then JUndef else stored))),
      kv_set = (\<lambda>key v. bindE (idb_put (pfx @ key) v) (\<lambda>_. retE ())),
      kv_delete = (\<lambda>key. bindE (idb_get (pfx @ key)) (\<lambda>stored.
        bindE (idb_del (pfx @ key)) (\<lambda>_. retE (stored \<noteq> JNull)))),
      kv_keys = (\<lambda>p. bindE idb_listKeys (\<lambda>keys.
        retE (map (drop (length pfx)) (filter (prefix (pfx @ p)) keys))))\<rparr>"

text \<open>\<open>getKeyValueStore(ownerAccountId)\<close>; \<open>null\<close> and blank owners get the root partition.\<close>

definition getKeyValueStore :: "string option \<Rightarrow> idb kv_ops" where
  "getKeyValueStore ownerAccountId =
     idb_kv (kv_partition (case ownerAccountId of None \<Rightarrow> [] | Some o1 \<Rightarrow> js_trim o1))"

definition idb_view :: "string \<Rightarrow> idb \<Rightarrow> string \<Rightarrow> jsval" where
  "idb_view pfx db k = (case map_of db (pfx @ k) of None \<Rightarrow> JUndef | Some v \<Rightarrow> v)"

definition idb_inv :: "idb \<Rightarrow> bool" where
  "idb_inv db \<longleftrightarrow> distinct (map fst db) \<and> list_all (\<lambda>(k, v). json_clean v \<and> v \<noteq> JNull) db"

section \<open>The provider keeps the contract\<close>

lemma idb_inv_iff:
  "idb_inv db \<longleftrightarrow> distinct (map fst db) \<and> (\<forall>k v. map_of db k = Some v \<longrightarrow> json_clean v \<and> v \<noteq> JNull)"
  by (cases "distinct (map fst db)") (fastforce simp: idb_inv_def list_all_iff)+

lemma idb_inv_lookup: "idb_inv db \<Longrightarrow> map_of db k = Some v \<Longrightarrow> json_clean v \<and> v \<noteq> JNull"
  by (simp add: idb_inv_iff)

lemma idb_get_view:
  "idb_inv db \<Longrightarrow> idb_get (pfx @ k) db =
     (Inr (if idb_view pfx db k = JUndef then JNull else idb_view pfx db k), db)"
  using idb_inv_lookup [of db "pfx @ k"]
  by (auto simp: idb_get_def idb_view_def idb_cloneJson_def json_clone_clean split: option.splits)

lemma idb_inv_update:
  "idb_inv db \<Longrightarrow> json_clean v \<Longrightarrow> v \<noteq> JNull \<Longrightarrow> idb_inv (AList.update k v db)"
  by (auto simp: idb_inv_iff distinct_update update_conv' split: if_splits)

lemma idb_view_update: "idb_view pfx (AList.update (pfx @ k) v db) = (idb_view pfx db)(k := v)"
  by (auto simp: idb_view_def update_conv' fun_eq_iff)

lemma idb_inv_delete: "idb_inv db \<Longrightarrow> idb_inv (AList.delete k db)"
  by (auto simp: idb_inv_iff distinct_delete delete_conv' split: if_splits)

lemma idb_view_delete: "idb_view pfx (AList.delete (pfx @ k) db) = (idb_view pfx db)(k := JUndef)"
  by (auto simp: idb_view_def delete_conv' fun_eq_iff)

lemma idb_keys:
  assumes "idb_inv db" and "pfx \<noteq> []"
  shows "\<exists>ks. kv_keys (idb_kv pfx) p db = (Inr ks, db) \<and> distinct ks \<and>
           set ks = {k. prefix p k \<and> idb_view pfx db k \<noteq> JUndef}"
proof -
  let ?phys = "filter (prefix (pfx @ p)) (sort (filter (\<lambda>k. k \<noteq> []) (map fst db)))"
  let ?ks = "map (drop (length pfx)) ?phys"
  have pre: "\<exists>k. x = pfx @ p @ k" if "x \<in> set ?phys" for x
    using that by (auto simp: prefix_def)
  have "inj_on (drop (length pfx)) (set ?phys)"
  proof (rule inj_onI)
    fix x y
    assume "x \<in> set ?phys" "y \<in> set ?phys" and eq: "drop (length pfx) x = drop (length pfx) y"
    then obtain a b where "x = pfx @ p @ a" "y = pfx @ p @ b" using pre by meson
    with eq show "x = y" by simp
  qed
  then have "distinct ?ks"
    using assms(1) by (simp add: distinct_map idb_inv_def)
  moreover have "k \<in> set ?ks \<longleftrightarrow> prefix p k \<and> idb_view pfx db k \<noteq> JUndef" for k
  proof -
    have "k \<in> set ?ks \<longleftrightarrow> prefix p k \<and> pfx @ k \<in> fst ` set db"
      using assms(2) by (force simp: prefix_def image_iff)
    also have "pfx @ k \<in> fst ` set db \<longleftrightarrow> idb_view pfx db k \<noteq> JUndef"
      using idb_inv_lookup [OF assms(1), of "pfx @ k"]
      unfolding dom_map_of_conv_image_fst [symmetric]
      by (auto simp: idb_view_def split: option.splits)
    finally show ?thesis .
  qed
  ultimately show ?thesis
    by (simp add: idb_kv_def idb_listKeys_def bindE_def set_eq_iff)
qed

lemma idb_kv_contract:
  assumes "pfx \<noteq> []"
  shows "kv_store (idb_kv pfx) (idb_view pfx) idb_inv"
proof
  fix w k
  assume inv: "idb_inv w"
  show "kv_get (idb_kv pfx) k w = (Inr (idb_view pfx w k), w)"
    using idb_inv_lookup [OF inv, of "pfx @ k"]
    by (auto simp: idb_kv_def bindE_def idb_get_view [OF inv] idb_view_def split: option.splits)
  show "\<exists>w'. kv_delete (idb_kv pfx) k w = (Inr (idb_view pfx w k \<noteq> JUndef), w') \<and>
          idb_inv w' \<and> idb_view pfx w' = (idb_view pfx w)(k := JUndef)"
    using idb_inv_lookup [OF inv, of "pfx @ k"] idb_inv_delete [OF inv, of "pfx @ k"]
    by (auto simp: idb_kv_def bindE_def idb_get_view [OF inv] idb_del_def idb_view_delete
        idb_view_def split: option.splits)
  show "json_clean (idb_view pfx w k) \<and> idb_view pfx w k \<noteq> JNull" if "idb_view pfx w k \<noteq> JUndef"
    using that idb_inv_lookup [OF inv, of "pfx @ k"] by (auto simp: idb_view_def split: option.splits)
next
  fix w v k
  assume "idb_inv w" "json_clean v" "v \<noteq> JNull"
  then show "\<exists>w'. kv_set (idb_kv pfx) k v w = (Inr (), w') \<and> idb_inv w' \<and>
               idb_view pfx w' = (idb_view pfx w)(k := v)"
    by (auto simp: idb_kv_def bindE_def idb_put_def idb_cloneJson_def json_clone_clean
        idb_view_update intro: idb_inv_update)
next
  fix w p
  assume "idb_inv w"
  then show "\<exists>ks. kv_keys (idb_kv pfx) p w = (Inr ks, w) \<and> distinct ks \<and>
               set ks = {k. prefix p k \<and> idb_view pfx w k \<noteq> JUndef}"
    using assms by (rule idb_keys)
qed

lemma kv_partition_nonempty [simp]: "kv_partition o1 \<noteq> []"
  by (simp add: kv_partition_def)

interpretation idb: kv_store "idb_kv (kv_partition o1)" "idb_view (kv_partition o1)" idb_inv
  for o1
  by (rule idb_kv_contract) simp

lemma idb_kv_host: "kv_host (idb_kv (kv_partition o1)) JUndef (idb_view (kv_partition o1)) idb_inv"
proof
  show "idb_inv w \<Longrightarrow> kv_get (idb_kv (kv_partition o1)) k w =
      (Inr (if idb_view (kv_partition o1) w k = JUndef then JUndef else idb_view (kv_partition o1) w k), w)"
    for w k
    by (simp add: idb.get_law)
qed (use idb.set_law idb.delete_law idb.keys_law idb.view_clean in auto)

interpretation idbh: kv_host "idb_kv (kv_partition o1)" JUndef "idb_view (kv_partition o1)" idb_inv
  for o1
  by (rule idb_kv_host)

end
