(* ===== verification/PeerLink_Storage.thy ===== *)
theory PeerLink_Storage
  imports Kv_Store
begin

text \<open>
  The durable peer-link storage of \<open>src/peer-link/createKeyValueBackedPeerLinkStorage.js\<close>:
  five stores over one key-value store (peer links, secure sessions, handshake attempts,
  lifecycle events, key material). Every operation of every store is modelled over an
  arbitrary provider \<open>K\<close> of the interface \<open>kv_ops\<close>; records are JSON values, and every
  \<open>throw\<close> is a branch. The list operations sort with \<open>localeCompare\<close>, whose order the
  runtime chooses: it is the parameter \<open>collate\<close>.
\<close>

section \<open>Helpers\<close>

definition assertNonEmptyString :: "jsval \<Rightarrow> string \<Rightarrow> string res" where
  "assertNonEmptyString value label =
     (let normalized = js_trim (str_or_empty value)
      in if normalized = [] then Inl (plain_err (label @ '' is required'')) else Inr normalized)"

definition assertRecord :: "jsval \<Rightarrow> string \<Rightarrow> unit res" where
  "assertRecord record label =
     (if is_plain_object record then Inr () else Inl (plain_err (label @ '' must be an object'')))"

text \<open>A positive integral number, or the default.\<close>

fun positive_int_or :: "int \<Rightarrow> jnum \<Rightarrow> int" where
  "positive_int_or d (Fin q) = (if of_int \<lfloor>q\<rfloor> = q \<and> 0 < q then \<lfloor>q\<rfloor> else d)"
| "positive_int_or d n = d"

definition normalizeVersion :: "jsval \<Rightarrow> int" where
  "normalizeVersion record = positive_int_or 1 (js_Number (getp record ''version''))"

definition normalizeListOptions :: "jsval \<Rightarrow> nat option \<times> string option" where
  "normalizeListOptions options =
     (if is_plain_object options then
        ((if js_isInteger (getp options ''limit'') \<and> num_less (Fin 0) (js_Number (getp options ''limit''))
          then Some (nat (positive_int_or 0 (js_Number (getp options ''limit'')))) else None),
         (if trimmed (getp options ''cursor'') \<noteq> [] then Some (trimmed (getp options ''cursor'')) else None))
      else (None, None))"

definition pairKeyFor :: "jsval \<Rightarrow> jsval \<Rightarrow> string res" where
  "pairKeyFor localAccountId peerAccountId =
     bind_r (assertNonEmptyString localAccountId ''localAccountId'') (\<lambda>a.
     bind_r (assertNonEmptyString peerAccountId ''peerAccountId'') (\<lambda>b.
     Inr (a @ ''::'' @ b)))"

definition lower_char :: "char \<Rightarrow> char" where
  "lower_char c =
     (let n = of_char c :: nat in
      if (65 \<le> n \<and> n \<le> 90) \<or> (192 \<le> n \<and> n \<le> 222 \<and> n \<noteq> 215) then char_of (n + 32) else c)"

definition isRecoverableStatus :: "jsval \<Rightarrow> bool" where
  "isRecoverableStatus status =
     (let normalized = map lower_char (js_trim (str_or_empty status))
      in normalized = [] \<or> normalized \<notin> {''closed'', ''revoked'', ''deleted''})"

definition isPendingStatus :: "jsval \<Rightarrow> bool" where
  "isPendingStatus status =
     (let normalized = map lower_char (js_trim (str_or_empty status))
      in normalized = [] \<or> normalized \<notin> {''completed'', ''failed'', ''revoked'', ''cancelled''})"

text \<open>\<open>String(left[f] || "").localeCompare(String(right[f] || ""))\<close>.\<close>

definition by_field :: "(string \<Rightarrow> string \<Rightarrow> bool) \<Rightarrow> string \<Rightarrow> jsval \<Rightarrow> jsval \<Rightarrow> bool" where
  "by_field collate f l r = collate (str_or_empty (getp l f)) (str_or_empty (getp r f))"

text \<open>\<open>typeof id === "string" && id\<close> on an index entry.\<close>

definition index_id :: "jsval \<Rightarrow> string option" where
  "index_id v = (case v of JStr s \<Rightarrow> if s = [] then None else Some s | _ \<Rightarrow> None)"

section \<open>The peer-link store\<close>

definition pl_recordKey :: "jsval \<Rightarrow> jsval \<Rightarrow> string res" where
  "pl_recordKey ownerAccountId peerLinkId =
     bind_r (assertNonEmptyString ownerAccountId ''ownerAccountId'') (\<lambda>owner.
     bind_r (assertNonEmptyString peerLinkId ''peerLinkId'') (\<lambda>normalized.
     Inr (''peer-link:records:'' @ owner @ ''::'' @ normalized)))"

definition pl_pairKey :: "jsval \<Rightarrow> jsval \<Rightarrow> string res" where
  "pl_pairKey ownerAccountId peerAccountId =
     bind_r (pairKeyFor ownerAccountId peerAccountId) (\<lambda>p. Inr (''peer-link:pairs:'' @ p))"

definition pl_getById :: "'w kv_ops \<Rightarrow> jsval \<Rightarrow> jsval \<Rightarrow> ('w, jsval) io" where
  "pl_getById K ownerAccountId peerLinkId =
     bindE (liftE (pl_recordKey ownerAccountId peerLinkId)) (\<lambda>key.
     bindE (kv_get K key) (\<lambda>stored. retE (cloneJsonValue stored)))"

definition pl_getByPair :: "'w kv_ops \<Rightarrow> jsval \<Rightarrow> jsval \<Rightarrow> ('w, jsval) io" where
  "pl_getByPair K ownerAccountId peerAccountId =
     bindE (liftE (pl_pairKey ownerAccountId peerAccountId)) (\<lambda>key.
     bindE (kv_get K key) (\<lambda>peerLinkId.
       case index_id peerLinkId of
         None \<Rightarrow> retE JUndef
       | Some i \<Rightarrow> pl_getById K ownerAccountId (JStr i)))"

definition pl_create :: "'w kv_ops \<Rightarrow> jsval \<Rightarrow> ('w, jsval) io" where
  "pl_create K record =
     bindE (liftE (assertRecord record ''peerLinkRecord'')) (\<lambda>_.
     bindE (liftE (assertNonEmptyString (getp record ''peerLinkId'') ''peerLinkId'')) (\<lambda>peerLinkId.
     bindE (liftE (assertNonEmptyString (getp record ''localAccountId'') ''localAccountId'')) (\<lambda>localAccountId.
     bindE (liftE (assertNonEmptyString (getp record ''peerAccountId'') ''peerAccountId'')) (\<lambda>peerAccountId.
     bindE (liftE (pl_recordKey (JStr localAccountId) (JStr peerLinkId))) (\<lambda>recordKey.
     bindE (kv_get K recordKey) (\<lambda>existing.
     bindE (requireE (existing = JUndef) (plain_err (''Peer link already exists for '' @ peerLinkId))) (\<lambda>_.
     bindE (liftE (pl_pairKey (JStr localAccountId) (JStr peerAccountId))) (\<lambda>pairIndexKey.
     bindE (kv_get K pairIndexKey) (\<lambda>indexed.
     bindE (requireE (case index_id indexed of None \<Rightarrow> True | Some i \<Rightarrow> i = peerLinkId)
              (plain_err (''Peer link already exists for pair '' @ localAccountId @ ''::'' @ peerAccountId))) (\<lambda>_.
     let nextRecord = set_prop ''version'' (JInt (normalizeVersion record)) (cloneJsonValue record) in
     bindE (kv_set K recordKey nextRecord) (\<lambda>_.
     bindE (kv_set K pairIndexKey (JStr peerLinkId)) (\<lambda>_.
     retE (cloneJsonValue nextRecord)))))))))))))"

text \<open>\<open>Number(expectedVersion)\<close> must be a positive integer.\<close>

definition expected_version :: "jsval \<Rightarrow> int res" where
  "expected_version v =
     (let n = positive_int_or 0 (js_Number v)
      in if n < 1 then Inl (plain_err ''expectedVersion must be a positive integer'') else Inr n)"

definition pl_update :: "'w kv_ops \<Rightarrow> jsval \<Rightarrow> jsval \<Rightarrow> ('w, jsval) io" where
  "pl_update K record expectedVersion =
     bindE (liftE (assertRecord record ''peerLinkRecord'')) (\<lambda>_.
     bindE (liftE (assertNonEmptyString (getp record ''peerLinkId'') ''peerLinkId'')) (\<lambda>peerLinkId.
     bindE (liftE (assertNonEmptyString (getp record ''localAccountId'') ''localAccountId'')) (\<lambda>localAccountId.
     bindE (liftE (assertNonEmptyString (getp record ''peerAccountId'') ''peerAccountId'')) (\<lambda>peerAccountId.
     bindE (liftE (pl_recordKey (JStr localAccountId) (JStr peerLinkId))) (\<lambda>recordKey.
     bindE (kv_get K recordKey) (\<lambda>current.
     bindE (requireE (current \<noteq> JUndef) (plain_err (''Peer link not found for '' @ peerLinkId))) (\<lambda>_.
     bindE (liftE (expected_version expectedVersion)) (\<lambda>normalizedExpectedVersion.
     let currentVersion = normalizeVersion current in
     bindE (requireE (currentVersion = normalizedExpectedVersion)
              (plain_err (''Peer link version mismatch for '' @ peerLinkId))) (\<lambda>_.
     bindE (requireE (getp current ''localAccountId'' = JStr localAccountId)
              (plain_err ''Peer link owner cannot change'')) (\<lambda>_.
     bindE (liftE (pairKeyFor (getp current ''localAccountId'') (getp current ''peerAccountId''))) (\<lambda>currentPair.
     bindE (liftE (pairKeyFor (JStr localAccountId) (JStr peerAccountId))) (\<lambda>nextPair.
     bindE (requireE (currentPair = nextPair) (plain_err ''Peer link account pair cannot change'')) (\<lambda>_.
     let nextRecord = set_prop ''version'' (JInt (currentVersion + 1)) (cloneJsonValue record) in
     bindE (kv_set K recordKey nextRecord) (\<lambda>_.
     bindE (liftE (pl_pairKey (JStr localAccountId) (JStr peerAccountId))) (\<lambda>pairKey.
     bindE (kv_set K pairKey (JStr peerLinkId)) (\<lambda>_.
     retE (cloneJsonValue nextRecord)))))))))))))))))"

text \<open>The scan the list operations share: every object under a key prefix that passes a test.\<close>

definition kv_scan :: "'w kv_ops \<Rightarrow> string \<Rightarrow> (jsval \<Rightarrow> bool) \<Rightarrow> ('w, jsval list) io" where
  "kv_scan K pfx keep =
     bindE (kv_keys K pfx) (\<lambda>keys.
     bindE (mapE (kv_get K) keys) (\<lambda>records.
     retE (map cloneJsonValue (filter (\<lambda>r. is_object r \<and> keep r) records))))"

definition pl_listByOwner :: "(string \<Rightarrow> string \<Rightarrow> bool) \<Rightarrow> 'w kv_ops \<Rightarrow> jsval \<Rightarrow> ('w, jsval list) io" where
  "pl_listByOwner collate K ownerAccountId =
     bindE (liftE (assertNonEmptyString ownerAccountId ''ownerAccountId'')) (\<lambda>owner.
     bindE (kv_scan K ''peer-link:records:'' (\<lambda>r. getp r ''localAccountId'' = JStr owner)) (\<lambda>out.
     retE (sort_by (by_field collate ''peerLinkId'') out)))"

section \<open>The secure-session store\<close>

definition ss_recordKey :: "jsval \<Rightarrow> jsval \<Rightarrow> string res" where
  "ss_recordKey ownerAccountId sessionId =
     bind_r (assertNonEmptyString ownerAccountId ''ownerAccountId'') (\<lambda>owner.
     bind_r (assertNonEmptyString sessionId ''sessionId'') (\<lambda>normalized.
     Inr (''peer-link:sessions:'' @ owner @ ''::'' @ normalized)))"

definition ss_indexKey :: "jsval \<Rightarrow> jsval \<Rightarrow> string res" where
  "ss_indexKey ownerAccountId peerLinkId =
     bind_r (assertNonEmptyString ownerAccountId ''ownerAccountId'') (\<lambda>owner.
     bind_r (assertNonEmptyString peerLinkId ''peerLinkId'') (\<lambda>normalized.
     Inr (''peer-link:sessions:by-peer-link:'' @ owner @ ''::'' @ normalized)))"

definition ss_deviceIndexKey :: "jsval \<Rightarrow> jsval \<Rightarrow> jsval \<Rightarrow> string res" where
  "ss_deviceIndexKey ownerAccountId peerLinkId peerDeviceId =
     bind_r (assertNonEmptyString ownerAccountId ''ownerAccountId'') (\<lambda>owner.
     bind_r (assertNonEmptyString peerLinkId ''peerLinkId'') (\<lambda>link.
     bind_r (assertNonEmptyString peerDeviceId ''peerDeviceId'') (\<lambda>device.
     Inr (''peer-link:sessions:by-peer-link-device:'' @ owner @ ''::'' @ link @ ''::'' @ device))))"

definition ss_getById :: "'w kv_ops \<Rightarrow> jsval \<Rightarrow> jsval \<Rightarrow> ('w, jsval) io" where
  "ss_getById K ownerAccountId sessionId =
     bindE (liftE (ss_recordKey ownerAccountId sessionId)) (\<lambda>key.
     bindE (kv_get K key) (\<lambda>stored. retE (cloneJsonValue stored)))"

definition ss_getByPeerLinkId :: "'w kv_ops \<Rightarrow> jsval \<Rightarrow> jsval \<Rightarrow> ('w, jsval) io" where
  "ss_getByPeerLinkId K ownerAccountId peerLinkId =
     bindE (liftE (ss_indexKey ownerAccountId peerLinkId)) (\<lambda>key.
     bindE (kv_get K key) (\<lambda>sessionId.
       case index_id sessionId of
         None \<Rightarrow> retE JUndef
       | Some i \<Rightarrow> ss_getById K ownerAccountId (JStr i)))"

definition ss_getByPeerLinkAndDevice :: "'w kv_ops \<Rightarrow> jsval \<Rightarrow> jsval \<Rightarrow> jsval \<Rightarrow> ('w, jsval) io" where
  "ss_getByPeerLinkAndDevice K ownerAccountId peerLinkId peerDeviceId =
     bindE (liftE (ss_deviceIndexKey ownerAccountId peerLinkId peerDeviceId)) (\<lambda>key.
     bindE (kv_get K key) (\<lambda>sessionId.
       case index_id sessionId of
         None \<Rightarrow> retE JUndef
       | Some i \<Rightarrow> ss_getById K ownerAccountId (JStr i)))"

definition ss_listByPeerLink ::
  "(string \<Rightarrow> string \<Rightarrow> bool) \<Rightarrow> 'w kv_ops \<Rightarrow> jsval \<Rightarrow> jsval \<Rightarrow> ('w, jsval list) io" where
  "ss_listByPeerLink collate K ownerAccountId peerLinkId =
     bindE (liftE (assertNonEmptyString ownerAccountId ''ownerAccountId'')) (\<lambda>owner.
     bindE (liftE (assertNonEmptyString peerLinkId ''peerLinkId'')) (\<lambda>link.
     bindE (kv_scan K ''peer-link:sessions:''
              (\<lambda>r. getp r ''localAccountId'' = JStr owner \<and> getp r ''peerLinkId'' = JStr link
                  \<and> trimmed (getp r ''peerDeviceId'') \<noteq> [])) (\<lambda>out.
     retE (sort_by (by_field collate ''peerDeviceId'') out))))"

definition ss_put :: "'w kv_ops \<Rightarrow> jsval \<Rightarrow> ('w, jsval) io" where
  "ss_put K record =
     bindE (liftE (assertRecord record ''secureSessionRecord'')) (\<lambda>_.
     bindE (liftE (assertNonEmptyString (getp record ''sessionId'') ''sessionId'')) (\<lambda>sessionId.
     bindE (liftE (assertNonEmptyString (getp record ''localAccountId'') ''localAccountId'')) (\<lambda>ownerAccountId.
     bindE (liftE (assertNonEmptyString (getp record ''peerLinkId'') ''peerLinkId'')) (\<lambda>peerLinkId.
     let peerDeviceId = trimmed (getp record ''peerDeviceId'') in
     bindE (liftE (ss_recordKey (JStr ownerAccountId) (JStr sessionId))) (\<lambda>recordKey.
     bindE (kv_get K recordKey) (\<lambda>existing.
     let nextRecord = set_prop ''version''
           (JInt (if is_object existing then normalizeVersion existing + 1 else normalizeVersion record))
           (cloneJsonValue record) in
     bindE (kv_set K recordKey nextRecord) (\<lambda>_.
     bindE (if peerDeviceId \<noteq> []
            then bindE (liftE (ss_deviceIndexKey (JStr ownerAccountId) (JStr peerLinkId) (JStr peerDeviceId)))
                   (\<lambda>indexKey. kv_set K indexKey (JStr sessionId))
            else bindE (liftE (ss_indexKey (JStr ownerAccountId) (JStr peerLinkId)))
                   (\<lambda>indexKey. kv_set K indexKey (JStr sessionId))) (\<lambda>_.
     retE (cloneJsonValue nextRecord)))))))))"

definition ss_delete :: "'w kv_ops \<Rightarrow> jsval \<Rightarrow> jsval \<Rightarrow> ('w, bool) io" where
  "ss_delete K ownerAccountId sessionId =
     bindE (liftE (assertNonEmptyString ownerAccountId ''ownerAccountId'')) (\<lambda>owner.
     bindE (liftE (assertNonEmptyString sessionId ''sessionId'')) (\<lambda>normalizedSessionId.
     bindE (liftE (ss_recordKey (JStr owner) (JStr normalizedSessionId))) (\<lambda>recordKey.
     bindE (kv_get K recordKey) (\<lambda>existing.
     bindE (kv_delete K recordKey) (\<lambda>removed.
     if \<not> removed then retE False
     else if is_object existing \<and> index_id (getp existing ''peerLinkId'') \<noteq> None then
       bindE (liftE (let dev = trimmed (getp existing ''peerDeviceId'') in
                if dev \<noteq> [] then ss_deviceIndexKey (JStr owner) (getp existing ''peerLinkId'') (JStr dev)
                else ss_indexKey (JStr owner) (getp existing ''peerLinkId''))) (\<lambda>indexKey.
       bindE (kv_get K indexKey) (\<lambda>indexedSessionId.
       if indexedSessionId = JStr normalizedSessionId
       then bindE (kv_delete K indexKey) (\<lambda>_. retE True)
       else retE True))
     else retE True)))))"

text \<open>\<open>typeof r[f] === "string" && r[f] ? r[f] : r[g]\<close>.\<close>

definition owner_field :: "string \<Rightarrow> string \<Rightarrow> jsval \<Rightarrow> jsval" where
  "owner_field f g r = (case index_id (getp r f) of Some s \<Rightarrow> JStr s | None \<Rightarrow> getp r g)"

definition ss_listRecoverable ::
  "(string \<Rightarrow> string \<Rightarrow> bool) \<Rightarrow> 'w kv_ops \<Rightarrow> jsval \<Rightarrow> ('w, jsval list) io" where
  "ss_listRecoverable collate K ownerAccountId =
     bindE (liftE (assertNonEmptyString ownerAccountId ''ownerAccountId'')) (\<lambda>owner.
     bindE (kv_scan K ''peer-link:sessions:''
              (\<lambda>r. owner_field ''localAccountId'' ''ownerAccountId'' r = JStr owner
                  \<and> isRecoverableStatus (getp r ''status''))) (\<lambda>out.
     retE (sort_by (by_field collate ''sessionId'') out)))"

section \<open>The handshake-attempt store\<close>

definition ha_recordKey :: "jsval \<Rightarrow> jsval \<Rightarrow> string res" where
  "ha_recordKey ownerAccountId handshakeAttemptId =
     bind_r (assertNonEmptyString ownerAccountId ''ownerAccountId'') (\<lambda>owner.
     bind_r (assertNonEmptyString handshakeAttemptId ''handshakeAttemptId'') (\<lambda>normalized.
     Inr (''peer-link:handshakes:'' @ owner @ ''::'' @ normalized)))"

definition ha_getById :: "'w kv_ops \<Rightarrow> jsval \<Rightarrow> jsval \<Rightarrow> ('w, jsval) io" where
  "ha_getById K ownerAccountId handshakeAttemptId =
     bindE (liftE (ha_recordKey ownerAccountId handshakeAttemptId)) (\<lambda>key.
     bindE (kv_get K key) (\<lambda>stored. retE (cloneJsonValue stored)))"

definition ha_create :: "'w kv_ops \<Rightarrow> jsval \<Rightarrow> ('w, jsval) io" where
  "ha_create K record =
     bindE (liftE (assertRecord record ''handshakeAttemptRecord'')) (\<lambda>_.
     bindE (liftE (assertNonEmptyString (getp record ''handshakeAttemptId'') ''handshakeAttemptId'')) (\<lambda>handshakeAttemptId.
     bindE (liftE (assertNonEmptyString (getp record ''ownerAccountId'') ''ownerAccountId'')) (\<lambda>ownerAccountId.
     bindE (liftE (ha_recordKey (JStr ownerAccountId) (JStr handshakeAttemptId))) (\<lambda>recordKey.
     bindE (kv_get K recordKey) (\<lambda>existing.
     bindE (requireE (existing = JUndef)
              (plain_err (''Handshake attempt already exists for '' @ handshakeAttemptId))) (\<lambda>_.
     let nextRecord = set_prop ''version'' (JInt (normalizeVersion record)) (cloneJsonValue record) in
     bindE (kv_set K recordKey nextRecord) (\<lambda>_.
     retE (cloneJsonValue nextRecord))))))))"

definition ha_update :: "'w kv_ops \<Rightarrow> jsval \<Rightarrow> jsval \<Rightarrow> ('w, jsval) io" where
  "ha_update K record expectedVersion =
     bindE (liftE (assertRecord record ''handshakeAttemptRecord'')) (\<lambda>_.
     bindE (liftE (assertNonEmptyString (getp record ''handshakeAttemptId'') ''handshakeAttemptId'')) (\<lambda>handshakeAttemptId.
     bindE (liftE (assertNonEmptyString (getp record ''ownerAccountId'') ''ownerAccountId'')) (\<lambda>ownerAccountId.
     bindE (liftE (ha_recordKey (JStr ownerAccountId) (JStr handshakeAttemptId))) (\<lambda>recordKey.
     bindE (kv_get K recordKey) (\<lambda>current.
     bindE (requireE (current \<noteq> JUndef)
              (plain_err (''Handshake attempt not found for '' @ handshakeAttemptId))) (\<lambda>_.
     bindE (liftE (expected_version expectedVersion)) (\<lambda>normalizedExpectedVersion.
     let currentVersion = normalizeVersion current in
     bindE (requireE (currentVersion = normalizedExpectedVersion)
              (plain_err (''Handshake attempt version mismatch for '' @ handshakeAttemptId))) (\<lambda>_.
     let nextRecord = set_prop ''version'' (JInt (currentVersion + 1)) (cloneJsonValue record) in
     bindE (kv_set K recordKey nextRecord) (\<lambda>_.
     retE (cloneJsonValue nextRecord))))))))))"

definition ha_listByPeerLinkId ::
  "(string \<Rightarrow> string \<Rightarrow> bool) \<Rightarrow> 'w kv_ops \<Rightarrow> jsval \<Rightarrow> jsval \<Rightarrow> ('w, jsval list) io" where
  "ha_listByPeerLinkId collate K ownerAccountId peerLinkId =
     bindE (liftE (assertNonEmptyString ownerAccountId ''ownerAccountId'')) (\<lambda>owner.
     bindE (liftE (assertNonEmptyString peerLinkId ''peerLinkId'')) (\<lambda>link.
     bindE (kv_scan K ''peer-link:handshakes:''
              (\<lambda>r. getp r ''ownerAccountId'' = JStr owner \<and> getp r ''peerLinkId'' = JStr link)) (\<lambda>out.
     retE (sort_by (by_field collate ''handshakeAttemptId'') out))))"

definition ha_listPending ::
  "(string \<Rightarrow> string \<Rightarrow> bool) \<Rightarrow> 'w kv_ops \<Rightarrow> jsval \<Rightarrow> ('w, jsval list) io" where
  "ha_listPending collate K ownerAccountId =
     bindE (liftE (assertNonEmptyString ownerAccountId ''ownerAccountId'')) (\<lambda>owner.
     bindE (kv_scan K ''peer-link:handshakes:''
              (\<lambda>r. owner_field ''ownerAccountId'' ''localAccountId'' r = JStr owner
                  \<and> isPendingStatus (getp r ''status''))) (\<lambda>out.
     retE (sort_by (by_field collate ''handshakeAttemptId'') out)))"

section \<open>The event store\<close>

definition ev_recordKey :: "jsval \<Rightarrow> jsval \<Rightarrow> string res" where
  "ev_recordKey ownerAccountId eventId =
     bind_r (assertNonEmptyString ownerAccountId ''ownerAccountId'') (\<lambda>owner.
     bind_r (assertNonEmptyString eventId ''eventId'') (\<lambda>normalized.
     Inr (''peer-link:events:'' @ owner @ ''::'' @ normalized)))"

definition ev_indexKey :: "jsval \<Rightarrow> jsval \<Rightarrow> string res" where
  "ev_indexKey ownerAccountId peerLinkId =
     bind_r (assertNonEmptyString ownerAccountId ''ownerAccountId'') (\<lambda>owner.
     bind_r (assertNonEmptyString peerLinkId ''peerLinkId'') (\<lambda>normalized.
     Inr (''peer-link:events:index:'' @ owner @ ''::'' @ normalized)))"

text \<open>\<open>Array.isArray(index) ? index.slice() : []\<close>.\<close>

definition index_list :: "jsval \<Rightarrow> jsval list" where
  "index_list v = (case v of JArr xs \<Rightarrow> xs | _ \<Rightarrow> [])"

definition ev_append :: "'w kv_ops \<Rightarrow> jsval \<Rightarrow> ('w, jsval) io" where
  "ev_append K eventRecord =
     bindE (liftE (assertRecord eventRecord ''peerLinkEventRecord'')) (\<lambda>_.
     bindE (liftE (assertNonEmptyString (getp eventRecord ''ownerAccountId'') ''ownerAccountId'')) (\<lambda>ownerAccountId.
     bindE (liftE (assertNonEmptyString (getp eventRecord ''eventId'') ''eventId'')) (\<lambda>eventId.
     bindE (liftE (assertNonEmptyString (getp eventRecord ''peerLinkId'') ''peerLinkId'')) (\<lambda>peerLinkId.
     bindE (liftE (ev_recordKey (JStr ownerAccountId) (JStr eventId))) (\<lambda>recordKey.
     bindE (kv_get K recordKey) (\<lambda>existing.
     if existing \<noteq> JUndef then
       (if is_object existing \<and> getp existing ''peerLinkId'' = JStr peerLinkId
        then retE (cloneJsonValue existing)
        else throwE (plain_err (''Peer link event already exists for '' @ eventId)))
     else
       let nextRecord = cloneJsonValue eventRecord in
       bindE (kv_set K recordKey nextRecord) (\<lambda>_.
       bindE (liftE (ev_indexKey (JStr ownerAccountId) (JStr peerLinkId))) (\<lambda>indexKey.
       bindE (kv_get K indexKey) (\<lambda>index.
       bindE (kv_set K indexKey (JArr (index_list index @ [JStr eventId]))) (\<lambda>_.
       retE (cloneJsonValue nextRecord)))))))))))"

text \<open>\<open>ids.indexOf(x)\<close>, with \<open>None\<close> for \<open>-1\<close>.\<close>

fun index_of :: "jsval \<Rightarrow> jsval list \<Rightarrow> nat option" where
  "index_of x [] = None"
| "index_of x (y # ys) = (if js_eq x y then Some 0 else map_option Suc (index_of x ys))"

definition window_start :: "string option \<Rightarrow> jsval list \<Rightarrow> nat" where
  "window_start cursor ids =
     (case cursor of
        None \<Rightarrow> 0
      | Some c \<Rightarrow> (case index_of (JStr c) ids of None \<Rightarrow> 0 | Some i \<Rightarrow> i + 1))"

definition window_ids :: "nat option \<Rightarrow> nat \<Rightarrow> jsval list \<Rightarrow> jsval list" where
  "window_ids limit start ids =
     (case limit of Some l \<Rightarrow> take l (drop start ids) | None \<Rightarrow> drop start ids)"

definition ev_listByPeerLinkId ::
  "'w kv_ops \<Rightarrow> jsval \<Rightarrow> jsval \<Rightarrow> jsval \<Rightarrow> ('w, jsval list \<times> string option) io" where
  "ev_listByPeerLinkId K ownerAccountId peerLinkId options =
     bindE (liftE (assertNonEmptyString ownerAccountId ''ownerAccountId'')) (\<lambda>owner.
     bindE (liftE (assertNonEmptyString peerLinkId ''peerLinkId'')) (\<lambda>link.
     let (limit, cursor) = normalizeListOptions options in
     bindE (liftE (ev_indexKey (JStr owner) (JStr link))) (\<lambda>indexKey.
     bindE (kv_get K indexKey) (\<lambda>index.
     let ids = index_list index; start = window_start cursor ids in
     bindE (mapE (\<lambda>eventId. bindE (liftE (ev_recordKey (JStr owner) eventId)) (kv_get K))
              (window_ids limit start ids)) (\<lambda>records.
     let items = map cloneJsonValue (filter (\<lambda>r. r \<noteq> JUndef) records) in
     retE (items,
       (case limit of
          Some l \<Rightarrow> if start + l < length ids \<and> items \<noteq> []
                    then Some (str_or_empty (getp (last items) ''eventId'')) else None
        | None \<Rightarrow> None)))))))"

section \<open>The key-material store\<close>

definition km_identityKey :: "jsval \<Rightarrow> string res" where
  "km_identityKey accountId =
     bind_r (assertNonEmptyString accountId ''accountId'') (\<lambda>n. Inr (''peer-link:keys:identity:'' @ n))"

definition km_deviceIdentityKey :: "jsval \<Rightarrow> jsval \<Rightarrow> string res" where
  "km_deviceIdentityKey accountId deviceId =
     bind_r (assertNonEmptyString accountId ''accountId'') (\<lambda>owner.
     bind_r (assertNonEmptyString deviceId ''deviceId'') (\<lambda>device.
     Inr (''peer-link:keys:device:'' @ owner @ ''::'' @ device)))"

definition km_invitePreKey :: "jsval \<Rightarrow> jsval \<Rightarrow> string res" where
  "km_invitePreKey ownerAccountId inviteId =
     bind_r (assertNonEmptyString ownerAccountId ''ownerAccountId'') (\<lambda>owner.
     bind_r (assertNonEmptyString inviteId ''inviteId'') (\<lambda>normalized.
     Inr (''peer-link:keys:invite:'' @ owner @ ''::'' @ normalized)))"

definition km_devicePreKey :: "jsval \<Rightarrow> jsval \<Rightarrow> string res" where
  "km_devicePreKey ownerAccountId peerAccountId =
     bind_r (assertNonEmptyString ownerAccountId ''ownerAccountId'') (\<lambda>owner.
     bind_r (assertNonEmptyString peerAccountId ''peerAccountId'') (\<lambda>peer.
     Inr (''peer-link:keys:device-prekey:'' @ owner @ ''::'' @ peer)))"

text \<open>The read, write and delete the four kinds of material share.\<close>

definition km_get :: "'w kv_ops \<Rightarrow> string res \<Rightarrow> ('w, jsval) io" where
  "km_get K key = bindE (liftE key) (\<lambda>k. bindE (kv_get K k) (\<lambda>stored. retE (cloneJsonValue stored)))"

definition km_put :: "'w kv_ops \<Rightarrow> string res \<Rightarrow> jsval \<Rightarrow> ('w, jsval) io" where
  "km_put K key material =
     bindE (requireE (material \<noteq> JUndef) (plain_err ''material is required'')) (\<lambda>_.
     let nextMaterial = cloneJsonValue material in
     bindE (liftE key) (\<lambda>k.
     bindE (kv_set K k nextMaterial) (\<lambda>_.
     retE (cloneJsonValue nextMaterial))))"

definition km_del :: "'w kv_ops \<Rightarrow> string res \<Rightarrow> ('w, bool) io" where
  "km_del K key = bindE (liftE key) (kv_delete K)"

definition getAccountIdentity :: "'w kv_ops \<Rightarrow> jsval \<Rightarrow> ('w, jsval) io" where
  "getAccountIdentity K accountId = km_get K (km_identityKey accountId)"

definition putAccountIdentity :: "'w kv_ops \<Rightarrow> jsval \<Rightarrow> jsval \<Rightarrow> ('w, jsval) io" where
  "putAccountIdentity K accountId material = km_put K (km_identityKey accountId) material"

definition getDeviceIdentity :: "'w kv_ops \<Rightarrow> jsval \<Rightarrow> jsval \<Rightarrow> ('w, jsval) io" where
  "getDeviceIdentity K accountId deviceId = km_get K (km_deviceIdentityKey accountId deviceId)"

definition putDeviceIdentity :: "'w kv_ops \<Rightarrow> jsval \<Rightarrow> jsval \<Rightarrow> jsval \<Rightarrow> ('w, jsval) io" where
  "putDeviceIdentity K accountId deviceId material =
     km_put K (km_deviceIdentityKey accountId deviceId) material"

definition getInvitePreKey :: "'w kv_ops \<Rightarrow> jsval \<Rightarrow> jsval \<Rightarrow> ('w, jsval) io" where
  "getInvitePreKey K ownerAccountId inviteId = km_get K (km_invitePreKey ownerAccountId inviteId)"

definition putInvitePreKey :: "'w kv_ops \<Rightarrow> jsval \<Rightarrow> jsval \<Rightarrow> jsval \<Rightarrow> ('w, jsval) io" where
  "putInvitePreKey K ownerAccountId inviteId material =
     km_put K (km_invitePreKey ownerAccountId inviteId) material"

definition deleteInvitePreKey :: "'w kv_ops \<Rightarrow> jsval \<Rightarrow> jsval \<Rightarrow> ('w, bool) io" where
  "deleteInvitePreKey K ownerAccountId inviteId = km_del K (km_invitePreKey ownerAccountId inviteId)"

definition getDevicePreKey :: "'w kv_ops \<Rightarrow> jsval \<Rightarrow> jsval \<Rightarrow> ('w, jsval) io" where
  "getDevicePreKey K ownerAccountId peerAccountId = km_get K (km_devicePreKey ownerAccountId peerAccountId)"

definition putDevicePreKey :: "'w kv_ops \<Rightarrow> jsval \<Rightarrow> jsval \<Rightarrow> jsval \<Rightarrow> ('w, jsval) io" where
  "putDevicePreKey K ownerAccountId peerAccountId material =
     km_put K (km_devicePreKey ownerAccountId peerAccountId) material"

definition deleteDevicePreKey :: "'w kv_ops \<Rightarrow> jsval \<Rightarrow> jsval \<Rightarrow> ('w, bool) io" where
  "deleteDevicePreKey K ownerAccountId peerAccountId = km_del K (km_devicePreKey ownerAccountId peerAccountId)"

section \<open>The bundle\<close>

record 'w pl_storage =
  peerLinks_getById :: "jsval \<Rightarrow> jsval \<Rightarrow> ('w, jsval) io"
  peerLinks_getByPair :: "jsval \<Rightarrow> jsval \<Rightarrow> ('w, jsval) io"
  peerLinks_create :: "jsval \<Rightarrow> ('w, jsval) io"
  peerLinks_update :: "jsval \<Rightarrow> jsval \<Rightarrow> ('w, jsval) io"
  peerLinks_listByOwner :: "jsval \<Rightarrow> ('w, jsval list) io"
  sessions_getById :: "jsval \<Rightarrow> jsval \<Rightarrow> ('w, jsval) io"
  sessions_getByPeerLinkId :: "jsval \<Rightarrow> jsval \<Rightarrow> ('w, jsval) io"
  sessions_getByPeerLinkAndDevice :: "jsval \<Rightarrow> jsval \<Rightarrow> jsval \<Rightarrow> ('w, jsval) io"
  sessions_listByPeerLink :: "jsval \<Rightarrow> jsval \<Rightarrow> ('w, jsval list) io"
  sessions_put :: "jsval \<Rightarrow> ('w, jsval) io"
  sessions_delete :: "jsval \<Rightarrow> jsval \<Rightarrow> ('w, bool) io"
  sessions_listRecoverable :: "jsval \<Rightarrow> ('w, jsval list) io"
  handshakeAttempts_getById :: "jsval \<Rightarrow> jsval \<Rightarrow> ('w, jsval) io"
  handshakeAttempts_create :: "jsval \<Rightarrow> ('w, jsval) io"
  handshakeAttempts_update :: "jsval \<Rightarrow> jsval \<Rightarrow> ('w, jsval) io"
  handshakeAttempts_listByPeerLinkId :: "jsval \<Rightarrow> jsval \<Rightarrow> ('w, jsval list) io"
  handshakeAttempts_listPending :: "jsval \<Rightarrow> ('w, jsval list) io"
  events_append :: "jsval \<Rightarrow> ('w, jsval) io"
  events_listByPeerLinkId :: "jsval \<Rightarrow> jsval \<Rightarrow> jsval \<Rightarrow> ('w, jsval list \<times> string option) io"
  keys_getAccountIdentity :: "jsval \<Rightarrow> ('w, jsval) io"
  keys_putAccountIdentity :: "jsval \<Rightarrow> jsval \<Rightarrow> ('w, jsval) io"
  keys_getDeviceIdentity :: "jsval \<Rightarrow> jsval \<Rightarrow> ('w, jsval) io"
  keys_putDeviceIdentity :: "jsval \<Rightarrow> jsval \<Rightarrow> jsval \<Rightarrow> ('w, jsval) io"
  keys_getInvitePreKey :: "jsval \<Rightarrow> jsval \<Rightarrow> ('w, jsval) io"
  keys_putInvitePreKey :: "jsval \<Rightarrow> jsval \<Rightarrow> jsval \<Rightarrow> ('w, jsval) io"
  keys_deleteInvitePreKey :: "jsval \<Rightarrow> jsval \<Rightarrow> ('w, bool) io"
  keys_getDevicePreKey :: "jsval \<Rightarrow> jsval \<Rightarrow> ('w, jsval) io"
  keys_putDevicePreKey :: "jsval \<Rightarrow> jsval \<Rightarrow> jsval \<Rightarrow> ('w, jsval) io"
  keys_deleteDevicePreKey :: "jsval \<Rightarrow> jsval \<Rightarrow> ('w, bool) io"

definition createKeyValueBackedPeerLinkStorage ::
  "(string \<Rightarrow> string \<Rightarrow> bool) \<Rightarrow> 'w kv_ops \<Rightarrow> 'w pl_storage" where
  "createKeyValueBackedPeerLinkStorage collate keyValueStore =
     (let normalized = absenceNormalizingStore keyValueStore in
      \<lparr>peerLinks_getById = pl_getById normalized,
       peerLinks_getByPair = pl_getByPair normalized,
       peerLinks_create = pl_create normalized,
       peerLinks_update = pl_update normalized,
       peerLinks_listByOwner = pl_listByOwner collate normalized,
       sessions_getById = ss_getById normalized,
       sessions_getByPeerLinkId = ss_getByPeerLinkId normalized,
       sessions_getByPeerLinkAndDevice = ss_getByPeerLinkAndDevice normalized,
       sessions_listByPeerLink = ss_listByPeerLink collate normalized,
       sessions_put = ss_put normalized,
       sessions_delete = ss_delete normalized,
       sessions_listRecoverable = ss_listRecoverable collate normalized,
       handshakeAttempts_getById = ha_getById normalized,
       handshakeAttempts_create = ha_create normalized,
       handshakeAttempts_update = ha_update normalized,
       handshakeAttempts_listByPeerLinkId = ha_listByPeerLinkId collate normalized,
       handshakeAttempts_listPending = ha_listPending collate normalized,
       events_append = ev_append normalized,
       events_listByPeerLinkId = ev_listByPeerLinkId normalized,
       keys_getAccountIdentity = getAccountIdentity normalized,
       keys_putAccountIdentity = putAccountIdentity normalized,
       keys_getDeviceIdentity = getDeviceIdentity normalized,
       keys_putDeviceIdentity = putDeviceIdentity normalized,
       keys_getInvitePreKey = getInvitePreKey normalized,
       keys_putInvitePreKey = putInvitePreKey normalized,
       keys_deleteInvitePreKey = deleteInvitePreKey normalized,
       keys_getDevicePreKey = getDevicePreKey normalized,
       keys_putDevicePreKey = putDevicePreKey normalized,
       keys_deleteDevicePreKey = deleteDevicePreKey normalized\<rparr>)"

end
