(* ===== verification/E2ee_Env.thy ===== *)
theory E2ee_Env
  imports PeerLink_Storage "HOL-Library.Word"
begin

text \<open>
  The environment of the peer-link services. \<open>e2ee_env\<close> collects what the services are
  given: the peer-link storage, the clock and the random ids of the runtime, and the
  primitives of the protocol library \<open>@rezprotocol/core\<close> they call (the id checks, the
  canonical JSON, the secure channel manager, the packet codec and X3DH). None of these is
  code of this repository, so every one of them is an arbitrary function here, and every
  theorem over an environment holds whatever they do.

  \<open>traced\<close> instruments an environment: it behaves the same and records every write and
  every read-back of a session, so that theorems can speak about the order of effects.
\<close>

type_synonym bytes = "8 word list"

record key_pair =
  kp_public :: bytes
  kp_private :: bytes

text \<open>What \<open>E2eePacketCodec.decryptIncoming\<close> answers; an absent \<open>peerId\<close> is empty.\<close>

record decrypt_result =
  dr_encrypted :: bool
  dr_peerId :: string
  dr_handshake :: bool
  dr_plaintext :: bytes

record ('w, 'm) e2ee_env =
  storage :: "'w pl_storage"
  clock :: "('w, int) io"
  runtimeUuid :: "('w, string) io"
  sha256Hex :: "string \<Rightarrow> string"
  requireId :: "jsval \<Rightarrow> string \<Rightarrow> string res"
  nonEmpty :: "jsval \<Rightarrow> jsval"
  canonicalJSON :: "jsval \<Rightarrow> string"
  newManager :: 'm
  importSnapshot :: "jsval \<Rightarrow> 'm \<Rightarrow> 'm res"
  exportSnapshot :: "'m \<Rightarrow> jsval"
  encryptForPeer :: "'m \<Rightarrow> jsval \<Rightarrow> bytes \<Rightarrow> ('w, bytes \<times> 'm) io"
  decryptIncoming :: "'m \<Rightarrow> bytes \<Rightarrow> ('w, decrypt_result \<times> 'm) io"
  signBytes :: "bytes \<Rightarrow> bytes \<Rightarrow> ('w, bytes) io"
  prepareInviteBinding :: "'m \<Rightarrow> jsval \<Rightarrow> key_pair \<Rightarrow> key_pair \<Rightarrow> ('w, jsval \<times> jsval) io"
  processAcceptedInvite ::
    "'m \<Rightarrow> jsval \<Rightarrow> jsval \<Rightarrow> key_pair \<Rightarrow> key_pair \<Rightarrow> bytes \<Rightarrow> ('w, jsval \<times> 'm) io"
  completeInviteHandshake :: "'m \<Rightarrow> jsval \<Rightarrow> bytes \<Rightarrow> jsval \<Rightarrow> jsval \<Rightarrow> ('w, bytes option \<times> 'm) io"
  deviceIdFor :: "bytes \<Rightarrow> string"

text \<open>\<open>this.#scm(snapshot)\<close> and \<open>_createSecureChannelManager\<close>: a fresh manager that imports
  the snapshot when there is one.\<close>

definition scm :: "('w, 'm) e2ee_env \<Rightarrow> jsval \<Rightarrow> 'm res" where
  "scm E snapshot = (if is_object snapshot then importSnapshot E snapshot (newManager E) else Inr (newManager E))"

definition asPositiveInt :: "jsval \<Rightarrow> int \<Rightarrow> int" where
  "asPositiveInt v fallback = (let num = positive_int_or 0 (js_Number v) in if num < 1 then fallback else num)"

text \<open>The time is that of the injected clock; the code reads \<open>Date.now()\<close> itself. Nothing is shown about
  the digits of the identifier.\<close>

definition stableId :: "('w, 'm) e2ee_env \<Rightarrow> string \<Rightarrow> ('w, string) io" where
  "stableId E pfx =
     bindE (clock E) (\<lambda>now.
     bindE (runtimeUuid E) (\<lambda>uuid.
     let digest = sha256Hex E (js_String (JInt now) @ '':'' @ uuid @ '':'' @ pfx)
     in retE (pfx @ ''_'' @ take 24 digest)))"

section \<open>The trace\<close>

datatype st_event =
    PutOk jsval
  | PutErr jsval
  | ReadSession jsval jsval jsval
  | ReadDevice jsval jsval jsval jsval
  | UpdateOk jsval
  | UpdateErr jsval
  | AppendOk jsval
  | AppendErr jsval

definition quiet :: "('w, 'a) io \<Rightarrow> ('w \<times> st_event list, 'a) io" where
  "quiet m = (\<lambda>(w, t). case m w of (r, w') \<Rightarrow> (r, (w', t)))"

definition noted :: "(js_err + 'a \<Rightarrow> st_event list) \<Rightarrow> ('w, 'a) io \<Rightarrow> ('w \<times> st_event list, 'a) io" where
  "noted ev m = (\<lambda>(w, t). case m w of (r, w') \<Rightarrow> (r, (w', t @ ev r)))"

definition ok_or :: "(jsval \<Rightarrow> st_event) \<Rightarrow> (jsval \<Rightarrow> st_event) \<Rightarrow> jsval \<Rightarrow> js_err + 'a \<Rightarrow> st_event list" where
  "ok_or f g x r = [case r of Inl _ \<Rightarrow> g x | Inr _ \<Rightarrow> f x]"

definition traced_storage :: "'w pl_storage \<Rightarrow> ('w \<times> st_event list) pl_storage" where
  "traced_storage S =
     \<lparr>peerLinks_getById = (\<lambda>a b. quiet (peerLinks_getById S a b)),
      peerLinks_getByPair = (\<lambda>a b. quiet (peerLinks_getByPair S a b)),
      peerLinks_create = (\<lambda>a. quiet (peerLinks_create S a)),
      peerLinks_update = (\<lambda>a b. noted (ok_or UpdateOk UpdateErr a) (peerLinks_update S a b)),
      peerLinks_listByOwner = (\<lambda>a. quiet (peerLinks_listByOwner S a)),
      sessions_getById = (\<lambda>a b. noted (\<lambda>r. case r of Inl _ \<Rightarrow> [] | Inr v \<Rightarrow> [ReadSession a b v])
         (sessions_getById S a b)),
      sessions_getByPeerLinkId = (\<lambda>a b. quiet (sessions_getByPeerLinkId S a b)),
      sessions_getByPeerLinkAndDevice = (\<lambda>a b c.
         noted (\<lambda>r. case r of Inl _ \<Rightarrow> [] | Inr v \<Rightarrow> [ReadDevice a b c v]) (sessions_getByPeerLinkAndDevice S a b c)),
      sessions_listByPeerLink = (\<lambda>a b. quiet (sessions_listByPeerLink S a b)),
      sessions_put = (\<lambda>a. noted (ok_or PutOk PutErr a) (sessions_put S a)),
      sessions_delete = (\<lambda>a b. quiet (sessions_delete S a b)),
      sessions_listRecoverable = (\<lambda>a. quiet (sessions_listRecoverable S a)),
      handshakeAttempts_getById = (\<lambda>a b. quiet (handshakeAttempts_getById S a b)),
      handshakeAttempts_create = (\<lambda>a. quiet (handshakeAttempts_create S a)),
      handshakeAttempts_update = (\<lambda>a b. quiet (handshakeAttempts_update S a b)),
      handshakeAttempts_listByPeerLinkId = (\<lambda>a b. quiet (handshakeAttempts_listByPeerLinkId S a b)),
      handshakeAttempts_listPending = (\<lambda>a. quiet (handshakeAttempts_listPending S a)),
      events_append = (\<lambda>a. noted (ok_or AppendOk AppendErr a) (events_append S a)),
      events_listByPeerLinkId = (\<lambda>a b c. quiet (events_listByPeerLinkId S a b c)),
      keys_getAccountIdentity = (\<lambda>a. quiet (keys_getAccountIdentity S a)),
      keys_putAccountIdentity = (\<lambda>a b. quiet (keys_putAccountIdentity S a b)),
      keys_getDeviceIdentity = (\<lambda>a b. quiet (keys_getDeviceIdentity S a b)),
      keys_putDeviceIdentity = (\<lambda>a b c. quiet (keys_putDeviceIdentity S a b c)),
      keys_getInvitePreKey = (\<lambda>a b. quiet (keys_getInvitePreKey S a b)),
      keys_putInvitePreKey = (\<lambda>a b c. quiet (keys_putInvitePreKey S a b c)),
      keys_deleteInvitePreKey = (\<lambda>a b. quiet (keys_deleteInvitePreKey S a b)),
      keys_getDevicePreKey = (\<lambda>a b. quiet (keys_getDevicePreKey S a b)),
      keys_putDevicePreKey = (\<lambda>a b c. quiet (keys_putDevicePreKey S a b c)),
      keys_deleteDevicePreKey = (\<lambda>a b. quiet (keys_deleteDevicePreKey S a b))\<rparr>"

definition traced :: "('w, 'm) e2ee_env \<Rightarrow> ('w \<times> st_event list, 'm) e2ee_env" where
  "traced E =
     \<lparr>storage = traced_storage (storage E),
      clock = quiet (clock E), runtimeUuid = quiet (runtimeUuid E), sha256Hex = sha256Hex E,
      requireId = requireId E, nonEmpty = nonEmpty E, canonicalJSON = canonicalJSON E,
      newManager = newManager E, importSnapshot = importSnapshot E, exportSnapshot = exportSnapshot E,
      encryptForPeer = (\<lambda>m p b. quiet (encryptForPeer E m p b)),
      decryptIncoming = (\<lambda>m b. quiet (decryptIncoming E m b)),
      signBytes = (\<lambda>k b. quiet (signBytes E k b)),
      prepareInviteBinding = (\<lambda>m a k d. quiet (prepareInviteBinding E m a k d)),
      processAcceptedInvite = (\<lambda>m b p k d s. quiet (processAcceptedInvite E m b p k d s)),
      completeInviteHandshake = (\<lambda>m s d h p. quiet (completeInviteHandshake E m s d h p)),
      deviceIdFor = deviceIdFor E\<rparr>"

fun is_write :: "st_event \<Rightarrow> bool" where
  "is_write (ReadSession a b v) = False"
| "is_write (ReadDevice a b c v) = False"
| "is_write e = True"

abbreviation writes :: "st_event list \<Rightarrow> st_event list" where
  "writes t \<equiv> filter is_write t"

section \<open>Reasoning about traces\<close>

lemma writes_one: "writes u = [PutOk i] \<Longrightarrow> PutOk j \<in> set u \<longleftrightarrow> j = i"
proof -
  assume "writes u = [PutOk i]"
  moreover have "PutOk j \<in> set u \<longleftrightarrow> PutOk j \<in> set (writes u)" by simp
  ultimately show ?thesis by simp
qed

lemma traced_pure [simp]:
  "sha256Hex (traced E) = sha256Hex E" "requireId (traced E) = requireId E" "nonEmpty (traced E) = nonEmpty E"
  "canonicalJSON (traced E) = canonicalJSON E" "newManager (traced E) = newManager E"
  "importSnapshot (traced E) = importSnapshot E" "exportSnapshot (traced E) = exportSnapshot E"
  "deviceIdFor (traced E) = deviceIdFor E"
  by (simp_all add: traced_def)

lemma traced_ops [simp]:
  "clock (traced E) = quiet (clock E)" "runtimeUuid (traced E) = quiet (runtimeUuid E)"
  "encryptForPeer (traced E) m p b = quiet (encryptForPeer E m p b)"
  "decryptIncoming (traced E) m b = quiet (decryptIncoming E m b)"
  "signBytes (traced E) k b = quiet (signBytes E k b)"
  "processAcceptedInvite (traced E) m b' p' k' d s = quiet (processAcceptedInvite E m b' p' k' d s)"
  "completeInviteHandshake (traced E) m st dk h p' = quiet (completeInviteHandshake E m st dk h p')"
  by (simp_all add: traced_def)

lemma traced_store [simp]:
  "peerLinks_getById (storage (traced E)) a b = quiet (peerLinks_getById (storage E) a b)"
  "peerLinks_getByPair (storage (traced E)) a b = quiet (peerLinks_getByPair (storage E) a b)"
  "peerLinks_listByOwner (storage (traced E)) a = quiet (peerLinks_listByOwner (storage E) a)"
  "peerLinks_update (storage (traced E)) a e = noted (ok_or UpdateOk UpdateErr a) (peerLinks_update (storage E) a e)"
  "sessions_getById (storage (traced E)) a b =
     noted (\<lambda>r. case r of Inl _ \<Rightarrow> [] | Inr v \<Rightarrow> [ReadSession a b v]) (sessions_getById (storage E) a b)"
  "sessions_getByPeerLinkId (storage (traced E)) a b = quiet (sessions_getByPeerLinkId (storage E) a b)"
  "sessions_getByPeerLinkAndDevice (storage (traced E)) a b c =
     noted (\<lambda>r. case r of Inl _ \<Rightarrow> [] | Inr v \<Rightarrow> [ReadDevice a b c v]) (sessions_getByPeerLinkAndDevice (storage E) a b c)"
  "sessions_listByPeerLink (storage (traced E)) a b = quiet (sessions_listByPeerLink (storage E) a b)"
  "sessions_put (storage (traced E)) a = noted (ok_or PutOk PutErr a) (sessions_put (storage E) a)"
  "events_append (storage (traced E)) a = noted (ok_or AppendOk AppendErr a) (events_append (storage E) a)"
  "events_listByPeerLinkId (storage (traced E)) a b o1 = quiet (events_listByPeerLinkId (storage E) a b o1)"
  by (simp_all add: traced_def traced_storage_def)

lemma traced_scm [simp]: "scm (traced E) s = scm E s"
  by (simp add: scm_def)

text \<open>\<open>emits_on tr Q m\<close>: whatever \<open>m\<close> does, what it adds to the trace \<open>tr\<close> of the state
  satisfies \<open>Q\<close>, which may depend on the result.\<close>

definition emits_on ::
  "('s \<Rightarrow> st_event list) \<Rightarrow> (js_err + 'a \<Rightarrow> st_event list \<Rightarrow> bool) \<Rightarrow> ('s, 'a) io \<Rightarrow> bool" where
  "emits_on tr Q m \<longleftrightarrow> (\<forall>s r s'. m s = (r, s') \<longrightarrow> (\<exists>u. tr s' = tr s @ u \<and> Q r u))"

abbreviation emits :: "(js_err + 'a \<Rightarrow> st_event list \<Rightarrow> bool) \<Rightarrow> ('w \<times> st_event list, 'a) io \<Rightarrow> bool" where
  "emits \<equiv> emits_on snd"

lemma emits_def:
  "emits Q m \<longleftrightarrow> (\<forall>w t r w' t'. m (w, t) = (r, (w', t')) \<longrightarrow> (\<exists>u. t' = t @ u \<and> Q r u))"
  by (auto simp: emits_on_def)

lemma emits_onD: "emits_on tr Q m \<Longrightarrow> m s = (r, s') \<Longrightarrow> \<exists>u. tr s' = tr s @ u \<and> Q r u"
  by (auto simp: emits_on_def)

lemma emitsD: "emits Q m \<Longrightarrow> m (w, t) = (r, (w', t')) \<Longrightarrow> \<exists>u. t' = t @ u \<and> Q r u"
  by (auto simp: emits_def)

lemma emits_mono: "emits_on tr Q m \<Longrightarrow> (\<And>r u. Q r u \<Longrightarrow> Q' r u) \<Longrightarrow> emits_on tr Q' m"
  unfolding emits_on_def by meson

lemma emits_quiet: "emits (\<lambda>r u. u = []) (quiet m)"
  by (auto simp: emits_def quiet_def split: prod.splits)

lemma emits_noted: "emits (\<lambda>r u. u = ev r) (noted ev m)"
  by (auto simp: emits_def noted_def split: prod.splits)

lemma emits_retE: "Q (Inr x) [] \<Longrightarrow> emits_on tr Q (retE x)"
  by (auto simp: emits_on_def)

lemma emits_throwE: "Q (Inl e) [] \<Longrightarrow> emits_on tr Q (throwE e)"
  by (auto simp: emits_on_def)

text \<open>Sequencing: the rest of the operation satisfies \<open>Q\<close> after any part of the trace the
  first step may have added.\<close>

lemma emits_bindE:
  assumes "emits_on tr P m"
    and "\<And>e u. P (Inl e) u \<Longrightarrow> Q (Inl e) u"
    and "\<And>x u. P (Inr x) u \<Longrightarrow> emits_on tr (\<lambda>r v. Q r (u @ v)) (f x)"
  shows "emits_on tr Q (bindE m f)"
  unfolding emits_on_def
proof (intro allI impI)
  fix s r s'
  assume run: "bindE m f s = (r, s')"
  obtain r1 s1 where m: "m s = (r1, s1)" by (cases "m s") auto
  obtain u where u: "tr s1 = tr s @ u" "P r1 u" using emits_onD [OF assms(1) m] by blast
  show "\<exists>u. tr s' = tr s @ u \<and> Q r u"
  proof (cases r1)
    case (Inl e)
    then show ?thesis using run m u assms(2) by (auto simp: bindE_def)
  next
    case (Inr x)
    then have "f x s1 = (r, s')" using run m by (simp add: bindE_def)
    then obtain v where "tr s' = tr s1 @ v" "Q r (u @ v)" using emits_onD [OF assms(3)] u Inr by blast
    then show ?thesis using u(1) by auto
  qed
qed

lemma emits_catchE:
  assumes "emits_on tr P m" and "\<And>x u. P (Inr x) u \<Longrightarrow> Q (Inr x) u"
    and "\<And>e u. P (Inl e) u \<Longrightarrow> emits_on tr (\<lambda>r v. Q r (u @ v)) (h e)"
  shows "emits_on tr Q (catchE m h)"
  unfolding emits_on_def
proof (intro allI impI)
  fix s r s'
  assume run: "catchE m h s = (r, s')"
  obtain r1 s1 where m: "m s = (r1, s1)" by (cases "m s") auto
  obtain u where u: "tr s1 = tr s @ u" "P r1 u" using emits_onD [OF assms(1) m] by blast
  show "\<exists>u. tr s' = tr s @ u \<and> Q r u"
  proof (cases r1)
    case (Inr x)
    then show ?thesis using run m u assms(2) by (auto simp: catchE_def)
  next
    case (Inl e)
    then have "h e s1 = (r, s')" using run m by (simp add: catchE_def)
    then obtain v where "tr s' = tr s1 @ v" "Q r (u @ v)" using emits_onD [OF assms(3)] u Inl by blast
    then show ?thesis using u(1) by auto
  qed
qed

lemma emits_silent_bindE:
  assumes "emits_on tr (\<lambda>r u. u = []) m" "\<And>e. Q (Inl e) []" "\<And>x. emits_on tr Q (f x)"
  shows "emits_on tr Q (bindE m f)"
  by (rule emits_bindE [OF assms(1)]) (use assms(2,3) in auto)

lemma emits_liftE: "emits_on tr (\<lambda>r u. u = []) (liftE r)"
  by (auto simp: emits_on_def liftE_def)

text \<open>A guard adds nothing to the trace.\<close>

lemma emits_guard:
  "(\<And>e. Q (Inl e) []) \<Longrightarrow> (\<And>x. r = Inr x \<Longrightarrow> emits_on tr Q (f x)) \<Longrightarrow> emits_on tr Q (bindE (liftE r) f)"
  by (cases r) (auto intro: emits_throwE)

lemma emits_require:
  "(\<And>e. Q (Inl e) []) \<Longrightarrow> (c \<Longrightarrow> emits_on tr Q (f ())) \<Longrightarrow> emits_on tr Q (bindE (requireE c e) f)"
  by (cases c) (auto intro: emits_throwE)

lemma emits_quiet_bindE:
  assumes "\<And>e. Q (Inl e) []" "\<And>x w w'. m w = (Inr x, w') \<Longrightarrow> emits Q (f x)"
  shows "emits Q (bindE (quiet m) f)"
  unfolding emits_def
proof (intro allI impI)
  fix w t r w' t'
  assume "bindE (quiet m) f (w, t) = (r, w', t')"
  then show "\<exists>u. t' = t @ u \<and> Q r u"
    using assms(1) emitsD [OF assms(2)] by (fastforce simp: bindE_def quiet_def split: prod.splits sum.splits)
qed

text \<open>An operation that only adds to the trace.\<close>

named_theorems grow \<open>operations that only add to the trace\<close>

abbreviation grows :: "('s \<Rightarrow> st_event list) \<Rightarrow> ('s, 'a) io \<Rightarrow> bool" where
  "grows tr m \<equiv> emits_on tr (\<lambda>r u. True) m"

lemma grows_bindE [grow]: "grows tr m \<Longrightarrow> (\<And>x. grows tr (f x)) \<Longrightarrow> grows tr (bindE m f)"
  by (rule emits_bindE) auto

lemma grows_catchE [grow]: "grows tr m \<Longrightarrow> (\<And>e. grows tr (h e)) \<Longrightarrow> grows tr (catchE m h)"
  by (rule emits_catchE) auto

lemma grows_basic [grow]: "grows tr (retE x)" "grows tr (throwE e)" "grows tr (liftE r)" "grows tr (requireE c e)"
  by (auto simp: emits_on_def liftE_def requireE_def)

lemma grows_if [grow]: "grows tr m \<Longrightarrow> grows tr n \<Longrightarrow> grows tr (if b then m else n)"
  by simp

lemma grows_quiet [grow]: "grows snd (quiet m)"
  by (rule emits_mono [OF emits_quiet]) simp

lemma grows_noted [grow]: "grows snd (noted ev m)"
  by (rule emits_mono [OF emits_noted]) simp

section \<open>A concrete environment\<close>

text \<open>A sample instance for evaluation: the manager counts ratchet steps, a packet is
  decryptable when its first byte is the current step, and time stands still.\<close>

definition sample_env :: "'w pl_storage \<Rightarrow> ('w, nat) e2ee_env" where
  "sample_env S =
     \<lparr>storage = S, clock = retE 1000, runtimeUuid = retE ''u1'', sha256Hex = (\<lambda>s. s),
      requireId = assertNonEmptyString,
      nonEmpty = (\<lambda>v. if trimmed v = [] then JNull else JStr (trimmed v)),
      canonicalJSON = js_String \<circ> (\<lambda>v. getp v ''step''),
      newManager = 0,
      importSnapshot = (\<lambda>v m. Inr (nat (positive_int_or 0 (js_Number (getp v ''step''))))),
      exportSnapshot = (\<lambda>m. JObj [(''step'', JInt (int m))]),
      encryptForPeer = (\<lambda>m p b. retE (of_nat m # b, Suc m)),
      decryptIncoming = (\<lambda>m b. retE
        (\<lparr>dr_encrypted = True, dr_peerId = (if b \<noteq> [] \<and> hd b = of_nat m then ''bob'' else []), dr_handshake = False,
          dr_plaintext = tl b\<rparr>, Suc m)),
      signBytes = (\<lambda>k b. retE b),
      prepareInviteBinding = (\<lambda>m a k d. retE (JObj [], JObj [])),
      processAcceptedInvite = (\<lambda>m b p k d sg. retE (JObj [], Suc m)),
      completeInviteHandshake = (\<lambda>m st d h p. retE (Some [1], Suc m)),
      deviceIdFor = (\<lambda>k. ''dev-a'')\<rparr>"

end
