(* ===== verification/PeerLink_Storage_Laws.thy ===== *)
theory PeerLink_Storage_Laws
  imports PeerLink_Storage
begin

text \<open>
  What the peer-link storage guarantees over any store that keeps the contract
  \<open>kv_store\<close>: the effect of every write on the keys it touches, the optimistic-locking
  contract of the two versioned stores (locale \<open>versioned_store\<close>), the separation of the
  per-device sessions of one peer link, and the event log with its cursor paging.
\<close>

section \<open>Keys\<close>

definition clean_id :: "string \<Rightarrow> bool" where
  "clean_id s \<longleftrightarrow> s \<noteq> [] \<and> js_trim s = s"

lemma str_or_empty_JStr [simp]: "str_or_empty (JStr s) = s"
  by (cases s) (simp_all add: str_or_empty_def js_or_def)

lemma assertNonEmptyString_JStr [simp]:
  "clean_id s \<Longrightarrow> assertNonEmptyString (JStr s) label = Inr s"
  by (simp add: assertNonEmptyString_def clean_id_def)

lemma assertNonEmptyString_InrD:
  "assertNonEmptyString v label = Inr s \<Longrightarrow> clean_id s \<and> s = js_trim (str_or_empty v)"
  by (auto simp: assertNonEmptyString_def clean_id_def Let_def split: if_splits)

lemma trimmed_clean: "trimmed v \<noteq> [] \<Longrightarrow> clean_id (trimmed v)"
  by (cases v) (auto simp: clean_id_def)

lemma sep_prefix:
  assumes "a @ ''::'' @ x = c @ y" and "CHR '':'' \<notin> set c"
  shows "prefix c a"
  using assms
proof (induction a arbitrary: c)
  case Nil
  then show ?case by (cases c) auto
next
  case (Cons b a)
  then show ?case by (cases c) auto
qed

text \<open>An account id that cannot be read as the head of a session-index key.\<close>

definition plain_owner :: "string \<Rightarrow> bool" where
  "plain_owner s \<longleftrightarrow> clean_id s \<and> \<not> prefix ''by-peer-link'' s \<and> \<not> prefix ''index'' s"

definition ss_rk :: "string \<Rightarrow> string \<Rightarrow> string" where
  "ss_rk o1 s = ''peer-link:sessions:'' @ o1 @ ''::'' @ s"

definition ss_dk :: "string \<Rightarrow> string \<Rightarrow> string \<Rightarrow> string" where
  "ss_dk o1 l d = ''peer-link:sessions:by-peer-link-device:'' @ o1 @ ''::'' @ l @ ''::'' @ d"

definition ss_lk :: "string \<Rightarrow> string \<Rightarrow> string" where
  "ss_lk o1 l = ''peer-link:sessions:by-peer-link:'' @ o1 @ ''::'' @ l"

lemma ss_keys [simp]:
  "clean_id o1 \<Longrightarrow> clean_id s \<Longrightarrow> ss_recordKey (JStr o1) (JStr s) = Inr (ss_rk o1 s)"
  "clean_id o1 \<Longrightarrow> clean_id l \<Longrightarrow> ss_indexKey (JStr o1) (JStr l) = Inr (ss_lk o1 l)"
  "clean_id o1 \<Longrightarrow> clean_id l \<Longrightarrow> clean_id d \<Longrightarrow>
     ss_deviceIndexKey (JStr o1) (JStr l) (JStr d) = Inr (ss_dk o1 l d)"
  by (simp_all add: ss_recordKey_def ss_indexKey_def ss_deviceIndexKey_def ss_rk_def ss_lk_def ss_dk_def)

lemma ss_rk_neq_dk: "plain_owner o1 \<Longrightarrow> ss_rk o1 s \<noteq> ss_dk o2 l d"
proof
  assume "plain_owner o1" and "ss_rk o1 s = ss_dk o2 l d"
  then have "o1 @ ''::'' @ s = ''by-peer-link'' @ (''-device:'' @ o2 @ ''::'' @ l @ ''::'' @ d)"
    by (simp add: ss_rk_def ss_dk_def)
  then have "prefix ''by-peer-link'' o1" by (rule sep_prefix) simp
  with \<open>plain_owner o1\<close> show False by (simp add: plain_owner_def)
qed

lemma ss_rk_neq_lk: "plain_owner o1 \<Longrightarrow> ss_rk o1 s \<noteq> ss_lk o2 l"
proof
  assume "plain_owner o1" and "ss_rk o1 s = ss_lk o2 l"
  then have "o1 @ ''::'' @ s = ''by-peer-link'' @ ('':'' @ o2 @ ''::'' @ l)"
    by (simp add: ss_rk_def ss_lk_def)
  then have "prefix ''by-peer-link'' o1" by (rule sep_prefix) simp
  with \<open>plain_owner o1\<close> show False by (simp add: plain_owner_def)
qed

lemma index_id_JStr [simp]: "s \<noteq> [] \<Longrightarrow> index_id (JStr s) = Some s"
  by (simp add: index_id_def)

lemma index_id_Some: "index_id v = Some s \<longleftrightarrow> v = JStr s \<and> s \<noteq> []"
  by (auto simp: index_id_def split: jsval.splits)

lemma clean_id_nonempty: "clean_id s \<Longrightarrow> s \<noteq> []"
  by (simp add: clean_id_def)

lemma normalizeVersion_set_prop [simp]:
  "is_plain_object r \<Longrightarrow> 0 < n \<Longrightarrow> normalizeVersion (set_prop ''version'' (JInt n) r) = n"
  by (simp add: normalizeVersion_def)

lemma normalizeVersion_pos: "0 < normalizeVersion r"
proof -
  have "0 < positive_int_or 1 n" for n by (cases n) (auto simp: floor_less_iff dest: of_int_eq_iff [THEN iffD1])
  then show ?thesis by (simp add: normalizeVersion_def)
qed

lemma version_bump:
  "is_plain_object r \<Longrightarrow>
   normalizeVersion (set_prop ''version'' (JInt (normalizeVersion x + 1)) r) = normalizeVersion x + 1"
  using normalizeVersion_pos [of x] by (intro normalizeVersion_set_prop) auto

lemma cloneJsonValue_object:
  assumes "is_plain_object r"
  shows "is_plain_object (cloneJsonValue r)" "json_clean (cloneJsonValue r)" "cloneJsonValue r \<noteq> JNull"
proof -
  obtain ps where r: "r = JObj ps" using assms by (auto simp: is_plain_object_iff)
  show "is_plain_object (cloneJsonValue r)" using r by (simp add: cloneJsonValue_def)
  show "json_clean (cloneJsonValue r)"
    using json_clean_clone [of r] r by (simp add: cloneJsonValue_def del: json_clean_clone)
  show "cloneJsonValue r \<noteq> JNull" using r by (simp add: cloneJsonValue_def)
qed

lemma set_prop_not_null [simp]: "is_plain_object r \<Longrightarrow> set_prop k v r \<noteq> JNull"
  by (cases r) auto

section \<open>Sessions\<close>

text \<open>The record a session write stores, and the index key it files it under.\<close>

definition ss_next :: "jsval \<Rightarrow> jsval \<Rightarrow> jsval" where
  "ss_next r existing = set_prop ''version''
     (JInt (if is_object existing then normalizeVersion existing + 1 else normalizeVersion r))
     (cloneJsonValue r)"

definition ss_ik :: "string \<Rightarrow> string \<Rightarrow> string \<Rightarrow> string" where
  "ss_ik o1 l d = (if d \<noteq> [] then ss_dk o1 l d else ss_lk o1 l)"

text \<open>A session record that the store accepts, with its normalised ids.\<close>

definition ss_ids :: "jsval \<Rightarrow> string \<Rightarrow> string \<Rightarrow> string \<Rightarrow> bool" where
  "ss_ids r s o1 l \<longleftrightarrow> is_plain_object r
     \<and> assertNonEmptyString (getp r ''sessionId'') ''sessionId'' = Inr s
     \<and> assertNonEmptyString (getp r ''localAccountId'') ''localAccountId'' = Inr o1
     \<and> assertNonEmptyString (getp r ''peerLinkId'') ''peerLinkId'' = Inr l"

lemma ss_ids_clean: "ss_ids r s o1 l \<Longrightarrow> clean_id s \<and> clean_id o1 \<and> clean_id l"
  by (auto simp: ss_ids_def dest: assertNonEmptyString_InrD)

lemma ss_next_facts:
  assumes "is_plain_object r"
  shows "is_plain_object (ss_next r ex)" "json_clean (ss_next r ex)" "ss_next r ex \<noteq> JNull"
    "ss_next r ex \<noteq> JUndef"
  using cloneJsonValue_object [OF assms] by (auto simp: ss_next_def is_plain_object_iff)

context kv_store
begin

lemma ss_put_run:
  assumes "inv w" and ids: "ss_ids r s o1 l"
  defines "d \<equiv> trimmed (getp r ''peerDeviceId'')"
  defines "nxt \<equiv> ss_next r (view w (ss_rk o1 s))"
  obtains w' where "ss_put K r w = (Inr nxt, w')" "inv w'"
    "view w' = (view w)(ss_rk o1 s := nxt, ss_ik o1 l d := JStr s)"
proof -
  have c: "clean_id s" "clean_id o1" "clean_id l" using ss_ids_clean [OF ids] by auto
  have plain: "is_plain_object r" using ids by (simp add: ss_ids_def)
  note n = ss_next_facts [OF plain, of "view w (ss_rk o1 s)", folded nxt_def]
  obtain w1 where w1: "kv_set K (ss_rk o1 s) nxt w = (Inr (), w1)" "inv w1"
    "view w1 = (view w)(ss_rk o1 s := nxt)"
    using set_run [OF \<open>inv w\<close> n(2,3)] by blast
  obtain w2 where w2: "kv_set K (ss_ik o1 l d) (JStr s) w1 = (Inr (), w2)" "inv w2"
    "view w2 = (view w1)(ss_ik o1 l d := JStr s)"
    using set_run [OF w1(2), of "JStr s"] by auto
  have dk: "d \<noteq> [] \<Longrightarrow> clean_id d" unfolding d_def by (rule trimmed_clean)
  have "ss_put K r w = (Inr nxt, w2)"
    using ids c n dk w1(1) w2(1)
    by (simp add: ss_put_def ss_ids_def assertRecord_def bindE_def get_law [OF \<open>inv w\<close>] Let_def
        d_def [symmetric] nxt_def [symmetric] ss_next_def [symmetric] ss_ik_def split: if_splits)
  then show ?thesis using w1(3) w2(2,3) that by simp
qed

lemma ss_getById_run:
  "inv w \<Longrightarrow> clean_id o1 \<Longrightarrow> clean_id s \<Longrightarrow>
   ss_getById K (JStr o1) (JStr s) w = (Inr (view w (ss_rk o1 s)), w)"
  by (simp add: ss_getById_def bindE_def get_law clone_view)

end

text \<open>
  The per-device sessions of one peer link, read off the store: the index entry of a device
  and the record it names. The index is well formed when every entry names a record of its
  own device.
\<close>

definition dev_session :: "(string \<Rightarrow> jsval) \<Rightarrow> string \<Rightarrow> string \<Rightarrow> string \<Rightarrow> jsval" where
  "dev_session v o1 l d =
     (case index_id (v (ss_dk o1 l d)) of None \<Rightarrow> JUndef | Some i \<Rightarrow> v (ss_rk o1 i))"

definition dev_index_ok :: "(string \<Rightarrow> jsval) \<Rightarrow> string \<Rightarrow> string \<Rightarrow> bool" where
  "dev_index_ok v o1 l \<longleftrightarrow>
     (\<forall>d i. clean_id d \<longrightarrow> index_id (v (ss_dk o1 l d)) = Some i \<longrightarrow>
        clean_id i \<and> trimmed (getp (v (ss_rk o1 i)) ''peerDeviceId'') = d)"

lemma ss_dk_inj [simp]: "ss_dk o1 l d = ss_dk o1 l d' \<longleftrightarrow> d = d'"
  by (simp add: ss_dk_def)

lemma ss_rk_inj [simp]: "ss_rk o1 s = ss_rk o1 s' \<longleftrightarrow> s = s'"
  by (simp add: ss_rk_def)

lemma map_of_json_clone:
  "map_of ps k = Some v \<Longrightarrow> v \<noteq> JUndef \<Longrightarrow>
   map_of (map (\<lambda>(k, v). (k, json_clone v)) (filter (\<lambda>(k, v). v \<noteq> JUndef) ps)) k = Some (json_clone v)"
  by (induction ps) (auto split: if_splits)

lemma getp_clone:
  assumes "getp r k = v" and "v \<noteq> JUndef"
  shows "getp (cloneJsonValue r) k = json_clone v"
proof (cases r)
  case (JObj ps)
  have "map_of (map (\<lambda>(k, v). (k, json_clone v)) (filter (\<lambda>(k, v). v \<noteq> JUndef) ps)) k = Some (json_clone v)"
    using assms JObj by (intro map_of_json_clone) (auto split: option.splits)
  then show ?thesis using JObj by (simp add: cloneJsonValue_def)
qed (use assms in auto)

lemma trimmed_JStr: "trimmed v \<noteq> [] \<Longrightarrow> \<exists>x. v = JStr x"
  by (cases v) auto

lemma trimmed_ss_next:
  assumes "is_plain_object r" and "trimmed (getp r f) \<noteq> []" and "f \<noteq> ''version''"
  shows "trimmed (getp (ss_next r ex) f) = trimmed (getp r f)"
proof -
  obtain x where x: "getp r f = JStr x" using assms(2) trimmed_JStr by blast
  then have "getp (cloneJsonValue r) f = JStr x" using getp_clone [of r f "JStr x"] by simp
  then show ?thesis using assms x cloneJsonValue_object [OF assms(1)] by (simp add: ss_next_def)
qed

text \<open>Filing a session leaves every other device's session as it was.\<close>

lemma dev_session_put:
  assumes owner: "plain_owner o1" and ids: "ss_ids r s o1 l"
    and d: "d = trimmed (getp r ''peerDeviceId'')" "d \<noteq> []"
    and ok: "dev_index_ok v o1 l"
    and own: "v (ss_rk o1 s) = JUndef \<or> trimmed (getp (v (ss_rk o1 s)) ''peerDeviceId'') = d"
    and v': "v' = v(ss_rk o1 s := ss_next r ex, ss_dk o1 l d := JStr s)"
  shows "dev_index_ok v' o1 l" and "dev_session v' o1 l d = ss_next r ex"
    and "clean_id d' \<Longrightarrow> d' \<noteq> d \<Longrightarrow> dev_session v' o1 l d' = dev_session v o1 l d'"
proof -
  have c: "clean_id s" using ss_ids_clean [OF ids] by simp
  have plain: "is_plain_object r" using ids by (simp add: ss_ids_def)
  have keys [simp]: "ss_rk o1 a \<noteq> ss_dk o1 l b" "ss_dk o1 l b \<noteq> ss_rk o1 a" for a b
    by (simp_all add: ss_rk_neq_dk [OF owner] ss_rk_neq_dk [OF owner, THEN not_sym])
  have dn: "trimmed (getp (ss_next r ex) ''peerDeviceId'') = d"
    using trimmed_ss_next [OF plain] d by simp
  have other: "i \<noteq> s" if "clean_id d'" "d' \<noteq> d" "index_id (v (ss_dk o1 l d')) = Some i" for d' i
  proof
    assume "i = s"
    then have "trimmed (getp (v (ss_rk o1 s)) ''peerDeviceId'') = d'"
      using ok that(1,3) unfolding dev_index_ok_def by blast
    then show False using own that(1,2) clean_id_nonempty [OF that(1)] by auto
  qed
  show "dev_session v' o1 l d = ss_next r ex"
    using c by (simp add: dev_session_def v' clean_id_def)
  show "dev_session v' o1 l d' = dev_session v o1 l d'" if "clean_id d'" "d' \<noteq> d"
    using that other [OF that] by (auto simp: dev_session_def v' split: option.splits)
  show "dev_index_ok v' o1 l"
    unfolding dev_index_ok_def
  proof (intro allI impI)
    fix d' i
    assume *: "clean_id d'" "index_id (v' (ss_dk o1 l d')) = Some i"
    show "clean_id i \<and> trimmed (getp (v' (ss_rk o1 i)) ''peerDeviceId'') = d'"
    proof (cases "d' = d")
      case True
      then show ?thesis using * c dn by (auto simp: v' index_id_Some)
    next
      case False
      then have "index_id (v (ss_dk o1 l d')) = Some i" using * by (simp add: v')
      then show ?thesis using other [OF *(1) False] ok *(1) by (auto simp: v' dev_index_ok_def)
    qed
  qed
qed

context kv_store
begin

lemma ss_getByPeerLinkAndDevice_run:
  assumes "inv w" "clean_id o1" "clean_id l" "clean_id d" "dev_index_ok (view w) o1 l"
  shows "ss_getByPeerLinkAndDevice K (JStr o1) (JStr l) (JStr d) w = (Inr (dev_session (view w) o1 l d), w)"
proof (cases "index_id (view w (ss_dk o1 l d))")
  case None
  then show ?thesis
    using assms by (simp add: ss_getByPeerLinkAndDevice_def bindE_def get_law dev_session_def)
next
  case (Some i)
  then have "clean_id i" using assms(4,5) by (auto simp: dev_index_ok_def)
  then show ?thesis
    using assms Some
    by (simp add: ss_getByPeerLinkAndDevice_def bindE_def get_law dev_session_def ss_getById_run)
qed

text \<open>Writing one device's session: it is read back, and no other device's session changes.\<close>

lemma ss_put_device:
  assumes "inv w" "plain_owner o1" "ss_ids r s o1 l"
    and d: "d = trimmed (getp r ''peerDeviceId'')" "d \<noteq> []"
    and ok: "dev_index_ok (view w) o1 l"
    and own: "view w (ss_rk o1 s) = JUndef \<or> trimmed (getp (view w (ss_rk o1 s)) ''peerDeviceId'') = d"
  obtains w' where "ss_put K r w = (Inr (ss_next r (view w (ss_rk o1 s))), w')" "inv w'"
    "dev_index_ok (view w') o1 l" "dev_session (view w') o1 l d = ss_next r (view w (ss_rk o1 s))"
    "\<And>d'. clean_id d' \<Longrightarrow> d' \<noteq> d \<Longrightarrow> dev_session (view w') o1 l d' = dev_session (view w) o1 l d'"
proof -
  obtain w' where w': "ss_put K r w = (Inr (ss_next r (view w (ss_rk o1 s))), w')" "inv w'"
    "view w' = (view w)(ss_rk o1 s := ss_next r (view w (ss_rk o1 s)),
       ss_ik o1 l (trimmed (getp r ''peerDeviceId'')) := JStr s)"
    using ss_put_run [OF assms(1,3)] by blast
  then have v': "view w' = (view w)(ss_rk o1 s := ss_next r (view w (ss_rk o1 s)), ss_dk o1 l d := JStr s)"
    using d by (simp add: ss_ik_def)
  note eff = dev_session_put [OF assms(2,3) d ok own v']
  show ?thesis by (rule that [OF w'(1,2) eff(1,2)]) (rule eff(3))
qed

end

section \<open>Optimistic locking\<close>

text \<open>
  The contract of a store with a versioned compare-and-set: a successful update names the
  version it replaces and leaves that version plus one; a refused update changes nothing.
\<close>

locale versioned_store =
  fixes upd :: "jsval \<Rightarrow> jsval \<Rightarrow> ('w, jsval) io"
    and slot :: "jsval \<Rightarrow> string res"
    and cur :: "'w \<Rightarrow> string \<Rightarrow> jsval"
    and vinv :: "'w \<Rightarrow> bool"
  assumes upd_ok: "vinv w \<Longrightarrow> upd r e w = (Inr r', w') \<Longrightarrow>
      \<exists>k. slot r = Inr k \<and> cur w k \<noteq> JUndef
        \<and> normalizeVersion (cur w k) = positive_int_or 0 (js_Number e)
        \<and> vinv w' \<and> cur w' k = r' \<and> normalizeVersion r' = normalizeVersion (cur w k) + 1"
    and upd_refused: "vinv w \<Longrightarrow> upd r e w = (Inl err, w') \<Longrightarrow> w' = w"
begin

text \<open>Of two writers that read the same version at most one succeeds.\<close>

lemma no_lost_update:
  assumes "vinv w" "upd r1 e w = (Inr r1', w1)" "slot r2 = slot r1"
  shows "\<exists>err. upd r2 e w1 = (Inl err, w1)"
proof -
  obtain k where k: "slot r1 = Inr k" "normalizeVersion (cur w k) = positive_int_or 0 (js_Number e)"
    "vinv w1" "normalizeVersion (cur w1 k) = normalizeVersion (cur w k) + 1"
    using upd_ok [OF assms(1,2)] by auto
  show ?thesis
  proof (cases "upd r2 e w1")
    case (Pair res w2)
    then show ?thesis
    proof (cases res)
      case (Inl err)
      then show ?thesis using Pair upd_refused [OF k(3)] by blast
    next
      case (Inr r2')
      then have "normalizeVersion (cur w1 k) = positive_int_or 0 (js_Number e)"
        using upd_ok [OF k(3)] Pair assms(3) k(1) by fastforce
      then show ?thesis using k by simp
    qed
  qed
qed

end

text \<open>Replaying a list of attempted updates, counting the ones that succeed.\<close>

fun run_updates ::
  "(jsval \<Rightarrow> jsval \<Rightarrow> ('w, jsval) io) \<Rightarrow> (jsval \<times> jsval) list \<Rightarrow> 'w \<Rightarrow> nat \<times> 'w" where
  "run_updates upd [] w = (0, w)"
| "run_updates upd ((r, e) # us) w =
     (case upd r e w of
        (Inl err, w') \<Rightarrow> run_updates upd us w'
      | (Inr r', w') \<Rightarrow> (let (n, w'') = run_updates upd us w' in (Suc n, w'')))"

context versioned_store
begin

text \<open>The stored version counts exactly the successful updates.\<close>

lemma version_counts_updates:
  assumes "vinv w" and "\<forall>(r, e)\<in>set us. slot r = Inr k" and "run_updates upd us w = (n, w')"
  shows "normalizeVersion (cur w' k) = normalizeVersion (cur w k) + int n \<and> vinv w'"
  using assms
proof (induction us arbitrary: w n)
  case Nil
  then show ?case by simp
next
  case (Cons u us)
  obtain r e where u: "u = (r, e)" by fastforce
  show ?case
  proof (cases "upd r e w")
    case (Pair res w1)
    show ?thesis
    proof (cases res)
      case (Inl err)
      then have "w1 = w" using Pair upd_refused [OF Cons.prems(1)] by blast
      then show ?thesis using Cons.IH [OF Cons.prems(1)] Cons.prems u Pair Inl by simp
    next
      case (Inr r')
      then have w1: "vinv w1" "normalizeVersion (cur w1 k) = normalizeVersion (cur w k) + 1"
        using upd_ok [OF Cons.prems(1), of r e r' w1] Pair Cons.prems(2) u by auto
      obtain m where m: "run_updates upd us w1 = (m, w')" "n = Suc m"
        using Cons.prems(3) u Pair Inr by (auto split: prod.splits)
      have "normalizeVersion (cur w' k) = normalizeVersion (cur w1 k) + int m \<and> vinv w'"
        using Cons.IH [OF w1(1) _ m(1)] Cons.prems(2) by simp
      then show ?thesis using w1(2) m(2) by simp
    qed
  qed
qed

end

definition pl_slot :: "jsval \<Rightarrow> string res" where
  "pl_slot r = pl_recordKey (getp r ''localAccountId'') (getp r ''peerLinkId'')"

definition ha_slot :: "jsval \<Rightarrow> string res" where
  "ha_slot r = ha_recordKey (getp r ''ownerAccountId'') (getp r ''handshakeAttemptId'')"

definition pl_rk :: "string \<Rightarrow> string \<Rightarrow> string" where
  "pl_rk o1 l = ''peer-link:records:'' @ o1 @ ''::'' @ l"

definition pl_pk :: "string \<Rightarrow> string \<Rightarrow> string" where
  "pl_pk o1 p = ''peer-link:pairs:'' @ o1 @ ''::'' @ p"

definition ha_rk :: "string \<Rightarrow> string \<Rightarrow> string" where
  "ha_rk o1 h = ''peer-link:handshakes:'' @ o1 @ ''::'' @ h"

lemma pl_keys [simp]:
  "clean_id o1 \<Longrightarrow> clean_id l \<Longrightarrow> pl_recordKey (JStr o1) (JStr l) = Inr (pl_rk o1 l)"
  "clean_id o1 \<Longrightarrow> clean_id p \<Longrightarrow> pl_pairKey (JStr o1) (JStr p) = Inr (pl_pk o1 p)"
  "clean_id o1 \<Longrightarrow> clean_id h \<Longrightarrow> ha_recordKey (JStr o1) (JStr h) = Inr (ha_rk o1 h)"
  by (simp_all add: pl_recordKey_def pl_pairKey_def pairKeyFor_def ha_recordKey_def pl_rk_def
      pl_pk_def ha_rk_def)

lemma pl_rk_neq_pk [simp]: "pl_rk a b \<noteq> pl_pk c d" "pl_pk c d \<noteq> pl_rk a b"
  by (simp_all add: pl_rk_def pl_pk_def)

lemma pl_slot_clean:
  "assertNonEmptyString (getp r ''peerLinkId'') ''peerLinkId'' = Inr l \<Longrightarrow>
   assertNonEmptyString (getp r ''localAccountId'') ''localAccountId'' = Inr o1 \<Longrightarrow>
   pl_slot r = Inr (pl_rk o1 l)"
  by (auto simp: pl_slot_def pl_recordKey_def pl_rk_def assertNonEmptyString_def Let_def split: if_splits)

lemma ha_slot_clean:
  "assertNonEmptyString (getp r ''handshakeAttemptId'') ''handshakeAttemptId'' = Inr h \<Longrightarrow>
   assertNonEmptyString (getp r ''ownerAccountId'') ''ownerAccountId'' = Inr o1 \<Longrightarrow>
   ha_slot r = Inr (ha_rk o1 h)"
  by (auto simp: ha_slot_def ha_recordKey_def ha_rk_def assertNonEmptyString_def Let_def split: if_splits)

lemma expected_version_Inr: "expected_version e = Inr n \<longleftrightarrow> n = positive_int_or 0 (js_Number e) \<and> 1 \<le> n"
  by (auto simp: expected_version_def Let_def)

text \<open>The checks of \<open>update\<close>, as one pure function of what the store holds: either the
  error, or the writes to make.\<close>

definition pl_update_plan :: "(string \<Rightarrow> jsval) \<Rightarrow> jsval \<Rightarrow> jsval \<Rightarrow> (string \<times> jsval \<times> string \<times> string) res" where
  "pl_update_plan v r e =
     bind_r (assertRecord r ''peerLinkRecord'') (\<lambda>_.
     bind_r (assertNonEmptyString (getp r ''peerLinkId'') ''peerLinkId'') (\<lambda>l.
     bind_r (assertNonEmptyString (getp r ''localAccountId'') ''localAccountId'') (\<lambda>o1.
     bind_r (assertNonEmptyString (getp r ''peerAccountId'') ''peerAccountId'') (\<lambda>p.
     let current = v (pl_rk o1 l) in
     if current = JUndef then Inl (plain_err (''Peer link not found for '' @ l)) else
     bind_r (expected_version e) (\<lambda>n.
     if normalizeVersion current \<noteq> n then Inl (plain_err (''Peer link version mismatch for '' @ l)) else
     if getp current ''localAccountId'' \<noteq> JStr o1 then Inl (plain_err ''Peer link owner cannot change'') else
     bind_r (pairKeyFor (getp current ''localAccountId'') (getp current ''peerAccountId'')) (\<lambda>cp.
     bind_r (pairKeyFor (JStr o1) (JStr p)) (\<lambda>np.
     if cp \<noteq> np then Inl (plain_err ''Peer link account pair cannot change'') else
     Inr (pl_rk o1 l, set_prop ''version'' (JInt (normalizeVersion current + 1)) (cloneJsonValue r),
          pl_pk o1 p, l))))))))"

definition ha_update_plan :: "(string \<Rightarrow> jsval) \<Rightarrow> jsval \<Rightarrow> jsval \<Rightarrow> (string \<times> jsval) res" where
  "ha_update_plan v r e =
     bind_r (assertRecord r ''handshakeAttemptRecord'') (\<lambda>_.
     bind_r (assertNonEmptyString (getp r ''handshakeAttemptId'') ''handshakeAttemptId'') (\<lambda>h.
     bind_r (assertNonEmptyString (getp r ''ownerAccountId'') ''ownerAccountId'') (\<lambda>o1.
     let current = v (ha_rk o1 h) in
     if current = JUndef then Inl (plain_err (''Handshake attempt not found for '' @ h)) else
     bind_r (expected_version e) (\<lambda>n.
     if normalizeVersion current \<noteq> n then Inl (plain_err (''Handshake attempt version mismatch for '' @ h)) else
     Inr (ha_rk o1 h, set_prop ''version'' (JInt (normalizeVersion current + 1)) (cloneJsonValue r))))))"

lemma pl_update_planD:
  assumes "pl_update_plan v r e = Inr (k, nxt, pk, l)"
  shows "pl_slot r = Inr k" "v k \<noteq> JUndef" "normalizeVersion (v k) = positive_int_or 0 (js_Number e)"
    "nxt = set_prop ''version'' (JInt (normalizeVersion (v k) + 1)) (cloneJsonValue r)"
    "is_plain_object r" "clean_id l" "\<exists>o1 p. k = pl_rk o1 l \<and> pk = pl_pk o1 p"
  using assms pl_slot_clean [of r] assertNonEmptyString_InrD [of "getp r ''peerLinkId''" "''peerLinkId''"]
  unfolding pl_update_plan_def
  by (auto dest!: bind_r_InrD simp: Let_def assertRecord_def expected_version_Inr split: if_splits) blast+

lemma ha_update_planD:
  assumes "ha_update_plan v r e = Inr (k, nxt)"
  shows "ha_slot r = Inr k" "v k \<noteq> JUndef" "normalizeVersion (v k) = positive_int_or 0 (js_Number e)"
    "nxt = set_prop ''version'' (JInt (normalizeVersion (v k) + 1)) (cloneJsonValue r)"
    "is_plain_object r"
  using assms ha_slot_clean [of r]
  unfolding ha_update_plan_def
  by (auto dest!: bind_r_InrD simp: Let_def assertRecord_def expected_version_Inr split: if_splits)

context kv_store
begin

lemma pl_update_plan_run:
  assumes "inv w"
  shows "pl_update K r e w =
     (case pl_update_plan (view w) r e of
        Inl err \<Rightarrow> (Inl err, w)
      | Inr (k, nxt, pk, l) \<Rightarrow>
          bindE (kv_set K k nxt) (\<lambda>_. bindE (kv_set K pk (JStr l)) (\<lambda>_. retE (cloneJsonValue nxt))) w)"
proof (cases "assertNonEmptyString (getp r ''peerLinkId'') ''peerLinkId''")
  case l: (Inr l)
  show ?thesis
  proof (cases "assertNonEmptyString (getp r ''localAccountId'') ''localAccountId''")
    case o1: (Inr o1)
    show ?thesis
    proof (cases "assertNonEmptyString (getp r ''peerAccountId'') ''peerAccountId''")
      case p: (Inr p)
      have c: "clean_id l" "clean_id o1" "clean_id p"
        using l o1 p by (auto dest: assertNonEmptyString_InrD)
      show ?thesis
        by (cases "expected_version e";
            cases "pairKeyFor (JStr o1) (getp (view w (pl_rk o1 l)) ''peerAccountId'')";
            cases "pairKeyFor (JStr o1) (JStr p)")
          (auto simp: pl_update_def pl_update_plan_def l o1 p c bindE_def get_law [OF assms] Let_def
            assertRecord_def requireE_def split: prod.splits sum.splits)
    qed (simp_all add: pl_update_def pl_update_plan_def l o1 bindE_def assertRecord_def)
  qed (simp_all add: pl_update_def pl_update_plan_def l bindE_def assertRecord_def)
qed (simp_all add: pl_update_def pl_update_plan_def bindE_def assertRecord_def)

lemma ha_update_plan_run:
  assumes "inv w"
  shows "ha_update K r e w =
     (case ha_update_plan (view w) r e of
        Inl err \<Rightarrow> (Inl err, w)
      | Inr (k, nxt) \<Rightarrow> bindE (kv_set K k nxt) (\<lambda>_. retE (cloneJsonValue nxt)) w)"
proof (cases "assertNonEmptyString (getp r ''handshakeAttemptId'') ''handshakeAttemptId''")
  case h: (Inr h)
  show ?thesis
  proof (cases "assertNonEmptyString (getp r ''ownerAccountId'') ''ownerAccountId''")
    case o1: (Inr o1)
    have c: "clean_id h" "clean_id o1" using h o1 by (auto dest: assertNonEmptyString_InrD)
    show ?thesis
      by (cases "expected_version e")
        (simp_all add: ha_update_def ha_update_plan_def h o1 c bindE_def get_law [OF assms] Let_def
          assertRecord_def requireE_def)
  qed (simp_all add: ha_update_def ha_update_plan_def h bindE_def assertRecord_def)
qed (simp_all add: ha_update_def ha_update_plan_def bindE_def assertRecord_def)

lemma pl_update_run:
  assumes "inv w" and plan: "pl_update_plan (view w) r e = Inr (k, nxt, pk, l)"
  obtains w' where "pl_update K r e w = (Inr nxt, w')" "inv w'"
    "view w' = (view w)(k := nxt, pk := JStr l)"
proof -
  note pd = pl_update_planD [OF plan]
  note cl = cloneJsonValue_object [OF pd(5)]
  have nxt: "json_clean nxt" "nxt \<noteq> JNull" using cl by (simp_all add: pd(4))
  obtain w1 where w1: "kv_set K k nxt w = (Inr (), w1)" "inv w1" "view w1 = (view w)(k := nxt)"
    using set_run [OF assms(1) nxt] by blast
  obtain w2 where w2: "kv_set K pk (JStr l) w1 = (Inr (), w2)" "inv w2"
    "view w2 = (view w1)(pk := JStr l)"
    using set_run [OF w1(2), of "JStr l"] by auto
  show ?thesis
    using that [of w2] w1 w2 nxt by (simp add: pl_update_plan_run [OF assms(1)] plan bindE_def)
qed

lemma ha_update_run:
  assumes "inv w" and plan: "ha_update_plan (view w) r e = Inr (k, nxt)"
  obtains w' where "ha_update K r e w = (Inr nxt, w')" "inv w'" "view w' = (view w)(k := nxt)"
proof -
  note pd = ha_update_planD [OF plan]
  note cl = cloneJsonValue_object [OF pd(5)]
  have nxt: "json_clean nxt" "nxt \<noteq> JNull" using cl by (simp_all add: pd(4))
  obtain w1 where w1: "kv_set K k nxt w = (Inr (), w1)" "inv w1" "view w1 = (view w)(k := nxt)"
    using set_run [OF assms(1) nxt] by blast
  show ?thesis
    using that [of w1] w1 nxt by (simp add: ha_update_plan_run [OF assms(1)] plan bindE_def)
qed

end

sublocale kv_store \<subseteq> pl: versioned_store "pl_update K" pl_slot view inv
proof
  fix w r e r' w'
  assume i: "inv w" and u: "pl_update K r e w = (Inr r', w')"
  then obtain k nxt pk l where plan: "pl_update_plan (view w) r e = Inr (k, nxt, pk, l)"
    by (auto simp: pl_update_plan_run [OF i] split: sum.splits)
  note pd = pl_update_planD [OF plan]
  obtain w2 where w2: "pl_update K r e w = (Inr nxt, w2)" "inv w2" "view w2 = (view w)(k := nxt, pk := JStr l)"
    using pl_update_run [OF i plan] by blast
  have "normalizeVersion nxt = normalizeVersion (view w k) + 1"
    unfolding pd(4) by (rule version_bump) (rule cloneJsonValue_object [OF pd(5)])
  then show "\<exists>k. pl_slot r = Inr k \<and> view w k \<noteq> JUndef
        \<and> normalizeVersion (view w k) = positive_int_or 0 (js_Number e)
        \<and> inv w' \<and> view w' k = r' \<and> normalizeVersion r' = normalizeVersion (view w k) + 1"
    using pd w2 u by (intro exI [of _ k]) auto
next
  fix w r e err w'
  assume i: "inv w" and u: "pl_update K r e w = (Inl err, w')"
  show "w' = w"
  proof (cases "pl_update_plan (view w) r e")
    case (Inl a)
    then show ?thesis using u by (simp add: pl_update_plan_run [OF i])
  next
    case (Inr a)
    then obtain k nxt pk l where plan: "pl_update_plan (view w) r e = Inr (k, nxt, pk, l)"
      by (cases a) auto
    show ?thesis using pl_update_run [OF i plan] u by (metis Pair_inject sum.distinct(1))
  qed
qed

sublocale kv_store \<subseteq> ha: versioned_store "ha_update K" ha_slot view inv
proof
  fix w r e r' w'
  assume i: "inv w" and u: "ha_update K r e w = (Inr r', w')"
  then obtain k nxt where plan: "ha_update_plan (view w) r e = Inr (k, nxt)"
    by (auto simp: ha_update_plan_run [OF i] split: sum.splits)
  note pd = ha_update_planD [OF plan]
  obtain w2 where w2: "ha_update K r e w = (Inr nxt, w2)" "inv w2" "view w2 = (view w)(k := nxt)"
    using ha_update_run [OF i plan] by blast
  have "normalizeVersion nxt = normalizeVersion (view w k) + 1"
    unfolding pd(4) by (rule version_bump) (rule cloneJsonValue_object [OF pd(5)])
  then show "\<exists>k. ha_slot r = Inr k \<and> view w k \<noteq> JUndef
        \<and> normalizeVersion (view w k) = positive_int_or 0 (js_Number e)
        \<and> inv w' \<and> view w' k = r' \<and> normalizeVersion r' = normalizeVersion (view w k) + 1"
    using pd w2 u by (intro exI [of _ k]) auto
next
  fix w r e err w'
  assume i: "inv w" and u: "ha_update K r e w = (Inl err, w')"
  show "w' = w"
  proof (cases "ha_update_plan (view w) r e")
    case (Inl a)
    then show ?thesis using u by (simp add: ha_update_plan_run [OF i])
  next
    case (Inr a)
    then obtain k nxt where plan: "ha_update_plan (view w) r e = Inr (k, nxt)"
      by (cases a) auto
    show ?thesis using ha_update_run [OF i plan] u by (metis Pair_inject sum.distinct(1))
  qed
qed

end
