(* ===== verification/PeerLink_Event_Log.thy ===== *)
theory PeerLink_Event_Log
  imports PeerLink_Storage_Laws
begin

text \<open>
  The lifecycle-event store of \<open>createKeyValueBackedPeerLinkStorage.js\<close> refines an
  append-only log: \<open>ev_log\<close> is the abstract log of one account (event ids with the peer
  link they belong to, oldest first), \<open>ev_rel\<close> relates it to what the store holds, and
  the cursor paging of \<open>listByPeerLinkId\<close> is shown to enumerate it.
\<close>

definition ev_rk :: "string \<Rightarrow> string \<Rightarrow> string" where
  "ev_rk o1 e = ''peer-link:events:'' @ o1 @ ''::'' @ e"

definition ev_lk :: "string \<Rightarrow> string \<Rightarrow> string" where
  "ev_lk o1 l = ''peer-link:events:index:'' @ o1 @ ''::'' @ l"

lemma ev_keys [simp]:
  "clean_id o1 \<Longrightarrow> clean_id e \<Longrightarrow> ev_recordKey (JStr o1) (JStr e) = Inr (ev_rk o1 e)"
  "clean_id o1 \<Longrightarrow> clean_id l \<Longrightarrow> ev_indexKey (JStr o1) (JStr l) = Inr (ev_lk o1 l)"
  by (simp_all add: ev_recordKey_def ev_indexKey_def ev_rk_def ev_lk_def)

lemma ev_rk_inj [simp]: "ev_rk o1 e = ev_rk o1 e' \<longleftrightarrow> e = e'"
  and ev_lk_inj [simp]: "ev_lk o1 l = ev_lk o1 l' \<longleftrightarrow> l = l'"
  by (simp_all add: ev_rk_def ev_lk_def)

lemma ev_rk_neq_lk: "plain_owner o1 \<Longrightarrow> ev_rk o1 e \<noteq> ev_lk o2 l"
proof
  assume "plain_owner o1" and "ev_rk o1 e = ev_lk o2 l"
  then have "o1 @ ''::'' @ e = ''index'' @ ('':'' @ o2 @ ''::'' @ l)"
    by (simp add: ev_rk_def ev_lk_def)
  then have "prefix ''index'' o1" by (rule sep_prefix) simp
  with \<open>plain_owner o1\<close> show False by (simp add: plain_owner_def)
qed

section \<open>The abstract log\<close>

type_synonym ev_log = "(string \<times> string) list"

text \<open>Appending an event id that is known for the same peer link changes nothing; for
  another peer link it is refused.\<close>

definition log_append :: "string \<Rightarrow> string \<Rightarrow> ev_log \<Rightarrow> ev_log option" where
  "log_append e l lg =
     (case map_of lg e of
        None \<Rightarrow> Some (lg @ [(e, l)])
      | Some l' \<Rightarrow> if l' = l then Some lg else None)"

definition log_of_link :: "string \<Rightarrow> ev_log \<Rightarrow> string list" where
  "log_of_link l lg = map fst (filter (\<lambda>(e, l'). l' = l) lg)"

text \<open>What the store holds for an account when its log is \<open>lg\<close>.\<close>

definition ev_entry_ok :: "(string \<Rightarrow> jsval) \<Rightarrow> string \<Rightarrow> string \<Rightarrow> string \<Rightarrow> bool" where
  "ev_entry_ok v o1 e l \<longleftrightarrow> clean_id e \<and> clean_id l \<and> is_plain_object (v (ev_rk o1 e))
     \<and> getp (v (ev_rk o1 e)) ''peerLinkId'' = JStr l
     \<and> js_trim (str_or_empty (getp (v (ev_rk o1 e)) ''eventId'')) = e"

definition ev_rel :: "(string \<Rightarrow> jsval) \<Rightarrow> string \<Rightarrow> ev_log \<Rightarrow> bool" where
  "ev_rel v o1 lg \<longleftrightarrow> distinct (map fst lg)
     \<and> (\<forall>l. clean_id l \<longrightarrow> index_list (v (ev_lk o1 l)) = map JStr (log_of_link l lg))
     \<and> (\<forall>e. clean_id e \<longrightarrow> v (ev_rk o1 e) \<noteq> JUndef \<longrightarrow> e \<in> fst ` set lg)
     \<and> (\<forall>(e, l)\<in>set lg. ev_entry_ok v o1 e l)"

text \<open>An event the SDK appends: its ids are trimmed strings.\<close>

definition ev_event :: "jsval \<Rightarrow> string \<Rightarrow> string \<Rightarrow> string \<Rightarrow> bool" where
  "ev_event r o1 e l \<longleftrightarrow> is_plain_object r \<and> clean_id o1 \<and> clean_id e \<and> clean_id l
     \<and> getp r ''ownerAccountId'' = JStr o1 \<and> getp r ''eventId'' = JStr e \<and> getp r ''peerLinkId'' = JStr l"

lemma ev_event_clone:
  assumes "ev_event r o1 e l"
  shows "getp (cloneJsonValue r) ''eventId'' = JStr e" "getp (cloneJsonValue r) ''peerLinkId'' = JStr l"
    "is_plain_object (cloneJsonValue r)" "json_clean (cloneJsonValue r)" "cloneJsonValue r \<noteq> JNull"
    "cloneJsonValue r \<noteq> JUndef"
  using assms getp_clone [of r "''eventId''" "JStr e"] getp_clone [of r "''peerLinkId''" "JStr l"]
    cloneJsonValue_object [of r] by (auto simp: ev_event_def)

lemma ev_rel_append:
  assumes rel: "ev_rel v o1 lg" and own: "plain_owner o1" and ev: "ev_event r o1 e l"
    and fresh: "e \<notin> fst ` set lg"
    and v': "v' = v(ev_rk o1 e := cloneJsonValue r,
                    ev_lk o1 l := JArr (index_list (v (ev_lk o1 l)) @ [JStr e]))"
  shows "ev_rel v' o1 (lg @ [(e, l)])"
proof -
  have keys [simp]: "ev_rk o1 a \<noteq> ev_lk o1 b" "ev_lk o1 b \<noteq> ev_rk o1 a" for a b
    by (simp_all add: ev_rk_neq_lk [OF own] ev_rk_neq_lk [OF own, THEN not_sym])
  note c = ev_event_clone [OF ev]
  have ids: "clean_id e" "clean_id l" using ev by (simp_all add: ev_event_def)
  have "index_list (v' (ev_lk o1 k)) = map JStr (log_of_link k (lg @ [(e, l)]))" if "clean_id k" for k
    using rel ids that by (auto simp: v' ev_rel_def log_of_link_def index_list_def)
  moreover have "ev_entry_ok v' o1 a b" if "(a, b) \<in> set lg" for a b
  proof -
    have "a \<noteq> e" using that fresh by force
    then show ?thesis using rel that by (fastforce simp: ev_entry_ok_def v' ev_rel_def)
  qed
  moreover have "ev_entry_ok v' o1 e l"
    using ids c by (simp add: ev_entry_ok_def v' clean_id_def)
  ultimately show ?thesis
    using rel fresh by (auto simp: ev_rel_def v' split: if_splits)
qed

context kv_store
begin

lemma ev_append_fresh:
  assumes "inv w" "ev_event r o1 e l" "view w (ev_rk o1 e) = JUndef" "plain_owner o1"
  obtains w' where "ev_append K r w = (Inr (cloneJsonValue r), w')" "inv w'"
    "view w' = (view w)(ev_rk o1 e := cloneJsonValue r,
        ev_lk o1 l := JArr (index_list (view w (ev_lk o1 l)) @ [JStr e]))"
proof -
  note c = ev_event_clone [OF assms(2)]
  have ids: "clean_id o1" "clean_id e" "clean_id l" "is_plain_object r"
    "getp r ''ownerAccountId'' = JStr o1" "getp r ''eventId'' = JStr e" "getp r ''peerLinkId'' = JStr l"
    using assms(2) by (simp_all add: ev_event_def)
  obtain w1 where w1: "kv_set K (ev_rk o1 e) (cloneJsonValue r) w = (Inr (), w1)" "inv w1"
    "view w1 = (view w)(ev_rk o1 e := cloneJsonValue r)"
    using set_run [OF assms(1) c(4,5)] by blast
  have keep: "view w1 (ev_lk o1 l) = view w (ev_lk o1 l)"
    using w1(3) ev_rk_neq_lk [OF assms(4), of e o1 l] by auto
  have clean: "json_clean (JArr (index_list (view w (ev_lk o1 l)) @ [JStr e]))"
    using view_clean [OF assms(1), of "ev_lk o1 l"]
    by (auto simp: index_list_def split: jsval.splits)
  obtain w2 where w2: "kv_set K (ev_lk o1 l) (JArr (index_list (view w (ev_lk o1 l)) @ [JStr e])) w1 = (Inr (), w2)"
    "inv w2" "view w2 = (view w1)(ev_lk o1 l := JArr (index_list (view w (ev_lk o1 l)) @ [JStr e]))"
    using set_run [OF w1(2) clean] by blast
  have "ev_append K r w = (Inr (cloneJsonValue r), w2)"
    using ids assms(3) w1 w2(1) c keep
    by (simp add: ev_append_def assertRecord_def bindE_def get_law [OF assms(1)] get_law [OF w1(2)] Let_def)
  then show ?thesis using that w1(3) w2(2,3) by simp
qed

text \<open>The store implements the abstract append, in the three cases of the code.\<close>

lemma ev_append_refines:
  assumes "inv w" "plain_owner o1" "ev_event r o1 e l" "ev_rel (view w) o1 lg"
  shows "case log_append e l lg of
      None \<Rightarrow> \<exists>err. ev_append K r w = (Inl err, w)
    | Some lg' \<Rightarrow> \<exists>r' w'. ev_append K r w = (Inr r', w') \<and> inv w' \<and> ev_rel (view w') o1 lg'
        \<and> view w' (ev_rk o1 e) = r' \<and> r' \<noteq> JUndef"
proof (cases "map_of lg e")
  case None
  then have fresh: "e \<notin> fst ` set lg" by (simp add: map_of_eq_None_iff)
  then have undef: "view w (ev_rk o1 e) = JUndef"
    using assms(3,4) by (auto simp: ev_rel_def ev_event_def)
  obtain w' where w': "ev_append K r w = (Inr (cloneJsonValue r), w')" "inv w'"
    "view w' = (view w)(ev_rk o1 e := cloneJsonValue r,
        ev_lk o1 l := JArr (index_list (view w (ev_lk o1 l)) @ [JStr e]))"
    using ev_append_fresh [OF assms(1,3) undef assms(2)] by blast
  have "ev_rel (view w') o1 (lg @ [(e, l)])"
    by (rule ev_rel_append [OF assms(4,2,3) fresh w'(3)])
  then show ?thesis
    using None w' ev_event_clone [OF assms(3)] ev_rk_neq_lk [OF assms(2), of e o1 l]
    by (simp add: log_append_def)
next
  case (Some l')
  then have ok: "ev_entry_ok (view w) o1 e l'"
    using assms(4) map_of_SomeD [OF Some] by (auto simp: ev_rel_def)
  then have ex: "view w (ev_rk o1 e) \<noteq> JUndef" "is_object (view w (ev_rk o1 e))"
    by (auto simp: ev_entry_ok_def is_plain_object_iff)
  have ids: "clean_id o1" "clean_id e" "clean_id l" "is_plain_object r"
    "getp r ''ownerAccountId'' = JStr o1" "getp r ''eventId'' = JStr e" "getp r ''peerLinkId'' = JStr l"
    using assms(3) by (simp_all add: ev_event_def)
  show ?thesis
    using Some ok ex ids assms
    by (auto simp: ev_append_def log_append_def assertRecord_def bindE_def get_law ev_entry_ok_def clone_view)
qed

end

section \<open>Paging\<close>

text \<open>A client that follows the cursors of \<open>listByPeerLinkId\<close> with a page size, for at most
  \<open>fuel\<close> pages; \<open>None\<close> when a page fails or the fuel is spent.\<close>

definition page_options :: "nat \<Rightarrow> string option \<Rightarrow> jsval" where
  "page_options n cursor =
     JObj ((''limit'', JInt (int n)) # (case cursor of None \<Rightarrow> [] | Some c \<Rightarrow> [(''cursor'', JStr c)]))"

fun ev_pages :: "'w kv_ops \<Rightarrow> string \<Rightarrow> string \<Rightarrow> nat \<Rightarrow> nat \<Rightarrow> string option \<Rightarrow> 'w \<Rightarrow> jsval list option" where
  "ev_pages K o1 l n 0 cursor w = None"
| "ev_pages K o1 l n (Suc fuel) cursor w =
     (case ev_listByPeerLinkId K (JStr o1) (JStr l) (page_options n cursor) w of
        (Inl _, _) \<Rightarrow> None
      | (Inr (items, None), _) \<Rightarrow> Some items
      | (Inr (items, Some c), w') \<Rightarrow> map_option ((@) items) (ev_pages K o1 l n fuel (Some c) w'))"

lemma page_options_norm:
  assumes "0 < n" "\<And>c. cursor = Some c \<Longrightarrow> js_trim c \<noteq> []"
  shows "normalizeListOptions (page_options n cursor) = (Some n, map_option js_trim cursor)"
  using assms by (cases cursor) (auto simp: normalizeListOptions_def page_options_def)

lemma index_of_JStr:
  "distinct xs \<Longrightarrow> i < length xs \<Longrightarrow> index_of (JStr (xs ! i)) (map JStr xs) = Some i"
proof (induction xs arbitrary: i)
  case (Cons x xs)
  then show ?case by (cases i) auto
qed simp

lemma window_start_nth:
  "distinct xs \<Longrightarrow> i < length xs \<Longrightarrow> window_start (Some (xs ! i)) (map JStr xs) = Suc i"
  by (simp add: window_start_def index_of_JStr)

lemma distinct_log_of_link: "distinct (map fst lg) \<Longrightarrow> distinct (log_of_link l lg)"
  by (auto simp: log_of_link_def distinct_map inj_on_def intro: distinct_filter)

context kv_store
begin

lemma ev_rel_entry:
  assumes "ev_rel (view w) o1 lg" "e \<in> set (log_of_link l lg)"
  shows "clean_id e" "is_plain_object (view w (ev_rk o1 e))" "view w (ev_rk o1 e) \<noteq> JUndef"
    "js_trim (str_or_empty (getp (view w (ev_rk o1 e)) ''eventId'')) = e"
  using assms by (force simp: ev_rel_def log_of_link_def ev_entry_ok_def)+

lemma ev_mapE_records:
  assumes "inv w" "clean_id o1" "ev_rel (view w) o1 lg" "set xs \<subseteq> set (log_of_link l lg)"
  shows "mapE (\<lambda>eventId. bindE (liftE (ev_recordKey (JStr o1) eventId)) (kv_get K)) (map JStr xs) w
     = (Inr (map (\<lambda>e. view w (ev_rk o1 e)) xs), w)"
  using assms(4)
proof (induction xs)
  case (Cons x xs)
  have "clean_id x" using ev_rel_entry(1) [OF assms(3), of x l] Cons.prems by simp
  then show ?case using Cons assms(1,2) by (simp add: bindE_def get_law)
qed simp

lemma ev_page:
  assumes "inv w" "clean_id o1" "clean_id l" "ev_rel (view w) o1 lg" "0 < n"
    and xs: "xs = log_of_link l lg"
    and cur: "cursor = None \<and> k = 0 \<or> (\<exists>i c. cursor = Some c \<and> i < length xs \<and> js_trim c = xs ! i \<and> k = Suc i)"
  shows "\<exists>nc. ev_listByPeerLinkId K (JStr o1) (JStr l) (page_options n cursor) w =
      (Inr (map (\<lambda>e. view w (ev_rk o1 e)) (take n (drop k xs)), nc), w) \<and>
      (if k + n < length xs then \<exists>c. nc = Some c \<and> js_trim c = xs ! (k + n - 1) else nc = None)"
proof -
  have dist: "distinct xs" using assms(4) by (simp add: xs ev_rel_def distinct_log_of_link)
  have idx: "index_list (view w (ev_lk o1 l)) = map JStr xs"
    using assms(3,4) by (simp add: ev_rel_def xs)
  have ne: "js_trim c \<noteq> []" if "cursor = Some c" for c
  proof -
    have "js_trim c \<in> set (log_of_link l lg)" using cur that xs by auto
    then show ?thesis using ev_rel_entry(1) [OF assms(4)] by (simp add: clean_id_def)
  qed
  have start: "window_start (map_option js_trim cursor) (map JStr xs) = k"
    using cur dist by (auto simp: window_start_nth) (simp add: window_start_def)
  let ?ys = "take n (drop k xs)"
  have sub: "set ?ys \<subseteq> set (log_of_link l lg)" unfolding xs by (meson set_drop_subset set_take_subset subset_trans)
  have recs: "map cloneJsonValue (filter (\<lambda>r. r \<noteq> JUndef) (map (\<lambda>e. view w (ev_rk o1 e)) ?ys))
      = map (\<lambda>e. view w (ev_rk o1 e)) ?ys"
  proof -
    have "\<forall>e\<in>set ?ys. view w (ev_rk o1 e) \<noteq> JUndef" using sub ev_rel_entry(3) [OF assms(4)] by blast
    then have "filter (\<lambda>r. r \<noteq> JUndef) (map (\<lambda>e. view w (ev_rk o1 e)) ?ys) = map (\<lambda>e. view w (ev_rk o1 e)) ?ys"
      by (intro filter_True) auto
    then show ?thesis using clone_view [OF assms(1)] by simp
  qed
  have last: "js_trim (str_or_empty (getp (last (map (\<lambda>e. view w (ev_rk o1 e)) ?ys)) ''eventId'')) = xs ! (k + n - 1)"
    if "k + n < length xs"
  proof -
    have "?ys \<noteq> []" and l: "last ?ys = xs ! (k + n - 1)"
      using that assms(5) by (auto simp: last_conv_nth min_def)
    then show ?thesis using ev_rel_entry(4) [OF assms(4)] sub by (metis last_in_set last_map subsetD)
  qed
  show ?thesis
    using assms(1-3,5) last recs
    by (auto simp: ev_listByPeerLinkId_def bindE_def get_law page_options_norm [OF assms(5) ne] idx start
        window_ids_def drop_map take_map ev_mapE_records [OF assms(1,2,4) sub] Let_def)
qed

text \<open>Following the cursors from any point enumerates the rest of the log.\<close>

lemma ev_pages_from:
  assumes "inv w" "clean_id o1" "clean_id l" "ev_rel (view w) o1 lg" "0 < n"
    and xs: "xs = log_of_link l lg"
    and "cursor = None \<and> k = 0 \<or> (\<exists>i c. cursor = Some c \<and> i < length xs \<and> js_trim c = xs ! i \<and> k = Suc i)"
    and "length xs - k < fuel"
  shows "ev_pages K o1 l n fuel cursor w = Some (map (\<lambda>e. view w (ev_rk o1 e)) (drop k xs))"
  using assms(7,8)
proof (induction fuel arbitrary: cursor k)
  case (Suc fuel)
  obtain nc where nc: "ev_listByPeerLinkId K (JStr o1) (JStr l) (page_options n cursor) w =
      (Inr (map (\<lambda>e. view w (ev_rk o1 e)) (take n (drop k xs)), nc), w)"
    "if k + n < length xs then \<exists>c. nc = Some c \<and> js_trim c = xs ! (k + n - 1) else nc = None"
    using ev_page [OF assms(1-6) Suc.prems(1)] by blast
  show ?case
  proof (cases "k + n < length xs")
    case True
    then obtain c where c: "nc = Some c" "js_trim c = xs ! (k + n - 1)" using nc(2) by auto
    have "ev_pages K o1 l n fuel (Some c) w = Some (map (\<lambda>e. view w (ev_rk o1 e)) (drop (k + n) xs))"
      using c True assms(5) Suc.prems(2)
      by (intro Suc.IH disjI2 exI [of _ "k + n - 1"] exI [of _ c]) auto
    moreover have "drop k xs = take n (drop k xs) @ drop (k + n) xs"
      by (metis append_take_drop_id drop_drop add.commute)
    ultimately show ?thesis
      using nc(1) c(1) by (metis (no_types, lifting) ev_pages.simps(2) map_append option.simps(5,9) prod.case sum.case(2))
  next
    case False
    then show ?thesis using nc by (simp add: take_all)
  qed
qed simp

end

end
