(* ===== verification/PeerLink_Storage_Props.thy ===== *)
theory PeerLink_Storage_Props
  imports PeerLink_Event_Log
begin

text \<open>
  The peer-link storage on the browser's provider: the laws of the library theories, read
  off the interpretation of the host contract by the IndexedDB model. \<open>getPeerLinkStorage owner\<close> is the
  storage bundle a client of account \<open>owner\<close> works with.
\<close>

definition getPeerLinkStorage :: "(string \<Rightarrow> string \<Rightarrow> bool) \<Rightarrow> string option \<Rightarrow> idb pl_storage" where
  "getPeerLinkStorage collate owner = createKeyValueBackedPeerLinkStorage collate (getKeyValueStore owner)"

abbreviation owner_part :: "string option \<Rightarrow> string" where
  "owner_part owner \<equiv> kv_partition (case owner of None \<Rightarrow> [] | Some o1 \<Rightarrow> js_trim o1)"

lemma pls_ops:
  "peerLinks_update (getPeerLinkStorage c owner) = pl_update (absenceNormalizingStore (idb_kv (owner_part owner)))"
  "peerLinks_create (getPeerLinkStorage c owner) = pl_create (absenceNormalizingStore (idb_kv (owner_part owner)))"
  "peerLinks_getById (getPeerLinkStorage c owner) = pl_getById (absenceNormalizingStore (idb_kv (owner_part owner)))"
  "peerLinks_getByPair (getPeerLinkStorage c owner) = pl_getByPair (absenceNormalizingStore (idb_kv (owner_part owner)))"
  "handshakeAttempts_update (getPeerLinkStorage c owner) = ha_update (absenceNormalizingStore (idb_kv (owner_part owner)))"
  "sessions_put (getPeerLinkStorage c owner) = ss_put (absenceNormalizingStore (idb_kv (owner_part owner)))"
  "sessions_delete (getPeerLinkStorage c owner) = ss_delete (absenceNormalizingStore (idb_kv (owner_part owner)))"
  "sessions_getById (getPeerLinkStorage c owner) = ss_getById (absenceNormalizingStore (idb_kv (owner_part owner)))"
  "sessions_getByPeerLinkAndDevice (getPeerLinkStorage c owner) =
     ss_getByPeerLinkAndDevice (absenceNormalizingStore (idb_kv (owner_part owner)))"
  "events_append (getPeerLinkStorage c owner) = ev_append (absenceNormalizingStore (idb_kv (owner_part owner)))"
  by (simp_all add: getPeerLinkStorage_def createKeyValueBackedPeerLinkStorage_def getKeyValueStore_def Let_def)

section \<open>Partitions\<close>

lemma hex_char_inj: "a < 16 \<Longrightarrow> b < 16 \<Longrightarrow> hex_char a = hex_char b \<Longrightarrow> a = b"
  by (auto simp: hex_char_def split: if_splits dest!: arg_cong [where f = "of_char :: char \<Rightarrow> nat"])

lemma pct_inj: "a < 256 \<Longrightarrow> b < 256 \<Longrightarrow> pct a = pct b \<Longrightarrow> a = b"
proof -
  assume "a < 256" "b < 256" "pct a = pct b"
  then have "a div 16 = b div 16" "a mod 16 = b mod 16"
    by (auto simp: pct_def intro!: hex_char_inj)
  then show ?thesis by (metis div_mult_mod_eq)
qed

lemma pct_append_inj:
  "a < 256 \<Longrightarrow> b < 256 \<Longrightarrow> pct a @ xs = pct b @ ys \<Longrightarrow> a = b \<and> xs = ys"
  using pct_inj [of a b] by (auto simp: pct_def)

lemma char_code_less: "(of_char c :: nat) < 256"
  by (simp add: of_char_def)

lemma lead_octet: "192 + (of_char c :: nat) div 64 < 256"
proof -
  have "(of_char c :: nat) \<le> 255" using char_code_less [of c] by linarith
  then have "(of_char c :: nat) div 64 \<le> 255 div 64" by (rule div_le_mono)
  then show ?thesis by simp
qed

lemma not_unreserved_pct: "\<not> unreserved (CHR ''%'')" "\<not> unreserved (CHR ''/'')"
  by (simp_all add: unreserved_def)

lemma encode_char_append_inj:
  assumes "encode_char c @ xs = encode_char d @ ys"
  shows "c = d \<and> xs = ys"
proof -
  let ?n = "of_char c :: nat" and ?m = "of_char d :: nat"
  have inj: "?n = ?m \<Longrightarrow> c = d" by simp
  have b: "?n < 256" "?m < 256" by (rule char_code_less)+
  note lead = lead_octet [of c] lead_octet [of d]
  have uni: "encode_char e = [e]" if "unreserved e" for e using that by (simp add: encode_char_def)
  have pc: "hd (encode_char e @ zs) = CHR ''%''" if "\<not> unreserved e" for e zs
    using that by (simp add: encode_char_def Let_def pct_def)
  consider "unreserved c" "unreserved d" | "unreserved c \<noteq> unreserved d"
    | "\<not> unreserved c" "\<not> unreserved d" by blast
  then show ?thesis
  proof cases
    case 1
    then show ?thesis using assms uni by simp
  next
    case 2
    then show ?thesis using assms uni pc not_unreserved_pct by (metis append_Cons list.sel(1))
  next
    case 3
    consider "?n < 128" "?m < 128" | "?n < 128" "128 \<le> ?m" | "128 \<le> ?n" "?m < 128" | "128 \<le> ?n" "128 \<le> ?m"
      by linarith
    then show ?thesis
    proof cases
      case 1
      then show ?thesis using 3 assms inj pct_append_inj [of ?n ?m xs ys] by (simp add: encode_char_def Let_def)
    next
      case 2
      then show ?thesis
        using 3 assms lead pct_append_inj [of ?n "192 + ?m div 64" xs] by (auto simp: encode_char_def Let_def)
    next
      case c: 3
      then show ?thesis
        using 3 assms lead pct_append_inj [of "192 + ?n div 64" ?m _ ys] by (auto simp: encode_char_def Let_def)
    next
      case 4
      have q: "192 + ?n div 64 < 256" "192 + ?m div 64 < 256" "128 + ?n mod 64 < 256" "128 + ?m mod 64 < 256"
        using lead by auto
      have "pct (192 + ?n div 64) @ pct (128 + ?n mod 64) @ xs = pct (192 + ?m div 64) @ pct (128 + ?m mod 64) @ ys"
        using 3 4 assms by (simp add: encode_char_def Let_def)
      then have hi: "192 + ?n div 64 = 192 + ?m div 64"
        and "pct (128 + ?n mod 64) @ xs = pct (128 + ?m mod 64) @ ys"
        using pct_append_inj [OF q(1,2)] by blast+
      then have "128 + ?n mod 64 = 128 + ?m mod 64" "xs = ys"
        using pct_append_inj [OF q(3,4)] by blast+
      then have "?n div 64 = ?m div 64" "?n mod 64 = ?m mod 64" "xs = ys"
        using hi by simp_all
      then have "?n = ?m" by (metis div_mult_mod_eq)
      then show ?thesis using inj \<open>xs = ys\<close> by blast
    qed
  qed
qed

lemma slash_not_encoded: "CHR ''/'' \<notin> set (encode_char c)"
proof -
  have hx: "hex_char d \<noteq> CHR ''/''" if "d < 16" for d
    using that by (auto simp: hex_char_def dest!: arg_cong [where f = "of_char :: char \<Rightarrow> nat"])
  have p: "CHR ''/'' \<notin> set (pct n)" if "n < 256" for n
  proof -
    have "n div 16 < 16" using that by simp
    then show ?thesis using hx [of "n div 16"] hx [of "n mod 16"] by (auto simp: pct_def)
  qed
  have b: "(of_char c :: nat) < 256" by (rule char_code_less)
  have q: "192 + (of_char c :: nat) div 64 < 256" "128 + (of_char c :: nat) mod 64 < 256"
    using lead_octet by auto
  show ?thesis
    using not_unreserved_pct p [OF b] p [OF q(1)] p [OF q(2)] by (auto simp: encode_char_def Let_def)
qed

lemma slash_not_encodeURIComponent [simp]: "CHR ''/'' \<notin> set (encodeURIComponent s)"
  using slash_not_encoded by (auto simp: encodeURIComponent_def)

lemma encode_char_nonempty: "encode_char c \<noteq> []"
  by (simp add: encode_char_def Let_def pct_def)

lemma encodeURIComponent_inj: "encodeURIComponent s = encodeURIComponent t \<Longrightarrow> s = t"
proof (induction s arbitrary: t)
  case Nil
  then show ?case by (cases t) (auto simp: encodeURIComponent_def encode_char_nonempty)
next
  case (Cons c s)
  show ?case
  proof (cases t)
    case Nil
    then show ?thesis using Cons.prems by (simp add: encodeURIComponent_def encode_char_nonempty)
  next
    case (Cons d t')
    then have "encode_char c @ encodeURIComponent s = encode_char d @ encodeURIComponent t'"
      using Cons.prems by (simp add: encodeURIComponent_def)
    then show ?thesis using encode_char_append_inj Cons.IH Cons by blast
  qed
qed

lemma split_at_slash:
  assumes "a @ ''/'' @ x = b @ ''/'' @ y" "CHR ''/'' \<notin> set a" "CHR ''/'' \<notin> set b"
  shows "a = b"
  using assms
proof (induction a arbitrary: b)
  case Nil
  then show ?case by (cases b) auto
next
  case (Cons c a)
  then show ?case by (cases b) auto
qed

lemma kv_partition_disjoint:
  assumes "a \<noteq> b" "a \<noteq> []" "b \<noteq> []"
  shows "kv_partition a @ x \<noteq> kv_partition b @ y"
proof
  assume "kv_partition a @ x = kv_partition b @ y"
  then have "encodeURIComponent a @ ''/'' @ x = encodeURIComponent b @ ''/'' @ y"
    using assms by (simp add: kv_partition_def)
  then have "encodeURIComponent a = encodeURIComponent b"
    by (rule split_at_slash) simp_all
  with assms(1) show False using encodeURIComponent_inj by blast
qed

section \<open>Creating a link and deleting a session\<close>

text \<open>A peer-link record as the SDK creates it: trimmed string ids.\<close>

definition link_record :: "jsval \<Rightarrow> string \<Rightarrow> string \<Rightarrow> string \<Rightarrow> bool" where
  "link_record r o1 l p \<longleftrightarrow> is_plain_object r \<and> clean_id o1 \<and> clean_id l \<and> clean_id p
     \<and> getp r ''localAccountId'' = JStr o1 \<and> getp r ''peerLinkId'' = JStr l \<and> getp r ''peerAccountId'' = JStr p"

definition created :: "jsval \<Rightarrow> jsval" where
  "created r = set_prop ''version'' (JInt (normalizeVersion r)) (cloneJsonValue r)"

lemma created_facts:
  assumes "is_plain_object r"
  shows "json_clean (created r)" "created r \<noteq> JNull" "created r \<noteq> JUndef"
  using cloneJsonValue_object [OF assms] by (auto simp: created_def is_plain_object_iff)

lemma pl_pk_inj [simp]: "pl_pk o1 p = pl_pk o1 p' \<longleftrightarrow> p = p'"
  and pl_rk_inj [simp]: "pl_rk o1 l = pl_rk o1 l' \<longleftrightarrow> l = l'"
  by (simp_all add: pl_pk_def pl_rk_def)

context kv_store
begin

lemma pl_create_run:
  assumes "inv w" "link_record r o1 l p" "view w (pl_rk o1 l) = JUndef"
    and "index_id (view w (pl_pk o1 p)) \<in> {None, Some l}"
  obtains w' where "pl_create K r w = (Inr (created r), w')" "inv w'"
    "view w' = (view w)(pl_rk o1 l := created r, pl_pk o1 p := JStr l)"
proof -
  have r: "is_plain_object r" "clean_id o1" "clean_id l" "clean_id p" "getp r ''localAccountId'' = JStr o1"
    "getp r ''peerLinkId'' = JStr l" "getp r ''peerAccountId'' = JStr p"
    using assms(2) by (simp_all add: link_record_def)
  note c = created_facts [OF r(1)]
  obtain w1 where w1: "kv_set K (pl_rk o1 l) (created r) w = (Inr (), w1)" "inv w1"
    "view w1 = (view w)(pl_rk o1 l := created r)"
    using set_run [OF assms(1) c(1,2)] by blast
  obtain w2 where w2: "kv_set K (pl_pk o1 p) (JStr l) w1 = (Inr (), w2)" "inv w2"
    "view w2 = (view w1)(pl_pk o1 p := JStr l)"
    using set_run [OF w1(2), of "JStr l"] by auto
  have "pl_create K r w = (Inr (created r), w2)"
    using r assms(3,4) w1(1) w2(1) c
    by (auto simp: pl_create_def assertRecord_def bindE_def get_law [OF assms(1)] created_def [symmetric] Let_def)
  then show ?thesis using that w1(3) w2(2,3) by simp
qed

lemma pl_getById_run:
  "inv w \<Longrightarrow> clean_id o1 \<Longrightarrow> clean_id l \<Longrightarrow> pl_getById K (JStr o1) (JStr l) w = (Inr (view w (pl_rk o1 l)), w)"
  by (simp add: pl_getById_def bindE_def get_law clone_view)

lemma pl_getByPair_run:
  "inv w \<Longrightarrow> clean_id o1 \<Longrightarrow> clean_id p \<Longrightarrow> clean_id l \<Longrightarrow> view w (pl_pk o1 p) = JStr l \<Longrightarrow>
   pl_getByPair K (JStr o1) (JStr p) w = (Inr (view w (pl_rk o1 l)), w)"
  by (simp add: pl_getByPair_def bindE_def get_law pl_getById_run clean_id_nonempty)

text \<open>A created link is found again by its id and by its account pair, and a second link
  for the same pair is refused.\<close>

lemma pl_create_found:
  assumes "inv w" "link_record r o1 l p" "view w (pl_rk o1 l) = JUndef"
    and "index_id (view w (pl_pk o1 p)) \<in> {None, Some l}"
  shows "\<exists>w'. pl_create K r w = (Inr (created r), w') \<and> inv w'
      \<and> pl_getById K (JStr o1) (JStr l) w' = (Inr (created r), w')
      \<and> pl_getByPair K (JStr o1) (JStr p) w' = (Inr (created r), w')
      \<and> (\<forall>r2 l2. link_record r2 o1 l2 p \<longrightarrow> (\<exists>err. pl_create K r2 w' = (Inl err, w')))"
proof -
  obtain w' where w': "pl_create K r w = (Inr (created r), w')" "inv w'"
    "view w' = (view w)(pl_rk o1 l := created r, pl_pk o1 p := JStr l)"
    using pl_create_run [OF assms] by blast
  have ids: "clean_id o1" "clean_id l" "clean_id p" "is_plain_object r" using assms(2) by (simp_all add: link_record_def)
  note c = created_facts [OF ids(4)]
  have again: "\<exists>err. pl_create K r2 w' = (Inl err, w')" if "link_record r2 o1 l2 p" for r2 l2
    using that ids c clean_id_nonempty [OF ids(2)]
    by (cases "l2 = l") (auto simp: link_record_def pl_create_def assertRecord_def bindE_def requireE_def
        get_law [OF w'(2)] w'(3))
  show ?thesis
    using w' ids again by (auto simp: pl_getById_run pl_getByPair_run)
qed

text \<open>Deleting a device's session removes the record and its index entry.\<close>

lemma ss_delete_run:
  assumes "inv w" "plain_owner o1" "clean_id l" "clean_id s" "clean_id d"
    and "getp (view w (ss_rk o1 s)) ''peerLinkId'' = JStr l"
    and "trimmed (getp (view w (ss_rk o1 s)) ''peerDeviceId'') = d"
    and "view w (ss_dk o1 l d) = JStr s"
  shows "\<exists>w'. ss_delete K (JStr o1) (JStr s) w = (Inr True, w') \<and> inv w'
     \<and> view w' = (view w)(ss_rk o1 s := JUndef, ss_dk o1 l d := JUndef)"
proof -
  have o1: "clean_id o1" using assms(2) by (simp add: plain_owner_def)
  have obj: "is_object (view w (ss_rk o1 s))" "view w (ss_rk o1 s) \<noteq> JUndef"
    using assms(6) by (cases "view w (ss_rk o1 s)"; simp)+
  obtain w1 where w1: "kv_delete K (ss_rk o1 s) w = (Inr (view w (ss_rk o1 s) \<noteq> JUndef), w1)" "inv w1"
    "view w1 = (view w)(ss_rk o1 s := JUndef)"
    using delete_run [OF assms(1)] by blast
  have idx: "view w1 (ss_dk o1 l d) = JStr s"
    using w1(3) assms(8) ss_rk_neq_dk [OF assms(2), of s o1 l d] by auto
  obtain w2 where w2: "kv_delete K (ss_dk o1 l d) w1 = (Inr True, w2)" "inv w2"
    "view w2 = (view w1)(ss_dk o1 l d := JUndef)"
    using delete_run [OF w1(2), of "ss_dk o1 l d"] idx by auto
  have "ss_delete K (JStr o1) (JStr s) w = (Inr True, w2)"
    using assms o1 obj w1 w2(1) idx clean_id_nonempty [OF assms(3)] clean_id_nonempty [OF assms(5)]
    by (simp add: ss_delete_def bindE_def get_law Let_def)
  then show ?thesis using w1(3) w2(2,3) by simp
qed

end

section \<open>Properties\<close>

text \<open>C16. Optimistic locking of the peer-link store (\<open>KeyValuePeerLinkStore.update\<close>): of two
  updates of the same link that were based on the same version, whatever they write, the
  second one is refused and leaves the database as the first one left it. No update is lost
  silently.\<close>

theorem peer_link_no_lost_update:
  assumes "idb_inv db"
    and "peerLinks_update (getPeerLinkStorage collate owner) r1 e db = (Inr r1', db1)"
    and "pl_slot r2 = pl_slot r1"
  shows "\<exists>err. peerLinks_update (getPeerLinkStorage collate owner) r2 e db1 = (Inl err, db1)"
  using assms idbh.nrm.pl.no_lost_update unfolding pls_ops by blast

text \<open>The version of a handshake attempt counts its successful updates: after any sequence
  of attempted updates of one attempt (\<open>KeyValueHandshakeAttemptStore.update\<close>), stale ones
  included, the stored version has grown by exactly the number that succeeded.\<close>

theorem handshake_version_counts_updates:
  assumes "idb_inv db" and "\<forall>(r, e)\<in>set us. ha_slot r = Inr k"
    and "run_updates (handshakeAttempts_update (getPeerLinkStorage collate owner)) us db = (n, db')"
  shows "normalizeVersion (idb_view (owner_part owner) db' k)
           = normalizeVersion (idb_view (owner_part owner) db k) + int n \<and> idb_inv db'"
  using assms idbh.nrm.ha.version_counts_updates unfolding pls_ops by blast

text \<open>Creating a peer link (\<open>KeyValuePeerLinkStore.create\<close>) round-trips: the link is then
  found by its id and by its account pair, with the version the record asked for, and no
  other link can be created for the same pair of accounts.\<close>

theorem peer_link_create_roundtrip:
  assumes "idb_inv db" "link_record r o1 l p"
    and "idb_view (owner_part owner) db (pl_rk o1 l) = JUndef"
    and "index_id (idb_view (owner_part owner) db (pl_pk o1 p)) \<in> {None, Some l}"
  shows "\<exists>db'. peerLinks_create (getPeerLinkStorage collate owner) r db = (Inr (created r), db') \<and> idb_inv db'
      \<and> peerLinks_getById (getPeerLinkStorage collate owner) (JStr o1) (JStr l) db' = (Inr (created r), db')
      \<and> peerLinks_getByPair (getPeerLinkStorage collate owner) (JStr o1) (JStr p) db' = (Inr (created r), db')
      \<and> (\<forall>r2 l2. link_record r2 o1 l2 p \<longrightarrow>
            (\<exists>err. peerLinks_create (getPeerLinkStorage collate owner) r2 db' = (Inl err, db')))"
  unfolding pls_ops by (rule idbh.nrm.pl_create_found [OF assms])

text \<open>The sessions of a peer's devices are kept apart (\<open>KeyValueSecureSessionStore.put\<close> and
  \<open>getByPeerLinkAndDevice\<close>): writing the session of one device of a peer link is read back
  for that device, with the version counted up, and the session of every other device of
  that link reads exactly as before.\<close>

theorem session_devices_isolated:
  assumes "idb_inv db" "plain_owner o1" "ss_ids r s o1 l"
    and "d = trimmed (getp r ''peerDeviceId'')" "d \<noteq> []"
    and "dev_index_ok (idb_view (owner_part owner) db) o1 l"
    and "idb_view (owner_part owner) db (ss_rk o1 s) = JUndef \<or>
         trimmed (getp (idb_view (owner_part owner) db (ss_rk o1 s)) ''peerDeviceId'') = d"
  shows "\<exists>db'. sessions_put (getPeerLinkStorage collate owner) r db
           = (Inr (ss_next r (idb_view (owner_part owner) db (ss_rk o1 s))), db')
      \<and> sessions_getByPeerLinkAndDevice (getPeerLinkStorage collate owner) (JStr o1) (JStr l) (JStr d) db'
           = (Inr (ss_next r (idb_view (owner_part owner) db (ss_rk o1 s))), db')
      \<and> (\<forall>d'. clean_id d' \<longrightarrow> d' \<noteq> d \<longrightarrow>
           fst (sessions_getByPeerLinkAndDevice (getPeerLinkStorage collate owner) (JStr o1) (JStr l) (JStr d') db')
         = fst (sessions_getByPeerLinkAndDevice (getPeerLinkStorage collate owner) (JStr o1) (JStr l) (JStr d') db))"
proof -
  have ids: "clean_id o1" "clean_id l" "clean_id d"
    using assms(2,4,5) ss_ids_clean [OF assms(3)] trimmed_clean by (auto simp: plain_owner_def)
  obtain db' where db': "ss_put (absenceNormalizingStore (idb_kv (owner_part owner))) r db
      = (Inr (ss_next r (idb_view (owner_part owner) db (ss_rk o1 s))), db')" "idb_inv db'"
    "dev_index_ok (idb_view (owner_part owner) db') o1 l"
    "dev_session (idb_view (owner_part owner) db') o1 l d = ss_next r (idb_view (owner_part owner) db (ss_rk o1 s))"
    "\<And>d'. clean_id d' \<Longrightarrow> d' \<noteq> d \<Longrightarrow> dev_session (idb_view (owner_part owner) db') o1 l d'
       = dev_session (idb_view (owner_part owner) db) o1 l d'"
    using idbh.nrm.ss_put_device [OF assms] by blast
  note run = idbh.nrm.ss_getByPeerLinkAndDevice_run
  show ?thesis
    unfolding pls_ops using db' ids assms(1,6) by (auto simp: run)
qed

text \<open>C33. The event store refines an append-only log (\<open>KeyValuePeerLinkEventStore.append\<close>): a
  fresh event id is added at the end of its peer link's log, a known one for the same link
  changes nothing and returns the stored event, and a known one for another link is refused.\<close>

theorem event_append_refines_log:
  assumes "idb_inv db" "plain_owner o1" "ev_event r o1 e l" "ev_rel (idb_view (owner_part owner) db) o1 lg"
  shows "case log_append e l lg of
      None \<Rightarrow> \<exists>err. events_append (getPeerLinkStorage collate owner) r db = (Inl err, db)
    | Some lg' \<Rightarrow> \<exists>r' db'. events_append (getPeerLinkStorage collate owner) r db = (Inr r', db') \<and> idb_inv db'
        \<and> ev_rel (idb_view (owner_part owner) db') o1 lg'
        \<and> idb_view (owner_part owner) db' (ev_rk o1 e) = r' \<and> r' \<noteq> JUndef"
  unfolding pls_ops by (rule idbh.nrm.ev_append_refines [OF assms])

text \<open>C34. Cursor paging is complete (\<open>KeyValuePeerLinkEventStore.listByPeerLinkId\<close>): a client
  that asks for pages of any positive size and follows the cursor each page returns
  terminates and receives every event of the link exactly once, in the order of appending.\<close>

theorem event_paging_complete:
  assumes "idb_inv db" "clean_id o1" "clean_id l" "ev_rel (idb_view (owner_part owner) db) o1 lg" "0 < n"
  shows "ev_pages (absenceNormalizingStore (getKeyValueStore owner)) o1 l n (Suc (length (log_of_link l lg))) None db
     = Some (map (\<lambda>e. idb_view (owner_part owner) db (ev_rk o1 e)) (log_of_link l lg))"
  using idbh.nrm.ev_pages_from [OF assms refl, of None 0] by (simp add: getKeyValueStore_def del: ev_pages.simps)

text \<open>Accounts do not see each other's data (\<open>IndexedDbKeyValueStore\<close>): whatever one
  account's store writes or deletes, the store of another account reads the same values as
  before under every key, because \<open>encodeURIComponent\<close> keeps the key prefixes of different
  accounts apart.\<close>

theorem account_partitions_isolated:
  assumes "js_trim a \<noteq> js_trim b" "js_trim a \<noteq> []" "js_trim b \<noteq> []"
  shows "fst (kv_get (getKeyValueStore (Some b)) k2 (snd (kv_set (getKeyValueStore (Some a)) k v db)))
           = fst (kv_get (getKeyValueStore (Some b)) k2 db)
       \<and> fst (kv_get (getKeyValueStore (Some b)) k2 (snd (kv_delete (getKeyValueStore (Some a)) k db)))
           = fst (kv_get (getKeyValueStore (Some b)) k2 db)"
  using kv_partition_disjoint [OF assms, of k k2]
  by (auto simp: getKeyValueStore_def idb_kv_def bindE_def idb_put_def idb_get_def idb_del_def
      update_conv' delete_conv' Let_def)

section \<open>Witnesses\<close>

definition sample_link :: "string \<Rightarrow> string \<Rightarrow> jsval" where
  "sample_link l p = JObj [(''peerLinkId'', JStr l), (''localAccountId'', JStr ''alice''), (''peerAccountId'', JStr p)]"

definition sample_attempt :: "jsval" where
  "sample_attempt = JObj [(''handshakeAttemptId'', JStr ''h1''), (''ownerAccountId'', JStr ''alice''), (''version'', JInt 1)]"

definition sample_session :: "string \<Rightarrow> string \<Rightarrow> jsval" where
  "sample_session s d = JObj [(''sessionId'', JStr s), (''localAccountId'', JStr ''alice''),
     (''peerLinkId'', JStr ''link-1''), (''peerDeviceId'', JStr d)]"

definition sample_event :: "string \<Rightarrow> jsval" where
  "sample_event e = JObj [(''ownerAccountId'', JStr ''alice''), (''eventId'', JStr e), (''peerLinkId'', JStr ''link-1'')]"

definition db_with_link :: idb where
  "db_with_link = snd (peerLinks_create (getPeerLinkStorage (\<lambda>_ _. True) (Some ''alice'')) (sample_link ''link-1'' ''bob'') [])"

definition db_with_attempt :: idb where
  "db_with_attempt = snd (handshakeAttempts_create (getPeerLinkStorage (\<lambda>_ _. True) (Some ''alice'')) sample_attempt [])"

definition sample_link_slot :: string where "sample_link_slot = pl_rk ''alice'' ''link-1''"

theorem peer_link_no_lost_update_witness:
  "\<exists>db1 r1' err. peerLinks_update (getPeerLinkStorage (\<lambda>_ _. True) (Some ''alice'')) (sample_link ''link-1'' ''bob'') (JInt 1) db_with_link
       = (Inr r1', db1)
     \<and> peerLinks_update (getPeerLinkStorage (\<lambda>_ _. True) (Some ''alice'')) (sample_link ''link-1'' ''bob'') (JInt 1) db1 = (Inl err, db1)"
proof -
  have "idb_inv db_with_link" by code_simp
  moreover have "\<exists>r1' db1. peerLinks_update (getPeerLinkStorage (\<lambda>_ _. True) (Some ''alice'')) (sample_link ''link-1'' ''bob'') (JInt 1) db_with_link
       = (Inr r1', db1)"
    by (rule exI, rule exI, code_simp)
  ultimately show ?thesis using peer_link_no_lost_update by blast
qed

theorem handshake_version_counts_updates_witness:
  "ha_slot sample_attempt = Inr (ha_rk ''alice'' ''h1'')
   \<and> (\<exists>db'. run_updates (handshakeAttempts_update (getPeerLinkStorage (\<lambda>_ _. True) (Some ''alice'')))
            [(sample_attempt, JInt 1), (sample_attempt, JInt 1), (sample_attempt, JInt 2)] db_with_attempt = (2, db')
      \<and> normalizeVersion (idb_view (owner_part (Some ''alice'')) db' (ha_rk ''alice'' ''h1'')) = 3)"
proof -
  let ?us = "[(sample_attempt, JInt 1), (sample_attempt, JInt 1), (sample_attempt, JInt 2)]"
  let ?upd = "handshakeAttempts_update (getPeerLinkStorage (\<lambda>_ _. True) (Some ''alice''))"
  have inv: "idb_inv db_with_attempt" by code_simp
  have slot: "ha_slot sample_attempt = Inr (ha_rk ''alice'' ''h1'')" by code_simp
  have one: "normalizeVersion (idb_view (owner_part (Some ''alice'')) db_with_attempt (ha_rk ''alice'' ''h1'')) = 1"
    by code_simp
  obtain db' where run: "run_updates ?upd ?us db_with_attempt = (2, db')"
  proof -
    have "fst (run_updates ?upd ?us db_with_attempt) = 2" by code_simp
    then show ?thesis using that by (cases "run_updates ?upd ?us db_with_attempt") simp
  qed
  show ?thesis
    using handshake_version_counts_updates [OF inv _ run, of "ha_rk ''alice'' ''h1''"] slot one run by auto
qed

lemma sample_link_record: "link_record (sample_link ''link-1'' ''bob'') ''alice'' ''link-1'' ''bob''"
  by code_simp

theorem peer_link_create_roundtrip_witness:
  "\<exists>db'. peerLinks_create (getPeerLinkStorage (\<lambda>_ _. True) (Some ''alice'')) (sample_link ''link-1'' ''bob'') []
      = (Inr (created (sample_link ''link-1'' ''bob'')), db')
    \<and> peerLinks_getByPair (getPeerLinkStorage (\<lambda>_ _. True) (Some ''alice'')) (JStr ''alice'') (JStr ''bob'') db'
      = (Inr (created (sample_link ''link-1'' ''bob'')), db')"
proof -
  have "idb_inv []" "idb_view (owner_part (Some ''alice'')) [] (pl_rk ''alice'' ''link-1'') = JUndef"
    "index_id (idb_view (owner_part (Some ''alice'')) [] (pl_pk ''alice'' ''bob'')) \<in> {None, Some ''link-1''}"
    by code_simp+
  then show ?thesis using peer_link_create_roundtrip [OF _ sample_link_record] by blast
qed

lemma sample_session_facts:
  "idb_inv []" "plain_owner ''alice''" "ss_ids (sample_session ''s1'' ''dev-a'') ''s1'' ''alice'' ''link-1''"
  "''dev-a'' = trimmed (getp (sample_session ''s1'' ''dev-a'') ''peerDeviceId'')" "''dev-a'' \<noteq> []"
  by code_simp+

theorem session_devices_isolated_witness:
  "\<exists>db'. sessions_put (getPeerLinkStorage (\<lambda>_ _. True) (Some ''alice'')) (sample_session ''s1'' ''dev-a'') []
       = (Inr (ss_next (sample_session ''s1'' ''dev-a'') JUndef), db')
     \<and> sessions_getByPeerLinkAndDevice (getPeerLinkStorage (\<lambda>_ _. True) (Some ''alice'')) (JStr ''alice'') (JStr ''link-1'') (JStr ''dev-a'') db'
       = (Inr (ss_next (sample_session ''s1'' ''dev-a'') JUndef), db')"
proof -
  have "idb_view p [] k = JUndef" for p k by (simp add: idb_view_def)
  moreover have "dev_index_ok (idb_view p []) o1 l" for p o1 l
    by (simp add: dev_index_ok_def idb_view_def index_id_def)
  ultimately show ?thesis
    using session_devices_isolated [OF sample_session_facts,
        where owner = "Some ''alice''" and collate = "\<lambda>_ _. True"] by auto
qed

lemma ev_rel_empty: "ev_rel (idb_view p []) o1 []"
  by (simp add: ev_rel_def idb_view_def index_list_def log_of_link_def)

lemma sample_event_ok: "ev_event (sample_event ''e1'') ''alice'' ''e1'' ''link-1''"
  by code_simp

theorem event_append_refines_log_witness:
  "\<exists>r' db'. events_append (getPeerLinkStorage (\<lambda>_ _. True) (Some ''alice'')) (sample_event ''e1'') [] = (Inr r', db')
     \<and> ev_rel (idb_view (owner_part (Some ''alice'')) db') ''alice'' [(''e1'', ''link-1'')]"
  using event_append_refines_log [OF sample_session_facts(1,2) sample_event_ok ev_rel_empty,
      where owner = "Some ''alice''" and collate = "\<lambda>_ _. True"]
  by (auto simp: log_append_def)

lemma sample_log:
  obtains db where "idb_inv db"
    "ev_rel (idb_view (owner_part (Some ''alice'')) db) ''alice'' [(''e1'', ''link-1''), (''e2'', ''link-1'')]"
proof -
  note step = idbh.nrm.ev_append_refines [OF _ sample_session_facts(2)]
  obtain db1 where db1: "idb_inv db1"
    "ev_rel (idb_view (owner_part (Some ''alice'')) db1) ''alice'' [(''e1'', ''link-1'')]"
    using step [OF sample_session_facts(1) sample_event_ok ev_rel_empty, of "js_trim ''alice''"] by (auto simp: log_append_def)
  have "ev_event (sample_event ''e2'') ''alice'' ''e2'' ''link-1''" by code_simp
  then obtain db2 where "idb_inv db2"
    "ev_rel (idb_view (owner_part (Some ''alice'')) db2) ''alice'' [(''e1'', ''link-1''), (''e2'', ''link-1'')]"
    using step [OF db1(1) _ db1(2), of "sample_event ''e2''" "''e2''" "''link-1''"]
    by (auto simp: log_append_def)
  then show ?thesis using that by blast
qed

theorem event_paging_complete_witness:
  "\<exists>db items. ev_rel (idb_view (owner_part (Some ''alice'')) db) ''alice'' [(''e1'', ''link-1''), (''e2'', ''link-1'')]
     \<and> ev_pages (absenceNormalizingStore (getKeyValueStore (Some ''alice''))) ''alice'' ''link-1'' 1 3 None db = Some items
     \<and> length items = 2"
proof -
  obtain db where db: "idb_inv db"
    "ev_rel (idb_view (owner_part (Some ''alice'')) db) ''alice'' [(''e1'', ''link-1''), (''e2'', ''link-1'')]"
    by (rule sample_log)
  have c: "clean_id ''alice''" "clean_id ''link-1''" by code_simp+
  have "Suc (length (log_of_link ''link-1'' [(''e1'', ''link-1''), (''e2'', ''link-1'')])) = 3"
    by (simp add: log_of_link_def)
  then show ?thesis
    using event_paging_complete [OF db(1) c db(2), of 1] db(2)
    by (intro exI [of _ db]) (auto simp: log_of_link_def eval_nat_numeral simp del: ev_pages.simps)
qed

theorem account_partitions_isolated_witness:
  "fst (kv_get (getKeyValueStore (Some ''bob'')) ''k'' (snd (kv_set (getKeyValueStore (Some ''alice'')) ''k'' (JStr ''v'') [])))
     = Inr JUndef"
proof -
  have "js_trim ''alice'' \<noteq> js_trim ''bob''" "js_trim ''alice'' \<noteq> []" "js_trim ''bob'' \<noteq> []" by code_simp+
  moreover have "fst (kv_get (getKeyValueStore (Some ''bob'')) ''k'' []) = Inr JUndef" by code_simp
  ultimately show ?thesis using account_partitions_isolated by metis
qed

end
