(* ===== verification/Device_Sessions.thy ===== *)
theory Device_Sessions
  imports E2ee_Env PeerLink_Storage_Props
begin

text \<open>
  The per-device session machinery of \<open>src/peer-link/DevicePeerSessions.js\<close>: one independent
  ratchet session per device of a peer. Every public operation is modelled over an arbitrary
  environment; an operation runs alone (the per-device mutex \<open>#withLock\<close> of the class is what
  makes that so for one device).
\<close>

section \<open>Operations\<close>

definition requireNonEmpty :: "jsval \<Rightarrow> string \<Rightarrow> unit res" where
  "requireNonEmpty value label =
     (if trimmed value = [] then Inl (plain_err (''DevicePeerSessions requires '' @ label)) else Inr ())"

text \<open>A key-pair argument is \<open>None\<close> when it does not have the two byte arrays.\<close>

definition requireKeyPair :: "key_pair option \<Rightarrow> string \<Rightarrow> key_pair res" where
  "requireKeyPair kp label =
     (case kp of
        None \<Rightarrow> Inl (plain_err (''DevicePeerSessions requires '' @ label @ '' with publicKey/privateKey bytes''))
      | Some k \<Rightarrow> Inr k)"

text \<open>A byte-array argument is \<open>None\<close> when it is no \<open>Uint8Array\<close>.\<close>

definition requireBytes :: "bytes option \<Rightarrow> string \<Rightarrow> bytes res" where
  "requireBytes b msg =
     (case b of None \<Rightarrow> Inl (plain_err msg) | Some [] \<Rightarrow> Inl (plain_err msg) | Some xs \<Rightarrow> Inr xs)"

definition no_session :: "jsval \<Rightarrow> js_err" where
  "no_session peerDeviceId =
     code_err ''THREAD_NOT_READY'' (''No secure session for device '' @ js_String peerDeviceId)"

definition buildDevicePreKeyBundle ::
  "('w, 'm) e2ee_env \<Rightarrow> jsval \<Rightarrow> key_pair option \<Rightarrow> key_pair option \<Rightarrow> ('w, jsval \<times> jsval) io" where
  "buildDevicePreKeyBundle E ownerAccountId identityKeyPair identityDhKeyPair =
     bindE (liftE (requireNonEmpty ownerAccountId ''ownerAccountId'')) (\<lambda>_.
     bindE (liftE (requireKeyPair identityKeyPair ''identityKeyPair'')) (\<lambda>kp.
     bindE (liftE (requireKeyPair identityDhKeyPair ''identityDhKeyPair'')) (\<lambda>dh.
     bindE (liftE (scm E JUndef)) (\<lambda>m.
     prepareInviteBinding E m ownerAccountId kp dh))))"

definition persistDeviceSession ::
  "('w, 'm) e2ee_env \<Rightarrow> jsval \<Rightarrow> jsval \<Rightarrow> jsval \<Rightarrow> jsval \<Rightarrow> jsval \<Rightarrow> ('w, jsval) io" where
  "persistDeviceSession E ownerAccountId peerAccountId peerLinkId peerDeviceId snapshot =
     bindE (clock E) (\<lambda>now.
     bindE (sessions_getByPeerLinkAndDevice (storage E) ownerAccountId peerLinkId peerDeviceId) (\<lambda>existing.
     let hasExisting = is_object existing in
     bindE (if hasExisting \<and> js_truthy (getp existing ''sessionId'') then retE (getp existing ''sessionId'')
            else bindE (runtimeUuid E) (\<lambda>u. retE (JStr (''pls_'' @ u)))) (\<lambda>sessionId.
     let createdAtMs = (if hasExisting \<and> js_truthy (getp existing ''createdAtMs'')
                        then getp existing ''createdAtMs'' else JInt now) in
     bindE (sessions_put (storage E) (JObj
       [(''sessionId'', sessionId), (''peerLinkId'', peerLinkId), (''localAccountId'', ownerAccountId),
        (''peerAccountId'', peerAccountId), (''peerDeviceId'', peerDeviceId), (''status'', JStr ''active''),
        (''ratchetSnapshot'', snapshot), (''createdAtMs'', createdAtMs), (''updatedAtMs'', JInt now)])) (\<lambda>stored.
     retE (getp stored ''sessionId'')))))"

definition establishInitiatorDeviceSession ::
  "('w, 'm) e2ee_env \<Rightarrow> jsval \<Rightarrow> jsval \<Rightarrow> jsval \<Rightarrow> jsval \<Rightarrow> jsval \<Rightarrow> key_pair option \<Rightarrow> key_pair option
     \<Rightarrow> ('w, jsval \<times> jsval) io" where
  "establishInitiatorDeviceSession E ownerAccountId peerAccountId peerLinkId peerDeviceId
       peerDeviceBundleJson identityKeyPair identityDhKeyPair =
     bindE (liftE (requireNonEmpty ownerAccountId ''ownerAccountId'')) (\<lambda>_.
     bindE (liftE (requireNonEmpty peerAccountId ''peerAccountId'')) (\<lambda>_.
     bindE (liftE (requireNonEmpty peerLinkId ''peerLinkId'')) (\<lambda>_.
     bindE (liftE (requireNonEmpty peerDeviceId ''peerDeviceId'')) (\<lambda>_.
     bindE (liftE (requireKeyPair identityKeyPair ''identityKeyPair'')) (\<lambda>kp.
     bindE (liftE (requireKeyPair identityDhKeyPair ''identityDhKeyPair'')) (\<lambda>dh.
     bindE (requireE (is_object peerDeviceBundleJson)
              (plain_err ''establishInitiatorDeviceSession requires peerDeviceBundleJson'')) (\<lambda>_.
     bindE (signBytes E (kp_private kp) (kp_public dh)) (\<lambda>initiatorIdentityDhSignature.
     bindE (liftE (scm E JUndef)) (\<lambda>m.
     bindE (processAcceptedInvite E m peerDeviceBundleJson peerAccountId kp dh initiatorIdentityDhSignature)
       (\<lambda>(handshakeData, m').
     bindE (persistDeviceSession E ownerAccountId peerAccountId peerLinkId peerDeviceId (exportSnapshot E m'))
       (\<lambda>sessionId. retE (handshakeData, sessionId))))))))))))"

definition establishResponderDeviceSession ::
  "('w, 'm) e2ee_env \<Rightarrow> jsval \<Rightarrow> jsval \<Rightarrow> jsval \<Rightarrow> jsval \<Rightarrow> key_pair option \<Rightarrow> jsval \<Rightarrow> jsval
     \<Rightarrow> ('w, jsval \<times> string) io" where
  "establishResponderDeviceSession E ownerAccountId peerAccountId peerLinkId peerDeviceId
       identityDhKeyPair preKeyState handshakeData =
     bindE (liftE (requireNonEmpty ownerAccountId ''ownerAccountId'')) (\<lambda>_.
     bindE (liftE (requireNonEmpty peerAccountId ''peerAccountId'')) (\<lambda>_.
     bindE (liftE (requireNonEmpty peerLinkId ''peerLinkId'')) (\<lambda>_.
     bindE (liftE (requireNonEmpty peerDeviceId ''peerDeviceId'')) (\<lambda>_.
     bindE (liftE (requireKeyPair identityDhKeyPair ''identityDhKeyPair'')) (\<lambda>dh.
     bindE (requireE (is_object preKeyState)
              (plain_err ''establishResponderDeviceSession requires preKeyState'')) (\<lambda>_.
     bindE (requireE (is_object handshakeData)
              (plain_err ''establishResponderDeviceSession requires handshakeData'')) (\<lambda>_.
     bindE (liftE (scm E JUndef)) (\<lambda>m.
     bindE (completeInviteHandshake E m preKeyState (kp_private dh) handshakeData peerAccountId)
       (\<lambda>(senderIdentitySigningPublicKey, m').
     case senderIdentitySigningPublicKey of
       None \<Rightarrow> throwE (code_err ''DEVICE_HANDSHAKE_UNAUTHENTICATED''
           ''establishResponderDeviceSession: handshake yielded no authenticated device key'')
     | Some [] \<Rightarrow> throwE (code_err ''DEVICE_HANDSHAKE_UNAUTHENTICATED''
           ''establishResponderDeviceSession: handshake yielded no authenticated device key'')
     | Some key \<Rightarrow>
         (let authenticatedDeviceId = deviceIdFor E key in
          if peerDeviceId \<noteq> JStr authenticatedDeviceId then
            throwE (code_err ''DEVICE_ID_MISMATCH''
              (''establishResponderDeviceSession: claimed peerDeviceId does not match the authenticated device key''
               @ '' (claimed '' @ js_String peerDeviceId @ '', authenticated '' @ authenticatedDeviceId @ '')''))
          else
            bindE (persistDeviceSession E ownerAccountId peerAccountId peerLinkId peerDeviceId (exportSnapshot E m'))
              (\<lambda>sessionId. retE (sessionId, authenticatedDeviceId))))))))))))"

definition requireDeviceSession :: "('w, 'm) e2ee_env \<Rightarrow> jsval \<Rightarrow> jsval \<Rightarrow> jsval \<Rightarrow> ('w, jsval) io" where
  "requireDeviceSession E ownerAccountId peerLinkId peerDeviceId =
     bindE (sessions_getByPeerLinkAndDevice (storage E) ownerAccountId peerLinkId peerDeviceId) (\<lambda>sessionRecord.
     if \<not> is_object sessionRecord then throwE (no_session peerDeviceId) else retE sessionRecord)"

text \<open>\<open>{ ...sessionRecord, ratchetSnapshot, updatedAtMs }\<close>.\<close>

definition advanced :: "jsval \<Rightarrow> jsval \<Rightarrow> int \<Rightarrow> jsval" where
  "advanced sessionRecord snapshot now =
     spread sessionRecord [(''ratchetSnapshot'', snapshot), (''updatedAtMs'', JInt now)]"

definition encryptForDevice ::
  "('w, 'm) e2ee_env \<Rightarrow> jsval \<Rightarrow> jsval \<Rightarrow> jsval \<Rightarrow> jsval \<Rightarrow> bytes option \<Rightarrow> ('w, bytes \<times> jsval) io" where
  "encryptForDevice E ownerAccountId peerAccountId peerLinkId peerDeviceId plaintextBytes =
     bindE (liftE (requireNonEmpty ownerAccountId ''ownerAccountId'')) (\<lambda>_.
     bindE (liftE (requireNonEmpty peerAccountId ''peerAccountId'')) (\<lambda>_.
     bindE (liftE (requireNonEmpty peerLinkId ''peerLinkId'')) (\<lambda>_.
     bindE (liftE (requireNonEmpty peerDeviceId ''peerDeviceId'')) (\<lambda>_.
     bindE (liftE (requireBytes plaintextBytes ''encryptForDevice requires non-empty plaintextBytes'')) (\<lambda>plaintext.
     bindE (requireDeviceSession E ownerAccountId peerLinkId peerDeviceId) (\<lambda>sessionRecord.
     bindE (liftE (scm E (getp sessionRecord ''ratchetSnapshot''))) (\<lambda>m.
     bindE (encryptForPeer E m peerAccountId plaintext) (\<lambda>(encryptedPacket, m').
     bindE (clock E) (\<lambda>now.
     bindE (sessions_put (storage E) (advanced sessionRecord (exportSnapshot E m') now)) (\<lambda>_.
     retE (encryptedPacket, getp sessionRecord ''sessionId'')))))))))))"

text \<open>\<open>#tryDecrypt\<close>: \<open>None\<close> stands for \<open>{ ok: false }\<close>.\<close>

definition tryDecrypt ::
  "('w, 'm) e2ee_env \<Rightarrow> jsval \<Rightarrow> jsval \<Rightarrow> bytes option \<Rightarrow> ('w, bytes option) io" where
  "tryDecrypt E sessionRecord expectedPeerAccountId packetBytes =
     bindE (liftE (requireBytes packetBytes ''decrypt requires non-empty packetBytes'')) (\<lambda>packet.
     bindE (liftE (scm E (getp sessionRecord ''ratchetSnapshot''))) (\<lambda>m.
     bindE (decryptIncoming E m packet) (\<lambda>(result, m').
     let decrypted = (dr_encrypted result \<and> dr_peerId result \<noteq> [] \<and> \<not> dr_handshake result) in
     if \<not> decrypted then retE None
     else if js_truthy expectedPeerAccountId \<and> JStr (dr_peerId result) \<noteq> expectedPeerAccountId then retE None
     else
       bindE (clock E) (\<lambda>now.
       bindE (sessions_put (storage E) (advanced sessionRecord (exportSnapshot E m') now)) (\<lambda>_.
       retE (Some (dr_plaintext result)))))))"

definition attemptDeviceDecrypt ::
  "('w, 'm) e2ee_env \<Rightarrow> jsval \<Rightarrow> jsval \<Rightarrow> jsval \<Rightarrow> jsval \<Rightarrow> bytes option \<Rightarrow> bool
     \<Rightarrow> ('w, (bytes \<times> jsval) option) io" where
  "attemptDeviceDecrypt E ownerAccountId peerAccountId peerLinkId peerDeviceId packetBytes required =
     bindE (sessions_getByPeerLinkAndDevice (storage E) ownerAccountId peerLinkId peerDeviceId) (\<lambda>sessionRecord.
     if \<not> is_object sessionRecord then
       (if required then throwE (no_session peerDeviceId) else retE None)
     else
       bindE (tryDecrypt E sessionRecord (js_or peerAccountId (getp sessionRecord ''peerAccountId'')) packetBytes)
         (\<lambda>result. retE (case result of None \<Rightarrow> None | Some p \<Rightarrow> Some (p, getp sessionRecord ''sessionId''))))"

definition decryptFromDevice ::
  "('w, 'm) e2ee_env \<Rightarrow> jsval \<Rightarrow> jsval \<Rightarrow> jsval \<Rightarrow> jsval \<Rightarrow> bytes option \<Rightarrow> ('w, bytes \<times> jsval) io" where
  "decryptFromDevice E ownerAccountId peerAccountId peerLinkId peerDeviceId packetBytes =
     bindE (liftE (requireNonEmpty ownerAccountId ''ownerAccountId'')) (\<lambda>_.
     bindE (liftE (requireNonEmpty peerLinkId ''peerLinkId'')) (\<lambda>_.
     bindE (liftE (requireNonEmpty peerDeviceId ''peerDeviceId'')) (\<lambda>_.
     bindE (attemptDeviceDecrypt E ownerAccountId peerAccountId peerLinkId peerDeviceId packetBytes True) (\<lambda>result.
     case result of
       None \<Rightarrow> throwE (code_err ''DECRYPT_FAILED'' (''E2EE decryption failed for device '' @ js_String peerDeviceId))
     | Some r \<Rightarrow> retE r))))"

text \<open>The loop of \<open>trialDecryptAcrossDevices\<close> over the listed session records.\<close>

fun trial_loop ::
  "('w, 'm) e2ee_env \<Rightarrow> jsval \<Rightarrow> jsval \<Rightarrow> jsval \<Rightarrow> bytes option \<Rightarrow> jsval list
     \<Rightarrow> ('w, (jsval \<times> bytes \<times> jsval) option) io" where
  "trial_loop E ownerAccountId peerAccountId peerLinkId packetBytes [] = retE None"
| "trial_loop E ownerAccountId peerAccountId peerLinkId packetBytes (sessionRecord # rest) =
     (let peerDeviceId = getp sessionRecord ''peerDeviceId'' in
      if \<not> js_truthy peerDeviceId then
        trial_loop E ownerAccountId peerAccountId peerLinkId packetBytes rest
      else
        bindE (attemptDeviceDecrypt E ownerAccountId peerAccountId peerLinkId peerDeviceId packetBytes False)
          (\<lambda>result. case result of
             None \<Rightarrow> trial_loop E ownerAccountId peerAccountId peerLinkId packetBytes rest
           | Some (plaintext, sessionId) \<Rightarrow> retE (Some (peerDeviceId, plaintext, sessionId))))"

definition trialDecryptAcrossDevices ::
  "('w, 'm) e2ee_env \<Rightarrow> jsval \<Rightarrow> jsval \<Rightarrow> jsval \<Rightarrow> bytes option \<Rightarrow> ('w, (jsval \<times> bytes \<times> jsval) option) io" where
  "trialDecryptAcrossDevices E ownerAccountId peerAccountId peerLinkId packetBytes =
     bindE (liftE (requireNonEmpty ownerAccountId ''ownerAccountId'')) (\<lambda>_.
     bindE (liftE (requireNonEmpty peerLinkId ''peerLinkId'')) (\<lambda>_.
     bindE (sessions_listByPeerLink (storage E) ownerAccountId peerLinkId) (\<lambda>sessions.
     trial_loop E ownerAccountId peerAccountId peerLinkId packetBytes sessions)))"

section \<open>What the operations write\<close>

text \<open>One ratchet step of the codec: from a stored snapshot to the plaintext of a packet, the
  account that the session authenticates, and the advanced snapshot.\<close>

definition ratchet_opens :: "('w, 'm) e2ee_env \<Rightarrow> jsval \<Rightarrow> bytes \<Rightarrow> bytes \<Rightarrow> string \<Rightarrow> jsval \<Rightarrow> bool" where
  "ratchet_opens E snapshot packet plaintext peer snapshot' \<longleftrightarrow>
     (\<exists>m w result m' w'. scm E snapshot = Inr m \<and> decryptIncoming E m packet w = (Inr (result, m'), w')
        \<and> dr_encrypted result \<and> \<not> dr_handshake result \<and> dr_peerId result = peer \<and> peer \<noteq> []
        \<and> plaintext = dr_plaintext result \<and> snapshot' = exportSnapshot E m')"

definition ratchet_seals :: "('w, 'm) e2ee_env \<Rightarrow> jsval \<Rightarrow> jsval \<Rightarrow> bytes \<Rightarrow> bytes \<Rightarrow> jsval \<Rightarrow> bool" where
  "ratchet_seals E snapshot peer plaintext packet snapshot' \<longleftrightarrow>
     (\<exists>m w m' w'. scm E snapshot = Inr m \<and> encryptForPeer E m peer plaintext w = (Inr (packet, m'), w')
        \<and> snapshot' = exportSnapshot E m')"

lemma tryDecrypt_emits:
  "emits (\<lambda>r u. case r of
       Inl e \<Rightarrow> u = [] \<or> (\<exists>x. u = [PutErr x])
     | Inr None \<Rightarrow> u = []
     | Inr (Some p) \<Rightarrow> \<exists>packet peer snap now. packetBytes = Some packet
          \<and> ratchet_opens E (getp rec1 ''ratchetSnapshot'') packet p peer snap
          \<and> (js_truthy expected \<longrightarrow> expected = JStr peer)
          \<and> u = [PutOk (advanced rec1 snap now)])
     (tryDecrypt (traced E) rec1 expected packetBytes)"
  unfolding emits_def tryDecrypt_def
  by (fastforce simp: bindE_def quiet_def noted_def ok_or_def ratchet_opens_def liftE_def requireBytes_def
      split: prod.splits sum.splits if_splits option.splits list.splits)

text \<open>A device's session opened a packet: the record that was read for the device, the step of
  its ratchet, and the only write.\<close>

definition opened_by ::
  "('w, 'm) e2ee_env \<Rightarrow> jsval \<Rightarrow> jsval \<Rightarrow> jsval \<Rightarrow> jsval \<Rightarrow> bytes option \<Rightarrow> bytes \<Rightarrow> st_event list \<Rightarrow> bool" where
  "opened_by E ownerAccountId peerAccountId peerLinkId peerDeviceId packetBytes plaintext u \<longleftrightarrow>
     (\<exists>rec1 packet peer snap now. packetBytes = Some packet
        \<and> ReadDevice ownerAccountId peerLinkId peerDeviceId rec1 \<in> set u
        \<and> ratchet_opens E (getp rec1 ''ratchetSnapshot'') packet plaintext peer snap
        \<and> (js_truthy peerAccountId \<longrightarrow> peerAccountId = JStr peer)
        \<and> writes u = [PutOk (advanced rec1 snap now)])"

lemma attemptDeviceDecrypt_emits:
  "emits (\<lambda>r u. case r of
       Inl e \<Rightarrow> \<forall>i. PutOk i \<notin> set u
     | Inr None \<Rightarrow> writes u = []
     | Inr (Some (p, sid)) \<Rightarrow>
         opened_by E ownerAccountId peerAccountId peerLinkId peerDeviceId packetBytes p u)
     (attemptDeviceDecrypt (traced E) ownerAccountId peerAccountId peerLinkId peerDeviceId packetBytes required)"
  unfolding attemptDeviceDecrypt_def
proof (rule emits_bindE [where P = "\<lambda>r u. u = (case r of Inl _ \<Rightarrow> [] | Inr v \<Rightarrow>
    [ReadDevice ownerAccountId peerLinkId peerDeviceId v])"], goal_cases)
  case 1
  show ?case unfolding traced_store by (rule emits_noted)
next
  case (3 rec1 u)
  show ?case
  proof (cases "is_object rec1")
    case True
    have "emits (\<lambda>r v. case r of
       Inl e \<Rightarrow> \<forall>i. PutOk i \<notin> set (u @ v)
     | Inr None \<Rightarrow> writes (u @ v) = []
     | Inr (Some p) \<Rightarrow>
         opened_by E ownerAccountId peerAccountId peerLinkId peerDeviceId packetBytes p (u @ v))
      (tryDecrypt (traced E) rec1 (js_or peerAccountId (getp rec1 ''peerAccountId'')) packetBytes)"
      by (rule emits_mono [OF tryDecrypt_emits])
        (use 3 in \<open>fastforce simp: opened_by_def js_or_def split: sum.splits option.splits if_splits\<close>)
    then show ?thesis
      using True by (auto intro!: emits_bindE emits_retE split: option.splits)
  next
    case False
    then show ?thesis using 3 by (auto intro!: emits_throwE emits_retE)
  qed
qed simp

lemma opened_by_append:
  "writes u = [] \<Longrightarrow> opened_by E a b c d pk p v \<Longrightarrow> opened_by E a b c d pk p (u @ v)"
  unfolding opened_by_def by (simp, blast)

lemma trial_loop_emits:
  "emits (\<lambda>r u. case r of
       Inl e \<Rightarrow> \<forall>i. PutOk i \<notin> set u
     | Inr None \<Rightarrow> writes u = []
     | Inr (Some (d, p, sid)) \<Rightarrow>
         opened_by E ownerAccountId peerAccountId peerLinkId d packetBytes p u)
     (trial_loop (traced E) ownerAccountId peerAccountId peerLinkId packetBytes sessions)"
proof (induction sessions)
  case Nil
  show ?case unfolding trial_loop.simps by (rule emits_retE) simp
next
  case (Cons rec1 sessions)
  have silent: "\<forall>i. PutOk i \<notin> set u" if "writes u = []" for u
    using that by (auto simp: filter_empty_conv)
  show ?case
  proof (cases "js_truthy (getp rec1 ''peerDeviceId'')")
    case True
    show ?thesis
      unfolding trial_loop.simps Let_def using True
    proof (simp, intro emits_bindE [OF attemptDeviceDecrypt_emits], goal_cases)
      case (2 x u)
      show ?case
      proof (cases x)
        case None
        then show ?thesis
          using 2 silent [of u] opened_by_append [of u]
          by (auto intro!: emits_mono [OF Cons.IH] split: sum.splits option.splits)
      next
        case (Some a)
        then show ?thesis using 2 by (cases a) (auto intro!: emits_retE)
      qed
    qed simp
  next
    case False
    then show ?thesis using Cons.IH by simp
  qed
qed

lemma trialDecrypt_emits:
  "emits (\<lambda>r u. case r of
       Inl e \<Rightarrow> \<forall>i. PutOk i \<notin> set u
     | Inr None \<Rightarrow> writes u = []
     | Inr (Some (d, p, sid)) \<Rightarrow>
         opened_by E ownerAccountId peerAccountId peerLinkId d packetBytes p u)
     (trialDecryptAcrossDevices (traced E) ownerAccountId peerAccountId peerLinkId packetBytes)"
  unfolding trialDecryptAcrossDevices_def traced_store
  by (intro emits_silent_bindE [OF emits_liftE] emits_silent_bindE [OF emits_quiet] trial_loop_emits) auto

lemma requireBytes_InrD: "requireBytes b msg = Inr xs \<Longrightarrow> b = Some xs"
  by (auto simp: requireBytes_def split: option.splits list.splits)

lemmas run_simps = bindE_def quiet_def noted_def ok_or_def liftE_def requireE_def
lemmas run_splits = prod.splits sum.splits if_splits option.splits list.splits

lemma encryptForDevice_emits:
  "emits (\<lambda>r u. case r of
       Inl e \<Rightarrow> \<forall>i. PutOk i \<notin> set u
     | Inr (packet, sid) \<Rightarrow> \<exists>rec1 plaintext snap now. plaintextBytes = Some plaintext
          \<and> ReadDevice ownerAccountId peerLinkId peerDeviceId rec1 \<in> set u
          \<and> ratchet_seals E (getp rec1 ''ratchetSnapshot'') peerAccountId plaintext packet snap
          \<and> writes u = [PutOk (advanced rec1 snap now)])
     (encryptForDevice (traced E) ownerAccountId peerAccountId peerLinkId peerDeviceId plaintextBytes)"
  unfolding emits_def encryptForDevice_def requireDeviceSession_def
  by (fastforce simp: run_simps ratchet_seals_def dest: requireBytes_InrD split: run_splits)

lemma persistDeviceSession_emits:
  "emits (\<lambda>r u. case r of Inl e \<Rightarrow> \<forall>i. PutOk i \<notin> set u | Inr sid \<Rightarrow>
       \<exists>i. writes u = [PutOk i] \<and> getp i ''peerDeviceId'' = peerDeviceId \<and> getp i ''ratchetSnapshot'' = snapshot)
     (persistDeviceSession (traced E) ownerAccountId peerAccountId peerLinkId peerDeviceId snapshot)"
  unfolding emits_def persistDeviceSession_def Let_def
  by (fastforce simp: run_simps split: run_splits)

text \<open>What a completed handshake proves: the X3DH responder returned an authenticated device
  key, and the claimed device id is the one derived from that key.\<close>

definition authenticated_as ::
  "('w, 'm) e2ee_env \<Rightarrow> jsval \<Rightarrow> jsval \<Rightarrow> jsval \<Rightarrow> jsval \<Rightarrow> jsval \<Rightarrow> bool" where
  "authenticated_as E preKeyState handshakeData peerAccountId peerDeviceId snapshot \<longleftrightarrow>
     (\<exists>dhPrivate w key m' w'. completeInviteHandshake E (newManager E) preKeyState dhPrivate handshakeData peerAccountId w
         = (Inr (Some key, m'), w') \<and> key \<noteq> [] \<and> peerDeviceId = JStr (deviceIdFor E key)
         \<and> snapshot = exportSnapshot E m')"

lemma establishResponder_emits:
  "emits (\<lambda>r u. (writes u \<noteq> [] \<longrightarrow>
         (\<exists>snap. authenticated_as E preKeyState handshakeData peerAccountId peerDeviceId snap
            \<and> (\<forall>i. PutOk i \<in> set u \<longrightarrow> getp i ''peerDeviceId'' = peerDeviceId \<and> getp i ''ratchetSnapshot'' = snap)))
       \<and> (\<forall>sid did. r = Inr (sid, did) \<longrightarrow> peerDeviceId = JStr did \<and> (\<exists>i. writes u = [PutOk i])))
     (establishResponderDeviceSession (traced E) ownerAccountId peerAccountId peerLinkId peerDeviceId
        identityDhKeyPair preKeyState handshakeData)"
proof -
  define Q :: "js_err + jsval \<times> string \<Rightarrow> st_event list \<Rightarrow> bool" where "Q r u \<longleftrightarrow> (writes u \<noteq> [] \<longrightarrow>
         (\<exists>snap. authenticated_as E preKeyState handshakeData peerAccountId peerDeviceId snap
            \<and> (\<forall>i. PutOk i \<in> set u \<longrightarrow> getp i ''peerDeviceId'' = peerDeviceId \<and> getp i ''ratchetSnapshot'' = snap)))
       \<and> (\<forall>sid did. r = Inr (sid, did) \<longrightarrow> peerDeviceId = JStr did \<and> (\<exists>i. writes u = [PutOk i]))" for r u
  have persist: "emits Q (bindE (persistDeviceSession (traced E) ownerAccountId peerAccountId peerLinkId
       (JStr (deviceIdFor E key)) (exportSnapshot E m')) (\<lambda>sessionId. retE (sessionId, deviceIdFor E key)))"
    if "completeInviteHandshake E (newManager E) preKeyState dhp handshakeData peerAccountId w = (Inr (Some key, m'), w')"
      "key \<noteq> []" "peerDeviceId = JStr (deviceIdFor E key)" for dhp w key m' w'
  proof -
    have auth: "authenticated_as E preKeyState handshakeData peerAccountId peerDeviceId (exportSnapshot E m')"
      using that unfolding authenticated_as_def by blast
    show ?thesis
      by (rule emits_bindE [OF persistDeviceSession_emits])
        (use auth that(3) in \<open>fastforce intro!: emits_retE simp: writes_one Q_def\<close>)+
  qed
  have none: "Q (Inl e) []" for e by (simp add: Q_def)
  have "emits Q (establishResponderDeviceSession (traced E) ownerAccountId peerAccountId peerLinkId peerDeviceId
        identityDhKeyPair preKeyState handshakeData)"
    unfolding establishResponderDeviceSession_def traced_scm traced_ops
    by (intro emits_guard emits_require emits_quiet_bindE)
      (auto simp: scm_def Let_def none intro!: emits_throwE persist split: option.splits list.splits if_splits)
  then show ?thesis unfolding Q_def .
qed

section \<open>On the browser's storage\<close>

text \<open>The clock and the packet codec do not touch the peer-link database.\<close>

definition store_neutral :: "('w, 'm) e2ee_env \<Rightarrow> bool" where
  "store_neutral E \<longleftrightarrow> (\<forall>w. snd (clock E w) = w) \<and> (\<forall>m p b w. snd (encryptForPeer E m p b w) = w)"

lemma getp_advanced:
  "is_plain_object r \<Longrightarrow> f \<noteq> ''ratchetSnapshot'' \<Longrightarrow> f \<noteq> ''updatedAtMs'' \<Longrightarrow> getp (advanced r snap now) f = getp r f"
  by (simp add: advanced_def getp_spread)

lemma ss_ids_advanced: "ss_ids r s o1 l \<Longrightarrow> ss_ids (advanced r snap now) s o1 l"
  by (simp add: ss_ids_def getp_advanced) (simp add: advanced_def)

lemma encryptForDevice_run:
  assumes "encryptForDevice E a p l d b w = (Inr (packet, sid), w')" "store_neutral E"
    and "sessions_getByPeerLinkAndDevice (storage E) a l d w = (Inr r, w)"
  shows "\<exists>plaintext snap now out. ratchet_seals E (getp r ''ratchetSnapshot'') p plaintext packet snap
     \<and> b = Some plaintext \<and> sessions_put (storage E) (advanced r snap now) w = (Inr out, w')"
proof -
  obtain plaintext m packet' m' w1 now w2 out where run: "requireBytes b ''encryptForDevice requires non-empty plaintextBytes'' = Inr plaintext"
    "scm E (getp r ''ratchetSnapshot'') = Inr m" "encryptForPeer E m p plaintext w = (Inr (packet, m'), w1)"
    "clock E w1 = (Inr now, w2)" "sessions_put (storage E) (advanced r (exportSnapshot E m') now) w2 = (Inr out, w')"
    using assms(1,3) unfolding encryptForDevice_def requireDeviceSession_def
    by (auto dest!: bindE_InrD simp: liftE_def split: if_splits)
  have "w1 = w" "w2 = w"
    using assms(2) run(3,4) unfolding store_neutral_def by (metis snd_conv)+
  then show ?thesis
    using run requireBytes_InrD [OF run(1)] by (auto simp: ratchet_seals_def)
qed

section \<open>Properties\<close>

text \<open>Trial decryption of an opaque packet (\<open>trialDecryptAcrossDevices\<close>) writes only what it
  opened: without a match nothing is written at all; with a match exactly one session is
  written, the one that was read for the returned device, advanced by the ratchet step that
  produced the returned plaintext, and the session authenticated the expected peer account.\<close>

theorem trial_decrypt_writes_only_the_match:
  assumes "trialDecryptAcrossDevices (traced E) ownerAccountId peerAccountId peerLinkId packetBytes (w, [])
     = (Inr result, (w', trace))"
  shows "case result of
       None \<Rightarrow> writes trace = []
     | Some (peerDeviceId, plaintext, sessionId) \<Rightarrow>
         opened_by E ownerAccountId peerAccountId peerLinkId peerDeviceId packetBytes plaintext trace"
  using emitsD [OF trialDecrypt_emits assms] by auto

text \<open>A ciphertext leaves \<open>encryptForDevice\<close> only after the advanced ratchet was stored: when
  the call returns a packet, the write of the snapshot that the encryption produced has
  returned successfully, and it is the only write. A send that fails has stored no advanced
  ratchet, so no message key is ever used twice.\<close>

theorem encrypt_for_device_commits_first:
  assumes "encryptForDevice (traced E) ownerAccountId peerAccountId peerLinkId peerDeviceId plaintextBytes (w, [])
     = (r, (w', trace))"
  shows "case r of
       Inl e \<Rightarrow> \<forall>i. PutOk i \<notin> set trace
     | Inr (packet, sid) \<Rightarrow> \<exists>rec1 plaintext snap now. plaintextBytes = Some plaintext
          \<and> ReadDevice ownerAccountId peerLinkId peerDeviceId rec1 \<in> set trace
          \<and> ratchet_seals E (getp rec1 ''ratchetSnapshot'') peerAccountId plaintext packet snap
          \<and> writes trace = [PutOk (advanced rec1 snap now)]"
  using emitsD [OF encryptForDevice_emits assms] by auto

text \<open>C14. A device cannot be impersonated in a handshake (\<open>establishResponderDeviceSession\<close>): if
  anything was written, the X3DH responder authenticated a device key whose derived id is
  the claimed one, and every stored session is filed under that id with the snapshot of that
  handshake. A mismatching claim stores nothing.\<close>

theorem responder_session_is_authenticated:
  assumes "establishResponderDeviceSession (traced E) ownerAccountId peerAccountId peerLinkId peerDeviceId
        identityDhKeyPair preKeyState handshakeData (w, []) = (r, (w', trace))"
    and "writes trace \<noteq> []"
  shows "\<exists>snap. authenticated_as E preKeyState handshakeData peerAccountId peerDeviceId snap
     \<and> (\<forall>i. PutOk i \<in> set trace \<longrightarrow> getp i ''peerDeviceId'' = peerDeviceId \<and> getp i ''ratchetSnapshot'' = snap)"
  using emitsD [OF establishResponder_emits assms(1)] assms(2) by auto

text \<open>Advancing one device's ratchet never touches another's, end to end: on the browser's
  storage, a successful \<open>encryptForDevice\<close> stores the advanced snapshot as the session of its
  device and leaves the session of every other device of the peer link as it was.\<close>

theorem encrypt_for_device_isolated:
  assumes "storage E = getPeerLinkStorage collate owner" "store_neutral E" "idb_inv db" "plain_owner o1"
    and "clean_id l" "clean_id d" "dev_index_ok (idb_view (owner_part owner) db) o1 l"
    and "dev_session (idb_view (owner_part owner) db) o1 l d = rec1"
    and "index_id (idb_view (owner_part owner) db (ss_dk o1 l d)) = Some s" "ss_ids rec1 s o1 l"
    and "encryptForDevice E (JStr o1) p (JStr l) (JStr d) b db = (Inr (packet, sid), db')"
  shows "(\<exists>plaintext snap now. b = Some plaintext
           \<and> ratchet_seals E (getp rec1 ''ratchetSnapshot'') p plaintext packet snap
           \<and> dev_session (idb_view (owner_part owner) db') o1 l d = ss_next (advanced rec1 snap now) rec1)
     \<and> (\<forall>d'. clean_id d' \<longrightarrow> d' \<noteq> d \<longrightarrow>
          dev_session (idb_view (owner_part owner) db') o1 l d' = dev_session (idb_view (owner_part owner) db) o1 l d')"
proof -
  let ?v = "idb_view (owner_part owner)"
  have o1: "clean_id o1" using assms(4) by (simp add: plain_owner_def)
  have stored: "?v db (ss_rk o1 s) = rec1" using assms(8,9) by (simp add: dev_session_def)
  have dev: "trimmed (getp rec1 ''peerDeviceId'') = d"
    using assms(6,7,9) stored by (auto simp: dev_index_ok_def)
  have read: "sessions_getByPeerLinkAndDevice (storage E) (JStr o1) (JStr l) (JStr d) db = (Inr rec1, db)"
    unfolding assms(1) pls_ops
    using idbh.nrm.ss_getByPeerLinkAndDevice_run [OF assms(3) o1 assms(5,6,7)] assms(8) by simp
  obtain plaintext snap now out where run: "ratchet_seals E (getp rec1 ''ratchetSnapshot'') p plaintext packet snap"
    "b = Some plaintext" "sessions_put (storage E) (advanced rec1 snap now) db = (Inr out, db')"
    using encryptForDevice_run [OF assms(11,2) read] by blast
  have plain: "is_plain_object rec1" using assms(10) by (simp add: ss_ids_def)
  have d: "d = trimmed (getp (advanced rec1 snap now) ''peerDeviceId'')" "d \<noteq> []"
    using dev assms(6) plain by (simp_all add: getp_advanced clean_id_def)
  obtain db2 where db2: "ss_put (absenceNormalizingStore (idb_kv (owner_part owner))) (advanced rec1 snap now) db
      = (Inr (ss_next (advanced rec1 snap now) (?v db (ss_rk o1 s))), db2)"
    "dev_session (?v db2) o1 l d = ss_next (advanced rec1 snap now) (?v db (ss_rk o1 s))"
    "\<And>d'. clean_id d' \<Longrightarrow> d' \<noteq> d \<Longrightarrow> dev_session (?v db2) o1 l d' = dev_session (?v db) o1 l d'"
    using idbh.nrm.ss_put_device [OF assms(3,4) ss_ids_advanced [OF assms(10)] d assms(7)] dev stored by blast
  have "db2 = db'" using run(3) db2(1) unfolding assms(1) pls_ops by simp
  then show ?thesis using run(1,2) db2(2,3) stored by auto
qed

section \<open>Witnesses\<close>

definition demo_env :: "(idb, nat) e2ee_env" where
  "demo_env = sample_env (getPeerLinkStorage (\<lambda>_ _. True) (Some ''alice''))"

definition demo_db :: idb where
  "demo_db = snd (sessions_put (getPeerLinkStorage (\<lambda>_ _. True) (Some ''alice''))
     (spread (sample_session ''s1'' ''dev-a'') [(''ratchetSnapshot'', JObj [(''step'', JInt 7)])]) [])"

lemma run_obtain:
  assumes "case fst (f w) of Inl e \<Rightarrow> False | Inr x \<Rightarrow> P x"
  obtains x w' where "f w = (Inr x, w')" "P x"
  using assms by (cases "f w") (auto split: sum.splits)

theorem trial_decrypt_writes_only_the_match_witness:
  "\<exists>d plaintext sid w' trace.
     trialDecryptAcrossDevices (traced demo_env) (JStr ''alice'') (JStr ''bob'') (JStr ''link-1'') (Some [7, 42]) (demo_db, [])
       = (Inr (Some (d, plaintext, sid)), (w', trace))
   \<and> opened_by demo_env (JStr ''alice'') (JStr ''bob'') (JStr ''link-1'') d (Some [7, 42]) plaintext trace"
proof -
  have "case fst (trialDecryptAcrossDevices (traced demo_env) (JStr ''alice'') (JStr ''bob'') (JStr ''link-1'')
      (Some [7, 42]) (demo_db, [])) of Inl e \<Rightarrow> False | Inr x \<Rightarrow> x \<noteq> None"
    by code_simp
  then obtain x wt where run: "trialDecryptAcrossDevices (traced demo_env) (JStr ''alice'') (JStr ''bob'') (JStr ''link-1'')
      (Some [7, 42]) (demo_db, []) = (Inr x, wt)" "x \<noteq> None"
    by (rule run_obtain)
  obtain w' trace where wt: "wt = (w', trace)" by fastforce
  show ?thesis
    using trial_decrypt_writes_only_the_match [OF run(1) [unfolded wt]] run wt by (auto split: option.splits)
qed

theorem encrypt_for_device_commits_first_witness:
  "\<exists>packet sid w' trace.
     encryptForDevice (traced demo_env) (JStr ''alice'') (JStr ''bob'') (JStr ''link-1'') (JStr ''dev-a'') (Some [42]) (demo_db, [])
       = (Inr (packet, sid), (w', trace))
   \<and> (\<exists>i. writes trace = [PutOk i])"
proof -
  have "case fst (encryptForDevice (traced demo_env) (JStr ''alice'') (JStr ''bob'') (JStr ''link-1'') (JStr ''dev-a'')
      (Some [42]) (demo_db, [])) of Inl e \<Rightarrow> False | Inr x \<Rightarrow> True"
    by code_simp
  then obtain x wt where run: "encryptForDevice (traced demo_env) (JStr ''alice'') (JStr ''bob'') (JStr ''link-1'')
      (JStr ''dev-a'') (Some [42]) (demo_db, []) = (Inr x, wt)"
    by (rule run_obtain)
  obtain w' trace packet sid where wt: "wt = (w', trace)" "x = (packet, sid)" by fastforce
  show ?thesis
    using encrypt_for_device_commits_first [OF run [unfolded wt]] run wt by auto
qed

theorem responder_session_is_authenticated_witness:
  "\<exists>r w' trace snap.
     establishResponderDeviceSession (traced demo_env) (JStr ''alice'') (JStr ''bob'') (JStr ''link-1'') (JStr ''dev-a'')
        (Some \<lparr>kp_public = [1], kp_private = [2]\<rparr>) (JObj []) (JObj []) (demo_db, []) = (r, (w', trace))
   \<and> writes trace \<noteq> [] \<and> authenticated_as demo_env (JObj []) (JObj []) (JStr ''bob'') (JStr ''dev-a'') snap"
proof -
  let ?run = "establishResponderDeviceSession (traced demo_env) (JStr ''alice'') (JStr ''bob'') (JStr ''link-1'') (JStr ''dev-a'')
        (Some \<lparr>kp_public = [1], kp_private = [2]\<rparr>) (JObj []) (JObj []) (demo_db, [])"
  obtain r w' trace where run: "?run = (r, (w', trace))" by (metis prod.exhaust)
  have "writes (snd (snd ?run)) \<noteq> []" by code_simp
  then have "writes trace \<noteq> []" using run by simp
  then show ?thesis using responder_session_is_authenticated [OF run] run by blast
qed

lemma demo_facts:
  "storage demo_env = getPeerLinkStorage (\<lambda>_ _. True) (Some ''alice'')" "store_neutral demo_env" "idb_inv demo_db"
  "plain_owner ''alice''" "clean_id ''link-1''" "clean_id ''dev-a''"
  "index_id (idb_view (owner_part (Some ''alice'')) demo_db (ss_dk ''alice'' ''link-1'' ''dev-a'')) = Some ''s1''"
  "ss_ids (dev_session (idb_view (owner_part (Some ''alice'')) demo_db) ''alice'' ''link-1'' ''dev-a'') ''s1'' ''alice'' ''link-1''"
proof -
  show "storage demo_env = getPeerLinkStorage (\<lambda>_ _. True) (Some ''alice'')" "store_neutral demo_env"
    by (simp_all add: demo_env_def sample_env_def store_neutral_def)
qed code_simp+

lemma demo_index_ok: "dev_index_ok (idb_view (owner_part (Some ''alice'')) demo_db) ''alice'' ''link-1''"
proof -
  let ?r = "spread (sample_session ''s1'' ''dev-a'') [(''ratchetSnapshot'', JObj [(''step'', JInt 7)])]"
  have ids: "ss_ids ?r ''s1'' ''alice'' ''link-1''" "''dev-a'' = trimmed (getp ?r ''peerDeviceId'')" "''dev-a'' \<noteq> []"
    by code_simp+
  have "dev_index_ok (idb_view (owner_part (Some ''alice'')) []) ''alice'' ''link-1''"
    by (simp add: dev_index_ok_def idb_view_def index_id_def)
  moreover have "idb_inv []" by code_simp
  moreover have "idb_view p [] k = JUndef" for p k by (simp add: idb_view_def)
  ultimately obtain w' where "ss_put (absenceNormalizingStore (idb_kv (owner_part (Some ''alice'')))) ?r []
      = (Inr (ss_next ?r (idb_view (owner_part (Some ''alice'')) [] (ss_rk ''alice'' ''s1''))), w')"
    "dev_index_ok (idb_view (owner_part (Some ''alice'')) w') ''alice'' ''link-1''"
    using idbh.nrm.ss_put_device [OF _ demo_facts(4) ids] by blast
  then show ?thesis unfolding demo_db_def pls_ops by simp
qed

theorem encrypt_for_device_isolated_witness:
  "\<exists>packet sid db' snap now.
     encryptForDevice demo_env (JStr ''alice'') (JStr ''bob'') (JStr ''link-1'') (JStr ''dev-a'') (Some [42]) demo_db
       = (Inr (packet, sid), db')
   \<and> dev_session (idb_view (owner_part (Some ''alice'')) db') ''alice'' ''link-1'' ''dev-a''
       = ss_next (advanced (dev_session (idb_view (owner_part (Some ''alice'')) demo_db) ''alice'' ''link-1'' ''dev-a'') snap now)
           (dev_session (idb_view (owner_part (Some ''alice'')) demo_db) ''alice'' ''link-1'' ''dev-a'')"
proof -
  have "case fst (encryptForDevice demo_env (JStr ''alice'') (JStr ''bob'') (JStr ''link-1'') (JStr ''dev-a'')
      (Some [42]) demo_db) of Inl e \<Rightarrow> False | Inr x \<Rightarrow> True"
    by code_simp
  then obtain x db' where run: "encryptForDevice demo_env (JStr ''alice'') (JStr ''bob'') (JStr ''link-1'')
      (JStr ''dev-a'') (Some [42]) demo_db = (Inr x, db')"
    by (rule run_obtain)
  obtain packet sid where x: "x = (packet, sid)" by fastforce
  show ?thesis
    using encrypt_for_device_isolated [OF demo_facts(1-6) demo_index_ok refl demo_facts(7,8) run [unfolded x]] run x
    by auto
qed

end
