(* ===== verification/PeerLink_StateMachine.thy ===== *)
theory PeerLink_StateMachine
  imports Js_Prelude
begin

text \<open>
  The peer-link lifecycle of \<open>src/peer-link/PeerLinkStateMachine.js\<close>: the transition table,
  the check of one transition and its enforcing form, and the statuses under which a session
  may encrypt or decrypt. The legal edges are also given as a step relation, over which the
  reachability facts are proved.
\<close>

definition INVITE_ISSUED :: string where "INVITE_ISSUED = ''invite_issued''"
definition ACCEPT_COMMITTED :: string where "ACCEPT_COMMITTED = ''accept_committed''"
definition HANDSHAKE_SENT :: string where "HANDSHAKE_SENT = ''handshake_sent''"
definition HANDSHAKE_RECEIVED :: string where "HANDSHAKE_RECEIVED = ''handshake_received''"
definition SESSION_ESTABLISHED :: string where "SESSION_ESTABLISHED = ''session_established''"
definition DEGRADED :: string where "DEGRADED = ''degraded''"
definition REJECTED :: string where "REJECTED = ''rejected''"
definition FAILED :: string where "FAILED = ''failed''"

lemmas peer_link_states = INVITE_ISSUED_def ACCEPT_COMMITTED_def HANDSHAKE_SENT_def
  HANDSHAKE_RECEIVED_def SESSION_ESTABLISHED_def DEGRADED_def REJECTED_def FAILED_def

definition PEER_LINK_STATES :: "string list" where
  "PEER_LINK_STATES = [INVITE_ISSUED, ACCEPT_COMMITTED, HANDSHAKE_SENT, HANDSHAKE_RECEIVED,
     SESSION_ESTABLISHED, DEGRADED, REJECTED, FAILED]"

definition DECRYPTABLE_SESSION_STATUSES :: "string list" where
  "DECRYPTABLE_SESSION_STATUSES = [''active'', ''pending_remote_confirm'', ''ready'', ''established'']"

definition isSessionUsable :: "jsval \<Rightarrow> bool" where
  "isSessionUsable status =
     (let s = trimmed status in if s = [] then False else s \<in> set DECRYPTABLE_SESSION_STATUSES)"

definition TRANSITIONS :: "(string \<times> string list) list" where
  "TRANSITIONS =
    [(INVITE_ISSUED, [ACCEPT_COMMITTED, REJECTED, FAILED]),
     (ACCEPT_COMMITTED, [HANDSHAKE_SENT, SESSION_ESTABLISHED, DEGRADED, REJECTED, FAILED]),
     (HANDSHAKE_SENT, [SESSION_ESTABLISHED, DEGRADED, REJECTED, FAILED]),
     (HANDSHAKE_RECEIVED, [SESSION_ESTABLISHED, FAILED]),
     (SESSION_ESTABLISHED, [SESSION_ESTABLISHED, ACCEPT_COMMITTED, DEGRADED, FAILED]),
     (DEGRADED, [ACCEPT_COMMITTED, SESSION_ESTABLISHED, REJECTED, FAILED]),
     (REJECTED, [ACCEPT_COMMITTED]),
     (FAILED, [ACCEPT_COMMITTED])]"

record transition_check =
  tc_allowed :: bool
  tc_from :: "string option"
  tc_to :: string

definition checkTransition :: "jsval \<Rightarrow> jsval \<Rightarrow> transition_check" where
  "checkTransition fromState toState =
     (let from1 = trimmed fromState; to1 = trimmed toState in
      if from1 = [] then \<lparr>tc_allowed = True, tc_from = None, tc_to = to1\<rparr>
      else if from1 = to1 then \<lparr>tc_allowed = True, tc_from = Some from1, tc_to = to1\<rparr>
      else \<lparr>tc_allowed = (case map_of TRANSITIONS from1 of None \<Rightarrow> False | Some nxt \<Rightarrow> to1 \<in> set nxt),
            tc_from = Some from1, tc_to = to1\<rparr>)"

text \<open>\<open>onIllegal\<close> is a callback with an effect: an action of the caller's world.\<close>

definition assertTransition ::
  "jsval \<Rightarrow> jsval \<Rightarrow> (transition_check \<Rightarrow> ('w, unit) io) \<Rightarrow> bool \<Rightarrow> ('w, transition_check) io" where
  "assertTransition fromState toState onIllegal strict =
     (let result = checkTransition fromState toState in
      if tc_allowed result then retE result
      else bindE (onIllegal result) (\<lambda>_.
        if strict
        then throwE (code_err ''PEER_LINK_ILLEGAL_TRANSITION''
          (''Illegal peer-link transition: '' @
             (case tc_from result of None \<Rightarrow> ''<none>'' | Some f \<Rightarrow> f) @ '' -> '' @ tc_to result))
        else retE result))"

section \<open>The lifecycle as a step relation\<close>

inductive pl_step :: "string \<Rightarrow> string \<Rightarrow> bool" where
  edge: "map_of TRANSITIONS s = Some nxt \<Longrightarrow> t \<in> set nxt \<Longrightarrow> pl_step s t"

inductive_simps pl_step_simp: "pl_step s t"

inductive_cases pl_step_elim: "pl_step s t"

text \<open>The states a list of transitions visits, each one checked from the one before.\<close>

fun legal_path :: "string \<Rightarrow> string list \<Rightarrow> bool" where
  "legal_path s [] = True"
| "legal_path s (t # ts) = (tc_allowed (checkTransition (JStr s) (JStr t)) \<and> legal_path t ts)"

lemma peer_link_states_distinct [simp]: "distinct PEER_LINK_STATES"
  by (simp add: PEER_LINK_STATES_def peer_link_states)

lemma state_trimmed: "s \<in> set PEER_LINK_STATES \<Longrightarrow> js_trim s = s \<and> s \<noteq> []"
proof -
  have "list_all (\<lambda>s. js_trim s = s \<and> s \<noteq> []) PEER_LINK_STATES" by code_simp
  then show "s \<in> set PEER_LINK_STATES \<Longrightarrow> js_trim s = s \<and> s \<noteq> []" by (simp add: list_all_iff)
qed

lemma checkTransition_step:
  assumes "s \<in> set PEER_LINK_STATES" "t \<in> set PEER_LINK_STATES"
  shows "tc_allowed (checkTransition (JStr s) (JStr t)) \<longleftrightarrow> s = t \<or> pl_step s t"
  using state_trimmed [OF assms(1)] state_trimmed [OF assms(2)]
  by (auto simp: checkTransition_def Let_def pl_step_simp split: option.splits)

lemma transition_targets:
  "map_of TRANSITIONS s = Some nxt \<Longrightarrow> s \<in> set PEER_LINK_STATES \<and> set nxt \<subseteq> set PEER_LINK_STATES"
proof -
  have "list_all (\<lambda>(s, nxt). s \<in> set PEER_LINK_STATES \<and> set nxt \<subseteq> set PEER_LINK_STATES) TRANSITIONS"
    by code_simp
  then show "map_of TRANSITIONS s = Some nxt \<Longrightarrow> s \<in> set PEER_LINK_STATES \<and> set nxt \<subseteq> set PEER_LINK_STATES"
    by (auto simp: list_all_iff dest!: map_of_SomeD)
qed

lemma pl_step_closed: "pl_step s t \<Longrightarrow> s \<in> set PEER_LINK_STATES \<and> t \<in> set PEER_LINK_STATES"
  by (auto elim!: pl_step_elim dest!: transition_targets)

text \<open>A link that was rejected or failed is left through a new acceptance only.\<close>

lemma terminal_step: "s \<in> {REJECTED, FAILED} \<Longrightarrow> pl_step s t \<Longrightarrow> t = ACCEPT_COMMITTED"
  by (auto simp: pl_step_simp TRANSITIONS_def peer_link_states split: if_splits)

text \<open>A sequence of enforced state writes, as the service performs them one after the other.\<close>

fun run_transitions ::
  "(transition_check \<Rightarrow> ('w, unit) io) \<Rightarrow> bool \<Rightarrow> string \<Rightarrow> string list \<Rightarrow> ('w, string) io" where
  "run_transitions onIllegal strict s [] = retE s"
| "run_transitions onIllegal strict s (t # ts) =
     bindE (assertTransition (JStr s) (JStr t) onIllegal strict) (\<lambda>_.
       run_transitions onIllegal strict t ts)"

lemma assertTransition_strict_Inr:
  "assertTransition f t cb True w = (Inr r, w') \<Longrightarrow> tc_allowed (checkTransition f t) \<and> w' = w"
  by (auto simp: assertTransition_def Let_def bindE_def split: if_splits prod.splits sum.splits)

lemma strict_run_legal:
  "run_transitions cb True s ts w = (Inr r, w') \<Longrightarrow> legal_path s ts \<and> w' = w \<and> r = last (s # ts)"
proof (induction ts arbitrary: s)
  case (Cons t ts)
  then show ?case
    by (auto dest!: bindE_InrD dest: assertTransition_strict_Inr)
qed simp

lemma closed_link_reopens:
  assumes "legal_path s ts" "s \<in> {INVITE_ISSUED, REJECTED, FAILED}" "set ts \<subseteq> set PEER_LINK_STATES"
    and "SESSION_ESTABLISHED \<in> set ts"
  shows "ACCEPT_COMMITTED \<in> set (takeWhile (\<lambda>t. t \<noteq> SESSION_ESTABLISHED) ts)"
  using assms
proof (induction ts arbitrary: s)
  case (Cons t ts)
  have states: "s \<in> set PEER_LINK_STATES" "t \<in> set PEER_LINK_STATES"
    using Cons.prems by (auto simp: PEER_LINK_STATES_def)
  then have "s = t \<or> pl_step s t" using Cons.prems(1) checkTransition_step by auto
  then have "t \<in> {INVITE_ISSUED, REJECTED, FAILED, ACCEPT_COMMITTED}"
    using Cons.prems(2) by (auto simp: pl_step_simp TRANSITIONS_def peer_link_states split: if_splits)
  moreover have "t \<noteq> SESSION_ESTABLISHED" using calculation by (auto simp: peer_link_states)
  ultimately show ?case using Cons by auto
qed simp

section \<open>Properties\<close>

text \<open>Recovery is always legal: from every state of the lifecycle the transition table of
  \<open>PeerLinkStateMachine.js\<close> permits a path of at most two legal transitions that ends in an
  established session, so no state is a dead end.\<close>

lemma every_state_recovers:
  "list_all (\<lambda>s. \<exists>path \<in> set [[SESSION_ESTABLISHED], [ACCEPT_COMMITTED, SESSION_ESTABLISHED]].
     legal_path s path) PEER_LINK_STATES"
  by code_simp

text \<open>In strict mode a closed link is never re-established behind the user's back: if a
  sequence of state writes that \<open>assertTransition\<close> lets pass starts in \<open>invite_issued\<close>,
  \<open>rejected\<close> or \<open>failed\<close> and reaches \<open>session_established\<close>, then \<open>accept_committed\<close> was
  written before it; and the check itself changes nothing.\<close>

theorem strict_lifecycle_needs_acceptance:
  assumes "run_transitions onIllegal True s ts w = (Inr r, w')"
    and "s \<in> {INVITE_ISSUED, REJECTED, FAILED}" "set ts \<subseteq> set PEER_LINK_STATES"
    and "SESSION_ESTABLISHED \<in> set ts"
  shows "ACCEPT_COMMITTED \<in> set (takeWhile (\<lambda>t. t \<noteq> SESSION_ESTABLISHED) ts) \<and> w' = w"
  using closed_link_reopens [OF _ assms(2-4)] strict_run_legal [OF assms(1)] by simp

theorem strict_lifecycle_needs_acceptance_witness:
  "run_transitions (\<lambda>_. retE ()) True INVITE_ISSUED [REJECTED, ACCEPT_COMMITTED, SESSION_ESTABLISHED] ()
     = (Inr SESSION_ESTABLISHED, ())
   \<and> ACCEPT_COMMITTED \<in> set (takeWhile (\<lambda>t. t \<noteq> SESSION_ESTABLISHED) [REJECTED, ACCEPT_COMMITTED, SESSION_ESTABLISHED])"
proof -
  have run: "run_transitions (\<lambda>_. retE ()) True INVITE_ISSUED [REJECTED, ACCEPT_COMMITTED, SESSION_ESTABLISHED] ()
     = (Inr SESSION_ESTABLISHED, ())" by code_simp
  then show ?thesis
    using strict_lifecycle_needs_acceptance [OF run] by (simp add: PEER_LINK_STATES_def)
qed

end
