(* ===== verification/PeerLink_Messaging.thy ===== *)
theory PeerLink_Messaging
  imports Device_Sessions PeerLink_StateMachine
begin

text \<open>
  Sending and receiving of direct messages in \<open>src/peer-link/PeerLinkService.js\<close>: the single
  session writer \<open>#commitSession\<close>, the commit after a decrypt with its staged recovery,
  \<open>encryptDirectMessage\<close>, \<open>decryptDirectMessage\<close> and \<open>decryptDirectMessageAnyPeer\<close>. The private
  counters of the service are the fields of \<open>svc\<close>; the progress object that
  \<open>#commitSession\<close> fills in, and that survives its exceptions, is a second part of the state.
\<close>

section \<open>The state of the service\<close>

record 'w svc =
  sv_store :: 'w
  decryptFailureCounts :: "(string \<times> nat) list"
  anyPeerMissCounts :: "(string \<times> nat) list"
  anyPeerLastSuccessAt :: "(string \<times> int) list"

definition onStore :: "('w, 'a) io \<Rightarrow> ('w svc, 'a) io" where
  "onStore m s = (case m (sv_store s) of (r, w') \<Rightarrow> (r, s\<lparr>sv_store := w'\<rparr>))"

definition modS :: "('s \<Rightarrow> 's) \<Rightarrow> ('s, unit) io" where
  "modS f s = (Inr (), f s)"

definition getS :: "('s \<Rightarrow> 'a) \<Rightarrow> ('s, 'a) io" where
  "getS f s = (Inr (f s), s)"

record progress =
  sessionPersisted :: bool
  peerLinkUpdated :: bool
  eventAppended :: bool
  sessionPutInput :: "jsval option"

definition progress0 :: progress where
  "progress0 = \<lparr>sessionPersisted = False, peerLinkUpdated = False, eventAppended = False, sessionPutInput = None\<rparr>"

definition onSvc :: "('w svc, 'a) io \<Rightarrow> ('w svc \<times> progress, 'a) io" where
  "onSvc m = (\<lambda>(s, p). case m s of (r, s') \<Rightarrow> (r, (s', p)))"

definition setP :: "(progress \<Rightarrow> progress) \<Rightarrow> ('w svc \<times> progress, unit) io" where
  "setP f = (\<lambda>(s, p). (Inr (), (s, f p)))"

definition counterKey :: "string \<Rightarrow> string \<Rightarrow> string" where
  "counterKey owner remote = owner @ '':'' @ remote"

section \<open>The session commit\<close>

record 'm commit_args =
  ca_ownerAccountId :: jsval
  ca_peerLinkRecord :: jsval
  ca_peerAccountId :: jsval
  ca_secureChannelManager :: "'m option"
  ca_sessionStatus :: jsval
  ca_peerLinkState :: jsval
  ca_existingSession :: jsval
  ca_resetSessionCreatedAt :: bool
  ca_peerInboxId :: jsval
  ca_eventType :: jsval
  ca_eventSummary :: jsval
  ca_eventDetails :: jsval
  ca_atMs :: jsval

text \<open>\<open>commitError\<close> is the pair of stage and message of a \<open>PeerLinkCommitErrorV1\<close>.\<close>

record commit_result =
  cr_snapshot :: jsval
  cr_event :: jsval
  cr_sessionRecord :: jsval
  cr_peerLinkRecord :: jsval
  cr_commitError :: "(string \<times> string) option"

definition appendPeerLinkEvent ::
  "('w, 'm) e2ee_env \<Rightarrow> jsval \<Rightarrow> jsval \<Rightarrow> jsval \<Rightarrow> jsval \<Rightarrow> jsval \<Rightarrow> jsval \<Rightarrow> ('w, jsval) io" where
  "appendPeerLinkEvent E ownerAccountId peerLinkId type1 summary details atMs =
     bindE (liftE (requireId E ownerAccountId ''ownerAccountId'')) (\<lambda>owner.
     bindE (stableId E ''pev'') (\<lambda>eventId.
     bindE (liftE (requireId E peerLinkId ''peerLinkId'')) (\<lambda>link.
     bindE (liftE (requireId E type1 ''type'')) (\<lambda>ty.
     bindE (clock E) (\<lambda>now.
     events_append (storage E) (JObj
       [(''ownerAccountId'', JStr owner), (''eventId'', JStr eventId), (''peerLinkId'', JStr link), (''type'', JStr ty),
        (''atMs'', JInt (asPositiveInt atMs now)), (''summary'', js_or (nonEmpty E summary) JNull),
        (''details'', if is_plain_object details then cloneJsonValue details else JObj [])]))))))"

definition buildSnapshot :: "('w, 'm) e2ee_env \<Rightarrow> jsval \<Rightarrow> ('w, jsval) io" where
  "buildSnapshot E peerLinkRecord =
     (if \<not> js_truthy peerLinkRecord then retE JNull
      else
        bindE (liftE (requireId E (getp peerLinkRecord ''localAccountId'') ''localAccountId'')) (\<lambda>owner.
        bindE (sessions_getByPeerLinkId (storage E) (JStr owner) (getp peerLinkRecord ''peerLinkId'')) (\<lambda>session.
        bindE (events_listByPeerLinkId (storage E) (JStr owner) (getp peerLinkRecord ''peerLinkId'')
                 (JObj [(''limit'', JInt 20)])) (\<lambda>(items, nextCursor).
        retE (JObj
          [(''peerLinkId'', getp peerLinkRecord ''peerLinkId''), (''state'', getp peerLinkRecord ''state''),
           (''localAccountId'', getp peerLinkRecord ''localAccountId''),
           (''peerAccountId'', getp peerLinkRecord ''peerAccountId''),
           (''sessionState'', if js_truthy session then js_or (nonEmpty E (getp session ''status'')) (JStr ''active'')
                              else JStr ''pending''),
           (''activeInviteId'', getp peerLinkRecord ''activeInviteId''),
           (''activeSessionId'', getp peerLinkRecord ''activeSessionId''),
           (''peerInboxId'', getp peerLinkRecord ''peerInboxId''),
           (''lastErrorCode'', js_or (getp peerLinkRecord ''lastErrorCode'') JNull),
           (''lastErrorMessage'', js_or (getp peerLinkRecord ''lastErrorMessage'') JNull),
           (''updatedAtMs'', getp peerLinkRecord ''lastStateChangeAtMs''),
           (''events'', JArr items)])))))"

text \<open>Steps 1 to 3 of \<open>#commitSession\<close>: the record of the session write, and the write.\<close>

definition commit_ratchet :: "('w, 'm) e2ee_env \<Rightarrow> 'm commit_args \<Rightarrow> jsval" where
  "commit_ratchet E a =
     (case ca_secureChannelManager a of
        Some m \<Rightarrow> exportSnapshot E m
      | None \<Rightarrow> if js_truthy (ca_existingSession a) \<and> js_truthy (getp (ca_existingSession a) ''ratchetSnapshot'')
                then getp (ca_existingSession a) ''ratchetSnapshot'' else JNull)"

definition session_put_input ::
  "'m commit_args \<Rightarrow> jsval \<Rightarrow> string \<Rightarrow> string \<Rightarrow> string \<Rightarrow> jsval \<Rightarrow> int \<Rightarrow> jsval" where
  "session_put_input a sessionId peerLinkId owner remote ratchetSnapshot now =
     (let existing = ca_existingSession a in
      spread existing
        [(''sessionId'', sessionId), (''peerLinkId'', JStr peerLinkId), (''localAccountId'', JStr owner),
         (''peerAccountId'', JStr remote), (''status'', ca_sessionStatus a), (''ratchetSnapshot'', ratchetSnapshot),
         (''createdAtMs'', if \<not> ca_resetSessionCreatedAt a \<and> js_truthy (getp existing ''createdAtMs'')
                           then getp existing ''createdAtMs'' else JInt now),
         (''updatedAtMs'', JInt now),
         (''version'', if js_truthy (getp existing ''version'') then getp existing ''version'' else JInt 1)])"

definition commit_persist ::
  "('w, 'm) e2ee_env \<Rightarrow> 'm commit_args \<Rightarrow> string \<Rightarrow> string \<Rightarrow> string \<Rightarrow> int \<Rightarrow> ('w svc \<times> progress, jsval) io" where
  "commit_persist E a owner remote peerLinkId now =
     (let ratchetSnapshot = commit_ratchet E a; existing = ca_existingSession a in
      if \<not> js_truthy ratchetSnapshot then retE JNull
      else
        bindE (if js_truthy (getp existing ''sessionId'') then retE (getp existing ''sessionId'')
               else bindE (onSvc (onStore (stableId E ''pls''))) (\<lambda>i. retE (JStr i))) (\<lambda>sessionId.
        let input = session_put_input a sessionId peerLinkId owner remote ratchetSnapshot now in
        bindE (setP (\<lambda>p. p\<lparr>sessionPutInput := Some input\<rparr>)) (\<lambda>_.
        bindE (onSvc (onStore (sessions_put (storage E) input))) (\<lambda>storedSession.
        bindE (setP (\<lambda>p. p\<lparr>sessionPersisted := True\<rparr>)) (\<lambda>_.
        retE storedSession)))))"

text \<open>Steps 4 to 6: the peer-link transition, the lifecycle event, the counters.\<close>

definition commit_link ::
  "('w, 'm) e2ee_env \<Rightarrow> bool \<Rightarrow> 'm commit_args \<Rightarrow> string \<Rightarrow> string \<Rightarrow> int \<Rightarrow> jsval
     \<Rightarrow> ('w svc \<times> progress, commit_result) io" where
  "commit_link E strict a owner remote now storedSession =
     (let link = ca_peerLinkRecord a in
      bindE (assertTransition (getp link ''state'') (ca_peerLinkState a) (\<lambda>_. retE ()) strict) (\<lambda>_.
      let nextActiveSessionId = (if js_truthy storedSession then getp storedSession ''sessionId''
                                 else getp link ''activeSessionId'');
          nextPeerInboxId = (if ca_peerInboxId a = JUndef then getp link ''peerInboxId'' else ca_peerInboxId a) in
      bindE (onSvc (onStore (peerLinks_update (storage E) (spread link
          [(''state'', ca_peerLinkState a), (''activeSessionId'', nextActiveSessionId), (''peerInboxId'', nextPeerInboxId),
           (''lastStateChangeAtMs'', JInt now), (''lastErrorCode'', JNull), (''lastErrorMessage'', JNull)])
          (getp link ''version'')))) (\<lambda>nextPeerLinkRecord.
      bindE (setP (\<lambda>p. p\<lparr>peerLinkUpdated := True\<rparr>)) (\<lambda>_.
      bindE (onSvc (onStore (appendPeerLinkEvent E (JStr owner) (getp nextPeerLinkRecord ''peerLinkId'') (ca_eventType a)
          (ca_eventSummary a)
          (spread (JObj [(''peerAccountId'', JStr remote),
                         (''sessionId'', if js_truthy storedSession then getp storedSession ''sessionId'' else JNull)])
             (case ca_eventDetails a of JObj ps \<Rightarrow> ps | _ \<Rightarrow> []))
          (JInt now)))) (\<lambda>event.
      bindE (setP (\<lambda>p. p\<lparr>eventAppended := True\<rparr>)) (\<lambda>_.
      bindE (onSvc (modS (\<lambda>s. s
          \<lparr>decryptFailureCounts := AList.delete (counterKey owner remote) (decryptFailureCounts s),
           anyPeerMissCounts := AList.delete (counterKey owner remote) (anyPeerMissCounts s),
           anyPeerLastSuccessAt := AList.update (counterKey owner remote) now (anyPeerLastSuccessAt s)\<rparr>))) (\<lambda>_.
      bindE (onSvc (onStore (buildSnapshot E nextPeerLinkRecord))) (\<lambda>snapshot.
      retE \<lparr>cr_snapshot = snapshot, cr_event = event, cr_sessionRecord = storedSession,
            cr_peerLinkRecord = nextPeerLinkRecord, cr_commitError = None\<rparr>))))))))"

definition commitSession ::
  "('w, 'm) e2ee_env \<Rightarrow> bool \<Rightarrow> 'm commit_args \<Rightarrow> ('w svc \<times> progress, commit_result) io" where
  "commitSession E strict a =
     bindE (liftE (requireId E (ca_ownerAccountId a) ''ownerAccountId'')) (\<lambda>owner.
     bindE (liftE (requireId E (ca_peerAccountId a) ''peerAccountId'')) (\<lambda>remote.
     bindE (requireE (is_object (ca_peerLinkRecord a)) (plain_err ''#commitSession requires peerLinkRecord'')) (\<lambda>_.
     bindE (liftE (requireId E (getp (ca_peerLinkRecord a) ''peerLinkId'') ''peerLinkId'')) (\<lambda>peerLinkId.
     bindE (onSvc (onStore (clock E))) (\<lambda>clockNow.
     let now = asPositiveInt (ca_atMs a) clockNow in
     bindE (commit_persist E a owner remote peerLinkId now) (\<lambda>storedSession.
     commit_link E strict a owner remote now storedSession))))))"

section \<open>The commit after a decrypt\<close>

definition storedRatchetMatches ::
  "('w, 'm) e2ee_env \<Rightarrow> 'm commit_args \<Rightarrow> progress \<Rightarrow> ('w svc, bool) io" where
  "storedRatchetMatches E a p =
     (case ca_secureChannelManager a of
        None \<Rightarrow> retE False
      | Some m \<Rightarrow>
          (let fromInput = (case sessionPutInput p of None \<Rightarrow> JNull | Some x \<Rightarrow> getp x ''sessionId'');
               sessionId = (if js_truthy fromInput then fromInput
                            else if js_truthy (getp (ca_existingSession a) ''sessionId'')
                            then getp (ca_existingSession a) ''sessionId'' else JNull) in
           if \<not> js_truthy sessionId then retE False
           else
             bindE (onStore (sessions_getById (storage E) (ca_ownerAccountId a) sessionId)) (\<lambda>stored.
             if \<not> js_truthy stored \<or> \<not> js_truthy (getp stored ''ratchetSnapshot'') then retE False
             else retE (canonicalJSON E (getp stored ''ratchetSnapshot'') = canonicalJSON E (exportSnapshot E m)))))"

definition SESSION_REWRITE_ATTEMPTS :: nat where
  "SESSION_REWRITE_ATTEMPTS = 2"

text \<open>The bounded identical rewrite; the result says whether one attempt returned.\<close>

fun rewrite_loop :: "('w, 'm) e2ee_env \<Rightarrow> jsval \<Rightarrow> nat \<Rightarrow> ('w svc, bool) io" where
  "rewrite_loop E input 0 = retE False"
| "rewrite_loop E input (Suc n) =
     catchE (bindE (onStore (sessions_put (storage E) input)) (\<lambda>_. retE True))
       (\<lambda>rewriteErr. rewrite_loop E input n)"

definition confirmAdvancedRatchetDurable ::
  "('w, 'm) e2ee_env \<Rightarrow> 'm commit_args \<Rightarrow> progress \<Rightarrow> ('w svc, bool \<times> progress) io" where
  "confirmAdvancedRatchetDurable E a p =
     (if sessionPersisted p then
        bindE (storedRatchetMatches E a p) (\<lambda>b. retE (b, p))
      else case sessionPutInput p of
        None \<Rightarrow> retE (False, p)
      | Some input \<Rightarrow>
          bindE (rewrite_loop E input SESSION_REWRITE_ATTEMPTS) (\<lambda>persisted.
          if \<not> persisted then retE (False, p)
          else bindE (storedRatchetMatches E a (p\<lparr>sessionPersisted := True\<rparr>))
                 (\<lambda>b. retE (b, p\<lparr>sessionPersisted := True\<rparr>))))"

definition failedStage :: "progress \<Rightarrow> string" where
  "failedStage p = (if \<not> sessionPersisted p then ''session-write''
     else if \<not> peerLinkUpdated p then ''peer-link-transition'' else ''event-append'')"

definition describe :: "js_err \<Rightarrow> string" where
  "describe err = (if err_msg err \<noteq> [] then err_msg err else ''Error'')"

definition PeerLinkCommitErrorV1 :: "string \<Rightarrow> string \<Rightarrow> string \<times> string" where
  "PeerLinkCommitErrorV1 stage message = (js_trim stage, js_trim message)"

text \<open>A result without event and session record, for the given link.\<close>

definition settled ::
  "('w, 'm) e2ee_env \<Rightarrow> jsval \<Rightarrow> (string \<times> string) option \<Rightarrow> ('w svc, commit_result) io" where
  "settled E link err =
     bindE (onStore (buildSnapshot E link)) (\<lambda>snapshot.
     retE \<lparr>cr_snapshot = snapshot, cr_event = JNull, cr_sessionRecord = JNull, cr_peerLinkRecord = link,
           cr_commitError = err\<rparr>)"

text \<open>\<open>try { return await f() } catch (err) { ... }\<close> around an operation with a progress object of
  its own, which the handler reads.\<close>

definition tryP ::
  "('w svc \<times> progress, 'a) io \<Rightarrow> (progress \<Rightarrow> js_err \<Rightarrow> ('w svc, 'a) io) \<Rightarrow> ('w svc, 'a) io" where
  "tryP m h s = (case m (s, progress0) of (Inr x, (s', p)) \<Rightarrow> (Inr x, s') | (Inl e, (s', p)) \<Rightarrow> h p e s')"

text \<open>What follows once the ratchet advance is proven durable: the plaintext wins, and the
  peer-link transition is retried once against a fresh read.\<close>

definition recover_durable ::
  "('w, 'm) e2ee_env \<Rightarrow> bool \<Rightarrow> 'm commit_args \<Rightarrow> js_err \<Rightarrow> progress \<Rightarrow> ('w svc, commit_result) io" where
  "recover_durable E strict a firstErr p =
     bindE (onStore (peerLinks_getById (storage E) (ca_ownerAccountId a) (getp (ca_peerLinkRecord a) ''peerLinkId'')))
       (\<lambda>fresh.
     if js_truthy fresh \<and> getp fresh ''state'' = JStr SESSION_ESTABLISHED then
       settled E fresh
         (if peerLinkUpdated p \<and> \<not> eventAppended p
          then Some (PeerLinkCommitErrorV1 ''event-append'' (describe firstErr)) else None)
     else if js_truthy fresh then
       tryP (commitSession E strict (a\<lparr>ca_peerLinkRecord := fresh\<rparr>)) (\<lambda>retryProgress retryErr.
         bindE (if sessionPersisted retryProgress
                then bindE (confirmAdvancedRatchetDurable E a retryProgress) (\<lambda>bp. retE (fst bp))
                else storedRatchetMatches E a p) (\<lambda>stillDurable.
         if \<not> stillDurable then throwE retryErr
         else settled E fresh (Some (PeerLinkCommitErrorV1 (failedStage retryProgress) (describe retryErr)))))
     else settled E (ca_peerLinkRecord a) (Some (PeerLinkCommitErrorV1 (failedStage p) (describe firstErr))))"

definition recoverCommitAfterDecrypt ::
  "('w, 'm) e2ee_env \<Rightarrow> bool \<Rightarrow> 'm commit_args \<Rightarrow> progress \<Rightarrow> js_err \<Rightarrow> ('w svc, commit_result) io" where
  "recoverCommitAfterDecrypt E strict a progress1 firstErr =
     bindE (confirmAdvancedRatchetDurable E a progress1) (\<lambda>bp.
     if \<not> fst bp then throwE firstErr else recover_durable E strict a firstErr (snd bp))"

definition commitSessionAfterDecrypt ::
  "('w, 'm) e2ee_env \<Rightarrow> bool \<Rightarrow> 'm commit_args \<Rightarrow> ('w svc, commit_result) io" where
  "commitSessionAfterDecrypt E strict a =
     tryP (commitSession E strict a) (\<lambda>p firstErr. recoverCommitAfterDecrypt E strict a p firstErr)"

section \<open>Direct messages\<close>

definition not_ready :: "string \<Rightarrow> js_err" where
  "not_ready msg = code_err ''THREAD_NOT_READY'' msg"

record encrypt_result =
  er_peerLinkId :: jsval
  er_sessionId :: jsval
  er_encryptedPacket :: bytes
  er_sessionState :: jsval

definition encryptDirectMessage ::
  "('w, 'm) e2ee_env \<Rightarrow> jsval \<Rightarrow> jsval \<Rightarrow> bytes option \<Rightarrow> ('w, encrypt_result) io" where
  "encryptDirectMessage E ownerAccountId peerAccountId plaintextBytes =
     bindE (liftE (requireId E ownerAccountId ''ownerAccountId'')) (\<lambda>owner.
     bindE (liftE (requireId E peerAccountId ''peerAccountId'')) (\<lambda>remote.
     bindE (liftE (requireBytes plaintextBytes ''encryptDirectMessage requires non-empty plaintextBytes'')) (\<lambda>plaintext.
     bindE (peerLinks_getByPair (storage E) (JStr owner) (JStr remote)) (\<lambda>peerLinkRecord.
     bindE (requireE (js_truthy peerLinkRecord) (not_ready ''No peer link exists for this contact'')) (\<lambda>_.
     bindE (sessions_getByPeerLinkId (storage E) (JStr owner) (getp peerLinkRecord ''peerLinkId'')) (\<lambda>sessionRecord.
     bindE (requireE (is_object sessionRecord) (not_ready ''Secure session is not ready yet'')) (\<lambda>_.
     bindE (requireE (isSessionUsable (getp sessionRecord ''status'')) (not_ready ''Secure session is not ready yet'')) (\<lambda>_.
     bindE (liftE (scm E (getp sessionRecord ''ratchetSnapshot''))) (\<lambda>m.
     bindE (encryptForPeer E m (JStr remote) plaintext) (\<lambda>(encryptedPacket, m').
     bindE (clock E) (\<lambda>now.
     bindE (sessions_put (storage E) (spread sessionRecord
         [(''localAccountId'', JStr owner), (''peerAccountId'', JStr remote),
          (''ratchetSnapshot'', exportSnapshot E m'), (''updatedAtMs'', JInt now)])) (\<lambda>storedSession.
     retE \<lparr>er_peerLinkId = getp peerLinkRecord ''peerLinkId'', er_sessionId = getp storedSession ''sessionId'',
           er_encryptedPacket = encryptedPacket, er_sessionState = getp storedSession ''status''\<rparr>))))))))))))"

record direct_result =
  di_plaintext :: bytes
  di_encrypted :: bool
  di_snapshot :: jsval
  di_event :: jsval
  di_commitError :: "(string \<times> string) option"
  di_peerDeviceId :: jsval

definition sessionStatusOf :: "('w, 'm) e2ee_env \<Rightarrow> jsval \<Rightarrow> jsval" where
  "sessionStatusOf E sessionRecord = js_or (nonEmpty E (getp sessionRecord ''status'')) (JStr ''pending'')"

definition nextStatus :: "jsval \<Rightarrow> jsval" where
  "nextStatus sessionStatus =
     (if sessionStatus = JStr ''pending_remote_confirm'' then JStr ''active'' else sessionStatus)"

text \<open>What both decrypt paths do once the codec has accepted a packet: the confirming commit,
  or in the steady state only the write of the advanced ratchet.\<close>

definition settle_decrypt ::
  "('w, 'm) e2ee_env \<Rightarrow> bool \<Rightarrow> string \<Rightarrow> jsval \<Rightarrow> jsval \<Rightarrow> jsval \<Rightarrow> decrypt_result \<Rightarrow> 'm
     \<Rightarrow> ('w svc, direct_result) io" where
  "settle_decrypt E strict owner peerAccount peerLinkRecord sessionRecord result m =
     (let sessionStatus = sessionStatusOf E sessionRecord; nextSessionStatus = nextStatus sessionStatus in
      if getp peerLinkRecord ''state'' \<noteq> JStr SESSION_ESTABLISHED \<or> nextSessionStatus \<noteq> sessionStatus then
        bindE (onStore (clock E)) (\<lambda>now.
        bindE (commitSessionAfterDecrypt E strict
          \<lparr>ca_ownerAccountId = JStr owner, ca_peerLinkRecord = peerLinkRecord, ca_peerAccountId = peerAccount,
           ca_secureChannelManager = Some m, ca_sessionStatus = nextSessionStatus,
           ca_peerLinkState = JStr SESSION_ESTABLISHED, ca_existingSession = sessionRecord,
           ca_resetSessionCreatedAt = False, ca_peerInboxId = JUndef,
           ca_eventType = JStr ''session_established'', ca_eventSummary = JStr ''Secure session confirmed'',
           ca_eventDetails = JObj [(''sessionId'', getp sessionRecord ''sessionId''), (''peerAccountId'', peerAccount)],
           ca_atMs = JInt now\<rparr>) (\<lambda>commit.
        retE \<lparr>di_plaintext = dr_plaintext result, di_encrypted = dr_encrypted result, di_snapshot = cr_snapshot commit,
              di_event = cr_event commit, di_commitError = cr_commitError commit, di_peerDeviceId = JUndef\<rparr>))
      else
        bindE (onStore (clock E)) (\<lambda>now.
        bindE (onStore (sessions_put (storage E) (spread sessionRecord
            [(''localAccountId'', JStr owner), (''peerAccountId'', peerAccount), (''status'', nextSessionStatus),
             (''ratchetSnapshot'', exportSnapshot E m), (''updatedAtMs'', JInt now)]))) (\<lambda>_.
        bindE (onStore (buildSnapshot E peerLinkRecord)) (\<lambda>snapshot.
        retE \<lparr>di_plaintext = dr_plaintext result, di_encrypted = dr_encrypted result, di_snapshot = snapshot,
              di_event = JNull, di_commitError = None, di_peerDeviceId = JUndef\<rparr>))))"

definition REHANDSHAKE_DECRYPT_FAILURE_THRESHOLD :: nat where
  "REHANDSHAKE_DECRYPT_FAILURE_THRESHOLD = 3"

definition count_of :: "(string \<times> nat) list \<Rightarrow> string \<Rightarrow> nat" where
  "count_of m k = (case map_of m k of None \<Rightarrow> 0 | Some n \<Rightarrow> n)"

definition decryptDirectMessage ::
  "('w, 'm) e2ee_env \<Rightarrow> bool \<Rightarrow> jsval \<Rightarrow> jsval \<Rightarrow> bytes option \<Rightarrow> ('w svc, direct_result) io" where
  "decryptDirectMessage E strict ownerAccountId peerAccountId packetBytes =
     bindE (liftE (requireId E ownerAccountId ''ownerAccountId'')) (\<lambda>owner.
     bindE (liftE (requireId E peerAccountId ''peerAccountId'')) (\<lambda>remote.
     bindE (liftE (requireBytes packetBytes ''decryptDirectMessage requires non-empty packetBytes'')) (\<lambda>packet.
     bindE (onStore (peerLinks_getByPair (storage E) (JStr owner) (JStr remote))) (\<lambda>peerLinkRecord.
     bindE (requireE (js_truthy peerLinkRecord) (not_ready ''Secure session is not ready yet'')) (\<lambda>_.
     bindE (onStore (sessions_getByPeerLinkId (storage E) (JStr owner) (getp peerLinkRecord ''peerLinkId''))) (\<lambda>sessionRecord.
     bindE (requireE (is_object sessionRecord) (not_ready ''Secure session is not ready yet'')) (\<lambda>_.
     bindE (requireE (isSessionUsable (sessionStatusOf E sessionRecord)) (not_ready ''Secure session is not ready yet'')) (\<lambda>_.
     bindE (liftE (scm E (getp sessionRecord ''ratchetSnapshot''))) (\<lambda>m.
     bindE (onStore (decryptIncoming E m packet)) (\<lambda>(result, m').
     if \<not> dr_encrypted result \<and> \<not> dr_handshake result then
       throwE (code_err ''PLAINTEXT_REJECTED'' ''Plaintext packet rejected: secure session exists'')
     else if dr_encrypted result \<and> dr_peerId result = [] \<and> \<not> dr_handshake result then
       bindE (getS (\<lambda>s. count_of (decryptFailureCounts s) (counterKey owner remote))) (\<lambda>prevCount.
       bindE (modS (\<lambda>s. s\<lparr>decryptFailureCounts :=
           AList.update (counterKey owner remote) (Suc prevCount) (decryptFailureCounts s)\<rparr>)) (\<lambda>_.
       throwE (JsErr ''DECRYPT_FAILED'' (''E2EE decryption failed: possible ratchet desync for peer '' @ remote)
         [(''peerAccountId'', JStr remote), (''peerLinkId'', getp peerLinkRecord ''peerLinkId''),
          (''consecutiveFailures'', JInt (int (Suc prevCount))),
          (''rehandshakeNeeded'', JBool (REHANDSHAKE_DECRYPT_FAILURE_THRESHOLD \<le> Suc prevCount))])))
     else
       bindE (modS (\<lambda>s. s
          \<lparr>decryptFailureCounts := AList.delete (counterKey owner remote) (decryptFailureCounts s),
           anyPeerMissCounts := AList.delete (counterKey owner remote) (anyPeerMissCounts s)\<rparr>)) (\<lambda>_.
       settle_decrypt E strict owner (JStr remote) peerLinkRecord sessionRecord result m')))))))))))"

definition HEALTHY_SESSION_DECRYPT_GUARD_MS :: int where
  "HEALTHY_SESSION_DECRYPT_GUARD_MS = 30000"

text \<open>The recovery attribution of a total miss: one more miss for each candidate link, and
  whether it is to be rehandshaken.\<close>

fun note_misses ::
  "string \<Rightarrow> int \<Rightarrow> (string \<times> int) list \<Rightarrow> jsval list \<Rightarrow> (string \<times> nat) list \<Rightarrow> jsval list \<times> (string \<times> nat) list" where
  "note_misses owner nowMs lastSuccess [] counts = ([], counts)"
| "note_misses owner nowMs lastSuccess (row # rows) counts =
     (let key = counterKey owner (js_String (getp row ''peerAccountId''));
          misses = Suc (count_of counts key);
          lastSuccessAt = (case map_of lastSuccess key of None \<Rightarrow> 0 | Some t \<Rightarrow> t);
          sessionHealthy = (0 < lastSuccessAt \<and> nowMs - lastSuccessAt < HEALTHY_SESSION_DECRYPT_GUARD_MS);
          info = JObj [(''peerAccountId'', getp row ''peerAccountId''), (''peerLinkId'', getp row ''peerLinkId''),
                       (''consecutiveMisses'', JInt (int misses)),
                       (''rehandshakeNeeded'',
                          JBool (REHANDSHAKE_DECRYPT_FAILURE_THRESHOLD \<le> misses \<and> \<not> sessionHealthy))];
          (infos, counts') = note_misses owner nowMs lastSuccess rows (AList.update key misses counts)
      in (info # infos, counts'))"

definition any_peer_miss :: "('w, 'm) e2ee_env \<Rightarrow> string \<Rightarrow> jsval list \<Rightarrow> ('w svc, direct_result) io" where
  "any_peer_miss E owner candidates =
     bindE (onStore (clock E)) (\<lambda>nowMs.
     bindE (getS (\<lambda>s. note_misses owner nowMs (anyPeerLastSuccessAt s) candidates (anyPeerMissCounts s)))
       (\<lambda>(infos, counts).
     bindE (modS (\<lambda>s. s\<lparr>anyPeerMissCounts := counts\<rparr>)) (\<lambda>_.
     throwE (JsErr ''THREAD_NOT_READY'' ''No peer link could decrypt packet'' [(''recoveryCandidates'', JArr infos)]))))"

text \<open>A decrypt for the peer succeeded: its counters are cleared and the link is healthy.\<close>

definition mark_success :: "('w, 'm) e2ee_env \<Rightarrow> string \<Rightarrow> ('w svc, unit) io" where
  "mark_success E key =
     bindE (modS (\<lambda>s. s\<lparr>decryptFailureCounts := AList.delete key (decryptFailureCounts s),
                         anyPeerMissCounts := AList.delete key (anyPeerMissCounts s)\<rparr>)) (\<lambda>_.
     bindE (onStore (clock E)) (\<lambda>now.
     modS (\<lambda>s. s\<lparr>anyPeerLastSuccessAt := AList.update key now (anyPeerLastSuccessAt s)\<rparr>)))"

text \<open>One link of the loop: it decrypted, it has no usable session, or it has one that should
  have decrypted and did not.\<close>

datatype row_outcome = Hit direct_result | NoSession | Candidate

definition row_device_hit ::
  "('w, 'm) e2ee_env \<Rightarrow> string \<Rightarrow> jsval \<Rightarrow> jsval \<Rightarrow> bytes \<Rightarrow> ('w svc, row_outcome) io" where
  "row_device_hit E key row peerDeviceId plaintext =
     bindE (mark_success E key) (\<lambda>_.
     bindE (onStore (buildSnapshot E row)) (\<lambda>snapshot.
     retE (Hit \<lparr>di_plaintext = plaintext, di_encrypted = True, di_snapshot = snapshot, di_event = JNull,
                di_commitError = None, di_peerDeviceId = peerDeviceId\<rparr>)))"

definition row_session ::
  "('w, 'm) e2ee_env \<Rightarrow> bool \<Rightarrow> string \<Rightarrow> bytes \<Rightarrow> jsval \<Rightarrow> ('w svc, row_outcome) io" where
  "row_session E strict owner packet row =
     bindE (onStore (sessions_getByPeerLinkId (storage E) (JStr owner) (getp row ''peerLinkId''))) (\<lambda>sessionRecord.
     if \<not> is_object sessionRecord \<or> \<not> isSessionUsable (sessionStatusOf E sessionRecord) then retE NoSession
     else
       bindE (liftE (scm E (getp sessionRecord ''ratchetSnapshot''))) (\<lambda>m.
       bindE (onStore (decryptIncoming E m packet)) (\<lambda>(result, m').
       if \<not> dr_encrypted result \<or> dr_peerId result = [] then retE Candidate
       else
         bindE (mark_success E (counterKey owner (js_String (getp row ''peerAccountId'')))) (\<lambda>_.
         bindE (settle_decrypt E strict owner (getp row ''peerAccountId'') row sessionRecord result m') (\<lambda>d.
         retE (Hit d))))))"

definition try_row ::
  "('w, 'm) e2ee_env \<Rightarrow> bool \<Rightarrow> bool \<Rightarrow> string \<Rightarrow> bytes \<Rightarrow> jsval \<Rightarrow> ('w svc, row_outcome) io" where
  "try_row E strict hasDevices owner packet row =
     (let peerAccount = getp row ''peerAccountId'' in
      if \<not> js_truthy row \<or> \<not> js_truthy peerAccount then retE NoSession
      else
        bindE (if hasDevices
               then onStore (trialDecryptAcrossDevices E (JStr owner) peerAccount (getp row ''peerLinkId'') (Some packet))
               else retE None) (\<lambda>deviceHit.
        case deviceHit of
          Some (peerDeviceId, plaintext, sid) \<Rightarrow>
            row_device_hit E (counterKey owner (js_String peerAccount)) row peerDeviceId plaintext
        | None \<Rightarrow> row_session E strict owner packet row))"

fun any_peer_loop ::
  "('w, 'm) e2ee_env \<Rightarrow> bool \<Rightarrow> bool \<Rightarrow> string \<Rightarrow> bytes \<Rightarrow> jsval list \<Rightarrow> jsval list \<Rightarrow> ('w svc, direct_result) io" where
  "any_peer_loop E strict hasDevices owner packet [] candidates = any_peer_miss E owner candidates"
| "any_peer_loop E strict hasDevices owner packet (row # rows) candidates =
     bindE (try_row E strict hasDevices owner packet row) (\<lambda>outcome.
     case outcome of
       Hit d \<Rightarrow> retE d
     | NoSession \<Rightarrow> any_peer_loop E strict hasDevices owner packet rows candidates
     | Candidate \<Rightarrow> any_peer_loop E strict hasDevices owner packet rows (candidates @ [row]))"

definition decryptDirectMessageAnyPeer ::
  "('w, 'm) e2ee_env \<Rightarrow> bool \<Rightarrow> bool \<Rightarrow> jsval \<Rightarrow> bytes option \<Rightarrow> ('w svc, direct_result) io" where
  "decryptDirectMessageAnyPeer E strict hasDevices ownerAccountId packetBytes =
     bindE (liftE (requireId E ownerAccountId ''ownerAccountId'')) (\<lambda>owner.
     bindE (liftE (requireBytes packetBytes ''decryptDirectMessageAnyPeer requires non-empty packetBytes'')) (\<lambda>packet.
     bindE (onStore (peerLinks_listByOwner (storage E) (JStr owner))) (\<lambda>rows.
     any_peer_loop E strict hasDevices owner packet rows [])))"

definition decryptDirectMessageByThreadId ::
  "('w, 'm) e2ee_env \<Rightarrow> bool \<Rightarrow> bool \<Rightarrow> jsval \<Rightarrow> bytes option \<Rightarrow> ('w svc, direct_result) io" where
  "decryptDirectMessageByThreadId E strict hasDevices ownerAccountId packetBytes =
     decryptDirectMessageAnyPeer E strict hasDevices ownerAccountId packetBytes"

section \<open>The trace of the service\<close>

abbreviation str :: "('w \<times> st_event list) svc \<Rightarrow> st_event list" where
  "str s \<equiv> snd (sv_store s)"

abbreviation ptr :: "('w \<times> st_event list) svc \<times> progress \<Rightarrow> st_event list" where
  "ptr sp \<equiv> str (fst sp)"

lemma emits_onStore: "emits Q m \<Longrightarrow> emits_on str Q (onStore m)"
  unfolding emits_on_def onStore_def by (fastforce split: prod.splits)

lemma emits_onSvc: "emits_on str Q m \<Longrightarrow> emits_on ptr Q (onSvc m)"
  unfolding emits_on_def onSvc_def by (fastforce split: prod.splits)

lemma grows_svc [grow]:
  "grows snd m \<Longrightarrow> grows str (onStore m)" "grows str m' \<Longrightarrow> grows ptr (onSvc m')"
  by (rule emits_onStore emits_onSvc, assumption)+

lemma grows_state [grow]: "grows ptr (setP f)" "grows str (getS g)"
  by (auto simp: setP_def getS_def emits_on_def)

lemma grows_modS [grow]: "(\<And>s. sv_store (f s) = sv_store s) \<Longrightarrow> grows str (modS f)"
  by (auto simp: modS_def emits_on_def)

lemma grows_stableId [grow]: "grows snd (stableId (traced E) pfx)"
  unfolding stableId_def traced_ops traced_pure Let_def by (intro grow)

lemma grows_appendPeerLinkEvent [grow]: "grows snd (appendPeerLinkEvent (traced E) a b c d e f)"
  unfolding appendPeerLinkEvent_def traced_ops traced_store traced_pure by (intro grow)

lemma grows_buildSnapshot [grow]: "grows snd (buildSnapshot (traced E) r)"
  unfolding buildSnapshot_def traced_ops traced_store traced_pure
  by (intro grow) (auto intro: grow split: prod.splits)

section \<open>Durability\<close>

text \<open>The two facts the recovery contract asks for, read off a trace: a session write with the
  snapshot \<open>snap\<close> returned, and a read-back held it.\<close>

definition write_returned :: "jsval \<Rightarrow> st_event list \<Rightarrow> bool" where
  "write_returned snap t \<longleftrightarrow> (\<exists>x. PutOk x \<in> set t \<and> getp x ''ratchetSnapshot'' = snap)"

definition read_back :: "('w, 'm) e2ee_env \<Rightarrow> jsval \<Rightarrow> st_event list \<Rightarrow> bool" where
  "read_back E snap t \<longleftrightarrow> (\<exists>a i v. ReadSession a i v \<in> set t
     \<and> canonicalJSON E (getp v ''ratchetSnapshot'') = canonicalJSON E snap)"

lemma durable_append [simp]:
  "write_returned snap t \<Longrightarrow> write_returned snap (t @ u)" "read_back E snap t \<Longrightarrow> read_back E snap (t @ u)"
  by (auto simp: write_returned_def read_back_def)

lemma write_returned_PutOk: "PutOk x \<in> set t \<Longrightarrow> getp x ''ratchetSnapshot'' = snap \<Longrightarrow> write_returned snap t"
  by (auto simp: write_returned_def)

lemma spread_getp_last:
  "map_of (rev kvs) k = Some v \<Longrightarrow> getp (spread r kvs) k = v"
  by (simp add: spread_def foldl_assoc_set map_add_def)

lemma session_put_input_ratchet:
  "getp (session_put_input a i l o1 rm snap now) ''ratchetSnapshot'' = snap"
  unfolding session_put_input_def Let_def by (rule spread_getp_last) simp

text \<open>What a progress object records is true of the trace.\<close>

definition progress_ok :: "jsval \<Rightarrow> progress \<Rightarrow> st_event list \<Rightarrow> bool" where
  "progress_ok snap p t \<longleftrightarrow> (sessionPersisted p \<longrightarrow> write_returned snap t)
     \<and> (\<forall>x. sessionPutInput p = Some x \<longrightarrow> getp x ''ratchetSnapshot'' = snap)"

lemma progress_ok_append [simp]: "progress_ok snap p t \<Longrightarrow> progress_ok snap p (t @ u)"
  by (auto simp: progress_ok_def)

lemma progress0_ok [simp]: "progress_ok snap progress0 t"
  by (simp add: progress_ok_def progress0_def)

lemma stableId_grows_run:
  "stableId (traced E) pfx w = (r, w') \<Longrightarrow> \<exists>u. snd w' = snd w @ u"
  using emits_onD [OF grows_stableId, of E pfx w r w'] by simp

lemma commit_persist_run:
  assumes "commit_persist (traced E) a owner remote peerLinkId now (s, p) = (r, (s', p'))"
    and m: "ca_secureChannelManager a = Some m" and obj: "js_truthy (exportSnapshot E m)"
    and ok: "progress_ok (exportSnapshot E m) p (str s)"
  shows "progress_ok (exportSnapshot E m) p' (str s')"
    and "\<And>x. r = Inr x \<Longrightarrow> write_returned (exportSnapshot E m) (str s')"
proof -
  have snap: "commit_ratchet (traced E) a = exportSnapshot E m" using m by (simp add: commit_ratchet_def)
  let ?snap = "exportSnapshot E m"
  let ?sid = "if js_truthy (getp (ca_existingSession a) ''sessionId'') then retE (getp (ca_existingSession a) ''sessionId'')
    else bindE (onSvc (onStore (stableId (traced E) ''pls''))) (\<lambda>i. retE (JStr i))"
  let ?rest = "\<lambda>sessionId.
        let input = session_put_input a sessionId peerLinkId owner remote ?snap now in
        bindE (setP (\<lambda>p. p\<lparr>sessionPutInput := Some input\<rparr>)) (\<lambda>_.
        bindE (onSvc (onStore (sessions_put (storage (traced E)) input))) (\<lambda>storedSession.
        bindE (setP (\<lambda>p. p\<lparr>sessionPersisted := True\<rparr>)) (\<lambda>_. retE storedSession)))"
  obtain r1 s1 p1 where first: "?sid (s, p) = (r1, (s1, p1))" by (metis prod.exhaust)
  have p1: "p1 = p" "\<exists>u. str s1 = str s @ u"
    using first by (auto simp: run_simps onSvc_def onStore_def dest!: stableId_grows_run
        split: prod.splits sum.splits if_splits)
  then have ok1: "progress_ok ?snap p1 (str s1)" using ok by auto
  have rest: "progress_ok ?snap p' (str s') \<and> (\<forall>x. r = Inr x \<longrightarrow> write_returned ?snap (str s'))"
    if "?rest i (s1, p1) = (r, (s', p'))" for i
    using that ok1
    by (auto simp: run_simps onSvc_def onStore_def setP_def session_put_input_ratchet progress_ok_def Let_def
        intro: write_returned_PutOk split: prod.splits sum.splits)
  have run: "bindE ?sid ?rest (s, p) = (r, (s', p'))"
    using assms(1) obj unfolding commit_persist_def snap Let_def by simp
  show "progress_ok ?snap p' (str s')"
  proof (cases r1)
    case (Inl e)
    then show ?thesis using run first ok1 by (simp add: bindE_def)
  next
    case (Inr i)
    then show ?thesis using run first rest [of i] by (simp add: bindE_def)
  qed
  show "\<And>x. r = Inr x \<Longrightarrow> write_returned ?snap (str s')"
    using run first rest by (cases r1) (auto simp: bindE_def)
qed

text \<open>The later steps only add to the trace and leave what the progress says about the session
  write as it is.\<close>

definition keeps_session_progress :: "(('w \<times> st_event list) svc \<times> progress, 'a) io \<Rightarrow> bool" where
  "keeps_session_progress m \<longleftrightarrow> (\<forall>s p r s' p'. m (s, p) = (r, (s', p')) \<longrightarrow>
     sessionPersisted p' = sessionPersisted p \<and> sessionPutInput p' = sessionPutInput p
     \<and> (\<exists>u. str s' = str s @ u))"

named_theorems keeps \<open>operations that keep the session part of the progress\<close>

lemma keeps_bindE [keeps]:
  assumes "keeps_session_progress m" "\<And>x. keeps_session_progress (f x)"
  shows "keeps_session_progress (bindE m f)"
  unfolding keeps_session_progress_def
proof (intro allI impI)
  fix s p r s' p'
  assume run: "bindE m f (s, p) = (r, s', p')"
  obtain r1 s1 p1 where m: "m (s, p) = (r1, s1, p1)" by (metis prod.exhaust)
  show "sessionPersisted p' = sessionPersisted p \<and> sessionPutInput p' = sessionPutInput p \<and> (\<exists>u. str s' = str s @ u)"
    using run m assms unfolding keeps_session_progress_def
    by (cases r1) (fastforce simp: bindE_def)+
qed

lemma keeps_onSvc [keeps]: "grows str m \<Longrightarrow> keeps_session_progress (onSvc m)"
  unfolding keeps_session_progress_def onSvc_def emits_on_def by (fastforce split: prod.splits)

lemma keeps_basic [keeps]: "keeps_session_progress (retE x)" "keeps_session_progress (throwE e)"
  by (auto simp: keeps_session_progress_def)

lemma keeps_setP [keeps]:
  "(\<And>p. sessionPersisted (f p) = sessionPersisted p) \<Longrightarrow> (\<And>p. sessionPutInput (f p) = sessionPutInput p) \<Longrightarrow>
   keeps_session_progress (setP f)"
  by (auto simp: keeps_session_progress_def setP_def)

lemma keeps_if [keeps]:
  "keeps_session_progress m \<Longrightarrow> keeps_session_progress n \<Longrightarrow> keeps_session_progress (if b then m else n)"
  by simp

lemma keeps_guard [keeps]: "keeps_session_progress (liftE r)" "keeps_session_progress (requireE c e)"
  by (auto simp: keeps_session_progress_def liftE_def requireE_def)

lemma keeps_assertTransition [keeps]: "keeps_session_progress (assertTransition f t (\<lambda>_. retE ()) strict)"
  unfolding assertTransition_def Let_def by (intro keeps)

lemma keeps_commit_link: "keeps_session_progress (commit_link (traced E) strict a owner remote now stored)"
  unfolding commit_link_def Let_def traced_store by (intro keeps grow) simp_all

text \<open>An operation after which the progress is true of the trace and a result means that the
  session write returned.\<close>

definition commits :: "jsval \<Rightarrow> (('w \<times> st_event list) svc \<times> progress, 'a) io \<Rightarrow> bool" where
  "commits snap m \<longleftrightarrow> (\<forall>s p r s' p'. m (s, p) = (r, (s', p')) \<longrightarrow> progress_ok snap p (str s) \<longrightarrow>
     progress_ok snap p' (str s') \<and> (\<exists>u. str s' = str s @ u)
     \<and> (\<forall>x. r = Inr x \<longrightarrow> write_returned snap (str s')))"

lemma progress_ok_keep:
  assumes "progress_ok snap p t" "sessionPersisted p' = sessionPersisted p" "sessionPutInput p' = sessionPutInput p"
  shows "progress_ok snap p' (t @ u)"
  using assms by (auto simp: progress_ok_def)

lemma keeps_run:
  assumes "keeps_session_progress m" "m (s, p) = (r, (s', p'))" "progress_ok snap p (str s)"
  shows "progress_ok snap p' (str s')" "\<exists>u. str s' = str s @ u"
  using assms progress_ok_keep [of snap p "str s" p'] unfolding keeps_session_progress_def by metis+

lemma commits_after:
  assumes "keeps_session_progress m" "\<And>x. commits snap (f x)"
  shows "commits snap (bindE m f)"
  unfolding commits_def
proof (intro allI impI)
  fix s p r s' p'
  assume run: "bindE m f (s, p) = (r, s', p')" and ok: "progress_ok snap p (str s)"
  obtain r1 s1 p1 where m: "m (s, p) = (r1, s1, p1)" by (metis prod.exhaust)
  note k = keeps_run [OF assms(1) m ok]
  show "progress_ok snap p' (str s') \<and> (\<exists>u. str s' = str s @ u) \<and> (\<forall>x. r = Inr x \<longrightarrow> write_returned snap (str s'))"
  proof (cases r1)
    case (Inl e)
    then show ?thesis using run m k by (auto simp: bindE_def)
  next
    case (Inr x)
    then have "f x (s1, p1) = (r, s', p')" using run m by (simp add: bindE_def)
    then show ?thesis using assms(2) [of x, unfolded commits_def] k by fastforce
  qed
qed

lemma commits_before:
  assumes "commits snap m" "\<And>x. keeps_session_progress (f x)"
  shows "commits snap (bindE m f)"
  unfolding commits_def
proof (intro allI impI)
  fix s p r s' p'
  assume run: "bindE m f (s, p) = (r, s', p')" and ok: "progress_ok snap p (str s)"
  obtain r1 s1 p1 where m: "m (s, p) = (r1, s1, p1)" by (metis prod.exhaust)
  note c = assms(1) [unfolded commits_def, rule_format, OF m ok]
  show "progress_ok snap p' (str s') \<and> (\<exists>u. str s' = str s @ u) \<and> (\<forall>x. r = Inr x \<longrightarrow> write_returned snap (str s'))"
  proof (cases r1)
    case (Inl e)
    then show ?thesis using run m c by (auto simp: bindE_def)
  next
    case (Inr x)
    then have fx: "f x (s1, p1) = (r, s', p')" using run m by (simp add: bindE_def)
    have ok': "progress_ok snap p' (str s')" "\<exists>u. str s' = str s1 @ u"
      using keeps_run [OF assms(2) fx] c by blast+
    then have "write_returned snap (str s')" using c Inr durable_append(1) by metis
    then show ?thesis using ok' c by auto
  qed
qed

lemma grows_commit_persist: "grows ptr (commit_persist (traced E) a owner remote peerLinkId now)"
  unfolding commit_persist_def Let_def traced_store by (intro grow)

lemma commits_commitSession:
  assumes "ca_secureChannelManager a = Some m" "js_truthy (exportSnapshot E m)"
  shows "commits (exportSnapshot E m) (commitSession (traced E) strict a)"
proof -
  have "commits (exportSnapshot E m) (commit_persist (traced E) a owner remote peerLinkId now)"
    for owner remote peerLinkId now
    unfolding commits_def
    using commit_persist_run [OF _ assms] emits_onD [OF grows_commit_persist] by (metis (no_types, lifting) fst_conv)
  then show ?thesis
    unfolding commitSession_def Let_def traced_ops
    by (intro commits_after commits_before keeps_commit_link keeps grow)
qed

lemma rewrite_loop_emits:
  "emits_on str (\<lambda>r u. r \<noteq> Inr False \<longrightarrow> PutOk input \<in> set u) (rewrite_loop (traced E) input n)"
proof (induction n)
  case 0
  show ?case unfolding rewrite_loop.simps by (rule emits_retE) simp
next
  case (Suc n)
  have put: "emits_on str (\<lambda>r u. (\<exists>x. r = Inr x) \<longrightarrow> PutOk input \<in> set u)
      (onStore (sessions_put (storage (traced E)) input))"
    unfolding traced_store by (rule emits_onStore, rule emits_mono [OF emits_noted]) (auto simp: ok_or_def)
  show ?case
    unfolding rewrite_loop.simps
  proof (rule emits_catchE [where P = "\<lambda>r u. (\<exists>x. r = Inr x) \<longrightarrow> PutOk input \<in> set u"], goal_cases)
    case 1
    show ?case by (rule emits_bindE [OF put]) (auto intro: emits_retE)
  next
    case (3 e u)
    show ?case by (rule emits_mono [OF Suc]) auto
  qed auto
qed

lemma storedRatchetMatches_emits:
  assumes "ca_secureChannelManager a = Some m"
  shows "emits_on str (\<lambda>r u. r = Inr True \<longrightarrow> read_back E (exportSnapshot E m) u) (storedRatchetMatches (traced E) a p)"
proof -
  have "emits_on str (\<lambda>r u. \<forall>v. r = Inr v \<longrightarrow> ReadSession (ca_ownerAccountId a) sid v \<in> set u)
      (onStore (sessions_getById (storage (traced E)) (ca_ownerAccountId a) sid))" for sid
    unfolding traced_store by (rule emits_onStore, rule emits_mono [OF emits_noted]) auto
  then show ?thesis
    unfolding storedRatchetMatches_def using assms
    by (auto simp: Let_def simp del: traced_store intro!: emits_retE emits_bindE)
      (auto simp: read_back_def emits_on_def split: if_splits)
qed

lemma grows_service [grow]:
  "grows ptr (commit_persist (traced E) a owner remote peerLinkId now)"
  "grows str (settled (traced E) link err)"
  "grows str (rewrite_loop (traced E) input n)"
proof -
  show "grows str (settled (traced E) link err)" unfolding settled_def by (intro grow)
  show "grows str (rewrite_loop (traced E) input n)"
    by (rule emits_mono [OF rewrite_loop_emits]) simp
qed (rule grows_commit_persist)

lemma grows_ptr_keeps: "keeps_session_progress m \<Longrightarrow> grows ptr m"
  unfolding keeps_session_progress_def emits_on_def by fastforce

lemma grows_commitSession [grow]: "grows ptr (commitSession (traced E) strict a)"
  unfolding commitSession_def Let_def traced_ops
  by (intro grow grows_ptr_keeps [OF keeps_commit_link])

lemma grows_storedRatchetMatches [grow]: "grows str (storedRatchetMatches (traced E) a p)"
  unfolding storedRatchetMatches_def Let_def traced_store by (auto intro!: grow split: option.splits)

lemma grows_confirm [grow]: "grows str (confirmAdvancedRatchetDurable (traced E) a p)"
  unfolding confirmAdvancedRatchetDurable_def by (auto intro!: grow split: option.splits)

lemma grows_tryP [grow]:
  assumes "grows ptr m" "\<And>p e. grows str (h p e)"
  shows "grows str (tryP m h)"
  unfolding emits_on_def
proof (intro allI impI)
  fix s r s'
  assume run: "tryP m h s = (r, s')"
  obtain r1 s1 p1 where m: "m (s, progress0) = (r1, s1, p1)" by (metis prod.exhaust)
  obtain u where u: "str s1 = str s @ u" using emits_onD [OF assms(1) m] by auto
  show "\<exists>u. str s' = str s @ u \<and> True"
    using run m u emits_onD [OF assms(2), of p1 _ s1 r s'] by (cases r1) (fastforce simp: tryP_def)+
qed

lemma confirm_emits:
  assumes m: "ca_secureChannelManager a = Some m" and ok: "progress_ok (exportSnapshot E m) p t"
  shows "emits_on str (\<lambda>r u. \<forall>p'. r = Inr (True, p') \<longrightarrow>
       write_returned (exportSnapshot E m) (t @ u) \<and> read_back E (exportSnapshot E m) u)
     (confirmAdvancedRatchetDurable (traced E) a p)"
proof -
  let ?snap = "exportSnapshot E m"
  note match = storedRatchetMatches_emits [OF m]
  show ?thesis
  proof (cases "sessionPersisted p")
    case True
    then have "write_returned ?snap t" using ok by (simp add: progress_ok_def)
    then have "emits_on str (\<lambda>r u. \<forall>p'. r = Inr (True, p') \<longrightarrow> write_returned ?snap (t @ u) \<and> read_back E ?snap u)
        (bindE (storedRatchetMatches (traced E) a p) (\<lambda>b. retE (b, p)))"
      by (intro emits_bindE [OF match]) (auto simp: emits_on_def)
    then show ?thesis
      unfolding confirmAdvancedRatchetDurable_def using True by simp
  next
    case False
    show ?thesis
    proof (cases "sessionPutInput p")
      case None
      then show ?thesis
        unfolding confirmAdvancedRatchetDurable_def using False by (auto simp: emits_on_def)
    next
      case (Some input)
      have w: "write_returned ?snap u" if "PutOk input \<in> set u" for u
        using that ok Some by (auto simp: progress_ok_def intro: write_returned_PutOk)
      have app: "write_returned ?snap (t @ u)" if "write_returned ?snap u" for u
        using that by (auto simp: write_returned_def)
      have backr: "read_back E ?snap (u @ v)" if "read_back E ?snap v" for u v
        using that by (auto simp: read_back_def)
      have inner: "emits_on str (\<lambda>r v. \<forall>p'. r = Inr (True, p') \<longrightarrow>
           write_returned ?snap (t @ u @ v) \<and> read_back E ?snap (u @ v))
         (bindE (storedRatchetMatches (traced E) a (p\<lparr>sessionPersisted := True\<rparr>))
           (\<lambda>b. retE (b, p\<lparr>sessionPersisted := True\<rparr>)))" if "PutOk input \<in> set u" for u
        by (rule emits_bindE [OF match]) (use that w app backr in \<open>auto simp: emits_on_def\<close>)
      have "emits_on str (\<lambda>r u. \<forall>p'. r = Inr (True, p') \<longrightarrow> write_returned ?snap (t @ u) \<and> read_back E ?snap u)
         (bindE (rewrite_loop (traced E) input SESSION_REWRITE_ATTEMPTS) (\<lambda>persisted.
          if \<not> persisted then retE (False, p)
          else bindE (storedRatchetMatches (traced E) a (p\<lparr>sessionPersisted := True\<rparr>))
                 (\<lambda>b. retE (b, p\<lparr>sessionPersisted := True\<rparr>))))"
      proof (rule emits_bindE [OF rewrite_loop_emits], goal_cases)
        case (2 x u)
        then show ?case using inner [of u] by (cases x) (simp_all, simp add: emits_on_def)
      qed simp
      then show ?thesis
        unfolding confirmAdvancedRatchetDurable_def using False Some by simp
    qed
  qed
qed

lemma grows_recover_durable [grow]: "grows str (recover_durable (traced E) strict a e p)"
  unfolding recover_durable_def traced_store by (intro grow)

lemma recover_run:
  assumes "recoverCommitAfterDecrypt (traced E) strict a p e s = (Inr c, s')"
    and m: "ca_secureChannelManager a = Some m" and ok: "progress_ok (exportSnapshot E m) p (str s)"
  shows "write_returned (exportSnapshot E m) (str s') \<and> read_back E (exportSnapshot E m) (str s')"
proof -
  let ?snap = "exportSnapshot E m"
  obtain dp s1 where first: "confirmAdvancedRatchetDurable (traced E) a p s = (Inr dp, s1)" "fst dp"
    and rest: "recover_durable (traced E) strict a e (snd dp) s1 = (Inr c, s')"
    using assms(1) unfolding recoverCommitAfterDecrypt_def by (auto dest!: bindE_InrD split: if_splits)
  obtain p' where dp: "dp = (True, p')" using first(2) by (cases dp) auto
  obtain u where u: "str s1 = str s @ u" "write_returned ?snap (str s @ u)" "read_back E ?snap u"
    using emits_onD [OF confirm_emits [OF m ok] first(1)] dp by auto
  then have s1: "write_returned ?snap (str s1)" "read_back E ?snap (str s1)" by (auto simp: read_back_def)
  obtain v where "str s' = str s1 @ v" using emits_onD [OF grows_recover_durable rest] by blast
  then show ?thesis using s1 by simp
qed

lemma commitSessionAfterDecrypt_run:
  assumes run: "commitSessionAfterDecrypt (traced E) strict a s = (Inr c, s')"
    and m: "ca_secureChannelManager a = Some m" "js_truthy (exportSnapshot E m)"
  shows "write_returned (exportSnapshot E m) (str s') \<and>
     (fst (commitSession (traced E) strict a (s, progress0)) = Inr c \<or> read_back E (exportSnapshot E m) (str s'))"
proof -
  obtain r1 s1 p1 where c1: "commitSession (traced E) strict a (s, progress0) = (r1, s1, p1)" by (metis prod.exhaust)
  note ok = commits_commitSession [OF m, of strict, unfolded commits_def, rule_format, OF c1 progress0_ok]
  show ?thesis
  proof (cases r1)
    case (Inl e)
    then show ?thesis
      using recover_run [of E strict a p1 e s1 c s', OF _ m(1)] run c1 ok
      unfolding commitSessionAfterDecrypt_def tryP_def by simp
  next
    case (Inr c')
    then show ?thesis using run c1 ok unfolding commitSessionAfterDecrypt_def tryP_def by auto
  qed
qed

lemma settle_decrypt_run:
  assumes run: "settle_decrypt (traced E) strict owner pa link rec1 result m s = (Inr d, s')"
    and obj: "js_truthy (exportSnapshot E m)"
  shows "write_returned (exportSnapshot E m) (str s') \<and> di_plaintext d = dr_plaintext result
     \<and> di_encrypted d = dr_encrypted result"
proof (cases "getp link ''state'' \<noteq> JStr SESSION_ESTABLISHED \<or> nextStatus (sessionStatusOf E rec1) \<noteq> sessionStatusOf E rec1")
  case True
  have st: "sessionStatusOf (traced E) r = sessionStatusOf E r" for r by (simp add: sessionStatusOf_def)
  obtain a s1 c where "commitSessionAfterDecrypt (traced E) strict a s1 = (Inr c, s')"
    "ca_secureChannelManager a = Some m" "di_plaintext d = dr_plaintext result" "di_encrypted d = dr_encrypted result"
    using run True unfolding settle_decrypt_def Let_def st
    by (fastforce dest!: bindE_InrD)
  then show ?thesis using commitSessionAfterDecrypt_run [OF _ _ obj] by blast
next
  case False
  have st: "sessionStatusOf (traced E) r = sessionStatusOf E r" for r by (simp add: sessionStatusOf_def)
  let ?x = "\<lambda>now. spread rec1
            [(''localAccountId'', JStr owner), (''peerAccountId'', pa), (''status'', nextStatus (sessionStatusOf E rec1)),
             (''ratchetSnapshot'', exportSnapshot E m), (''updatedAtMs'', JInt now)]"
  obtain s1 now y s2 snap where put: "onStore (sessions_put (storage (traced E)) (?x now)) s1 = (Inr y, s2)"
    and rest: "onStore (buildSnapshot (traced E) link) s2 = (Inr snap, s')"
    and d: "di_plaintext d = dr_plaintext result" "di_encrypted d = dr_encrypted result"
    using run False unfolding settle_decrypt_def Let_def st by (fastforce dest!: bindE_InrD)
  have "getp (?x now) ''ratchetSnapshot'' = exportSnapshot E m" by (rule spread_getp_last) simp
  moreover have "PutOk (?x now) \<in> set (str s2)"
    using put by (auto simp: onStore_def noted_def ok_or_def split: prod.splits)
  ultimately have "write_returned (exportSnapshot E m) (str s2)" by (rule write_returned_PutOk [rotated])
  moreover obtain u where "str s' = str s2 @ u"
    using emits_onD [OF grows_svc(1) [OF grows_buildSnapshot] rest] by blast
  ultimately show ?thesis using d by simp
qed

text \<open>The codec accepted a packet: its answer and the snapshot it leaves.\<close>

definition codec_step :: "('w, 'm) e2ee_env \<Rightarrow> bytes option \<Rightarrow> decrypt_result \<Rightarrow> jsval \<Rightarrow> bool" where
  "codec_step E packetBytes result snap \<longleftrightarrow>
     (\<exists>snap0 m w packet m' w'. packetBytes = Some packet \<and> scm E snap0 = Inr m
        \<and> decryptIncoming E m packet w = (Inr (result, m'), w') \<and> snap = exportSnapshot E m')"

lemma onStore_quiet_InrD:
  "onStore (quiet m) s = (Inr x, s') \<Longrightarrow> \<exists>w'. m (fst (sv_store s)) = (Inr x, w') \<and> str s' = str s"
  by (cases "sv_store s") (auto simp: onStore_def quiet_def split: prod.splits)

lemma decryptDirectMessage_run:
  assumes run: "decryptDirectMessage (traced E) strict a b packetBytes s = (Inr d, s')"
    and obj: "\<And>m. js_truthy (exportSnapshot E m)"
  shows "\<exists>result snap. codec_step E packetBytes result snap \<and> write_returned snap (str s')
     \<and> di_plaintext d = dr_plaintext result
     \<and> (dr_encrypted result \<and> dr_peerId result \<noteq> [] \<or> dr_handshake result)"
proof -
  obtain owner remote packet link rec1 m result m' s1 s2 s3 where
    b: "requireBytes packetBytes ''decryptDirectMessage requires non-empty packetBytes'' = Inr packet"
    and m: "scm E (getp rec1 ''ratchetSnapshot'') = Inr m"
    and dec: "onStore (decryptIncoming (traced E) m packet) s1 = (Inr (result, m'), s2)"
    and acc: "dr_encrypted result \<and> dr_peerId result \<noteq> [] \<or> dr_handshake result"
    and st: "settle_decrypt (traced E) strict owner (JStr remote) link rec1 result m' s3 = (Inr d, s')"
    using run unfolding decryptDirectMessage_def
    by (auto dest!: bindE_InrD simp: liftE_def simp del: traced_ops split: if_splits)
  have "codec_step E packetBytes result (exportSnapshot E m')"
    using requireBytes_InrD [OF b] m dec unfolding codec_step_def traced_ops by (blast dest: onStore_quiet_InrD)
  then show ?thesis using settle_decrypt_run [OF st obj] acc by blast
qed

lemma grows_mark_success [grow]: "grows str (mark_success (traced E) key)"
  unfolding mark_success_def traced_ops by (intro grow) simp_all

lemma getp_advanced_ratchet: "getp (advanced r snap now) ''ratchetSnapshot'' = snap"
  unfolding advanced_def by (rule spread_getp_last) simp

lemma trial_hit_run:
  assumes "onStore (trialDecryptAcrossDevices (traced E) a b c (Some packet)) s = (Inr (Some (dev, plaintext, sid)), s')"
  shows "\<exists>result snap. codec_step E (Some packet) result snap \<and> write_returned snap (str s')
     \<and> plaintext = dr_plaintext result \<and> dr_encrypted result \<and> dr_peerId result \<noteq> []"
proof -
  obtain u where u: "str s' = str s @ u" "opened_by E a b c dev (Some packet) plaintext u"
    using emits_onD [OF emits_onStore [OF trialDecrypt_emits] assms] by auto
  then obtain rec1 peer snap now where o: "ratchet_opens E (getp rec1 ''ratchetSnapshot'') packet plaintext peer snap"
    "writes u = [PutOk (advanced rec1 snap now)]"
    unfolding opened_by_def by auto
  have "PutOk (advanced rec1 snap now) \<in> set u" using o(2) writes_one by blast
  then have "write_returned snap (str s')"
    using u(1) getp_advanced_ratchet by (auto intro: write_returned_PutOk)
  then show ?thesis using o(1) unfolding ratchet_opens_def codec_step_def by blast
qed

text \<open>A packet was opened by an authenticated ratchet session, and its advance was stored.\<close>

definition opened_durably :: "('w, 'm) e2ee_env \<Rightarrow> bytes option \<Rightarrow> bytes \<Rightarrow> st_event list \<Rightarrow> bool" where
  "opened_durably E packetBytes plaintext t \<longleftrightarrow>
     (\<exists>result snap. codec_step E packetBytes result snap \<and> write_returned snap t
        \<and> plaintext = dr_plaintext result \<and> dr_encrypted result \<and> dr_peerId result \<noteq> [])"

lemma opened_durably_append: "opened_durably E b p t \<Longrightarrow> opened_durably E b p (t @ u)"
  unfolding opened_durably_def using durable_append(1) [of _ t u] by blast

lemma row_device_hit_run:
  assumes "row_device_hit (traced E) key row dev plaintext s = (Inr (Hit d), s')"
  shows "di_plaintext d = plaintext \<and> (\<exists>u. str s' = str s @ u)"
proof -
  have "grows str (row_device_hit (traced E) key row dev plaintext)" unfolding row_device_hit_def by (intro grow)
  from emits_onD [OF this assms] show ?thesis using assms by (auto simp: row_device_hit_def dest!: bindE_InrD)
qed

lemma row_session_run:
  assumes "row_session (traced E) strict owner packet row s = (Inr (Hit d), s')"
    and obj: "\<And>m. js_truthy (exportSnapshot E m)"
  shows "opened_durably E (Some packet) (di_plaintext d) (str s')"
proof -
  obtain rec1 m result m' s1 s2 s3 where m: "scm E (getp rec1 ''ratchetSnapshot'') = Inr m"
    and dec: "onStore (decryptIncoming (traced E) m packet) s1 = (Inr (result, m'), s2)"
    and acc: "dr_encrypted result" "dr_peerId result \<noteq> []"
    and st: "settle_decrypt (traced E) strict owner (getp row ''peerAccountId'') row rec1 result m' s3 = (Inr d, s')"
    using assms(1) unfolding row_session_def
    by (auto dest!: bindE_InrD simp: liftE_def simp del: traced_ops split: if_splits)
  have "codec_step E (Some packet) result (exportSnapshot E m')"
    using m dec unfolding codec_step_def traced_ops by (blast dest: onStore_quiet_InrD)
  then show ?thesis using settle_decrypt_run [OF st obj] acc unfolding opened_durably_def by auto
qed

lemma try_row_run:
  assumes "try_row (traced E) strict hasDevices owner packet row s = (Inr (Hit d), s')"
    and obj: "\<And>m. js_truthy (exportSnapshot E m)"
  shows "opened_durably E (Some packet) (di_plaintext d) (str s')"
proof -
  let ?trial = "trialDecryptAcrossDevices (traced E) (JStr owner) (getp row ''peerAccountId'') (getp row ''peerLinkId'')
     (Some packet)"
  consider s1 where "row_session (traced E) strict owner packet row s1 = (Inr (Hit d), s')"
    | dev plaintext sid key s1 where "onStore ?trial s = (Inr (Some (dev, plaintext, sid)), s1)"
      "row_device_hit (traced E) key row dev plaintext s1 = (Inr (Hit d), s')"
    using assms(1) unfolding try_row_def Let_def
    by (auto dest!: bindE_InrD simp del: traced_ops split: if_splits option.splits)
  then show ?thesis
  proof cases
    case 1
    then show ?thesis by (rule row_session_run [OF _ obj])
  next
    case 2
    have "opened_durably E (Some packet) plaintext (str s1)"
      using trial_hit_run [OF 2(1)] unfolding opened_durably_def by blast
    then show ?thesis using row_device_hit_run [OF 2(2)] opened_durably_append by metis
  qed
qed

lemma any_peer_loop_run:
  assumes obj: "\<And>m. js_truthy (exportSnapshot E m)"
    and run: "any_peer_loop (traced E) strict hasDevices owner packet rows cands s = (Inr d, s')"
  shows "opened_durably E (Some packet) (di_plaintext d) (str s')"
  using run
proof (induction rows arbitrary: cands s)
  case Nil
  then show ?case by (auto simp: any_peer_miss_def dest!: bindE_InrD)
next
  case (Cons row rows)
  then show ?case
    by (auto dest!: bindE_InrD dest: try_row_run [OF _ obj] split: row_outcome.splits)
qed

lemma encryptDirectMessage_emits:
  "emits (\<lambda>r u. case r of
       Inl e \<Rightarrow> \<forall>i. PutOk i \<notin> set u
     | Inr out \<Rightarrow> \<exists>plaintext remote snap0 snap i. plaintextBytes = Some plaintext
          \<and> requireId E peerAccountId ''peerAccountId'' = Inr remote
          \<and> ratchet_seals E snap0 (JStr remote) plaintext (er_encryptedPacket out) snap
          \<and> writes u = [PutOk i] \<and> getp i ''ratchetSnapshot'' = snap)
     (encryptDirectMessage (traced E) ownerAccountId peerAccountId plaintextBytes)"
proof -
  have sp: "getp (spread r [(''localAccountId'', a), (''peerAccountId'', b), (''ratchetSnapshot'', c), (''updatedAtMs'', d)])
      ''ratchetSnapshot'' = c" for r a b c d
    by (rule spread_getp_last) simp
  show ?thesis
    unfolding encryptDirectMessage_def traced_ops traced_store traced_pure traced_scm
    by (intro emits_guard emits_require emits_quiet_bindE)
      (auto simp: emits_def run_simps ratchet_seals_def sp dest!: requireBytes_InrD split: prod.splits sum.splits, blast?)
qed

section \<open>Recovery attribution\<close>

lemma count_of_update: "count_of (AList.update k n m) k' = (if k' = k then n else count_of m k')"
  by (simp add: count_of_def update_conv')

lemma note_misses_mono: "count_of counts k \<le> count_of (snd (note_misses owner now last1 rows counts)) k"
proof (induction rows arbitrary: counts)
  case (Cons row rows)
  let ?key = "counterKey owner (js_String (getp row ''peerAccountId''))"
  have "count_of counts k \<le> count_of (AList.update ?key (Suc (count_of counts ?key)) counts) k"
    by (simp add: count_of_update)
  then show ?case using Cons.IH le_trans by (fastforce simp: Let_def split: prod.splits)
qed simp

text \<open>A link is offered for a rehandshake only after enough misses and when it has not just
  decrypted authenticated traffic.\<close>

lemma note_misses_guard:
  assumes "note_misses owner now last1 rows counts = (infos, counts')"
  shows "length infos = length rows \<and>
    (\<forall>i<length rows. getp (infos ! i) ''rehandshakeNeeded'' = JBool True \<longrightarrow>
      (let key = counterKey owner (js_String (getp (rows ! i) ''peerAccountId'')) in
       REHANDSHAKE_DECRYPT_FAILURE_THRESHOLD \<le> count_of counts' key
       \<and> (\<forall>t. map_of last1 key = Some t \<longrightarrow> 0 < t \<longrightarrow> t + HEALTHY_SESSION_DECRYPT_GUARD_MS \<le> now)))"
  using assms
proof (induction rows arbitrary: counts infos)
  case (Cons row rows)
  let ?key = "counterKey owner (js_String (getp row ''peerAccountId''))"
  let ?counts = "AList.update ?key (Suc (count_of counts ?key)) counts"
  obtain infos1 where rec1: "note_misses owner now last1 rows ?counts = (infos1, counts')"
    using Cons.prems by (auto simp: Let_def split: prod.splits)
  have mono: "Suc (count_of counts ?key) \<le> count_of counts' ?key"
    using note_misses_mono [of ?counts ?key owner now last1 rows] rec1 by (simp add: count_of_update)
  then have ge: "REHANDSHAKE_DECRYPT_FAILURE_THRESHOLD \<le> count_of counts' ?key"
    if "REHANDSHAKE_DECRYPT_FAILURE_THRESHOLD \<le> Suc (count_of counts ?key)"
    using that by linarith
  have head: "infos = hd infos # infos1" "getp (hd infos) ''rehandshakeNeeded'' = JBool True \<Longrightarrow>
      REHANDSHAKE_DECRYPT_FAILURE_THRESHOLD \<le> count_of counts' ?key
       \<and> (\<forall>t. map_of last1 ?key = Some t \<longrightarrow> 0 < t \<longrightarrow> t + HEALTHY_SESSION_DECRYPT_GUARD_MS \<le> now)"
    using Cons.prems rec1 ge by (auto simp: Let_def split: prod.splits)
  show ?case
    using Cons.IH [OF rec1] head(2) unfolding Let_def
    by (subst head(1), subst (2) head(1)) (auto simp: nth_Cons split: nat.splits)
qed simp

section \<open>Properties\<close>

text \<open>C1. The commit after a decrypt fails closed (\<open>#commitSessionAfterDecrypt\<close> and its recovery):
  whatever the storage does, a result is returned only if a session write carrying exactly
  the advanced ratchet snapshot has returned successfully, and unless the first commit went
  through undisturbed, the stored session has also been read back with that snapshot. In
  every other case the call throws and the packet stays buffered.\<close>

theorem commit_after_decrypt_fails_closed:
  assumes "commitSessionAfterDecrypt (traced E) strict a s = (Inr c, s')"
    and "ca_secureChannelManager a = Some m" "js_truthy (exportSnapshot E m)" "str s = []"
  shows "write_returned (exportSnapshot E m) (str s') \<and>
     (fst (commitSession (traced E) strict a (s, progress0)) = Inr c \<or> read_back E (exportSnapshot E m) (str s'))"
  using commitSessionAfterDecrypt_run [OF assms(1-3)] .

text \<open>C26. \<open>decryptDirectMessage\<close> returns a plaintext only if the codec accepted the packet as an
  authenticated ciphertext or as a handshake message, and only after the ratchet snapshot that
  accepting it produced was stored successfully; an unencrypted packet that is no handshake is
  never returned.\<close>

theorem decrypt_returns_only_durable_plaintext:
  assumes "decryptDirectMessage (traced E) strict ownerAccountId peerAccountId packetBytes s = (Inr d, s')"
    and "\<And>m. js_truthy (exportSnapshot E m)" "str s = []"
  shows "\<exists>result snap. codec_step E packetBytes result snap \<and> write_returned snap (str s')
     \<and> di_plaintext d = dr_plaintext result
     \<and> (dr_encrypted result \<and> dr_peerId result \<noteq> [] \<or> dr_handshake result)"
  using decryptDirectMessage_run [OF assms(1,2)] .

text \<open>\<open>decryptDirectMessageAnyPeer\<close> returns a plaintext only if one ratchet session, of a
  device or of the link, opened the packet and authenticated its sender, and the advance of
  that ratchet was stored successfully before.\<close>

theorem any_peer_decrypt_is_durable:
  assumes "decryptDirectMessageAnyPeer (traced E) strict hasDevices ownerAccountId packetBytes s = (Inr d, s')"
    and "\<And>m. js_truthy (exportSnapshot E m)" "str s = []"
  shows "opened_durably E packetBytes (di_plaintext d) (str s')"
proof -
  obtain owner packet rows s1 where
    b: "requireBytes packetBytes ''decryptDirectMessageAnyPeer requires non-empty packetBytes'' = Inr packet"
    and loop: "any_peer_loop (traced E) strict hasDevices owner packet rows [] s1 = (Inr d, s')"
    using assms(1) unfolding decryptDirectMessageAnyPeer_def
    by (auto dest!: bindE_InrD simp: liftE_def simp del: any_peer_loop.simps)
  show ?thesis using any_peer_loop_run [OF assms(2) loop] requireBytes_InrD [OF b] by simp
qed

text \<open>C27. \<open>encryptDirectMessage\<close> hands out a ciphertext only after the ratchet snapshot its
  encryption produced was stored: exactly one session write, of that snapshot, has returned.
  When the call throws, no session write has returned successfully in it (one that was rejected
  may have landed all the same).\<close>

theorem encrypt_direct_commits_first:
  assumes "encryptDirectMessage (traced E) ownerAccountId peerAccountId plaintextBytes (w, []) = (r, (w', trace))"
  shows "case r of
       Inl e \<Rightarrow> \<forall>i. PutOk i \<notin> set trace
     | Inr out \<Rightarrow> \<exists>plaintext remote snap0 snap i. plaintextBytes = Some plaintext
          \<and> requireId E peerAccountId ''peerAccountId'' = Inr remote
          \<and> ratchet_seals E snap0 (JStr remote) plaintext (er_encryptedPacket out) snap
          \<and> writes trace = [PutOk i] \<and> getp i ''ratchetSnapshot'' = snap"
  using emitsD [OF encryptDirectMessage_emits assms] by (simp add: append_Nil)

text \<open>A link is never torn down by noise (\<open>decryptDirectMessageAnyPeer\<close> on a total miss): every
  candidate link gets one entry in the error, and an entry asks for a rehandshake only if the
  link has accumulated at least three misses and has not decrypted authenticated traffic
  within the last thirty seconds.\<close>

theorem rehandshake_is_guarded:
  assumes "clock E (sv_store s) = (Inr now, w')"
  shows "\<exists>infos s'. any_peer_miss E owner candidates s = (Inl (JsErr ''THREAD_NOT_READY'' ''No peer link could decrypt packet''
       [(''recoveryCandidates'', JArr infos)]), s')
     \<and> length infos = length candidates
     \<and> (\<forall>i<length candidates. getp (infos ! i) ''rehandshakeNeeded'' = JBool True \<longrightarrow>
        (let key = counterKey owner (js_String (getp (candidates ! i) ''peerAccountId'')) in
         3 \<le> count_of (anyPeerMissCounts s') key
         \<and> (\<forall>t. map_of (anyPeerLastSuccessAt s) key = Some t \<longrightarrow> 0 < t \<longrightarrow> t + 30000 \<le> now)))"
proof -
  obtain infos counts where nm: "note_misses owner now (anyPeerLastSuccessAt s) candidates (anyPeerMissCounts s) = (infos, counts)"
    by fastforce
  have "any_peer_miss E owner candidates s = (Inl (JsErr ''THREAD_NOT_READY'' ''No peer link could decrypt packet''
       [(''recoveryCandidates'', JArr infos)]), s\<lparr>sv_store := w', anyPeerMissCounts := counts\<rparr>)"
    using assms nm by (simp add: any_peer_miss_def bindE_def onStore_def getS_def modS_def)
  then show ?thesis
    using note_misses_guard [OF nm]
    by (auto simp: REHANDSHAKE_DECRYPT_FAILURE_THRESHOLD_def HEALTHY_SESSION_DECRYPT_GUARD_MS_def Let_def)
qed

section \<open>Witnesses\<close>

definition msg_link :: "string \<Rightarrow> jsval" where
  "msg_link st = spread (sample_link ''link-1'' ''bob'') [(''state'', JStr st), (''version'', JInt 1)]"

definition msg_session :: jsval where
  "msg_session = JObj [(''sessionId'', JStr ''s1''), (''localAccountId'', JStr ''alice''), (''peerLinkId'', JStr ''link-1''),
     (''status'', JStr ''pending_remote_confirm''), (''ratchetSnapshot'', JObj [(''step'', JInt 7)])]"

definition msg_db :: idb where
  "msg_db = snd (sessions_put (storage demo_env) msg_session
     (snd (peerLinks_create (storage demo_env) (msg_link HANDSHAKE_SENT) [])))"

definition msg_svc :: "(idb \<times> st_event list) svc" where
  "msg_svc = \<lparr>sv_store = (msg_db, []), decryptFailureCounts = [], anyPeerMissCounts = [], anyPeerLastSuccessAt = []\<rparr>"

text \<open>A commit whose snapshot of the link is stale: the first attempt fails at the version check
  and the recovery completes it.\<close>

definition stale_args :: "nat commit_args" where
  "stale_args = \<lparr>ca_ownerAccountId = JStr ''alice'', ca_peerLinkRecord = set_prop ''version'' (JInt 9) (msg_link HANDSHAKE_SENT),
     ca_peerAccountId = JStr ''bob'', ca_secureChannelManager = Some 8, ca_sessionStatus = JStr ''active'',
     ca_peerLinkState = JStr SESSION_ESTABLISHED, ca_existingSession = msg_session, ca_resetSessionCreatedAt = False,
     ca_peerInboxId = JUndef, ca_eventType = JStr ''session_established'', ca_eventSummary = JNull,
     ca_eventDetails = JObj [], ca_atMs = JInt 5\<rparr>"

lemma demo_truthy: "js_truthy (exportSnapshot demo_env m)"
  by (simp add: demo_env_def sample_env_def)

theorem commit_after_decrypt_fails_closed_witness:
  "\<exists>c s'. commitSessionAfterDecrypt (traced demo_env) False stale_args msg_svc = (Inr c, s')
     \<and> (\<exists>e. fst (commitSession (traced demo_env) False stale_args (msg_svc, progress0)) = Inl e)
     \<and> read_back demo_env (exportSnapshot demo_env 8) (str s')"
proof -
  have "case fst (commitSessionAfterDecrypt (traced demo_env) False stale_args msg_svc) of Inl e \<Rightarrow> False | Inr x \<Rightarrow> True"
    by code_simp
  then obtain c s' where run: "commitSessionAfterDecrypt (traced demo_env) False stale_args msg_svc = (Inr c, s')"
    by (rule run_obtain)
  have "case fst (commitSession (traced demo_env) False stale_args (msg_svc, progress0)) of Inl e \<Rightarrow> True | Inr x \<Rightarrow> False"
    by code_simp
  then obtain e where e: "fst (commitSession (traced demo_env) False stale_args (msg_svc, progress0)) = Inl e"
    by (auto split: sum.splits)
  have a: "ca_secureChannelManager stale_args = Some 8" "str msg_svc = []"
    by (simp_all add: stale_args_def msg_svc_def)
  show ?thesis using commit_after_decrypt_fails_closed [OF run a(1) demo_truthy a(2)] run e by auto
qed

theorem decrypt_returns_only_durable_plaintext_witness:
  "\<exists>d s'. decryptDirectMessage (traced demo_env) False (JStr ''alice'') (JStr ''bob'') (Some [7, 42]) msg_svc = (Inr d, s')
     \<and> (\<exists>snap. write_returned snap (str s'))"
proof -
  have "case fst (decryptDirectMessage (traced demo_env) False (JStr ''alice'') (JStr ''bob'') (Some [7, 42]) msg_svc)
      of Inl e \<Rightarrow> False | Inr x \<Rightarrow> True"
    by code_simp
  then obtain d s' where run: "decryptDirectMessage (traced demo_env) False (JStr ''alice'') (JStr ''bob'') (Some [7, 42]) msg_svc
      = (Inr d, s')"
    by (rule run_obtain)
  have "str msg_svc = []" by (simp add: msg_svc_def)
  then show ?thesis using decrypt_returns_only_durable_plaintext [OF run demo_truthy] run by blast
qed

theorem any_peer_decrypt_is_durable_witness:
  "\<exists>d s'. decryptDirectMessageAnyPeer (traced demo_env) False True (JStr ''alice'') (Some [7, 42]) msg_svc = (Inr d, s')
     \<and> opened_durably demo_env (Some [7, 42]) (di_plaintext d) (str s')"
proof -
  have "case fst (decryptDirectMessageAnyPeer (traced demo_env) False True (JStr ''alice'') (Some [7, 42]) msg_svc)
      of Inl e \<Rightarrow> False | Inr x \<Rightarrow> True"
    by code_simp
  then obtain d s' where run: "decryptDirectMessageAnyPeer (traced demo_env) False True (JStr ''alice'') (Some [7, 42]) msg_svc
      = (Inr d, s')"
    by (rule run_obtain)
  have "str msg_svc = []" by (simp add: msg_svc_def)
  then show ?thesis using any_peer_decrypt_is_durable [OF run demo_truthy] run by blast
qed

theorem encrypt_direct_commits_first_witness:
  "\<exists>out w' trace i. encryptDirectMessage (traced demo_env) (JStr ''alice'') (JStr ''bob'') (Some [42]) (msg_db, [])
       = (Inr out, (w', trace)) \<and> writes trace = [PutOk i]"
proof -
  have "case fst (encryptDirectMessage (traced demo_env) (JStr ''alice'') (JStr ''bob'') (Some [42]) (msg_db, []))
      of Inl e \<Rightarrow> False | Inr x \<Rightarrow> True"
    by code_simp
  then obtain out wt where run: "encryptDirectMessage (traced demo_env) (JStr ''alice'') (JStr ''bob'') (Some [42]) (msg_db, [])
      = (Inr out, wt)"
    by (rule run_obtain)
  obtain w' trace where wt: "wt = (w', trace)" by fastforce
  show ?thesis using encrypt_direct_commits_first [OF run [unfolded wt]] run wt by auto
qed

theorem rehandshake_is_guarded_witness:
  "\<exists>infos s'. any_peer_miss demo_env ''alice'' [msg_link HANDSHAKE_SENT]
      \<lparr>sv_store = msg_db, decryptFailureCounts = [], anyPeerMissCounts = [], anyPeerLastSuccessAt = []\<rparr>
     = (Inl (JsErr ''THREAD_NOT_READY'' ''No peer link could decrypt packet'' [(''recoveryCandidates'', JArr infos)]), s')
     \<and> length infos = 1"
proof -
  let ?s = "\<lparr>sv_store = msg_db, decryptFailureCounts = [], anyPeerMissCounts = [], anyPeerLastSuccessAt = []\<rparr>"
  have "clock demo_env (sv_store ?s) = (Inr 1000, msg_db)" by (simp add: demo_env_def sample_env_def)
  from rehandshake_is_guarded [OF this, of "''alice''" "[msg_link HANDSHAKE_SENT]"] show ?thesis by auto
qed

end
