(* ===== verification/Js_Bytes.thy ===== *)
theory Js_Bytes
  imports Js_Prelude "HOL-Library.Word"
begin

text \<open>
  Bytes: octet strings, \<open>TextEncoder\<close>, the unsigned 32-bit big-endian integers of
  \<open>Buffer\<close>, and \<open>JSON.stringify\<close>. Strings have code units up to 255 only, so the UTF-8
  encoding of a character has one or two bytes.
\<close>

unbundle bit_operations_syntax

type_synonym octets = "8 word list"

definition octet_of :: "nat \<Rightarrow> 8 word" where
  "octet_of n = word_of_nat n"

definition utf8_char :: "char \<Rightarrow> octets" where
  "utf8_char c =
     (let n = of_char c in
      if n < 128 then [octet_of n] else [octet_of (192 + n div 64), octet_of (128 + n mod 64)])"

definition utf8_encode :: "string \<Rightarrow> octets" where
  "utf8_encode s = concat (map utf8_char s)"

section \<open>Big-endian 32-bit integers\<close>

definition writeUInt32BE :: "32 word \<Rightarrow> octets" where
  "writeUInt32BE x = [ucast (drop_bit 24 x), ucast (drop_bit 16 x), ucast (drop_bit 8 x), ucast x]"

definition readUInt32BE :: "octets \<Rightarrow> 32 word" where
  "readUInt32BE b =
     push_bit 24 (ucast (b ! 0)) OR push_bit 16 (ucast (b ! 1)) OR push_bit 8 (ucast (b ! 2)) OR ucast (b ! 3)"

section \<open>\<open>JSON.stringify\<close>\<close>

definition hex_digit :: "nat \<Rightarrow> char" where
  "hex_digit d = (if d < 10 then char_of (48 + d) else char_of (87 + d))"

definition json_char :: "char \<Rightarrow> string" where
  "json_char c =
     (let n = of_char c in
      if n = 34 then [char_of (92::nat), char_of (34::nat)]
      else if n = 92 then [char_of (92::nat), char_of (92::nat)]
      else if n = 8 then [char_of (92::nat), CHR ''b'']
      else if n = 9 then [char_of (92::nat), CHR ''t'']
      else if n = 10 then [char_of (92::nat), CHR ''n'']
      else if n = 12 then [char_of (92::nat), CHR ''f'']
      else if n = 13 then [char_of (92::nat), CHR ''r'']
      else if n < (32::nat) then [char_of (92::nat), CHR ''u'', CHR ''0'', CHR ''0'', hex_digit (n div 16), hex_digit (n mod 16)]
      else [c])"

definition json_quote :: "string \<Rightarrow> string" where
  "json_quote s = [char_of (34::nat)] @ concat (map json_char s) @ [char_of (34::nat)]"

fun json_print :: "jsval \<Rightarrow> string" where
  "json_print JUndef = ''null''"
| "json_print JNull = ''null''"
| "json_print (JBool b) = (if b then ''true'' else ''false'')"
| "json_print (JNum n) = (if isFinite_num n then show_num n else ''null'')"
| "json_print (JStr s) = json_quote s"
| "json_print (JArr xs) = ''['' @ join_with '','' (map json_print xs) @ '']''"
| "json_print (JObj ps) =
     ''{'' @ join_with '','' (map (\<lambda>(k, v). json_quote k @ '':'' @ json_print v) ps) @ ''}''"

definition JSON_stringify :: "jsval \<Rightarrow> string" where
  "JSON_stringify v = json_print (json_clone v)"

section \<open>Lemmas\<close>

lemma length_writeUInt32BE [simp]: "length (writeUInt32BE x) = 4"
  by (simp add: writeUInt32BE_def)

lemma read_writeUInt32BE [simp]: "readUInt32BE (writeUInt32BE x @ rest) = x"
proof (rule bit_word_eqI)
  fix n
  assume "n < LENGTH(32)"
  then consider "n < 8" | "8 \<le> n" "n < 16" | "16 \<le> n" "n < 24" | "24 \<le> n" "n < 32" by force
  then show "bit (readUInt32BE (writeUInt32BE x @ rest)) n = bit x n"
    by cases (auto simp: readUInt32BE_def writeUInt32BE_def bit_simps)
qed

lemma readUInt32BE_append [simp]: "4 \<le> length b \<Longrightarrow> readUInt32BE (b @ rest) = readUInt32BE b"
  by (auto simp: readUInt32BE_def nth_append)

end
