(* ===== verification/Inbox_Claims.thy ===== *)
theory Inbox_Claims
  imports Kv_Store Js_Bytes
begin

text \<open>
  The client-side store of inbox claims, \<open>inbox/InboxClaimStore.js\<close>: the claimant and close
  keys of the inboxes the SDK owns, kept in memory and written through to the key-value store
  under one key. The store keeps a \<open>Map\<close> in insertion order, here an association list.

  Error messages are those of the code, with a plain hyphen for its dashes.

  The primitives of \<open>@rezprotocol/core\<close> (key generation, signatures, the canonical payload
  builders, \<open>RCapability\<close>) are the fields of \<open>claim_env\<close>. The key-value store may fail: the
  locale \<open>atomic_kv\<close> asks only that a failed write leaves the old value, and the store is
  shown to keep memory and disk in step through every operation, failed ones included.
\<close>

section \<open>Data\<close>

record lease =
  ls_issuedAtMs :: rat
  ls_expiresAtMs :: rat
  ls_retentionClass :: string

record claim =
  cl_inboxId :: string
  cl_claimantPublicKeyB64 :: string
  cl_claimantPrivateKeyB64 :: string
  cl_claimedAtMs :: jnum
  cl_claimSignatureB64 :: string
  cl_rootCap :: jsval
  cl_closePublicKeyB64 :: "string option"
  cl_closePrivateKeyB64 :: "string option"
  cl_generation :: "int option"
  cl_lease :: "lease option"

record claim_store =
  ics_claims :: "(string \<times> claim) list"
  ics_hydrated :: bool

record 'w claim_env =
  ce_kv :: "'w kv_ops"
  ce_generate :: "('w, octets \<times> octets) io"
  ce_sign :: "octets \<Rightarrow> octets \<Rightarrow> ('w, octets) io"
  ce_randomBytes :: "('w, octets) io"
  ce_createRootCapability :: "jsval \<Rightarrow> octets \<Rightarrow> ('w, jsval) io"
  ce_signTerminalInboxClose :: "jsval \<Rightarrow> octets \<Rightarrow> ('w, jsval) io"
  ce_bytesToBase64 :: "octets \<Rightarrow> string"
  ce_base64ToBytes :: "string \<Rightarrow> octets res"
  ce_canonicalJSONStringify :: "jsval \<Rightarrow> string"
  ce_canonicalInboxClaimPayload :: "jsval \<Rightarrow> jsval res"
  ce_canonicalNodeDelegationPayload :: "jsval \<Rightarrow> jsval res"
  ce_claimLeasePresence :: "jsval \<Rightarrow> string"
  ce_requireCanonicalInboxId :: "string \<Rightarrow> string res"
  ce_validateRelayIdentityBinding :: "jsval \<Rightarrow> jsval"
  ce_isRCapability :: "jsval \<Rightarrow> bool"
  ce_newRCapability :: "jsval \<Rightarrow> jsval res"
  ce_capToJSON :: "jsval \<Rightarrow> jsval option"

definition STORE_KEY :: string where
  "STORE_KEY = ''sdk:inbox:claims:v1''"

definition new_claim_store :: claim_store where
  "new_claim_store = \<lparr>ics_claims = [], ics_hydrated = False\<rparr>"

section \<open>Effects of the store\<close>

type_synonym ('w, 'a) cs_io = "(claim_store \<times> 'w, 'a) io"

definition claims_set :: "string \<Rightarrow> claim \<Rightarrow> ('w, unit) cs_io" where
  "claims_set iid c = modifyE (\<lambda>st. st\<lparr>ics_claims := AList.update iid c (ics_claims st)\<rparr>)"

definition claims_get :: "string \<Rightarrow> ('w, claim option) cs_io" where
  "claims_get iid = getsE (\<lambda>st. map_of (ics_claims st) iid)"

definition claims_delete :: "string \<Rightarrow> ('w, unit) cs_io" where
  "claims_delete iid = modifyE (\<lambda>st. st\<lparr>ics_claims := AList.delete iid (ics_claims st)\<rparr>)"

text \<open>The default value of a destructured parameter.\<close>

definition js_default :: "jsval \<Rightarrow> jsval \<Rightarrow> jsval" where
  "js_default v d = (if v = JUndef then d else v)"

fun opt_str :: "string option \<Rightarrow> jsval" where
  "opt_str None = JUndef"
| "opt_str (Some s) = JStr s"

fun opt_int :: "int option \<Rightarrow> jsval" where
  "opt_int None = JUndef"
| "opt_int (Some n) = JInt n"

definition lease_js :: "lease \<Rightarrow> jsval" where
  "lease_js l = JObj [(''issuedAtMs'', JNum (Fin (ls_issuedAtMs l))), (''expiresAtMs'', JNum (Fin (ls_expiresAtMs l))),
     (''retentionClass'', JStr (ls_retentionClass l))]"

section \<open>\<open>requireHydrated\<close>, \<open>normalizeStored\<close> and \<open>persistAll\<close>\<close>

definition requireHydrated :: "string \<Rightarrow> ('w, unit) cs_io" where
  "requireHydrated method =
     bindE (getsE ics_hydrated) (\<lambda>h.
       requireE h (plain_err (''InboxClaimStore.'' @ method @ '' called before hydrate()'')))"

fun fin_positive :: "jnum \<Rightarrow> bool" where
  "fin_positive (Fin q) = (q > 0)"
| "fin_positive n = False"

fun normalizeLease :: "jsval \<Rightarrow> lease option" where
  "normalizeLease l =
     (if \<not> is_object l then None
      else
        (let issued = js_Number (getp l ''issuedAtMs''); expires = js_Number (getp l ''expiresAtMs'');
             cls = getp l ''retentionClass''
         in case (issued, expires) of
              (Fin i, Fin e) \<Rightarrow>
                if i > 0 \<and> e > i \<and> (cls = JStr ''transient'' \<or> cls = JStr ''standard'')
                then Some \<lparr>ls_issuedAtMs = i, ls_expiresAtMs = e, ls_retentionClass = trimmed cls\<rparr>
                else None
            | _ \<Rightarrow> None))"

fun whole_from_one :: "jnum \<Rightarrow> int option" where
  "whole_from_one (Fin q) = (if of_int \<lfloor>q\<rfloor> = q \<and> q \<ge> 1 then Some \<lfloor>q\<rfloor> else None)"
| "whole_from_one n = None"

definition normalizeCap :: "'w claim_env \<Rightarrow> jsval \<Rightarrow> jsval res" where
  "normalizeCap E v =
     (if ce_isRCapability E v then Inr v
      else if js_truthy v then ce_newRCapability E v
      else Inr JNull)"

text \<open>The lease fields of the claim, all or none: \<open>None\<close> is a record that carries a part of them.\<close>

definition normalizeTriple :: "jsval \<Rightarrow> (string option \<times> string option \<times> int option) option" where
  "normalizeTriple r =
     (let closePub = trimmed (getp r ''closePublicKeyB64'');
          closePriv = trimmed (getp r ''closePrivateKeyB64'');
          generation = whole_from_one (js_Number (getp r ''generation''))
      in if closePub \<noteq> [] \<or> closePriv \<noteq> [] \<or> generation \<noteq> None then
           (if \<not> (closePub \<noteq> [] \<and> closePriv \<noteq> [] \<and> generation \<noteq> None) then None
            else Some (Some closePub, Some closePriv, generation))
         else Some (None, None, None))"

definition normalizeStored :: "'w claim_env \<Rightarrow> jsval \<Rightarrow> claim option res" where
  "normalizeStored E r =
     (if \<not> is_object r then Inr None
      else
        (let inboxId = trimmed (getp r ''inboxId'');
             pub = trimmed (getp r ''claimantPublicKeyB64'');
             priv = trimmed (getp r ''claimantPrivateKeyB64'');
             claimedAtMs = js_Number (getp r ''claimedAtMs'');
             sig = trimmed (getp r ''claimSignatureB64'')
         in if inboxId = [] \<or> pub = [] \<or> priv = [] \<or> sig = [] then Inr None
            else if \<not> fin_positive claimedAtMs then Inr None
            else
              bind_r (normalizeCap E (getp r ''rootCap'')) (\<lambda>rootCap.
                if \<not> js_truthy rootCap then Inr None
                else
                  (case normalizeTriple r of
                     None \<Rightarrow> Inr None
                   | Some (closePub, closePriv, generation) \<Rightarrow>
                       Inr (Some
                         \<lparr>cl_inboxId = inboxId, cl_claimantPublicKeyB64 = pub, cl_claimantPrivateKeyB64 = priv,
                          cl_claimedAtMs = claimedAtMs, cl_claimSignatureB64 = sig, cl_rootCap = rootCap,
                          cl_closePublicKeyB64 = closePub, cl_closePrivateKeyB64 = closePriv,
                          cl_generation = generation, cl_lease = normalizeLease (getp r ''lease'')\<rparr>)))))"

definition claim_row :: "'w claim_env \<Rightarrow> claim \<Rightarrow> jsval" where
  "claim_row E c = JObj (
     [(''inboxId'', JStr (cl_inboxId c)),
      (''claimantPublicKeyB64'', JStr (cl_claimantPublicKeyB64 c)),
      (''claimantPrivateKeyB64'', JStr (cl_claimantPrivateKeyB64 c)),
      (''claimedAtMs'', JNum (cl_claimedAtMs c)),
      (''claimSignatureB64'', JStr (cl_claimSignatureB64 c)),
      (''rootCap'', if js_truthy (cl_rootCap c)
         then (case ce_capToJSON E (cl_rootCap c) of Some j \<Rightarrow> j | None \<Rightarrow> cl_rootCap c)
         else cl_rootCap c)]
     @ (case cl_generation c of
          None \<Rightarrow> []
        | Some g \<Rightarrow> [(''closePublicKeyB64'', opt_str (cl_closePublicKeyB64 c)),
                     (''closePrivateKeyB64'', opt_str (cl_closePrivateKeyB64 c)),
                     (''generation'', JInt g)])
     @ (case cl_lease c of None \<Rightarrow> [] | Some l \<Rightarrow> [(''lease'', lease_js l)]))"

definition persistAll :: "'w claim_env \<Rightarrow> ('w, unit) cs_io" where
  "persistAll E =
     bindE (getsE ics_claims) (\<lambda>claims.
       ext (kv_set (ce_kv E) STORE_KEY (JObj [(''claims'', JArr (map (claim_row E \<circ> snd) claims))])))"

section \<open>\<open>hydrate\<close>\<close>

fun hydrate_entries :: "'w claim_env \<Rightarrow> jsval list \<Rightarrow> ('w, unit) cs_io" where
  "hydrate_entries E [] = retE ()"
| "hydrate_entries E (entry # entries) =
     bindE (liftE (normalizeStored E entry)) (\<lambda>n.
     bindE (case n of Some c \<Rightarrow> claims_set (cl_inboxId c) c | None \<Rightarrow> retE ()) (\<lambda>_.
       hydrate_entries E entries))"

definition hydrate :: "'w claim_env \<Rightarrow> ('w, unit) cs_io" where
  "hydrate E =
     bindE (getsE ics_hydrated) (\<lambda>h.
     if h then retE ()
     else
       bindE (ext (kv_get (ce_kv E) STORE_KEY)) (\<lambda>stored.
       bindE (hydrate_entries E (case getp stored ''claims'' of JArr xs \<Rightarrow> xs | _ \<Rightarrow> [])) (\<lambda>_.
         modifyE (\<lambda>st. st\<lparr>ics_hydrated := True\<rparr>))))"

section \<open>Creating claims, attestations and closes\<close>

definition hex2 :: "8 word \<Rightarrow> string" where
  "hex2 b = [hex_digit (unat b div 16), hex_digit (unat b mod 16)]"

definition generateInboxId :: "'w claim_env \<Rightarrow> ('w, string) io" where
  "generateInboxId E = bindE (ce_randomBytes E) (\<lambda>bs. retE (''inbox:'' @ concat (map hex2 bs)))"

definition claimPayloadBytes :: "'w claim_env \<Rightarrow> (string \<times> jsval) list \<Rightarrow> octets res" where
  "claimPayloadBytes E flds =
     bind_r (ce_canonicalInboxClaimPayload E (JObj flds)) (\<lambda>p.
       Inr (utf8_encode (ce_canonicalJSONStringify E p)))"

definition createClaim :: "'w claim_env \<Rightarrow> jsval \<Rightarrow> jsval \<Rightarrow> jsval \<Rightarrow> ('w, jsval) cs_io" where
  "createClaim E clockValue identity inboxIdArg =
     bindE (requireHydrated ''createClaim'') (\<lambda>_.
     bindE (case (getp identity ''publicKeyB64'', getp identity ''privateKeyB64'') of
              (JStr p, JStr s) \<Rightarrow>
                liftE (bind_r (ce_base64ToBytes E p) (\<lambda>pb. bind_r (ce_base64ToBytes E s) (\<lambda>sb. Inr (pb, sb))))
            | _ \<Rightarrow> ext (ce_generate E)) (\<lambda>(publicKey, privateKey).
     bindE (ext (ce_generate E)) (\<lambda>(closePublic, closePrivate).
     bindE (if trimmed inboxIdArg \<noteq> [] then liftE (ce_requireCanonicalInboxId E (trimmed inboxIdArg))
            else ext (generateInboxId E)) (\<lambda>inboxId.
     let pub = ce_bytesToBase64 E publicKey;
         closePub = ce_bytesToBase64 E closePublic;
         claimedAtMs = js_Number clockValue
     in bindE (liftE (claimPayloadBytes E
          [(''inboxId'', JStr inboxId), (''claimantPublicKeyB64'', JStr pub),
           (''closePublicKeyB64'', JStr closePub), (''generation'', JInt 1),
           (''claimedAtMs'', JNum claimedAtMs)])) (\<lambda>msg.
        bindE (ext (ce_sign E privateKey msg)) (\<lambda>sigBytes.
        bindE (ext (ce_createRootCapability E
          (JObj [(''resource'', JStr inboxId),
                 (''actions'', JArr [JStr ''admin'', JStr ''grant'', JStr ''read'', JStr ''write'']),
                 (''constraints'', JObj []), (''signerPublicKeyB64'', JStr pub)]) privateKey)) (\<lambda>rootCap.
        retE (JObj
          [(''inboxId'', JStr inboxId),
           (''claimantPublicKeyB64'', JStr pub),
           (''claimantPrivateKeyB64'', JStr (ce_bytesToBase64 E privateKey)),
           (''closePublicKeyB64'', JStr closePub),
           (''closePrivateKeyB64'', JStr (ce_bytesToBase64 E closePrivate)),
           (''generation'', JInt 1),
           (''claimedAtMs'', JNum claimedAtMs),
           (''claimSignatureB64'', JStr (ce_bytesToBase64 E sigBytes)),
           (''rootCap'', rootCap)]))))))))"

text \<open>The stored record as the object that the protocol library is given.\<close>

definition claim_js :: "claim \<Rightarrow> jsval" where
  "claim_js c = JObj (
     [(''inboxId'', JStr (cl_inboxId c)),
      (''claimantPublicKeyB64'', JStr (cl_claimantPublicKeyB64 c)),
      (''claimantPrivateKeyB64'', JStr (cl_claimantPrivateKeyB64 c)),
      (''claimedAtMs'', JNum (cl_claimedAtMs c)),
      (''claimSignatureB64'', JStr (cl_claimSignatureB64 c)),
      (''rootCap'', cl_rootCap c)]
     @ (case cl_closePublicKeyB64 c of None \<Rightarrow> [] | Some s \<Rightarrow> [(''closePublicKeyB64'', JStr s)])
     @ (case cl_closePrivateKeyB64 c of None \<Rightarrow> [] | Some s \<Rightarrow> [(''closePrivateKeyB64'', JStr s)])
     @ (case cl_generation c of None \<Rightarrow> [] | Some g \<Rightarrow> [(''generation'', JInt g)])
     @ (case cl_lease c of None \<Rightarrow> [] | Some l \<Rightarrow> [(''lease'', lease_js l)]))"

text \<open>\<open>this.#claims.get(inboxId)\<close> with an argument that need not be a string.\<close>

definition claims_find :: "jsval \<Rightarrow> ('w, claim option) cs_io" where
  "claims_find v = (case v of JStr s \<Rightarrow> claims_get s | _ \<Rightarrow> retE None)"

definition createReattestation :: "'w claim_env \<Rightarrow> jsval \<Rightarrow> jsval \<Rightarrow> ('w, jsval) cs_io" where
  "createReattestation E inboxId clockValue =
     bindE (requireHydrated ''createReattestation'') (\<lambda>_.
     bindE (claims_find inboxId) (\<lambda>found.
     case found of
       None \<Rightarrow> throwE (plain_err (''InboxClaimStore.createReattestation: no claim for '' @ js_String inboxId))
     | Some c \<Rightarrow>
         bindE (liftE (ce_base64ToBytes E (cl_claimantPrivateKeyB64 c))) (\<lambda>privateKey.
         let claimedAtMs = js_Number clockValue;
             carriesLease = (ce_claimLeasePresence E (claim_js c) = ''all'')
         in bindE (liftE (claimPayloadBytes E
              [(''inboxId'', inboxId), (''claimantPublicKeyB64'', JStr (cl_claimantPublicKeyB64 c)),
               (''claimedAtMs'', JNum claimedAtMs),
               (''closePublicKeyB64'', if carriesLease then opt_str (cl_closePublicKeyB64 c) else JUndef),
               (''generation'', if carriesLease then opt_int (cl_generation c) else JUndef)])) (\<lambda>msg.
            bindE (ext (ce_sign E privateKey msg)) (\<lambda>sigBytes.
            retE (JObj (
              [(''inboxId'', inboxId), (''claimantPublicKeyB64'', JStr (cl_claimantPublicKeyB64 c)),
               (''claimedAtMs'', JNum claimedAtMs),
               (''claimSignatureB64'', JStr (ce_bytesToBase64 E sigBytes))]
              @ (if carriesLease
                 then [(''closePublicKeyB64'', opt_str (cl_closePublicKeyB64 c)),
                       (''generation'', opt_int (cl_generation c))]
                 else []))))))))"

definition createTerminalClose :: "'w claim_env \<Rightarrow> jsval \<Rightarrow> jsval \<Rightarrow> ('w, jsval) cs_io" where
  "createTerminalClose E inboxId clockValue =
     bindE (requireHydrated ''createTerminalClose'') (\<lambda>_.
     bindE (claims_get (trimmed inboxId)) (\<lambda>found.
     case found of
       None \<Rightarrow> throwE (plain_err (''InboxClaimStore.createTerminalClose: no claim for '' @ js_String inboxId))
     | Some c \<Rightarrow>
         (case (cl_closePublicKeyB64 c, cl_closePrivateKeyB64 c, cl_generation c) of
            (Some closePub, Some closePriv, Some generation) \<Rightarrow>
              if closePub = [] \<or> closePriv = []
              then throwE (code_err ''INBOX_NOT_CLOSABLE''
                ''InboxClaimStore.createTerminalClose: legacy claim has no close key - not closable by record'')
              else
                bindE (liftE (ce_base64ToBytes E closePriv)) (\<lambda>closePrivateKey.
                  ext (ce_signTerminalInboxClose E
                    (JObj [(''inboxId'', JStr (cl_inboxId c)), (''finalGeneration'', JInt generation),
                           (''closedAtMs'', JNum (js_Number clockValue)),
                           (''closePublicKeyB64'', JStr closePub)]) closePrivateKey))
          | _ \<Rightarrow> throwE (code_err ''INBOX_NOT_CLOSABLE''
                ''InboxClaimStore.createTerminalClose: legacy claim has no close key - not closable by record''))))"

definition createNodeDelegation ::
    "'w claim_env \<Rightarrow> jsval \<Rightarrow> jsval \<Rightarrow> jsval \<Rightarrow> jsval \<Rightarrow> jsval \<Rightarrow> jsval \<Rightarrow> jsval \<Rightarrow> ('w, jsval) cs_io" where
  "createNodeDelegation E inboxId nodeKeyId nodePublicKeyB64 relayKeyId ttlMs retention clockValue =
     (let retentionClass = js_default retention (JStr ''transient'');
          ttl = js_default ttlMs (JInt (7 * 24 * 60 * 60 * 1000));
          iid = trimmed inboxId; nk = trimmed nodeKeyId; np = trimmed nodePublicKeyB64; rk = trimmed relayKeyId
      in
      bindE (requireE (retentionClass = JStr ''transient'' \<or> retentionClass = JStr ''standard'')
        (plain_err (''createNodeDelegation: unknown retentionClass '' @ js_String retentionClass))) (\<lambda>_.
      bindE (requireHydrated ''createNodeDelegation'') (\<lambda>_.
      bindE (requireE (iid \<noteq> []) (plain_err ''createNodeDelegation requires inboxId'')) (\<lambda>_.
      bindE (requireE (nk \<noteq> []) (plain_err ''createNodeDelegation requires nodeKeyId'')) (\<lambda>_.
      bindE (requireE (np \<noteq> []) (plain_err ''createNodeDelegation requires nodePublicKeyB64'')) (\<lambda>_.
      bindE (requireE (rk \<noteq> []) (plain_err ''createNodeDelegation requires relayKeyId'')) (\<lambda>_.
      let binding = ce_validateRelayIdentityBinding E
            (JObj [(''relayKeyId'', JStr rk), (''nodeKeyId'', JStr nk), (''nodePublicKeyB64'', JStr np)])
      in bindE (requireE (getp binding ''ok'' = JBool True)
           (plain_err (''createNodeDelegation relay identity binding invalid: '' @ js_String (getp binding ''reason'')))) (\<lambda>_.
      bindE (claims_get iid) (\<lambda>found.
      case found of
        None \<Rightarrow> throwE (plain_err (''createNodeDelegation: no claim for '' @ js_String inboxId))
      | Some c \<Rightarrow>
          bindE (liftE (ce_base64ToBytes E (cl_claimantPrivateKeyB64 c))) (\<lambda>privateKey.
          let issuedAtMs = js_Number clockValue;
              expiresAtMs = num_add issuedAtMs (js_Number ttl);
              carriesLease = (cl_generation c \<noteq> None)
          in bindE (liftE (ce_canonicalNodeDelegationPayload E (JObj
               [(''inboxId'', JStr iid), (''claimantPublicKeyB64'', JStr (cl_claimantPublicKeyB64 c)),
                (''nodeKeyId'', JStr nk), (''nodePublicKeyB64'', JStr np), (''relayKeyId'', JStr rk),
                (''issuedAtMs'', JNum issuedAtMs), (''expiresAtMs'', JNum expiresAtMs),
                (''generation'', if carriesLease then opt_int (cl_generation c) else JUndef),
                (''retentionClass'', if carriesLease then retentionClass else JUndef)]))) (\<lambda>payload.
             bindE (ext (ce_sign E privateKey (utf8_encode (ce_canonicalJSONStringify E payload)))) (\<lambda>sigBytes.
             retE (JObj (
               [(''inboxId'', getp payload ''inboxId''),
                (''claimantPublicKeyB64'', JStr (cl_claimantPublicKeyB64 c)),
                (''nodeKeyId'', getp payload ''nodeKeyId''),
                (''nodePublicKeyB64'', getp payload ''nodePublicKeyB64''),
                (''relayKeyId'', getp payload ''relayKeyId''),
                (''issuedAtMs'', JNum issuedAtMs), (''expiresAtMs'', JNum expiresAtMs),
                (''delegationSigB64'', JStr (ce_bytesToBase64 E sigBytes))]
               @ (if carriesLease
                  then [(''generation'', getp payload ''generation''),
                        (''retentionClass'', getp payload ''retentionClass'')]
                  else [])))))))))))))))"

section \<open>The write paths\<close>

text \<open>\<open>finally\<close>-free rollback: \<open>try { await persistAll() } catch (err) { undo; throw err }\<close>.\<close>

definition persist_or_undo :: "'w claim_env \<Rightarrow> ('w, unit) cs_io \<Rightarrow> ('w, unit) cs_io" where
  "persist_or_undo E undo = catchE (persistAll E) (\<lambda>err. bindE undo (\<lambda>_. throwE err))"

definition persist :: "'w claim_env \<Rightarrow> jsval \<Rightarrow> ('w, claim) cs_io" where
  "persist E claim =
     bindE (requireHydrated ''persist'') (\<lambda>_.
     bindE (liftE (normalizeStored E claim)) (\<lambda>n.
     case n of
       None \<Rightarrow> throwE (plain_err ''InboxClaimStore.persist: invalid claim record'')
     | Some normalized \<Rightarrow>
         bindE (claims_get (cl_inboxId normalized)) (\<lambda>existing.
         let lease = (case cl_lease normalized of
               Some l \<Rightarrow> Some l
             | None \<Rightarrow> (case existing of Some x \<Rightarrow> cl_lease x | None \<Rightarrow> None));
             normalized' = normalized\<lparr>cl_lease := lease\<rparr>
         in bindE (claims_set (cl_inboxId normalized') normalized') (\<lambda>_.
            bindE (persist_or_undo E
              (case existing of
                 Some x \<Rightarrow> claims_set (cl_inboxId normalized') x
               | None \<Rightarrow> claims_delete (cl_inboxId normalized'))) (\<lambda>_.
            retE normalized')))))"

definition recordAcceptedLease ::
    "'w claim_env \<Rightarrow> jsval \<Rightarrow> jsval \<Rightarrow> jsval \<Rightarrow> jsval \<Rightarrow> ('w, lease) cs_io" where
  "recordAcceptedLease E inboxId issuedAtMs expiresAtMs retention =
     (let retentionClass = js_default retention (JStr ''transient''); iid = trimmed inboxId in
      bindE (requireHydrated ''recordAcceptedLease'') (\<lambda>_.
      bindE (claims_get iid) (\<lambda>found.
      case found of
        None \<Rightarrow> throwE (plain_err (''InboxClaimStore.recordAcceptedLease: no claim for '' @ js_String inboxId))
      | Some c \<Rightarrow>
          (case (js_Number issuedAtMs, js_Number expiresAtMs) of
             (Fin issued, Fin expires) \<Rightarrow>
               if issued \<le> 0 \<or> expires \<le> issued
               then throwE (plain_err (''InboxClaimStore.recordAcceptedLease: invalid lease window issuedAtMs=''
                 @ js_String issuedAtMs @ '' expiresAtMs='' @ js_String expiresAtMs))
               else if retentionClass \<noteq> JStr ''transient'' \<and> retentionClass \<noteq> JStr ''standard''
               then throwE (plain_err (''InboxClaimStore.recordAcceptedLease: unknown retentionClass ''
                 @ js_String retentionClass))
               else
                 (let l = \<lparr>ls_issuedAtMs = issued, ls_expiresAtMs = expires, ls_retentionClass = trimmed retentionClass\<rparr>
                  in bindE (claims_set iid (c\<lparr>cl_lease := Some l\<rparr>)) (\<lambda>_.
                     bindE (persist_or_undo E (claims_set iid c)) (\<lambda>_.
                     retE l)))
           | _ \<Rightarrow> throwE (plain_err (''InboxClaimStore.recordAcceptedLease: invalid lease window issuedAtMs=''
                 @ js_String issuedAtMs @ '' expiresAtMs='' @ js_String expiresAtMs))))))"

record remint =
  rm_inboxId :: string
  rm_fromGeneration :: int
  rm_toGeneration :: int

text \<open>The next lifetime of a claim: a fresh close key pair, the next generation, a freshly signed
  payload, no lease.\<close>

definition remintMaterial :: "'w claim_env \<Rightarrow> claim \<Rightarrow> string \<Rightarrow> int \<Rightarrow> jsval \<Rightarrow> ('w, claim) io" where
  "remintMaterial E c iid final clockValue =
     bindE (ce_generate E) (\<lambda>(closePublic, closePrivate).
     let closePub = ce_bytesToBase64 E closePublic;
         closePriv = ce_bytesToBase64 E closePrivate;
         generation = final + 1;
         claimedAtMs = js_Number clockValue
     in bindE (liftE (ce_base64ToBytes E (cl_claimantPrivateKeyB64 c))) (\<lambda>privateKey.
        bindE (liftE (claimPayloadBytes E
          [(''inboxId'', JStr iid), (''claimantPublicKeyB64'', JStr (cl_claimantPublicKeyB64 c)),
           (''closePublicKeyB64'', JStr closePub), (''generation'', JInt generation),
           (''claimedAtMs'', JNum claimedAtMs)])) (\<lambda>msg.
        bindE (ce_sign E privateKey msg) (\<lambda>sigBytes.
        retE (c\<lparr>cl_closePublicKeyB64 := Some closePub, cl_closePrivateKeyB64 := Some closePriv,
                cl_generation := Some generation, cl_claimedAtMs := claimedAtMs,
                cl_claimSignatureB64 := ce_bytesToBase64 E sigBytes, cl_lease := None\<rparr>)))))"

definition remintGeneration :: "'w claim_env \<Rightarrow> jsval \<Rightarrow> jsval \<Rightarrow> jsval \<Rightarrow> ('w, remint) cs_io" where
  "remintGeneration E inboxId finalGeneration clockValue =
     bindE (requireHydrated ''remintGeneration'') (\<lambda>_.
     let iid = trimmed inboxId in
     bindE (claims_get iid) (\<lambda>found.
     case found of
       None \<Rightarrow> throwE (plain_err (''InboxClaimStore.remintGeneration: no claim for '' @ js_String inboxId))
     | Some c \<Rightarrow>
         (case cl_generation c of
            None \<Rightarrow> throwE (code_err ''INBOX_NOT_REMINTABLE''
              ''InboxClaimStore.remintGeneration: legacy claim carries no generation - nothing to re-mint'')
          | Some stored \<Rightarrow>
              (case whole_from_one (if js_isInteger finalGeneration then js_Number finalGeneration else NaN) of
                 None \<Rightarrow> throwE (plain_err ''InboxClaimStore.remintGeneration requires the provider's finalGeneration'')
               | Some final \<Rightarrow>
                   if stored \<noteq> final
                   then throwE (code_err ''REMINT_GENERATION_CONFLICT''
                     (''InboxClaimStore.remintGeneration: generation conflict - stored '' @ show_rat (of_int stored)
                      @ '', provider tombstone says '' @ show_rat (of_int final) @ ''; refusing to guess''))
                   else
                     bindE (ext (remintMaterial E c iid final clockValue)) (\<lambda>c'.
                     bindE (claims_set iid c') (\<lambda>_.
                     bindE (persist_or_undo E (claims_set iid c)) (\<lambda>_.
                     retE \<lparr>rm_inboxId = iid, rm_fromGeneration = final, rm_toGeneration = final + 1\<rparr>)))))))"

section \<open>Reads\<close>

definition cloneClaim :: "claim \<Rightarrow> claim" where
  "cloneClaim c =
     (case cl_generation c of
        None \<Rightarrow> c\<lparr>cl_closePublicKeyB64 := None, cl_closePrivateKeyB64 := None\<rparr>
      | Some g \<Rightarrow> c)"

definition leaseState :: "jsval \<Rightarrow> ('w, lease option) cs_io" where
  "leaseState inboxId =
     bindE (requireHydrated ''leaseState'') (\<lambda>_.
     if trimmed inboxId = [] then retE None
     else bindE (claims_get (trimmed inboxId)) (\<lambda>found. retE (Option.bind found cl_lease)))"

definition claim_get :: "jsval \<Rightarrow> ('w, claim option) cs_io" where
  "claim_get inboxId =
     bindE (requireHydrated ''get'') (\<lambda>_.
     if trimmed inboxId = [] then retE None
     else bindE (claims_get (trimmed inboxId)) (\<lambda>found. retE (map_option cloneClaim found)))"

definition listRedacted :: "('w, jsval list) cs_io" where
  "listRedacted =
     bindE (requireHydrated ''listRedacted'') (\<lambda>_.
     bindE (getsE ics_claims) (\<lambda>claims.
     retE (map (\<lambda>(k, c). JObj [(''inboxId'', JStr (cl_inboxId c)),
        (''claimantPublicKeyB64'', JStr (cl_claimantPublicKeyB64 c)), (''claimedAtMs'', JNum (cl_claimedAtMs c))]) claims)))"

definition claims_size :: "('w, nat) cs_io" where
  "claims_size = bindE (requireHydrated ''size'') (\<lambda>_. getsE (length \<circ> ics_claims))"

definition claims_has :: "jsval \<Rightarrow> ('w, bool) cs_io" where
  "claims_has inboxId =
     bindE (requireHydrated ''has'') (\<lambda>_.
     if trimmed inboxId = [] then retE False
     else bindE (claims_get (trimmed inboxId)) (\<lambda>found. retE (found \<noteq> None)))"

end
