(* ===== verification/Inbox_Claims_Props.thy ===== *)
theory Inbox_Claims_Props
  imports Inbox_Claims
begin

text \<open>
  What the inbox claim store promises: its records are well formed, what it wrote it reads
  back, and memory and disk stay in step through every operation, the ones whose write fails
  included. \<open>claim_host\<close> collects what is asked of the environment.
\<close>

section \<open>The host\<close>

text \<open>A key-value store whose writes may fail, but then change nothing.\<close>

locale atomic_kv =
  fixes K :: "'w kv_ops"
    and view :: "'w \<Rightarrow> string \<Rightarrow> jsval"
    and inv :: "'w \<Rightarrow> bool"
  assumes get_value: "inv w \<Longrightarrow> kv_get K k w = (Inr (view w k), w)"
    and set_value: "inv w \<Longrightarrow> json_clean v \<Longrightarrow> v \<noteq> JNull \<Longrightarrow> kv_set K k v w = (r, w') \<Longrightarrow>
      inv w' \<and> view w' = (case r of Inl e \<Rightarrow> view w | Inr u \<Rightarrow> (view w)(k := v))"

sublocale kv_store \<subseteq> atomic_kv
proof
  show "kv_get K k w = (Inr (view w k), w)" if "inv w" for w k
    using that by (rule get_law)
  show "inv w' \<and> view w' = (case r of Inl e \<Rightarrow> view w | Inr u \<Rightarrow> (view w)(k := v))"
    if "inv w" "json_clean v" "v \<noteq> JNull" "kv_set K k v w = (r, w')" for w v k r w'
    using set_law [OF that(1-3), of k] that(4) by auto
qed

text \<open>A capability survives its JSON form.\<close>

definition good_cap :: "'w claim_env \<Rightarrow> jsval \<Rightarrow> bool" where
  "good_cap E c \<longleftrightarrow> js_truthy c \<and>
     (\<exists>j. ce_capToJSON E c = Some j \<and> json_clean j \<and> js_truthy j \<and> \<not> ce_isRCapability E j
        \<and> ce_newRCapability E j = Inr c)"

locale claim_host =
  kv: atomic_kv "ce_kv E" view inv
  for E :: "'w claim_env" and view :: "'w \<Rightarrow> string \<Rightarrow> jsval" and inv :: "'w \<Rightarrow> bool" +
  assumes cap_instance: "ce_isRCapability E v \<Longrightarrow> good_cap E v"
    and cap_new: "ce_newRCapability E j = Inr c \<Longrightarrow> good_cap E c"
    and generate_calm: "inv w \<Longrightarrow> ce_generate E w = (r, w') \<Longrightarrow> inv w' \<and> view w' = view w"
    and generate_keys: "ce_generate E w = (Inr (a, b), w') \<Longrightarrow> a \<noteq> [] \<and> b \<noteq> []"
    and sign_calm: "inv w \<Longrightarrow> ce_sign E p m w = (rs, w') \<Longrightarrow> inv w' \<and> view w' = view w"
    and sign_bytes: "ce_sign E p m w = (Inr s, w') \<Longrightarrow> s \<noteq> []"
    and b64_trimmed: "js_trim (ce_bytesToBase64 E bs) = ce_bytesToBase64 E bs"
    and b64_nonempty: "bs \<noteq> [] \<Longrightarrow> ce_bytesToBase64 E bs \<noteq> []"

section \<open>Well-formed records\<close>

definition solid :: "string \<Rightarrow> bool" where
  "solid s \<longleftrightarrow> s \<noteq> [] \<and> js_trim s = s"

definition wf_lease :: "lease \<Rightarrow> bool" where
  "wf_lease l \<longleftrightarrow> 0 < ls_issuedAtMs l \<and> ls_issuedAtMs l < ls_expiresAtMs l
     \<and> (ls_retentionClass l = ''transient'' \<or> ls_retentionClass l = ''standard'')"

text \<open>The close key pair and the generation are there together or not at all.\<close>

definition wf_triple :: "string option \<Rightarrow> string option \<Rightarrow> int option \<Rightarrow> bool" where
  "wf_triple a b g \<longleftrightarrow> (a = None \<and> b = None \<and> g = None)
     \<or> (\<exists>a' b' g'. a = Some a' \<and> b = Some b' \<and> g = Some g' \<and> solid a' \<and> solid b' \<and> 1 \<le> g')"

definition wf_claim :: "'w claim_env \<Rightarrow> claim \<Rightarrow> bool" where
  "wf_claim E c \<longleftrightarrow> solid (cl_inboxId c) \<and> solid (cl_claimantPublicKeyB64 c)
     \<and> solid (cl_claimantPrivateKeyB64 c) \<and> solid (cl_claimSignatureB64 c)
     \<and> fin_positive (cl_claimedAtMs c) \<and> good_cap E (cl_rootCap c)
     \<and> wf_triple (cl_closePublicKeyB64 c) (cl_closePrivateKeyB64 c) (cl_generation c)
     \<and> (\<forall>l. cl_lease c = Some l \<longrightarrow> wf_lease l)"

definition wf_claims :: "'w claim_env \<Rightarrow> (string \<times> claim) list \<Rightarrow> bool" where
  "wf_claims E cs \<longleftrightarrow> distinct (map fst cs) \<and> (\<forall>(k, c)\<in>set cs. k = cl_inboxId c \<and> wf_claim E c)"

lemma fin_positive_iff: "fin_positive n \<longleftrightarrow> (\<exists>q. n = Fin q \<and> 0 < q)"
  by (cases n) auto

lemma whole_from_one_JInt [simp]: "1 \<le> g \<Longrightarrow> whole_from_one (Fin (of_int g)) = Some g"
  by simp

lemma whole_from_one_SomeD: "whole_from_one n = Some g \<Longrightarrow> n = Fin (of_int g) \<and> 1 \<le> g"
  by (cases n) (auto simp: le_floor_iff split: if_splits)

lemma normalizeLease_wf: "normalizeLease v = Some l \<Longrightarrow> wf_lease l"
  by (auto simp: wf_lease_def Let_def js_trim_def is_ws_def split: if_splits jnum.splits)

lemma normalizeLease_js: "wf_lease l \<Longrightarrow> normalizeLease (lease_js l) = Some l"
  by (cases l) (auto simp: wf_lease_def lease_js_def Let_def js_trim_def is_ws_def)

lemma normalizeLease_undef [simp]: "normalizeLease JUndef = None"
  by simp

lemma trimmed_solid: "trimmed v \<noteq> [] \<Longrightarrow> solid (trimmed v)"
  by (cases v) (auto simp: solid_def)

lemma solid_trim: "solid s \<Longrightarrow> js_trim s = s" "solid s \<Longrightarrow> s \<noteq> []"
  by (auto simp: solid_def)

declare normalizeLease.simps [simp del] whole_from_one.simps [simp del]

lemma normalizeTriple_wf: "normalizeTriple r = Some (a, b, g) \<Longrightarrow> wf_triple a b g"
  by (auto simp: normalizeTriple_def wf_triple_def Let_def split: if_splits
      dest!: whole_from_one_SomeD intro: trimmed_solid)

lemma claim_row_props:
  "getp (claim_row E c) ''inboxId'' = JStr (cl_inboxId c)"
  "getp (claim_row E c) ''claimantPublicKeyB64'' = JStr (cl_claimantPublicKeyB64 c)"
  "getp (claim_row E c) ''claimantPrivateKeyB64'' = JStr (cl_claimantPrivateKeyB64 c)"
  "getp (claim_row E c) ''claimedAtMs'' = JNum (cl_claimedAtMs c)"
  "getp (claim_row E c) ''claimSignatureB64'' = JStr (cl_claimSignatureB64 c)"
  "getp (claim_row E c) ''generation'' = opt_int (cl_generation c)"
  "getp (claim_row E c) ''lease'' = (case cl_lease c of None \<Rightarrow> JUndef | Some l \<Rightarrow> lease_js l)"
  "is_object (claim_row E c)"
  by (simp_all add: claim_row_def split: option.split)

lemma claim_row_close:
  assumes "cl_generation c = Some g"
  shows "getp (claim_row E c) ''closePublicKeyB64'' = opt_str (cl_closePublicKeyB64 c)"
    and "getp (claim_row E c) ''closePrivateKeyB64'' = opt_str (cl_closePrivateKeyB64 c)"
  using assms by (simp_all add: claim_row_def split: option.split)

lemma claim_row_no_close:
  assumes "cl_generation c = None"
  shows "getp (claim_row E c) ''closePublicKeyB64'' = JUndef"
    and "getp (claim_row E c) ''closePrivateKeyB64'' = JUndef"
  using assms by (simp_all add: claim_row_def split: option.split)

lemma claim_row_cap:
  "js_truthy (cl_rootCap c) \<Longrightarrow> ce_capToJSON E (cl_rootCap c) = Some j \<Longrightarrow> getp (claim_row E c) ''rootCap'' = j"
  by (simp add: claim_row_def split: option.split)

lemma normalizeTriple_row:
  assumes "wf_triple (cl_closePublicKeyB64 c) (cl_closePrivateKeyB64 c) (cl_generation c)"
  shows "normalizeTriple (claim_row E c) =
    Some (cl_closePublicKeyB64 c, cl_closePrivateKeyB64 c, cl_generation c)"
proof (cases "cl_generation c")
  case None
  moreover have "whole_from_one NaN = None" by (simp add: whole_from_one.simps)
  ultimately show ?thesis
    using assms by (auto simp: wf_triple_def normalizeTriple_def claim_row_props claim_row_no_close)
next
  case (Some g)
  then obtain a b where "cl_closePublicKeyB64 c = Some a" "cl_closePrivateKeyB64 c = Some b"
      "solid a" "solid b" "1 \<le> g"
    using assms by (auto simp: wf_triple_def)
  then show ?thesis
    using Some by (simp add: normalizeTriple_def claim_row_props claim_row_close solid_trim)
qed

context claim_host
begin

lemma normalizeCap_good: "normalizeCap E v = Inr c \<Longrightarrow> js_truthy c \<Longrightarrow> good_cap E c"
  using cap_instance cap_new by (auto simp: normalizeCap_def split: if_splits)

lemma normalizeStored_wf: "normalizeStored E r = Inr (Some c) \<Longrightarrow> wf_claim E c"
  by (auto simp: normalizeStored_def Let_def wf_claim_def
      split: if_splits option.splits prod.splits dest!: bind_r_InrD)
     (blast intro: trimmed_solid normalizeLease_wf normalizeTriple_wf normalizeCap_good)+

lemma claim_row_clean: "wf_claim E c \<Longrightarrow> json_clean (claim_row E c)"
  by (auto simp: claim_row_def wf_claim_def good_cap_def fin_positive_iff wf_triple_def lease_js_def
      split: option.splits)

lemma normalizeStored_row:
  assumes "wf_claim E c"
  shows "normalizeStored E (claim_row E c) = Inr (Some c)"
proof -
  obtain j where j: "ce_capToJSON E (cl_rootCap c) = Some j" "js_truthy (cl_rootCap c)" "js_truthy j"
      "\<not> ce_isRCapability E j" "ce_newRCapability E j = Inr (cl_rootCap c)"
    using assms by (auto simp: wf_claim_def good_cap_def)
  have cap: "normalizeCap E (getp (claim_row E c) ''rootCap'') = Inr (cl_rootCap c)"
    using j by (simp add: claim_row_cap normalizeCap_def)
  have lease: "normalizeLease (case cl_lease c of None \<Rightarrow> JUndef | Some l \<Rightarrow> lease_js l) = cl_lease c"
    using assms by (auto simp: wf_claim_def normalizeLease_js split: option.split)
  show ?thesis
    using assms j
    by (simp add: normalizeStored_def claim_row_props cap lease wf_claim_def normalizeTriple_row solid_trim)
qed

end

section \<open>Memory and disk\<close>

text \<open>The claim a re-mint leaves behind.\<close>

definition reminted :: "claim \<Rightarrow> int \<Rightarrow> claim \<Rightarrow> bool" where
  "reminted c final c' \<longleftrightarrow> cl_generation c' = Some (final + 1) \<and> cl_lease c' = None
     \<and> cl_inboxId c' = cl_inboxId c \<and> cl_claimantPublicKeyB64 c' = cl_claimantPublicKeyB64 c
     \<and> cl_claimantPrivateKeyB64 c' = cl_claimantPrivateKeyB64 c \<and> cl_rootCap c' = cl_rootCap c"

lemma wf_claims_update:
  "wf_claims E cs \<Longrightarrow> wf_claim E c \<Longrightarrow> k = cl_inboxId c \<Longrightarrow> wf_claims E (AList.update k c cs)"
  using set_update_subset [of k c cs] by (fastforce simp: wf_claims_def distinct_update)

lemma wf_claim_lease:
  "wf_claim E c \<Longrightarrow> (\<And>l. x = Some l \<Longrightarrow> wf_lease l) \<Longrightarrow> wf_claim E (c\<lparr>cl_lease := x\<rparr>)"
  by (simp add: wf_claim_def)

lemma wf_claims_in: "wf_claims E cs \<Longrightarrow> kc \<in> set cs \<Longrightarrow> fst kc = cl_inboxId (snd kc) \<and> wf_claim E (snd kc)"
  unfolding wf_claims_def by (drule conjunct2) (drule (1) bspec, simp add: split_beta)

lemma wf_claims_lookup: "wf_claims E cs \<Longrightarrow> map_of cs k = Some c \<Longrightarrow> k = cl_inboxId c \<and> wf_claim E c"
  by (auto simp: wf_claims_def dest!: map_of_SomeD)

lemma claims_set_run [simp]:
  "claims_set k c (st, w) = (Inr (), (st\<lparr>ics_claims := AList.update k c (ics_claims st)\<rparr>, w))"
  by (simp add: claims_set_def modifyE_def)

lemma claims_delete_run [simp]:
  "claims_delete k (st, w) = (Inr (), (st\<lparr>ics_claims := AList.delete k (ics_claims st)\<rparr>, w))"
  by (simp add: claims_delete_def modifyE_def)

lemma claims_get_run [simp]: "claims_get k (st, w) = (Inr (map_of (ics_claims st) k), (st, w))"
  by (simp add: claims_get_def getsE_def)

lemma requireHydrated_run [simp]: "ics_hydrated st \<Longrightarrow> requireHydrated m (st, w) = (Inr (), (st, w))"
  by (simp add: requireHydrated_def getsE_def bindE_def)

lemma bindE_ext:
  "m w = (r, w') \<Longrightarrow> bindE (ext m) f (st, w) = (case r of Inl e \<Rightarrow> (Inl e, (st, w')) | Inr x \<Rightarrow> f x (st, w'))"
  by (simp add: bindE_def ext_def split: sum.split)

text \<open>The JSON value the claims are stored as.\<close>

definition stored_form :: "'w claim_env \<Rightarrow> (string \<times> claim) list \<Rightarrow> jsval" where
  "stored_form E cs = JObj [(''claims'', JArr (map (claim_row E \<circ> snd) cs))]"

text \<open>Memory and disk are in step: a store hydrated from the disk is the store in memory.\<close>

definition durable :: "'w claim_env \<Rightarrow> claim_store \<Rightarrow> 'w \<Rightarrow> bool" where
  "durable E st w \<longleftrightarrow> hydrate E (new_claim_store, w) = (Inr (), (st, w))"

definition entries_of :: "jsval \<Rightarrow> jsval list" where
  "entries_of stored = (case getp stored ''claims'' of JArr xs \<Rightarrow> xs | _ \<Rightarrow> [])"

lemma hydrate_entries_frame:
  "hydrate_entries E xs (st, w) =
     (fst (hydrate_entries E xs (st, u)), (fst (snd (hydrate_entries E xs (st, u))), w))"
proof (induction xs arbitrary: st)
  case (Cons x xs)
  show ?case
    by (cases "normalizeStored E x")
       (auto simp: bindE_def split: option.split, (subst Cons.IH, simp)+)
qed simp

context claim_host
begin

lemma hydrate_entries_wf:
  "wf_claims E (ics_claims st) \<Longrightarrow> hydrate_entries E xs (st, w) = (r, (st', w')) \<Longrightarrow> wf_claims E (ics_claims st')"
proof (induction xs arbitrary: st)
  case (Cons x xs)
  show ?case
  proof (cases "normalizeStored E x")
    case (Inl e)
    with Cons.prems show ?thesis by simp
  next
    case (Inr n)
    show ?thesis
    proof (cases n)
      case None
      with Inr Cons show ?thesis by (simp add: bindE_def)
    next
      case (Some c)
      let ?st = "st\<lparr>ics_claims := AList.update (cl_inboxId c) c (ics_claims st)\<rparr>"
      have "wf_claims E (ics_claims ?st)"
        using normalizeStored_wf Inr Some Cons.prems(1) by (simp add: wf_claims_update)
      moreover have "hydrate_entries E xs (?st, w) = (r, (st', w'))"
        using Cons.prems(2) Inr Some by (simp add: bindE_def)
      ultimately show ?thesis by (rule Cons.IH)
    qed
  qed
qed simp

lemma hydrate_entries_rows:
  "wf_claims E (ics_claims st @ cs) \<Longrightarrow>
   hydrate_entries E (map (claim_row E \<circ> snd) cs) (st, w) = (Inr (), (st\<lparr>ics_claims := ics_claims st @ cs\<rparr>, w))"
proof (induction cs arbitrary: st)
  case (Cons kc cs)
  obtain k c where kc: "kc = (k, c)" by (cases kc)
  have wf: "k = cl_inboxId c" "wf_claim E c" "map_of (ics_claims st) k = None"
    using Cons.prems kc by (auto simp: wf_claims_def map_of_eq_None_iff image_iff)
  let ?st = "st\<lparr>ics_claims := ics_claims st @ [(k, c)]\<rparr>"
  have "hydrate_entries E (map (claim_row E \<circ> snd) cs) (?st, w)
      = (Inr (), (?st\<lparr>ics_claims := ics_claims ?st @ cs\<rparr>, w))"
    using Cons.prems kc by (intro Cons.IH) simp
  then show ?case
    using wf kc by (simp add: normalizeStored_row bindE_def update_new o_def)
qed simp

lemma durable_iff:
  assumes "inv w"
  shows "durable E st w \<longleftrightarrow>
    (\<exists>st0. hydrate_entries E (entries_of (view w STORE_KEY)) (new_claim_store, w) = (Inr (), (st0, w))
       \<and> st = st0\<lparr>ics_hydrated := True\<rparr>)"
proof -
  let ?h = "hydrate_entries E (entries_of (view w STORE_KEY)) (new_claim_store, w)"
  have "hydrate E (new_claim_store, w) = bindE (hydrate_entries E (entries_of (view w STORE_KEY)))
      (\<lambda>_. modifyE (\<lambda>st. st\<lparr>ics_hydrated := True\<rparr>)) (new_claim_store, w)"
    using assms
    by (simp add: hydrate_def getsE_def ext_def bindE_def [of "\<lambda>(st, w). _ st w"] bindE_def [of "ext _"]
        new_claim_store_def kv.get_value entries_of_def)
  also have "\<dots> = (Inr (), (st, w)) \<longleftrightarrow> (\<exists>st0. ?h = (Inr (), (st0, w)) \<and> st = st0\<lparr>ics_hydrated := True\<rparr>)"
  proof -
    obtain r st0 u where h: "?h = (r, (st0, u))" by (metis prod_cases3)
    then show ?thesis by (cases r) (auto simp: bindE_def modifyE_def)
  qed
  finally show ?thesis by (simp add: durable_def)
qed

lemma durable_view:
  assumes "inv w" "inv w'" "view w' = view w" "durable E st w"
  shows "durable E st w'"
proof -
  obtain st0 where "hydrate_entries E (entries_of (view w STORE_KEY)) (new_claim_store, w) = (Inr (), (st0, w))"
      "st = st0\<lparr>ics_hydrated := True\<rparr>"
    using assms durable_iff by blast
  then show ?thesis
    using assms hydrate_entries_frame [of E "entries_of (view w STORE_KEY)" new_claim_store w' w]
    by (auto simp: durable_iff)
qed

lemma durable_wf:
  assumes "inv w" "durable E st w"
  shows "wf_claims E (ics_claims st) \<and> ics_hydrated st"
proof -
  obtain st0 where "hydrate_entries E (entries_of (view w STORE_KEY)) (new_claim_store, w) = (Inr (), (st0, w))"
      "st = st0\<lparr>ics_hydrated := True\<rparr>"
    using assms durable_iff by blast
  moreover have "wf_claims E (ics_claims new_claim_store)"
    by (simp add: wf_claims_def new_claim_store_def)
  ultimately show ?thesis using hydrate_entries_wf by fastforce
qed

lemma durable_stored:
  assumes "inv w" "wf_claims E (ics_claims st)" "ics_hydrated st"
    "view w STORE_KEY = stored_form E (ics_claims st)"
  shows "durable E st w"
  using assms hydrate_entries_rows [of new_claim_store "ics_claims st" w]
  by (simp add: durable_iff entries_of_def stored_form_def new_claim_store_def)

lemma stored_form_clean:
  "wf_claims E cs \<Longrightarrow> json_clean (stored_form E cs) \<and> stored_form E cs \<noteq> JNull"
proof -
  assume wf: "wf_claims E cs"
  have "json_clean (claim_row E (snd kc))" if "kc \<in> set cs" for kc
    by (rule claim_row_clean [OF conjunct2 [OF wf_claims_in [OF wf that]]])
  then have "list_all json_clean (map (claim_row E \<circ> snd) cs)"
    by (simp add: list_all_iff)
  then show ?thesis by (simp add: stored_form_def)
qed

text \<open>A write-through with rollback keeps memory and disk in step, whichever way it ends.\<close>

lemma write_through:
  assumes step: "durable E st w" "inv w" "inv w1" "view w1 = view w"
    and new: "wf_claims E (ics_claims st1)" "ics_hydrated st1"
    and undo: "\<And>u. undo (st1, u) = (Inr (), (st, u))"
    and run: "persist_or_undo E undo (st1, w1) = (r, (st2, w2))"
  shows "inv w2 \<and> durable E st2 w2 \<and> st2 = (if isl r then st else st1)"
proof -
  obtain r' w' where set: "kv_set (ce_kv E) STORE_KEY (stored_form E (ics_claims st1)) w1 = (r', w')"
    by fastforce
  then have kv: "inv w'"
      "view w' = (case r' of Inl e \<Rightarrow> view w1 | Inr u \<Rightarrow> (view w1)(STORE_KEY := stored_form E (ics_claims st1)))"
    using kv.set_value [OF step(3) _ _ set] stored_form_clean [OF new(1)] by auto
  have pa: "persistAll E (st1, w1) = (r', (st1, w'))"
    using set by (simp add: persistAll_def getsE_def ext_def bindE_def stored_form_def)
  show ?thesis
  proof (cases r')
    case (Inl e)
    then have "view w' = view w" using kv(2) step(4) by simp
    then have "durable E st w'" by (rule durable_view [OF step(2) kv(1) _ step(1)])
    then show ?thesis
      using run Inl kv undo by (auto simp: persist_or_undo_def catchE_def pa bindE_def)
  next
    case (Inr u)
    then have "view w' STORE_KEY = stored_form E (ics_claims st1)" using kv(2) by simp
    then have "durable E st1 w'" by (rule durable_stored [OF kv(1) new])
    then show ?thesis
      using run Inr kv by (auto simp: persist_or_undo_def catchE_def pa)
  qed
qed

lemma persist_in_step:
  assumes "durable E st w" "inv w" "persist E v (st, w) = (r, (st', w'))"
  shows "inv w' \<and> durable E st' w' \<and> (isl r \<longrightarrow> st' = st)"
proof -
  have wf: "wf_claims E (ics_claims st)" "ics_hydrated st" using durable_wf assms by auto
  show ?thesis
  proof (cases "\<exists>n. normalizeStored E v = Inr (Some n)")
    case False
    then have "isl r \<and> st' = st \<and> w' = w"
      using assms(3) wf(2)
      by (cases "normalizeStored E v") (auto simp: persist_def bindE_def split: option.splits)
    then show ?thesis using assms by simp
  next
    case True
    then obtain n where n: "normalizeStored E v = Inr (Some n)" by blast
    let ?k = "cl_inboxId n"
    let ?ex = "map_of (ics_claims st) ?k"
    define n' where "n' = n\<lparr>cl_lease := (case cl_lease n of Some l \<Rightarrow> Some l
        | None \<Rightarrow> (case ?ex of Some x \<Rightarrow> cl_lease x | None \<Rightarrow> None))\<rparr>"
    define undo :: "('w, unit) cs_io" where
      "undo = (case ?ex of Some x \<Rightarrow> claims_set ?k x | None \<Rightarrow> claims_delete ?k)"
    define st1 where "st1 = st\<lparr>ics_claims := AList.update ?k n' (ics_claims st)\<rparr>"
    have "requireHydrated ''persist'' (st, w) = (Inr (), (st, w))" using wf(2) by simp
    then have run: "persist E v (st, w) = bindE (persist_or_undo E undo) (\<lambda>_. retE n') (st1, w)"
      by (cases "cl_lease n"; cases ?ex) (simp_all add: persist_def n bindE_step n'_def undo_def st1_def Let_def)
    have nwf: "wf_claim E n" using n by (rule normalizeStored_wf)
    have "wf_claim E x" if "?ex = Some x" for x
      using wf_claims_lookup [OF wf(1) that] by (rule conjunct2)
    then have "wf_claim E n'"
      unfolding n'_def using nwf
      by (intro wf_claim_lease) (auto simp: wf_claim_def split: option.splits)
    then have new: "wf_claims E (ics_claims st1)" "ics_hydrated st1"
      using wf by (auto simp: st1_def n'_def intro: wf_claims_update)
    have undo: "undo (st1, u) = (Inr (), (st, u))" for u
      by (cases ?ex) (simp_all add: undo_def st1_def update_same delete_restore)
    obtain r1 st2 w2 where p: "persist_or_undo E undo (st1, w) = (r1, (st2, w2))" by (metis prod_cases3)
    then have "inv w2 \<and> durable E st2 w2 \<and> st2 = (if isl r1 then st else st1)"
      using write_through [OF assms(1,2,2) refl new undo] by blast
    then show ?thesis
      using run p assms(3) by (cases r1) (auto simp: bindE_def)
  qed
qed

lemma replace_claim:
  assumes step: "durable E st w" "inv w" "inv w1" "view w1 = view w"
    and c: "map_of (ics_claims st) k = Some c" "wf_claim E c'" "k = cl_inboxId c'"
    and run: "bindE (claims_set k c') (\<lambda>_. bindE (persist_or_undo E (claims_set k c)) (\<lambda>_. retE x)) (st, w1)
      = (r, (st', w'))"
  shows "inv w' \<and> durable E st' w'
    \<and> st' = (if isl r then st else st\<lparr>ics_claims := AList.update k c' (ics_claims st)\<rparr>)"
proof -
  have wf: "wf_claims E (ics_claims st)" "ics_hydrated st" using durable_wf step by auto
  define st1 where "st1 = st\<lparr>ics_claims := AList.update k c' (ics_claims st)\<rparr>"
  have new: "wf_claims E (ics_claims st1)" "ics_hydrated st1"
    using wf_claims_update [OF wf(1) c(2,3)] wf(2) by (simp_all add: st1_def)
  have undo: "claims_set k c (st1, u) = (Inr (), (st, u))" for u :: 'w
    using update_same [OF c(1)] by (simp add: st1_def)
  obtain r1 st2 w2 where p: "persist_or_undo E (claims_set k c) (st1, w1) = (r1, (st2, w2))"
    by (metis prod_cases3)
  then have "inv w2 \<and> durable E st2 w2 \<and> st2 = (if isl r1 then st else st1)"
    using write_through [OF step new undo] by blast
  then show ?thesis
    using p run by (cases r1) (auto simp: bindE_def st1_def)
qed

lemma lease_in_step:
  assumes "durable E st w" "inv w" "recordAcceptedLease E i a b k (st, w) = (r, (st', w'))"
  shows "inv w' \<and> durable E st' w' \<and> (isl r \<longrightarrow> st' = st)"
proof -
  have wf: "wf_claims E (ics_claims st)" "ics_hydrated st" using durable_wf assms by auto
  let ?iid = "trimmed i" and ?k = "js_default k (JStr ''transient'')"
  show ?thesis
  proof (cases "\<exists>c p q. map_of (ics_claims st) ?iid = Some c \<and> js_Number a = Fin p \<and> js_Number b = Fin q
      \<and> 0 < p \<and> p < q \<and> (?k = JStr ''transient'' \<or> ?k = JStr ''standard'')")
    case False
    then have "isl r \<and> st' = st \<and> w' = w"
      using assms(3) wf(2)
      by (auto simp: recordAcceptedLease_def Let_def bindE_step not_le
          split: option.splits jnum.splits if_splits)
    then show ?thesis using assms by simp
  next
    case True
    then obtain c p q where c: "map_of (ics_claims st) ?iid = Some c"
      and l: "js_Number a = Fin p" "js_Number b = Fin q" "0 < p" "p < q"
        "?k = JStr ''transient'' \<or> ?k = JStr ''standard''"
      by blast
    define l' where "l' = \<lparr>ls_issuedAtMs = p, ls_expiresAtMs = q, ls_retentionClass = trimmed ?k\<rparr>"
    have run: "recordAcceptedLease E i a b k (st, w) = bindE (claims_set ?iid (c\<lparr>cl_lease := Some l'\<rparr>))
        (\<lambda>_. bindE (persist_or_undo E (claims_set ?iid c)) (\<lambda>_. retE l')) (st, w)"
      using c l wf(2) by (auto simp: recordAcceptedLease_def Let_def bindE_step l'_def)
    have cwf: "?iid = cl_inboxId c" "wf_claim E c" using wf_claims_lookup [OF wf(1) c] by blast+
    have "wf_lease l'"
      using l by (auto simp: wf_lease_def l'_def js_trim_def is_ws_def)
    then have "wf_claim E (c\<lparr>cl_lease := Some l'\<rparr>)"
      using cwf(2) by (intro wf_claim_lease) simp_all
    then show ?thesis
      using replace_claim [OF assms(1,2,2) refl c _ _ assms(3) [unfolded run]] cwf(1) by auto
  qed
qed

lemma remintMaterial_run:
  assumes "inv w" "remintMaterial E c iid final now w = (r, w')"
  shows "inv w' \<and> view w' = view w \<and>
    (\<forall>c'. r = Inr c' \<longrightarrow> reminted c final c' \<and>
       (wf_claim E c \<longrightarrow> 1 \<le> final \<longrightarrow> fin_positive (js_Number now) \<longrightarrow> wf_claim E c'))"
proof -
  obtain r1 w1 where gen: "ce_generate E w = (r1, w1)" by fastforce
  note calm = generate_calm [OF assms(1) gen]
  show ?thesis
  proof (cases "isl r1 \<or> isl (ce_base64ToBytes E (cl_claimantPrivateKeyB64 c)) \<or> w' = w1 \<and> isl r")
    case True
    then have "w' = w1 \<and> isl r"
      using assms(2) gen
      by (auto simp: remintMaterial_def bindE_def Let_def liftE_def split: sum.splits prod.splits)
    then show ?thesis using calm by auto
  next
    case False
    then obtain a b sk where ab: "r1 = Inr (a, b)" "ce_base64ToBytes E (cl_claimantPrivateKeyB64 c) = Inr sk"
      by (metis isl_def prod.exhaust sum.exhaust_sel)
    then obtain msg r2 where sg: "ce_sign E sk msg w1 = (r2, w')" and c': "(\<forall>c'. r = Inr c' \<longrightarrow> (\<exists>s. r2 = Inr s \<and>
        c' = c\<lparr>cl_closePublicKeyB64 := Some (ce_bytesToBase64 E a), cl_closePrivateKeyB64 := Some (ce_bytesToBase64 E b),
                cl_generation := Some (final + 1), cl_claimedAtMs := js_Number now,
                cl_claimSignatureB64 := ce_bytesToBase64 E s, cl_lease := None\<rparr>))"
      using assms(2) gen False
      by (auto simp: remintMaterial_def bindE_def Let_def liftE_def split: sum.splits prod.splits)
    have keys: "a \<noteq> []" "b \<noteq> []" using generate_keys gen ab by auto
    have "s \<noteq> []" if "r2 = Inr s" for s using sign_bytes sg that by auto
    then have "reminted c final c' \<and>
       (wf_claim E c \<longrightarrow> 1 \<le> final \<longrightarrow> fin_positive (js_Number now) \<longrightarrow> wf_claim E c')" if "r = Inr c'" for c'
      using c' [rule_format, OF that] keys b64_nonempty
      by (auto simp: reminted_def wf_claim_def wf_triple_def solid_def b64_trimmed)
    then show ?thesis using sign_calm [OF _ sg] calm by auto
  qed
qed

lemma remint_in_step:
  assumes step: "durable E st w" "inv w" and now: "fin_positive (js_Number now)"
    and run: "remintGeneration E i g now (st, w) = (r, (st', w'))"
  shows "inv w' \<and> durable E st' w' \<and> (isl r \<longrightarrow> st' = st)
    \<and> (\<forall>res. r = Inr res \<longrightarrow> (\<exists>c final c'. map_of (ics_claims st) (trimmed i) = Some c
         \<and> g = JInt final \<and> cl_generation c = Some final \<and> rm_toGeneration res = final + 1
         \<and> reminted c final c' \<and> ics_claims st' = AList.update (trimmed i) c' (ics_claims st)))"
proof -
  have wf: "wf_claims E (ics_claims st)" "ics_hydrated st" using durable_wf step by auto
  show ?thesis
  proof (cases "\<exists>c final. map_of (ics_claims st) (trimmed i) = Some c \<and> g = JInt final \<and> 1 \<le> final
      \<and> cl_generation c = Some final")
    case False
    have "isl r \<and> st' = st \<and> w' = w"
      using run wf(2) False
      by (auto simp: remintGeneration_def Let_def bindE_step js_isInteger_iff
          split: option.splits if_splits dest!: whole_from_one_SomeD)
    then show ?thesis using step by auto
  next
    case True
    then obtain c final where c: "map_of (ics_claims st) (trimmed i) = Some c" "g = JInt final" "1 \<le> final"
        "cl_generation c = Some final"
      by blast
    have iid: "trimmed i = cl_inboxId c" "wf_claim E c" using wf_claims_lookup [OF wf(1) c(1)] by blast+
    obtain r1 w1 where mat: "remintMaterial E c (trimmed i) final now w = (r1, w1)" by fastforce
    note calm = remintMaterial_run [OF step(2) mat]
    let ?res = "\<lparr>rm_inboxId = trimmed i, rm_fromGeneration = final, rm_toGeneration = final + 1\<rparr>"
    have eq: "remintGeneration E i g now (st, w) = (case r1 of Inl e \<Rightarrow> (Inl e, (st, w1)) | Inr c' \<Rightarrow>
        bindE (claims_set (trimmed i) c') (\<lambda>_. bindE (persist_or_undo E (claims_set (trimmed i) c)) (\<lambda>_. retE ?res))
          (st, w1))"
      using c wf(2) mat
      by (simp add: remintGeneration_def Let_def bindE_step js_isInteger_iff)
         (simp add: bindE_ext)
    show ?thesis
    proof (cases r1)
      case (Inl e)
      then have "r = Inl e \<and> st' = st \<and> w' = w1" using run eq by simp
      then show ?thesis using calm durable_view [OF step(2) _ _ step(1)] by auto
    next
      case (Inr c')
      then have c': "reminted c final c'" "wf_claim E c'" using calm iid(2) c(3) now by auto
      have k: "trimmed i = cl_inboxId c'" using c'(1) iid(1) by (simp add: reminted_def)
      have run': "bindE (claims_set (trimmed i) c') (\<lambda>_. bindE (persist_or_undo E (claims_set (trimmed i) c))
          (\<lambda>_. retE ?res)) (st, w1) = (r, (st', w'))"
        using run eq Inr by simp
      have "rm_toGeneration res = final + 1" if "r = Inr res" for res
        using run' that by (auto simp: bindE_def split: prod.splits sum.splits)
      then show ?thesis
        using replace_claim [OF step _ _ c(1) c'(2) k run'] calm c c'(1) by auto
    qed
  qed
qed

end

section \<open>A store whose writes may be refused\<close>

text \<open>The key-value store of \<open>getKeyValueStore(null)\<close> on a disk that refuses some writes: each
  write consumes one entry of the schedule.\<close>

definition refusing :: "'w kv_ops \<Rightarrow> (bool list \<times> 'w) kv_ops" where
  "refusing K =
     \<lparr>kv_get = (\<lambda>k (q, w). case kv_get K k w of (r, w') \<Rightarrow> (r, (q, w'))),
      kv_set = (\<lambda>k v (q, w). case q of
          True # q' \<Rightarrow> (Inl (plain_err ''QuotaExceededError''), (q', w))
        | _ \<Rightarrow> (case kv_set K k v w of (r, w') \<Rightarrow> (r, (tl q, w')))),
      kv_delete = (\<lambda>k (q, w). case kv_delete K k w of (r, w') \<Rightarrow> (r, (q, w'))),
      kv_keys = (\<lambda>p (q, w). case kv_keys K p w of (r, w') \<Rightarrow> (r, (q, w')))\<rparr>"

lemma refusing_atomic:
  assumes "atomic_kv K view ok"
  shows "atomic_kv (refusing K) (\<lambda>(q, w). view w) (\<lambda>(q, w). ok w)"
proof -
  have gets: "\<And>w k. ok w \<Longrightarrow> kv_get K k w = (Inr (view w k), w)"
    and sets: "\<And>w v k r w'. ok w \<Longrightarrow> json_clean v \<Longrightarrow> v \<noteq> JNull \<Longrightarrow> kv_set K k v w = (r, w') \<Longrightarrow>
      ok w' \<and> view w' = (case r of Inl e \<Rightarrow> view w | Inr u \<Rightarrow> (view w)(k := v))"
    using assms by (auto simp: atomic_kv_def)
  show ?thesis
  proof
    show "kv_get (refusing K) k s = (Inr ((case s of (q, w) \<Rightarrow> view w) k), s)"
      if "case s of (q, w) \<Rightarrow> ok w" for s k
      using that gets by (cases s) (simp add: refusing_def)
    show "(case s' of (q, w) \<Rightarrow> ok w) \<and> (case s' of (q, w) \<Rightarrow> view w) =
        (case r of Inl e \<Rightarrow> case s of (q, w) \<Rightarrow> view w | Inr u \<Rightarrow> (case s of (q, w) \<Rightarrow> view w)(k := v))"
      if "case s of (q, w) \<Rightarrow> ok w" "json_clean v" "v \<noteq> JNull" "kv_set (refusing K) k v s = (r, s')" for s v k r s'
      using that sets by (cases s) (force simp: refusing_def split: list.splits bool.splits prod.splits)
  qed
qed

type_synonym disk = "bool list \<times> idb"

definition disk_view :: "disk \<Rightarrow> string \<Rightarrow> jsval" where
  "disk_view = (\<lambda>(q, db). idb_view (kv_partition []) db)"

definition disk_inv :: "disk \<Rightarrow> bool" where
  "disk_inv = (\<lambda>(q, db). idb_inv db)"

interpretation disk: atomic_kv "refusing (getKeyValueStore None)" disk_view disk_inv
  unfolding disk_view_def disk_inv_def getKeyValueStore_def option.case
  by (rule refusing_atomic, rule idb.atomic_kv_axioms)

text \<open>The environment of the examples: that disk, and stand-ins for the protocol library.\<close>

definition demo_is_cap :: "jsval \<Rightarrow> bool" where
  "demo_is_cap v = (case v of JObj [(k, JStr s)] \<Rightarrow> k = ''cap'' \<and> s \<noteq> [] | _ \<Rightarrow> False)"

definition demo_b64 :: "octets \<Rightarrow> string" where
  "demo_b64 bs = concat (map hex2 bs)"

definition demo_claim_env :: "disk claim_env" where
  "demo_claim_env =
     \<lparr>ce_kv = refusing (getKeyValueStore None),
      ce_generate = retE ([7], [9]),
      ce_sign = (\<lambda>key msg. retE (key @ [word_of_nat (length msg)])),
      ce_randomBytes = retE [1, 2, 3],
      ce_createRootCapability = (\<lambda>opts key. retE (JObj [(''cap'', JStr ''root'')])),
      ce_signTerminalInboxClose = (\<lambda>opts key. retE opts),
      ce_bytesToBase64 = demo_b64,
      ce_base64ToBytes = (\<lambda>s. Inr (utf8_encode s)),
      ce_canonicalJSONStringify = JSON_stringify,
      ce_canonicalInboxClaimPayload = Inr,
      ce_canonicalNodeDelegationPayload = Inr,
      ce_claimLeasePresence = (\<lambda>r. if getp r ''generation'' = JUndef then ''none'' else ''all''),
      ce_requireCanonicalInboxId = Inr,
      ce_validateRelayIdentityBinding = (\<lambda>o1. JObj [(''ok'', JBool True)]),
      ce_isRCapability = demo_is_cap,
      ce_newRCapability = (\<lambda>j. case j of JStr s \<Rightarrow> if s = [] then Inl (plain_err ''bad capability'')
         else Inr (JObj [(''cap'', JStr s)]) | _ \<Rightarrow> Inl (plain_err ''bad capability'')),
      ce_capToJSON = (\<lambda>c. case c of JObj [(k, v)] \<Rightarrow> Some v | _ \<Rightarrow> None)\<rparr>"

lemma demo_is_cap_iff: "demo_is_cap v \<longleftrightarrow> (\<exists>s. v = JObj [(''cap'', JStr s)] \<and> s \<noteq> [])"
  by (auto simp: demo_is_cap_def split: jsval.splits list.splits)

lemma demo_cap_fields:
  "ce_isRCapability demo_claim_env = demo_is_cap"
  "ce_capToJSON demo_claim_env (JObj [(k, v)]) = Some v"
  "ce_newRCapability demo_claim_env j = (case j of
     JStr s \<Rightarrow> if s = [] then Inl (plain_err ''bad capability'') else Inr (JObj [(''cap'', JStr s)])
   | _ \<Rightarrow> Inl (plain_err ''bad capability''))"
  by (simp_all add: demo_claim_env_def)

lemma demo_good_cap: "s \<noteq> [] \<Longrightarrow> good_cap demo_claim_env (JObj [(''cap'', JStr s)])"
  by (simp add: good_cap_def demo_cap_fields demo_is_cap_iff)

lemma hex_digit_solid: "d < 16 \<Longrightarrow> \<not> is_ws (hex_digit d)"
proof -
  assume "d < 16"
  then have "d \<in> set [0..<16]" by simp
  then show ?thesis by (auto simp: upt_rec hex_digit_def is_ws_def)
qed

lemma demo_b64_solid: "c \<in> set (demo_b64 bs) \<Longrightarrow> \<not> is_ws c"
proof -
  have "unat b div 16 < 16" for b :: "8 word" using unsigned_less [where 'a = nat, of b] by simp
  then show "c \<in> set (demo_b64 bs) \<Longrightarrow> \<not> is_ws c"
    by (auto simp: demo_b64_def hex2_def hex_digit_solid)
qed

lemma trim_no_ws: "(\<And>c. c \<in> set s \<Longrightarrow> \<not> is_ws c) \<Longrightarrow> js_trim s = s"
proof -
  assume ws: "\<And>c. c \<in> set s \<Longrightarrow> \<not> is_ws c"
  have "dropWhile is_ws t = t" if "set t \<subseteq> set s" for t
    using that ws by (cases t) auto
  then show ?thesis by (simp add: js_trim_def)
qed

interpretation dc: claim_host demo_claim_env disk_view disk_inv
proof
  show "kv_get (ce_kv demo_claim_env) k w = (Inr (disk_view w k), w)" if "disk_inv w" for w k
    using that by (simp add: demo_claim_env_def disk.get_value)
  show "disk_inv w' \<and> disk_view w' = (case r of Inl e \<Rightarrow> disk_view w | Inr u \<Rightarrow> (disk_view w)(k := v))"
    if "disk_inv w" "json_clean v" "v \<noteq> JNull" "kv_set (ce_kv demo_claim_env) k v w = (r, w')" for w v k r w'
    using disk.set_value [OF that(1-3)] that(4) by (simp add: demo_claim_env_def)
  show "good_cap demo_claim_env v" if "ce_isRCapability demo_claim_env v" for v
    using that by (auto simp: demo_is_cap_iff demo_cap_fields intro!: demo_good_cap)
  show "good_cap demo_claim_env c" if "ce_newRCapability demo_claim_env j = Inr c" for j c
    using that by (cases j) (auto simp: demo_cap_fields intro!: demo_good_cap split: if_splits)
  show "js_trim (ce_bytesToBase64 demo_claim_env bs) = ce_bytesToBase64 demo_claim_env bs" for bs
    by (simp add: demo_claim_env_def trim_no_ws demo_b64_solid)
  show "ce_bytesToBase64 demo_claim_env bs \<noteq> []" if "bs \<noteq> []" for bs
    using that by (cases bs) (auto simp: demo_claim_env_def demo_b64_def hex2_def)
qed (auto simp: demo_claim_env_def)

section \<open>Properties\<close>

datatype claim_op =
    Persist jsval
  | AcceptLease jsval jsval jsval jsval
  | Remint jsval jsval jsval

text \<open>One call, its result or exception discarded by the caller.\<close>

fun run_claim_op :: "'w claim_env \<Rightarrow> claim_op \<Rightarrow> claim_store \<times> 'w \<Rightarrow> claim_store \<times> 'w" where
  "run_claim_op E (Persist v) s = snd (persist E v s)"
| "run_claim_op E (AcceptLease i a b k) s = snd (recordAcceptedLease E i a b k s)"
| "run_claim_op E (Remint i g now) s = snd (remintGeneration E i g now s)"

fun sane_clock :: "claim_op \<Rightarrow> bool" where
  "sane_clock (Remint i g now) = fin_positive (js_Number now)"
| "sane_clock op = True"

context claim_host
begin

lemma run_op_in_step:
  assumes "durable E st w" "inv w" "sane_clock op" "run_claim_op E op (st, w) = (st', w')"
  shows "durable E st' w' \<and> inv w'"
proof (cases op)
  case (Persist v)
  then have "persist E v (st, w) = (fst (persist E v (st, w)), (st', w'))"
    using assms(4) by (simp add: prod_eq_iff)
  then show ?thesis using persist_in_step [OF assms(1,2)] by blast
next
  case (AcceptLease i a b k)
  then have "recordAcceptedLease E i a b k (st, w) = (fst (recordAcceptedLease E i a b k (st, w)), (st', w'))"
    using assms(4) by (simp add: prod_eq_iff)
  then show ?thesis using lease_in_step [OF assms(1,2)] by blast
next
  case (Remint i g now)
  then have "remintGeneration E i g now (st, w) = (fst (remintGeneration E i g now (st, w)), (st', w'))"
    using assms(4) by (simp add: prod_eq_iff)
  moreover have "fin_positive (js_Number now)" using Remint assms(3) by simp
  ultimately show ?thesis using remint_in_step [OF assms(1,2)] by blast
qed

lemma run_ops_in_step:
  assumes "durable E st w" "inv w" "list_all sane_clock ops"
    "foldl (\<lambda>s op. run_claim_op E op s) (st, w) ops = (st', w')"
  shows "durable E st' w' \<and> inv w'"
  using assms
proof (induction ops arbitrary: st w)
  case (Cons op ops)
  obtain st1 w1 where op: "run_claim_op E op (st, w) = (st1, w1)" by (rule prod.exhaust)
  then have "durable E st1 w1" "inv w1"
    using Cons.prems run_op_in_step [OF Cons.prems(1,2) _ op] by simp_all
  then show ?case using Cons.IH Cons.prems(3,4) op by simp
qed simp

end

text \<open>C12. Claims survive a restart. Whatever sequence of \<open>persist\<close>, \<open>recordAcceptedLease\<close> and
  \<open>remintGeneration\<close> calls runs on a hydrated store, with any arguments and with any of their
  writes failing, a second store hydrated from the same disk afterwards is equal to the store in
  memory: the rollbacks never leave a claim, a lease or a generation in memory that the disk does
  not have, and no accepted claim is lost.\<close>

theorem claims_survive_restart:
  assumes "claim_host E look good" and "good w0"
    and "hydrate E (new_claim_store, w0) = (Inr (), (st0, w0))"
    and "list_all sane_clock ops"
    and "foldl (\<lambda>s op. run_claim_op E op s) (st0, w0) ops = (st, w)"
  shows "hydrate E (new_claim_store, w) = (Inr (), (st, w)) \<and> wf_claims E (ics_claims st)"
  using claim_host.run_ops_in_step [OF assms(1) _ assms(2,4,5)] assms(3)
    claim_host.durable_wf [OF assms(1)]
  by (auto simp: durable_def)

text \<open>A generation is re-minted on the provider's evidence only. \<open>remintGeneration\<close> succeeds
  exactly by replacing the stored claim with one of the next generation, with the same inbox id,
  claimant keys and capability and without a lease, and then the stored generation was the one
  the provider named. When it throws, for whatever reason, memory is unchanged.\<close>

theorem remint_needs_matching_generation:
  assumes "claim_host E look good" and "good w"
    and "hydrate E (new_claim_store, w) = (Inr (), (st, w))"
    and "fin_positive (js_Number now)"
    and "remintGeneration E i g now (st, w) = (r, (st', w'))"
  shows "case r of
      Inl e \<Rightarrow> st' = st
    | Inr res \<Rightarrow> \<exists>c final c'. map_of (ics_claims st) (trimmed i) = Some c \<and> g = JInt final
        \<and> cl_generation c = Some final \<and> rm_toGeneration res = final + 1
        \<and> reminted c final c' \<and> ics_claims st' = AList.update (trimmed i) c' (ics_claims st)"
  using claim_host.remint_in_step [OF assms(1) _ assms(2,4,5)] assms(3)
  by (cases r) (simp_all add: durable_def)

text \<open>C36. Only well-formed claims enter the store: whatever value is read from the disk or handed to
  \<open>persist\<close>, what \<open>normalizeStored\<close> accepts has non-blank trimmed keys and signature, a positive
  finite claim time, a usable capability, a lease triple that is complete or absent with a
  generation of at least 1, and a lease window that is open and of a known class.\<close>

theorem normalized_claims_are_well_formed:
  assumes "claim_host E look good" and "normalizeStored E v = Inr (Some c)"
  shows "wf_claim E c"
  using assms by (rule claim_host.normalizeStored_wf)

definition demo_claim :: jsval where
  "demo_claim = JObj [(''inboxId'', JStr ''inbox:01''), (''claimantPublicKeyB64'', JStr ''pub''),
     (''claimantPrivateKeyB64'', JStr ''priv''), (''claimedAtMs'', JInt 100), (''claimSignatureB64'', JStr ''sig''),
     (''rootCap'', JObj [(''cap'', JStr ''root'')]), (''closePublicKeyB64'', JStr ''cp''),
     (''closePrivateKeyB64'', JStr ''cs''), (''generation'', JInt 1)]"

theorem normalized_claims_are_well_formed_witness:
  "\<exists>c. normalizeStored demo_claim_env demo_claim = Inr (Some c) \<and> wf_claim demo_claim_env c"
proof -
  have "case normalizeStored demo_claim_env demo_claim of Inr (Some c) \<Rightarrow> True | _ \<Rightarrow> False" by code_simp
  then obtain c where "normalizeStored demo_claim_env demo_claim = Inr (Some c)"
    by (auto split: sum.splits option.splits)
  then show ?thesis using normalized_claims_are_well_formed [OF dc.claim_host_axioms] by blast
qed

definition demo_ops :: "claim_op list" where
  "demo_ops = [Persist demo_claim, AcceptLease (JStr ''inbox:01'') (JInt 100) (JInt 200) JUndef,
     Remint (JStr ''inbox:01'') (JInt 1) (JInt 300), Remint (JStr ''inbox:01'') (JInt 1) (JInt 300)]"

definition empty_store :: claim_store where
  "empty_store = \<lparr>ics_claims = [], ics_hydrated = True\<rparr>"

lemma demo_empty_disk: "disk_inv (q, [])" "hydrate demo_claim_env (new_claim_store, (q, [])) = (Inr (), (empty_store, (q, [])))"
proof -
  show "disk_inv (q, [])" by (simp add: disk_inv_def idb_inv_def)
  then have "durable demo_claim_env empty_store (q, []) \<longleftrightarrow> True"
    by (subst dc.durable_iff) (simp_all add: disk_view_def idb_view_def entries_of_def empty_store_def new_claim_store_def)
  then show "hydrate demo_claim_env (new_claim_store, (q, [])) = (Inr (), (empty_store, (q, [])))"
    by (simp add: durable_def)
qed

text \<open>On a disk that refuses the second write: the lease is rolled back, the re-mint is stored.\<close>

theorem claims_survive_restart_witness:
  "\<exists>st w. foldl (\<lambda>s op. run_claim_op demo_claim_env op s) (empty_store, ([False, True, False], [])) demo_ops = (st, w)
     \<and> hydrate demo_claim_env (new_claim_store, w) = (Inr (), (st, w))
     \<and> map (\<lambda>(k, c). (k, cl_generation c, cl_lease c)) (ics_claims st) = [(''inbox:01'', Some 2, None)]"
proof -
  obtain st w where run:
    "foldl (\<lambda>s op. run_claim_op demo_claim_env op s) (empty_store, ([False, True, False], [])) demo_ops = (st, w)"
    by (rule prod.exhaust)
  have "map (\<lambda>(k, c). (k, cl_generation c, cl_lease c)) (ics_claims (fst
     (foldl (\<lambda>s op. run_claim_op demo_claim_env op s) (empty_store, ([False, True, False], [])) demo_ops)))
     = [(''inbox:01'', Some 2, None)]"
    by code_simp
  moreover have "list_all sane_clock demo_ops" by code_simp
  ultimately show ?thesis
    using claims_survive_restart [OF dc.claim_host_axioms demo_empty_disk, of demo_ops] run by auto
qed

theorem remint_needs_matching_generation_witness:
  "\<exists>st w. hydrate demo_claim_env (new_claim_store, w) = (Inr (), (st, w)) \<and> disk_inv w \<and>
     (\<exists>res st' c'. remintGeneration demo_claim_env (JStr ''inbox:01'') (JInt 1) (JInt 300) (st, w) = (Inr res, st')
        \<and> cl_generation c' = Some 2 \<and> ics_claims (fst st') = AList.update ''inbox:01'' c' (ics_claims st))"
proof -
  let ?s = "persist demo_claim_env demo_claim (empty_store, ([], []))"
  obtain st w where p: "snd ?s = (st, w)" by (rule prod.exhaust)
  then obtain r where ps: "?s = (r, (st, w))" by (cases ?s) auto
  have dur: "durable demo_claim_env st w \<and> disk_inv w"
    using dc.persist_in_step [OF _ demo_empty_disk(1) ps] demo_empty_disk by (simp add: durable_def)
  have ok: "case fst (remintGeneration demo_claim_env (JStr ''inbox:01'') (JInt 1) (JInt 300) (snd ?s)) of
      Inl e \<Rightarrow> False | Inr x \<Rightarrow> True"
    by code_simp
  obtain r2 st' w' where rm: "remintGeneration demo_claim_env (JStr ''inbox:01'') (JInt 1) (JInt 300) (st, w) = (r2, (st', w'))"
    by (metis prod_cases3)
  then obtain res where res: "r2 = Inr res" using ok p by (cases r2) auto
  have now: "fin_positive (js_Number (JInt 300))" by simp
  have trim: "trimmed (JStr ''inbox:01'') = ''inbox:01''" by code_simp
  show ?thesis
    using remint_needs_matching_generation [OF dc.claim_host_axioms _ _ now rm] dur rm res
    unfolding trim durable_def reminted_def by fastforce
qed

end
