(* ===== verification/Tcp_Transport.thy ===== *)
theory Tcp_Transport
  imports Js_Bytes "HOL-Library.AList"
begin

text \<open>
  The TCP transport, \<open>transport/TcpTransport.js\<close>, and its frame codec,
  \<open>transport/FrameCodec.js\<close>: JSON frames behind a 32-bit length, split and reassembled from
  arbitrary chunks, and requests correlated with responses by id.

  The transport is a state record. What it does to the outside is a log, \<open>t_out\<close>: bytes
  written to the socket, promises settled, frames and states handed to listeners. The socket
  and the timers are the environment: what they do (a chunk, a close, a write that throws, a
  timer that fires) is an argument or an operation. A listener is a number; a listener that
  calls back into the transport while it is being called is not modelled.

  \<open>parseUntrustedJson\<close> of \<open>@rezprotocol/core\<close>, applied to the UTF-8 decoding of the payload, is a
  parameter of the codec.
\<close>

section \<open>The frame codec\<close>

record frame =
  fr_id :: "string option"
  fr_type :: string
  fr_version :: jsval
  fr_body :: jsval

record json_parser =
  jp_parse :: "octets \<Rightarrow> jsval res"
  jp_unsafe_key :: string

text \<open>A destructured parameter with a default: the default stands for \<open>undefined\<close>.\<close>

definition frameObject :: "jsval \<Rightarrow> jsval \<Rightarrow> jsval \<Rightarrow> jsval \<Rightarrow> jsval" where
  "frameObject fid ftype body version =
     (let v = js_Number (if version = JUndef then JInt 2 else version)
      in JObj
        [(''id'', JStr (str_or_empty fid)),
         (''t'', JStr (str_or_empty ftype)),
         (''v'', if isFinite_num v then JNum v else JInt 2),
         (''body'', if is_object body then body else JObj [])])"

definition encodeFrame :: "jsval \<Rightarrow> jsval \<Rightarrow> jsval \<Rightarrow> jsval \<Rightarrow> string" where
  "encodeFrame fid ftype body version = JSON_stringify (frameObject fid ftype body version)"

definition decodeFrame :: "json_parser \<Rightarrow> octets \<Rightarrow> frame res" where
  "decodeFrame P raw =
     bind_r (case jp_parse P raw of
               Inr v \<Rightarrow> Inr v
             | Inl err \<Rightarrow>
                 if err_code err = jp_unsafe_key P
                 then Inl (JsErr (err_code err) (err_msg err) (assoc_set ''retryable'' (JBool False) (err_info err)))
                 else Inr JNull)
       (\<lambda>parsed.
         if \<not> is_object parsed
         then Inl (JsErr ''BAD_FRAME'' ''bad frame json'' [(''retryable'', JBool False)])
         else Inr
           \<lparr>fr_id = (case getp parsed ''id'' of JStr s \<Rightarrow> if s \<noteq> [] then Some s else None | _ \<Rightarrow> None),
            fr_type = (if trimmed (getp parsed ''type'') \<noteq> [] then trimmed (getp parsed ''type'')
                       else trimmed (getp parsed ''t'')),
            fr_version = getp parsed ''v'',
            fr_body = (if is_object (getp parsed ''body'') then getp parsed ''body'' else JObj [])\<rparr>)"

section \<open>The transport\<close>

datatype outcome = Rejected js_err | Resolved frame

record pending =
  pd_promise :: nat
  pd_expected :: "string option"

datatype tcp_event =
    Wrote octets
  | Settled nat outcome
  | FrameTo nat frame
  | StateTo nat jsval

record tcp =
  t_url :: string
  t_requestMs :: jnum
  t_keepAliveMs :: jnum
  t_maxFrameBytes :: int
  t_socket :: "bool option"
  t_seq :: nat
  t_pending :: "(string \<times> pending) list"
  t_timers :: "(string \<times> jnum) list"
  t_frameListeners :: "nat list"
  t_stateListeners :: "nat list"
  t_keepAliveTimer :: bool
  t_readBuffer :: octets
  t_connected :: bool
  t_out :: "tcp_event list"

definition asError :: "jsval \<Rightarrow> jsval \<Rightarrow> bool \<Rightarrow> js_err" where
  "asError code message retryable =
     JsErr (js_String (js_or code (JStr ''TRANSPORT_ERR'')))
       (js_String (js_or message (js_or code (JStr ''TRANSPORT_ERR''))))
       [(''retryable'', JBool retryable)]"

definition makeId :: "string \<Rightarrow> nat \<Rightarrow> nat \<Rightarrow> string" where
  "makeId pfx now seq = pfx @ '':'' @ show_nat now @ '':'' @ show_nat seq"

definition MAX_FRAME_BYTES_DEFAULT :: int where
  "MAX_FRAME_BYTES_DEFAULT = 8 * 1024 * 1024"

definition HEADER_SIZE :: nat where
  "HEADER_SIZE = 4"

definition finite_or :: "jsval \<Rightarrow> int \<Rightarrow> jnum" where
  "finite_or v d = (if isFinite_num (js_Number v) then js_Number v else Fin (of_int d))"

text \<open>\<open>Math.max(1024, Number(v) || default)\<close> as the bound of a byte count; an infinite bound
  exceeds every 32-bit length.\<close>

definition max_frame_of :: "jsval \<Rightarrow> int" where
  "max_frame_of v =
     (let n = js_Number (if v = JUndef then JInt MAX_FRAME_BYTES_DEFAULT else v)
      in max 1024 (if \<not> js_truthy (JNum n) then MAX_FRAME_BYTES_DEFAULT
                   else (case n of Fin q \<Rightarrow> \<lfloor>q\<rfloor> | PInf \<Rightarrow> 2 ^ 32 | _ \<Rightarrow> 0)))"

definition mk_tcp :: "jsval \<Rightarrow> jsval \<Rightarrow> jsval \<Rightarrow> jsval \<Rightarrow> jsval \<Rightarrow> tcp res" where
  "mk_tcp host port tls timeouts maxFrameBytes =
     (if \<not> js_truthy host then Inl (plain_err ''TcpTransport requires host'')
      else if \<not> js_truthy port then Inl (plain_err ''TcpTransport requires port'')
      else Inr
        \<lparr>t_url = (if js_truthy tls then ''tls'' else ''tcp'') @ ''://'' @ js_String host @ '':'' @ show_num (js_Number port),
         t_requestMs = finite_or (getp timeouts ''requestMs'') 8000,
         t_keepAliveMs = finite_or (getp timeouts ''keepAliveMs'') 30000,
         t_maxFrameBytes = max_frame_of maxFrameBytes,
         t_socket = None, t_seq = 0, t_pending = [], t_timers = [],
         t_frameListeners = [], t_stateListeners = [], t_keepAliveTimer = False,
         t_readBuffer = [], t_connected = False, t_out = []\<rparr>)"

definition out :: "tcp_event list \<Rightarrow> tcp \<Rightarrow> tcp" where
  "out evs st = st\<lparr>t_out := t_out st @ evs\<rparr>"

definition emitState :: "jsval \<Rightarrow> tcp \<Rightarrow> tcp" where
  "emitState payload st = out (map (\<lambda>l. StateTo l payload) (t_stateListeners st)) st"

definition state_js :: "string \<Rightarrow> tcp \<Rightarrow> (string \<times> jsval) list \<Rightarrow> jsval" where
  "state_js phase st extra = JObj ([(''phase'', JStr phase), (''url'', JStr (t_url st))] @ extra)"

definition isConnected :: "tcp \<Rightarrow> bool" where
  "isConnected st \<longleftrightarrow> t_connected st \<and> t_socket st = Some False"

definition stopKeepAlive :: "tcp \<Rightarrow> tcp" where
  "stopKeepAlive st = st\<lparr>t_keepAliveTimer := False\<rparr>"

definition startKeepAlive :: "tcp \<Rightarrow> tcp" where
  "startKeepAlive st =
     (if num_less (Fin 0) (t_keepAliveMs st) then (stopKeepAlive st)\<lparr>t_keepAliveTimer := True\<rparr> else st)"

text \<open>How an attempt to open the socket ends; \<open>t_socket\<close> holds whether the socket is destroyed.\<close>

datatype connect_outcome = Opened | ConnectTimeout | ConnectFailed string

definition tcp_connect :: "connect_outcome \<Rightarrow> tcp \<Rightarrow> unit res \<times> tcp" where
  "tcp_connect outcome st =
     (if isConnected st then (Inr (), st)
      else
        (let st1 = st\<lparr>t_socket := Some False\<rparr> in
         case outcome of
           Opened \<Rightarrow>
             (let st2 = emitState (state_js ''connected'' st1 []) (st1\<lparr>t_connected := True, t_readBuffer := []\<rparr>)
              in (Inr (), startKeepAlive st2))
         | ConnectTimeout \<Rightarrow>
             (Inl (asError (JStr ''CONNECT_TIMEOUT'') (JStr ''tcp connect timeout'') True), st1\<lparr>t_socket := Some True\<rparr>)
         | ConnectFailed msg \<Rightarrow>
             (Inl (asError (JStr ''CONNECT_FAILED'') (js_or (JStr msg) (JStr ''tcp connect failed'')) True), st1)))"

text \<open>Every pending request is rejected, its timer cleared, and the table emptied.\<close>

definition rejectAll :: "js_err \<Rightarrow> tcp \<Rightarrow> tcp" where
  "rejectAll err st =
     (let st1 = out (map (\<lambda>(k, e). Settled (pd_promise e) (Rejected err)) (t_pending st)) st
      in st1\<lparr>t_timers := filter (\<lambda>(k, ms). k \<notin> fst ` set (t_pending st)) (t_timers st), t_pending := []\<rparr>)"

definition tcp_close :: "tcp \<Rightarrow> tcp" where
  "tcp_close st =
     (let st1 = (stopKeepAlive st)\<lparr>t_connected := False\<rparr>;
          st2 = rejectAll (asError (JStr ''DISCONNECTED'') (JStr ''socket closed'') True) st1
      in st2\<lparr>t_socket := None, t_readBuffer := []\<rparr>)"

definition tcp_onClosed :: "string \<Rightarrow> tcp \<Rightarrow> tcp" where
  "tcp_onClosed reason st =
     (let st1 = (stopKeepAlive st)\<lparr>t_connected := False\<rparr>;
          st2 = rejectAll (asError (JStr ''DISCONNECTED'') (js_or (JStr reason) (JStr ''socket closed'')) True) st1
      in emitState (state_js ''disconnected'' st2 [(''reason'', js_or (JStr reason) JNull)]) st2)"

text \<open>\<open>writeFrame\<close>: the length does not fit the header, or the socket throws (\<open>fault\<close>), or the
  bytes are written.\<close>

definition writeFrame :: "string option \<Rightarrow> string \<Rightarrow> tcp \<Rightarrow> unit res \<times> tcp" where
  "writeFrame fault jsonStr st =
     (let payload = utf8_encode jsonStr in
      if int (length payload) \<ge> 2 ^ 32 then (Inl (plain_err ''The value of value is out of range''), st)
      else (case fault of
          Some msg \<Rightarrow> (Inl (plain_err msg), st)
        | None \<Rightarrow> (Inr (), out [Wrote (writeUInt32BE (word_of_nat (length payload)) @ payload)] st)))"

definition sendFrame :: "string option \<Rightarrow> jsval \<Rightarrow> jsval \<Rightarrow> jsval \<Rightarrow> jsval \<Rightarrow> tcp \<Rightarrow> unit res \<times> tcp" where
  "sendFrame fault fid ftype body version st =
     (if \<not> isConnected st
      then (Inl (asError (JStr ''DISCONNECTED'') (JStr ''socket not connected'') True), st)
      else writeFrame fault (encodeFrame fid ftype body version) st)"

text \<open>\<open>sendRequest\<close>: a synchronous refusal, or the number of the promise it returns. The promise
  may already be rejected when the write throws.\<close>

definition sendRequest ::
    "string option \<Rightarrow> nat \<Rightarrow> jsval \<Rightarrow> jsval \<Rightarrow> jsval \<Rightarrow> jsval \<Rightarrow> tcp \<Rightarrow> nat res \<times> tcp" where
  "sendRequest fault now type body expectedResponseType timeoutMs st =
     (let frameType = js_trim (str_or_empty type) in
      if \<not> isConnected st
        then (Inl (asError (JStr ''DISCONNECTED'') (JStr ''socket not connected'') True), st)
      else if frameType = []
        then (Inl (asError (JStr ''BAD_REQUEST'') (JStr ''type required'') False), st)
      else
        (let seq = Suc (t_seq st);
             rid = makeId frameType now seq;
             ms = (if timeoutMs \<noteq> JNull \<and> timeoutMs \<noteq> JUndef \<and> isFinite_num (js_Number timeoutMs)
                      \<and> num_less (Fin 0) (js_Number timeoutMs)
                   then js_Number timeoutMs else t_requestMs st);
             frameRaw = encodeFrame (JStr rid) (JStr frameType) body (JInt 1);
             entry = \<lparr>pd_promise = seq,
               pd_expected = (if js_truthy expectedResponseType then Some (js_String expectedResponseType) else None)\<rparr>;
             st1 = st\<lparr>t_seq := seq, t_timers := (rid, ms) # t_timers st,
                     t_pending := AList.update rid entry (t_pending st)\<rparr>
         in case writeFrame fault frameRaw st1 of
              (Inr u, st2) \<Rightarrow> (Inr seq, st2)
            | (Inl err, st2) \<Rightarrow>
                (Inr seq,
                 out [Settled seq (Rejected (asError (JStr ''SEND_FAILED'')
                        (js_or (JStr (err_msg err)) (JStr ''send failed'')) True))]
                   (st2\<lparr>t_timers := AList.delete rid (t_timers st2),
                        t_pending := AList.delete rid (t_pending st2)\<rparr>))))"

text \<open>The timer of a request fires, and is spent.\<close>

definition requestTimeout :: "string \<Rightarrow> string \<Rightarrow> tcp \<Rightarrow> tcp" where
  "requestTimeout rid frameType st =
     (let st1 = st\<lparr>t_timers := AList.delete rid (t_timers st)\<rparr> in
      case map_of (t_pending st1) rid of
        None \<Rightarrow> st1
      | Some entry \<Rightarrow>
          out [Settled (pd_promise entry) (Rejected (asError (JStr ''TIMEOUT'') (JStr (frameType @ '' timeout'')) True))]
            (st1\<lparr>t_pending := AList.delete rid (t_pending st1)\<rparr>))"

definition onFrame :: "nat \<Rightarrow> tcp \<Rightarrow> tcp" where
  "onFrame l st = st\<lparr>t_frameListeners := (if l \<in> set (t_frameListeners st) then t_frameListeners st
     else t_frameListeners st @ [l])\<rparr>"

definition offFrame :: "nat \<Rightarrow> tcp \<Rightarrow> tcp" where
  "offFrame l st = st\<lparr>t_frameListeners := filter (\<lambda>x. x \<noteq> l) (t_frameListeners st)\<rparr>"

definition onState :: "nat \<Rightarrow> tcp \<Rightarrow> tcp" where
  "onState l st = st\<lparr>t_stateListeners := (if l \<in> set (t_stateListeners st) then t_stateListeners st
     else t_stateListeners st @ [l])\<rparr>"

definition offState :: "nat \<Rightarrow> tcp \<Rightarrow> tcp" where
  "offState l st = st\<lparr>t_stateListeners := filter (\<lambda>x. x \<noteq> l) (t_stateListeners st)\<rparr>"

text \<open>The outcome of a response for its pending entry.\<close>

definition response_outcome :: "pending \<Rightarrow> frame \<Rightarrow> outcome" where
  "response_outcome entry fr =
     (if fr_type fr = ''error'' then
        Rejected (asError (JStr (js_String (js_or (getp (fr_body fr) ''code'') (JStr ''REMOTE_ERR''))))
          (js_or (getp (fr_body fr) ''message'') (JStr ''remote error''))
          (getp (fr_body fr) ''retryable'' = JBool True))
      else (case pd_expected entry of
          Some t \<Rightarrow>
            if t \<noteq> [] \<and> fr_type fr \<noteq> t
            then Rejected (asError (JStr ''BAD_RESPONSE'') (JStr (''unexpected response type: '' @ fr_type fr)) False)
            else Resolved fr
        | None \<Rightarrow> Resolved fr))"

definition processFrame :: "json_parser \<Rightarrow> octets \<Rightarrow> tcp \<Rightarrow> tcp" where
  "processFrame P raw st =
     (case decodeFrame P raw of
        Inl err \<Rightarrow>
          emitState (state_js ''warn'' st [(''reason'', js_or (JStr (err_msg err)) (JStr ''bad frame''))]) st
      | Inr fr \<Rightarrow>
          (case (case fr_id fr of None \<Rightarrow> None | Some i \<Rightarrow> map_option (Pair i) (map_of (t_pending st) i)) of
             Some (i, entry) \<Rightarrow>
               out [Settled (pd_promise entry) (response_outcome entry fr)]
                 (st\<lparr>t_pending := AList.delete i (t_pending st), t_timers := AList.delete i (t_timers st)\<rparr>)
           | None \<Rightarrow> out (map (\<lambda>l. FrameTo l fr) (t_frameListeners st)) st))"

lemma processFrame_buffer [simp]: "t_readBuffer (processFrame P raw st) = t_readBuffer st"
  by (simp add: processFrame_def emitState_def out_def split: sum.split option.split)

function onData_loop :: "json_parser \<Rightarrow> tcp \<Rightarrow> tcp" where
  "onData_loop P st =
     (if length (t_readBuffer st) < HEADER_SIZE then st
      else
        (let frameLen = unat (readUInt32BE (t_readBuffer st)) in
         if int frameLen > t_maxFrameBytes st
         then (emitState (state_js ''warn'' st [(''reason'', JStr ''frame too large'')]) st)\<lparr>t_readBuffer := []\<rparr>
         else if length (t_readBuffer st) < HEADER_SIZE + frameLen then st
         else
           (let payload = take frameLen (drop HEADER_SIZE (t_readBuffer st));
                st1 = st\<lparr>t_readBuffer := drop (HEADER_SIZE + frameLen) (t_readBuffer st)\<rparr>
            in onData_loop P (processFrame P payload st1))))"
  by pat_completeness auto

termination
  by (relation "measure (\<lambda>(P, st). length (t_readBuffer st))") (auto simp: HEADER_SIZE_def Let_def)

definition onData :: "json_parser \<Rightarrow> octets \<Rightarrow> tcp \<Rightarrow> tcp" where
  "onData P chunk st = onData_loop P (st\<lparr>t_readBuffer := t_readBuffer st @ chunk\<rparr>)"

definition sendKeepAlive :: "string option \<Rightarrow> nat \<Rightarrow> tcp \<Rightarrow> tcp" where
  "sendKeepAlive fault now st =
     (if \<not> isConnected st then st
      else (case writeFrame fault (encodeFrame (JStr (''ping:'' @ show_nat now)) (JStr ''ping'') (JObj []) (JInt 1)) st of
          (Inr u, st') \<Rightarrow> st'
        | (Inl err, st') \<Rightarrow> tcp_onClosed ''keep-alive send failed'' st'))"

end
