(* ===== verification/Tcp_Transport_Props.thy ===== *)
theory Tcp_Transport_Props
  imports Tcp_Transport "HOL-Library.Multiset"
begin

text \<open>
  What the TCP transport promises: the framing survives any chunking of the stream, a frame
  that was sent is the frame that is delivered, and every request is settled exactly once.
\<close>

section \<open>Framing\<close>

definition frame_bytes :: "octets \<Rightarrow> octets" where
  "frame_bytes p = writeUInt32BE (word_of_nat (length p)) @ p"

text \<open>A payload that the receiver accepts and whose length fits the header.\<close>

definition fits :: "tcp \<Rightarrow> octets \<Rightarrow> bool" where
  "fits st p \<longleftrightarrow> int (length p) \<le> t_maxFrameBytes st \<and> int (length p) < 2 ^ 32"

definition process_all :: "json_parser \<Rightarrow> tcp \<Rightarrow> octets list \<Rightarrow> tcp" where
  "process_all P st ps = foldl (\<lambda>s p. processFrame P p s) st ps"

lemma process_all_simps [simp]:
  "process_all P st [] = st"
  "process_all P st (p # ps) = process_all P (processFrame P p st) ps"
  "process_all P st (ps @ qs) = process_all P (process_all P st ps) qs"
  by (simp_all add: process_all_def)

lemma processFrame_max [simp]: "t_maxFrameBytes (processFrame P p st) = t_maxFrameBytes st"
  by (simp add: processFrame_def emitState_def out_def split: sum.split option.split)

lemma processFrame_buffer_update:
  "processFrame P p (st\<lparr>t_readBuffer := b\<rparr>) = (processFrame P p st)\<lparr>t_readBuffer := b\<rparr>"
  by (simp add: processFrame_def emitState_def out_def state_js_def split: sum.split option.split)

lemma process_all_max [simp]: "t_maxFrameBytes (process_all P st ps) = t_maxFrameBytes st"
  by (induction ps arbitrary: st) auto

lemma fits_processFrame [simp]: "fits (processFrame P p st) = fits st"
  by (simp add: fits_def fun_eq_iff)

lemma fits_process_all [simp]: "fits (process_all P st ps) = fits st"
  by (simp add: fits_def fun_eq_iff)

lemma fits_buffer [simp]: "fits (st\<lparr>t_readBuffer := b\<rparr>) = fits st"
  by (simp add: fits_def fun_eq_iff)

declare onData_loop.simps [simp del]

lemma length_frame_bytes [simp]: "length (frame_bytes p) = 4 + length p"
  by (simp add: frame_bytes_def)

lemma unat_header: "int (length p) < 2 ^ 32 \<Longrightarrow> unat (readUInt32BE (frame_bytes p)) = length p"
  by (simp add: frame_bytes_def unsigned_of_nat take_bit_nat_eq_self)

text \<open>A complete frame at the head of the buffer is processed.\<close>

lemma loop_frame:
  assumes "fits st p"
  shows "onData_loop P (st\<lparr>t_readBuffer := frame_bytes p @ r\<rparr>) =
    onData_loop P ((processFrame P p st)\<lparr>t_readBuffer := r\<rparr>)"
proof -
  have len: "unat (readUInt32BE (frame_bytes p)) = length p"
    using assms by (intro unat_header) (simp add: fits_def)
  have drop: "drop 4 (frame_bytes p) = p" by (simp add: frame_bytes_def)
  show ?thesis
    using assms
    by (subst onData_loop.simps)
       (simp add: len drop Let_def fits_def HEADER_SIZE_def processFrame_buffer_update)
qed

text \<open>A proper prefix of a frame that fits is kept for later.\<close>

lemma loop_wait:
  assumes "fits st p" "frame_bytes p = r @ s" "s \<noteq> []"
  shows "onData_loop P (st\<lparr>t_readBuffer := r\<rparr>) = st\<lparr>t_readBuffer := r\<rparr>"
proof (cases "length r < 4")
  case True
  then show ?thesis by (subst onData_loop.simps) (simp add: HEADER_SIZE_def)
next
  case False
  have "unat (readUInt32BE (frame_bytes p)) = length p"
    using assms(1) by (intro unat_header) (simp add: fits_def)
  then have len: "unat (readUInt32BE r) = length p"
    using assms(2) False by simp
  have "length r + length s = 4 + length p" using arg_cong [OF assms(2), of length] by simp
  then have "length r < 4 + length p" using assms(3) by (cases s) auto
  then show ?thesis
    using assms(1) False
    by (subst onData_loop.simps) (simp add: len HEADER_SIZE_def fits_def)
qed

definition stream :: "octets list \<Rightarrow> octets" where
  "stream ps = concat (map frame_bytes ps)"

lemma stream_simps [simp]:
  "stream [] = []" "stream (p # ps) = frame_bytes p @ stream ps" "stream (ps @ qs) = stream ps @ stream qs"
  by (simp_all add: stream_def)

text \<open>\<open>r\<close> holds no complete frame of the stream of \<open>ps\<close>.\<close>

definition incomplete :: "octets \<Rightarrow> octets list \<Rightarrow> bool" where
  "incomplete r ps \<longleftrightarrow> (case ps of [] \<Rightarrow> r = [] | p # qs \<Rightarrow> \<exists>s. frame_bytes p = r @ s \<and> s \<noteq> [])"

lemma split_long: "b @ rest = x @ y \<Longrightarrow> length x \<le> length b \<Longrightarrow> \<exists>b'. b = x @ b' \<and> b' @ rest = y"
  by (metis append_eq_append_conv_if append_take_drop_id)

lemma loop_stream:
  assumes "b @ rest = stream ps" "list_all (fits st) ps"
  shows "\<exists>ps1 ps2 r. ps = ps1 @ ps2 \<and> b = stream ps1 @ r \<and> incomplete r ps2 \<and>
    onData_loop P (st\<lparr>t_readBuffer := b\<rparr>) = (process_all P st ps1)\<lparr>t_readBuffer := r\<rparr>"
  using assms
proof (induction ps arbitrary: st b)
  case Nil
  then have "onData_loop P (st\<lparr>t_readBuffer := b\<rparr>) = st\<lparr>t_readBuffer := b\<rparr>"
    by (subst onData_loop.simps) (simp add: HEADER_SIZE_def)
  then show ?case using Nil by (intro exI [of _ "[]"]) (auto simp: incomplete_def)
next
  case (Cons p ps)
  show ?case
  proof (cases "length b < length (frame_bytes p)")
    case True
    obtain s where s: "frame_bytes p = b @ s"
      using Cons.prems(1) True by (auto simp: append_eq_append_conv2) metis
    with True have "s \<noteq> []" by auto
    note s = s this
    have "onData_loop P (st\<lparr>t_readBuffer := b\<rparr>) = st\<lparr>t_readBuffer := b\<rparr>"
      using Cons.prems(2) s by (intro loop_wait) auto
    then show ?thesis
      using s by (intro exI [of _ "[]"] exI [of _ "p # ps"] exI [of _ b]) (simp add: incomplete_def)
  next
    case False
    then obtain b' where b': "b = frame_bytes p @ b'" "b' @ rest = stream ps"
      using Cons.prems(1) split_long [of b rest "frame_bytes p" "stream ps"] by auto
    let ?st = "processFrame P p st"
    obtain ps1 ps2 r where "ps = ps1 @ ps2" "b' = stream ps1 @ r" "incomplete r ps2"
        "onData_loop P (?st\<lparr>t_readBuffer := b'\<rparr>) = (process_all P ?st ps1)\<lparr>t_readBuffer := r\<rparr>"
      using Cons.IH [OF b'(2), of ?st] Cons.prems(2) by auto
    moreover have "onData_loop P (st\<lparr>t_readBuffer := b\<rparr>) = onData_loop P (?st\<lparr>t_readBuffer := b'\<rparr>)"
      using Cons.prems(2) unfolding b' by (intro loop_frame) simp
    ultimately show ?thesis using b' by (intro exI [of _ "p # ps1"] exI [of _ ps2] exI [of _ r]) simp
  qed
qed

lemma chunks_stream:
  "incomplete r ps \<Longrightarrow> r @ concat chunks = stream ps \<Longrightarrow> list_all (fits st) ps \<Longrightarrow>
   foldl (\<lambda>s c. onData P c s) (st\<lparr>t_readBuffer := r\<rparr>) chunks = (process_all P st ps)\<lparr>t_readBuffer := []\<rparr>"
proof (induction chunks arbitrary: r ps st)
  case Nil
  then show ?case by (cases ps) (auto simp: incomplete_def)
next
  case (Cons c chunks)
  have "(r @ c) @ concat chunks = stream ps" using Cons.prems(2) by simp
  from loop_stream [OF this Cons.prems(3), of P]
  obtain ps1 ps2 r' where s: "ps = ps1 @ ps2" "r @ c = stream ps1 @ r'" "incomplete r' ps2"
    "onData_loop P (st\<lparr>t_readBuffer := r @ c\<rparr>) = (process_all P st ps1)\<lparr>t_readBuffer := r'\<rparr>"
    by blast
  have "stream ps1 @ r' @ concat chunks = stream ps1 @ stream ps2"
    using Cons.prems(2) s(1,2) by (metis append.assoc concat.simps(2) stream_simps(3))
  then have rest: "r' @ concat chunks = stream ps2" by simp
  have "onData P c (st\<lparr>t_readBuffer := r\<rparr>) = (process_all P st ps1)\<lparr>t_readBuffer := r'\<rparr>"
    using s(4) by (simp add: onData_def)
  then show ?case
    using Cons.IH [OF s(3) rest, of "process_all P st ps1"] Cons.prems(3) s(1) by simp
qed

lemma incomplete_Nil: "incomplete [] ps"
proof (cases ps)
  case (Cons p qs)
  have "frame_bytes p \<noteq> []" by (metis length_frame_bytes list.size(3) add_is_0 zero_neq_numeral)
  then show ?thesis using Cons by (simp add: incomplete_def)
qed (simp add: incomplete_def)

lemma chunks_processed:
  assumes "t_readBuffer st = []" and "list_all (fits st) payloads"
    and "concat chunks = stream payloads"
  shows "foldl (\<lambda>s c. onData P c s) st chunks = process_all P st payloads"
proof -
  have st: "st\<lparr>t_readBuffer := []\<rparr> = st" using assms(1) by simp
  have "t_readBuffer (process_all P st payloads) = []"
    using assms(1) by (induction payloads arbitrary: st) auto
  then have "(process_all P st payloads)\<lparr>t_readBuffer := []\<rparr> = process_all P st payloads" by simp
  then show ?thesis
    using chunks_stream [OF incomplete_Nil _ assms(2), of chunks P] assms(3) st by simp
qed

text \<open>C17. Framing survives chunking: when the peer writes any list of payloads, each one of at most the
  accepted size, and the network delivers the concatenated bytes in any chunks whatsoever
  (headers split, several frames in one chunk, empty chunks), the receiver processes exactly
  these payloads in this order and ends with an empty read buffer.\<close>

theorem framing_survives_chunking:
  assumes "t_readBuffer st = []" and "list_all (fits st) payloads"
    and "concat chunks = stream payloads"
  shows "foldl (\<lambda>s c. onData P c s) st chunks = process_all P st payloads"
  using assms by (rule chunks_processed)

section \<open>Requests\<close>

text \<open>The decimal of a number determines it.\<close>

lemma digits_val_snoc: "digits_val b (ds @ [c]) = digits_val b ds * b + digit_val c"
  by (simp add: digits_val_def)

lemma digit_val_char: "d < 10 \<Longrightarrow> digit_val (digit_char d) = d"
  by (simp add: digit_val_def digit_char_def Let_def)

lemma digits_val_show [simp]: "digits_val 10 (show_nat n) = n"
proof (induction n rule: show_nat.induct)
  case (1 n)
  then show ?case
    by (subst show_nat.simps) (auto simp: digits_val_snoc digit_val_char, simp add: digits_val_def digit_val_char)
qed

lemma show_nat_inj: "show_nat m = show_nat n \<Longrightarrow> m = n"
  by (metis digits_val_show)

lemma digit_char_not_colon: "d < 10 \<Longrightarrow> digit_char d \<noteq> CHR '':''"
proof
  assume "d < 10" "digit_char d = CHR '':''"
  then have "(of_char (digit_char d) :: nat) = 58" by simp
  then show False using \<open>d < 10\<close> by (simp add: digit_char_def)
qed

lemma show_nat_no_colon: "CHR '':'' \<notin> set (show_nat n)"
proof (induction n rule: show_nat.induct)
  case (1 n)
  then show ?case by (subst show_nat.simps) (auto simp: digit_char_not_colon [THEN not_sym])
qed

lemma split_last_colon:
  "xs @ '':'' @ a = ys @ '':'' @ b \<Longrightarrow> CHR '':'' \<notin> set a \<Longrightarrow> CHR '':'' \<notin> set b \<Longrightarrow> a = b"
proof -
  assume eq: "xs @ '':'' @ a = ys @ '':'' @ b" and no: "CHR '':'' \<notin> set a" "CHR '':'' \<notin> set b"
  have tw: "takeWhile (\<lambda>c. c \<noteq> CHR '':'') (rev (zs @ '':'' @ c)) = rev c" if "CHR '':'' \<notin> set c" for zs c
  proof -
    have "takeWhile (\<lambda>c. c \<noteq> CHR '':'') (rev c @ CHR '':'' # rev zs) = rev c"
      using that by (subst takeWhile_append2) auto
    then show ?thesis by simp
  qed
  then have "rev a = rev b" using no eq by metis
  then show ?thesis by simp
qed

lemma makeId_seq: "makeId t n s = makeId t' n' s' \<Longrightarrow> s = s'"
proof -
  assume "makeId t n s = makeId t' n' s'"
  then have "(t @ '':'' @ show_nat n) @ '':'' @ show_nat s = (t' @ '':'' @ show_nat n') @ '':'' @ show_nat s'"
    by (simp add: makeId_def)
  then have "show_nat s = show_nat s'" by (rule split_last_colon [OF _ show_nat_no_colon show_nat_no_colon])
  then show ?thesis by (rule show_nat_inj)
qed

text \<open>The promises settled so far, in order, and those of the pending table.\<close>

fun settled_in :: "tcp_event list \<Rightarrow> nat list" where
  "settled_in [] = []"
| "settled_in (Settled p x # es) = p # settled_in es"
| "settled_in (e # es) = settled_in es"

definition waiting :: "tcp \<Rightarrow> nat list" where
  "waiting st = map (\<lambda>(k, e). pd_promise e) (t_pending st)"

lemma settled_in_append [simp]: "settled_in (es @ fs) = settled_in es @ settled_in fs"
  by (induction es rule: settled_in.induct) auto

lemma settled_in_StateTo [simp]: "settled_in (map (\<lambda>l. StateTo l x) ls) = []"
  by (induction ls) auto

lemma settled_in_FrameTo [simp]: "settled_in (map (\<lambda>l. FrameTo l x) ls) = []"
  by (induction ls) auto

text \<open>Every step of the transport and of its environment.\<close>

inductive tcp_step :: "json_parser \<Rightarrow> tcp \<Rightarrow> tcp \<Rightarrow> bool" for P where
  step_connect: "tcp_step P st (snd (tcp_connect outcome st))"
| step_close: "tcp_step P st (tcp_close st)"
| step_closed: "tcp_step P st (tcp_onClosed reason st)"
| step_error: "tcp_step P st (emitState (state_js ''error'' st [(''reason'', reason)]) st)"
| step_data: "tcp_step P st (onData P chunk st)"
| step_send: "tcp_step P st (snd (sendFrame fault fid ftype body version st))"
| step_request: "tcp_step P st (snd (sendRequest fault now type body expected timeoutMs st))"
| step_timeout: "tcp_step P st (requestTimeout rid ftype st)"
| step_keepAlive: "tcp_step P st (sendKeepAlive fault now st)"
| step_onFrame: "tcp_step P st (onFrame l st)"
| step_offFrame: "tcp_step P st (offFrame l st)"
| step_onState: "tcp_step P st (onState l st)"
| step_offState: "tcp_step P st (offState l st)"

definition issued :: "nat \<Rightarrow> nat multiset" where
  "issued n = mset [1..<Suc n]"

lemma issued_Suc: "issued (Suc n) = add_mset (Suc n) (issued n)"
  by (simp add: issued_def)

lemma in_issued [simp]: "k \<in># issued n \<longleftrightarrow> 1 \<le> k \<and> k \<le> n"
  by (auto simp: issued_def)

lemma issued_0 [simp]: "issued 0 = {#}"
  by (simp add: issued_def)

text \<open>The accounting of requests: numbers \<open>1, ..., t_seq\<close> have been given out, and each of them
  is either waiting or settled, exactly once.\<close>

definition accounted :: "tcp \<Rightarrow> bool" where
  "accounted st \<longleftrightarrow> mset (settled_in (t_out st)) + mset (waiting st) = issued (t_seq st)
     \<and> distinct (map fst (t_pending st))
     \<and> (\<forall>(k, e)\<in>set (t_pending st). \<exists>t now. k = makeId t now (pd_promise e))"

lemma accounted_inert:
  "accounted st \<Longrightarrow> t_seq st' = t_seq st \<Longrightarrow> t_pending st' = t_pending st \<Longrightarrow>
   settled_in (t_out st') = settled_in (t_out st) \<Longrightarrow> accounted st'"
  by (simp add: accounted_def waiting_def)

lemma mset_delete:
  "distinct (map fst xs) \<Longrightarrow> map_of xs k = Some e \<Longrightarrow>
   mset (map f xs) = add_mset (f (k, e)) (mset (map f (AList.delete k xs)))"
proof (induction xs)
  case (Cons x xs)
  show ?case
  proof (cases "fst x = k")
    case True
    then have "AList.delete k xs = xs" using Cons.prems by (intro delete_id) (auto simp: image_iff)
    then show ?thesis using True Cons.prems by (cases x) auto
  next
    case False
    then show ?thesis using Cons by (cases x) auto
  qed
qed simp

lemma accounted_settle:
  assumes "accounted st" "map_of (t_pending st) k = Some e"
    and "t_seq st' = t_seq st" "t_pending st' = AList.delete k (t_pending st)"
    and "settled_in (t_out st') = settled_in (t_out st) @ [pd_promise e]"
  shows "accounted st'"
proof -
  have d: "distinct (map fst (t_pending st))" using assms(1) by (simp add: accounted_def)
  have "mset (waiting st) = add_mset (pd_promise e) (mset (waiting st'))"
    using mset_delete [OF d assms(2), of "\<lambda>(k, e). pd_promise e"] assms(4) by (simp add: waiting_def)
  moreover have "set (AList.delete k (t_pending st)) \<subseteq> set (t_pending st)"
    by (auto simp: AList.delete_eq)
  ultimately show ?thesis
    using assms d by (auto simp: accounted_def distinct_delete)
qed

lemma accounted_rejectAll:
  assumes "accounted st"
  shows "accounted (rejectAll err st)"
proof -
  have eq: "settled_in (map (\<lambda>(k, e). Settled (pd_promise e) x) ps) = map (\<lambda>(k, e). pd_promise e) ps"
    for ps :: "(string \<times> pending) list" and x
    by (induction ps) auto
  show ?thesis
    using assms by (simp add: accounted_def rejectAll_def out_def waiting_def Let_def eq)
qed

lemmas inert_simps = emitState_def out_def stopKeepAlive_def startKeepAlive_def onFrame_def offFrame_def
  onState_def offState_def writeFrame_def Let_def

lemma accounted_close: "accounted st \<Longrightarrow> accounted (tcp_close st)"
  unfolding tcp_close_def Let_def
  by (rule accounted_inert [OF accounted_rejectAll [OF accounted_inert [of st]]]) (simp_all add: stopKeepAlive_def)

lemma accounted_onClosed: "accounted st \<Longrightarrow> accounted (tcp_onClosed reason st)"
  unfolding tcp_onClosed_def Let_def
  by (rule accounted_inert [OF accounted_rejectAll [OF accounted_inert [of st]]])
     (simp_all add: stopKeepAlive_def emitState_def out_def)

lemma accounted_processFrame:
  assumes "accounted st"
  shows "accounted (processFrame P raw st)"
proof (cases "\<exists>fr i e. decodeFrame P raw = Inr fr \<and> fr_id fr = Some i \<and> map_of (t_pending st) i = Some e")
  case True
  then obtain fr i e where fr: "decodeFrame P raw = Inr fr" "fr_id fr = Some i" "map_of (t_pending st) i = Some e"
    by blast
  show ?thesis
    by (rule accounted_settle [OF assms fr(3)]) (simp_all add: processFrame_def fr out_def)
next
  case False
  then show ?thesis
    by (intro accounted_inert [OF assms])
       (auto simp: processFrame_def inert_simps split: sum.splits option.splits)
qed

lemma accounted_onData_loop: "accounted st \<Longrightarrow> accounted (onData_loop P st)"
proof (induction P st rule: onData_loop.induct)
  case (1 P st)
  show ?case
  proof (cases "length (t_readBuffer st) < HEADER_SIZE \<or> t_maxFrameBytes st < int (unat (readUInt32BE (t_readBuffer st)))
      \<or> length (t_readBuffer st) < HEADER_SIZE + unat (readUInt32BE (t_readBuffer st))")
    case True
    then show ?thesis
      by (intro accounted_inert [OF "1.prems"]) (auto simp: onData_loop.simps [of P st] inert_simps)
  next
    case False
    then have "accounted (processFrame P (take (unat (readUInt32BE (t_readBuffer st))) (drop HEADER_SIZE (t_readBuffer st)))
        (st\<lparr>t_readBuffer := drop (HEADER_SIZE + unat (readUInt32BE (t_readBuffer st))) (t_readBuffer st)\<rparr>))"
      by (intro accounted_processFrame accounted_inert [OF "1.prems"]) simp_all
    then show ?thesis using False "1.IH" by (simp add: onData_loop.simps [of P st] Let_def)
  qed
qed

lemma accounted_onData: "accounted st \<Longrightarrow> accounted (onData P chunk st)"
  unfolding onData_def by (intro accounted_onData_loop) (auto intro: accounted_inert)

lemma fresh_id:
  assumes "accounted st"
  shows "map_of (t_pending st) (makeId t now (Suc (t_seq st))) = None"
proof (rule ccontr)
  assume "map_of (t_pending st) (makeId t now (Suc (t_seq st))) \<noteq> None"
  then obtain e where e: "(makeId t now (Suc (t_seq st)), e) \<in> set (t_pending st)"
    by (auto dest: map_of_SomeD)
  then have "pd_promise e = Suc (t_seq st)"
    using assms by (fastforce simp: accounted_def dest: makeId_seq)
  then have "Suc (t_seq st) \<in># mset (settled_in (t_out st)) + mset (waiting st)"
    using e by (force simp: waiting_def)
  then have "Suc (t_seq st) \<in># issued (t_seq st)"
    using assms by (simp only: accounted_def)
  then show False by simp
qed

lemma accounted_request:
  assumes "accounted st"
  shows "accounted (snd (sendRequest fault now type body expected timeoutMs st))"
proof (cases "isConnected st \<and> js_trim (str_or_empty type) \<noteq> []")
  case False
  then show ?thesis using assms by (auto simp: sendRequest_def Let_def)
next
  case True
  let ?t = "js_trim (str_or_empty type)"
  let ?rid = "makeId ?t now (Suc (t_seq st))"
  note fresh = fresh_id [OF assms, of ?t now]
  have up: "AList.update ?rid e (t_pending st) = t_pending st @ [(?rid, e)]" for e
    using fresh by (rule update_new)
  have del: "AList.delete ?rid (t_pending st @ [(?rid, e)]) = t_pending st" for e
    using delete_restore [OF fresh, of e] by (simp add: up)
  have fk: "?rid \<notin> fst ` set (t_pending st)" using fresh by (simp add: map_of_eq_None_iff)
  show ?thesis
    using True assms fk
    by (auto simp: sendRequest_def Let_def writeFrame_def accounted_def waiting_def out_def up del issued_Suc
        split: option.split)
qed

lemma accounted_timeout: "accounted st \<Longrightarrow> accounted (requestTimeout rid t st)"
  by (cases "map_of (t_pending st) rid")
     (auto simp: requestTimeout_def Let_def out_def intro: accounted_inert accounted_settle)

lemma accounted_step: "tcp_step P st st' \<Longrightarrow> accounted st \<Longrightarrow> accounted st'"
proof (induction rule: tcp_step.induct)
  case (step_connect st outcome)
  then show ?case
    by (cases outcome) (auto simp: tcp_connect_def inert_simps intro: accounted_inert)
next
  case (step_keepAlive st fault now)
  then show ?case
    by (auto simp: sendKeepAlive_def writeFrame_def Let_def out_def split: option.split
        intro: accounted_inert accounted_onClosed)
next
  case (step_send st fault fid ftype body version)
  then show ?case
    by (auto simp: sendFrame_def writeFrame_def Let_def out_def split: option.split intro: accounted_inert)
qed (auto simp: inert_simps intro: accounted_inert accounted_close accounted_onClosed accounted_onData
      accounted_request accounted_timeout)

lemma accounted_steps: "(tcp_step P)\<^sup>*\<^sup>* st st' \<Longrightarrow> accounted st \<Longrightarrow> accounted st'"
  by (induction rule: rtranclp_induct) (auto intro: accounted_step)

lemma accounted_new: "mk_tcp host port tls timeouts maxFrameBytes = Inr st \<Longrightarrow> accounted st"
  by (auto simp: mk_tcp_def accounted_def waiting_def split: if_splits)

lemma issued_eq: "issued n = mset_set {1..n}"
  by (simp add: issued_def atLeastLessThanSuc_atLeastAtMost del: upt_Suc)

lemma accounted_exactly_once:
  assumes "accounted st"
  shows "distinct (settled_in (t_out st) @ waiting st) \<and> set (settled_in (t_out st) @ waiting st) = {1..t_seq st}"
proof -
  have eq: "mset (settled_in (t_out st) @ waiting st) = mset_set {1..t_seq st}"
    using assms by (simp add: accounted_def issued_eq)
  then have "set (settled_in (t_out st) @ waiting st) = {1..t_seq st}"
    by (metis finite_atLeastAtMost finite_set_mset_mset_set set_mset_mset)
  moreover have "distinct (settled_in (t_out st) @ waiting st)"
    using eq calculation by (metis distinct_count_atmost_1 count_mset_set(1) count_mset_set(3) finite_atLeastAtMost)
  ultimately show ?thesis by blast
qed

text \<open>C13. Every request is answered exactly once. In every state the transport can reach, by any
  interleaving of requests, chunks of data, time-outs, failed writes, connects and closes, the
  numbers of the requests made so far are split between those settled and those pending, none is
  settled twice, and closing the transport settles every one that was left.\<close>

theorem requests_settle_exactly_once:
  assumes "mk_tcp host port tls timeouts maxFrameBytes = Inr st0" and "(tcp_step P)\<^sup>*\<^sup>* st0 st"
  shows "distinct (settled_in (t_out st) @ waiting st)
    \<and> set (settled_in (t_out st) @ waiting st) = {1..t_seq st}
    \<and> (\<forall>st' reason. st' = tcp_close st \<or> st' = tcp_onClosed reason st \<longrightarrow>
         distinct (settled_in (t_out st')) \<and> set (settled_in (t_out st')) = {1..t_seq st})"
proof -
  have acc: "accounted st" using assms by (blast intro: accounted_steps accounted_new)
  have "distinct (settled_in (t_out st')) \<and> set (settled_in (t_out st')) = {1..t_seq st}"
    if st': "st' = tcp_close st \<or> st' = tcp_onClosed reason st" for st' reason
  proof -
    have "accounted st'" using acc accounted_close accounted_onClosed st' by blast
    moreover have "t_pending st' = [] \<and> t_seq st' = t_seq st"
      using st' by (auto simp: tcp_close_def tcp_onClosed_def rejectAll_def inert_simps)
    ultimately show ?thesis
      using accounted_exactly_once [of st'] by (simp add: waiting_def)
  qed
  then show ?thesis using accounted_exactly_once [OF acc] by blast
qed

section \<open>A frame from end to end\<close>

text \<open>The frame that a well-formed call of \<open>sendFrame\<close> means.\<close>

definition meant_frame :: "string \<Rightarrow> string \<Rightarrow> jsval \<Rightarrow> int \<Rightarrow> frame" where
  "meant_frame fid ftype body version =
     \<lparr>fr_id = Some fid, fr_type = ftype, fr_version = JInt version, fr_body = body\<rparr>"

lemma decode_encode:
  assumes "jp_parse P raw = Inr (frameObject (JStr fid) (JStr ftype) body (JInt version))"
    and "fid \<noteq> []" "ftype \<noteq> []" "js_trim ftype = ftype" "is_object body"
  shows "decodeFrame P raw = Inr (meant_frame fid ftype body version)"
  using assms by (simp add: decodeFrame_def frameObject_def meant_frame_def str_or_empty_def js_or_def Let_def)

text \<open>A sent frame arrives. When a connected transport sends a frame and the receiving
  transport is given the written bytes in any chunks, every frame listener of the receiver gets
  exactly that frame, once, and nothing else changes; all that is asked is that the JSON parser
  reads back this frame's own text, that the frame is not larger than the receiver accepts, and
  that its id is not the id of a request the receiver itself has pending.\<close>

theorem sent_frame_is_delivered:
  assumes "isConnected s" and "t_readBuffer r = []"
    and "fid \<noteq> []" and "ftype \<noteq> []" and "js_trim ftype = ftype" and "is_object body"
    and "map_of (t_pending r) fid = None"
    and "fits r (utf8_encode (encodeFrame (JStr fid) (JStr ftype) body (JInt version)))"
    and "jp_parse P (utf8_encode (encodeFrame (JStr fid) (JStr ftype) body (JInt version)))
           = Inr (frameObject (JStr fid) (JStr ftype) body (JInt version))"
  shows "\<exists>bs. sendFrame None (JStr fid) (JStr ftype) body (JInt version) s = (Inr (), s\<lparr>t_out := t_out s @ [Wrote bs]\<rparr>)
    \<and> (\<forall>chunks. concat chunks = bs \<longrightarrow> foldl (\<lambda>st c. onData P c st) r chunks =
         r\<lparr>t_out := t_out r @ map (\<lambda>l. FrameTo l (meant_frame fid ftype body version)) (t_frameListeners r)\<rparr>)"
proof -
  let ?raw = "utf8_encode (encodeFrame (JStr fid) (JStr ftype) body (JInt version))"
  have dec: "decodeFrame P ?raw = Inr (meant_frame fid ftype body version)"
    using assms(3-6,9) by (rule decode_encode [rotated 1])
  have send: "sendFrame None (JStr fid) (JStr ftype) body (JInt version) s
      = (Inr (), s\<lparr>t_out := t_out s @ [Wrote (frame_bytes ?raw)]\<rparr>)"
    using assms(1,8) by (simp add: sendFrame_def writeFrame_def Let_def out_def frame_bytes_def fits_def)
  have recv: "foldl (\<lambda>st c. onData P c st) r chunks =
      r\<lparr>t_out := t_out r @ map (\<lambda>l. FrameTo l (meant_frame fid ftype body version)) (t_frameListeners r)\<rparr>"
    if "concat chunks = frame_bytes ?raw" for chunks
  proof -
    have "foldl (\<lambda>st c. onData P c st) r chunks = process_all P r [?raw]"
      using assms(2,8) that by (intro chunks_processed) simp_all
    then show ?thesis
      using assms(7) by (simp add: processFrame_def dec meant_frame_def out_def)
  qed
  show ?thesis using send recv by blast
qed

section \<open>Examples\<close>

text \<open>A parser that knows one text, the text of the frame it is asked to read.\<close>

definition demo_body :: jsval where
  "demo_body = JObj [(''n'', JInt 1)]"

definition demo_text :: octets where
  "demo_text = utf8_encode (encodeFrame (JStr ''a:1'') (JStr ''echo'') demo_body (JInt 1))"

definition demo_parser :: json_parser where
  "demo_parser = \<lparr>jp_parse = (\<lambda>raw. if raw = demo_text
       then Inr (frameObject (JStr ''a:1'') (JStr ''echo'') demo_body (JInt 1)) else Inl (plain_err ''bad json'')),
     jp_unsafe_key = ''UNSAFE_JSON_KEY''\<rparr>"

definition demo_tcp :: tcp where
  "demo_tcp = (case mk_tcp (JStr ''relay'') (JInt 7) (JBool False) (JObj []) JUndef of Inr st \<Rightarrow> onFrame 1 st)"

definition demo_tcp_up :: tcp where
  "demo_tcp_up = snd (tcp_connect Opened demo_tcp)"

theorem framing_survives_chunking_witness:
  "foldl (\<lambda>s c. onData demo_parser c s) demo_tcp [[0, 0], [0, 2, 65], [66, 0, 0, 0, 1, 67]]
     = process_all demo_parser demo_tcp [[65, 66], [67]]"
proof (rule framing_survives_chunking)
  show "t_readBuffer demo_tcp = []" by code_simp
  show "list_all (fits demo_tcp) [[65, 66], [67]]" by code_simp
  show "concat [[0, 0], [0, 2, 65], [66, 0, 0, 0, 1, 67]] = stream [[65, 66], [67]]" by code_simp
qed

theorem sent_frame_is_delivered_witness:
  "\<exists>bs. sendFrame None (JStr ''a:1'') (JStr ''echo'') demo_body (JInt 1) demo_tcp_up
       = (Inr (), demo_tcp_up\<lparr>t_out := t_out demo_tcp_up @ [Wrote bs]\<rparr>)
    \<and> foldl (\<lambda>st c. onData demo_parser c st) demo_tcp [take 3 bs, drop 3 bs] =
         demo_tcp\<lparr>t_out := t_out demo_tcp @ map (\<lambda>l. FrameTo l (meant_frame ''a:1'' ''echo'' demo_body 1)) (t_frameListeners demo_tcp)\<rparr>"
proof -
  have h: "isConnected demo_tcp_up" "t_readBuffer demo_tcp = []" "''a:1'' \<noteq> []" "''echo'' \<noteq> []"
      "js_trim ''echo'' = ''echo''" "is_object demo_body" "map_of (t_pending demo_tcp) ''a:1'' = None"
    by code_simp+
  have f: "fits demo_tcp (utf8_encode (encodeFrame (JStr ''a:1'') (JStr ''echo'') demo_body (JInt 1)))"
    by code_simp
  have p: "jp_parse demo_parser (utf8_encode (encodeFrame (JStr ''a:1'') (JStr ''echo'') demo_body (JInt 1)))
      = Inr (frameObject (JStr ''a:1'') (JStr ''echo'') demo_body (JInt 1))"
    by (simp add: demo_parser_def demo_text_def)
  show ?thesis
    using sent_frame_is_delivered [OF h f p] by (metis append_Nil2 append_take_drop_id concat.simps)
qed

definition demo_asked :: tcp where
  "demo_asked = snd (sendRequest None 5 (JStr ''echo'') demo_body JNull JNull demo_tcp_up)"

theorem requests_settle_exactly_once_witness:
  "waiting demo_asked = [1] \<and> set (settled_in (t_out (tcp_close demo_asked))) = {1}"
proof -
  obtain st0 where new: "mk_tcp (JStr ''relay'') (JInt 7) (JBool False) (JObj []) JUndef = Inr st0"
    by (simp add: mk_tcp_def)
  have "tcp_step demo_parser st0 demo_tcp"
    unfolding demo_tcp_def new by (simp add: step_onFrame)
  moreover have "tcp_step demo_parser demo_tcp demo_tcp_up"
    unfolding demo_tcp_up_def by (rule step_connect)
  moreover have "tcp_step demo_parser demo_tcp_up demo_asked"
    unfolding demo_asked_def by (rule step_request)
  ultimately have steps: "(tcp_step demo_parser)\<^sup>*\<^sup>* st0 demo_asked" by auto
  have "t_seq demo_asked = 1" "waiting demo_asked = [1]" by code_simp+
  then show ?thesis
    using requests_settle_exactly_once [OF new steps] by auto
qed

end
