(* ===== verification/Connection.thy ===== *)
theory Connection
  imports Js_Prelude
begin

text \<open>
  The connection state machine, \<open>connection/ConnectionStateMachine.js\<close>: the lifecycle of one
  transport connection with reconnects. The methods are asynchronous, so the model is a step
  relation: a call of \<open>connect\<close> is a token that waits at one of its \<open>await\<close>s, several calls
  may be in flight, and the disconnects of the transport, the reconnect timer and
  \<open>disconnect\<close> interleave with them freely. The event bus is the log \<open>cs_log\<close>.

  The transport and the authentication machine are the environment: each wait ends with
  success or with an error message.

  Events are emitted synchronously, so a listener of \<open>TRANSPORT_RECONNECTING\<close> may call \<open>connect\<close> or
  \<open>disconnect\<close> before the reconnect timer is set: \<open>cs_setTimer\<close> marks the machine between the emission
  and \<open>setTimeout\<close>, and only such calls happen there. A listener of \<open>CONNECTION_STATE_CHANGED\<close> is taken
  to make its calls when the synchronous step that emitted the event has ended.
\<close>

section \<open>Reconnect back-off\<close>

fun num_max :: "jnum \<Rightarrow> jnum \<Rightarrow> jnum" where
  "num_max (Fin a) (Fin b) = Fin (max a b)"
| "num_max NaN b = NaN"
| "num_max a NaN = NaN"
| "num_max PInf b = PInf"
| "num_max a PInf = PInf"
| "num_max NInf b = b"
| "num_max a NInf = a"

fun num_min :: "jnum \<Rightarrow> jnum \<Rightarrow> jnum" where
  "num_min (Fin a) (Fin b) = Fin (min a b)"
| "num_min NaN b = NaN"
| "num_min a NaN = NaN"
| "num_min NInf b = NInf"
| "num_min a NInf = NInf"
| "num_min PInf b = b"
| "num_min a PInf = a"

text \<open>Multiplication with a positive finite factor.\<close>

fun num_scale :: "jnum \<Rightarrow> rat \<Rightarrow> jnum" where
  "num_scale (Fin a) q = Fin (a * q)"
| "num_scale n q = n"

definition num_or :: "jnum \<Rightarrow> int \<Rightarrow> jnum" where
  "num_or n d = (if js_truthy (JNum n) then n else Fin (of_int d))"

text \<open>\<open>Math.max(1000, Number(v) || 2000)\<close> and \<open>Math.max(5000, Number(v) || 60_000)\<close>.\<close>

definition backoff_base :: "jsval \<Rightarrow> jnum" where
  "backoff_base v = num_max (Fin 1000) (num_or (js_Number v) 2000)"

definition backoff_cap :: "jsval \<Rightarrow> jnum" where
  "backoff_cap v = num_max (Fin 5000) (num_or (js_Number v) 60000)"

definition backoffDelay :: "jnum \<Rightarrow> jnum \<Rightarrow> nat \<Rightarrow> rat \<Rightarrow> jnum" where
  "backoffDelay base cap attempt jitter = num_min cap (num_scale (num_scale base (2 ^ (attempt - 1))) jitter)"

text \<open>
  The contract of an exponential back-off, shared by the connection machine and the uplink
  pool: the delay never exceeds the cap, and it never falls below half of the floor.
\<close>

locale backoff =
  fixes base cap :: jnum
  assumes base_floor: "num_le (Fin 1000) base"
    and cap_floor: "num_le (Fin 5000) cap"
begin

lemma delay_le_cap: "num_le (backoffDelay base cap attempt jitter) cap"
  using base_floor cap_floor unfolding backoffDelay_def
  by (cases base; cases cap) (auto simp: num_le_def)

lemma delay_ge_half:
  assumes "1 / 2 \<le> jitter"
  shows "num_le (Fin 500) (backoffDelay base cap attempt jitter)"
proof -
  have "500 \<le> a * 2 ^ n * jitter" if "1000 \<le> a" for a :: rat and n :: nat
  proof -
    have "(1::rat) \<le> 2 ^ n" by simp
    then have "1000 * 1 \<le> a * 2 ^ n" using that by (intro mult_mono) auto
    then have "1000 * (1 / 2) \<le> (a * 2 ^ n) * jitter" using assms by (intro mult_mono) auto
    then show ?thesis by simp
  qed
  then show ?thesis
    using base_floor cap_floor unfolding backoffDelay_def
    by (cases base; cases cap) (auto simp: num_le_def min_def not_le order_le_less)
qed

end

lemma num_max_floor: "a \<noteq> NaN \<Longrightarrow> num_le (Fin c) (num_max (Fin c) a)"
  by (cases a) (auto simp: num_le_def)

lemma num_or_not_NaN: "num_or n d \<noteq> NaN"
  by (cases n) (auto simp: num_or_def)

interpretation bo: backoff "backoff_base v" "backoff_cap w" for v w
  by unfold_locales (simp_all add: backoff_base_def backoff_cap_def num_max_floor num_or_not_NaN)

section \<open>The machine\<close>

datatype conn_state = DISCONNECTED | CONNECTING | AUTHENTICATING | CONNECTED | RECONNECTING | FAILED

datatype conn_event =
    StateChanged conn_state conn_state "(string \<times> jsval) list"
  | Reconnecting nat jnum
  | Reconnected

text \<open>Who called \<open>connect\<close>, and the \<open>await\<close> at which a call stands.\<close>

datatype origin = User | Timer

datatype conn_pc =
    AwaitClose origin
  | AwaitOpen origin
  | AwaitAuth origin
  | AwaitDisconnect

record csm =
  cs_enabled :: bool
  cs_backoffMs :: jsval
  cs_backoffCapMs :: jsval
  cs_maxAttempts :: jnum
  cs_state :: conn_state
  cs_timer :: "jnum option"
  cs_setTimer :: "jnum option"
  cs_attempts :: nat
  cs_closed :: bool
  cs_subscribed :: bool
  cs_calls :: "conn_pc list"
  cs_log :: "conn_event list"

definition mk_csm :: "bool \<Rightarrow> bool \<Rightarrow> bool \<Rightarrow> jsval \<Rightarrow> csm res" where
  "mk_csm transport eventBus authMachine reconnect =
     (if \<not> transport then Inl (plain_err ''ConnectionStateMachine requires transport'')
      else if \<not> eventBus then Inl (plain_err ''ConnectionStateMachine requires eventBus'')
      else if \<not> authMachine then Inl (plain_err ''ConnectionStateMachine requires authMachine'')
      else Inr
        \<lparr>cs_enabled = (getp reconnect ''enabled'' \<noteq> JBool False),
         cs_backoffMs = getp reconnect ''backoffMs'',
         cs_backoffCapMs = getp reconnect ''backoffCapMs'',
         cs_maxAttempts = (let n = js_Number (getp reconnect ''maxAttempts'') in if isFinite_num n then n else PInf),
         cs_state = DISCONNECTED, cs_timer = None, cs_setTimer = None, cs_attempts = 0, cs_closed = False,
         cs_subscribed = False, cs_calls = [], cs_log = []\<rparr>)"

definition transition :: "conn_state \<Rightarrow> (string \<times> jsval) list \<Rightarrow> csm \<Rightarrow> csm" where
  "transition newState detail st =
     (if cs_state st = newState then st
      else st\<lparr>cs_state := newState, cs_log := cs_log st @ [StateChanged (cs_state st) newState detail]\<rparr>)"

definition stopReconnectTimer :: "csm \<Rightarrow> csm" where
  "stopReconnectTimer st = st\<lparr>cs_timer := None\<rparr>"

definition round_num :: "jnum \<Rightarrow> jnum" where
  "round_num n = (case n of Fin q \<Rightarrow> Fin (of_int \<lfloor>q + 1 / 2\<rfloor>) | _ \<Rightarrow> n)"

text \<open>\<open>scheduleReconnect\<close> up to the emission of \<open>TRANSPORT_RECONNECTING\<close>; \<open>rnd\<close> is the value of
  \<open>Math.random()\<close>.\<close>

definition scheduleReconnect :: "rat \<Rightarrow> csm \<Rightarrow> csm" where
  "scheduleReconnect rnd st =
     (if cs_closed st \<or> cs_timer st \<noteq> None then st
      else
        (let st1 = st\<lparr>cs_attempts := cs_attempts st + 1\<rparr> in
         if num_less (cs_maxAttempts st1) (Fin (of_nat (cs_attempts st1)))
         then transition FAILED [(''reason'', JStr ''max reconnect attempts'')] st1
         else
           (let jitter = 1 / 2 + rnd;
                delayMs = backoffDelay (backoff_base (cs_backoffMs st1)) (backoff_cap (cs_backoffCapMs st1))
                  (cs_attempts st1) jitter
            in st1\<lparr>cs_log := cs_log st1 @ [Reconnecting (cs_attempts st1) (round_num delayMs)],
                   cs_setTimer := Some delayMs\<rparr>)))"

text \<open>After the listeners have returned: \<open>setTimeout\<close>.\<close>

definition setReconnectTimer :: "csm \<Rightarrow> csm" where
  "setReconnectTimer st = st\<lparr>cs_timer := cs_setTimer st, cs_setTimer := None\<rparr>"

definition onTransportDisconnect :: "rat \<Rightarrow> jsval \<Rightarrow> csm \<Rightarrow> csm" where
  "onTransportDisconnect rnd reason st =
     (if cs_closed st then st
      else if cs_state st = DISCONNECTED then st
      else if cs_state st = RECONNECTING then st
      else if \<not> cs_enabled st then transition FAILED [(''reason'', reason)] st
      else scheduleReconnect rnd (transition RECONNECTING [(''reason'', reason)] st))"

text \<open>\<open>connect\<close> up to its first \<open>await\<close>.\<close>

definition connect_start :: "origin \<Rightarrow> csm \<Rightarrow> csm" where
  "connect_start orig st =
     (let st1 = transition CONNECTING [] (stopReconnectTimer (st\<lparr>cs_closed := False\<rparr>))
      in st1\<lparr>cs_calls := cs_calls st1 @ [AwaitClose orig]\<rparr>)"

text \<open>After \<open>await transport.close()\<close>: resubscribe, open.\<close>

definition connect_closed :: "origin \<Rightarrow> csm \<Rightarrow> csm" where
  "connect_closed orig st =
     st\<lparr>cs_subscribed := True, cs_calls := remove1 (AwaitClose orig) (cs_calls st) @ [AwaitOpen orig]\<rparr>"

definition connect_opened :: "origin \<Rightarrow> csm \<Rightarrow> csm" where
  "connect_opened orig st =
     (let st1 = transition AUTHENTICATING [] st
      in st1\<lparr>cs_calls := remove1 (AwaitOpen orig) (cs_calls st1) @ [AwaitAuth orig]\<rparr>)"

text \<open>The continuation of the reconnect timer when the \<open>connect\<close> it started resolves.\<close>

definition resolved :: "origin \<Rightarrow> csm \<Rightarrow> csm" where
  "resolved orig st =
     (case orig of
        User \<Rightarrow> st
      | Timer \<Rightarrow> st\<lparr>cs_attempts := 0, cs_log := cs_log st @ [Reconnected]\<rparr>)"

definition connect_done :: "origin \<Rightarrow> csm \<Rightarrow> csm" where
  "connect_done orig st =
     (let st1 = st\<lparr>cs_attempts := 0\<rparr>;
          st2 = transition CONNECTED [] st1
      in resolved orig (st2\<lparr>cs_calls := remove1 (AwaitAuth orig) (cs_calls st2)\<rparr>))"

text \<open>The \<open>catch\<close> block of \<open>connect\<close>, for the call standing at \<open>pc\<close>. A call whose machine has been
  closed returns normally.\<close>

definition connect_failed :: "rat \<Rightarrow> string \<Rightarrow> origin \<Rightarrow> conn_pc \<Rightarrow> csm \<Rightarrow> csm" where
  "connect_failed rnd msg orig pc st =
     (let st1 = st\<lparr>cs_calls := remove1 pc (cs_calls st)\<rparr> in
      if cs_closed st1 then resolved orig st1
      else
        (let st2 = transition FAILED [(''error'', JStr msg)] st1
         in case orig of
              User \<Rightarrow> st2
            | Timer \<Rightarrow> if cs_closed st2 then st2 else scheduleReconnect rnd st2))"

definition timer_fires :: "csm \<Rightarrow> csm" where
  "timer_fires st =
     (let st1 = st\<lparr>cs_timer := None\<rparr> in if cs_closed st1 then st1 else connect_start Timer st1)"

text \<open>\<open>disconnect\<close> up to its \<open>await\<close>, and after it.\<close>

definition disconnect_start :: "csm \<Rightarrow> csm" where
  "disconnect_start st =
     (let st1 = (stopReconnectTimer (st\<lparr>cs_closed := True\<rparr>))\<lparr>cs_attempts := 0, cs_subscribed := False\<rparr>
      in st1\<lparr>cs_calls := cs_calls st1 @ [AwaitDisconnect]\<rparr>)"

definition disconnect_done :: "csm \<Rightarrow> csm" where
  "disconnect_done st =
     transition DISCONNECTED [] (st\<lparr>cs_calls := remove1 AwaitDisconnect (cs_calls st)\<rparr>)"

inductive csm_step :: "csm \<Rightarrow> csm \<Rightarrow> bool" where
  call_connect: "csm_step st (connect_start User st)"
| call_disconnect: "csm_step st (disconnect_start st)"
| timer_set: "cs_setTimer st \<noteq> None \<Longrightarrow> csm_step st (setReconnectTimer st)"
| close_settled: "cs_setTimer st = None \<Longrightarrow> AwaitClose orig \<in> set (cs_calls st) \<Longrightarrow> csm_step st (connect_closed orig st)"
| open_ok: "cs_setTimer st = None \<Longrightarrow> AwaitOpen orig \<in> set (cs_calls st) \<Longrightarrow> csm_step st (connect_opened orig st)"
| open_err: "cs_setTimer st = None \<Longrightarrow> AwaitOpen orig \<in> set (cs_calls st) \<Longrightarrow> 0 \<le> rnd \<Longrightarrow> rnd < 1 \<Longrightarrow>
    csm_step st (connect_failed rnd msg orig (AwaitOpen orig) st)"
| auth_ok: "cs_setTimer st = None \<Longrightarrow> AwaitAuth orig \<in> set (cs_calls st) \<Longrightarrow> csm_step st (connect_done orig st)"
| auth_err: "cs_setTimer st = None \<Longrightarrow> AwaitAuth orig \<in> set (cs_calls st) \<Longrightarrow> 0 \<le> rnd \<Longrightarrow> rnd < 1 \<Longrightarrow>
    csm_step st (connect_failed rnd msg orig (AwaitAuth orig) st)"
| transport_lost: "cs_setTimer st = None \<Longrightarrow> cs_subscribed st \<Longrightarrow> 0 \<le> rnd \<Longrightarrow> rnd < 1 \<Longrightarrow>
    csm_step st (onTransportDisconnect rnd reason st)"
| timer: "cs_setTimer st = None \<Longrightarrow> cs_timer st \<noteq> None \<Longrightarrow> csm_step st (timer_fires st)"
| disconnect_settled: "cs_setTimer st = None \<Longrightarrow> AwaitDisconnect \<in> set (cs_calls st) \<Longrightarrow> csm_step st (disconnect_done st)"

section \<open>Invariants\<close>

text \<open>The transitions in the log lead from one state to another without a gap.\<close>

fun chain :: "conn_state \<Rightarrow> conn_event list \<Rightarrow> conn_state \<Rightarrow> bool" where
  "chain a [] b = (a = b)"
| "chain a (StateChanged p n d # es) b = (p = a \<and> n \<noteq> p \<and> chain n es b)"
| "chain a (e # es) b = chain a es b"

lemma chain_append: "chain a (es @ fs) b \<longleftrightarrow> (\<exists>c. chain a es c \<and> chain c fs b)"
  by (induction a es b rule: chain.induct) auto

text \<open>A delay that was announced: of a real attempt, within the configured bounds.\<close>

definition announced_ok :: "csm \<Rightarrow> conn_event \<Rightarrow> bool" where
  "announced_ok st e = (case e of
     Reconnecting n d \<Rightarrow> 1 \<le> n \<and> num_le (Fin (of_nat n)) (cs_maxAttempts st) \<and> num_le (Fin 500) d
   | _ \<Rightarrow> True)"

definition timer_ok :: "csm \<Rightarrow> bool" where
  "timer_ok st \<longleftrightarrow> (\<forall>d. cs_timer st = Some d \<or> cs_setTimer st = Some d \<longrightarrow>
     num_le (Fin 500) d \<and> num_le d (backoff_cap (cs_backoffCapMs st)))"

definition csm_inv :: "csm \<Rightarrow> bool" where
  "csm_inv st \<longleftrightarrow> chain DISCONNECTED (cs_log st) (cs_state st)
     \<and> (\<forall>e\<in>set (cs_log st). announced_ok st e)
     \<and> timer_ok st \<and> cs_maxAttempts st \<noteq> NaN"

lemmas csm_unfolds = transition_def stopReconnectTimer_def connect_start_def connect_closed_def
  connect_opened_def resolved_def connect_done_def timer_fires_def disconnect_start_def
  disconnect_done_def Let_def

lemma csm_inv_inert:
  "csm_inv st \<Longrightarrow> cs_log st' = cs_log st \<Longrightarrow> cs_state st' = cs_state st \<Longrightarrow> cs_maxAttempts st' = cs_maxAttempts st
   \<Longrightarrow> cs_backoffCapMs st' = cs_backoffCapMs st \<Longrightarrow> cs_timer st' = None \<or> cs_timer st' = cs_timer st \<Longrightarrow> cs_setTimer st' = cs_setTimer st
   \<Longrightarrow> csm_inv st'"
  by (auto simp: csm_inv_def announced_ok_def timer_ok_def split: conn_event.splits)

lemma csm_inv_transition: "csm_inv st \<Longrightarrow> csm_inv (transition s d st)"
  by (auto simp: csm_inv_def transition_def chain_append announced_ok_def timer_ok_def split: conn_event.splits)

lemma csm_inv_resolved: "csm_inv st \<Longrightarrow> csm_inv (resolved orig st)"
  by (cases orig) (auto simp: resolved_def csm_inv_def chain_append announced_ok_def timer_ok_def
      split: conn_event.splits)

lemma num_le_Fin: "num_le (Fin a) (Fin b) \<longleftrightarrow> a \<le> b"
  by (auto simp: num_le_def)

lemma round_ge: "num_le (Fin 500) d \<Longrightarrow> num_le (Fin 500) (round_num d)"
proof (cases d)
  case (Fin q)
  assume "num_le (Fin 500) d"
  then have "(500::rat) \<le> q" using Fin by (auto simp: num_le_def)
  then have "500 \<le> \<lfloor>q + 1 / 2\<rfloor>" by (simp add: le_floor_iff)
  then have "(500::rat) \<le> of_int \<lfloor>q + 1 / 2\<rfloor>" by (metis of_int_le_iff of_int_numeral)
  then show ?thesis unfolding Fin round_num_def jnum.case num_le_Fin .
qed (auto simp: round_num_def)

lemma csm_inv_schedule:
  assumes "csm_inv st" "0 \<le> rnd"
  shows "csm_inv (scheduleReconnect rnd st)"
proof -
  let ?n = "cs_attempts st + 1"
  let ?d = "backoffDelay (backoff_base (cs_backoffMs st)) (backoff_cap (cs_backoffCapMs st)) ?n (1 / 2 + rnd)"
  have d: "num_le (Fin 500) ?d" "num_le ?d (backoff_cap (cs_backoffCapMs st))"
    using assms(2) by (auto intro: bo.delay_ge_half bo.delay_le_cap)
  show ?thesis
  proof (cases "cs_closed st \<or> cs_timer st \<noteq> None")
    case True
    then show ?thesis using assms(1) by (auto simp: scheduleReconnect_def)
  next
    case free: False
    have i1: "csm_inv (st\<lparr>cs_attempts := ?n\<rparr>)" by (rule csm_inv_inert [OF assms(1)]) simp_all
    show ?thesis
    proof (cases "num_less (cs_maxAttempts st) (Fin (of_nat ?n))")
      case True
      then show ?thesis using free csm_inv_transition [OF i1] by (auto simp: scheduleReconnect_def Let_def)
    next
      case False
      have le: "num_le (Fin (of_nat ?n)) (cs_maxAttempts st)"
        using False assms(1) by (cases "cs_maxAttempts st") (auto simp: num_le_def csm_inv_def)
      have eq: "scheduleReconnect rnd st = st\<lparr>cs_attempts := ?n,
          cs_log := cs_log st @ [Reconnecting ?n (round_num ?d)], cs_setTimer := Some ?d\<rparr>"
        using free False by (auto simp: scheduleReconnect_def Let_def)
      show ?thesis
        using assms(1) le d round_ge [OF d(1)] free unfolding eq
        by (auto simp: csm_inv_def chain_append announced_ok_def timer_ok_def split: conn_event.splits)
    qed
  qed
qed

lemma csm_inv_failed:
  assumes "csm_inv st" "0 \<le> rnd"
  shows "csm_inv (connect_failed rnd msg orig pc st)"
proof -
  have "csm_inv (st\<lparr>cs_calls := remove1 pc (cs_calls st)\<rparr>)" by (rule csm_inv_inert [OF assms(1)]) simp_all
  then show ?thesis
    using assms(2)
    by (auto simp: connect_failed_def Let_def split: origin.split
        intro: csm_inv_resolved csm_inv_transition csm_inv_schedule)
qed

lemma csm_inv_start:
  assumes "csm_inv st"
  shows "csm_inv (connect_start orig st)"
proof -
  have "csm_inv (transition CONNECTING [] (stopReconnectTimer (st\<lparr>cs_closed := False\<rparr>)))"
    by (intro csm_inv_transition csm_inv_inert [OF assms]) (simp_all add: stopReconnectTimer_def)
  then show ?thesis
    unfolding connect_start_def Let_def by (rule csm_inv_inert) simp_all
qed

lemma csm_inv_step: "csm_step st st' \<Longrightarrow> csm_inv st \<Longrightarrow> csm_inv st'"
proof (induction rule: csm_step.induct)
  case (call_connect st)
  then show ?case by (rule csm_inv_start)
next
  case (call_disconnect st)
  show ?case
    by (rule csm_inv_inert [OF call_disconnect]) (simp_all add: disconnect_start_def stopReconnectTimer_def Let_def)
next
  case (timer_set st)
  then show ?case by (auto simp: setReconnectTimer_def csm_inv_def timer_ok_def announced_ok_def split: conn_event.splits)
next
  case (close_settled st orig)
  then show ?case by (auto simp: connect_closed_def intro: csm_inv_inert)
next
  case (open_ok st orig)
  have "csm_inv (transition AUTHENTICATING [] st)" using open_ok by (intro csm_inv_transition)
  then show ?case unfolding connect_opened_def Let_def by (rule csm_inv_inert) simp_all
next
  case (auth_ok st orig)
  have up: "csm_inv (transition CONNECTED [] (st\<lparr>cs_attempts := 0\<rparr>))"
    by (intro csm_inv_transition csm_inv_inert [OF auth_ok(3)]) simp_all
  show ?case
    unfolding connect_done_def Let_def by (intro csm_inv_resolved csm_inv_inert [OF up]) simp_all
next
  case (transport_lost st rnd reason)
  then show ?case
    by (auto simp: onTransportDisconnect_def intro: csm_inv_transition csm_inv_schedule)
next
  case (timer st)
  have "csm_inv (st\<lparr>cs_timer := None\<rparr>)" by (rule csm_inv_inert [OF timer(3)]) simp_all
  then show ?case by (auto simp: timer_fires_def Let_def intro: csm_inv_start)
next
  case (disconnect_settled st)
  have "csm_inv (st\<lparr>cs_calls := remove1 AwaitDisconnect (cs_calls st)\<rparr>)"
    by (rule csm_inv_inert [OF disconnect_settled(3)]) simp_all
  then show ?case unfolding disconnect_done_def by (rule csm_inv_transition)
qed (auto intro: csm_inv_failed)

lemma csm_inv_reachable:
  assumes "mk_csm a b c reconnect = Inr st0" "csm_step\<^sup>*\<^sup>* st0 st"
  shows "csm_inv st"
  using assms(2)
proof (induction rule: rtranclp_induct)
  case base
  show ?case using assms(1)
    by (auto simp: mk_csm_def csm_inv_def timer_ok_def Let_def split: if_splits)
qed (rule csm_inv_step)

lemma csm_config_step:
  "csm_step st st' \<Longrightarrow> cs_maxAttempts st' = cs_maxAttempts st \<and> cs_backoffCapMs st' = cs_backoffCapMs st"
  by (induction rule: csm_step.induct)
     (auto simp: csm_unfolds connect_failed_def onTransportDisconnect_def scheduleReconnect_def setReconnectTimer_def
       split: origin.split)

text \<open>C35. The back-off is bounded. In every reachable state of the machine, however its calls,
  errors and timers interleave, also when a listener connects or disconnects while a reconnect is being
  announced, every reconnect that was announced had a number between 1 and \<open>maxAttempts\<close> and a delay
  of at least half a second, and a running timer waits at least half a second and at most the
  configured cap.\<close>

theorem reconnect_backoff_bounded:
  assumes "mk_csm a b c reconnect = Inr st0" and "csm_step\<^sup>*\<^sup>* st0 st"
  shows "(\<forall>n d. Reconnecting n d \<in> set (cs_log st) \<longrightarrow>
           1 \<le> n \<and> num_le (Fin (of_nat n)) (cs_maxAttempts st) \<and> num_le (Fin 500) d)
    \<and> (\<forall>d. cs_timer st = Some d \<longrightarrow> num_le (Fin 500) d \<and> num_le d (backoff_cap (cs_backoffCapMs st)))"
  using csm_inv_reachable [OF assms] by (auto simp: csm_inv_def timer_ok_def announced_ok_def)

text \<open>Observers see the state of the machine: the sequence of the state-changed events is a
  gapless path from \<open>disconnected\<close> to the current state, without a step from a state to itself,
  so a listener that follows the events always knows the current state.\<close>

theorem state_events_track_state:
  assumes "mk_csm a b c reconnect = Inr st0" and "csm_step\<^sup>*\<^sup>* st0 st"
  shows "chain DISCONNECTED (cs_log st) (cs_state st)"
  using csm_inv_reachable [OF assms] by (simp add: csm_inv_def)

section \<open>Runs\<close>

definition demo_csm :: csm where
  "demo_csm = (case mk_csm True True True (JObj []) of Inr st \<Rightarrow> st)"

lemma demo_csm_new: "mk_csm True True True (JObj []) = Inr demo_csm"
  by (simp add: demo_csm_def mk_csm_def)

text \<open>A connection that is lost after it was authenticated.\<close>

definition demo_up :: csm where
  "demo_up = connect_done User (connect_opened User (connect_closed User (connect_start User demo_csm)))"

definition demo_lost :: csm where
  "demo_lost = setReconnectTimer (onTransportDisconnect 0 (JStr ''reset'') demo_up)"

lemma demo_up_steps: "csm_step\<^sup>*\<^sup>* demo_csm demo_up"
proof -
  let ?a = "connect_start User demo_csm"
  let ?b = "connect_closed User ?a"
  let ?c = "connect_opened User ?b"
  have "csm_step demo_csm ?a" by (rule call_connect)
  moreover have "csm_step ?a ?b" by (rule close_settled; code_simp)
  moreover have "csm_step ?b ?c" by (rule open_ok; code_simp)
  moreover have "csm_step ?c demo_up" unfolding demo_up_def by (rule auth_ok; code_simp)
  ultimately show ?thesis by auto
qed

lemma demo_announced_steps: "csm_step\<^sup>*\<^sup>* demo_csm (onTransportDisconnect 0 (JStr ''reset'') demo_up)"
proof -
  have "cs_subscribed demo_up" "cs_setTimer demo_up = None" by code_simp+
  then have "csm_step demo_up (onTransportDisconnect 0 (JStr ''reset'') demo_up)" by (intro transport_lost) simp_all
  then show ?thesis using demo_up_steps by auto
qed

lemma demo_lost_steps: "csm_step\<^sup>*\<^sup>* demo_csm demo_lost"
proof -
  have "csm_step (onTransportDisconnect 0 (JStr ''reset'') demo_up) demo_lost"
    unfolding demo_lost_def by (rule timer_set) code_simp
  then show ?thesis using demo_announced_steps by auto
qed

theorem reconnect_backoff_bounded_witness:
  "cs_timer demo_lost = Some (Fin 1000) \<and> num_le (Fin 1000) (backoff_cap (cs_backoffCapMs demo_lost))"
proof -
  have "cs_timer demo_lost = Some (Fin 1000)" by code_simp
  then show ?thesis
    using reconnect_backoff_bounded [OF demo_csm_new demo_lost_steps] by auto
qed

theorem state_events_track_state_witness:
  "chain DISCONNECTED (cs_log demo_lost) RECONNECTING \<and> cs_log demo_lost \<noteq> []"
proof -
  have "cs_state demo_lost = RECONNECTING" "cs_log demo_lost \<noteq> []" by code_simp+
  then show ?thesis
    using state_events_track_state [OF demo_csm_new demo_lost_steps] by simp
qed

text \<open>A race the code does not guard: \<open>disconnect\<close> runs to its end while a \<open>connect\<close> is waiting for
  the authentication, and the machine ends in the state connected although it is closed and
  no call is left. Only the \<open>catch\<close> block of \<open>connect\<close> looks at the closed flag.\<close>

theorem disconnect_race_ends_connected:
  "\<exists>st. csm_step\<^sup>*\<^sup>* demo_csm st \<and> cs_closed st \<and> cs_state st = CONNECTED \<and> cs_calls st = []"
proof -
  let ?c = "connect_opened User (connect_closed User (connect_start User demo_csm))"
  let ?d = "disconnect_start ?c"
  let ?e = "disconnect_done ?d"
  let ?f = "connect_done User ?e"
  have "csm_step demo_csm (connect_start User demo_csm)" by (rule call_connect)
  moreover have "csm_step (connect_start User demo_csm) (connect_closed User (connect_start User demo_csm))"
    by (rule close_settled; code_simp)
  moreover have "csm_step (connect_closed User (connect_start User demo_csm)) ?c"
    by (rule open_ok; code_simp)
  moreover have "csm_step ?c ?d" by (rule call_disconnect)
  moreover have "csm_step ?d ?e"
    by (rule disconnect_settled; code_simp)
  moreover have "csm_step ?e ?f" by (rule auth_ok; code_simp)
  ultimately have "csm_step\<^sup>*\<^sup>* demo_csm ?f" by (meson converse_rtranclp_into_rtranclp rtranclp.rtrancl_refl)
  moreover have "cs_closed ?f \<and> cs_state ?f = CONNECTED \<and> cs_calls ?f = []" by code_simp
  ultimately show ?thesis by blast
qed

text \<open>A listener that disconnects while a reconnect is announced leaves a timer on a closed machine: there is
  nothing for \<open>disconnect\<close> to clear yet. The timer does nothing when it fires, the closed flag is looked
  at then.\<close>

lemma listener_disconnect_leaves_timer:
  "\<exists>st. csm_step\<^sup>*\<^sup>* demo_csm st \<and> cs_closed st \<and> cs_timer st \<noteq> None"
proof -
  let ?a = "onTransportDisconnect 0 (JStr ''reset'') demo_up"
  let ?b = "disconnect_start ?a"
  let ?c = "setReconnectTimer ?b"
  have "csm_step ?a ?b" by (rule call_disconnect)
  moreover have "csm_step ?b ?c" by (rule timer_set) code_simp
  ultimately have "csm_step\<^sup>*\<^sup>* demo_csm ?c" using demo_announced_steps by (meson rtranclp.rtrancl_into_rtrancl)
  moreover have "cs_closed ?c" "cs_timer ?c \<noteq> None" by code_simp+
  ultimately show ?thesis by blast
qed

text \<open>And a reconnect attempt that fails after \<open>disconnect\<close> is announced as a reconnect: the closed
  flag makes \<open>connect\<close> return normally, which the timer's continuation takes for success.\<close>

theorem failed_reconnect_announced:
  "cs_closed st \<Longrightarrow> cs_log (connect_failed rnd msg Timer pc st) = cs_log st @ [Reconnected]"
  by (simp add: connect_failed_def Let_def resolved_def)

end
