(* ===== verification/Relay_Floor.thy ===== *)
theory Relay_Floor
  imports Js_Prelude
begin

text \<open>
  The downgrade floor of the client: \<open>relay/RelayContractFloorStore.js\<close>, which records per
  verified relay identity the highest wire contract a session has authenticated at, and
  \<open>relay/DowngradePolicy.js\<close>, which decides from it whether an account-mode handshake may
  start. The store works over a \<open>Map\<close> of its own or over a backing that the embedder
  supplies; the backing is a parameter, and the locale \<open>floor_medium\<close> says what of it the
  store relies on: what was set is what is got.
\<close>

section \<open>The store\<close>

text \<open>A backing: its state and its two methods, either of which may be missing.\<close>

record 'b floor_backing =
  bk_state :: 'b
  bk_get :: "('b \<Rightarrow> string \<Rightarrow> jsval) option"
  bk_set :: "('b \<Rightarrow> string \<Rightarrow> jsval \<Rightarrow> 'b) option"

record 'b floor_store =
  fs_backing :: "'b floor_backing option"
  fs_memory :: "string \<rightharpoonup> jsval"

record observation =
  ob_floor :: int
  ob_current :: int
  ob_downgrade :: bool

definition mk_floor_store :: "'b floor_backing option \<Rightarrow> 'b floor_store res" where
  "mk_floor_store backing =
     (case backing of
        Some b \<Rightarrow>
          if bk_get b = None \<or> bk_set b = None
          then Inl (plain_err ''RelayContractFloorStore backing requires get(key) and set(key, value)'')
          else Inr \<lparr>fs_backing = Some b, fs_memory = Map.empty\<rparr>
      | None \<Rightarrow> Inr \<lparr>fs_backing = None, fs_memory = Map.empty\<rparr>)"

text \<open>The integer that a value for which \<open>Number.isInteger\<close> holds denotes.\<close>

fun int_of_js :: "jsval \<Rightarrow> int" where
  "int_of_js (JNum (Fin q)) = \<lfloor>q\<rfloor>"
| "int_of_js v = 0"

definition call_get :: "'b floor_backing \<Rightarrow> string \<Rightarrow> jsval" where
  "call_get b k = (case bk_get b of Some g \<Rightarrow> g (bk_state b) k | None \<Rightarrow> JUndef)"

definition call_set :: "'b floor_backing \<Rightarrow> string \<Rightarrow> jsval \<Rightarrow> 'b floor_backing" where
  "call_set b k v =
     (case bk_set b of Some f \<Rightarrow> b\<lparr>bk_state := f (bk_state b) k v\<rparr> | None \<Rightarrow> b)"

definition fs_read :: "'b floor_store \<Rightarrow> string \<Rightarrow> int option" where
  "fs_read st k =
     (case fs_backing st of
        Some b \<Rightarrow>
          (let value = call_get b k in
           if js_isInteger value \<and> int_of_js value > 0 then Some (int_of_js value) else None)
      | None \<Rightarrow>
          (case fs_memory st k of
             None \<Rightarrow> None
           | Some value \<Rightarrow> if js_isInteger value then Some (int_of_js value) else None))"

definition fs_write :: "'b floor_store \<Rightarrow> string \<Rightarrow> int \<Rightarrow> 'b floor_store" where
  "fs_write st k value =
     (case fs_backing st of
        Some b \<Rightarrow> st\<lparr>fs_backing := Some (call_set b k (JInt value))\<rparr>
      | None \<Rightarrow> st\<lparr>fs_memory := (fs_memory st)(k \<mapsto> JInt value)\<rparr>)"

definition recordObserved ::
    "'b floor_store \<Rightarrow> jsval \<Rightarrow> jsval \<Rightarrow> observation res \<times> 'b floor_store" where
  "recordObserved st relayIdentityB64 contractVersion =
     (let key = trimmed relayIdentityB64 in
      if key = [] then (Inl (plain_err ''recordObserved requires the verified relayIdentityB64''), st)
      else if \<not> js_isInteger contractVersion \<or> int_of_js contractVersion \<le> 0
        then (Inl (plain_err ''recordObserved requires a positive integer contractVersion''), st)
      else
        (let version = int_of_js contractVersion;
             existing = fs_read st key;
             floor = (case existing of None \<Rightarrow> version | Some e \<Rightarrow> max e version);
             st' = (if (case existing of None \<Rightarrow> True | Some e \<Rightarrow> floor > e)
                    then fs_write st key floor else st)
         in (Inr \<lparr>ob_floor = floor, ob_current = version,
                  ob_downgrade = (case existing of None \<Rightarrow> False | Some e \<Rightarrow> version < e)\<rparr>, st')))"

definition floorFor :: "'b floor_store \<Rightarrow> jsval \<Rightarrow> int option" where
  "floorFor st relayIdentityB64 =
     (let key = trimmed relayIdentityB64 in if key = [] then None else fs_read st key)"

section \<open>The policy\<close>

record permission =
  pm_permitted :: bool
  pm_floor :: "int option"
  pm_reason :: "string option"

definition permitsAccountModeAuth ::
    "jsval \<Rightarrow> 'b floor_store option \<Rightarrow> jsval \<Rightarrow> permission" where
  "permitsAccountModeAuth relayIdentityB64 floorStore enforce =
     (let identity = trimmed relayIdentityB64 in
      case floorStore of
        None \<Rightarrow> \<lparr>pm_permitted = True, pm_floor = None, pm_reason = None\<rparr>
      | Some st \<Rightarrow>
          if identity = [] then \<lparr>pm_permitted = True, pm_floor = None, pm_reason = None\<rparr>
          else
            (case floorFor st (JStr identity) of
               None \<Rightarrow> \<lparr>pm_permitted = True, pm_floor = None, pm_reason = None\<rparr>
             | Some fl \<Rightarrow>
                 if fl < 5 then \<lparr>pm_permitted = True, pm_floor = Some fl, pm_reason = None\<rparr>
                 else if enforce \<noteq> JBool True
                   then \<lparr>pm_permitted = True, pm_floor = Some fl,
                         pm_reason = Some ''downgrade-condition-recorded''\<rparr>
                 else \<lparr>pm_permitted = False, pm_floor = Some fl,
                       pm_reason = Some (''relay previously authenticated at contract ''
                         @ show_rat (of_int fl)
                         @ ''; account-mode auth toward it is a downgrade and enforcement is enabled'')\<rparr>))"

section \<open>What the medium promises\<close>

text \<open>
  The medium below the store: reading a key gives what was last written to it, and a write
  of one key leaves the others alone. Everything the floor promises follows from this.
\<close>

locale floor_medium =
  fixes look :: "'s \<Rightarrow> string \<Rightarrow> int option"
    and put :: "'s \<Rightarrow> string \<Rightarrow> int \<Rightarrow> 's"
    and sound :: "'s \<Rightarrow> bool"
  assumes look_put: "sound s \<Longrightarrow> 0 < v \<Longrightarrow> look (put s k v) k' = (if k' = k then Some v else look s k')"
    and put_sound: "sound s \<Longrightarrow> 0 < v \<Longrightarrow> sound (put s k v)"
begin

text \<open>The raise of one floor, as the store performs it over the medium.\<close>

definition raise :: "'s \<Rightarrow> string \<Rightarrow> int \<Rightarrow> 's" where
  "raise s k v =
     (case look s k of
        None \<Rightarrow> put s k v
      | Some e \<Rightarrow> if max e v > e then put s k (max e v) else s)"

text \<open>The abstract floor: the largest of the recorded value and the observation.\<close>

definition joined :: "int option \<Rightarrow> int \<Rightarrow> int" where
  "joined existing v = (case existing of None \<Rightarrow> v | Some e \<Rightarrow> max e v)"

lemma raise_sound: "sound s \<Longrightarrow> 0 < v \<Longrightarrow> sound (raise s k v)"
  by (auto simp: raise_def put_sound max_def split: option.splits)

lemma look_raise:
  "sound s \<Longrightarrow> 0 < v \<Longrightarrow> look (raise s k v) k' = (if k' = k then Some (joined (look s k) v) else look s k')"
  by (auto simp: raise_def joined_def look_put max_def split: option.splits)

lemma raise_monotone:
  "sound s \<Longrightarrow> 0 < v \<Longrightarrow> look s k' = Some e \<Longrightarrow> \<exists>e'. look (raise s k v) k' = Some e' \<and> e \<le> e'"
  by (auto simp: look_raise joined_def)

end

text \<open>A backing is lawful when its own reads return its own writes.\<close>

definition lawful_backing :: "'b floor_backing \<Rightarrow> bool" where
  "lawful_backing b \<longleftrightarrow>
     (\<exists>g f. bk_get b = Some g \<and> bk_set b = Some f
        \<and> (\<forall>s k v k'. g (f s k v) k' = (if k' = k then v else g s k')))"

definition lawful_store :: "'b floor_store \<Rightarrow> bool" where
  "lawful_store st \<longleftrightarrow> (\<forall>b. fs_backing st = Some b \<longrightarrow> lawful_backing b)"

lemma int_of_js_JInt [simp]: "int_of_js (JInt n) = n"
  by simp

lemma js_isInteger_JInt [simp]: "js_isInteger (JInt n)"
  by (simp add: js_isInteger_iff)

lemma call_get_set:
  "lawful_backing b \<Longrightarrow> call_get (call_set b k v) k' = (if k' = k then v else call_get b k')"
  by (auto simp: lawful_backing_def call_get_def call_set_def)

lemma call_set_lawful: "lawful_backing b \<Longrightarrow> lawful_backing (call_set b k v)"
  by (auto simp: lawful_backing_def call_set_def)

interpretation fm: floor_medium fs_read fs_write lawful_store
proof unfold_locales
  fix s :: "'b floor_store" and v :: int and k k'
  assume s: "lawful_store s" and v: "0 < v"
  show "fs_read (fs_write s k v) k' = (if k' = k then Some v else fs_read s k')"
  proof (cases "fs_backing s")
    case None
    then show ?thesis by (simp add: fs_read_def fs_write_def del: int_of_js.simps js_isInteger.simps)
  next
    case (Some b)
    then have "lawful_backing b" using s by (simp add: lawful_store_def)
    then show ?thesis
      using Some v
      by (simp add: fs_read_def fs_write_def call_get_set Let_def del: int_of_js.simps js_isInteger.simps)
  qed
  show "lawful_store (fs_write s k v)"
    using s by (auto simp: lawful_store_def fs_write_def call_set_lawful split: option.splits)
qed

section \<open>What the floor promises\<close>

text \<open>An observation the store accepts.\<close>

definition accepted :: "jsval \<Rightarrow> jsval \<Rightarrow> bool" where
  "accepted r c \<longleftrightarrow> trimmed r \<noteq> [] \<and> js_isInteger c \<and> 0 < int_of_js c"

lemma recordObserved_accepted:
  assumes "accepted r c"
  shows "recordObserved st r c =
    (Inr \<lparr>ob_floor = fm.joined (fs_read st (trimmed r)) (int_of_js c), ob_current = int_of_js c,
          ob_downgrade = (case fs_read st (trimmed r) of None \<Rightarrow> False | Some e \<Rightarrow> int_of_js c < e)\<rparr>,
     fm.raise st (trimmed r) (int_of_js c))"
  using assms
  by (auto simp: accepted_def recordObserved_def fm.joined_def fm.raise_def Let_def split: option.splits)

lemma recordObserved_rejected:
  "\<not> accepted r c \<Longrightarrow> (\<exists>e. fst (recordObserved st r c) = Inl e) \<and> snd (recordObserved st r c) = st"
  by (auto simp: accepted_def recordObserved_def Let_def)

text \<open>A history of calls, each with its identity and its version; rejected calls throw and
  change nothing.\<close>

definition observe_all :: "'b floor_store \<Rightarrow> (jsval \<times> jsval) list \<Rightarrow> 'b floor_store" where
  "observe_all st obs = foldl (\<lambda>s (r, c). snd (recordObserved s r c)) st obs"

text \<open>The specification: the accepted versions of a history for one identity, in order.\<close>

definition versions_for :: "string \<Rightarrow> (jsval \<times> jsval) list \<Rightarrow> int list" where
  "versions_for k obs =
     map (\<lambda>(r, c). int_of_js c) (filter (\<lambda>(r, c). accepted r c \<and> trimmed r = k) obs)"

definition highest :: "int option \<Rightarrow> int list \<Rightarrow> int option" where
  "highest e vs =
     (case (case e of None \<Rightarrow> vs | Some x \<Rightarrow> x # vs) of [] \<Rightarrow> None | y # ys \<Rightarrow> Some (foldl max y ys))"

lemma recordObserved_lawful: "lawful_store st \<Longrightarrow> lawful_store (snd (recordObserved st r c))"
  by (cases "accepted r c")
     (auto simp: recordObserved_accepted recordObserved_rejected fm.raise_sound accepted_def)

lemma read_recordObserved:
  assumes "lawful_store st"
  shows "fs_read (snd (recordObserved st r c)) k =
    (if accepted r c \<and> trimmed r = k then Some (fm.joined (fs_read st k) (int_of_js c)) else fs_read st k)"
proof (cases "accepted r c")
  case True
  then have "0 < int_of_js c" by (simp add: accepted_def)
  then show ?thesis using assms True by (auto simp: recordObserved_accepted fm.look_raise)
qed (auto simp: recordObserved_rejected)

lemma highest_step: "highest (Some (fm.joined e v)) vs = highest e (v # vs)"
  by (auto simp: highest_def fm.joined_def split: option.splits)

lemma observe_all_Cons [simp]:
  "observe_all st ((r, c) # obs) = observe_all (snd (recordObserved st r c)) obs"
  by (simp add: observe_all_def)

lemma observe_all_Nil [simp]: "observe_all st [] = st"
  by (simp add: observe_all_def)

lemma observe_all_lawful: "lawful_store st \<Longrightarrow> lawful_store (observe_all st obs)"
  by (induction obs arbitrary: st) (auto simp: recordObserved_lawful)

lemma read_observe_all:
  "lawful_store st \<Longrightarrow> fs_read (observe_all st obs) k = highest (fs_read st k) (versions_for k obs)"
proof (induction obs arbitrary: st)
  case Nil
  then show ?case by (simp add: highest_def versions_for_def split: option.split)
next
  case (Cons o' obs)
  obtain r c where [simp]: "o' = (r, c)" by (cases o')
  have "lawful_store (snd (recordObserved st r c))" using Cons.prems by (rule recordObserved_lawful)
  then have "fs_read (observe_all st (o' # obs)) k
      = highest (fs_read (snd (recordObserved st r c)) k) (versions_for k obs)"
    using Cons.IH by simp
  also have "\<dots> = highest (fs_read st k) (versions_for k (o' # obs))"
    using Cons.prems by (auto simp: read_recordObserved highest_step versions_for_def)
  finally show ?case .
qed

lemma foldl_max_ge: "(y :: int) \<le> foldl max y ys \<and> (\<forall>v\<in>set ys. v \<le> foldl max y ys)"
  by (induction ys arbitrary: y) (auto simp: max_def dest: order_trans, (meson dual_order.trans linorder_le_cases)+)

lemma foldl_max_in: "foldl max (y :: int) ys \<in> insert y (set ys)"
proof (induction ys arbitrary: y)
  case (Cons a ys)
  from Cons.IH [of "max y a"] show ?case by (auto simp: max_def)
qed simp

lemma highest_None_iff: "highest None vs = Some n \<longleftrightarrow> vs \<noteq> [] \<and> n = Max (set vs)"
proof (cases vs)
  case (Cons y ys)
  have "foldl max y ys = Max (set vs)"
    unfolding Cons using foldl_max_ge [of y ys] foldl_max_in [of y ys]
    by (intro Max_eqI [symmetric]) auto
  then show ?thesis using Cons by (auto simp: highest_def)
qed (simp add: highest_def)

text \<open>C15. The floor refines its specification: starting from an empty lawful store (the
  in-memory one, or any backing that returns what was set), after any sequence of calls of
  \<open>recordObserved\<close>, rejected ones included and over any number of identities, the floor of an
  identity is exactly the maximum of the versions accepted for that identity, and there is no
  floor when there was none. A later lower observation never reduces it.\<close>

theorem floor_is_highest_observed:
  assumes "lawful_store st" and "\<And>k. fs_read st k = None" and "trimmed r \<noteq> []"
  shows "floorFor (observe_all st obs) r =
    (let vs = versions_for (trimmed r) obs in if vs = [] then None else Some (Max (set vs)))"
proof -
  have "floorFor (observe_all st obs) r = highest None (versions_for (trimmed r) obs)"
    using assms by (simp add: floorFor_def Let_def read_observe_all)
  then show ?thesis
    using highest_None_iff [of "versions_for (trimmed r) obs"]
    by (cases "highest None (versions_for (trimmed r) obs)") (auto simp: Let_def)
qed

definition memory_store :: "unit floor_store" where
  "memory_store = \<lparr>fs_backing = None, fs_memory = Map.empty\<rparr>"

definition sample_history :: "(jsval \<times> jsval) list" where
  "sample_history = [(JStr '' relayA'', JInt 5), (JStr ''relayB'', JInt 2), (JStr ''relayA'', JInt 4),
     (JStr ''relayA'', JStr ''9''), (JNull, JInt 7)]"

theorem floor_is_highest_observed_witness:
  "floorFor (observe_all memory_store sample_history) (JStr ''relayA '') = Some 5"
proof -
  have lawful: "lawful_store memory_store"
    by (simp add: lawful_store_def memory_store_def)
  have empty: "fs_read memory_store k = None" for k
    by (simp add: fs_read_def memory_store_def)
  have key: "trimmed (JStr ''relayA '') \<noteq> []" by code_simp
  have vs: "versions_for (trimmed (JStr ''relayA '')) sample_history = [5, 4]" by code_simp
  show ?thesis
    using floor_is_highest_observed [OF lawful empty key, of sample_history]
    unfolding vs by (simp add: Let_def)
qed

lemma js_trim_trimmed [simp]: "js_trim (trimmed v) = trimmed v"
  by (cases v) auto

lemma permits_iff:
  "pm_permitted (permitsAccountModeAuth r (Some st) enforce) \<longleftrightarrow>
     \<not> (enforce = JBool True \<and> trimmed r \<noteq> []
        \<and> (\<exists>n. fs_read st (trimmed r) = Some n \<and> 5 \<le> n))"
  by (auto simp: permitsAccountModeAuth_def Let_def floorFor_def split: option.splits)

lemma highest_ge:
  "highest e vs = Some n \<Longrightarrow> n' \<in> set vs \<or> e = Some n' \<Longrightarrow> n' \<le> n"
  using foldl_max_ge by (fastforce simp: highest_def split: option.splits list.splits)

lemma highest_keeps: "e = Some m \<Longrightarrow> \<exists>n. highest e vs = Some n \<and> m \<le> n"
  using foldl_max_ge by (auto simp: highest_def)

text \<open>The downgrade decision is stable: under enforcement, once a relay identity has
  authenticated at contract 5 or above, every later account-mode handshake toward it is
  refused, whatever is observed in between and however low, while record-only mode never
  refuses anything.\<close>

theorem downgrade_stays_refused:
  assumes "lawful_store st" and "accepted r c" and "5 \<le> int_of_js c"
  shows "\<not> pm_permitted (permitsAccountModeAuth r
           (Some (observe_all (snd (recordObserved (observe_all st before) r c)) after)) (JBool True))
       \<and> (\<forall>enforce r' fs. enforce \<noteq> JBool True \<longrightarrow> pm_permitted (permitsAccountModeAuth r' fs enforce))"
proof -
  let ?s = "observe_all st before" and ?k = "trimmed r"
  let ?t = "snd (recordObserved ?s r c)"
  have s: "lawful_store ?s" using assms(1) by (rule observe_all_lawful)
  then have t: "lawful_store ?t" by (rule recordObserved_lawful)
  have "fs_read ?t ?k = Some (fm.joined (fs_read ?s ?k) (int_of_js c))"
    using read_recordObserved [OF s, of r c ?k] assms(2) by simp
  then obtain n where n: "fs_read (observe_all ?t after) ?k = Some n"
      "fm.joined (fs_read ?s ?k) (int_of_js c) \<le> n"
    using highest_keeps read_observe_all [OF t] by metis
  moreover have "int_of_js c \<le> fm.joined (fs_read ?s ?k) (int_of_js c)"
    by (simp add: fm.joined_def split: option.split)
  ultimately have "5 \<le> n" using assms(3) by linarith
  moreover have "?k \<noteq> []" using assms(2) by (simp add: accepted_def)
  moreover have "pm_permitted (permitsAccountModeAuth r' fs enforce)"
    if "enforce \<noteq> JBool True" for enforce r' fs
    using that by (cases fs) (auto simp: permits_iff, simp add: permitsAccountModeAuth_def Let_def)
  ultimately show ?thesis using n by (auto simp: permits_iff)
qed

theorem downgrade_stays_refused_witness:
  "\<not> pm_permitted (permitsAccountModeAuth (JStr ''relayB'')
      (Some (observe_all (snd (recordObserved (observe_all memory_store sample_history) (JStr ''relayB'') (JInt 6)))
        [(JStr ''relayB'', JInt 1)])) (JBool True))"
proof -
  have lawful: "lawful_store memory_store"
    by (simp add: lawful_store_def memory_store_def)
  have acc: "accepted (JStr ''relayB'') (JInt 6)" by code_simp
  have five: "5 \<le> int_of_js (JInt 6)" by simp
  show ?thesis
    by (rule downgrade_stays_refused [OF lawful acc five, THEN conjunct1])
qed

end
