(* ===== verification/Auth.thy ===== *)
theory Auth
  imports Relay_Floor Js_Bytes
begin

text \<open>
  The authentication state machine, \<open>auth/AuthStateMachine.js\<close>, with the signatures of
  \<open>auth/signing.js\<close> and the floor of \<open>Relay_Floor\<close>: the challenge-response handshake against a
  node, in account mode and in claimant mode.

  The transport, WebCrypto, the clock and the primitives of \<open>@rezprotocol/core\<close> are the fields
  of \<open>auth_env\<close> and may answer anything. \<open>au_log\<close> is the log of the machine: the events of its
  bus and, so that theorems can speak about the order of effects, the requests it sends, the
  verifications of challenge signatures with what they answered, and the payloads it has signed.

  The two modes share their steps here (\<open>verifiedChallenge\<close>, \<open>answerChallenge\<close>, \<open>enterSession\<close>);
  the code writes them out once for each mode, in the same order.
\<close>

section \<open>Data\<close>

datatype auth_state = UNAUTHENTICATED | HELLO_SENT | CHALLENGE_RECEIVED | AUTHENTICATING | AUTHENTICATED | FAILED

datatype auth_event =
    AuthStateChanged auth_state auth_state "(string \<times> jsval) list"
  | AuthDowngrade string int int
  | AuthAuthenticated jsval
  | Requested string jsval
  | Verified string jsval string bool
  | Signed string jsval

datatype auth_mode =
    Account jsval
  | Claimant string string

record challenge =
  ch_challengeId :: string
  ch_nonceB64 :: string
  ch_nodeKeyId :: string
  ch_nodePublicKeyB64 :: string
  ch_relayKeyId :: string
  ch_issuedAtMs :: jnum
  ch_expiresAtMs :: jnum
  ch_wsPath :: string
  ch_signatureB64 :: string

record 'b auth =
  au_state :: auth_state
  au_mode :: auth_mode
  au_sessionInfo :: "jsval option"
  au_requestType :: string
  au_responseType :: string
  au_helloBody :: jsval
  au_clientVersion :: string
  au_expectedNode :: string
  au_floor :: "('b floor_store \<times> bool) option"
  au_log :: "auth_event list"

record 'w auth_env =
  ae_sendRequest :: "jsval \<Rightarrow> ('w, jsval) io"
  ae_now :: "('w, rat) io"
  ae_subtle :: bool
  ae_importKey :: "string \<Rightarrow> octets \<Rightarrow> ('w, octets) io"
  ae_sign :: "octets \<Rightarrow> octets \<Rightarrow> ('w, octets) io"
  ae_verify :: "octets \<Rightarrow> octets \<Rightarrow> octets \<Rightarrow> ('w, bool) io"
  ae_base64ToBytes :: "string \<Rightarrow> octets res"
  ae_bytesToBase64 :: "octets \<Rightarrow> string"
  ae_canonicalJSONStringify :: "jsval \<Rightarrow> string"
  ae_validateRelayIdentityBinding :: "jsval \<Rightarrow> jsval"
  ae_CONTRACT_VERSION :: int
  ae_SESSION_HELLO :: string
  ae_SESSION_READY :: string
  ae_SESSION_CHALLENGE :: string
  ae_SESSION_AUTHENTICATE :: string

type_synonym ('b, 'w, 'a) auth_io = "('b auth \<times> 'w, 'a) io"

text \<open>\<open>new AuthFailure(message)\<close>; \<open>instanceof AuthFailure\<close> is the name it carries.\<close>

definition AuthFailure :: "string \<Rightarrow> js_err" where
  "AuthFailure message = JsErr ''AUTH_FAILURE'' message [(''name'', JStr ''AuthFailure''), (''retryable'', JBool False)]"

definition is_AuthFailure :: "js_err \<Rightarrow> bool" where
  "is_AuthFailure e \<longleftrightarrow> map_of (err_info e) ''name'' = Some (JStr ''AuthFailure'')"

section \<open>Signatures\<close>

definition requireSubtle :: "'w auth_env \<Rightarrow> ('w, unit) io" where
  "requireSubtle E =
     requireE (ae_subtle E) (JsErr ''BAD_CONFIG'' ''WebCrypto unavailable'' [(''retryable'', JBool False)])"

definition payload_bytes :: "'w auth_env \<Rightarrow> jsval \<Rightarrow> octets" where
  "payload_bytes E payload = utf8_encode (ae_canonicalJSONStringify E (js_or payload (JObj [])))"

definition signPayload :: "'w auth_env \<Rightarrow> jsval \<Rightarrow> jsval \<Rightarrow> ('w, string) io" where
  "signPayload E privateKeyB64 payload =
     bindE (requireSubtle E) (\<lambda>_.
     bindE (liftE (ae_base64ToBytes E (str_or_empty privateKeyB64))) (\<lambda>privateKeyBytes.
     bindE (ae_importKey E ''pkcs8'' privateKeyBytes) (\<lambda>key.
     bindE (ae_sign E key (payload_bytes E payload)) (\<lambda>sig.
     retE (ae_bytesToBase64 E sig)))))"

definition verifyPayload :: "'w auth_env \<Rightarrow> jsval \<Rightarrow> jsval \<Rightarrow> jsval \<Rightarrow> ('w, bool) io" where
  "verifyPayload E publicKeyB64 payload signatureB64 =
     (case (publicKeyB64, signatureB64) of
        (JStr pub, JStr sig) \<Rightarrow>
          if pub = [] \<or> sig = [] then retE False
          else if \<not> ae_subtle E then retE False
          else (case (ae_base64ToBytes E pub, ae_base64ToBytes E sig) of
              (Inr publicKeyBytes, Inr signatureBytes) \<Rightarrow>
                catchE (bindE (ae_importKey E ''spki'' publicKeyBytes) (\<lambda>key.
                          ae_verify E key signatureBytes (payload_bytes E payload)))
                  (\<lambda>_. retE False)
            | _ \<Rightarrow> retE False)
      | _ \<Rightarrow> retE False)"

section \<open>The constructor\<close>

definition hello_type :: "jsval \<Rightarrow> string \<Rightarrow> string \<Rightarrow> string" where
  "hello_type sessionHello field d = js_String (js_or (getp sessionHello field) (JStr d))"

definition has_delegation :: "jsval \<Rightarrow> bool" where
  "has_delegation identity =
     (is_object (getp identity ''deviceKey'')
      \<and> js_truthy (getp (getp identity ''deviceKey'') ''publicKeyB64'')
      \<and> js_truthy (getp (getp identity ''deviceKey'') ''privateKeyB64'')
      \<and> (case getp identity ''certChain'' of JArr xs \<Rightarrow> xs \<noteq> [] | _ \<Rightarrow> False))"

definition mk_auth ::
    "'w auth_env \<Rightarrow> jsval \<Rightarrow> jsval \<Rightarrow> bool \<Rightarrow> jsval \<Rightarrow> jsval \<Rightarrow> jsval \<Rightarrow> ('b floor_store option \<times> jsval) option
      \<Rightarrow> 'b auth res" where
  "mk_auth E identity claimantIdentity eventBus sessionHello clientVersion expectedNode relayContractFloor =
     (let mk = (\<lambda>mode body floor. \<lparr>au_state = UNAUTHENTICATED, au_mode = mode, au_sessionInfo = None,
            au_requestType = hello_type sessionHello ''requestType'' (ae_SESSION_HELLO E),
            au_responseType = hello_type sessionHello ''responseType'' (ae_SESSION_READY E),
            au_helloBody = body,
            au_clientVersion = js_String (js_or clientVersion (JStr ''rez-sdk/2.0'')),
            au_expectedNode = trimmed expectedNode, au_floor = floor, au_log = []\<rparr>)
      in if js_truthy claimantIdentity \<and> js_truthy identity
         then Inl (plain_err ''AuthStateMachine takes identity (account) OR claimantIdentity (claimant), never both'')
         else
           bind_r (case relayContractFloor of
                     None \<Rightarrow> Inr None
                   | Some (None, enforce) \<Rightarrow> Inl (plain_err ''relayContractFloor requires a RelayContractFloorStore-shaped store'')
                   | Some (Some store, enforce) \<Rightarrow> Inr (Some (store, enforce = JBool True)))
             (\<lambda>floor.
               if js_truthy claimantIdentity then
                 (if \<not> js_truthy (getp claimantIdentity ''claimantPublicKeyB64'') \<or> \<not> js_truthy (getp claimantIdentity ''privateKeyB64'')
                  then Inl (plain_err ''AuthStateMachine claimant mode requires claimantIdentity.claimantPublicKeyB64 and privateKeyB64'')
                  else if \<not> eventBus then Inl (plain_err ''AuthStateMachine requires eventBus'')
                  else Inr (mk (Claimant (js_trim (js_String (getp claimantIdentity ''claimantPublicKeyB64'')))
                                  (js_String (getp claimantIdentity ''privateKeyB64''))) (JObj []) floor))
               else if \<not> js_truthy (getp identity ''publicKeyB64'')
                 then Inl (plain_err ''AuthStateMachine requires identity with publicKeyB64'')
               else if \<not> js_truthy (getp identity ''privateKeyB64'') \<and> \<not> has_delegation identity
                 then Inl (plain_err ''AuthStateMachine requires identity.privateKeyB64 (primary) or identity.deviceKey + certChain (delegated)'')
               else if \<not> eventBus then Inl (plain_err ''AuthStateMachine requires eventBus'')
               else Inr (mk (Account identity)
                 (if is_object (getp sessionHello ''body'') then getp sessionHello ''body'' else JObj []) floor)))"

section \<open>The handshake\<close>

definition note_event :: "auth_event \<Rightarrow> ('b, 'w, unit) auth_io" where
  "note_event e = modifyE (\<lambda>au. au\<lparr>au_log := au_log au @ [e]\<rparr>)"

definition auth_transition :: "auth_state \<Rightarrow> (string \<times> jsval) list \<Rightarrow> ('b, 'w, unit) auth_io" where
  "auth_transition newState detail =
     modifyE (\<lambda>au. au\<lparr>au_state := newState, au_log := au_log au @ [AuthStateChanged (au_state au) newState detail]\<rparr>)"

definition request :: "'w auth_env \<Rightarrow> string \<Rightarrow> jsval \<Rightarrow> jsval \<Rightarrow> ('b, 'w, jsval) auth_io" where
  "request E type body expected =
     bindE (note_event (Requested type body)) (\<lambda>_.
       ext (ae_sendRequest E (JObj [(''type'', JStr type), (''body'', body),
         (''expectedResponseType'', expected), (''timeoutMs'', JInt 5000)])))"

definition read_challenge :: "jsval \<Rightarrow> challenge" where
  "read_challenge b =
     \<lparr>ch_challengeId = str_or_empty (getp b ''challengeId''),
      ch_nonceB64 = str_or_empty (getp b ''nonceB64''),
      ch_nodeKeyId = str_or_empty (getp b ''nodeKeyId''),
      ch_nodePublicKeyB64 = str_or_empty (getp b ''nodePublicKeyB64''),
      ch_relayKeyId = str_or_empty (getp b ''relayKeyId''),
      ch_issuedAtMs = js_Number (getp b ''issuedAtMs''),
      ch_expiresAtMs = js_Number (getp b ''expiresAtMs''),
      ch_wsPath = str_or_empty (getp b ''wsPath''),
      ch_signatureB64 = str_or_empty (getp b ''signatureB64'')\<rparr>"

definition complete_challenge :: "challenge \<Rightarrow> bool" where
  "complete_challenge c \<longleftrightarrow> ch_challengeId c \<noteq> [] \<and> ch_nonceB64 c \<noteq> [] \<and> ch_nodeKeyId c \<noteq> []
     \<and> ch_nodePublicKeyB64 c \<noteq> [] \<and> ch_relayKeyId c \<noteq> [] \<and> isFinite_num (ch_issuedAtMs c)
     \<and> isFinite_num (ch_expiresAtMs c) \<and> ch_wsPath c \<noteq> [] \<and> ch_signatureB64 c \<noteq> []"

definition relay_binding :: "'w auth_env \<Rightarrow> challenge \<Rightarrow> jsval" where
  "relay_binding E c = ae_validateRelayIdentityBinding E
     (JObj [(''relayKeyId'', JStr (ch_relayKeyId c)), (''nodeKeyId'', JStr (ch_nodeKeyId c)),
            (''nodePublicKeyB64'', JStr (ch_nodePublicKeyB64 c))])"

definition pinned_to :: "'b auth \<Rightarrow> challenge \<Rightarrow> bool" where
  "pinned_to au c \<longleftrightarrow> au_expectedNode au = [] \<or> au_expectedNode au = ch_nodePublicKeyB64 c"

definition parseAndValidateChallenge :: "'w auth_env \<Rightarrow> jsval \<Rightarrow> ('b, 'w, challenge) auth_io" where
  "parseAndValidateChallenge E helloResponse =
     (let responseType = str_or_empty (getp helloResponse ''t'');
          body = getp helloResponse ''body'';
          c = read_challenge (if is_object body then body else JObj [])
      in bindE (requireE (responseType = ae_SESSION_CHALLENGE E)
           (AuthFailure (''unexpected response type: '' @ (if responseType = [] then ''unknown'' else responseType)))) (\<lambda>_.
         bindE (auth_transition CHALLENGE_RECEIVED []) (\<lambda>_.
         bindE (requireE (complete_challenge c) (AuthFailure ''session challenge incomplete'')) (\<lambda>_.
         bindE (requireE (getp (relay_binding E c) ''ok'' = JBool True)
           (AuthFailure (''session challenge relay identity invalid: '' @ js_String (getp (relay_binding E c) ''reason'')))) (\<lambda>_.
         bindE (ext (ae_now E)) (\<lambda>now.
         bindE (requireE (\<not> num_less (ch_expiresAtMs c) (Fin now)) (AuthFailure ''session challenge expired'')) (\<lambda>_.
         bindE (getsE (\<lambda>au. pinned_to au c)) (\<lambda>pinned.
         bindE (requireE pinned (AuthFailure (''session challenge from unexpected node - refusing to sign. ''
           @ ''Configured expectedNodePublicKeyB64 does not match the challenge.''))) (\<lambda>_.
         retE c)))))))))"

text \<open>The payload whose signature the node proves its key with; \<open>extra\<close> names the principal.\<close>

definition challenge_payload :: "string \<Rightarrow> (string \<times> jsval) list \<Rightarrow> challenge \<Rightarrow> jsval" where
  "challenge_payload kind extra c = JObj
     ([(''kind'', JStr kind), (''challengeId'', JStr (ch_challengeId c)), (''nonceB64'', JStr (ch_nonceB64 c)),
       (''issuedAtMs'', JNum (ch_issuedAtMs c)), (''expiresAtMs'', JNum (ch_expiresAtMs c)),
       (''nodeKeyId'', JStr (ch_nodeKeyId c)), (''nodePublicKeyB64'', JStr (ch_nodePublicKeyB64 c)),
       (''relayKeyId'', JStr (ch_relayKeyId c))] @ extra @ [(''wsPath'', JStr (ch_wsPath c))])"

definition auth_payload :: "string \<Rightarrow> (string \<times> jsval) list \<Rightarrow> challenge \<Rightarrow> jsval" where
  "auth_payload kind extra c = JObj
     ([(''kind'', JStr kind), (''challengeId'', JStr (ch_challengeId c)), (''nonceB64'', JStr (ch_nonceB64 c)),
       (''nodeKeyId'', JStr (ch_nodeKeyId c)), (''nodePublicKeyB64'', JStr (ch_nodePublicKeyB64 c)),
       (''relayKeyId'', JStr (ch_relayKeyId c))] @ extra @ [(''wsPath'', JStr (ch_wsPath c))])"

definition verifiedChallenge ::
    "'w auth_env \<Rightarrow> jsval \<Rightarrow> string \<Rightarrow> (string \<times> jsval) list \<Rightarrow> ('b, 'w, challenge) auth_io" where
  "verifiedChallenge E helloBody kind extra =
     bindE (auth_transition HELLO_SENT []) (\<lambda>_.
     bindE (getsE au_requestType) (\<lambda>requestType.
     bindE (request E requestType helloBody JNull) (\<lambda>helloResponse.
     bindE (parseAndValidateChallenge E helloResponse) (\<lambda>c.
     let payload = challenge_payload kind extra c in
     bindE (ext (verifyPayload E (JStr (ch_nodePublicKeyB64 c)) payload (JStr (ch_signatureB64 c)))) (\<lambda>verified.
     bindE (note_event (Verified (ch_nodePublicKeyB64 c) payload (ch_signatureB64 c) verified)) (\<lambda>_.
     if \<not> verified then throwE (AuthFailure ''session challenge signature did not verify'')
     else retE c))))))"

text \<open>Sign the challenge, send \<open>session.authenticate\<close> and read the body of the answer.\<close>

definition answerChallenge ::
    "'w auth_env \<Rightarrow> jsval \<Rightarrow> jsval \<Rightarrow> string \<Rightarrow> (string \<times> jsval) list \<Rightarrow> ('b, 'w, jsval) auth_io" where
  "answerChallenge E privateKeyB64 payload challengeId extraBody =
     bindE (auth_transition AUTHENTICATING []) (\<lambda>_.
     bindE (ext (signPayload E privateKeyB64 payload)) (\<lambda>signatureB64.
     bindE (note_event (Signed (str_or_empty privateKeyB64) payload)) (\<lambda>_.
     bindE (getsE au_responseType) (\<lambda>responseType.
     bindE (request E (ae_SESSION_AUTHENTICATE E)
       (JObj ([(''challengeId'', JStr challengeId), (''signatureB64'', JStr signatureB64)] @ extraBody))
       (js_or (JStr responseType) JNull)) (\<lambda>readyResponse.
     let readyType = str_or_empty (getp readyResponse ''t'') in
     bindE (requireE (responseType = [] \<or> readyType = responseType)
       (AuthFailure (''unexpected ready type: '' @ (if readyType = [] then ''unknown'' else readyType)))) (\<lambda>_.
     retE (if is_object (getp readyResponse ''body'') then getp readyResponse ''body'' else JObj [])))))))"

definition recordContractFloor :: "string \<Rightarrow> int \<Rightarrow> ('b, 'w, unit) auth_io" where
  "recordContractFloor nodePublicKeyB64 contractVersion =
     bindE (getsE au_floor) (\<lambda>floor.
     case floor of
       None \<Rightarrow> retE ()
     | Some (store, enforce) \<Rightarrow>
         (case recordObserved store (JStr nodePublicKeyB64) (JInt contractVersion) of
            (r, store') \<Rightarrow>
              bindE (modifyE (\<lambda>au. au\<lparr>au_floor := Some (store', enforce)\<rparr>)) (\<lambda>_.
              bindE (liftE r) (\<lambda>result.
              if ob_downgrade result
              then note_event (AuthDowngrade nodePublicKeyB64 (ob_floor result) (ob_current result))
              else retE ()))))"

definition enterSession ::
    "jsval \<Rightarrow> int \<Rightarrow> string \<Rightarrow> challenge \<Rightarrow> (string \<times> jsval) list \<Rightarrow> ('b, 'w, jsval) auth_io" where
  "enterSession readyBody contractVersion authMode c who =
     (let node = [(''nodeKeyId'', JStr (ch_nodeKeyId c)), (''nodePublicKeyB64'', JStr (ch_nodePublicKeyB64 c)),
                  (''relayKeyId'', JStr (ch_relayKeyId c))];
          info = spread readyBody ([(''contractVersion'', JInt contractVersion), (''authMode'', JStr authMode)] @ node)
      in bindE (modifyE (\<lambda>au. au\<lparr>au_sessionInfo := Some info\<rparr>)) (\<lambda>_.
         bindE (auth_transition AUTHENTICATED []) (\<lambda>_.
         bindE (recordContractFloor (ch_nodePublicKeyB64 c) contractVersion) (\<lambda>_.
         bindE (note_event (AuthAuthenticated (JObj (who @ node)))) (\<lambda>_.
         retE info)))))"

text \<open>The \<open>catch\<close> block: the state is failed, and what is thrown is an \<open>AuthFailure\<close> that carries the
  code of the node.\<close>

definition fail_auth :: "js_err \<Rightarrow> ('b, 'w, 'a) auth_io" where
  "fail_auth err =
     bindE (auth_transition FAILED [(''error'', JStr (err_msg err))]) (\<lambda>_.
     if is_AuthFailure err then throwE err
     else
       (let failure = AuthFailure (if err_msg err = [] then ''auth failed'' else err_msg err);
            serverCode = js_trim (err_code err)
        in throwE (JsErr (err_code failure) (err_msg failure)
             (err_info failure @ (if serverCode = [] then [] else [(''serverCode'', JStr serverCode)])))))"

definition resetSession :: "('b, 'w, unit) auth_io" where
  "resetSession =
     bindE (modifyE (\<lambda>au. au\<lparr>au_sessionInfo := None\<rparr>)) (\<lambda>_. auth_transition UNAUTHENTICATED [])"

definition account_hello :: "jsval \<Rightarrow> jsval \<Rightarrow> string \<Rightarrow> jsval" where
  "account_hello identity helloBody clientVersion =
     spread helloBody [(''clientName'', JStr ''rez-sdk''), (''clientVersion'', JStr clientVersion),
       (''deviceId'', js_or (getp identity ''deviceId'') (JStr [])),
       (''accountIdentityPublicKeyB64'', getp identity ''publicKeyB64'')]"

text \<open>The refusal that precedes the hello: enforcement against a pinned relay.\<close>

definition refuseDowngrade :: "('b, 'w, unit) auth_io" where
  "refuseDowngrade =
     bindE (getsE (\<lambda>au. case au_floor au of
         Some (store, enforce) \<Rightarrow>
           if au_expectedNode au = [] then None
           else Some (permitsAccountModeAuth (JStr (au_expectedNode au)) (Some store) (JBool enforce))
       | None \<Rightarrow> None)) (\<lambda>verdict.
     case verdict of
       None \<Rightarrow> retE ()
     | Some v \<Rightarrow>
         if pm_permitted v then retE ()
         else
           (let msg = ''account-mode auth refused before hello: '' @ (case pm_reason v of Some s \<Rightarrow> s | None \<Rightarrow> ''null'');
                failure = AuthFailure msg
            in bindE (auth_transition FAILED [(''error'', JStr msg)]) (\<lambda>_.
               throwE (JsErr (err_code failure) (err_msg failure)
                 (err_info failure @ [(''serverCode'', JStr ''DOWNGRADE_REFUSED'')])))))"

definition authenticateAccount :: "'w auth_env \<Rightarrow> jsval \<Rightarrow> ('b, 'w, jsval) auth_io" where
  "authenticateAccount E identity =
     bindE resetSession (\<lambda>_.
     bindE refuseDowngrade (\<lambda>_.
     catchE
       (bindE (getsE (\<lambda>au. account_hello identity (au_helloBody au) (au_clientVersion au))) (\<lambda>hello.
        let deviceId = js_or (getp identity ''deviceId'') (JStr []);
            pub = getp identity ''publicKeyB64'';
            delegated = (\<not> js_truthy (getp identity ''privateKeyB64''));
            deviceKey = getp identity ''deviceKey''
        in bindE (verifiedChallenge E hello ''session-challenge''
               [(''accountIdentityPublicKeyB64'', pub), (''sessionDeviceId'', deviceId)]) (\<lambda>c.
           bindE (answerChallenge E
               (if delegated then getp deviceKey ''privateKeyB64'' else getp identity ''privateKeyB64'')
               (auth_payload ''session-auth'' [(''publicKeyB64'', pub), (''deviceId'', deviceId)] c)
               (ch_challengeId c)
               (if delegated then [(''signerPublicKeyB64'', getp deviceKey ''publicKeyB64''),
                                   (''certChain'', getp identity ''certChain'')] else [])) (\<lambda>readyBody.
           enterSession readyBody (ae_CONTRACT_VERSION E) ''account'' c
             [(''publicKeyB64'', pub), (''deviceId'', deviceId)]))))
       fail_auth))"

definition claimant_hello :: "string \<Rightarrow> string \<Rightarrow> jsval" where
  "claimant_hello pub clientVersion = JObj [(''contractVersion'', JInt 5), (''authMode'', JStr ''claimant''),
     (''clientName'', JStr ''rez-sdk''), (''clientVersion'', JStr clientVersion), (''claimantPublicKeyB64'', JStr pub)]"

definition authenticateClaimant :: "'w auth_env \<Rightarrow> string \<Rightarrow> string \<Rightarrow> ('b, 'w, jsval) auth_io" where
  "authenticateClaimant E pub priv =
     bindE resetSession (\<lambda>_.
     catchE
       (bindE (getsE (\<lambda>au. claimant_hello pub (au_clientVersion au))) (\<lambda>hello.
        bindE (verifiedChallenge E hello ''session-challenge-claimant'' [(''claimantPublicKeyB64'', JStr pub)]) (\<lambda>c.
        bindE (answerChallenge E (JStr priv)
            (auth_payload ''session-auth-claimant'' [(''claimantPublicKeyB64'', JStr pub)] c)
            (ch_challengeId c) []) (\<lambda>readyBody.
        enterSession readyBody 5 ''claimant'' c [(''claimantPublicKeyB64'', JStr pub)]))))
       fail_auth)"

definition authenticate :: "'w auth_env \<Rightarrow> ('b, 'w, jsval) auth_io" where
  "authenticate E =
     bindE (getsE au_mode) (\<lambda>mode.
     case mode of
       Claimant pub priv \<Rightarrow> authenticateClaimant E pub priv
     | Account identity \<Rightarrow> authenticateAccount E identity)"

definition reauthenticate :: "'w auth_env \<Rightarrow> ('b, 'w, jsval) auth_io" where
  "reauthenticate E = authenticate E"

definition auth_reset :: "'b auth \<Rightarrow> 'b auth" where
  "auth_reset au = au\<lparr>au_state := UNAUTHENTICATED, au_sessionInfo := None\<rparr>"

end
