(* ===== verification/Auth_Props.thy ===== *)
theory Auth_Props
  imports Auth
begin

text \<open>
  What the handshake promises whatever the node, the network and the crypto provider do: it
  signs only for a node that has proved its key, it ends authenticated or failed, a claimant
  never names an account, and an enforced floor stops an account handshake before its first
  frame.
\<close>

section \<open>The steps of the handshake\<close>

text \<open>The configuration of a machine, which no step changes.\<close>

definition same_cfg :: "'b auth \<Rightarrow> 'b auth \<Rightarrow> bool" where
  "same_cfg au au' \<longleftrightarrow> au_mode au' = au_mode au \<and> au_requestType au' = au_requestType au
     \<and> au_responseType au' = au_responseType au \<and> au_helloBody au' = au_helloBody au
     \<and> au_clientVersion au' = au_clientVersion au \<and> au_expectedNode au' = au_expectedNode au"

text \<open>A step that extends the log by events of \<open>P\<close> only, keeping the configuration.\<close>

definition extends :: "(auth_event \<Rightarrow> bool) \<Rightarrow> 'b auth \<Rightarrow> 'b auth \<Rightarrow> bool" where
  "extends P au au' \<longleftrightarrow> same_cfg au au' \<and> (\<exists>u. au_log au' = au_log au @ u \<and> list_all P u)"

lemma extends_refl [simp]: "extends P au au"
  by (simp add: extends_def same_cfg_def)

lemma extends_trans: "extends P a b \<Longrightarrow> extends P b c \<Longrightarrow> extends P a c"
  by (auto simp: extends_def same_cfg_def)

lemma extends_weaken: "extends P a b \<Longrightarrow> (\<And>e. P e \<Longrightarrow> Q e) \<Longrightarrow> extends Q a b"
  by (auto simp: extends_def list_all_iff)

fun is_bus_event :: "auth_event \<Rightarrow> bool" where
  "is_bus_event (Requested t b) = False"
| "is_bus_event (Signed k p) = False"
| "is_bus_event (Verified k p g b) = False"
| "is_bus_event e = True"

lemmas step_defs = auth_transition_def note_event_def request_def getsE_def modifyE_def ext_def
  bindE_def requireE_def liftE_def

lemma transition_run [simp]:
  "auth_transition s d (au, w) =
     (Inr (), (au\<lparr>au_state := s, au_log := au_log au @ [AuthStateChanged (au_state au) s d]\<rparr>, w))"
  by (simp add: auth_transition_def modifyE_def)

lemma note_run [simp]: "note_event e (au, w) = (Inr (), (au\<lparr>au_log := au_log au @ [e]\<rparr>, w))"
  by (simp add: note_event_def modifyE_def)

lemma gets_run [simp]: "getsE f (s, w) = (Inr (f s), (s, w))"
  by (simp add: getsE_def)

lemma modify_run [simp]: "modifyE f (s, w) = (Inr (), (f s, w))"
  by (simp add: modifyE_def)

lemma parse_run:
  assumes "parseAndValidateChallenge E resp (au, w) = (r, (au', w'))"
  shows "extends is_bus_event au au' \<and> au_floor au' = au_floor au \<and> au_sessionInfo au' = au_sessionInfo au \<and>
    (\<forall>c. r = Inr c \<longrightarrow> pinned_to au c \<and> complete_challenge c \<and> getp (relay_binding E c) ''ok'' = JBool True)"
proof -
  let ?c = "read_challenge (if is_object (getp resp ''body'') then getp resp ''body'' else JObj [])"
  let ?au = "au\<lparr>au_state := CHALLENGE_RECEIVED,
    au_log := au_log au @ [AuthStateChanged (au_state au) CHALLENGE_RECEIVED []]\<rparr>"
  have "(au' = au \<or> au' = ?au) \<and> (\<forall>c. r = Inr c \<longrightarrow> c = ?c \<and> pinned_to ?au c \<and> complete_challenge c
      \<and> getp (relay_binding E c) ''ok'' = JBool True)"
    using assms unfolding parseAndValidateChallenge_def Let_def
    by (auto simp: bindE_def requireE_def ext_def split: if_splits prod.splits sum.splits)
  then show ?thesis
    by (auto simp: extends_def same_cfg_def pinned_to_def)
qed

text \<open>The crypto provider has answered that a signature of a payload is valid under a key.\<close>

definition signature_valid :: "'w auth_env \<Rightarrow> string \<Rightarrow> jsval \<Rightarrow> string \<Rightarrow> bool" where
  "signature_valid E publicKeyB64 payload signatureB64 \<longleftrightarrow> (\<exists>pub sig key u u' v v'.
     ae_base64ToBytes E publicKeyB64 = Inr pub \<and> ae_base64ToBytes E signatureB64 = Inr sig
     \<and> ae_importKey E ''spki'' pub u = (Inr key, u') \<and> ae_verify E key sig (payload_bytes E payload) v = (Inr True, v'))"

lemma verifyPayload_valid: "verifyPayload E (JStr k) p (JStr g) w = (Inr True, w') \<Longrightarrow> signature_valid E k p g"
  unfolding verifyPayload_def signature_valid_def
  by (auto simp: bindE_def catchE_def split: if_splits sum.splits prod.splits)

text \<open>The verification of a challenge that let the handshake go on.\<close>

definition challenge_verified :: "'w auth_env \<Rightarrow> string \<Rightarrow> (string \<times> jsval) list \<Rightarrow> challenge \<Rightarrow> auth_event list \<Rightarrow> bool" where
  "challenge_verified E kind extra c u \<longleftrightarrow>
     Verified (ch_nodePublicKeyB64 c) (challenge_payload kind extra c) (ch_signatureB64 c) True \<in> set u
     \<and> signature_valid E (ch_nodePublicKeyB64 c) (challenge_payload kind extra c) (ch_signatureB64 c)"

text \<open>The events of the first half: bus events, the hello, and the verification of a challenge.\<close>

definition first_half :: "string \<Rightarrow> jsval \<Rightarrow> auth_event \<Rightarrow> bool" where
  "first_half t hello e \<longleftrightarrow> is_bus_event e \<or> e = Requested t hello \<or> (\<exists>k p g b. e = Verified k p g b)"

lemma verified_run:
  assumes "verifiedChallenge E hello kind extra (au, w) = (r, (au', w'))"
  shows "extends (first_half (au_requestType au) hello) au au' \<and> au_floor au' = au_floor au
    \<and> au_sessionInfo au' = au_sessionInfo au \<and>
    (\<forall>c. r = Inr c \<longrightarrow> pinned_to au c \<and>
       (\<exists>u. au_log au' = au_log au @ u \<and> challenge_verified E kind extra c u))"
proof -
  let ?F = "first_half (au_requestType au) hello"
  let ?a1 = "au\<lparr>au_state := HELLO_SENT, au_log := au_log au @ [AuthStateChanged (au_state au) HELLO_SENT []]\<rparr>"
  let ?a2 = "?a1\<lparr>au_log := au_log ?a1 @ [Requested (au_requestType au) hello]\<rparr>"
  have e2: "extends ?F au ?a2" by (simp add: extends_def same_cfg_def first_half_def)
  obtain r1 w1 where send: "ae_sendRequest E (JObj [(''type'', JStr (au_requestType au)), (''body'', hello),
      (''expectedResponseType'', JNull), (''timeoutMs'', JInt 5000)]) w = (r1, w1)"
    by fastforce
  have req: "request E (au_requestType au) hello JNull (?a1, w) = (r1, (?a2, w1))"
    using send by (simp add: request_def bindE_def ext_def)
  show ?thesis
  proof (cases r1)
    case (Inl e)
    then have "au' = ?a2 \<and> r = Inl e"
      using assms req by (simp add: verifiedChallenge_def bindE_def)
    then show ?thesis using e2 by simp
  next
    case (Inr resp)
    obtain r2 a3 w3 where parse: "parseAndValidateChallenge E resp (?a2, w1) = (r2, (a3, w3))"
      by (metis prod_cases3)
    note p = parse_run [OF parse]
    have e3: "extends ?F au a3"
      using e2 p by (blast intro: extends_trans extends_weaken [of is_bus_event _ _ ?F] first_half_def [THEN iffD2])
    show ?thesis
    proof (cases r2)
      case (Inl e)
      then have "au' = a3 \<and> r = Inl e"
        using assms req Inr parse by (simp add: verifiedChallenge_def bindE_def)
      then show ?thesis using e3 p by simp
    next
      case r2: (Inr c)
      let ?p = "challenge_payload kind extra c"
      let ?a4 = "\<lambda>b. a3\<lparr>au_log := au_log a3 @ [Verified (ch_nodePublicKeyB64 c) ?p (ch_signatureB64 c) b]\<rparr>"
      have pin: "pinned_to au c" using p r2 by (simp add: pinned_to_def)
      have "(\<exists>e. au' \<in> {a3, ?a4 False} \<and> r = Inl e)
          \<or> (au' = ?a4 True \<and> r = Inr c \<and> signature_valid E (ch_nodePublicKeyB64 c) ?p (ch_signatureB64 c))"
        using assms req Inr parse r2
        by (auto simp: verifiedChallenge_def bindE_def ext_def Let_def split: prod.splits sum.splits if_splits intro: verifyPayload_valid)
      moreover have "extends ?F a3 (?a4 b)" for b by (simp add: extends_def same_cfg_def first_half_def)
      moreover have "extends ?F au (?a4 b)" for b by (rule extends_trans [OF e3 \<open>extends ?F a3 (?a4 b)\<close>])
      ultimately show ?thesis
        using e3 p pin by (auto simp: extends_def challenge_verified_def)
    qed
  qed
qed

text \<open>The events of the second half: one payload signed, one answer sent.\<close>

definition second_half :: "'w auth_env \<Rightarrow> string \<Rightarrow> jsval \<Rightarrow> string \<Rightarrow> (string \<times> jsval) list \<Rightarrow> auth_event \<Rightarrow> bool" where
  "second_half E key payload cid extra e \<longleftrightarrow> is_bus_event e \<or> e = Signed key payload
     \<or> (\<exists>sig. e = Requested (ae_SESSION_AUTHENTICATE E)
           (JObj ([(''challengeId'', JStr cid), (''signatureB64'', JStr sig)] @ extra)))"

lemma answer_run:
  assumes "answerChallenge E key payload cid extra (au, w) = (r, (au', w'))"
  shows "extends (second_half E (str_or_empty key) payload cid extra) au au' \<and> au_floor au' = au_floor au
    \<and> au_sessionInfo au' = au_sessionInfo au"
proof -
  let ?S = "second_half E (str_or_empty key) payload cid extra"
  let ?a1 = "au\<lparr>au_state := AUTHENTICATING, au_log := au_log au @ [AuthStateChanged (au_state au) AUTHENTICATING []]\<rparr>"
  let ?a2 = "?a1\<lparr>au_log := au_log ?a1 @ [Signed (str_or_empty key) payload]\<rparr>"
  let ?body = "\<lambda>sig. JObj ([(''challengeId'', JStr cid), (''signatureB64'', JStr sig)] @ extra)"
  let ?a3 = "\<lambda>sig. ?a2\<lparr>au_log := au_log ?a2 @ [Requested (ae_SESSION_AUTHENTICATE E) (?body sig)]\<rparr>"
  have e: "extends ?S au ?a1" "\<And>sig. extends ?S au (?a3 sig)"
    by (simp_all add: extends_def same_cfg_def second_half_def)
  obtain r1 w1 where sg: "signPayload E key payload w = (r1, w1)" by fastforce
  have "au' = ?a1 \<or> (\<exists>sig. au' = ?a3 sig)"
  proof (cases r1)
    case (Inl x)
    then show ?thesis using assms sg by (simp add: answerChallenge_def bindE_def ext_def)
  next
    case (Inr sig)
    let ?arg = "JObj [(''type'', JStr (ae_SESSION_AUTHENTICATE E)), (''body'', ?body sig),
      (''expectedResponseType'', js_or (JStr (au_responseType au)) JNull), (''timeoutMs'', JInt 5000)]"
    obtain r2 w2 where "ae_sendRequest E ?arg w1 = (r2, w2)" by fastforce
    then have "request E (ae_SESSION_AUTHENTICATE E) (?body sig) (js_or (JStr (au_responseType au)) JNull) (?a2, w1)
        = (r2, (?a3 sig, w2))"
      by (simp add: request_def bindE_def ext_def)
    then have "au' = ?a3 sig"
      using assms sg Inr
      by (cases r2) (auto simp: answerChallenge_def bindE_def ext_def requireE_def Let_def split: if_splits)
    then show ?thesis by blast
  qed
  then show ?thesis using e by auto
qed

lemma enter_run:
  assumes "enterSession body v mode c who (au, w) = (r, (au', w'))"
  shows "extends is_bus_event au au' \<and> (\<forall>info. r = Inr info \<longrightarrow>
    au_state au' = AUTHENTICATED \<and> au_sessionInfo au' = Some info
    \<and> getp info ''nodePublicKeyB64'' = JStr (ch_nodePublicKeyB64 c) \<and> getp info ''contractVersion'' = JInt v
    \<and> (\<forall>st f. au_floor au = Some (st, f) \<longrightarrow>
         au_floor au' = Some (snd (recordObserved st (JStr (ch_nodePublicKeyB64 c)) (JInt v)), f)
         \<and> accepted (JStr (ch_nodePublicKeyB64 c)) (JInt v)))"
proof -
  let ?k = "ch_nodePublicKeyB64 c"
  have info: "getp (spread body ([(''contractVersion'', JInt v), (''authMode'', JStr mode),
      (''nodeKeyId'', x), (''nodePublicKeyB64'', JStr ?k), (''relayKeyId'', y)])) ''nodePublicKeyB64'' = JStr ?k"
    "getp (spread body ([(''contractVersion'', JInt v), (''authMode'', JStr mode),
      (''nodeKeyId'', x), (''nodePublicKeyB64'', JStr ?k), (''relayKeyId'', y)])) ''contractVersion'' = JInt v" for x y
    by (cases body; simp add: spread_def)+
  have acc: "accepted (JStr ?k) (JInt v)" if "fst (recordObserved st (JStr ?k) (JInt v)) = Inr x" for st :: "'a floor_store" and x
    using recordObserved_rejected [of "JStr ?k" "JInt v" st] that by (cases "accepted (JStr ?k) (JInt v)") auto
  show ?thesis
  proof (cases "au_floor au")
    case None
    then show ?thesis
      using assms info
      by (auto simp: enterSession_def recordContractFloor_def bindE_def Let_def extends_def same_cfg_def)
  next
    case (Some sf)
    obtain st f where sf: "sf = (st, f)" by (cases sf)
    obtain r1 st1 where ro: "recordObserved st (JStr ?k) (JInt v) = (r1, st1)" by fastforce
    show ?thesis
    proof (cases r1)
      case (Inl x)
      then show ?thesis
        using assms Some sf ro
        by (auto simp: enterSession_def recordContractFloor_def bindE_def Let_def extends_def same_cfg_def liftE_def)
    next
      case (Inr ob)
      then show ?thesis
        using assms Some sf ro info acc [of st ob]
        by (auto simp: enterSession_def recordContractFloor_def bindE_def Let_def extends_def same_cfg_def
            liftE_def split: if_splits)
    qed
  qed
qed

lemma fail_run:
  assumes "fail_auth e (au, w) = (r, (au', w'))"
  shows "extends is_bus_event au au' \<and> au_state au' = FAILED \<and> (\<exists>x. r = Inl x \<and> is_AuthFailure x)"
  using assms
  by (auto simp: fail_auth_def bindE_def Let_def extends_def same_cfg_def is_AuthFailure_def AuthFailure_def
      split: if_splits)

lemma reset_run:
  "resetSession (au, w) = (Inr (), (au\<lparr>au_sessionInfo := None, au_state := UNAUTHENTICATED,
     au_log := au_log au @ [AuthStateChanged (au_state au) UNAUTHENTICATED []]\<rparr>, w))"
  by (simp add: resetSession_def bindE_def)

section \<open>A whole handshake\<close>

text \<open>The body of the \<open>try\<close> block, in either mode: a verified challenge, its answer, the session.\<close>

definition handshake ::
    "'w auth_env \<Rightarrow> jsval \<Rightarrow> string \<Rightarrow> (string \<times> jsval) list \<Rightarrow> jsval \<Rightarrow> (challenge \<Rightarrow> jsval)
     \<Rightarrow> (string \<times> jsval) list \<Rightarrow> int \<Rightarrow> string \<Rightarrow> (string \<times> jsval) list \<Rightarrow> ('b, 'w, jsval) auth_io" where
  "handshake E hello kind extra key payload extraBody v mode who =
     bindE (verifiedChallenge E hello kind extra) (\<lambda>c.
     bindE (answerChallenge E key (payload c) (ch_challengeId c) extraBody) (\<lambda>readyBody.
     enterSession readyBody v mode c who))"

text \<open>What a handshake has put in the log: nothing but its own hello before the challenge was
  verified, and after it one signature, made for the verified challenge.\<close>

definition proper_trace ::
    "'w auth_env \<Rightarrow> string \<Rightarrow> string \<Rightarrow> jsval \<Rightarrow> string \<Rightarrow> (string \<times> jsval) list \<Rightarrow> string \<Rightarrow> (challenge \<Rightarrow> jsval)
     \<Rightarrow> (string \<times> jsval) list \<Rightarrow> auth_event list \<Rightarrow> bool" where
  "proper_trace E expected t hello kind extra key payload extraBody u \<longleftrightarrow>
     list_all (first_half t hello) u
     \<or> (\<exists>u1 u2 c. u = u1 @ u2 \<and> list_all (first_half t hello) u1
          \<and> challenge_verified E kind extra c u1
          \<and> (expected = [] \<or> expected = ch_nodePublicKeyB64 c)
          \<and> list_all (second_half E key (payload c) (ch_challengeId c) extraBody) u2)"

lemma first_half_bus: "is_bus_event e \<Longrightarrow> first_half t h e"
  and second_half_bus: "is_bus_event e \<Longrightarrow> second_half E k p i x e"
  by (simp_all add: first_half_def second_half_def)

lemma requested_first: "first_half t hello (Requested t' b) \<Longrightarrow> b = hello"
  by (simp add: first_half_def)

lemma requested_second: "second_half E k p i x (Requested t b) \<Longrightarrow>
    \<exists>sig. b = JObj ([(''challengeId'', JStr i), (''signatureB64'', JStr sig)] @ x)"
  by (auto simp: second_half_def)

lemma handshake_run:
  assumes "handshake E hello kind extra key payload extraBody v mode who (au, w) = (r, (au', w'))"
  shows "same_cfg au au' \<and> (\<exists>u. au_log au' = au_log au @ u \<and>
      proper_trace E (au_expectedNode au) (au_requestType au) hello kind extra (str_or_empty key) payload extraBody u)
    \<and> (\<forall>info. r = Inr info \<longrightarrow> au_state au' = AUTHENTICATED \<and> au_sessionInfo au' = Some info
        \<and> getp info ''contractVersion'' = JInt v
        \<and> (\<forall>st f. au_floor au = Some (st, f) \<longrightarrow>
             (\<exists>k. getp info ''nodePublicKeyB64'' = JStr k \<and> accepted (JStr k) (JInt v)
                \<and> au_floor au' = Some (snd (recordObserved st (JStr k) (JInt v)), f))))"
proof -
  let ?F = "first_half (au_requestType au) hello"
  obtain r1 a1 w1 where v: "verifiedChallenge E hello kind extra (au, w) = (r1, (a1, w1))" by (metis prod_cases3)
  note f = verified_run [OF v]
  show ?thesis
  proof (cases r1)
    case (Inl e)
    then have "au' = a1 \<and> r = Inl e" using assms v by (simp add: handshake_def bindE_def)
    then show ?thesis using f by (auto simp: extends_def proper_trace_def)
  next
    case (Inr c)
    then obtain u1 where u1: "au_log a1 = au_log au @ u1" "list_all ?F u1"
        "challenge_verified E kind extra c u1"
      using f by (auto simp: extends_def)
    let ?S = "second_half E (str_or_empty key) (payload c) (ch_challengeId c) extraBody"
    have pin: "au_expectedNode au = [] \<or> au_expectedNode au = ch_nodePublicKeyB64 c"
      using f Inr by (simp add: pinned_to_def)
    obtain r2 a2 w2 where a: "answerChallenge E key (payload c) (ch_challengeId c) extraBody (a1, w1) = (r2, (a2, w2))"
      by (metis prod_cases3)
    note g = answer_run [OF a]
    have trace: "same_cfg au b \<and> (\<exists>u. au_log b = au_log au @ u \<and>
        proper_trace E (au_expectedNode au) (au_requestType au) hello kind extra (str_or_empty key) payload extraBody u)"
      if ex: "extends ?S a1 b" for b
    proof -
      obtain u2 where "au_log b = au_log a1 @ u2" "list_all ?S u2" using ex by (auto simp: extends_def)
      then have "au_log b = au_log au @ u1 @ u2 \<and>
          proper_trace E (au_expectedNode au) (au_requestType au) hello kind extra (str_or_empty key) payload extraBody (u1 @ u2)"
        using u1 pin by (auto simp: proper_trace_def)
      moreover have "same_cfg au b" using ex f by (auto simp: extends_def same_cfg_def)
      ultimately show ?thesis by blast
    qed
    show ?thesis
    proof (cases r2)
      case (Inl e)
      then have "au' = a2 \<and> r = Inl e" using assms v Inr a by (simp add: handshake_def bindE_def)
      then show ?thesis using trace [of a2] g by simp
    next
      case r2: (Inr body)
      then have en: "enterSession body v mode c who (a2, w2) = (r, (au', w'))"
        using assms v Inr a by (simp add: handshake_def bindE_def)
      note h = enter_run [OF en]
      have "extends ?S a1 au'"
        using g h by (blast intro: extends_trans extends_weaken [of is_bus_event] second_half_bus)
      then show ?thesis using trace [of au'] h f g by auto
    qed
  qed
qed

text \<open>The handshake with its \<open>catch\<close> block, started from a reset machine.\<close>

lemma guarded_run:
  assumes "catchE (handshake E hello kind extra key payload extraBody v mode who) fail_auth (au, w) = (r, (au', w'))"
  shows "same_cfg au au' \<and> (\<exists>u. au_log au' = au_log au @ u \<and> (\<exists>u1 u2. u = u1 @ u2 \<and> list_all is_bus_event u2 \<and>
      proper_trace E (au_expectedNode au) (au_requestType au) hello kind extra (str_or_empty key) payload extraBody u1))
    \<and> (case r of
         Inl e \<Rightarrow> au_state au' = FAILED \<and> is_AuthFailure e
       | Inr info \<Rightarrow> au_state au' = AUTHENTICATED \<and> au_sessionInfo au' = Some info
        \<and> getp info ''contractVersion'' = JInt v
        \<and> (\<forall>st f. au_floor au = Some (st, f) \<longrightarrow>
             (\<exists>k. getp info ''nodePublicKeyB64'' = JStr k \<and> accepted (JStr k) (JInt v)
                \<and> au_floor au' = Some (snd (recordObserved st (JStr k) (JInt v)), f))))"
proof -
  obtain r1 a1 w1 where h: "handshake E hello kind extra key payload extraBody v mode who (au, w) = (r1, (a1, w1))"
    by (metis prod_cases3)
  note run = handshake_run [OF h]
  show ?thesis
  proof (cases r1)
    case (Inl e)
    then have fa: "fail_auth e (a1, w1) = (r, (au', w'))" using assms h by (simp add: catchE_def)
    note f = fail_run [OF fa]
    obtain u1 u2 where u: "au_log a1 = au_log au @ u1" "au_log au' = au_log a1 @ u2" "list_all is_bus_event u2"
        "proper_trace E (au_expectedNode au) (au_requestType au) hello kind extra (str_or_empty key) payload extraBody u1"
      using run f by (auto simp: extends_def)
    then have "au_log au' = au_log au @ u1 @ u2" by simp
    moreover have "same_cfg au au'" using run f by (auto simp: extends_def same_cfg_def)
    ultimately show ?thesis using u f by auto
  next
    case (Inr info)
    then have eq: "r = Inr info" "au' = a1" using assms h by (auto simp: catchE_def)
    obtain u where "au_log a1 = au_log au @ u"
        "proper_trace E (au_expectedNode au) (au_requestType au) hello kind extra (str_or_empty key) payload extraBody u"
      using run by auto
    then have "\<exists>u. au_log au' = au_log au @ u \<and> (\<exists>u1 u2. u = u1 @ u2 \<and> list_all is_bus_event u2 \<and>
      proper_trace E (au_expectedNode au) (au_requestType au) hello kind extra (str_or_empty key) payload extraBody u1)"
      using eq by (intro exI [of _ u] conjI exI [of _ u] exI [of _ "[]"]) simp_all
    then show ?thesis using run Inr eq by simp
  qed
qed

text \<open>The state at which a handshake starts, after the reset.\<close>

definition fresh :: "'b auth \<Rightarrow> 'b auth" where
  "fresh au = au\<lparr>au_sessionInfo := None, au_state := UNAUTHENTICATED,
     au_log := au_log au @ [AuthStateChanged (au_state au) UNAUTHENTICATED []]\<rparr>"

definition account_secret :: "jsval \<Rightarrow> jsval" where
  "account_secret identity = (if js_truthy (getp identity ''privateKeyB64'') then getp identity ''privateKeyB64''
     else getp (getp identity ''deviceKey'') ''privateKeyB64'')"

lemma claimant_handshake:
  assumes "au_mode au = Claimant pub priv"
  shows "authenticate E (au, w) =
    catchE (handshake E (claimant_hello pub (au_clientVersion au)) ''session-challenge-claimant''
      [(''claimantPublicKeyB64'', JStr pub)] (JStr priv)
      (auth_payload ''session-auth-claimant'' [(''claimantPublicKeyB64'', JStr pub)]) [] 5 ''claimant''
      [(''claimantPublicKeyB64'', JStr pub)]) fail_auth (fresh au, w)"
  using assms
  by (simp add: authenticate_def authenticateClaimant_def bindE_def reset_run fresh_def catchE_def handshake_def)

lemma account_handshake:
  assumes "au_mode au = Account identity" "refuseDowngrade (fresh au, w) = (Inr (), (fresh au, w))"
  shows "\<exists>extraBody. authenticate E (au, w) =
    catchE (handshake E (account_hello identity (au_helloBody au) (au_clientVersion au)) ''session-challenge''
      [(''accountIdentityPublicKeyB64'', getp identity ''publicKeyB64''), (''sessionDeviceId'', js_or (getp identity ''deviceId'') (JStr []))]
      (account_secret identity)
      (auth_payload ''session-auth'' [(''publicKeyB64'', getp identity ''publicKeyB64''), (''deviceId'', js_or (getp identity ''deviceId'') (JStr []))])
      extraBody (ae_CONTRACT_VERSION E) ''account''
      [(''publicKeyB64'', getp identity ''publicKeyB64''), (''deviceId'', js_or (getp identity ''deviceId'') (JStr []))])
      fail_auth (fresh au, w)"
proof -
  have r: "resetSession (au, w) = (Inr (), (fresh au, w))" by (simp add: reset_run fresh_def)
  show ?thesis
    using assms r
    by (intro exI [of _ "if js_truthy (getp identity ''privateKeyB64'') then []
          else [(''signerPublicKeyB64'', getp (getp identity ''deviceKey'') ''publicKeyB64''), (''certChain'', getp identity ''certChain'')]"])
       (simp add: authenticate_def authenticateAccount_def bindE_def catchE_def handshake_def Let_def account_secret_def fresh_def)
qed

lemma refuse_run:
  "refuseDowngrade (au, w) = (Inr (), (au, w)) \<or>
   (\<exists>e s d. refuseDowngrade (au, w) = (Inl e, (au\<lparr>au_state := FAILED,
       au_log := au_log au @ [AuthStateChanged s FAILED d]\<rparr>, w)) \<and> is_AuthFailure e
      \<and> map_of (err_info e) ''serverCode'' = Some (JStr ''DOWNGRADE_REFUSED''))"
  by (auto simp: refuseDowngrade_def bindE_def Let_def is_AuthFailure_def AuthFailure_def split: option.splits)

lemma account_refused:
  assumes "au_mode au = Account identity" "refuseDowngrade (fresh au, w) = (Inl e, s)"
  shows "authenticate E (au, w) = (Inl e, s)"
  using assms by (simp add: authenticate_def authenticateAccount_def bindE_def reset_run fresh_def)

lemma split_at_event:
  assumes "u1 @ u2 = xs @ e # ys" "e \<notin> set u1"
  shows "\<exists>zs. xs = u1 @ zs \<and> u2 = zs @ e # ys"
  using assms
proof (induction u1 arbitrary: xs)
  case (Cons a u1)
  then show ?case by (cases xs) auto
qed simp

text \<open>A signature in a proper trace is preceded by the verified challenge it answers.\<close>

definition answers_verified :: "'w auth_env \<Rightarrow> string \<Rightarrow> auth_event list \<Rightarrow> jsval \<Rightarrow> bool" where
  "answers_verified E expected before p \<longleftrightarrow> (\<exists>k q g. Verified k q g True \<in> set before \<and> signature_valid E k q g
     \<and> getp p ''nodePublicKeyB64'' = JStr k \<and> getp q ''nodePublicKeyB64'' = JStr k
     \<and> getp p ''challengeId'' = getp q ''challengeId'' \<and> getp p ''nonceB64'' = getp q ''nonceB64''
     \<and> (expected \<noteq> [] \<longrightarrow> k = expected))"

lemma proper_trace_signed:
  assumes "proper_trace E expected t hello kind extra key (auth_payload kind2 extra2) extraBody u1"
    and "list_all is_bus_event u2" and "u1 @ u2 = xs @ Signed k p # ys"
  shows "k = key \<and> (\<exists>c. p = auth_payload kind2 extra2 c) \<and> answers_verified E expected xs p"
proof -
  have "Signed k p \<notin> set u2" using assms(2) by (auto simp: list_all_iff)
  then have in1: "Signed k p \<in> set u1" using assms(3) by (metis Un_iff in_set_conv_decomp set_append)
  have nf: "\<not> first_half t hello (Signed k p)" by (simp add: first_half_def)
  obtain v1 v2 c where v: "u1 = v1 @ v2" "list_all (first_half t hello) v1"
      "challenge_verified E kind extra c v1"
      "expected = [] \<or> expected = ch_nodePublicKeyB64 c"
      "list_all (second_half E key (auth_payload kind2 extra2 c) (ch_challengeId c) extraBody) v2"
    using assms(1) in1 nf unfolding proper_trace_def list_all_iff by blast
  have "Signed k p \<notin> set v1" using v(2) nf by (auto simp: list_all_iff)
  then obtain zs where xs: "xs = v1 @ zs"
    using split_at_event [of v1 "v2 @ u2" xs "Signed k p" ys] assms(3) v(1) by auto
  have "Signed k p \<in> set v2" using in1 v(1) \<open>Signed k p \<notin> set v1\<close> by simp
  then have kp: "k = key" "p = auth_payload kind2 extra2 c"
    using v(5) by (auto simp: list_all_iff second_half_def)
  have "answers_verified E expected xs p"
    unfolding answers_verified_def
    using v(3,4) xs kp
    by (intro exI [of _ "ch_nodePublicKeyB64 c"] exI [of _ "challenge_payload kind extra c"] exI [of _ "ch_signatureB64 c"])
      (auto simp: challenge_verified_def auth_payload_def challenge_payload_def)
  then show ?thesis using kp by blast
qed

lemma authenticate_cases:
  assumes "authenticate E (au, w) = (r, (au', w'))"
  obtains (refused) s d where "\<exists>i. au_mode au = Account i" "au_log au' = au_log (fresh au) @ [AuthStateChanged s FAILED d]"
      "au_state au' = FAILED" "\<exists>e. r = Inl e \<and> is_AuthFailure e"
  | (ran) hello kind extra key kind2 extra2 extraBody v mode who where
      "catchE (handshake E hello kind extra key (auth_payload kind2 extra2) extraBody v mode who) fail_auth (fresh au, w) = (r, (au', w'))"
      "v = (case au_mode au of Claimant a b \<Rightarrow> 5 | Account i \<Rightarrow> ae_CONTRACT_VERSION E)"
      "(kind2, str_or_empty key, extraBody, hello) = (case au_mode au of
          Claimant a b \<Rightarrow> (''session-auth-claimant'', b, [], claimant_hello a (au_clientVersion au))
        | Account i \<Rightarrow> (''session-auth'', str_or_empty (account_secret i), extraBody, account_hello i (au_helloBody au) (au_clientVersion au)))"
proof (cases "au_mode au")
  case (Claimant pub priv)
  have "str_or_empty (JStr priv) = priv" by (simp add: str_or_empty_def js_or_def)
  then show ?thesis
    using ran [OF assms [unfolded claimant_handshake [OF Claimant]]] Claimant by simp
next
  case (Account i)
  consider (ok) "refuseDowngrade (fresh au, w) = (Inr (), (fresh au, w))"
    | (no) e s d where "refuseDowngrade (fresh au, w) = (Inl e, ((fresh au)\<lparr>au_state := FAILED,
         au_log := au_log (fresh au) @ [AuthStateChanged s FAILED d]\<rparr>, w))" "is_AuthFailure e"
    using refuse_run [of "fresh au" w] by blast
  then show ?thesis
  proof cases
    case ok
    obtain extraBody where "authenticate E (au, w) =
        catchE (handshake E (account_hello i (au_helloBody au) (au_clientVersion au)) ''session-challenge''
          [(''accountIdentityPublicKeyB64'', getp i ''publicKeyB64''), (''sessionDeviceId'', js_or (getp i ''deviceId'') (JStr []))]
          (account_secret i)
          (auth_payload ''session-auth'' [(''publicKeyB64'', getp i ''publicKeyB64''), (''deviceId'', js_or (getp i ''deviceId'') (JStr []))])
          extraBody (ae_CONTRACT_VERSION E) ''account''
          [(''publicKeyB64'', getp i ''publicKeyB64''), (''deviceId'', js_or (getp i ''deviceId'') (JStr []))])
          fail_auth (fresh au, w)"
      using account_handshake [OF Account ok] by blast
    then show ?thesis using ran [OF trans [OF sym assms]] Account assms by auto
  next
    case (no e s d)
    then show ?thesis using refused account_refused [OF Account no(1)] assms Account by auto
  qed
qed

lemma fresh_log: "au_log (fresh au) = au_log au @ [AuthStateChanged (au_state au) UNAUTHENTICATED []]"
  and fresh_cfg [simp]: "au_expectedNode (fresh au) = au_expectedNode au" "au_requestType (fresh au) = au_requestType au"
    "au_floor (fresh au) = au_floor au" "au_mode (fresh au) = au_mode au"
  by (simp_all add: fresh_def)

text \<open>The new events of a call.\<close>

definition new_events :: "'b auth \<Rightarrow> 'b auth \<Rightarrow> auth_event list" where
  "new_events au au' = drop (length (au_log au)) (au_log au')"

lemma new_eventsI: "au_log au' = au_log au @ u \<Longrightarrow> new_events au au' = u"
  by (simp add: new_events_def)

lemma authenticate_trace:
  assumes "authenticate E (au, w) = (r, (au', w'))"
  obtains s d i where "au_mode au = Account i" "new_events au au' = [AuthStateChanged (au_state au) UNAUTHENTICATED [], AuthStateChanged s FAILED d]"
  | u1 u2 hello kind extra key kind2 extra2 extraBody where
      "new_events au au' = AuthStateChanged (au_state au) UNAUTHENTICATED [] # u1 @ u2" "list_all is_bus_event u2"
      "proper_trace E (au_expectedNode au) (au_requestType au) hello kind extra (str_or_empty key) (auth_payload kind2 extra2) extraBody u1"
      "(kind2, str_or_empty key, extraBody, hello) = (case au_mode au of
          Claimant a b \<Rightarrow> (''session-auth-claimant'', b, [], claimant_hello a (au_clientVersion au))
        | Account i \<Rightarrow> (''session-auth'', str_or_empty (account_secret i), extraBody, account_hello i (au_helloBody au) (au_clientVersion au)))"
  using assms
proof (cases rule: authenticate_cases)
  case (refused s d)
  then obtain i where "au_mode au = Account i" by blast
  moreover have "new_events au au' = [AuthStateChanged (au_state au) UNAUTHENTICATED [], AuthStateChanged s FAILED d]"
    by (rule new_eventsI) (simp add: refused(2) fresh_log)
  ultimately show ?thesis using that(1) by blast
next
  case (ran hello kind extra key kind2 extra2 extraBody v mode who)
  obtain u1 u2 where u: "au_log au' = au_log (fresh au) @ u1 @ u2" "list_all is_bus_event u2"
      "proper_trace E (au_expectedNode au) (au_requestType au) hello kind extra (str_or_empty key) (auth_payload kind2 extra2) extraBody u1"
    using guarded_run [OF ran(1)] by auto
  have "new_events au au' = AuthStateChanged (au_state au) UNAUTHENTICATED [] # u1 @ u2"
    by (rule new_eventsI) (simp add: u(1) fresh_log)
  then show ?thesis using that(2) u(2,3) ran(3) by blast
qed

section \<open>Properties\<close>

text \<open>C11. The client signs only for a node that has proved its key. In either mode and whatever the
  node, the network and the crypto provider answer, a payload is signed only after the crypto
  provider answered that the signature of the challenge is valid under the node key that the payload
  names, the payload repeats the challenge id and the nonce of that verified challenge, a pinned node key
  is that key, and the key used and the kind of the payload are those of the machine's mode, so
  that a claimant signature is never an account signature.\<close>

theorem signs_only_for_verified_node:
  assumes "authenticate E (au, w) = (r, (au', w'))"
    and "new_events au au' = before @ Signed key p # after"
  shows "answers_verified E (au_expectedNode au) before p
    \<and> (case au_mode au of
         Claimant pub priv \<Rightarrow> key = priv \<and> getp p ''kind'' = JStr ''session-auth-claimant''
       | Account i \<Rightarrow> key = str_or_empty (account_secret i) \<and> getp p ''kind'' = JStr ''session-auth'')"
  using assms(1)
proof (cases rule: authenticate_trace)
  case (1 s d i)
  have "Signed key p \<in> set (new_events au au')" unfolding assms(2) by simp
  then show ?thesis unfolding 1(2) by simp
next
  case (2 u1 u2 hello kind extra key' kind2 extra2 extraBody)
  let ?e = "AuthStateChanged (au_state au) UNAUTHENTICATED []"
  have eq: "?e # u1 @ u2 = before @ Signed key p # after" using 2(1) assms(2) by simp
  obtain before' where b: "before = ?e # before'" using eq by (cases before) auto
  have "u1 @ u2 = before' @ Signed key p # after" using eq b by simp
  from proper_trace_signed [OF 2(3,2) this]
  have k: "key = str_or_empty key'" "\<exists>c. p = auth_payload kind2 extra2 c" "answers_verified E (au_expectedNode au) before' p"
    by auto
  have "answers_verified E (au_expectedNode au) before p"
    using k(3) unfolding answers_verified_def b by auto
  moreover have "getp p ''kind'' = JStr kind2" using k(2) by (auto simp: auth_payload_def)
  ultimately show ?thesis using 2(4) k(1) by (auto split: auth_mode.splits)
qed

text \<open>A handshake ends, and it ends in one of two states: with the state authenticated and the
  returned session recorded, or with the state failed and an \<open>AuthFailure\<close> thrown. On success
  the floor of the node that was authenticated has been raised to at least the contract of the
  session.\<close>

theorem authenticate_outcome:
  assumes "authenticate E (au, w) = (r, (au', w'))"
  shows "case r of
      Inl e \<Rightarrow> au_state au' = FAILED \<and> is_AuthFailure e
    | Inr info \<Rightarrow> au_state au' = AUTHENTICATED \<and> au_sessionInfo au' = Some info
        \<and> (\<forall>st f. au_floor au = Some (st, f) \<and> lawful_store st \<longrightarrow>
             (\<exists>st' n v. au_floor au' = Some (st', f) \<and> getp info ''contractVersion'' = JInt v
                \<and> floorFor st' (getp info ''nodePublicKeyB64'') = Some n \<and> v \<le> n))"
  using assms
proof (cases rule: authenticate_cases)
  case (refused s d)
  then show ?thesis by auto
next
  case (ran hello kind extra key kind2 extra2 extraBody v mode who)
  have "\<exists>n. floorFor (snd (recordObserved st (JStr k) (JInt v))) (JStr k) = Some n \<and> v \<le> n"
    if "lawful_store st" "accepted (JStr k) (JInt v)" for st :: "'a floor_store" and k
    using that read_recordObserved [OF that(1), of "JStr k" "JInt v" "trimmed (JStr k)"]
    by (auto simp: floorFor_def accepted_def fm.joined_def Let_def split: option.splits)
  then show ?thesis using guarded_run [OF ran(1)] by (cases r) fastforce+
qed

text \<open>C28. A claimant stays anonymous: no request that a claimant-mode machine sends, on any path, has an
  account key, a device id, a signer key or a certificate chain in its body.\<close>

theorem claimant_never_names_account:
  assumes "au_mode au = Claimant pub priv" and "authenticate E (au, w) = (r, (au', w'))"
    and "Requested t b \<in> set (new_events au au')"
  shows "\<forall>f\<in>{''accountIdentityPublicKeyB64'', ''deviceId'', ''publicKeyB64'', ''signerPublicKeyB64'', ''certChain''}.
           getp b f = JUndef"
  using assms(2)
proof (cases rule: authenticate_trace)
  case (1 s d i)
  then show ?thesis using assms(1) by simp
next
  case (2 u1 u2 hello kind extra key kind2 extra2 extraBody)
  have h: "hello = claimant_hello pub (au_clientVersion au)" "extraBody = []" using 2(4) assms(1) by auto
  have "Requested t b \<notin> set u2" using 2(2) by (auto simp: list_all_iff)
  then have "Requested t b \<in> set u1" using assms(3) 2(1) by simp
  then have "b = hello \<or> (\<exists>cid sig. b = JObj [(''challengeId'', JStr cid), (''signatureB64'', JStr sig)])"
    using 2(3) h(2) requested_first requested_second [of E _ _ _ "[]"]
    unfolding proper_trace_def list_all_iff by (metis UnE set_append append_Nil2)
  then show ?thesis using h(1) by (auto simp: claimant_hello_def)
qed

text \<open>An enforced floor stops the account handshake before its first frame. When the relay with
  the pinned key has once authenticated at contract 5 or above, whatever has been observed
  since, an account-mode machine with enforcement throws \<open>DOWNGRADE_REFUSED\<close>, sends no request,
  signs nothing and leaves the world untouched: the account key is not disclosed.\<close>

theorem known_v5_relay_gets_no_account_hello:
  assumes "lawful_store st" and "accepted (JStr k) (JInt v)" and "5 \<le> v" and "js_trim k = k"
    and "au_mode au = Account i" and "au_expectedNode au = k"
    and "au_floor au = Some (observe_all (snd (recordObserved st (JStr k) (JInt v))) obs, True)"
    and "authenticate E (au, w) = (r, (au', w'))"
  shows "(\<exists>e. r = Inl e \<and> map_of (err_info e) ''serverCode'' = Some (JStr ''DOWNGRADE_REFUSED''))
    \<and> list_all is_bus_event (new_events au au') \<and> w' = w \<and> au_state au' = FAILED"
proof -
  let ?s = "snd (recordObserved st (JStr k) (JInt v))"
  have s: "lawful_store ?s" using assms(1) by (rule recordObserved_lawful)
  have k: "k \<noteq> []" using assms(2) by (auto simp: accepted_def)
  have "fs_read ?s k = Some (fm.joined (fs_read st k) v)"
    using read_recordObserved [OF assms(1), of "JStr k" "JInt v" k] assms(2,4) by simp
  then obtain n where n: "fs_read (observe_all ?s obs) k = Some n" "fm.joined (fs_read st k) v \<le> n"
    using highest_keeps read_observe_all [OF s] by metis
  have "v \<le> fm.joined (fs_read st k) v" by (simp add: fm.joined_def split: option.split)
  then have "5 \<le> n" using n(2) assms(3) by linarith
  then have no: "\<not> pm_permitted (permitsAccountModeAuth (JStr k) (Some (observe_all ?s obs)) (JBool True))"
    using n(1) k assms(4) by (simp add: permits_iff)
  have "refuseDowngrade (fresh au, w) \<noteq> (Inr (), (fresh au, w))"
    using no k assms(6,7) by (simp add: refuseDowngrade_def bindE_def Let_def)
  then obtain e s d where ref: "refuseDowngrade (fresh au, w) = (Inl e, ((fresh au)\<lparr>au_state := FAILED,
       au_log := au_log (fresh au) @ [AuthStateChanged s FAILED d]\<rparr>, w))"
      "map_of (err_info e) ''serverCode'' = Some (JStr ''DOWNGRADE_REFUSED'')"
    using refuse_run [of "fresh au" w] by blast
  have run: "r = Inl e" "w' = w" "au_state au' = FAILED"
      "au_log au' = au_log (fresh au) @ [AuthStateChanged s FAILED d]"
    using account_refused [OF assms(5) ref(1)] assms(8) by auto
  have "new_events au au' = [AuthStateChanged (au_state au) UNAUTHENTICATED [], AuthStateChanged s FAILED d]"
    by (rule new_eventsI) (simp add: run(4) fresh_log)
  then show ?thesis using run ref(2) by simp
qed

section \<open>Example runs\<close>

definition demo_challenge :: jsval where
  "demo_challenge = JObj [(''t'', JStr ''session.challenge''), (''body'', JObj
     [(''challengeId'', JStr ''c1''), (''nonceB64'', JStr ''n1''), (''nodeKeyId'', JStr ''nk''),
      (''nodePublicKeyB64'', JStr ''node''), (''relayKeyId'', JStr ''rk''), (''issuedAtMs'', JInt 1),
      (''expiresAtMs'', JInt 9), (''wsPath'', JStr ''/ws''), (''signatureB64'', JStr ''sig'')])]"

definition demo_auth_env :: "unit auth_env" where
  "demo_auth_env =
     \<lparr>ae_sendRequest = (\<lambda>a. retE (if getp a ''type'' = JStr ''session.hello'' then demo_challenge
          else JObj [(''t'', JStr ''session.ready''), (''body'', JObj [])])),
      ae_now = retE 5, ae_subtle = True,
      ae_importKey = (\<lambda>f k. retE k), ae_sign = (\<lambda>k m. retE [1]), ae_verify = (\<lambda>k s m. retE True),
      ae_base64ToBytes = (\<lambda>s. Inr (utf8_encode s)), ae_bytesToBase64 = (\<lambda>b. ''b64''),
      ae_canonicalJSONStringify = JSON_stringify,
      ae_validateRelayIdentityBinding = (\<lambda>o1. JObj [(''ok'', JBool True)]),
      ae_CONTRACT_VERSION = 4, ae_SESSION_HELLO = ''session.hello'', ae_SESSION_READY = ''session.ready'',
      ae_SESSION_CHALLENGE = ''session.challenge'', ae_SESSION_AUTHENTICATE = ''session.authenticate''\<rparr>"

definition demo_claimant :: "unit auth" where
  "demo_claimant = (case mk_auth demo_auth_env JNull
       (JObj [(''claimantPublicKeyB64'', JStr ''cpub''), (''privateKeyB64'', JStr ''cpriv'')]) True (JObj []) JUndef
       (JStr ''node'') (Some (Some memory_store, JBool True)) of Inr au \<Rightarrow> au)"

definition demo_account :: "unit auth" where
  "demo_account = (case mk_auth demo_auth_env (JObj [(''publicKeyB64'', JStr ''apub''), (''privateKeyB64'', JStr ''apriv'')])
       JNull True (JObj []) JUndef (JStr ''node'')
       (Some (Some (snd (recordObserved memory_store (JStr ''node'') (JInt 5))), JBool True)) of Inr au \<Rightarrow> au)"

definition demo_run :: "(js_err + jsval) \<times> unit auth \<times> unit" where
  "demo_run = authenticate demo_auth_env (demo_claimant, ())"

lemma demo_runs: "authenticate demo_auth_env (demo_claimant, ()) = (fst demo_run, (fst (snd demo_run), snd (snd demo_run)))"
  by (simp only: demo_run_def prod.collapse)

theorem signs_only_for_verified_node_witness:
  "\<exists>before p after. new_events demo_claimant (fst (snd demo_run)) = before @ Signed ''cpriv'' p # after
     \<and> answers_verified demo_auth_env ''node'' before p"
proof -
  have ev: "\<exists>e\<in>set (new_events demo_claimant (fst (snd demo_run))). case e of Signed k p \<Rightarrow> k = ''cpriv'' | _ \<Rightarrow> False"
    by code_simp
  then obtain p where "Signed ''cpriv'' p \<in> set (new_events demo_claimant (fst (snd demo_run)))"
    by (elim bexE) (rename_tac e, case_tac e, auto)
  then obtain before after where split: "new_events demo_claimant (fst (snd demo_run)) = before @ Signed ''cpriv'' p # after"
    by (metis in_set_conv_decomp)
  have node: "au_expectedNode demo_claimant = ''node''" by code_simp
  show ?thesis
    using signs_only_for_verified_node [OF demo_runs split] split unfolding node by blast
qed

theorem authenticate_outcome_witness:
  "\<exists>info. fst demo_run = Inr info \<and> au_state (fst (snd demo_run)) = AUTHENTICATED
     \<and> (\<exists>st' n. au_floor (fst (snd demo_run)) = Some (st', True) \<and> floorFor st' (getp info ''nodePublicKeyB64'') = Some n)"
proof -
  have "\<not> isl (fst demo_run)" by code_simp
  then obtain info where info: "fst demo_run = Inr info" by (cases "fst demo_run") auto
  have fl: "au_floor demo_claimant = Some (memory_store, True)"
    by (simp add: demo_claimant_def mk_auth_def Let_def)
  have "lawful_store memory_store" by (simp add: lawful_store_def memory_store_def)
  then show ?thesis
    using authenticate_outcome [OF demo_runs] info fl by auto
qed

theorem claimant_never_names_account_witness:
  "\<exists>t b. Requested t b \<in> set (new_events demo_claimant (fst (snd demo_run))) \<and> getp b ''deviceId'' = JUndef
     \<and> getp b ''claimantPublicKeyB64'' = JStr ''cpub''"
proof -
  have "\<exists>e\<in>set (new_events demo_claimant (fst (snd demo_run))). case e of
      Requested t b \<Rightarrow> getp b ''claimantPublicKeyB64'' = JStr ''cpub'' | _ \<Rightarrow> False"
    by code_simp
  then obtain t b where b: "Requested t b \<in> set (new_events demo_claimant (fst (snd demo_run)))"
      "getp b ''claimantPublicKeyB64'' = JStr ''cpub''"
    by (elim bexE) (rename_tac e, case_tac e, auto)
  have mode: "au_mode demo_claimant = Claimant ''cpub'' ''cpriv''" by code_simp
  show ?thesis using claimant_never_names_account [OF mode demo_runs b(1)] b by auto
qed

theorem known_v5_relay_gets_no_account_hello_witness:
  "\<exists>e au'. authenticate demo_auth_env (demo_account, ()) = (Inl e, (au', ()))
     \<and> map_of (err_info e) ''serverCode'' = Some (JStr ''DOWNGRADE_REFUSED'')
     \<and> list_all is_bus_event (new_events demo_account au')"
proof -
  obtain r au' w' where run: "authenticate demo_auth_env (demo_account, ()) = (r, (au', w'))" by (metis prod_cases3)
  have st: "lawful_store memory_store" by (simp add: lawful_store_def memory_store_def)
  have acc: "accepted (JStr ''node'') (JInt 5)" and five: "(5::int) \<le> 5" and trim: "js_trim ''node'' = ''node''"
    by code_simp+
  have mode: "au_mode demo_account = Account (JObj [(''publicKeyB64'', JStr ''apub''), (''privateKeyB64'', JStr ''apriv'')])"
    by (simp add: demo_account_def mk_auth_def Let_def)
  have node: "au_expectedNode demo_account = ''node''" by code_simp
  have fl: "au_floor demo_account
      = Some (observe_all (snd (recordObserved memory_store (JStr ''node'') (JInt 5))) [], True)"
    by (simp add: demo_account_def mk_auth_def Let_def)
  show ?thesis
    using known_v5_relay_gets_no_account_hello [OF st acc five trim mode node fl run] run by auto
qed

end
