(* ===== verification/Uplink_Pool.thy ===== *)
theory Uplink_Pool
  imports Connection Js_Bytes
begin

text \<open>
  The pool of uplinks, \<open>pool/UplinkPool.js\<close>: it connects to the first uplink that answers, keeps
  warm spares, fails over when the active uplink is lost, reconnects with a back-off, and drops
  duplicate inbound frames.

  The transports, the authentication machine, the restoration hooks, and \<open>DeduperLRU\<close> and
  \<open>FloodGate\<close> of \<open>@rezprotocol/core\<close> are the fields of \<open>pool_env\<close>; the transport of an uplink is
  named by its url. What the pool tells its listeners and its event bus is the log \<open>po_log\<close>.
  Calls run one after another: the promises by which concurrent callers join a running attempt
  are not modelled.
\<close>

section \<open>Data\<close>

record conn =
  cn_ready :: bool
  cn_healthy :: bool

datatype pool_event =
    PoolStateTo nat jsval
  | PoolFrameTo nat jsval
  | UplinkChanged string
  | PoolReconnected

record pool =
  po_uplinks :: "string list"
  po_warmSpareCount :: jnum
  po_backoffMs :: jsval
  po_backoffCapMs :: jsval
  po_conns :: "(string \<times> conn) list"
  po_activeUrl :: "string option"
  po_sessionInfo :: "jsval option"
  po_events :: "(string \<times> nat list) list"
  po_stateHandlers :: "nat list"
  po_reconnectedHandlers :: "nat list"
  po_ready :: bool
  po_largeDrops :: nat
  po_largeWarnSinceMs :: rat
  po_largeWarnDropped :: nat
  po_largeWarnLast :: "(nat \<times> jsval) option"
  po_reconnectTimer :: "jnum option"
  po_attempts :: nat
  po_closed :: bool
  po_log :: "pool_event list"

record 'w pool_env =
  pe_transportFactory :: "string \<Rightarrow> ('w, unit) io"
  pe_connect :: "string \<Rightarrow> ('w, unit) io"
  pe_close :: "string \<Rightarrow> ('w, unit) io"
  pe_sendRequest :: "string \<Rightarrow> jsval \<Rightarrow> ('w, jsval) io"
  pe_authenticate :: "string \<Rightarrow> ('w, unit) io"
  pe_sessionInfo :: "'w \<Rightarrow> jsval option"
  pe_hook :: "nat \<Rightarrow> ('w, unit) io"
  pe_floodAllow :: "string \<Rightarrow> rat \<Rightarrow> ('w, bool) io"
  pe_floodWarn :: "rat \<Rightarrow> ('w, jsval) io"
  pe_floodClear :: "('w, unit) io"
  pe_seen :: "string \<Rightarrow> rat \<Rightarrow> ('w, bool) io"
  pe_markSeen :: "string \<Rightarrow> rat \<Rightarrow> ('w, unit) io"
  pe_dedupeClear :: "('w, unit) io"
  pe_base64ToBytes :: "string \<Rightarrow> octets res"
  pe_stableJson :: "jsval \<Rightarrow> string"
  pe_digest :: "(octets \<Rightarrow> octets) option"
  pe_fnv1a64Hex :: "octets \<Rightarrow> string"
  pe_LARGE_FRAME_CODE :: string

type_synonym ('w, 'a) pool_io = "(pool \<times> 'w, 'a) io"

definition errObj :: "string \<Rightarrow> string \<Rightarrow> bool \<Rightarrow> js_err" where
  "errObj code message retryable =
     JsErr (if code = [] then ''UPLINK_ERR'' else code)
       (if message \<noteq> [] then message else if code \<noteq> [] then code else ''UPLINK_ERR'')
       [(''retryable'', JBool retryable)]"

definition TERMINAL_HOME_REJECTION_CODES :: "string list" where
  "TERMINAL_HOME_REJECTION_CODES = [''DELEGATED_DEVICES_UNSUPPORTED'']"

text \<open>The \<open>serverCode\<close> an error carries, if any.\<close>

definition server_code :: "js_err \<Rightarrow> jsval" where
  "server_code err = (case map_of (err_info err) ''serverCode'' of Some v \<Rightarrow> v | None \<Rightarrow> JUndef)"

definition terminalHomeRejectionCode :: "js_err option \<Rightarrow> string" where
  "terminalHomeRejectionCode err =
     (case err of
        None \<Rightarrow> []
      | Some e \<Rightarrow>
          (let code = js_trim (err_code e); server = js_trim (str_or_empty (server_code e)) in
           if code \<in> set TERMINAL_HOME_REJECTION_CODES then code
           else if server \<in> set TERMINAL_HOME_REJECTION_CODES then server
           else []))"

definition uplink_url :: "jsval \<Rightarrow> string" where
  "uplink_url u = js_trim (case u of JStr s \<Rightarrow> s | _ \<Rightarrow> str_or_empty (getp u ''url''))"

definition mk_pool :: "jsval \<Rightarrow> bool \<Rightarrow> bool \<Rightarrow> bool \<Rightarrow> jsval \<Rightarrow> jsval \<Rightarrow> pool res" where
  "mk_pool uplinks transportFactory authMachine eventBus warmSpareCount timeouts =
     (case uplinks of
        JArr us \<Rightarrow>
          if us = [] then Inl (plain_err ''UplinkPool requires uplinks[]'')
          else if \<not> transportFactory then Inl (plain_err ''UplinkPool requires transportFactory'')
          else if \<not> authMachine then Inl (plain_err ''UplinkPool requires authMachine'')
          else if \<not> eventBus then Inl (plain_err ''UplinkPool requires eventBus'')
          else Inr
            \<lparr>po_uplinks = filter (\<lambda>u. u \<noteq> []) (map uplink_url us),
             po_warmSpareCount = num_max (Fin 0) (num_or (js_Number (if warmSpareCount = JUndef then JInt 2 else warmSpareCount)) 0),
             po_backoffMs = getp timeouts ''reconnectBackoffMs'', po_backoffCapMs = getp timeouts ''reconnectBackoffCapMs'',
             po_conns = [], po_activeUrl = None, po_sessionInfo = None, po_events = [], po_stateHandlers = [],
             po_reconnectedHandlers = [], po_ready = False, po_largeDrops = 0, po_largeWarnSinceMs = 0,
             po_largeWarnDropped = 0, po_largeWarnLast = None, po_reconnectTimer = None, po_attempts = 0,
             po_closed = False, po_log = []\<rparr>
      | _ \<Rightarrow> Inl (plain_err ''UplinkPool requires uplinks[]''))"

section \<open>Telling listeners\<close>

definition po_note :: "pool_event list \<Rightarrow> pool \<Rightarrow> pool" where
  "po_note es p = p\<lparr>po_log := po_log p @ es\<rparr>"

definition pool_emitState :: "jsval \<Rightarrow> ('w, unit) pool_io" where
  "pool_emitState payload = modifyE (\<lambda>p. po_note (map (\<lambda>h. PoolStateTo h payload) (po_stateHandlers p)) p)"

definition pool_emit :: "string \<Rightarrow> jsval \<Rightarrow> ('w, unit) pool_io" where
  "pool_emit type payload = modifyE (\<lambda>p. case map_of (po_events p) type of
     None \<Rightarrow> p | Some hs \<Rightarrow> po_note (map (\<lambda>h. PoolFrameTo h payload) hs) p)"

definition pool_on :: "string \<Rightarrow> nat \<Rightarrow> pool \<Rightarrow> pool res" where
  "pool_on type h p =
     (if type = [] then Inl (plain_err ''on(type, handler) requires type'')
      else Inr (p\<lparr>po_events := AList.update type
        (set_add h (case map_of (po_events p) type of None \<Rightarrow> [] | Some hs \<Rightarrow> hs)) (po_events p)\<rparr>))"

definition pool_off :: "string \<Rightarrow> nat \<Rightarrow> pool \<Rightarrow> pool" where
  "pool_off type h p =
     (case map_of (po_events p) type of
        None \<Rightarrow> p
      | Some hs \<Rightarrow>
          (let hs' = filter (\<lambda>x. x \<noteq> h) hs in
           p\<lparr>po_events := (if hs' = [] then AList.delete type (po_events p) else AList.update type hs' (po_events p))\<rparr>))"

definition pool_onState :: "nat \<Rightarrow> pool \<Rightarrow> pool" where
  "pool_onState h p = p\<lparr>po_stateHandlers := set_add h (po_stateHandlers p)\<rparr>"

definition pool_onReconnected :: "nat \<Rightarrow> pool \<Rightarrow> pool" where
  "pool_onReconnected h p = p\<lparr>po_reconnectedHandlers := set_add h (po_reconnectedHandlers p)\<rparr>"

definition pool_offState :: "nat \<Rightarrow> pool \<Rightarrow> pool" where
  "pool_offState h p = p\<lparr>po_stateHandlers := filter (\<lambda>x. x \<noteq> h) (po_stateHandlers p)\<rparr>"

definition pool_offReconnected :: "nat \<Rightarrow> pool \<Rightarrow> pool" where
  "pool_offReconnected h p = p\<lparr>po_reconnectedHandlers := filter (\<lambda>x. x \<noteq> h) (po_reconnectedHandlers p)\<rparr>"

section \<open>Connections\<close>

definition conn_ok :: "pool \<Rightarrow> string \<Rightarrow> bool" where
  "conn_ok p url = (case map_of (po_conns p) url of Some c \<Rightarrow> cn_ready c \<and> cn_healthy c | None \<Rightarrow> False)"

definition conn_ready :: "pool \<Rightarrow> string \<Rightarrow> bool" where
  "conn_ready p url = (case map_of (po_conns p) url of Some c \<Rightarrow> cn_ready c | None \<Rightarrow> False)"

definition pool_mark :: "string \<Rightarrow> bool \<Rightarrow> bool \<Rightarrow> pool \<Rightarrow> pool" where
  "pool_mark url r h p =
     (case map_of (po_conns p) url of
        None \<Rightarrow> p
      | Some c \<Rightarrow> p\<lparr>po_conns := AList.update url (c\<lparr>cn_ready := r, cn_healthy := h\<rparr>) (po_conns p)\<rparr>)"

definition setActive :: "'w pool_env \<Rightarrow> string \<Rightarrow> ('w, unit) pool_io" where
  "setActive E url =
     bindE (ext (\<lambda>w. (Inr (pe_sessionInfo E w), w))) (\<lambda>info.
       modifyE (\<lambda>p. po_note [UplinkChanged url] (p\<lparr>po_activeUrl := Some url, po_sessionInfo := info\<rparr>)))"

definition ensureConnected :: "'w pool_env \<Rightarrow> string \<Rightarrow> ('w, unit) pool_io" where
  "ensureConnected E url =
     bindE (getsE (\<lambda>p. (conn_ready p url, map_of (po_conns p) url))) (\<lambda>(ready, existing).
     if ready then retE ()
     else
       bindE (case existing of
                Some c \<Rightarrow> retE ()
              | None \<Rightarrow>
                  bindE (ext (pe_transportFactory E url)) (\<lambda>_.
                    modifyE (\<lambda>p. p\<lparr>po_conns := AList.update url \<lparr>cn_ready = False, cn_healthy = False\<rparr> (po_conns p)\<rparr>))) (\<lambda>_.
       bindE (ext (pe_connect E url)) (\<lambda>_.
       bindE (ext (pe_authenticate E url)) (\<lambda>_.
         modifyE (pool_mark url True True)))))"

fun close_all :: "'w pool_env \<Rightarrow> string list \<Rightarrow> ('w, unit) io" where
  "close_all E [] = retE ()"
| "close_all E (url # urls) =
     bindE (catchE (pe_close E url) (\<lambda>_. retE ())) (\<lambda>_. close_all E urls)"

definition closeConnections :: "'w pool_env \<Rightarrow> ('w, unit) pool_io" where
  "closeConnections E =
     bindE (getsE (map fst \<circ> po_conns)) (\<lambda>urls.
     bindE (modifyE (\<lambda>p. p\<lparr>po_conns := [], po_activeUrl := None, po_sessionInfo := None, po_ready := False,
        po_largeDrops := 0, po_largeWarnSinceMs := 0, po_largeWarnDropped := 0, po_largeWarnLast := None\<rparr>)) (\<lambda>_.
     bindE (ext (close_all E urls)) (\<lambda>_.
     bindE (ext (pe_dedupeClear E)) (\<lambda>_. ext (pe_floodClear E)))))"

definition stop_timer :: "pool \<Rightarrow> pool" where
  "stop_timer p = p\<lparr>po_reconnectTimer := None\<rparr>"

definition pool_schedule :: "pool \<Rightarrow> pool" where
  "pool_schedule p =
     (if po_closed p \<or> po_reconnectTimer p \<noteq> None then p
      else
        (let n = po_attempts p + 1 in
         p\<lparr>po_attempts := n,
           po_reconnectTimer := Some (backoffDelay (backoff_base (po_backoffMs p)) (backoff_cap (po_backoffCapMs p)) n 1)\<rparr>))"

section \<open>Spares\<close>

definition connectedSpares :: "pool \<Rightarrow> nat" where
  "connectedSpares p = length (filter (\<lambda>url. Some url \<noteq> po_activeUrl p \<and> conn_ok p url) (po_uplinks p))"

definition spares_reached :: "pool \<Rightarrow> bool" where
  "spares_reached p = num_le (po_warmSpareCount p) (Fin (of_nat (connectedSpares p)))"

fun warm_loop :: "'w pool_env \<Rightarrow> string list \<Rightarrow> ('w, unit) pool_io" where
  "warm_loop E [] = retE ()"
| "warm_loop E (url # urls) =
     bindE (getsE (\<lambda>p. (po_activeUrl p = Some url, spares_reached p, conn_ok p url))) (\<lambda>(active, reached, ok).
     if active then warm_loop E urls
     else if reached then retE ()
     else if ok then warm_loop E urls
     else
       bindE (catchE (ensureConnected E url) (\<lambda>_. modifyE (pool_mark url False False))) (\<lambda>_. warm_loop E urls))"

definition ensureWarmSpareTarget :: "'w pool_env \<Rightarrow> ('w, unit) pool_io" where
  "ensureWarmSpareTarget E =
     bindE (getsE (\<lambda>p. po_activeUrl p = None \<or> num_le (po_warmSpareCount p) (Fin 0) \<or> spares_reached p)) (\<lambda>done.
     if done then retE ()
     else bindE (getsE po_uplinks) (\<lambda>urls. warm_loop E urls))"

definition findConnectedSpare :: "pool \<Rightarrow> string option" where
  "findConnectedSpare p = find (\<lambda>url. Some url \<noteq> po_activeUrl p \<and> conn_ok p url) (po_uplinks p)"

section \<open>Connecting\<close>

text \<open>The loop over the uplinks: it stops at the first that connects and remembers the first error.\<close>

fun connect_loop :: "'w pool_env \<Rightarrow> string list \<Rightarrow> js_err option \<Rightarrow> ('w, js_err option) pool_io" where
  "connect_loop E [] firstErr = retE firstErr"
| "connect_loop E (url # urls) firstErr =
     bindE (catchE
         (bindE (ensureConnected E url) (\<lambda>_.
          bindE (setActive E url) (\<lambda>_.
          bindE (modifyE (\<lambda>p. p\<lparr>po_ready := True\<rparr>)) (\<lambda>_.
          bindE (pool_emitState (JObj [(''phase'', JStr ''connected''), (''activeUplink'', JStr url)])) (\<lambda>_.
          retE None)))))
         (\<lambda>err. retE (Some err))) (\<lambda>res.
     case res of
       None \<Rightarrow> retE firstErr
     | Some err \<Rightarrow> connect_loop E urls (case firstErr of None \<Rightarrow> Some err | Some e \<Rightarrow> Some e))"

definition err_text :: "js_err option \<Rightarrow> string \<Rightarrow> string" where
  "err_text e d = (case e of Some x \<Rightarrow> if err_msg x = [] then d else err_msg x | None \<Rightarrow> d)"

definition offline :: "jsval \<Rightarrow> ('w, unit) pool_io" where
  "offline reason = pool_emitState (JObj [(''phase'', JStr ''offline''), (''reason'', reason)])"

definition pool_connect :: "'w pool_env \<Rightarrow> ('w, unit) pool_io" where
  "pool_connect E =
     bindE (modifyE (\<lambda>p. stop_timer (p\<lparr>po_closed := False\<rparr>))) (\<lambda>_.
     bindE (closeConnections E) (\<lambda>_.
     bindE (getsE po_uplinks) (\<lambda>urls.
     bindE (connect_loop E urls None) (\<lambda>firstErr.
     bindE (getsE (\<lambda>p. po_ready p \<and> po_activeUrl p \<noteq> None)) (\<lambda>up.
     if \<not> up then
       (let terminalCode = terminalHomeRejectionCode firstErr in
        if terminalCode \<noteq> [] then
          bindE (offline (JStr (err_text firstErr []))) (\<lambda>_.
            throwE (errObj terminalCode (err_text firstErr []) False))
        else
          bindE (offline (JStr (err_text firstErr ''no uplinks available''))) (\<lambda>_.
          bindE (modifyE pool_schedule) (\<lambda>_.
            throwE (errObj ''UNREACHABLE'' (err_text firstErr ''no uplinks available'') True))))
     else ensureWarmSpareTarget E)))))"

fun run_hooks :: "'w pool_env \<Rightarrow> nat list \<Rightarrow> ('w, unit) io" where
  "run_hooks E [] = retE ()"
| "run_hooks E (h # hs) = bindE (pe_hook E h) (\<lambda>_. run_hooks E hs)"

definition notifyReconnected :: "'w pool_env \<Rightarrow> ('w, unit) pool_io" where
  "notifyReconnected E =
     bindE (getsE po_reconnectedHandlers) (\<lambda>hs.
     bindE (ext (run_hooks E hs)) (\<lambda>_. modifyE (po_note [PoolReconnected])))"

definition restore_text :: "js_err \<Rightarrow> string" where
  "restore_text err = err_text (Some err) ''session restore failed''"

definition attemptReconnect :: "'w pool_env \<Rightarrow> ('w, unit) pool_io" where
  "attemptReconnect E =
     bindE (catchE (pool_connect E) (\<lambda>err.
        bindE (offline (JStr ''reconnect failed'')) (\<lambda>_.
        bindE (modifyE pool_schedule) (\<lambda>_. throwE err)))) (\<lambda>_.
     catchE (bindE (notifyReconnected E) (\<lambda>_. modifyE (\<lambda>p. p\<lparr>po_attempts := 0\<rparr>))) (\<lambda>err.
        bindE (closeConnections E) (\<lambda>_.
        bindE (offline (JStr (restore_text err))) (\<lambda>_.
        bindE (modifyE pool_schedule) (\<lambda>_. throwE err)))))"

definition connectNow :: "'w pool_env \<Rightarrow> ('w, unit) pool_io" where
  "connectNow E =
     bindE (getsE (\<lambda>p. (po_closed p, po_ready p \<and> po_activeUrl p \<noteq> None))) (\<lambda>(closed, up).
     if closed then throwE (errObj ''CLOSED'' ''uplink pool is closed'' False)
     else if up then retE ()
     else bindE (modifyE stop_timer) (\<lambda>_. attemptReconnect E))"

text \<open>The reconnect timer fires; the rejection of the attempt is swallowed.\<close>

definition reconnectTimer_fires :: "'w pool_env \<Rightarrow> ('w, unit) pool_io" where
  "reconnectTimer_fires E =
     bindE (modifyE stop_timer) (\<lambda>_.
     bindE (getsE po_closed) (\<lambda>closed.
     if closed then retE () else catchE (attemptReconnect E) (\<lambda>_. retE ())))"

definition pool_close :: "'w pool_env \<Rightarrow> ('w, unit) pool_io" where
  "pool_close E =
     bindE (modifyE (\<lambda>p. (stop_timer (p\<lparr>po_closed := True\<rparr>))\<lparr>po_attempts := 0\<rparr>)) (\<lambda>_. closeConnections E)"

section \<open>Failover\<close>

definition goOffline :: "pool \<Rightarrow> pool" where
  "goOffline p = p\<lparr>po_ready := False, po_activeUrl := None, po_sessionInfo := None\<rparr>"

definition promoteNextConnectedSpare :: "'w pool_env \<Rightarrow> string \<Rightarrow> ('w, bool) pool_io" where
  "promoteNextConnectedSpare E reason =
     bindE (getsE po_activeUrl) (\<lambda>from.
     bindE (getsE findConnectedSpare) (\<lambda>first.
     bindE (case first of
              Some c \<Rightarrow> retE (Some c)
            | None \<Rightarrow> bindE (ensureWarmSpareTarget E) (\<lambda>_. getsE findConnectedSpare)) (\<lambda>candidate.
     case candidate of
       None \<Rightarrow> retE False
     | Some url \<Rightarrow>
         bindE (setActive E url) (\<lambda>_.
         bindE (modifyE (\<lambda>p. p\<lparr>po_ready := True\<rparr>)) (\<lambda>_.
         bindE (pool_emitState (JObj [(''phase'', JStr ''failover''),
             (''from'', case from of Some f \<Rightarrow> JStr f | None \<Rightarrow> JNull), (''to'', JStr url),
             (''reason'', JStr reason), (''activeUplink'', JStr url)])) (\<lambda>_.
         bindE (catchE (bindE (notifyReconnected E) (\<lambda>_. retE True)) (\<lambda>err.
             bindE (modifyE goOffline) (\<lambda>_.
             bindE (offline (JStr (restore_text err))) (\<lambda>_.
             bindE (modifyE pool_schedule) (\<lambda>_. retE False))))) (\<lambda>restored.
         if \<not> restored then retE False
         else
           bindE (pool_emitState (JObj [(''phase'', JStr ''connected''), (''activeUplink'', JStr url)])) (\<lambda>_.
           bindE (ensureWarmSpareTarget E) (\<lambda>_. retE True))))))))) "

definition onConnState :: "'w pool_env \<Rightarrow> string \<Rightarrow> jsval \<Rightarrow> ('w, unit) pool_io" where
  "onConnState E url state =
     (let phase = getp state ''phase'' in
      bindE (if phase = JStr ''warn''
             then pool_emit ''warn'' (JObj [(''code'', JStr ''FRAME_WARN''), (''uplink'', JStr url),
                    (''reason'', js_or (getp state ''reason'') (JStr ''warn''))])
             else retE ()) (\<lambda>_.
      if phase = JStr ''disconnected'' \<or> phase = JStr ''error'' then
        bindE (modifyE (pool_mark url False False)) (\<lambda>_.
        bindE (getsE (\<lambda>p. po_activeUrl p = Some url)) (\<lambda>active.
        if active then
          bindE (promoteNextConnectedSpare E ''active_disconnect'') (\<lambda>promoted.
          if promoted then retE ()
          else
            bindE (modifyE goOffline) (\<lambda>_.
            bindE (pool_emitState (JObj [(''phase'', JStr ''offline''), (''activeUplink'', JStr url),
               (''reason'', js_or (getp state ''reason'') JNull)])) (\<lambda>_.
            modifyE pool_schedule)))
        else ensureWarmSpareTarget E))
      else retE ()))"

section \<open>Requests\<close>

text \<open>The codes on which a request moves on: a \<open>Set\<close> as it is, an array with its elements trimmed.\<close>

datatype code_arg = CodeSet "string list" | CodeValue jsval

definition allowed_codes :: "code_arg \<Rightarrow> string list" where
  "allowed_codes a = (case a of
     CodeSet xs \<Rightarrow> xs
   | CodeValue (JArr vs) \<Rightarrow> map (\<lambda>v. js_trim (str_or_empty v)) vs
   | CodeValue v \<Rightarrow> [])"

record request_opts =
  ro_tryAll :: bool
  ro_continueOn :: code_arg
  ro_adopt :: bool
  ro_adoptReason :: jsval
  ro_skipActive :: bool

definition request_arg :: "string \<Rightarrow> jsval \<Rightarrow> jsval \<Rightarrow> jsval \<Rightarrow> jsval" where
  "request_arg frameType body expected timeoutMs =
     JObj [(''type'', JStr frameType), (''body'', body), (''expectedResponseType'', expected), (''timeoutMs'', timeoutMs)]"

definition request_order :: "bool \<Rightarrow> pool \<Rightarrow> string list" where
  "request_order skipActive p =
     (let active = (case po_activeUrl p of Some a \<Rightarrow> [a] | None \<Rightarrow> []);
          others = filter (\<lambda>u. Some u \<noteq> po_activeUrl p) (po_uplinks p)
      in if skipActive then others @ active else active @ others)"

fun request_loop ::
    "'w pool_env \<Rightarrow> request_opts \<Rightarrow> jsval \<Rightarrow> string \<Rightarrow> string option \<Rightarrow> string list \<Rightarrow> nat \<Rightarrow> js_err option
      \<Rightarrow> ('w, jsval) pool_io" where
  "request_loop E opts arg frameType from [] attempted lastErr =
     (if attempted = 0 then throwE (errObj ''UNREACHABLE'' ''no uplinks configured'' True)
      else throwE (case lastErr of Some e \<Rightarrow> e
        | None \<Rightarrow> errObj ''UNREACHABLE'' (frameType @ '' failed across uplinks'') True))"
| "request_loop E opts arg frameType from (url # urls) attempted lastErr =
     bindE (catchE (bindE (ensureConnected E url) (\<lambda>_. retE None)) (\<lambda>err. retE (Some err))) (\<lambda>connErr.
     case connErr of
       Some err \<Rightarrow> request_loop E opts arg frameType from urls (Suc attempted) (Some err)
     | None \<Rightarrow>
         bindE (getsE (\<lambda>p. conn_ready p url)) (\<lambda>ready.
         if \<not> ready then request_loop E opts arg frameType from urls (Suc attempted) lastErr
         else
           bindE (catchE
             (bindE (ext (pe_sendRequest E url arg)) (\<lambda>fr.
              bindE (getsE (\<lambda>p. ro_adopt opts \<and> po_activeUrl p \<noteq> Some url)) (\<lambda>adopt.
              if adopt then
                bindE (setActive E url) (\<lambda>_.
                bindE (pool_emitState (JObj [(''phase'', JStr ''failover''),
                  (''from'', case from of Some f \<Rightarrow> JStr f | None \<Rightarrow> JNull), (''to'', JStr url),
                  (''reason'', JStr (js_String (js_or (ro_adoptReason opts) (JStr ''request_success_adopt'')))),
                  (''activeUplink'', JStr url)])) (\<lambda>_.
                bindE (pool_emitState (JObj [(''phase'', JStr ''connected''), (''activeUplink'', JStr url)])) (\<lambda>_.
                retE (Inr fr))))
              else retE (Inr fr))))
             (\<lambda>err. retE (Inl err))) (\<lambda>res.
           case res of
             Inr fr \<Rightarrow> retE fr
           | Inl err \<Rightarrow>
               if js_trim (err_code err) \<notin> set (allowed_codes (ro_continueOn opts)) then throwE err
               else request_loop E opts arg frameType from urls (Suc attempted) (Some err))))"

definition pool_sendRequest ::
    "'w pool_env \<Rightarrow> request_opts \<Rightarrow> jsval \<Rightarrow> jsval \<Rightarrow> jsval \<Rightarrow> jsval \<Rightarrow> ('w, jsval) pool_io" where
  "pool_sendRequest E opts type body expected timeoutMs =
     (let frameType = js_trim (str_or_empty type); arg = request_arg frameType body expected timeoutMs in
      if frameType = [] then throwE (errObj ''BAD_REQUEST'' ''type required'' False)
      else if \<not> ro_tryAll opts then
        bindE (getsE (\<lambda>p. (po_ready p, po_activeUrl p))) (\<lambda>(ready, active).
        case active of
          None \<Rightarrow> throwE (errObj ''NOT_READY'' ''uplink pool not ready'' True)
        | Some url \<Rightarrow>
            if \<not> ready then throwE (errObj ''NOT_READY'' ''uplink pool not ready'' True)
            else
              bindE (getsE (\<lambda>p. conn_ready p url)) (\<lambda>ok.
              if \<not> ok then throwE (errObj ''UNREACHABLE'' ''no ready uplink'' True)
              else ext (pe_sendRequest E url arg)))
      else
        bindE (getsE (\<lambda>p. (po_activeUrl p, request_order (ro_skipActive opts) p))) (\<lambda>(active, ordered).
          request_loop E opts arg frameType active ordered 0 None))"

record uplink_state =
  us_url :: string
  us_active :: bool
  us_ready :: bool
  us_healthy :: bool

definition getUplinkStates :: "pool \<Rightarrow> uplink_state list" where
  "getUplinkStates p = map (\<lambda>url.
     \<lparr>us_url = url, us_active = (po_activeUrl p = Some url), us_ready = conn_ready p url,
      us_healthy = (case map_of (po_conns p) url of Some c \<Rightarrow> cn_healthy c | None \<Rightarrow> False)\<rparr>) (po_uplinks p)"

section \<open>Inbound frames\<close>

definition MAX_DEDUPE_HASH_BYTES :: int where
  "MAX_DEDUPE_HASH_BYTES = 64 * 1024"

definition LARGE_FRAME_WARN_WINDOW_MS :: rat where
  "LARGE_FRAME_WARN_WINDOW_MS = 1000"

fun firstNonEmptyString :: "jsval list \<Rightarrow> string option" where
  "firstNonEmptyString [] = None"
| "firstNonEmptyString (v # vs) = (case v of JStr s \<Rightarrow> if s \<noteq> [] then Some s else firstNonEmptyString vs
     | _ \<Rightarrow> firstNonEmptyString vs)"

definition extractBase64Payload :: "jsval \<Rightarrow> string option" where
  "extractBase64Payload body = firstNonEmptyString
     [getp (getp body ''payload'') ''ciphertextB64'', getp (getp body ''payload'') ''packetB64'',
      getp body ''packetB64'', getp (getp body ''message'') ''packetB64'']"

definition estimateBase64Bytes :: "jsval \<Rightarrow> int" where
  "estimateBase64Bytes v =
     (let cleaned = filter (\<lambda>c. \<not> is_ws c) (str_or_empty v) in
      if cleaned = [] then 0
      else
        (let padding = (if suffix ''=='' cleaned then 2 else if suffix ''='' cleaned then 1 else 0)
         in max 0 ((int (length cleaned) * 3) div 4 - padding)))"

definition pool_toHex :: "octets \<Rightarrow> string" where
  "pool_toHex bs = concat (map (\<lambda>b. [hex_digit (unat b div 16), hex_digit (unat b mod 16)]) bs)"

definition pool_sha256Hex :: "'w pool_env \<Rightarrow> octets \<Rightarrow> string" where
  "pool_sha256Hex E bs = (case pe_digest E of Some d \<Rightarrow> pool_toHex (d bs) | None \<Rightarrow> pe_fnv1a64Hex E bs)"

datatype dedupe = DedupeKey string | DropLarge int

definition dedupeDecision :: "'w pool_env \<Rightarrow> jsval \<Rightarrow> dedupe" where
  "dedupeDecision E fr =
     (let body = (if is_object (getp fr ''body'') then getp fr ''body'' else JObj []);
          message = getp body ''message'';
          byJson = DedupeKey (''j:'' @ pool_sha256Hex E (utf8_encode (pe_stableJson E body)))
      in case firstNonEmptyString [getp body ''serverMsgId'', getp message ''serverMsgId'', getp message ''id''] of
           Some i \<Rightarrow> DedupeKey (''s:'' @ i)
         | None \<Rightarrow>
             (case firstNonEmptyString [getp body ''packetId'', getp message ''packetId''] of
                Some i \<Rightarrow> DedupeKey (''p:'' @ i)
              | None \<Rightarrow>
                  (case extractBase64Payload body of
                     None \<Rightarrow> byJson
                   | Some b64 \<Rightarrow>
                       if estimateBase64Bytes (JStr b64) > MAX_DEDUPE_HASH_BYTES
                       then DropLarge (estimateBase64Bytes (JStr b64))
                       else (case pe_base64ToBytes E b64 of
                           Inr bs \<Rightarrow> if bs \<noteq> [] then DedupeKey (''h:'' @ pool_sha256Hex E bs) else byJson
                         | Inl e \<Rightarrow> byJson))))"

definition recordLargeUnidentifiableDrop :: "'w pool_env \<Rightarrow> rat \<Rightarrow> int \<Rightarrow> jsval \<Rightarrow> ('w, unit) pool_io" where
  "recordLargeUnidentifiableDrop E nowMs approxBytes frameType =
     bindE (modifyE (\<lambda>p. p\<lparr>po_largeDrops := po_largeDrops p + 1, po_largeWarnDropped := po_largeWarnDropped p + 1,
        po_largeWarnLast := Some (nat approxBytes, frameType),
        po_largeWarnSinceMs := (if po_largeWarnSinceMs p = 0 then nowMs else po_largeWarnSinceMs p)\<rparr>)) (\<lambda>_.
     bindE (getsE (\<lambda>p. (nowMs - po_largeWarnSinceMs p < LARGE_FRAME_WARN_WINDOW_MS \<and> po_largeWarnDropped p > 1,
        po_largeWarnDropped p, po_largeDrops p))) (\<lambda>(quiet, dropped, total).
     if quiet then retE ()
     else
       bindE (pool_emit ''warn'' (JObj [(''code'', JStr (pe_LARGE_FRAME_CODE E)), (''droppedCount'', JInt (int dropped)),
         (''approxBytes'', JInt approxBytes), (''t'', frameType), (''totalDropped'', JInt (int total))])) (\<lambda>_.
       modifyE (\<lambda>p. p\<lparr>po_largeWarnSinceMs := nowMs, po_largeWarnDropped := 0, po_largeWarnLast := None\<rparr>))))"

definition onInboundFrame :: "'w pool_env \<Rightarrow> rat \<Rightarrow> string \<Rightarrow> jsval \<Rightarrow> ('w, unit) pool_io" where
  "onInboundFrame E nowMs url fr =
     (case getp fr ''t'' of
        JStr t \<Rightarrow>
          bindE (ext (pe_floodAllow E url nowMs)) (\<lambda>allow.
          if \<not> allow then
            bindE (ext (pe_floodWarn E nowMs)) (\<lambda>warn.
              if js_truthy warn then pool_emit ''warn'' warn else retE ())
          else
            (case dedupeDecision E fr of
               DropLarge n \<Rightarrow> recordLargeUnidentifiableDrop E nowMs n (JStr t)
             | DedupeKey key \<Rightarrow>
                 bindE (ext (pe_seen E key nowMs)) (\<lambda>seen.
                 if seen then retE ()
                 else
                   bindE (ext (pe_markSeen E key nowMs)) (\<lambda>_. pool_emit t fr))))
      | _ \<Rightarrow> retE ())"

end
