(* ===== verification/Js_Hoare.thy ===== *)
theory Js_Hoare
  imports Js_Prelude
begin

text \<open>
  Weakest preconditions for operations of an object over a world: \<open>wpE m Q R p\<close> says that the
  operation \<open>m\<close>, called when the private fields are \<open>p\<close> and in any world, ends with fields that
  satisfy \<open>Q\<close> when it returns and \<open>R\<close> when it throws. The conditions speak of the fields only,
  so whatever the world answers is covered.
\<close>

named_theorems wp_rules \<open>introduction rules of weakest preconditions\<close>

definition wpE ::
    "('s \<times> 'w, 'a) io \<Rightarrow> ('a \<Rightarrow> 's \<Rightarrow> bool) \<Rightarrow> (js_err \<Rightarrow> 's \<Rightarrow> bool) \<Rightarrow> 's \<Rightarrow> bool" where
  "wpE m Q R p \<longleftrightarrow> (\<forall>w. case m (p, w) of (Inr x, p', w') \<Rightarrow> Q x p' | (Inl e, p', w') \<Rightarrow> R e p')"

lemma wpE_D_Inr: "wpE m Q R p \<Longrightarrow> m (p, w) = (Inr x, (p', w')) \<Longrightarrow> Q x p'"
  unfolding wpE_def by (drule spec [of _ w]) simp

lemma wpE_D_Inl: "wpE m Q R p \<Longrightarrow> m (p, w) = (Inl e, (p', w')) \<Longrightarrow> R e p'"
  unfolding wpE_def by (drule spec [of _ w]) simp

lemma wpE_I:
  assumes "\<And>w x p' w'. m (p, w) = (Inr x, (p', w')) \<Longrightarrow> Q x p'"
    and "\<And>w e p' w'. m (p, w) = (Inl e, (p', w')) \<Longrightarrow> R e p'"
  shows "wpE m Q R p"
  unfolding wpE_def using assms by (auto split: sum.split)

text \<open>Both postconditions at once.\<close>

lemma wpE_D_snd: "wpE m (\<lambda>_. Q) (\<lambda>_. Q) p \<Longrightarrow> Q (fst (snd (m (p, w))))"
  unfolding wpE_def by (drule spec [of _ w]) (auto split: prod.splits sum.splits)

lemma wpE_conseq:
  assumes "wpE m Q R p" "\<And>x p'. Q x p' \<Longrightarrow> Q' x p'" "\<And>e p'. R e p' \<Longrightarrow> R' e p'"
  shows "wpE m Q' R' p"
  by (rule wpE_I) (blast intro: assms dest: wpE_D_Inr [OF assms(1)] wpE_D_Inl [OF assms(1)])+

lemma wpE_bind [wp_rules]:
  assumes "wpE m (\<lambda>x. wpE (f x) Q R) R p"
  shows "wpE (bindE m f) Q R p"
proof (rule wpE_I)
  fix w x p' w'
  assume "bindE m f (p, w) = (Inr x, (p', w'))"
  then obtain y q v where "m (p, w) = (Inr y, (q, v))" "f y (q, v) = (Inr x, (p', w'))"
    by (auto simp: bindE_def split: prod.splits sum.splits)
  with assms show "Q x p'" by (blast dest: wpE_D_Inr)
next
  fix w e p' w'
  assume "bindE m f (p, w) = (Inl e, (p', w'))"
  then consider "m (p, w) = (Inl e, (p', w'))"
    | y q v where "m (p, w) = (Inr y, (q, v))" "f y (q, v) = (Inl e, (p', w'))"
    by (auto simp: bindE_def split: prod.splits sum.splits)
  then show "R e p'" using assms by cases (blast dest: wpE_D_Inr wpE_D_Inl)+
qed

lemma wpE_catch [wp_rules]:
  assumes "wpE m Q (\<lambda>e. wpE (h e) Q R) p"
  shows "wpE (catchE m h) Q R p"
proof (rule wpE_I)
  fix w x p' w'
  assume "catchE m h (p, w) = (Inr x, (p', w'))"
  then consider "m (p, w) = (Inr x, (p', w'))"
    | e q v where "m (p, w) = (Inl e, (q, v))" "h e (q, v) = (Inr x, (p', w'))"
    by (auto simp: catchE_def split: prod.splits sum.splits)
  then show "Q x p'" using assms by cases (blast dest: wpE_D_Inr wpE_D_Inl)+
next
  fix w e p' w'
  assume "catchE m h (p, w) = (Inl e, (p', w'))"
  then obtain y q v where "m (p, w) = (Inl y, (q, v))" "h y (q, v) = (Inl e, (p', w'))"
    by (auto simp: catchE_def split: prod.splits sum.splits)
  with assms show "R e p'" by (blast dest: wpE_D_Inl)
qed

lemma wpE_ret [wp_rules]: "Q x p \<Longrightarrow> wpE (retE x) Q R p"
  by (simp add: wpE_def)

lemma wpE_throw [wp_rules]: "R e p \<Longrightarrow> wpE (throwE e) Q R p"
  by (simp add: wpE_def)

lemma wpE_gets [wp_rules]: "Q (f p) p \<Longrightarrow> wpE (getsE f) Q R p"
  by (simp add: wpE_def getsE_def)

lemma wpE_modify [wp_rules]: "Q () (f p) \<Longrightarrow> wpE (modifyE f) Q R p"
  by (simp add: wpE_def modifyE_def)

lemma wpE_ext:
  assumes "\<And>w x w'. m w = (Inr x, w') \<Longrightarrow> Q x p" "\<And>w e w'. m w = (Inl e, w') \<Longrightarrow> R e p"
  shows "wpE (ext m) Q R p"
  using assms by (auto simp: wpE_def ext_def split: prod.split sum.split)

lemma wpE_ext_any [wp_rules]: "(\<And>x. Q x p) \<Longrightarrow> (\<And>e. R e p) \<Longrightarrow> wpE (ext m) Q R p"
  by (rule wpE_ext)

lemma wpE_if [wp_rules]:
  "(c \<Longrightarrow> wpE a Q R p) \<Longrightarrow> (\<not> c \<Longrightarrow> wpE b Q R p) \<Longrightarrow> wpE (if c then a else b) Q R p"
  by simp

lemma wpE_pair [wp_rules]: "(\<And>a b. x = (a, b) \<Longrightarrow> wpE (f a b) Q R p) \<Longrightarrow> wpE (case x of (a, b) \<Rightarrow> f a b) Q R p"
  by (cases x) simp

lemma wpE_option [wp_rules]:
  "(x = None \<Longrightarrow> wpE a Q R p) \<Longrightarrow> (\<And>y. x = Some y \<Longrightarrow> wpE (f y) Q R p)
    \<Longrightarrow> wpE (case x of None \<Rightarrow> a | Some y \<Rightarrow> f y) Q R p"
  by (cases x) simp_all

lemma wpE_sum [wp_rules]:
  "(\<And>y. x = Inl y \<Longrightarrow> wpE (f y) Q R p) \<Longrightarrow> (\<And>y. x = Inr y \<Longrightarrow> wpE (g y) Q R p)
    \<Longrightarrow> wpE (case x of Inl y \<Rightarrow> f y | Inr y \<Rightarrow> g y) Q R p"
  by (cases x) simp_all

text \<open>The rules without the one that forgets what a call into the world returned.\<close>

lemmas wp_core = wpE_bind wpE_catch wpE_ret wpE_throw wpE_gets wpE_modify wpE_if wpE_pair wpE_option wpE_sum

section \<open>Returning\<close>

text \<open>What holds of the result and the final state when an operation returns.\<close>

definition returns :: "('s, 'a) io \<Rightarrow> ('a \<Rightarrow> 's \<Rightarrow> bool) \<Rightarrow> 's \<Rightarrow> bool" where
  "returns m Q s \<longleftrightarrow> (\<forall>x s'. m s = (Inr x, s') \<longrightarrow> Q x s')"

lemma returns_bind: "returns m (\<lambda>x. returns (f x) Q) s \<Longrightarrow> returns (bindE m f) Q s"
  unfolding returns_def bindE_def by (auto split: prod.splits sum.splits)

lemma returns_throw: "returns (throwE e) Q s"
  by (simp add: returns_def)

lemma returns_ret: "Q x s \<Longrightarrow> returns (retE x) Q s"
  by (simp add: returns_def)

lemma returns_if: "(b \<Longrightarrow> returns m Q s) \<Longrightarrow> (\<not> b \<Longrightarrow> returns m' Q s) \<Longrightarrow> returns (if b then m else m') Q s"
  by simp

lemma returns_pair: "(\<And>x y. p = (x, y) \<Longrightarrow> returns (f x y) Q s) \<Longrightarrow> returns (case p of (x, y) \<Rightarrow> f x y) Q s"
  by (cases p) simp

lemma returns_option: "(p = None \<Longrightarrow> returns m Q s) \<Longrightarrow> (\<And>x. p = Some x \<Longrightarrow> returns (f x) Q s)
    \<Longrightarrow> returns (case p of None \<Rightarrow> m | Some x \<Rightarrow> f x) Q s"
  by (cases p) simp_all

lemma returns_any: "(\<And>x t. Q x t) \<Longrightarrow> returns m Q s"
  by (simp add: returns_def)

lemma returns_lift: "(\<And>x. r = Inr x \<Longrightarrow> Q x s) \<Longrightarrow> returns (liftE r) Q s"
  by (simp add: returns_def liftE_def)

lemma returns_require: "(c \<Longrightarrow> Q () s) \<Longrightarrow> returns (requireE c e) Q s"
  by (auto simp: returns_def requireE_def split: if_splits)

lemma returns_call: "(\<And>x t. m s = (Inr x, t) \<Longrightarrow> Q x t) \<Longrightarrow> returns m Q s"
  by (simp add: returns_def)

lemma returns_conseq: "returns m Q s \<Longrightarrow> (\<And>x t. Q x t \<Longrightarrow> Q' x t) \<Longrightarrow> returns m Q' s"
  by (simp add: returns_def)

lemma returns_gets: "Q (f a) (a, w) \<Longrightarrow> returns (getsE f) Q (a, w)"
  by (simp add: returns_def getsE_def)

lemma returns_modify: "Q () (f a, w) \<Longrightarrow> returns (modifyE f) Q (a, w)"
  by (simp add: returns_def modifyE_def)

lemma returns_ext: "(\<And>x v. m w = (Inr x, v) \<Longrightarrow> Q x (a, v)) \<Longrightarrow> returns (ext m) Q (a, w)"
  by (auto simp: returns_def ext_def split: prod.splits)

lemma returns_within: "returns m P w \<Longrightarrow> (\<And>x v. P x v \<Longrightarrow> Q x (a, v)) \<Longrightarrow> returns (ext m) Q (a, w)"
  by (rule returns_ext) (simp add: returns_def)

lemma returns_rethrow: "returns m Q s \<Longrightarrow> returns (catchE m (\<lambda>e. throwE (f e))) Q s"
  by (auto simp: returns_def catchE_def throwE_def split: prod.splits sum.splits)

lemma returns_not_None: "returns m (\<lambda>r _. r \<noteq> None) s \<Longrightarrow> fst (m s) \<noteq> Inr None"
  unfolding returns_def by (metis prod.collapse)

lemmas returns_steps = returns_bind returns_throw returns_ret returns_if returns_pair returns_option returns_lift returns_require

section \<open>Invariants of the world\<close>

text \<open>Whatever its outcome, the operation leaves a condition on the state true.\<close>

definition leaves :: "('s \<Rightarrow> bool) \<Rightarrow> ('s, 'a) io \<Rightarrow> bool" where
  "leaves P m \<longleftrightarrow> (\<forall>s. P s \<longrightarrow> P (snd (m s)))"

named_theorems leave_rules \<open>operations that leave a condition on the state true\<close>

lemma leavesD: "leaves P m \<Longrightarrow> P s \<Longrightarrow> m s = (r, s') \<Longrightarrow> P s'"
  unfolding leaves_def by (metis snd_conv)

lemma leaves_bind [leave_rules]: "leaves P m \<Longrightarrow> (\<And>x. leaves P (f x)) \<Longrightarrow> leaves P (bindE m f)"
  by (auto simp: leaves_def bindE_def split: prod.splits sum.splits)

lemma leaves_catch [leave_rules]: "leaves P m \<Longrightarrow> (\<And>e. leaves P (h e)) \<Longrightarrow> leaves P (catchE m h)"
  by (auto simp: leaves_def catchE_def split: prod.splits sum.splits)

lemma leaves_basic [leave_rules]: "leaves P (retE x)" "leaves P (throwE e)" "leaves P (liftE r)" "leaves P (requireE c e)"
  by (auto simp: leaves_def liftE_def requireE_def split: sum.split)

lemma leaves_gets [leave_rules]: "leaves P (getsE f)"
  by (auto simp: leaves_def getsE_def)

lemma leaves_if [leave_rules]: "(c \<Longrightarrow> leaves P m) \<Longrightarrow> (\<not> c \<Longrightarrow> leaves P m') \<Longrightarrow> leaves P (if c then m else m')"
  by simp

lemma leaves_pair [leave_rules]: "(\<And>a b. leaves P (f a b)) \<Longrightarrow> leaves P (case p of (a, b) \<Rightarrow> f a b)"
  by (cases p) simp

lemma leaves_option [leave_rules]: "leaves P m \<Longrightarrow> (\<And>x. leaves P (f x)) \<Longrightarrow> leaves P (case p of None \<Rightarrow> m | Some x \<Rightarrow> f x)"
  by (cases p) simp_all

lemma leaves_list [leave_rules]: "leaves P m \<Longrightarrow> (\<And>x xs. leaves P (f x xs)) \<Longrightarrow> leaves P (case p of [] \<Rightarrow> m | x # xs \<Rightarrow> f x xs)"
  by (cases p) simp_all

text \<open>A condition on the world, seen from an operation of an object over it.\<close>

lemma leaves_ext [leave_rules]: "leaves P m \<Longrightarrow> leaves (\<lambda>s. P (snd s)) (ext m)"
  by (auto simp: leaves_def ext_def split: prod.splits)

lemma leaves_modify [leave_rules]: "leaves (\<lambda>s. P (snd s)) (modifyE f)"
  by (auto simp: leaves_def modifyE_def)

section \<open>Both outcomes\<close>

text \<open>What holds of the outcome and the final state, whether the operation returns or throws.\<close>

definition runs :: "('s, 'a) io \<Rightarrow> (js_err + 'a \<Rightarrow> 's \<Rightarrow> bool) \<Rightarrow> 's \<Rightarrow> bool" where
  "runs m Q s \<longleftrightarrow> (\<forall>r s'. m s = (r, s') \<longrightarrow> Q r s')"

lemma runs_ret: "Q (Inr x) s \<Longrightarrow> runs (retE x) Q s"
  and runs_throw: "Q (Inl e) s \<Longrightarrow> runs (throwE e) Q s"
  by (simp_all add: runs_def)

lemma runs_bind:
  "runs m (\<lambda>r t. case r of Inl e \<Rightarrow> Q (Inl e) t | Inr x \<Rightarrow> runs (f x) Q t) s \<Longrightarrow> runs (bindE m f) Q s"
  by (auto simp: runs_def bindE_def split: prod.splits sum.splits)

lemma runs_step: "m s = (Inr x, t) \<Longrightarrow> runs (f x) Q t \<Longrightarrow> runs (bindE m f) Q s"
  by (simp add: runs_def bindE_def)

lemma runs_conseq: "runs m Q s \<Longrightarrow> (\<And>r t. Q r t \<Longrightarrow> Q' r t) \<Longrightarrow> runs m Q' s"
  by (simp add: runs_def)

text \<open>A call that leaves a condition alone, then the rest.\<close>

lemma runs_past:
  assumes "leaves P m" "P s" "\<And>e t. P t \<Longrightarrow> Q (Inl e) t" "\<And>x t. P t \<Longrightarrow> runs (f x) Q t"
  shows "runs (bindE m f) Q s"
  by (rule runs_bind) (use assms leavesD [OF assms(1,2)] in \<open>auto simp: runs_def split: sum.split\<close>)

lemma runs_require: "(c \<Longrightarrow> runs m Q s) \<Longrightarrow> (\<not> c \<Longrightarrow> Q (Inl e) s) \<Longrightarrow> runs (bindE (requireE c e) (\<lambda>_. m)) Q s"
  by (cases c) (auto simp: runs_def requireE_def bindE_def)

lemma runs_lift: "(\<And>x. r = Inr x \<Longrightarrow> runs (f x) Q s) \<Longrightarrow> (\<And>e. r = Inl e \<Longrightarrow> Q (Inl e) s) \<Longrightarrow> runs (bindE (liftE r) f) Q s"
  by (cases r) (auto simp: runs_def bindE_def)

end
