(* ===== verification/Uplink_Pool_Props.thy ===== *)
theory Uplink_Pool_Props
  imports Uplink_Pool Js_Hoare
begin

text \<open>
  What the uplink pool guarantees: a ready pool has a ready active uplink, whatever happened
  before; a pool that was started never ends offline without a retry scheduled; the retry delay
  is bounded; a request sent across the uplinks is answered by a ready uplink, which becomes the
  active one when the caller asked for it.
\<close>

section \<open>Runs of the pool\<close>

datatype pool_op =
    OpConnect
  | OpConnectNow
  | OpTimer
  | OpClose
  | OpConnState string jsval
  | OpRequest request_opts jsval jsval jsval jsval
  | OpFrame rat string jsval

text \<open>The timer fires only when it is set.\<close>

fun pool_do :: "'w pool_env \<Rightarrow> pool_op \<Rightarrow> ('w, unit) pool_io" where
  "pool_do E OpConnect = pool_connect E"
| "pool_do E OpConnectNow = connectNow E"
| "pool_do E OpTimer =
     bindE (getsE (\<lambda>p. po_reconnectTimer p \<noteq> None)) (\<lambda>set. if set then reconnectTimer_fires E else retE ())"
| "pool_do E OpClose = pool_close E"
| "pool_do E (OpConnState url st) = onConnState E url st"
| "pool_do E (OpRequest opts t b r ms) = bindE (pool_sendRequest E opts t b r ms) (\<lambda>_. retE ())"
| "pool_do E (OpFrame now url fr) = onInboundFrame E now url fr"

fun pool_run :: "'w pool_env \<Rightarrow> pool_op list \<Rightarrow> pool \<times> 'w \<Rightarrow> pool \<times> 'w" where
  "pool_run E [] s = s"
| "pool_run E (x # xs) s = pool_run E xs (snd (pool_do E x s))"

section \<open>What each operation leaves alone\<close>

text \<open>\<open>p'\<close> is \<open>p\<close> but for its connections, and the uplinks in \<open>K\<close> that were ready still are.\<close>

definition conns_only :: "string set \<Rightarrow> pool \<Rightarrow> pool \<Rightarrow> bool" where
  "conns_only K p p' \<longleftrightarrow> (\<exists>cs. p' = p\<lparr>po_conns := cs\<rparr>) \<and> (\<forall>u\<in>K. conn_ready p u \<longrightarrow> conn_ready p' u)"

lemma conns_self [simp]: "\<exists>cs. p = p\<lparr>po_conns := cs\<rparr>"
  by (rule exI [of _ "po_conns p"]) simp

lemma conns_only_refl: "conns_only K p p"
  by (simp add: conns_only_def)

lemma conns_only_trans: "conns_only K p q \<Longrightarrow> conns_only K q r \<Longrightarrow> conns_only K p r"
  by (auto simp: conns_only_def)

lemma conns_only_mono: "conns_only K p q \<Longrightarrow> L \<subseteq> K \<Longrightarrow> conns_only L p q"
  by (auto simp: conns_only_def)

lemma conns_only_fields:
  assumes "conns_only K p q"
  shows "po_uplinks q = po_uplinks p" "po_activeUrl q = po_activeUrl p" "po_ready q = po_ready p"
    "po_closed q = po_closed p" "po_reconnectTimer q = po_reconnectTimer p"
    "po_backoffMs q = po_backoffMs p" "po_backoffCapMs q = po_backoffCapMs p"
    "po_warmSpareCount q = po_warmSpareCount p"
  using assms by (auto simp: conns_only_def)

lemma conns_only_new: "map_of (po_conns p) url = None \<Longrightarrow>
    conns_only UNIV p (p\<lparr>po_conns := AList.update url c (po_conns p)\<rparr>)"
  by (auto simp: conns_only_def conn_ready_def update_conv' split: option.splits)

lemma conns_only_mark_True: "conns_only UNIV p (pool_mark url True h p)"
  by (auto simp: conns_only_def conn_ready_def pool_mark_def update_conv' split: option.splits)

lemma conns_only_mark_other: "url \<notin> K \<Longrightarrow> conns_only K p (pool_mark url r h p)"
  by (auto simp: conns_only_def conn_ready_def pool_mark_def update_conv' split: option.splits)

lemma conn_ready_mark: "map_of (po_conns p) url \<noteq> None \<Longrightarrow> conn_ready (pool_mark url r h p) url = r"
  by (auto simp: conn_ready_def pool_mark_def update_conv' split: option.splits)

lemma conn_ok_ready: "conn_ok p u \<Longrightarrow> conn_ready p u"
  by (auto simp: conn_ok_def conn_ready_def split: option.splits)

lemma findConnectedSpare_Some:
  "findConnectedSpare p = Some u \<Longrightarrow> u \<in> set (po_uplinks p) \<and> conn_ready p u"
  unfolding findConnectedSpare_def by (auto simp: find_Some_iff intro: conn_ok_ready)

lemma wp_ensureConnected:
  "wpE (ensureConnected E url) (\<lambda>_ p'. conns_only UNIV p p' \<and> conn_ready p' url) (\<lambda>_ p'. conns_only UNIV p p') p"
  unfolding ensureConnected_def
  by (intro wp_rules conns_only_refl)
    (auto simp: conn_ready_mark update_conv' conns_only_new conns_only_mark_True
      intro: conns_only_refl conns_only_trans [OF conns_only_new conns_only_mark_True])

lemma wp_warm_loop:
  "wpE (warm_loop E urls) (\<lambda>_ p'. conns_only (set_option (po_activeUrl p)) p p') (\<lambda>_ _. False) p"
proof (induction urls arbitrary: p)
  case Nil
  show ?case unfolding warm_loop.simps by (intro wp_rules conns_only_refl)
next
  case (Cons url urls)
  have onwards: "wpE (warm_loop E urls) (\<lambda>_ p'. conns_only (set_option (po_activeUrl p)) p p') (\<lambda>_ _. False) q"
    if "conns_only (set_option (po_activeUrl p)) p q" for q
    using Cons.IH [of q] by (rule wpE_conseq)
      (use that in \<open>auto simp: conns_only_fields [OF that] intro: conns_only_trans\<close>)
  have failed: "conns_only (set_option (po_activeUrl p)) p (pool_mark url False False q)"
    if "conns_only UNIV p q" "po_activeUrl p \<noteq> Some url" for q
    using that by (auto intro!: conns_only_trans [OF conns_only_mono conns_only_mark_other])
  show ?case
    unfolding warm_loop.simps
    by (intro wp_rules wpE_conseq [OF wp_ensureConnected] onwards)
      (auto intro: conns_only_refl failed conns_only_mono)
qed

lemma wp_ensureWarmSpareTarget:
  "wpE (ensureWarmSpareTarget E) (\<lambda>_ p'. conns_only (set_option (po_activeUrl p)) p p') (\<lambda>_ _. False) p"
  unfolding ensureWarmSpareTarget_def by (intro wp_rules wp_warm_loop conns_only_refl)

text \<open>Everything \<open>closeConnections\<close> leaves behind.\<close>

definition disconnected :: "pool \<Rightarrow> pool \<Rightarrow> bool" where
  "disconnected p p' \<longleftrightarrow> po_conns p' = [] \<and> po_activeUrl p' = None \<and> \<not> po_ready p' \<and>
     po_uplinks p' = po_uplinks p \<and> po_closed p' = po_closed p \<and> po_reconnectTimer p' = po_reconnectTimer p \<and>
     po_backoffMs p' = po_backoffMs p \<and> po_backoffCapMs p' = po_backoffCapMs p"

text \<open>The documented behaviour of the two filters the pool clears: clearing does not throw.\<close>

definition clears_return :: "'w pool_env \<Rightarrow> bool" where
  "clears_return E \<longleftrightarrow> (\<forall>w. fst (pe_dedupeClear E w) = Inr ()) \<and> (\<forall>w. fst (pe_floodClear E w) = Inr ())"

lemma close_all_returns: "fst (close_all E urls w) = Inr ()"
proof (induction urls arbitrary: w)
  case (Cons url urls)
  then show ?case
    by (cases "pe_close E url w") (auto simp: bindE_def catchE_def split: sum.split)
qed simp

lemma throws_dest:
  "close_all E urls w = (Inl e, w') \<Longrightarrow> False"
  "pe_dedupeClear E w = (Inl e, w') \<Longrightarrow> \<not> clears_return E"
  "pe_floodClear E w = (Inl e, w') \<Longrightarrow> \<not> clears_return E"
  by (metis close_all_returns fst_conv Inl_Inr_False) (metis clears_return_def fst_conv Inl_Inr_False)+

lemma wp_closeConnections:
  "wpE (closeConnections E) (\<lambda>_ p'. disconnected p p') (\<lambda>_ p'. disconnected p p' \<and> \<not> clears_return E) p"
  unfolding closeConnections_def
  by (intro wpE_bind wpE_gets wpE_modify wpE_ext) (auto simp: disconnected_def dest: throws_dest)

section \<open>The invariant\<close>

context backoff
begin

lemma delay_ge_floor: "num_le (Fin 1000) (backoffDelay base cap attempt 1)"
proof -
  have "1000 \<le> a * 2 ^ n" if "1000 \<le> a" for a :: rat and n :: nat
  proof -
    have "1000 * 1 \<le> a * 2 ^ n" using that by (intro mult_mono) auto
    then show ?thesis by simp
  qed
  then show ?thesis
    using base_floor cap_floor unfolding backoffDelay_def
    by (cases base; cases cap) (auto simp: num_le_def min_def not_le order_le_less)
qed

end

definition timer_bounded :: "pool \<Rightarrow> bool" where
  "timer_bounded p \<longleftrightarrow> (\<forall>d. po_reconnectTimer p = Some d \<longrightarrow>
     \<not> po_closed p \<and> num_le (Fin 1000) d \<and> num_le d (backoff_cap (po_backoffCapMs p)))"

text \<open>All but the readiness of the active uplink, and all of it.\<close>

definition pool_shape :: "pool \<Rightarrow> bool" where
  "pool_shape p \<longleftrightarrow> (\<forall>u. po_activeUrl p = Some u \<longrightarrow> u \<in> set (po_uplinks p)) \<and> timer_bounded p"

definition pool_inv :: "pool \<Rightarrow> bool" where
  "pool_inv p \<longleftrightarrow> pool_shape p \<and> (po_ready p \<longrightarrow> (\<exists>u. po_activeUrl p = Some u \<and> conn_ready p u))"

lemma pool_inv_shape: "pool_inv p \<Longrightarrow> pool_shape p"
  by (simp add: pool_inv_def)

lemma pool_shape_schedule: "pool_shape p \<Longrightarrow> pool_shape (pool_schedule p)"
  by (auto simp: pool_shape_def timer_bounded_def pool_schedule_def Let_def bo.delay_ge_floor bo.delay_le_cap)

lemma pool_shape_conns: "conns_only K p q \<Longrightarrow> pool_shape q = pool_shape p"
  by (simp add: pool_shape_def timer_bounded_def conns_only_fields)

lemma pool_inv_conns:
  assumes "conns_only K p q" "set_option (po_activeUrl p) \<subseteq> K" "pool_inv p"
  shows "pool_inv q"
  using assms(2,3) conns_only_fields [OF assms(1)] pool_shape_conns [OF assms(1)] assms(1)
  by (auto simp: pool_inv_def conns_only_def)

lemma pool_inv_disconnected: "disconnected p q \<Longrightarrow> pool_shape p \<Longrightarrow> pool_inv q"
  by (auto simp: pool_inv_def pool_shape_def disconnected_def timer_bounded_def)

text \<open>Notes to listeners change the log only.\<close>

lemma pool_emitState_fields [simp]:
  "pool_shape (po_note es p) = pool_shape p" "pool_inv (po_note es p) = pool_inv p"
  "po_ready (po_note es p) = po_ready p" "po_closed (po_note es p) = po_closed p"
  "po_reconnectTimer (po_note es p) = po_reconnectTimer p" "po_activeUrl (po_note es p) = po_activeUrl p"
  "po_uplinks (po_note es p) = po_uplinks p" "conn_ready (po_note es p) u = conn_ready p u"
  by (simp_all add: po_note_def pool_shape_def pool_inv_def timer_bounded_def conn_ready_def)

section \<open>Connecting and failing over\<close>

definition pool_alive :: "pool \<Rightarrow> bool" where
  "pool_alive p \<longleftrightarrow> po_ready p \<or> po_closed p \<or> po_reconnectTimer p \<noteq> None"

lemma alive_schedule [simp]: "pool_alive (pool_schedule p)"
  by (simp add: pool_alive_def pool_schedule_def Let_def)

lemma alive_note [simp]: "pool_alive (po_note es p) = pool_alive p"
  by (simp add: pool_alive_def)

lemma ready_alive [intro]: "po_ready p \<Longrightarrow> pool_alive p"
  by (simp add: pool_alive_def)

lemma schedule_closed [simp]: "po_closed (pool_schedule p) = po_closed p"
  by (simp add: pool_schedule_def Let_def)

lemma stop_timer_closed [simp]: "po_closed (stop_timer p) = po_closed p"
  by (simp add: stop_timer_def)

lemma conns_only_alive: "conns_only K p q \<Longrightarrow> pool_alive q = pool_alive p"
  by (simp add: pool_alive_def conns_only_fields)

lemma pool_inv_schedule: "pool_inv p \<Longrightarrow> pool_inv (pool_schedule p)"
  using pool_shape_schedule [of p] by (auto simp: pool_inv_def pool_schedule_def Let_def conn_ready_def)

lemma pool_inv_attempts [simp]: "pool_inv (p\<lparr>po_attempts := n\<rparr>) = pool_inv p"
  by (simp add: pool_inv_def pool_shape_def timer_bounded_def conn_ready_def)

lemma pool_shape_offline: "pool_shape p \<Longrightarrow> pool_shape (goOffline p)"
  by (simp add: pool_shape_def goOffline_def timer_bounded_def)

lemma goOffline_not_ready [simp]: "\<not> po_ready (goOffline p)"
  by (simp add: goOffline_def)

lemma pool_inv_offline: "pool_shape p \<Longrightarrow> pool_inv (goOffline p)"
  by (simp add: pool_inv_def pool_shape_offline)

definition activated :: "string \<Rightarrow> pool \<Rightarrow> pool \<Rightarrow> bool" where
  "activated url p p' \<longleftrightarrow> po_activeUrl p' = Some url \<and> po_conns p' = po_conns p \<and> po_uplinks p' = po_uplinks p \<and>
     po_closed p' = po_closed p \<and> po_reconnectTimer p' = po_reconnectTimer p \<and> po_ready p' = po_ready p \<and>
     po_backoffCapMs p' = po_backoffCapMs p"

lemma activated_inv:
  assumes "activated url p p'" "url \<in> set (po_uplinks p)" "conn_ready p url" "pool_shape p"
  shows "pool_inv (p'\<lparr>po_ready := r\<rparr>)" "pool_inv p'"
  using assms by (auto simp: activated_def pool_inv_def pool_shape_def timer_bounded_def conn_ready_def)

lemma activated_closed: "activated url p p' \<Longrightarrow> po_closed p' = po_closed p"
  by (simp add: activated_def)

lemma activated_url: "activated url p p' \<Longrightarrow> po_activeUrl p' = Some url"
  by (simp add: activated_def)

lemma activated_conn: "activated url p p' \<Longrightarrow> conn_ready p' u = conn_ready p u"
  by (simp add: activated_def conn_ready_def)

lemma wp_setActive: "wpE (setActive E url) (\<lambda>_ p'. activated url p p') (\<lambda>_ _. False) p"
  unfolding setActive_def
  by (intro wpE_bind wpE_modify wpE_ext) (auto simp: activated_def po_note_def)

lemma wp_notes [wp_rules]:
  "(\<And>es. Q () (po_note es p)) \<Longrightarrow> wpE (pool_emitState v) Q R p"
  "(\<And>es. Q () (po_note es p)) \<Longrightarrow> wpE (offline v) Q R p"
  "(\<And>es. Q () (po_note es p)) \<Longrightarrow> Q () p \<Longrightarrow> wpE (pool_emit t v) Q R p"
  unfolding offline_def pool_emitState_def pool_emit_def by (intro wp_rules; simp split: option.split)+

lemma wp_notifyReconnected [wp_rules]:
  "(\<And>es. Q () (po_note es p)) \<Longrightarrow> (\<And>e. R e p) \<Longrightarrow> wpE (notifyReconnected E) Q R p"
  unfolding notifyReconnected_def by (intro wp_rules)

lemma wp_connect_loop:
  assumes "set urls \<subseteq> set (po_uplinks p)" "pool_inv p" "po_activeUrl p = None"
  shows "wpE (connect_loop E urls firstErr) (\<lambda>_ p'. pool_inv p' \<and> po_closed p' = po_closed p) (\<lambda>_ _. False) p"
  using assms
proof (induction urls arbitrary: p firstErr)
  case Nil
  then show ?case unfolding connect_loop.simps by (intro wp_rules) simp
next
  case (Cons url urls)
  have onwards: "wpE (connect_loop E urls e) (\<lambda>_ p'. pool_inv p' \<and> po_closed p' = po_closed p) (\<lambda>_ _. False) q"
    if "conns_only UNIV p q" for q e
    using Cons.IH [of q e] Cons.prems conns_only_fields [OF that] pool_inv_conns [OF that] by auto
  have active: "pool_inv (q'\<lparr>po_ready := True\<rparr>)" if "conns_only UNIV p q" "conn_ready q url" "activated url q q'" for q q'
    by (rule activated_inv(1) [OF that(3)])
      (use that Cons.prems in \<open>simp_all add: conns_only_fields(1) pool_shape_conns pool_inv_shape\<close>)
  show ?case
    unfolding connect_loop.simps
    by (intro wp_rules wpE_conseq [OF wp_ensureConnected] wpE_conseq [OF wp_setActive])
      (auto intro: onwards active simp: activated_closed conns_only_fields(4))
qed

lemma wp_ensureWarm_inv:
  assumes "pool_inv p"
  shows "wpE (ensureWarmSpareTarget E)
    (\<lambda>_ p'. pool_inv p' \<and> po_ready p' = po_ready p \<and> pool_alive p' = pool_alive p) (\<lambda>_ _. False) p"
  by (rule wpE_conseq [OF wp_ensureWarmSpareTarget])
    (auto simp: conns_only_fields conns_only_alive intro: pool_inv_conns [OF _ order_refl assms])

lemma terminal_code_known: "terminalHomeRejectionCode e \<noteq> [] \<Longrightarrow>
    err_code (errObj (terminalHomeRejectionCode e) m r) \<in> set TERMINAL_HOME_REJECTION_CODES"
  by (auto simp: errObj_def terminalHomeRejectionCode_def Let_def split: option.splits if_splits)

lemma wp_pool_connect:
  assumes "pool_shape p"
  shows "wpE (pool_connect E) (\<lambda>_ p'. pool_inv p' \<and> po_ready p')
    (\<lambda>e p'. pool_inv p' \<and> \<not> po_closed p' \<and>
       (clears_return E \<longrightarrow> err_code e \<notin> set TERMINAL_HOME_REJECTION_CODES \<longrightarrow> pool_alive p')) p"
proof -
  have start: "pool_shape (stop_timer (p\<lparr>po_closed := False\<rparr>))"
    using assms by (simp add: pool_shape_def stop_timer_def timer_bounded_def)
  show ?thesis
    unfolding pool_connect_def Let_def
    by (intro wp_rules wpE_conseq [OF wp_closeConnections] wpE_conseq [OF wp_connect_loop] wpE_conseq [OF wp_ensureWarm_inv])
      (auto simp: terminal_code_known pool_inv_schedule disconnected_def [of _ p for p] intro: pool_inv_disconnected [OF _ start])
qed

lemma wp_attemptReconnect:
  assumes "pool_shape p"
  shows "wpE (attemptReconnect E) (\<lambda>_ p'. pool_inv p' \<and> po_ready p')
    (\<lambda>e p'. pool_inv p' \<and> (clears_return E \<longrightarrow> pool_alive p')) p"
  unfolding attemptReconnect_def
  by (intro wp_rules wpE_conseq [OF wp_pool_connect [OF assms]] wpE_conseq [OF wp_closeConnections])
    (auto intro!: pool_inv_schedule dest: pool_inv_disconnected [OF _ pool_inv_shape])

lemma pool_shape_ready [simp]: "pool_shape (p\<lparr>po_ready := r\<rparr>) = pool_shape p"
  by (simp add: pool_shape_def timer_bounded_def)

lemma spare_activated:
  assumes "findConnectedSpare q = Some url" "activated url q q'" "pool_shape q"
  shows "pool_inv (q'\<lparr>po_ready := True\<rparr>) \<and> pool_shape q'"
  using findConnectedSpare_Some [OF assms(1)] activated_inv [OF assms(2)] assms(3) pool_inv_shape by blast

lemma wp_promote:
  assumes "pool_shape p"
  shows "wpE (promoteNextConnectedSpare E reason)
    (\<lambda>r p'. pool_shape p' \<and> (r \<longrightarrow> pool_inv p' \<and> po_ready p')) (\<lambda>_ _. False) p"
proof -
  have shape: "pool_shape q" if "conns_only K p q" for q K
    using that assms by (simp add: pool_shape_conns)
  have kept: "pool_inv r"
    if "conns_only (set_option (po_activeUrl q)) (po_note ec (po_note eb (po_note ea (q\<lparr>po_ready := True\<rparr>)))) r"
      "pool_inv (q\<lparr>po_ready := True\<rparr>)" for q r ea eb ec
    using that pool_inv_conns [OF that(1)] by auto
  show ?thesis
    unfolding promoteNextConnectedSpare_def
    by (intro wp_rules wpE_conseq [OF wp_ensureWarmSpareTarget] wpE_conseq [OF wp_setActive])
      (auto simp: assms pool_shape_conns intro!: pool_shape_schedule pool_shape_offline
        dest: conns_only_fields(3) kept spare_activated [OF _ _ assms] spare_activated [OF _ _ shape],
       (blast dest: spare_activated [OF _ _ assms] spare_activated [OF _ _ shape])+)
qed

lemma wp_onConnState:
  assumes "pool_inv p"
  shows "wpE (onConnState E url st) (\<lambda>_ p'. pool_inv p' \<and> (pool_alive p \<longrightarrow> pool_alive p')) (\<lambda>_ _. False) p"
proof -
  have lost: "pool_shape (pool_mark url False False q)" if "pool_inv q" for q
    using that pool_shape_conns [OF conns_only_mark_other [of url "{}"]] by (simp add: pool_inv_shape)
  have marked: "po_activeUrl (pool_mark url r h q) = po_activeUrl q" "pool_alive (pool_mark url r h q) = pool_alive q" for r h q
    using conns_only_mark_other [of url "{}" q r h] by (simp_all add: conns_only_fields(2) conns_only_alive)
  have spare: "pool_inv (pool_mark url False False q)" if "pool_inv q" "po_activeUrl q \<noteq> Some url" for q
    by (rule pool_inv_conns [OF conns_only_mark_other [of url "set_option (po_activeUrl q)"]]) (use that in auto)
  show ?thesis
    unfolding onConnState_def Let_def
    by (intro wp_rules wpE_conseq [OF wp_promote] wpE_conseq [OF wp_ensureWarm_inv])
      (auto simp: assms marked intro: lost spare intro!: pool_inv_schedule pool_inv_offline)
qed

section \<open>Requests and frames\<close>

text \<open>What a request keeps: the invariant, the readiness flag, and being alive.\<close>

definition request_keeps :: "pool \<Rightarrow> pool \<Rightarrow> bool" where
  "request_keeps p p' \<longleftrightarrow> pool_inv p' \<and> po_uplinks p' = po_uplinks p \<and> po_ready p' = po_ready p \<and> pool_alive p' = pool_alive p"

text \<open>The answer \<open>fr\<close> came from a ready uplink among \<open>urls\<close>, adopted if the caller asked for that.\<close>

definition answered_by :: "'w pool_env \<Rightarrow> request_opts \<Rightarrow> jsval \<Rightarrow> string list \<Rightarrow> jsval \<Rightarrow> pool \<Rightarrow> bool" where
  "answered_by E opts arg urls fr p' \<longleftrightarrow> (\<exists>url\<in>set urls. conn_ready p' url \<and>
     (\<exists>w w'. pe_sendRequest E url arg w = (Inr fr, w')) \<and> (ro_adopt opts \<longrightarrow> po_activeUrl p' = Some url))"

lemma request_keeps_conns:
  "conns_only UNIV p q \<Longrightarrow> pool_inv p \<Longrightarrow> request_keeps p q"
  by (auto simp: request_keeps_def conns_only_fields conns_only_alive intro: pool_inv_conns)

lemma request_keeps_trans: "request_keeps p q \<Longrightarrow> request_keeps q r \<Longrightarrow> request_keeps p r"
  by (auto simp: request_keeps_def)

lemma wp_request_loop:
  assumes "set urls \<subseteq> set (po_uplinks p)" "pool_inv p"
  shows "wpE (request_loop E opts arg frameType from urls n lastErr)
    (\<lambda>fr p'. request_keeps p p' \<and> answered_by E opts arg urls fr p') (\<lambda>_ p'. request_keeps p p') p"
  using assms
proof (induction urls arbitrary: p n lastErr)
  case Nil
  have "request_keeps p p" using Nil.prems by (simp add: request_keeps_def)
  then show ?case unfolding request_loop.simps by (intro wp_rules)
next
  case (Cons url urls)
  have onwards: "wpE (request_loop E opts arg frameType from urls k e)
      (\<lambda>fr p'. request_keeps p p' \<and> answered_by E opts arg (url # urls) fr p') (\<lambda>_ p'. request_keeps p p') q"
    if "request_keeps p q" for q k e
  proof (rule wpE_conseq [OF Cons.IH])
    show "set urls \<subseteq> set (po_uplinks q)" "pool_inv q" using that Cons.prems by (auto simp: request_keeps_def)
  qed (use request_keeps_trans [OF that] in \<open>auto simp: answered_by_def\<close>)
  have adopted: "request_keeps p (po_note ea (po_note eb q'))"
    if "conns_only UNIV p q" "conn_ready q url" "activated url q q'" for q q' ea eb
    using that Cons.prems activated_inv(2) [OF that(3)] pool_inv_shape pool_shape_conns [OF that(1)]
      conns_only_fields [OF that(1)]
    by (auto simp: request_keeps_def pool_alive_def activated_def)
  note keeps = request_keeps_conns [OF _ Cons.prems(2)]
  show ?case
    unfolding request_loop.simps
    by (intro wp_core wpE_conseq [OF wp_ensureConnected] wpE_conseq [OF wp_setActive] wpE_ext wp_notes onwards)
      (auto intro: adopted keeps simp: answered_by_def activated_url activated_conn)
qed

lemma request_order_uplinks:
  "pool_inv p \<Longrightarrow> set (request_order skip p) \<subseteq> set (po_uplinks p)"
  by (auto simp: request_order_def Let_def pool_inv_def pool_shape_def split: option.splits if_splits)

lemma wp_pool_sendRequest:
  assumes "pool_inv p"
  shows "wpE (pool_sendRequest E opts type body r ms)
    (\<lambda>fr p'. request_keeps p p' \<and> (ro_tryAll opts \<longrightarrow>
       answered_by E opts (request_arg (js_trim (str_or_empty type)) body r ms) (request_order (ro_skipActive opts) p) fr p'))
    (\<lambda>_ p'. request_keeps p p') p"
proof -
  have "request_keeps p p" using assms by (simp add: request_keeps_def)
  then show ?thesis
    unfolding pool_sendRequest_def Let_def
    by (intro wp_rules wpE_conseq [OF wp_request_loop]) (auto simp: assms dest: request_order_uplinks [OF assms, THEN subsetD])
qed

lemma pool_inv_large [simp]:
  "pool_inv (p\<lparr>po_largeDrops := a\<rparr>) = pool_inv p" "pool_inv (p\<lparr>po_largeWarnDropped := a\<rparr>) = pool_inv p"
  "pool_inv (p\<lparr>po_largeWarnLast := c\<rparr>) = pool_inv p" "pool_inv (p\<lparr>po_largeWarnSinceMs := d\<rparr>) = pool_inv p"
  "pool_alive (p\<lparr>po_largeDrops := a\<rparr>) = pool_alive p" "pool_alive (p\<lparr>po_largeWarnDropped := a\<rparr>) = pool_alive p"
  "pool_alive (p\<lparr>po_largeWarnLast := c\<rparr>) = pool_alive p" "pool_alive (p\<lparr>po_largeWarnSinceMs := d\<rparr>) = pool_alive p"
  by (simp_all add: pool_inv_def pool_shape_def timer_bounded_def conn_ready_def pool_alive_def)

lemma wpE_dedupe:
  "(\<And>k. d = DedupeKey k \<Longrightarrow> wpE (f k) Q R p) \<Longrightarrow> (\<And>n. d = DropLarge n \<Longrightarrow> wpE (g n) Q R p)
    \<Longrightarrow> wpE (case d of DedupeKey k \<Rightarrow> f k | DropLarge n \<Rightarrow> g n) Q R p"
  by (cases d) simp_all

lemma wp_onInboundFrame:
  assumes "pool_inv p"
  shows "wpE (onInboundFrame E now url fr) (\<lambda>_ p'. pool_inv p' \<and> pool_alive p' = pool_alive p)
    (\<lambda>_ p'. pool_inv p' \<and> pool_alive p' = pool_alive p) p"
proof (cases "is_string (getp fr ''t'')")
  case True
  then obtain t where "getp fr ''t'' = JStr t" by (auto simp: is_string_iff)
  then show ?thesis
    unfolding onInboundFrame_def recordLargeUnidentifiableDrop_def
    by (simp only: jsval.case) (intro wp_rules wpE_dedupe; auto simp: assms)
next
  case False
  then have "onInboundFrame E now url fr = retE ()"
    by (cases "getp fr ''t''") (simp_all add: onInboundFrame_def)
  then show ?thesis by (simp add: wpE_def assms)
qed

section \<open>Every run\<close>

definition op_keeps :: "'w pool_env \<Rightarrow> pool_op \<Rightarrow> pool \<Rightarrow> pool \<Rightarrow> bool" where
  "op_keeps E x p p' \<longleftrightarrow>
     pool_inv p' \<and> (clears_return E \<longrightarrow> x \<noteq> OpConnect \<longrightarrow> pool_alive p \<longrightarrow> pool_alive p')"

lemma pool_do_keeps:
  assumes "pool_inv p"
  shows "wpE (pool_do E x) (\<lambda>_. op_keeps E x p) (\<lambda>_. op_keeps E x p) p"
proof -
  have stopped: "pool_inv (stop_timer q)" "pool_shape (stop_timer q)" "po_closed (stop_timer q) = po_closed q"
    if "pool_inv q" for q
    using that by (simp_all add: pool_inv_def pool_shape_def stop_timer_def timer_bounded_def conn_ready_def)
  have closing: "pool_shape ((stop_timer (p\<lparr>po_closed := True\<rparr>))\<lparr>po_attempts := 0\<rparr>)"
    using assms by (simp add: pool_inv_def pool_shape_def stop_timer_def timer_bounded_def)
  have closed: "pool_alive q" if "disconnected ((stop_timer (p\<lparr>po_closed := True\<rparr>))\<lparr>po_attempts := 0\<rparr>) q" for q
    using that by (simp add: disconnected_def pool_alive_def stop_timer_def)
  show ?thesis
  proof (cases x)
    case OpConnect
    show ?thesis unfolding OpConnect pool_do.simps op_keeps_def
      by (rule wpE_conseq [OF wp_pool_connect]) (simp_all add: assms pool_inv_shape)
  next
    case OpConnectNow
    show ?thesis unfolding OpConnectNow pool_do.simps connectNow_def op_keeps_def
      by (intro wp_rules wpE_conseq [OF wp_attemptReconnect]) (auto simp: assms stopped)
  next
    case OpTimer
    show ?thesis unfolding OpTimer pool_do.simps reconnectTimer_fires_def op_keeps_def
      by (intro wp_rules wpE_conseq [OF wp_attemptReconnect]) (auto simp: assms stopped pool_alive_def [of "stop_timer p"])
  next
    case OpClose
    show ?thesis unfolding OpClose pool_do.simps pool_close_def op_keeps_def
      by (intro wp_rules wpE_conseq [OF wp_closeConnections]) (auto dest: pool_inv_disconnected [OF _ closing] closed)
  next
    case (OpConnState url st)
    show ?thesis unfolding OpConnState pool_do.simps op_keeps_def
      by (rule wpE_conseq [OF wp_onConnState]) (simp_all add: assms)
  next
    case (OpRequest opts t b r ms)
    show ?thesis unfolding OpRequest pool_do.simps op_keeps_def
      by (intro wp_rules wpE_conseq [OF wp_pool_sendRequest]) (auto simp: assms request_keeps_def)
  next
    case (OpFrame now url fr)
    show ?thesis unfolding OpFrame pool_do.simps op_keeps_def
      by (rule wpE_conseq [OF wp_onInboundFrame]) (simp_all add: assms)
  qed
qed

lemma pool_do_step:
  assumes "pool_inv p" "pool_do E x (p, w) = (r, p', w')"
  shows "op_keeps E x p p'"
  using wpE_D_snd [OF pool_do_keeps [OF assms(1)], of E x w] assms(2) by simp

lemma pool_run_inv:
  "pool_inv p \<Longrightarrow> pool_run E ops (p, w) = (p', w') \<Longrightarrow> pool_inv p'"
proof (induction ops arbitrary: p w)
  case (Cons x ops)
  obtain r q v where step: "pool_do E x (p, w) = (r, q, v)" by (metis prod_cases3)
  with Cons.prems pool_do_step [OF Cons.prems(1) step] show ?case
    using Cons.IH [of q v] by (simp add: op_keeps_def)
qed simp

lemma pool_run_alive:
  assumes "clears_return E" "pool_inv p" "pool_alive p" "OpConnect \<notin> set ops" "pool_run E ops (p, w) = (p', w')"
  shows "pool_alive p'"
  using assms(2-5)
proof (induction ops arbitrary: p w)
  case (Cons x ops)
  obtain r q v where step: "pool_do E x (p, w) = (r, q, v)" by (metis prod_cases3)
  with Cons.prems pool_do_step [OF Cons.prems(1) step] show ?case
    using Cons.IH [of q v] assms(1) by (auto simp: op_keeps_def)
qed simp

lemma mk_pool_inv: "mk_pool us tf am eb ws ts = Inr p \<Longrightarrow> pool_inv p"
  by (auto simp: mk_pool_def pool_inv_def pool_shape_def timer_bounded_def split: jsval.splits if_splits)

section \<open>An example pool\<close>

text \<open>The world is the list of the uplinks that answer; the others refuse the connection with a given code.\<close>

definition demo_env :: "string \<Rightarrow> string list pool_env" where
  "demo_env code =
     \<lparr>pe_transportFactory = \<lambda>u. retE (), pe_connect = \<lambda>u w. (if u \<in> set w then Inr () else Inl (code_err code ''refused''), w),
      pe_close = \<lambda>u. retE (), pe_sendRequest = \<lambda>u v. retE (JStr u), pe_authenticate = \<lambda>u. retE (),
      pe_sessionInfo = \<lambda>w. Some JNull, pe_hook = \<lambda>h. retE (), pe_floodAllow = \<lambda>u t. retE True,
      pe_floodWarn = \<lambda>t. retE JNull, pe_floodClear = retE (), pe_seen = \<lambda>k t. retE False, pe_markSeen = \<lambda>k t. retE (),
      pe_dedupeClear = retE (), pe_base64ToBytes = \<lambda>v. Inr [], pe_stableJson = \<lambda>v. [], pe_digest = None,
      pe_fnv1a64Hex = \<lambda>b. [], pe_LARGE_FRAME_CODE = []\<rparr>"

definition demo_pool :: pool where
  "demo_pool = (case mk_pool (JArr [JStr ''a'', JStr ''b'', JStr ''c'']) True True True JUndef (JObj []) of Inr p \<Rightarrow> p)"

lemma demo_clears: "clears_return (demo_env code)"
  by (simp add: clears_return_def demo_env_def)

lemma demo_pool_made: "mk_pool (JArr [JStr ''a'', JStr ''b'', JStr ''c'']) True True True JUndef (JObj []) = Inr demo_pool"
  by (simp add: demo_pool_def mk_pool_def)

section \<open>Properties\<close>



text \<open>A pool that was connected keeps trying: once \<open>connect\<close> returned, or failed in any way but a terminal
  refusal of the home, then after every sequence of reconnects, timers, transport events, requests,
  frames and closes, but no further \<open>connect\<close>, the pool is ready, or it has been closed, or a reconnect
  timer is set. That includes a reconnect that the home refuses for good, which the comment in
  \<open>connect\<close> means to stop.\<close>

theorem connected_pool_never_stranded:
  assumes "clears_return E" "pool_inv p0" "pool_connect E (p0, w0) = (r, p1, w1)"
    and "case r of Inl e \<Rightarrow> err_code e \<notin> set TERMINAL_HOME_REJECTION_CODES | Inr x \<Rightarrow> True"
    and "OpConnect \<notin> set ops" "pool_run E ops (p1, w1) = (p, w)"
  shows "po_ready p \<or> po_closed p \<or> po_reconnectTimer p \<noteq> None"
proof -
  note connect = wp_pool_connect [OF pool_inv_shape [OF assms(2)], of E]
  have "pool_inv p1 \<and> pool_alive p1"
  proof (cases r)
    case (Inl e)
    with wpE_D_Inl [OF connect] assms(1,3,4) show ?thesis by fastforce
  next
    case (Inr x)
    with wpE_D_Inr [OF connect] assms(3) show ?thesis by (fastforce simp: pool_alive_def)
  qed
  then show ?thesis
    using pool_run_alive [OF assms(1) _ _ assms(5,6)] by (simp add: pool_alive_def)
qed

theorem connected_pool_never_stranded_witness:
  "\<exists>p1 w1 p w. pool_connect (demo_env ''CONNECT_FAILED'') (demo_pool, [''c'']) = (Inr (), p1, w1) \<and>
     pool_run (demo_env ''CONNECT_FAILED'') [OpConnState ''c'' (JObj [(''phase'', JStr ''error'')]), OpTimer] (p1, w1) = (p, w) \<and>
     (po_ready p \<or> po_closed p \<or> po_reconnectTimer p \<noteq> None)"
proof -
  obtain r p1 w1 where c: "pool_connect (demo_env ''CONNECT_FAILED'') (demo_pool, [''c'']) = (r, p1, w1)"
    by (metis prod_cases3)
  have "fst (pool_connect (demo_env ''CONNECT_FAILED'') (demo_pool, [''c''])) = Inr ()" by code_simp
  with c have r: "r = Inr ()" by simp
  obtain p w where run: "pool_run (demo_env ''CONNECT_FAILED'')
      [OpConnState ''c'' (JObj [(''phase'', JStr ''error'')]), OpTimer] (p1, w1) = (p, w)"
    by (rule prod.exhaust)
  from connected_pool_never_stranded [OF demo_clears mk_pool_inv [OF demo_pool_made] c _ _ run] c r run
  show ?thesis by auto
qed

text \<open>A request that goes across the uplinks is answered by an uplink of the pool whose
  connection is ready, with what that uplink returned; when the caller asked to adopt the uplink
  that answers, it is the active one afterwards. Neither an answer nor a failure changes whether
  the pool is ready.\<close>

theorem request_answered_by_ready_uplink:
  assumes "pool_inv p" "ro_tryAll opts" "pool_sendRequest E opts type body expected ms (p, w) = (r, p', w')"
  shows "po_ready p' = po_ready p \<and> po_uplinks p' = po_uplinks p \<and>
    (\<forall>fr. r = Inr fr \<longrightarrow> (\<exists>url\<in>set (po_uplinks p). conn_ready p' url \<and>
       (\<exists>v v'. pe_sendRequest E url (request_arg (js_trim (str_or_empty type)) body expected ms) v = (Inr fr, v')) \<and>
       (ro_adopt opts \<longrightarrow> po_activeUrl p' = Some url)))"
proof -
  note spec = wp_pool_sendRequest [OF assms(1), of E opts type body expected ms]
  show ?thesis
  proof (cases r)
    case (Inl e)
    with wpE_D_Inl [OF spec] assms(3) show ?thesis by (fastforce simp: request_keeps_def)
  next
    case (Inr fr)
    with wpE_D_Inr [OF spec] assms show ?thesis
      by (fastforce simp: request_keeps_def answered_by_def dest: request_order_uplinks [OF assms(1), THEN subsetD])
  qed
qed

definition demo_opts :: request_opts where
  "demo_opts = \<lparr>ro_tryAll = True, ro_continueOn = CodeSet [''TIMEOUT''], ro_adopt = True, ro_adoptReason = JNull, ro_skipActive = False\<rparr>"

theorem request_answered_by_ready_uplink_witness:
  "\<exists>p' w'. pool_sendRequest (demo_env ''CONNECT_FAILED'') demo_opts (JStr ''ping'') JNull JNull JNull (demo_pool, [''c''])
       = (Inr (JStr ''c''), p', w') \<and>
     (\<exists>url\<in>set (po_uplinks demo_pool). conn_ready p' url \<and> po_activeUrl p' = Some url)"
proof -
  obtain r p' w' where run: "pool_sendRequest (demo_env ''CONNECT_FAILED'') demo_opts (JStr ''ping'') JNull JNull JNull
      (demo_pool, [''c'']) = (r, p', w')" by (metis prod_cases3)
  have "fst (pool_sendRequest (demo_env ''CONNECT_FAILED'') demo_opts (JStr ''ping'') JNull JNull JNull (demo_pool, [''c'']))
      = Inr (JStr ''c'')" by code_simp
  moreover have "ro_tryAll demo_opts" "ro_adopt demo_opts" by (simp_all add: demo_opts_def)
  ultimately show ?thesis
    using request_answered_by_ready_uplink [OF mk_pool_inv [OF demo_pool_made] _ run] run by auto
qed

text \<open>A scheduled reconnect whose connect is refused for good by the home schedules the next
  attempt all the same.\<close>

lemma terminal_refusal_rescheduled:
  assumes "pool_inv p" "\<not> po_closed p" "pool_connect E (stop_timer p, w) = (Inl e, p1, w1)"
    and "err_code e \<in> set TERMINAL_HOME_REJECTION_CODES"
  shows "\<exists>p' w'. reconnectTimer_fires E (p, w) = (Inr (), p', w') \<and> po_reconnectTimer p' \<noteq> None"
proof -
  have "pool_shape (stop_timer p)"
    using assms(1) by (simp add: pool_inv_def pool_shape_def stop_timer_def timer_bounded_def)
  then have "\<not> po_closed p1" using wpE_D_Inl [OF wp_pool_connect assms(3)] by simp
  then have "po_reconnectTimer (pool_schedule (po_note es p1)) \<noteq> None" for es
    by (simp add: pool_schedule_def Let_def)
  then show ?thesis
    using assms(2,3)
    by (simp add: reconnectTimer_fires_def attemptReconnect_def bindE_def catchE_def modifyE_def getsE_def
        offline_def pool_emitState_def)
qed

lemma terminal_refusal_example:
  "\<exists>p' w'. reconnectTimer_fires (demo_env ''DELEGATED_DEVICES_UNSUPPORTED'') (demo_pool, []) = (Inr (), p', w') \<and>
     po_reconnectTimer p' \<noteq> None"
proof -
  let ?E = "demo_env ''DELEGATED_DEVICES_UNSUPPORTED''"
  obtain r p1 w1 where c: "pool_connect ?E (stop_timer demo_pool, []) = (r, p1, w1)" by (metis prod_cases3)
  have "case fst (pool_connect ?E (stop_timer demo_pool, [])) of
      Inl e \<Rightarrow> err_code e = ''DELEGATED_DEVICES_UNSUPPORTED'' | Inr x \<Rightarrow> False" by code_simp
  with c obtain e where r: "r = Inl e" "err_code e = ''DELEGATED_DEVICES_UNSUPPORTED''" by (cases r) auto
  have "\<not> po_closed demo_pool" by code_simp
  from terminal_refusal_rescheduled [OF mk_pool_inv [OF demo_pool_made] this c [unfolded r(1)]] r(2) show ?thesis
    by (simp add: TERMINAL_HOME_REJECTION_CODES_def)
qed

end
