(* ===== verification/Uplink_Frames.thy ===== *)
theory Uplink_Frames
  imports Uplink_Pool
begin

text \<open>
  The duplicate filter of inbound frames: the size that \<open>estimateBase64Bytes\<close> gives for a base64
  text is the size of what a decoder makes of it, so the limit on what is hashed is a limit on
  the decoded payload.
\<close>

section \<open>The size of base64 text\<close>

text \<open>The base64 decoder of RFC 4648, groups of four characters, with or without padding at the end.\<close>

definition b64_val :: "char \<Rightarrow> nat option" where
  "b64_val c = (let n = of_char c :: nat in
     if 65 \<le> n \<and> n \<le> 90 then Some (n - 65)
     else if 97 \<le> n \<and> n \<le> 122 then Some (n - 71)
     else if 48 \<le> n \<and> n \<le> 57 then Some (n + 4)
     else if c = CHR ''+'' then Some 62 else if c = CHR ''/'' then Some 63 else None)"

definition b64_bytes :: "nat \<Rightarrow> nat \<Rightarrow> nat \<Rightarrow> nat \<Rightarrow> octets" where
  "b64_bytes a b c d = [of_nat (a * 4 + b div 16), of_nat (b mod 16 * 16 + c div 4), of_nat (c mod 4 * 64 + d)]"

definition b64_tail :: "string \<Rightarrow> octets option" where
  "b64_tail cs = (case map b64_val cs of
     [Some a, Some b] \<Rightarrow> Some (take 1 (b64_bytes a b 0 0))
   | [Some a, Some b, Some c] \<Rightarrow> Some (take 2 (b64_bytes a b c 0))
   | [Some a, Some b, Some c, Some d] \<Rightarrow> Some (b64_bytes a b c d)
   | _ \<Rightarrow> None)"

fun b64_decode :: "string \<Rightarrow> octets option" where
  "b64_decode [] = Some []"
| "b64_decode [a, b, c, d] =
     (if d = CHR ''='' then if c = CHR ''='' then b64_tail [a, b] else b64_tail [a, b, c] else b64_tail [a, b, c, d])"
| "b64_decode (a # b # c # d # rest) =
     (case (b64_tail [a, b, c, d], b64_decode rest) of (Some x, Some y) \<Rightarrow> Some (x @ y) | _ \<Rightarrow> None)"
| "b64_decode cs = b64_tail cs"

definition b64_padding :: "string \<Rightarrow> int" where
  "b64_padding s = (if suffix ''=='' s then 2 else if suffix ''='' s then 1 else 0)"

lemma suffix_long: "length xs \<le> length zs \<Longrightarrow> suffix xs (ys @ zs) = suffix xs zs"
  by (auto simp: suffix_append)

lemma b64_padding_append: "2 \<le> length zs \<Longrightarrow> b64_padding (ys @ zs) = b64_padding zs"
  by (simp add: b64_padding_def suffix_long)

lemma b64_padding_none: "CHR ''='' \<notin> set cs \<Longrightarrow> b64_padding cs = 0"
  by (auto simp: b64_padding_def dest: set_mono_suffix)

lemma b64_tail_length:
  assumes "b64_tail cs = Some bs"
  shows "int (length bs) = int (length cs) * 3 div 4" "2 \<le> length cs" "CHR ''='' \<notin> set cs"
proof -
  have pad: "b64_val CHR ''='' = None" by code_simp
  obtain vs where vs: "map b64_val cs = map Some vs" "length vs \<in> {2, 3, 4}"
    and len: "int (length bs) = int (length vs) * 3 div 4"
    using assms unfolding b64_tail_def b64_bytes_def
    by (auto split: list.splits option.splits intro: that [of "[a, b]" for a b] that [of "[a, b, c]" for a b c]
        that [of "[a, b, c, d]" for a b c d])
  have "length cs = length vs" using arg_cong [OF vs(1), of length] by simp
  with len vs(2) show "int (length bs) = int (length cs) * 3 div 4" "2 \<le> length cs" by auto
  show "CHR ''='' \<notin> set cs"
  proof
    assume "CHR ''='' \<in> set cs"
    then have "None \<in> set (map b64_val cs)" using pad by force
    with vs(1) show False by auto
  qed
qed

lemma b64_tail_estimate:
  "b64_tail cs = Some bs \<Longrightarrow> int (length bs) = int (length cs) * 3 div 4 - b64_padding cs"
  by (simp add: b64_tail_length b64_padding_none)

lemma b64_decode_length:
  "b64_decode s = Some bs \<Longrightarrow> int (length bs) = int (length s) * 3 div 4 - b64_padding s"
proof (induction s arbitrary: bs rule: b64_decode.induct)
  case 1
  then show ?case by (simp add: b64_padding_def)
next
  case (2 a b c d)
  show ?case
  proof (cases "d = CHR ''=''")
    case True
    then have pad: "b64_padding [a, b, c, d] = (if c = CHR ''='' then 2 else 1)"
      by (simp add: b64_padding_def suffix_def)
    show ?thesis using 2 True unfolding pad by (auto split: if_splits dest: b64_tail_length(1))
  next
    case False
    then have pad: "b64_padding [a, b, c, d] = 0" by (auto simp: b64_padding_def suffix_def)
    show ?thesis using 2 False unfolding pad by (auto dest: b64_tail_length(1))
  qed
next
  case (3 a b c d e rest)
  then obtain x y where xy: "b64_tail [a, b, c, d] = Some x" "b64_decode (e # rest) = Some y" "bs = x @ y"
    by (auto split: option.splits)
  have "2 \<le> length (e # rest)"
    using xy(2) by (cases rest) (auto simp: b64_tail_def split: option.splits)
  from b64_padding_append [OF this, of "[a, b, c, d]"] have pad: "b64_padding (a # b # c # d # e # rest) = b64_padding (e # rest)"
    by simp
  show ?case using 3(1) [OF xy(2)] b64_tail_length(1) [OF xy(1)] by (simp add: xy(3) pad)
qed (simp only: b64_decode.simps, rule b64_tail_estimate, assumption)+

section \<open>Properties\<close>

text \<open>C19. For every base64 text, padded or not and with any white space in it, the size the pool
  estimates without decoding is the number of bytes a decoder produces.\<close>

theorem estimateBase64Bytes_exact:
  assumes "b64_decode (filter (\<lambda>c. \<not> is_ws c) s) = Some bs"
  shows "estimateBase64Bytes (JStr s) = int (length bs)"
proof -
  define c where "c = filter (\<lambda>c. \<not> is_ws c) s"
  have "str_or_empty (JStr s) = s" by (cases s) (simp_all add: str_or_empty_def js_or_def)
  then have "estimateBase64Bytes (JStr s) = (if c = [] then 0 else max 0 (int (length c) * 3 div 4 - b64_padding c))"
    by (simp only: estimateBase64Bytes_def Let_def b64_padding_def c_def)
  also have "\<dots> = int (length bs)"
    using b64_decode_length [OF assms [folded c_def]] assms [folded c_def] by (cases "c = []") simp_all
  finally show ?thesis .
qed

theorem estimateBase64Bytes_exact_witness:
  "b64_decode ''aGVsbG8='' = Some [104, 101, 108, 108, 111] \<and> estimateBase64Bytes (JStr ''aGVs bG8='') = 5"
proof -
  have dec: "b64_decode ''aGVsbG8='' = Some [104, 101, 108, 108, 111]" by code_simp
  have "filter (\<lambda>c. \<not> is_ws c) ''aGVs bG8='' = ''aGVsbG8=''" by code_simp
  with dec have "b64_decode (filter (\<lambda>c. \<not> is_ws c) ''aGVs bG8='') = Some [104, 101, 108, 108, 111]" by simp
  from estimateBase64Bytes_exact [OF this] dec show ?thesis by simp
qed

end
