(* ===== verification/Device_Link.thy ===== *)
theory Device_Link
  imports Js_Bytes
begin

text \<open>
  The device-link ceremony: the approver on the primary device,
  \<open>device-link/DeviceLinkApprover.js\<close>, and the requester on the new device,
  \<open>device-link/DeviceLinkRequester.js\<close>, which meet in the record slots of a rendezvous key derived
  from a shared secret (\<open>device-link/rendezvous.js\<close>).

  The record store, the clock, the callbacks and the primitives of \<open>@rezprotocol/core\<close> are the
  fields of \<open>link_env\<close>. \<open>cancel()\<close> may be called while the approver waits: \<open>dl_cancels\<close> says, at
  each await, whether it was. The polling loops take the number of polls as fuel, and answer
  \<open>None\<close> when it is used up. \<open>ap_log\<close> is the trace of what the approver did; the calls of the journal
  and of the home are in it with the answers they gave.
\<close>

section \<open>Data\<close>

datatype link_status =
    Idle
  | Waiting_request
  | Awaiting_approval
  | Responding
  | Waiting_confirm
  | Link_expired
  | Link_cancelled
  | Link_failed
  | Link_done

definition status_text :: "link_status \<Rightarrow> string" where
  "status_text s = (case s of Idle \<Rightarrow> ''idle'' | Waiting_request \<Rightarrow> ''waiting-request''
     | Awaiting_approval \<Rightarrow> ''awaiting-approval'' | Responding \<Rightarrow> ''responding'' | Waiting_confirm \<Rightarrow> ''waiting-confirm''
     | Link_expired \<Rightarrow> ''expired'' | Link_cancelled \<Rightarrow> ''cancelled'' | Link_failed \<Rightarrow> ''failed'' | Link_done \<Rightarrow> ''done'')"

record opened_request =
  or_thRequestB64 :: string
  or_ephemeralDhPublicKeyB64 :: string
  or_linkRequest :: jsval
  or_newDeviceId :: string
  or_fingerprint :: string

record leaf_cert =
  lc_certId :: string
  lc_json :: jsval

record ceremony_response =
  cr_payloadB64 :: string
  cr_thResponseB64 :: string
  cr_confirmTagB64 :: string
  cr_masterSecret :: octets

record opened_response =
  os_bundle :: jsval
  os_thResponseB64 :: string
  os_masterSecret :: octets

datatype link_event =
    Pinned string
  | Journalled jsval "unit res"
  | Registered string jsval jsval "jsval res"
  | Released jsval
  | Terminated link_status
  | RequestPut jsval
  | Authorized string jsval
  | DelegationPersisted jsval "jsval res"
  | ConfirmPut jsval
  | StatusTold string

record approver =
  ap_account :: string
  ap_dh :: jsval
  ap_pollInterval :: rat
  ap_pollMax :: rat
  ap_pollBackoff :: rat
  ap_pskTtl :: rat
  ap_certTtl :: rat
  ap_status :: link_status
  ap_psk :: "octets option"
  ap_rendezvous :: "(string \<times> string) option"
  ap_expiresAt :: rat
  ap_pinned :: "opened_request option"
  ap_log :: "link_event list"

record 'w link_env =
  dl_cancels :: "'w \<Rightarrow> bool \<times> 'w"
  dl_now :: "('w, rat) io"
  dl_sleep :: "rat \<Rightarrow> ('w, unit) io"
  dl_get :: "string \<Rightarrow> string \<Rightarrow> ('w, jsval) io"
  dl_put :: "jsval \<Rightarrow> ('w, unit) io"
  dl_generatePsk :: "('w, octets) io"
  dl_ceremonySeed :: "octets \<Rightarrow> ('w, octets) io"
  dl_hkdf :: "octets \<Rightarrow> octets \<Rightarrow> octets \<Rightarrow> nat \<Rightarrow> ('w, octets) io"
  dl_keyPairFromSeed :: "(octets \<Rightarrow> ('w, octets \<times> octets) io) option"
  dl_encodeCode :: "octets option \<Rightarrow> string \<Rightarrow> string res"
  dl_verifyRecord :: "rat \<Rightarrow> jsval \<Rightarrow> string \<Rightarrow> string \<Rightarrow> ('w, jsval) io"
  dl_openRequest :: "rat \<Rightarrow> octets option \<Rightarrow> string \<Rightarrow> string \<Rightarrow> jsval \<Rightarrow> ('w, opened_request) io"
  dl_buildResponse :: "octets option \<Rightarrow> string \<Rightarrow> string \<Rightarrow> string \<Rightarrow> string \<Rightarrow> jsval \<Rightarrow> ('w, ceremony_response) io"
  dl_sealRecord :: "rat \<Rightarrow> (string \<times> string) \<Rightarrow> string \<Rightarrow> string \<Rightarrow> rat \<Rightarrow> ('w, jsval) io"
  dl_verifyConfirm :: "octets \<Rightarrow> string \<Rightarrow> jsval \<Rightarrow> ('w, bool) io"
  dl_getCachedDeviceSet :: "('w, jsval) io option"
  dl_registerDevice :: "string \<Rightarrow> jsval \<Rightarrow> jsval \<Rightarrow> ('w, jsval) io"
  dl_persistPending :: "jsval \<Rightarrow> ('w, unit) io"
  dl_markPublished :: "string \<Rightarrow> ('w, unit) io"
  dl_markConfirmed :: "string \<Rightarrow> ('w, unit) io"
  dl_warn :: "string \<Rightarrow> ('w, unit) io"
  dl_sign :: "octets \<Rightarrow> ('w, octets option) io"
  dl_verify :: "octets \<Rightarrow> octets \<Rightarrow> octets \<Rightarrow> ('w, bool) io"
  dl_deriveCertId :: "jsval \<Rightarrow> string res"
  dl_signableBytes :: "jsval \<Rightarrow> octets"
  dl_newCert :: "jsval \<Rightarrow> leaf_cert res"
  dl_deviceIdFor :: "jsval \<Rightarrow> string res"
  dl_base64ToBytes :: "string \<Rightarrow> octets res"
  dl_bytesToBase64 :: "octets \<Rightarrow> string"
  dl_PURPOSE :: string
  dl_RENDEZVOUS_LABEL :: string
  dl_CAP_DEVICE_SET_PUBLISH :: string
  dl_REQUEST :: string
  dl_RESPONSE :: string
  dl_CONFIRM :: string

type_synonym ('w, 'a) link_io = "(approver \<times> 'w, 'a) io"

definition DEFAULT_PSK_TTL_MS :: rat where
  "DEFAULT_PSK_TTL_MS = 10 * 60000"

definition DEFAULT_CERT_TTL_MS :: rat where
  "DEFAULT_CERT_TTL_MS = 365 * 24 * 60 * 60 * 1000"

definition mk_approver ::
    "bool \<Rightarrow> bool \<Rightarrow> jsval \<Rightarrow> bool \<Rightarrow> bool \<Rightarrow> jsval \<Rightarrow> bool \<Rightarrow> bool \<Rightarrow> rat \<Rightarrow> rat \<Rightarrow> rat \<Rightarrow> rat \<Rightarrow> rat \<Rightarrow> approver res" where
  "mk_approver crypto records account hasCallback hasPrivateKey dh registerDevice journal interval maxInterval backoff pskTtl certTtl =
     (if \<not> crypto then Inl (plain_err ''DeviceLinkApprover requires a crypto provider'')
      else if \<not> records then Inl (plain_err ''DeviceLinkApprover requires records {put, get}'')
      else (case account of
        JStr acct \<Rightarrow>
          if acct = [] then Inl (plain_err ''DeviceLinkApprover requires accountSignPublicKeyB64 (the account root B)'')
          else if hasCallback = hasPrivateKey then
            Inl (plain_err ''DeviceLinkApprover requires exactly one of accountSign(bytes) or accountSignPrivateKey'')
          else if \<not> js_truthy dh \<or> \<not> js_truthy (getp dh ''publicKeyB64'') \<or> \<not> js_truthy (getp dh ''privateKeyB64'') then
            Inl (plain_err ''DeviceLinkApprover requires accountDhKeyPair (B-dh - the bundle ships the PAIR)'')
          else if \<not> registerDevice then
            Inl (plain_err ''DeviceLinkApprover requires registerDevice(...) - registration-before-release (P1#2): the home must bind the leaf's certId before the leaf is released'')
          else if \<not> journal then
            Inl (plain_err ''DeviceLinkApprover requires registrationJournal { persistPending, markPublished, markConfirmed } - persist-and-resume (P1#2a): the exact publication must be durable before device.add'')
          else Inr
            \<lparr>ap_account = acct,
             ap_dh = JObj [(''publicKeyB64'', getp dh ''publicKeyB64''), (''privateKeyB64'', getp dh ''privateKeyB64'')],
             ap_pollInterval = interval, ap_pollMax = maxInterval, ap_pollBackoff = backoff, ap_pskTtl = pskTtl, ap_certTtl = certTtl,
             ap_status = Idle, ap_psk = None, ap_rendezvous = None, ap_expiresAt = 0, ap_pinned = None, ap_log = []\<rparr>
      | _ \<Rightarrow> Inl (plain_err ''DeviceLinkApprover requires accountSignPublicKeyB64 (the account root B)'')))"

section \<open>Awaiting and ending\<close>

definition ap_note :: "link_event \<Rightarrow> approver \<Rightarrow> approver" where
  "ap_note e a = a\<lparr>ap_log := ap_log a @ [e]\<rparr>"

definition terminate :: "link_status \<Rightarrow> approver \<Rightarrow> approver" where
  "terminate s a = ap_note (Terminated s) (a\<lparr>ap_status := s, ap_psk := None, ap_pinned := None\<rparr>)"

definition link_cancel :: "approver \<Rightarrow> approver" where
  "link_cancel = terminate Link_cancelled"

text \<open>An await: the call, and \<open>cancel()\<close> if the application called it meanwhile.\<close>

definition awaitD :: "'w link_env \<Rightarrow> ('w, 'a) io \<Rightarrow> ('w, 'a) link_io" where
  "awaitD E m = (\<lambda>(a, w). case m w of (r, w1) \<Rightarrow>
     (case dl_cancels E w1 of (c, w2) \<Rightarrow> (r, (if c then link_cancel a else a, w2))))"

text \<open>An await whose call is in the trace with its answer, whether it returned or threw.\<close>

definition askD :: "'w link_env \<Rightarrow> ('a res \<Rightarrow> link_event) \<Rightarrow> ('w, 'a) io \<Rightarrow> ('w, 'a) link_io" where
  "askD E ev m = (\<lambda>(a, w). case m w of (r, w1) \<Rightarrow>
     (case dl_cancels E w1 of (c, w2) \<Rightarrow> (r, (if c then link_cancel (ap_note (ev r) a) else ap_note (ev r) a, w2))))"

definition setStatus :: "link_status \<Rightarrow> approver \<Rightarrow> approver" where
  "setStatus s a = a\<lparr>ap_status := s\<rparr>"

section \<open>Keys\<close>

definition SEED_DERIVATION_SALT :: octets where
  "SEED_DERIVATION_SALT = utf8_encode ''rez-v1''"

definition deriveRendezvousKeyPair :: "'w link_env \<Rightarrow> octets \<Rightarrow> ('w, string \<times> string) io" where
  "deriveRendezvousKeyPair E psk =
     bindE (dl_ceremonySeed E psk) (\<lambda>seed.
     case dl_keyPairFromSeed E of
       None \<Rightarrow> throwE (plain_err ''deriveRendezvousKeyPair requires crypto.signingKeyPairFromSeed(seed)'')
     | Some fromSeed \<Rightarrow>
         bindE (dl_hkdf E seed SEED_DERIVATION_SALT (utf8_encode (dl_RENDEZVOUS_LABEL E)) 32) (\<lambda>raw.
         bindE (fromSeed raw) (\<lambda>(pub, priv). retE (dl_bytesToBase64 E pub, dl_bytesToBase64 E priv))))"

definition DEVICE_LINK_LEAF_CAPABILITIES :: "'w link_env \<Rightarrow> string list" where
  "DEVICE_LINK_LEAF_CAPABILITIES E = [''peerLink.create'', dl_CAP_DEVICE_SET_PUBLISH E]"

definition leaf_fields :: "'w link_env \<Rightarrow> string \<Rightarrow> rat \<Rightarrow> jsval \<Rightarrow> string \<Rightarrow> rat \<Rightarrow> (string \<times> jsval) list" where
  "leaf_fields E account certTtl granteePublicKeyB64 granteeDeviceId nowMs =
     [(''v'', JInt 1), (''purpose'', JStr (dl_PURPOSE E)), (''accountIdentityPublicKeyB64'', JStr account),
      (''parentCertId'', JNull), (''granteeDevicePublicKeyB64'', granteePublicKeyB64),
      (''granteeDeviceId'', JStr granteeDeviceId),
      (''capabilities'', JArr (map JStr (DEVICE_LINK_LEAF_CAPABILITIES E))),
      (''maxDelegationDepth'', JInt 0), (''issuedAtMs'', JNum (Fin nowMs)), (''expiresAtMs'', JNum (Fin (nowMs + certTtl))),
      (''signerPublicKeyB64'', JStr account)]"

definition mintLeafCert :: "'w link_env \<Rightarrow> jsval \<Rightarrow> rat \<Rightarrow> ('w, leaf_cert) link_io" where
  "mintLeafCert E granteePublicKeyB64 nowMs =
     bindE (getsE (\<lambda>a. (ap_account a, ap_certTtl a))) (\<lambda>(account, certTtl).
     bindE (liftE (dl_deviceIdFor E granteePublicKeyB64)) (\<lambda>granteeDeviceId.
     (let flds = leaf_fields E account certTtl granteePublicKeyB64 granteeDeviceId nowMs in
      bindE (liftE (dl_deriveCertId E (JObj flds))) (\<lambda>certId.
      (let signed = JObj (flds @ [(''certId'', JStr certId)]) in
       bindE (awaitD E (dl_sign E (dl_signableBytes E signed))) (\<lambda>sig.
       case sig of
         None \<Rightarrow> throwE (plain_err ''DeviceLinkApprover: accountSign returned no signature'')
       | Some sigBytes \<Rightarrow>
           if sigBytes = [] then throwE (plain_err ''DeviceLinkApprover: accountSign returned no signature'')
           else
             bindE (liftE (dl_base64ToBytes E account)) (\<lambda>pk.
             bindE (awaitD E (dl_verify E pk (dl_signableBytes E signed) sigBytes)) (\<lambda>ok.
             if \<not> ok then throwE (plain_err ''DeviceLinkApprover: minted cert does not verify against the account key'')
             else liftE (dl_newCert E (JObj (flds @ [(''certId'', JStr certId),
               (''sig'', JObj [(''alg'', JStr ''ed25519''), (''sigB64'', JStr (dl_bytesToBase64 E sigBytes))])])))))))))))"

section \<open>The approver\<close>

definition link_start :: "'w link_env \<Rightarrow> ('w, string \<times> rat) link_io" where
  "link_start E =
     bindE (getsE ap_status) (\<lambda>status.
     if status \<noteq> Idle then throwE (plain_err ''DeviceLinkApprover.start: already started (one ceremony per instance)'')
     else
       bindE (ext (dl_generatePsk E)) (\<lambda>psk.
       bindE (modifyE (\<lambda>a. a\<lparr>ap_psk := Some psk\<rparr>)) (\<lambda>_.
       bindE (awaitD E (deriveRendezvousKeyPair E psk)) (\<lambda>keys.
       bindE (modifyE (\<lambda>a. a\<lparr>ap_rendezvous := Some keys\<rparr>)) (\<lambda>_.
       bindE (ext (dl_now E)) (\<lambda>now.
       bindE (modifyE (\<lambda>a. a\<lparr>ap_expiresAt := now + ap_pskTtl a, ap_status := Waiting_request\<rparr>)) (\<lambda>_.
       bindE (getsE (\<lambda>a. (ap_psk a, ap_account a, ap_expiresAt a))) (\<lambda>(psk', account, expiresAt).
       bindE (liftE (dl_encodeCode E psk' account)) (\<lambda>code. retE (code, expiresAt))))))))))"

text \<open>\<open>this.#rendezvousKeyPair\<close>, which \<open>start\<close> has set.\<close>

definition rendezvousKeys :: "('w, string \<times> string) link_io" where
  "rendezvousKeys = bindE (getsE ap_rendezvous) (\<lambda>k. case k of
     None \<Rightarrow> throwE (plain_err ''Cannot read properties of null'') | Some keys \<Rightarrow> retE keys)"

definition cancelledErr :: js_err where
  "cancelledErr = code_err ''DEVICE_LINK_CANCELLED'' ''device link cancelled''"

text \<open>A record of a slot, \<open>null\<close> when the store fails.\<close>

definition poll_slot :: "'w link_env \<Rightarrow> string \<Rightarrow> string \<Rightarrow> ('w, jsval) link_io" where
  "poll_slot E recordId publicKey = catchE (awaitD E (dl_get E recordId publicKey)) (\<lambda>_. retE JNull)"

text \<open>Verify and open a request record; the outcome is pinned.\<close>

definition openRequest :: "'w link_env \<Rightarrow> rat \<Rightarrow> string \<Rightarrow> jsval \<Rightarrow> ('w, opened_request) link_io" where
  "openRequest E nowMs publicKey fetched =
     bindE (awaitD E (dl_verifyRecord E nowMs fetched publicKey (dl_REQUEST E))) (\<lambda>payload.
     bindE (getsE (\<lambda>a. (ap_psk a, ap_account a))) (\<lambda>(psk, account).
     bindE (awaitD E (dl_openRequest E nowMs psk account publicKey payload)) (\<lambda>opened.
     bindE (modifyE (\<lambda>a. ap_note (Pinned (or_newDeviceId opened))
       (a\<lparr>ap_pinned := Some opened, ap_status := Awaiting_approval\<rparr>))) (\<lambda>_. retE opened))))"

fun request_poll :: "nat \<Rightarrow> 'w link_env \<Rightarrow> rat \<Rightarrow> ('w, opened_request option) link_io" where
  "request_poll 0 E interval = retE None"
| "request_poll (Suc n) E interval =
     bindE (getsE ap_status) (\<lambda>status.
     if status = Link_cancelled then throwE cancelledErr
     else
       bindE (ext (dl_now E)) (\<lambda>nowMs.
       bindE (getsE ap_expiresAt) (\<lambda>expiresAt.
       if nowMs \<ge> expiresAt then
         bindE (modifyE (terminate Link_expired)) (\<lambda>_.
           throwE (code_err ''DEVICE_LINK_TIMEOUT'' ''device link code expired before a request arrived''))
       else
         bindE rendezvousKeys (\<lambda>keys.
         bindE (poll_slot E (dl_REQUEST E) (fst keys)) (\<lambda>fetched.
         bindE (if js_truthy fetched
                then catchE (bindE (openRequest E nowMs (fst keys) fetched) (\<lambda>r. retE (Some r)))
                  (\<lambda>err. if err_code err = ''DEVICE_LINK_UPGRADE_REQUIRED''
                         then bindE (modifyE (terminate Link_failed)) (\<lambda>_. throwE err)
                         else retE None)
                else retE None) (\<lambda>opened.
         case opened of
           Some r \<Rightarrow> retE (Some r)
         | None \<Rightarrow>
             bindE (getsE (\<lambda>a. (ap_pollMax a, ap_pollBackoff a))) (\<lambda>(maxInterval, backoff).
             bindE (awaitD E (dl_sleep E (min interval maxInterval))) (\<lambda>_.
             request_poll n E (min (interval * backoff) maxInterval)))))))))"

definition waitForRequest :: "nat \<Rightarrow> 'w link_env \<Rightarrow> ('w, opened_request option) link_io" where
  "waitForRequest n E =
     bindE (getsE (\<lambda>a. (ap_status a, ap_pollInterval a))) (\<lambda>(status, interval).
     if status \<noteq> Waiting_request then throwE (plain_err (''DeviceLinkApprover.waitForRequest: not waiting (status '' @ status_text status @ '')''))
     else request_poll n E interval)"

definition bindingInbox :: "jsval \<Rightarrow> jsval" where
  "bindingInbox linkRequest =
     (let b = getp linkRequest ''deviceInboxBinding'' in
      if js_truthy b \<and> js_typeof b = ''object'' then getp b ''inboxId'' else JNull)"

definition wrapped_err :: "string \<Rightarrow> string \<Rightarrow> js_err \<Rightarrow> js_err" where
  "wrapped_err code text err = code_err code (text @ (if err_msg err \<noteq> [] then err_msg err else ''Error''))"

text \<open>Fail: drop the secrets, then throw.\<close>

definition failWith :: "js_err \<Rightarrow> ('w, 'a) link_io" where
  "failWith err = bindE (modifyE (terminate Link_failed)) (\<lambda>_. throwE err)"

text \<open>Build and seal the response, \<open>approve\<close> up to the journal.\<close>

definition sealedResponse ::
    "'w link_env \<Rightarrow> opened_request \<Rightarrow> leaf_cert \<Rightarrow> rat \<Rightarrow> ('w, ceremony_response \<times> jsval) link_io" where
  "sealedResponse E pinned leafCert nowMs =
     bindE (case dl_getCachedDeviceSet E of None \<Rightarrow> retE JNull | Some m \<Rightarrow> awaitD E m) (\<lambda>cached.
     bindE rendezvousKeys (\<lambda>keys.
     bindE (getsE (\<lambda>a. (ap_psk a, ap_account a, ap_dh a, ap_expiresAt a))) (\<lambda>(psk, account, dh, expiresAt).
     bindE (awaitD E (dl_buildResponse E psk account (fst keys) (or_thRequestB64 pinned) (or_ephemeralDhPublicKeyB64 pinned)
       (JObj [(''accountSignPublicKeyB64'', JStr account), (''accountDhKeyPair'', dh), (''certChain'', JArr [lc_json leafCert]),
              (''cachedDeviceSet'', if cached = JUndef then JNull else cached)]))) (\<lambda>response.
     bindE (awaitD E (dl_sealRecord E nowMs keys (dl_RESPONSE E) (cr_payloadB64 response) expiresAt)) (\<lambda>sealed.
     retE (response, sealed))))))"

text \<open>The journal entry, made durable before \<open>device.add\<close>.\<close>

definition pendingEntry :: "opened_request \<Rightarrow> leaf_cert \<Rightarrow> ceremony_response \<Rightarrow> jsval \<Rightarrow> rat \<Rightarrow> jsval" where
  "pendingEntry pinned leafCert response sealed expiresAt = JObj
     [(''deviceId'', JStr (or_newDeviceId pinned)), (''inboxId'', bindingInbox (or_linkRequest pinned)),
      (''certId'', JStr (lc_certId leafCert)), (''leafCert'', lc_json leafCert), (''sealedResponse'', sealed),
      (''thRequestB64'', JStr (or_thRequestB64 pinned)), (''thResponseB64'', JStr (cr_thResponseB64 response)),
      (''confirmTagB64'', JStr (cr_confirmTagB64 response)), (''expiresAtMs'', JNum (Fin expiresAt))]"

definition persistPending ::
    "'w link_env \<Rightarrow> opened_request \<Rightarrow> leaf_cert \<Rightarrow> ceremony_response \<Rightarrow> jsval \<Rightarrow> ('w, unit) link_io" where
  "persistPending E pinned leafCert response sealed =
     bindE (getsE ap_expiresAt) (\<lambda>expiresAt.
     (let entry = pendingEntry pinned leafCert response sealed expiresAt in
      catchE (askD E (Journalled entry) (dl_persistPending E entry))
        (\<lambda>err. failWith (wrapped_err ''DEVICE_LINK_REGISTRATION_NOT_DURABLE''
                  ''device link registration could not be made durable before device.add: '' err))))"

text \<open>\<open>device.add\<close> and the check of what the home committed.\<close>

definition commitMatches :: "opened_request \<Rightarrow> leaf_cert \<Rightarrow> jsval \<Rightarrow> bool" where
  "commitMatches pinned leafCert commit \<longleftrightarrow> js_truthy commit \<and> js_typeof commit = ''object'' \<and>
     js_eq (getp commit ''certId'') (JStr (lc_certId leafCert)) \<and>
     js_eq (getp commit ''deviceId'') (JStr (or_newDeviceId pinned)) \<and>
     js_eq (getp commit ''inboxId'') (bindingInbox (or_linkRequest pinned))"

definition registerDevice :: "'w link_env \<Rightarrow> opened_request \<Rightarrow> leaf_cert \<Rightarrow> ('w, unit) link_io" where
  "registerDevice E pinned leafCert =
     (let binding = getp (or_linkRequest pinned) ''deviceInboxBinding'' in
      bindE (catchE (askD E (Registered (or_newDeviceId pinned) binding (lc_json leafCert))
               (dl_registerDevice E (or_newDeviceId pinned) binding (lc_json leafCert)))
        (\<lambda>err. failWith (wrapped_err ''DEVICE_LINK_REGISTRATION_FAILED''
                  ''device link registration (device.add) failed before release: '' err))) (\<lambda>commit.
      if \<not> commitMatches pinned leafCert commit
      then failWith (code_err ''DEVICE_LINK_REGISTRATION_UNVERIFIED''
            ''device link registration returned an unverified commit (must bind this device, inbox, and leaf certId before release)'')
      else retE ()))"

definition publishResponse :: "'w link_env \<Rightarrow> opened_request \<Rightarrow> jsval \<Rightarrow> ('w, unit) link_io" where
  "publishResponse E pinned sealed =
     bindE (modifyE (ap_note (Released sealed))) (\<lambda>_.
     bindE (awaitD E (dl_put E sealed)) (\<lambda>_. awaitD E (dl_markPublished E (or_newDeviceId pinned))))"

record link_result =
  lr_newDeviceId :: string
  lr_certId :: string
  lr_inboxId :: jsval

fun confirm_poll ::
    "nat \<Rightarrow> 'w link_env \<Rightarrow> ceremony_response \<Rightarrow> string \<Rightarrow> link_result \<Rightarrow> rat \<Rightarrow> ('w, link_result option) link_io" where
  "confirm_poll 0 E response deviceId result interval = retE None"
| "confirm_poll (Suc n) E response deviceId result interval =
     bindE (getsE ap_status) (\<lambda>status.
     if status = Link_cancelled then throwE cancelledErr
     else
       bindE (ext (dl_now E)) (\<lambda>now.
       bindE (getsE ap_expiresAt) (\<lambda>expiresAt.
       if now \<ge> expiresAt then failWith (code_err ''DEVICE_LINK_TIMEOUT'' ''device link timed out waiting for key confirmation'')
       else
         bindE rendezvousKeys (\<lambda>keys.
         bindE (poll_slot E (dl_CONFIRM E) (fst keys)) (\<lambda>fetched.
         if js_truthy fetched then
           bindE (catchE
               (bindE (awaitD E (dl_verifyRecord E now fetched (fst keys) (dl_CONFIRM E))) (\<lambda>payload.
                awaitD E (dl_verifyConfirm E (cr_masterSecret response) (cr_thResponseB64 response) payload)))
               (\<lambda>_. retE False)) (\<lambda>confirmed.
           if confirmed then
             bindE (catchE (awaitD E (dl_markConfirmed E deviceId))
               (\<lambda>err. ext (dl_warn E (''DeviceLinkApprover: registration journal markConfirmed failed after the ceremony already succeeded: ''
                  @ (if err_msg err \<noteq> [] then err_msg err else ''Error''))))) (\<lambda>_.
             bindE (modifyE (terminate Link_done)) (\<lambda>_. retE (Some result)))
           else failWith (code_err ''DEVICE_LINK_CONFIRM_FAILED'' ''device link key confirmation failed''))
         else
           bindE (getsE (\<lambda>a. (ap_pollMax a, ap_pollBackoff a))) (\<lambda>(maxInterval, backoff).
           bindE (awaitD E (dl_sleep E (min interval maxInterval))) (\<lambda>_.
           confirm_poll n E response deviceId result (min (interval * backoff) maxInterval))))))))"

definition approve :: "nat \<Rightarrow> 'w link_env \<Rightarrow> ('w, link_result option) link_io" where
  "approve n E =
     bindE (getsE (\<lambda>a. (ap_status a, ap_pinned a))) (\<lambda>(status, p).
     case p of
       None \<Rightarrow> throwE (plain_err ''DeviceLinkApprover.approve: no pending request to approve'')
     | Some pinned \<Rightarrow>
         if status \<noteq> Awaiting_approval then throwE (plain_err ''DeviceLinkApprover.approve: no pending request to approve'')
         else
           bindE (modifyE (setStatus Responding)) (\<lambda>_.
           bindE (ext (dl_now E)) (\<lambda>nowMs.
           bindE (mintLeafCert E (getp (or_linkRequest pinned) ''newDevicePublicKeyB64'') nowMs) (\<lambda>leafCert.
           bindE (sealedResponse E pinned leafCert nowMs) (\<lambda>(response, sealed).
           bindE (persistPending E pinned leafCert response sealed) (\<lambda>_.
           bindE (registerDevice E pinned leafCert) (\<lambda>_.
           bindE (publishResponse E pinned sealed) (\<lambda>_.
           bindE (modifyE (setStatus Waiting_confirm)) (\<lambda>_.
           bindE (getsE ap_pollInterval) (\<lambda>interval.
           confirm_poll n E response (or_newDeviceId pinned)
             \<lparr>lr_newDeviceId = or_newDeviceId pinned, lr_certId = lc_certId leafCert,
              lr_inboxId = bindingInbox (or_linkRequest pinned)\<rparr> interval))))))))))"

section \<open>The requester\<close>

record built_request =
  br_payloadB64 :: string
  br_thRequestB64 :: string
  br_ephemeralKeyPair :: jsval
  br_newDeviceId :: string
  br_fingerprint :: string

record 'w requester_env =
  re_link :: "'w link_env"
  re_parseCode :: "jsval \<Rightarrow> (octets \<times> string) res"
  re_deviceKeyPair :: "jsval option"
  re_generateDeviceKeyPair :: "('w, jsval) io"
  re_randomBytes :: "('w, octets) io"
  re_buildBinding :: "jsval \<Rightarrow> string \<Rightarrow> rat \<Rightarrow> rat \<Rightarrow> ('w, jsval) io"
  re_buildRequest :: "rat \<Rightarrow> octets \<Rightarrow> string \<Rightarrow> string \<Rightarrow> jsval \<Rightarrow> jsval \<Rightarrow> rat \<Rightarrow> ('w, built_request) io"
  re_openResponse :: "octets \<Rightarrow> string \<Rightarrow> string \<Rightarrow> string \<Rightarrow> jsval \<Rightarrow> jsval \<Rightarrow> ('w, opened_response) io"
  re_verifyAuthority :: "string \<Rightarrow> string \<Rightarrow> jsval \<Rightarrow> jsval \<Rightarrow> rat \<Rightarrow> ('w, jsval) io"
  re_persistDelegation :: "jsval \<Rightarrow> ('w, jsval) io"
  re_buildConfirm :: "octets \<Rightarrow> string \<Rightarrow> ('w, string) io"
  re_onStatus :: "string \<Rightarrow> ('w, unit) io"
  re_pollInterval :: rat
  re_pollMax :: rat
  re_pollBackoff :: rat
  re_deadlineMs :: rat

text \<open>The requester has no fields: its state is the trace of what it did.\<close>

type_synonym ('w, 'a) requester_io = "(link_event list \<times> 'w, 'a) io"

definition rq_note :: "link_event \<Rightarrow> ('w, unit) requester_io" where
  "rq_note e = modifyE (\<lambda>l. l @ [e])"

text \<open>A call that is in the trace with its answer.\<close>

definition rq_ask :: "('a res \<Rightarrow> link_event) \<Rightarrow> ('w, 'a) io \<Rightarrow> ('w, 'a) requester_io" where
  "rq_ask ev m = (\<lambda>(l, w). case m w of (r, w') \<Rightarrow> (r, (l @ [ev r], w')))"

text \<open>The callback of the application may throw.\<close>

definition emitStatus :: "'w requester_env \<Rightarrow> string \<Rightarrow> ('w, unit) requester_io" where
  "emitStatus R status = bindE (rq_note (StatusTold status)) (\<lambda>_. ext (re_onStatus R status))"

definition generateInboxId :: "'w requester_env \<Rightarrow> ('w, string) io" where
  "generateInboxId R = bindE (re_randomBytes R) (\<lambda>bs.
     retE (''inbox:'' @ concat (map (\<lambda>b. [hex_digit (unat b div 16), hex_digit (unat b mod 16)]) bs)))"

fun response_poll :: "nat \<Rightarrow> 'w requester_env \<Rightarrow> string \<Rightarrow> rat \<Rightarrow> rat \<Rightarrow> ('w, jsval option) requester_io" where
  "response_poll 0 R publicKey deadlineAtMs interval = retE None"
| "response_poll (Suc n) R publicKey deadlineAtMs interval =
     bindE (ext (dl_now (re_link R))) (\<lambda>nowMs.
     if nowMs \<ge> deadlineAtMs then
       throwE (code_err ''DEVICE_LINK_TIMEOUT'' ''device link timed out waiting for the primary device's response'')
     else
       bindE (ext (dl_get (re_link R) (dl_RESPONSE (re_link R)) publicKey)) (\<lambda>fetched.
       if js_truthy fetched then
         bindE (ext (dl_verifyRecord (re_link R) nowMs fetched publicKey (dl_RESPONSE (re_link R)))) (\<lambda>payload. retE (Some payload))
       else
         bindE (ext (dl_sleep (re_link R) (min interval (re_pollMax R)))) (\<lambda>_.
         response_poll n R publicKey deadlineAtMs (min (interval * re_pollBackoff R) (re_pollMax R)))))"

text \<open>The authority of the delegation, checked before it is used.\<close>

definition checkAuthority :: "'w requester_env \<Rightarrow> string \<Rightarrow> jsval \<Rightarrow> jsval \<Rightarrow> ('w, unit) requester_io" where
  "checkAuthority R account deviceKey certChain =
     (let caps = DEVICE_LINK_LEAF_CAPABILITIES (re_link R) in
      bindE (ext (dl_now (re_link R))) (\<lambda>nowMs.
      bindE (ext (re_verifyAuthority R account (hd caps) deviceKey certChain nowMs)) (\<lambda>authz.
      if getp authz ''ok'' \<noteq> JBool True then
        throwE (plain_err (''runDeviceLinkRequester: delegation cert chain rejected: ''
          @ js_String (js_or (getp authz ''reason'') (JStr ''unknown''))))
      else
        (let granted = (case getp authz ''grantedCapabilities'' of JArr gs \<Rightarrow> gs | _ \<Rightarrow> []) in
         case find (\<lambda>c. JStr c \<notin> set granted) caps of
           Some c \<Rightarrow> throwE (plain_err (''runDeviceLinkRequester: delegation chain does not grant '' @ c))
         | None \<Rightarrow> rq_note (Authorized account certChain)))))"

definition link_delegation :: "jsval \<Rightarrow> jsval \<Rightarrow> string \<Rightarrow> string \<Rightarrow> string \<Rightarrow> (string \<times> jsval) list" where
  "link_delegation bundle deviceKeys deviceId inboxId fingerprint =
     [(''delegation'', JObj [(''accountSignPublicKeyB64'', getp bundle ''accountSignPublicKeyB64''),
        (''accountDhKeyPair'', getp bundle ''accountDhKeyPair''), (''deviceKeyPair'', deviceKeys),
        (''certChain'', getp bundle ''certChain''), (''cachedDeviceSet'', getp bundle ''cachedDeviceSet'')]),
      (''deviceId'', JStr deviceId), (''inboxId'', JStr inboxId), (''fingerprint'', JStr fingerprint)]"

text \<open>Publish the request: the keys, the inbox and its binding, the sealed record.\<close>

definition putRequest ::
    "'w requester_env \<Rightarrow> octets \<Rightarrow> string \<Rightarrow> (string \<times> string) \<Rightarrow> jsval \<Rightarrow> rat \<Rightarrow> ('w, string \<times> built_request) requester_io" where
  "putRequest R psk account keys deviceKeys startedAtMs =
     (let deadlineAtMs = startedAtMs + re_deadlineMs R in
      bindE (ext (generateInboxId R)) (\<lambda>inboxId.
      bindE (ext (re_buildBinding R deviceKeys inboxId startedAtMs (re_deadlineMs R))) (\<lambda>inboxBinding.
      bindE (emitStatus R ''publishing-request'') (\<lambda>_.
      bindE (ext (re_buildRequest R startedAtMs psk account (fst keys) deviceKeys inboxBinding (re_deadlineMs R))) (\<lambda>request.
      bindE (ext (dl_sealRecord (re_link R) startedAtMs keys (dl_REQUEST (re_link R)) (br_payloadB64 request) deadlineAtMs)) (\<lambda>sealed.
      bindE (rq_note (RequestPut sealed)) (\<lambda>_.
      bindE (ext (dl_put (re_link R) sealed)) (\<lambda>_. retE (inboxId, request)))))))))"

text \<open>Use an opened response: check, persist, confirm.\<close>

definition finishLink ::
    "'w requester_env \<Rightarrow> string \<Rightarrow> (string \<times> string) \<Rightarrow> jsval \<Rightarrow> rat \<Rightarrow> string \<Rightarrow> built_request \<Rightarrow> opened_response
      \<Rightarrow> ('w, jsval) requester_io" where
  "finishLink R account keys deviceKeys deadlineAtMs inboxId request opened =
     bindE (checkAuthority R account (getp deviceKeys ''publicKeyB64'') (getp (os_bundle opened) ''certChain'')) (\<lambda>_.
     (let result = link_delegation (os_bundle opened) deviceKeys (br_newDeviceId request) inboxId (br_fingerprint request) in
      bindE (emitStatus R ''persisting'') (\<lambda>_.
      bindE (rq_ask (DelegationPersisted (JObj result)) (re_persistDelegation R (JObj result))) (\<lambda>persistence.
      bindE (emitStatus R ''confirming'') (\<lambda>_.
      bindE (ext (re_buildConfirm R (os_masterSecret opened) (os_thResponseB64 opened))) (\<lambda>confirmB64.
      bindE (ext (dl_now (re_link R))) (\<lambda>nowMs.
      bindE (ext (dl_sealRecord (re_link R) nowMs keys (dl_CONFIRM (re_link R)) confirmB64 deadlineAtMs)) (\<lambda>sealed.
      bindE (rq_note (ConfirmPut sealed)) (\<lambda>_.
      bindE (ext (dl_put (re_link R) sealed)) (\<lambda>_.
      retE (JObj (result @ [(''persistence'', persistence)]))))))))))))"

definition runDeviceLinkRequester ::
    "nat \<Rightarrow> 'w requester_env \<Rightarrow> bool \<Rightarrow> bool \<Rightarrow> bool \<Rightarrow> bool \<Rightarrow> jsval \<Rightarrow> ('w, jsval option) requester_io" where
  "runDeviceLinkRequester n R crypto records clock persistDelegation code =
     (if \<not> crypto then throwE (plain_err ''runDeviceLinkRequester requires a crypto provider'')
      else if \<not> records then throwE (plain_err ''runDeviceLinkRequester requires records {put, get}'')
      else if \<not> clock then throwE (plain_err ''runDeviceLinkRequester requires nowMs() (a clock function)'')
      else if \<not> persistDelegation then
        throwE (plain_err ''runDeviceLinkRequester requires persistDelegation(result) before key confirmation'')
      else
        bindE (liftE (re_parseCode R code)) (\<lambda>(psk, account).
        bindE (ext (deriveRendezvousKeyPair (re_link R) psk)) (\<lambda>keys.
        bindE (case re_deviceKeyPair R of Some k \<Rightarrow> retE k | None \<Rightarrow> ext (re_generateDeviceKeyPair R)) (\<lambda>deviceKeys.
        bindE (ext (dl_now (re_link R))) (\<lambda>startedAtMs.
        bindE (putRequest R psk account keys deviceKeys startedAtMs) (\<lambda>(inboxId, request).
        bindE (emitStatus R ''waiting-approval'') (\<lambda>_.
        bindE (response_poll n R (fst keys) (startedAtMs + re_deadlineMs R) (re_pollInterval R)) (\<lambda>payload.
        case payload of
          None \<Rightarrow> retE None
        | Some p \<Rightarrow>
            bindE (emitStatus R ''validating'') (\<lambda>_.
            bindE (ext (re_openResponse R psk account (fst keys) (br_thRequestB64 request) (br_ephemeralKeyPair request) p)) (\<lambda>opened.
            bindE (finishLink R account keys deviceKeys (startedAtMs + re_deadlineMs R) inboxId request opened) (\<lambda>r.
            retE (Some r))))))))))))"

end
