(* ===== verification/Device_Link_Props.thy ===== *)
theory Device_Link_Props
  imports Device_Link Js_Hoare "HOL-Library.Sublist"
begin

text \<open>
  What the device-link ceremony guarantees. The approver releases a delegation only for the
  device it has pinned and shown, after the exact record is in the journal and the home has
  committed that device, inbox and certificate; \<open>cancel()\<close> between does not stop a release
  that is under way. Polling ends at the deadline. The requester confirms only a delegation
  whose authority it has checked and which it has stored.
\<close>

section \<open>Runs of the approver\<close>

datatype link_op = LStart | LWait nat | LApprove nat | LCancel

fun link_do :: "'w link_env \<Rightarrow> link_op \<Rightarrow> ('w, unit) link_io" where
  "link_do E LStart = bindE (link_start E) (\<lambda>_. retE ())"
| "link_do E (LWait n) = bindE (waitForRequest n E) (\<lambda>_. retE ())"
| "link_do E (LApprove n) = bindE (approve n E) (\<lambda>_. retE ())"
| "link_do E LCancel = modifyE link_cancel"

fun link_run :: "'w link_env \<Rightarrow> link_op list \<Rightarrow> approver \<times> 'w \<Rightarrow> approver \<times> 'w" where
  "link_run E [] s = s"
| "link_run E (x # xs) s = link_run E xs (snd (link_do E x s))"

section \<open>The invariant\<close>

text \<open>What must have happened, in this order, before a record is released: the request was pinned, the
  journal has answered that it stored an entry, the home has answered a commit.\<close>

definition release_evidence :: "string \<Rightarrow> jsval \<Rightarrow> jsval \<Rightarrow> jsval \<Rightarrow> jsval \<Rightarrow> link_event list" where
  "release_evidence d entry binding leaf commit = [Pinned d, Journalled entry (Inr ()), Registered d binding leaf (Inr commit)]"

text \<open>The entry is of the device and holds the record that is released and its certificate; the commit is of
  the same device, inbox and certificate.\<close>

definition release_match :: "string \<Rightarrow> jsval \<Rightarrow> jsval \<Rightarrow> jsval \<Rightarrow> jsval \<Rightarrow> bool" where
  "release_match d sealed entry leaf commit \<longleftrightarrow>
     getp entry ''deviceId'' = JStr d \<and> getp entry ''sealedResponse'' = sealed \<and> getp entry ''leafCert'' = leaf \<and>
     getp commit ''deviceId'' = JStr d \<and> getp commit ''inboxId'' = getp entry ''inboxId'' \<and> getp commit ''certId'' = getp entry ''certId''"

definition release_backed :: "jsval \<Rightarrow> link_event list \<Rightarrow> bool" where
  "release_backed sealed l \<longleftrightarrow> (\<exists>d entry binding leaf commit.
     subseq (release_evidence d entry binding leaf commit) l \<and> release_match d sealed entry leaf commit)"

definition released_ok :: "link_event list \<Rightarrow> bool" where
  "released_ok l \<longleftrightarrow> (\<forall>xs r ys. l = xs @ Released r # ys \<longrightarrow> release_backed r xs)"

text \<open>The answers in the trace are answers of the journal and of the home.\<close>

fun answer :: "'w link_env \<Rightarrow> link_event \<Rightarrow> bool" where
  "answer E (Journalled v r) \<longleftrightarrow> (\<exists>u u'. dl_persistPending E v u = (r, u'))"
| "answer E (Registered d b c r) \<longleftrightarrow> (\<exists>u u'. dl_registerDevice E d b c u = (r, u'))"
| "answer E e \<longleftrightarrow> True"

definition pins :: "link_event list \<Rightarrow> string list" where
  "pins l = concat (map (\<lambda>e. case e of Pinned d \<Rightarrow> [d] | _ \<Rightarrow> []) l)"

lemma pins_simps [simp]: "pins [] = []" "pins (l @ l') = pins l @ pins l'"
  "pins (e # l) = (case e of Pinned d \<Rightarrow> [d] | _ \<Rightarrow> []) @ pins l"
  by (simp_all add: pins_def)

definition terminal :: "link_status \<Rightarrow> bool" where
  "terminal s \<longleftrightarrow> s \<in> {Link_expired, Link_cancelled, Link_failed, Link_done}"

definition link_inv :: "'w link_env \<Rightarrow> approver \<Rightarrow> bool" where
  "link_inv E a \<longleftrightarrow> released_ok (ap_log a) \<and> list_all (answer E) (ap_log a) \<and> length (pins (ap_log a)) \<le> 1 \<and>
     (terminal (ap_status a) \<longrightarrow> ap_psk a = None \<and> ap_pinned a = None) \<and>
     (\<forall>o'. ap_pinned a = Some o' \<longrightarrow> Pinned (or_newDeviceId o') \<in> set (ap_log a)) \<and>
     (ap_status a \<in> {Idle, Waiting_request} \<longrightarrow> pins (ap_log a) = [])"

lemma released_ok_Nil [simp]: "released_ok []"
  by (simp add: released_ok_def)

lemma snoc_split: "l @ [e] = xs @ x # ys \<longleftrightarrow> ys = [] \<and> xs = l \<and> x = e \<or> (\<exists>zs. ys = zs @ [e] \<and> l = xs @ x # zs)"
  by (cases ys rule: rev_cases) auto

lemma released_ok_snoc: "released_ok (l @ [e]) \<longleftrightarrow>
    released_ok l \<and> (\<forall>r. e = Released r \<longrightarrow> release_backed r l)"
  unfolding released_ok_def snoc_split by blast

lemma subseq_snoc: "subseq xs l \<Longrightarrow> subseq xs (l @ es)"
  by (rule subseq_rev_drop_many)

lemma subseq_both: "subseq xs l \<Longrightarrow> subseq (xs @ [e]) (l @ [e])"
  by (simp add: list_emb_append_mono)

lemma link_inv_cancel: "link_inv E a \<Longrightarrow> link_inv E (terminate s a)" if "terminal s"
  using that by (auto simp: link_inv_def terminate_def ap_note_def released_ok_snoc terminal_def)

section \<open>Steps of the approver\<close>

text \<open>Assertions that a concurrent \<open>cancel()\<close> cannot falsify.\<close>

definition stable :: "(approver \<Rightarrow> bool) \<Rightarrow> bool" where
  "stable I \<longleftrightarrow> (\<forall>a. I a \<longrightarrow> I (link_cancel a))"

definition traced :: "'w link_env \<Rightarrow> link_event list \<Rightarrow> approver \<Rightarrow> bool" where
  "traced E es a \<longleftrightarrow> link_inv E a \<and> subseq es (ap_log a)"

lemma stable_inv: "stable (link_inv E)"
  by (simp add: stable_def link_cancel_def link_inv_cancel terminal_def)

lemma stable_traced: "stable (traced E es)"
  using stable_inv by (auto simp: stable_def traced_def link_cancel_def terminate_def ap_note_def intro: subseq_snoc)

lemma traced_inv: "traced E es a \<Longrightarrow> link_inv E a"
  by (simp add: traced_def)

lemma wp_await:
  assumes "stable I" "I a" "\<And>x b. I b \<Longrightarrow> Q x b" "\<And>e b. I b \<Longrightarrow> R e b"
  shows "wpE (awaitD E m) Q R a"
  using assms unfolding wpE_def awaitD_def stable_def by (auto split: prod.split sum.split)

lemma wp_ask:
  assumes "\<And>r w w'. m w = (r, w') \<Longrightarrow> I r (ap_note (ev r) a)" "\<And>r. stable (I r)"
    and "\<And>x b. I (Inr x) b \<Longrightarrow> Q x b" "\<And>e b. I (Inl e) b \<Longrightarrow> R e b"
  shows "wpE (askD E ev m) Q R a"
proof (rule wpE_I)
  fix w x b w'
  assume "askD E ev m (a, w) = (Inr x, (b, w'))"
  then obtain w1 where "m w = (Inr x, w1)" "b = ap_note (ev (Inr x)) a \<or> b = link_cancel (ap_note (ev (Inr x)) a)"
    by (auto simp: askD_def split: prod.splits if_splits)
  with assms(1) [of w "Inr x" w1] assms(2) [of "Inr x"] show "Q x b" by (auto simp: stable_def intro: assms(3))
next
  fix w e b w'
  assume "askD E ev m (a, w) = (Inl e, (b, w'))"
  then obtain w1 where "m w = (Inl e, w1)" "b = ap_note (ev (Inl e)) a \<or> b = link_cancel (ap_note (ev (Inl e)) a)"
    by (auto simp: askD_def split: prod.splits if_splits)
  with assms(1) [of w "Inl e" w1] assms(2) [of "Inl e"] show "R e b" by (auto simp: stable_def intro: assms(4))
qed

lemma wp_lift [wp_rules]: "(\<And>x. r = Inr x \<Longrightarrow> Q x p) \<Longrightarrow> (\<And>e. r = Inl e \<Longrightarrow> R e p) \<Longrightarrow> wpE (liftE r) Q R p"
  by (auto simp: wpE_def liftE_def split: sum.split)

lemma wp_failWith [wp_rules]: "link_inv E a \<Longrightarrow> (\<And>b. link_inv E b \<Longrightarrow> R e b) \<Longrightarrow> wpE (failWith e) Q R a"
  unfolding failWith_def by (intro wp_rules) (auto simp: link_inv_cancel terminal_def)

lemma wp_rendezvousKeys [wp_rules]: "(\<And>k. Q k a) \<Longrightarrow> (\<And>e. R e a) \<Longrightarrow> wpE rendezvousKeys Q R a"
  unfolding rendezvousKeys_def by (intro wp_rules)

lemma wp_mintLeafCert:
  assumes "stable I" "I a"
  shows "wpE (mintLeafCert E pk now) (\<lambda>_. I) (\<lambda>_. I) a"
  unfolding mintLeafCert_def Let_def
  by (intro wp_rules wp_await [OF assms(1)]) (auto simp: assms(2))

lemma wp_sealedResponse:
  assumes "stable I" "I a"
  shows "wpE (sealedResponse E pinned leaf now) (\<lambda>_. I) (\<lambda>_. I) a"
  unfolding sealedResponse_def
  by (intro wp_rules wp_await [OF assms(1)]) (auto simp: assms(2))

lemma wp_poll_slot:
  assumes "stable I" "I a"
  shows "wpE (poll_slot E r k) (\<lambda>_. I) (\<lambda>_ _. False) a"
  unfolding poll_slot_def by (intro wp_rules wp_await [OF assms(1)]) (auto simp: assms(2))

lemma traced_note:
  assumes "traced E es a" "answer E e" "\<And>r. e \<noteq> Released r" "\<And>d. e \<noteq> Pinned d"
  shows "traced E (es @ [e]) (ap_note e a)"
  using assms subseq_both [of es "ap_log a" e]
  by (auto simp: traced_def link_inv_def ap_note_def released_ok_snoc split: link_event.split)

lemma wp_ask_traced:
  assumes "traced E es a" "\<And>r. answer E (ev r) \<longleftrightarrow> (\<exists>u u'. m u = (r, u'))" "\<And>r x. ev r \<noteq> Released x" "\<And>r d. ev r \<noteq> Pinned d"
  shows "wpE (askD E ev m) (\<lambda>x. traced E (es @ [ev (Inr x)])) (\<lambda>_. link_inv E) a"
proof (rule wp_ask [where I = "\<lambda>r. traced E (es @ [ev r])"])
  show "traced E (es @ [ev r]) (ap_note (ev r) a)" if "m w = (r, w')" for r w w'
    by (rule traced_note [OF assms(1) _ assms(3,4)]) (use that in \<open>unfold assms(2), blast\<close>)
qed (simp_all add: stable_traced traced_inv)

lemma wp_persistPending:
  assumes "traced E es a"
  shows "wpE (persistPending E pinned leaf response sealed)
    (\<lambda>_ b. \<exists>t. traced E (es @ [Journalled (pendingEntry pinned leaf response sealed t) (Inr ())]) b) (\<lambda>_. link_inv E) a"
proof -
  let ?entry = "pendingEntry pinned leaf response sealed (ap_expiresAt a)"
  have stored: "wpE (askD E (Journalled ?entry) (dl_persistPending E ?entry))
      (\<lambda>x. traced E (es @ [Journalled ?entry (Inr x)])) (\<lambda>_. link_inv E) a"
    by (rule wp_ask_traced [OF assms]) simp_all
  show ?thesis
    unfolding persistPending_def Let_def by (intro wp_rules wpE_conseq [OF stored]) auto
qed

lemma wp_registerDevice:
  assumes "traced E es a"
  shows "wpE (registerDevice E pinned leaf)
    (\<lambda>_ b. \<exists>binding commit. commitMatches pinned leaf commit \<and>
       traced E (es @ [Registered (or_newDeviceId pinned) binding (lc_json leaf) (Inr commit)]) b) (\<lambda>_. link_inv E) a"
proof -
  let ?ev = "Registered (or_newDeviceId pinned) (getp (or_linkRequest pinned) ''deviceInboxBinding'') (lc_json leaf)"
  have added: "wpE (askD E ?ev (dl_registerDevice E (or_newDeviceId pinned) (getp (or_linkRequest pinned) ''deviceInboxBinding'') (lc_json leaf)))
      (\<lambda>commit. traced E (es @ [?ev (Inr commit)])) (\<lambda>_. link_inv E) a"
    by (rule wp_ask_traced [OF assms]) simp_all
  show ?thesis
    unfolding registerDevice_def Let_def by (intro wp_rules wpE_conseq [OF added]) (auto intro: traced_inv)
qed

lemma release_matchI:
  "commitMatches pinned leaf commit \<Longrightarrow>
     release_match (or_newDeviceId pinned) sealed (pendingEntry pinned leaf response sealed t) (lc_json leaf) commit"
  by (auto simp: release_match_def commitMatches_def pendingEntry_def dest!: js_eq_D)

lemma wp_publishResponse:
  assumes "traced E (release_evidence d entry binding leaf commit) a" "release_match d sealed entry leaf commit"
  shows "wpE (publishResponse E pinned sealed) (\<lambda>_. link_inv E) (\<lambda>_. link_inv E) a"
proof -
  have "release_backed sealed (ap_log a)" using assms unfolding release_backed_def traced_def by blast
  then have "link_inv E (ap_note (Released sealed) a)"
    using assms(1) by (auto simp: traced_def link_inv_def ap_note_def released_ok_snoc)
  then show ?thesis
    unfolding publishResponse_def by (intro wp_rules wp_await [OF stable_inv [where E = E]]) auto
qed

text \<open>Registration and release, whatever follows.\<close>

lemma wp_release:
  assumes "\<exists>t. traced E ([Pinned (or_newDeviceId pinned)] @ [Journalled (pendingEntry pinned leaf response sealed t) (Inr ())]) a"
    and "\<And>b. link_inv E b \<Longrightarrow> wpE k (\<lambda>_. link_inv E) (\<lambda>_. link_inv E) b"
  shows "wpE (bindE (registerDevice E pinned leaf) (\<lambda>_. bindE (publishResponse E pinned sealed) (\<lambda>_. k))) (\<lambda>_. link_inv E) (\<lambda>_. link_inv E) a"
proof -
  from assms(1) obtain t where t:
    "traced E ([Pinned (or_newDeviceId pinned)] @ [Journalled (pendingEntry pinned leaf response sealed t) (Inr ())]) a" ..
  have publish: "wpE (publishResponse E pinned sealed) (\<lambda>_. link_inv E) (\<lambda>_. link_inv E) b"
    if "\<exists>binding commit. commitMatches pinned leaf commit \<and> traced E (([Pinned (or_newDeviceId pinned)]
          @ [Journalled (pendingEntry pinned leaf response sealed t) (Inr ())])
          @ [Registered (or_newDeviceId pinned) binding (lc_json leaf) (Inr commit)]) b" for b
  proof -
    from that obtain binding commit where "commitMatches pinned leaf commit"
      "traced E (release_evidence (or_newDeviceId pinned) (pendingEntry pinned leaf response sealed t) binding (lc_json leaf) commit) b"
      by (auto simp: release_evidence_def)
    then show ?thesis by (blast intro: wp_publishResponse release_matchI)
  qed
  show ?thesis
    by (intro wpE_bind wpE_conseq [OF wp_registerDevice [OF t]] wpE_conseq [OF publish] assms(2))
qed

lemma wp_confirm_poll:
  assumes "link_inv E a"
  shows "wpE (confirm_poll n E response d result interval) (\<lambda>_. link_inv E) (\<lambda>_. link_inv E) a"
  using assms
proof (induction n arbitrary: a interval)
  case 0
  then show ?case unfolding confirm_poll.simps by (intro wp_rules)
next
  case (Suc n)
  show ?case unfolding confirm_poll.simps
    by (intro wp_rules wp_await [OF stable_inv [where E = E]] wpE_conseq [OF wp_poll_slot [OF stable_inv [where E = E]]])
      (auto simp: Suc link_inv_cancel terminal_def)
qed

lemma link_inv_status: "link_inv E a \<Longrightarrow> s \<in> {Responding, Waiting_confirm} \<Longrightarrow> link_inv E (setStatus s a)"
  by (auto simp: link_inv_def setStatus_def terminal_def)

lemma wp_approve:
  assumes "link_inv E a"
  shows "wpE (approve n E) (\<lambda>_. link_inv E) (\<lambda>_. link_inv E) a"
proof -
  have pinned: "traced E [Pinned (or_newDeviceId o')] (setStatus Responding a)" if "ap_pinned a = Some o'" for o'
    using link_inv_status [OF assms] assms that by (auto simp: traced_def link_inv_def setStatus_def subseq_singleton_left)
  show ?thesis
    unfolding approve_def
    by (intro wp_rules
        wpE_conseq [OF wp_mintLeafCert [OF stable_traced [where E = E] pinned]] wpE_conseq [OF wp_sealedResponse [OF stable_traced [where E = E]]]
        wpE_conseq [OF wp_persistPending] wp_release wpE_conseq [OF wp_confirm_poll])
      (auto simp: assms intro: traced_inv link_inv_status)
qed

text \<open>Nothing is pinned yet, and no record is released: what holds while the approver polls.\<close>

definition unpinned :: "'w link_env \<Rightarrow> approver \<Rightarrow> bool" where
  "unpinned E a \<longleftrightarrow> link_inv E a \<and> pins (ap_log a) = []"

lemma stable_unpinned: "stable (unpinned E)"
  using stable_inv by (auto simp: stable_def unpinned_def link_cancel_def terminate_def ap_note_def)

lemma unpinned_inv: "unpinned E a \<Longrightarrow> link_inv E a"
  by (simp add: unpinned_def)

lemma link_inv_pin: "unpinned E a \<Longrightarrow>
    link_inv E (ap_note (Pinned (or_newDeviceId o')) (a\<lparr>ap_pinned := Some o', ap_status := Awaiting_approval\<rparr>))"
  by (auto simp: unpinned_def link_inv_def ap_note_def released_ok_snoc terminal_def)

lemma wp_openRequest:
  assumes "unpinned E a"
  shows "wpE (openRequest E now k fetched) (\<lambda>_. link_inv E) (\<lambda>_. unpinned E) a"
  unfolding openRequest_def
  by (intro wp_rules wp_await [OF stable_unpinned [where E = E]]) (auto simp: assms link_inv_pin)

lemma wp_request_poll:
  assumes "unpinned E a"
  shows "wpE (request_poll n E interval) (\<lambda>_. link_inv E) (\<lambda>_. link_inv E) a"
  using assms
proof (induction n arbitrary: a interval)
  case 0
  then show ?case unfolding request_poll.simps by (intro wp_rules) (simp add: unpinned_def)
next
  case (Suc n)
  have opened: "wpE (if js_truthy fetched
                then catchE (bindE (openRequest E now (fst keys) fetched) (\<lambda>r. retE (Some r)))
                  (\<lambda>err. if err_code err = ''DEVICE_LINK_UPGRADE_REQUIRED''
                         then bindE (modifyE (terminate Link_failed)) (\<lambda>_. throwE err)
                         else retE None)
                else retE None) (\<lambda>r b. if r = None then unpinned E b else link_inv E b) (\<lambda>_. link_inv E) b"
    if "unpinned E b" for b fetched now keys
    by (intro wp_rules wpE_conseq [OF wp_openRequest]) (auto simp: that intro: unpinned_inv link_inv_cancel [unfolded terminal_def])
  show ?case unfolding request_poll.simps
    by (intro wp_rules wp_await [OF stable_unpinned [where E = E]] wpE_conseq [OF wp_poll_slot [OF stable_unpinned [where E = E]]]
        wpE_conseq [OF opened] Suc.IH)
      (auto simp: Suc.prems unpinned_inv link_inv_cancel terminal_def)
qed

lemma wp_link_start:
  assumes "link_inv E a"
  shows "wpE (link_start E) (\<lambda>_. link_inv E) (\<lambda>_. link_inv E) a"
proof -
  have fresh: "unpinned E (a\<lparr>ap_psk := Some psk\<rparr>)" if "ap_status a = Idle" for psk
    using assms that by (auto simp: unpinned_def link_inv_def terminal_def)
  have started: "link_inv E (b\<lparr>ap_rendezvous := k, ap_expiresAt := t, ap_status := Waiting_request\<rparr>)" "link_inv E (b\<lparr>ap_rendezvous := k\<rparr>)"
    if "unpinned E b" for b k t
    using that by (auto simp: unpinned_def link_inv_def terminal_def)
  show ?thesis
    unfolding link_start_def
    by (intro wp_rules wp_await [OF stable_unpinned [where E = E]]) (auto simp: assms fresh started unpinned_inv)
qed

lemma link_do_inv: "link_inv E a \<Longrightarrow> link_inv E (fst (snd (link_do E x (a, w))))"
proof (rule wpE_D_snd)
  assume a: "link_inv E a"
  have "unpinned E a" if "ap_status a = Waiting_request" using a that by (simp add: unpinned_def link_inv_def)
  then show "wpE (link_do E x) (\<lambda>_. link_inv E) (\<lambda>_. link_inv E) a"
    by (cases x) (simp_all add: waitForRequest_def,
        (intro wp_rules wpE_conseq [OF wp_link_start] wpE_conseq [OF wp_request_poll] wpE_conseq [OF wp_approve];
          auto simp: a link_cancel_def link_inv_cancel terminal_def)+)
qed

lemma link_run_inv: "link_inv E a \<Longrightarrow> link_run E ops (a, w) = (a', w') \<Longrightarrow> link_inv E a'"
proof (induction ops arbitrary: a w)
  case (Cons x ops)
  obtain r b v where step: "link_do E x (a, w) = (r, b, v)" by (metis prod_cases3)
  with Cons.prems link_do_inv [OF Cons.prems(1), of x w] show ?case using Cons.IH [of b v] by simp
qed simp

lemma mk_approver_inv: "mk_approver c r acct cb pk dh reg j i m bo pt ct = Inr a \<Longrightarrow> link_inv E a"
  by (auto simp: mk_approver_def link_inv_def terminal_def split: if_splits jsval.splits)

section \<open>An example\<close>

text \<open>The world is a clock and a script that says at which awaits the application cancels.\<close>

definition demo_request :: opened_request where
  "demo_request = \<lparr>or_thRequestB64 = ''th'', or_ephemeralDhPublicKeyB64 = ''eph'',
     or_linkRequest = JObj [(''newDevicePublicKeyB64'', JStr ''C''), (''deviceInboxBinding'', JObj [(''inboxId'', JStr ''inbox:1'')])],
     or_newDeviceId = ''dev'', or_fingerprint = ''fp''\<rparr>"

definition demo_link :: "bool \<Rightarrow> (rat \<times> bool list) link_env" where
  "demo_link present =
     \<lparr>dl_cancels = \<lambda>(t, cs). (case cs of [] \<Rightarrow> (False, (t, [])) | c # cs' \<Rightarrow> (c, (t, cs'))),
      dl_now = \<lambda>(t, cs). (Inr t, (t, cs)), dl_sleep = \<lambda>ms (t, cs). (Inr (), (t + max 1 ms, cs)),
      dl_get = \<lambda>r k. retE (if present then JStr ''record'' else JNull), dl_put = \<lambda>r. retE (),
      dl_generatePsk = retE [7], dl_ceremonySeed = \<lambda>psk. retE psk, dl_hkdf = \<lambda>s x i n. retE s,
      dl_keyPairFromSeed = Some (\<lambda>s. retE (s, s)), dl_encodeCode = \<lambda>psk acct. Inr acct,
      dl_verifyRecord = \<lambda>t r k i. retE r, dl_openRequest = \<lambda>t psk acct k p. retE demo_request,
      dl_buildResponse = \<lambda>psk acct k th eph b. retE \<lparr>cr_payloadB64 = ''p'', cr_thResponseB64 = ''t'', cr_confirmTagB64 = ''c'', cr_masterSecret = []\<rparr>,
      dl_sealRecord = \<lambda>t ks i p e. retE (JStr ''sealed''), dl_verifyConfirm = \<lambda>m t p. retE True,
      dl_getCachedDeviceSet = None,
      dl_registerDevice = \<lambda>d b c. retE (JObj [(''deviceId'', JStr d), (''inboxId'', getp b ''inboxId''), (''certId'', JStr ''cert'')]),
      dl_persistPending = \<lambda>v. retE (), dl_markPublished = \<lambda>d. retE (), dl_markConfirmed = \<lambda>d. retE (), dl_warn = \<lambda>m. retE (),
      dl_sign = \<lambda>b. retE (Some [1]), dl_verify = \<lambda>k m g. retE True, dl_deriveCertId = \<lambda>v. Inr ''cert'',
      dl_signableBytes = \<lambda>v. [], dl_newCert = \<lambda>v. Inr \<lparr>lc_certId = ''cert'', lc_json = v\<rparr>, dl_deviceIdFor = \<lambda>v. Inr ''dev'',
      dl_base64ToBytes = \<lambda>v. Inr [], dl_bytesToBase64 = \<lambda>b. ''b64'', dl_PURPOSE = [], dl_RENDEZVOUS_LABEL = [],
      dl_CAP_DEVICE_SET_PUBLISH = ''deviceSet.publish'', dl_REQUEST = ''req'', dl_RESPONSE = ''res'', dl_CONFIRM = ''conf''\<rparr>"

definition demo_approver :: approver where
  "demo_approver = \<lparr>ap_account = ''B'', ap_dh = JObj [(''publicKeyB64'', JStr ''x''), (''privateKeyB64'', JStr ''y'')],
     ap_pollInterval = 1, ap_pollMax = 5, ap_pollBackoff = 2, ap_pskTtl = 3, ap_certTtl = 100, ap_status = Idle, ap_psk = None,
     ap_rendezvous = None, ap_expiresAt = 0, ap_pinned = None, ap_log = []\<rparr>"

lemma demo_approver_made:
  "mk_approver True True (JStr ''B'') True False (JObj [(''publicKeyB64'', JStr ''x''), (''privateKeyB64'', JStr ''y'')])
     True True 1 5 2 3 100 = Inr demo_approver"
  by code_simp

section \<open>Properties\<close>

text \<open>C9. Whatever the application does with an approver (start, wait, approve and cancel in any
  order, and a cancel during any await) and whatever the network, the journal and the home
  answer: when a sealed response is released, then before that a request was pinned, the journal
  had answered without an error to an entry that holds this very record for the pinned device, and
  after that the home had answered with a commit of that device, and of the inbox and the certificate
  of the entry. No second request is ever pinned. An approver in a terminal state holds neither the
  pre-shared secret nor the pinned request (it does keep the rendezvous key pair).\<close>

theorem release_only_after_registration:
  assumes "mk_approver c r acct cb pk dh reg j i m bo pt ct = Inr a0"
    and "link_run E ops (a0, w) = (a, w')"
  shows "(\<forall>xs sealed ys. ap_log a = xs @ Released sealed # ys \<longrightarrow>
      (\<exists>d entry binding leaf commit u u' v v'.
         subseq [Pinned d, Journalled entry (Inr ()), Registered d binding leaf (Inr commit)] xs \<and>
         dl_persistPending E entry u = (Inr (), u') \<and> dl_registerDevice E d binding leaf v = (Inr commit, v') \<and>
         release_match d sealed entry leaf commit \<and> (\<forall>d'. Pinned d' \<in> set (ap_log a) \<longrightarrow> d' = d))) \<and>
    (ap_status a \<in> {Link_expired, Link_cancelled, Link_failed, Link_done} \<longrightarrow> ap_psk a = None \<and> ap_pinned a = None)"
proof -
  have inv: "link_inv E a" by (rule link_run_inv [OF mk_approver_inv [OF assms(1)] assms(2)])
  have only: "d' = d" if "Pinned d' \<in> set (ap_log a)" "Pinned d \<in> set (ap_log a)" for d d'
  proof -
    have "d' \<in> set (pins (ap_log a))" "d \<in> set (pins (ap_log a))" using that by (force simp: pins_def)+
    then show ?thesis using inv by (cases "pins (ap_log a)") (auto simp: link_inv_def)
  qed
  have "\<exists>d entry binding leaf commit u u' v v'.
         subseq [Pinned d, Journalled entry (Inr ()), Registered d binding leaf (Inr commit)] xs \<and>
         dl_persistPending E entry u = (Inr (), u') \<and> dl_registerDevice E d binding leaf v = (Inr commit, v') \<and>
         release_match d sealed entry leaf commit \<and> (\<forall>d'. Pinned d' \<in> set (ap_log a) \<longrightarrow> d' = d)"
    if l: "ap_log a = xs @ Released sealed # ys" for xs sealed ys
  proof -
    from inv l obtain d entry binding leaf commit where e: "subseq (release_evidence d entry binding leaf commit) xs"
      and matches: "release_match d sealed entry leaf commit"
      unfolding link_inv_def released_ok_def release_backed_def by blast
    have in_log: "ev \<in> set (ap_log a)" if "ev \<in> set (release_evidence d entry binding leaf commit)" for ev
      using list_emb_set [OF e that] l by auto
    have "\<forall>e \<in> set (ap_log a). answer E e" using inv by (simp add: link_inv_def list_all_iff)
    then have "answer E (Journalled entry (Inr ()))" "answer E (Registered d binding leaf (Inr commit))"
      using in_log by (simp_all only: release_evidence_def set_simps insert_iff simp_thms)
    moreover have "\<forall>d'. Pinned d' \<in> set (ap_log a) \<longrightarrow> d' = d" using only in_log by (simp add: release_evidence_def)
    ultimately show ?thesis using e matches unfolding release_evidence_def answer.simps by blast
  qed
  then show ?thesis using inv by (auto simp: link_inv_def terminal_def)
qed

theorem release_only_after_registration_witness:
  "\<exists>a w' xs ys. link_run (demo_link True) [LStart, LWait 1, LApprove 1] (demo_approver, (0, [])) = (a, w') \<and>
     ap_log a = xs @ Released (JStr ''sealed'') # ys \<and>
     (\<exists>d entry binding leaf commit. subseq [Pinned d, Journalled entry (Inr ()), Registered d binding leaf (Inr commit)] xs \<and>
        release_match d (JStr ''sealed'') entry leaf commit)"
proof -
  obtain a w' where run: "link_run (demo_link True) [LStart, LWait 1, LApprove 1] (demo_approver, (0, [])) = (a, w')"
    by (rule prod.exhaust)
  have "Released (JStr ''sealed'') \<in> set (ap_log (fst (link_run (demo_link True) [LStart, LWait 1, LApprove 1] (demo_approver, (0, [])))))"
    by code_simp
  then obtain xs ys where l: "ap_log a = xs @ Released (JStr ''sealed'') # ys" using run split_list by fastforce
  with run release_only_after_registration [OF demo_approver_made run] show ?thesis by blast
qed

text \<open>C39. A \<open>cancel()\<close> that comes while \<open>approve()\<close> waits for the registration is not heeded: for every
  environment, once the response is built and in the journal, when the home answers the registration
  with a matching commit and \<open>cancel()\<close> was called meanwhile, the approver still puts the sealed
  response into its slot, after it was told to cancel, and goes on to wait for the confirmation: the
  state \<open>cancelled\<close> is overwritten by \<open>waiting-confirm\<close>.\<close>

theorem cancel_does_not_stop_release:
  assumes "ap_status a = Awaiting_approval" "ap_pinned a = Some pinned" "dl_now E w = (Inr nowMs, wa)"
    and "mintLeafCert E (getp (or_linkRequest pinned) ''newDevicePublicKeyB64'') nowMs (setStatus Responding a, wa) = (Inr leaf, s1)"
    and "sealedResponse E pinned leaf nowMs s1 = (Inr (response, sealed), s2)"
    and "persistPending E pinned leaf response sealed s2 = (Inr (), (b, v))"
    and "dl_registerDevice E (or_newDeviceId pinned) (getp (or_linkRequest pinned) ''deviceInboxBinding'') (lc_json leaf) v = (Inr commit, vc)"
    and "commitMatches pinned leaf commit" "dl_cancels E vc = (True, vd)"
    and "dl_put E sealed vd = (Inr (), ve)" "dl_cancels E ve = (False, vf)"
    and "dl_markPublished E (or_newDeviceId pinned) vf = (Inr (), vg)" "dl_cancels E vg = (False, vh)"
  shows "approve n E (a, w) = confirm_poll n E response (or_newDeviceId pinned)
     \<lparr>lr_newDeviceId = or_newDeviceId pinned, lr_certId = lc_certId leaf, lr_inboxId = bindingInbox (or_linkRequest pinned)\<rparr> (ap_pollInterval b)
     (b\<lparr>ap_psk := None, ap_pinned := None,
        ap_log := ap_log b @ [Registered (or_newDeviceId pinned) (getp (or_linkRequest pinned) ''deviceInboxBinding'') (lc_json leaf) (Inr commit),
          Terminated Link_cancelled, Released sealed], ap_status := Waiting_confirm\<rparr>, vh)"
proof -
  have register: "registerDevice E pinned leaf (b, v) = (Inr (), (link_cancel (ap_note
      (Registered (or_newDeviceId pinned) (getp (or_linkRequest pinned) ''deviceInboxBinding'') (lc_json leaf) (Inr commit)) b), vd))"
    using assms(7-9) by (simp add: registerDevice_def Let_def askD_def bindE_def catchE_def)
  have publish: "publishResponse E pinned sealed (c, vd) = (Inr (), (ap_note (Released sealed) c, vh))" for c
    using assms(10-13) by (simp add: publishResponse_def awaitD_def bindE_def modifyE_def)
  show ?thesis
    using assms(1-6) register publish
    by (simp add: approve_def bindE_def getsE_def modifyE_def ext_def setStatus_def link_cancel_def terminate_def ap_note_def)
qed

definition demo_pinned :: approver where
  "demo_pinned = demo_approver\<lparr>ap_status := Awaiting_approval, ap_pinned := Some demo_request, ap_rendezvous := Some (''k'', ''s''), ap_psk := Some [7]\<rparr>"

definition demo_leaf :: leaf_cert where
  "demo_leaf = (case fst (mintLeafCert (demo_link True) (JStr ''C'') 0 (setStatus Responding demo_pinned, (0, []))) of Inr l \<Rightarrow> l | Inl e \<Rightarrow> \<lparr>lc_certId = [], lc_json = JNull\<rparr>)"

theorem cancel_does_not_stop_release_witness:
  "\<exists>b leaf commit. approve 0 (demo_link True) (demo_pinned, (0, replicate 5 False @ [True])) = (Inr None, (b, (0, []))) \<and>
     ap_status b = Waiting_confirm \<and>
     suffix [Registered ''dev'' (JObj [(''inboxId'', JStr ''inbox:1'')]) leaf (Inr commit), Terminated Link_cancelled, Released (JStr ''sealed'')] (ap_log b)"
proof -
  let ?E = "demo_link True" and ?a = "setStatus Responding demo_pinned"
  let ?response = "\<lparr>cr_payloadB64 = ''p'', cr_thResponseB64 = ''t'', cr_confirmTagB64 = ''c'', cr_masterSecret = []\<rparr>"
  let ?commit = "JObj [(''deviceId'', JStr ''dev''), (''inboxId'', JStr ''inbox:1''), (''certId'', JStr ''cert'')]"
  have mint: "mintLeafCert ?E (JStr ''C'') 0 (?a, (0, replicate 5 False @ [True])) = (Inr demo_leaf, (?a, (0, replicate 3 False @ [True])))"
    by code_simp
  have sealing: "sealedResponse ?E demo_request demo_leaf 0 (?a, (0, replicate 3 False @ [True])) = (Inr (?response, JStr ''sealed''), (?a, (0, [False, True])))"
    by code_simp
  have cert: "lc_certId demo_leaf = ''cert''" by code_simp
  obtain b where b: "persistPending ?E demo_request demo_leaf ?response (JStr ''sealed'') (?a, (0, [False, True])) = (Inr (), (b, (0, [True])))"
    by (simp add: persistPending_def Let_def askD_def bindE_def catchE_def getsE_def demo_link_def)
  have pinned: "ap_status demo_pinned = Awaiting_approval" "ap_pinned demo_pinned = Some demo_request"
      "getp (or_linkRequest demo_request) ''newDevicePublicKeyB64'' = JStr ''C''"
    by (simp_all add: demo_pinned_def demo_request_def)
  have home: "dl_registerDevice ?E (or_newDeviceId demo_request) (getp (or_linkRequest demo_request) ''deviceInboxBinding'') (lc_json demo_leaf) (0, [True])
      = (Inr ?commit, (0, [True]))"
    by (simp add: demo_link_def demo_request_def)
  have matches: "commitMatches demo_request demo_leaf ?commit" by code_simp
  have world: "dl_now ?E (0, cs) = (Inr 0, (0, cs))" "dl_cancels ?E (0, [True]) = (True, (0, []))" "dl_cancels ?E (0, []) = (False, (0, []))"
      "dl_put ?E x u = (Inr (), u)" "dl_markPublished ?E d u = (Inr (), u)" for cs x d u
    by (simp_all add: demo_link_def)
  from cancel_does_not_stop_release [OF pinned(1,2) world(1) _ sealing b home matches world(2,4,3,5,3), unfolded pinned(3), OF mint, of 0]
  show ?thesis by (auto simp: suffix_def demo_request_def)
qed

section \<open>Polling ends\<close>

text \<open>A clock that no call turns back and that every sleep advances.\<close>

definition forward :: "('w \<Rightarrow> rat) \<Rightarrow> ('w, 'a) io \<Rightarrow> bool" where
  "forward c m \<longleftrightarrow> (\<forall>w. c w \<le> c (snd (m w)))"

definition clock_runs :: "'w link_env \<Rightarrow> ('w \<Rightarrow> rat) \<Rightarrow> bool" where
  "clock_runs E c \<longleftrightarrow> (\<forall>w. dl_now E w = (Inr (c w), w)) \<and> (\<forall>w. c w \<le> c (snd (dl_cancels E w))) \<and>
     (\<forall>r k. forward c (dl_get E r k)) \<and> (\<forall>t r k i. forward c (dl_verifyRecord E t r k i)) \<and>
     (\<forall>t psk a k p. forward c (dl_openRequest E t psk a k p)) \<and>
     (\<forall>ms w. c w + 1 \<le> c (snd (dl_sleep E ms w)))"

text \<open>Operations that do not turn the clock back and leave the deadline alone.\<close>

named_theorems timed_rules

definition timed :: "('w \<Rightarrow> rat) \<Rightarrow> ('w, 'a) link_io \<Rightarrow> bool" where
  "timed c m \<longleftrightarrow> (\<forall>a w r b v. m (a, w) = (r, b, v) \<longrightarrow> c w \<le> c v \<and> ap_expiresAt b = ap_expiresAt a)"

lemma timedD: "timed c m \<Longrightarrow> m (a, w) = (r, b, v) \<Longrightarrow> c w \<le> c v \<and> ap_expiresAt b = ap_expiresAt a"
  unfolding timed_def by blast

lemma timed_bind [timed_rules]: "timed c m \<Longrightarrow> (\<And>x. timed c (f x)) \<Longrightarrow> timed c (bindE m f)"
  unfolding timed_def bindE_def by (auto split: prod.splits sum.splits) (meson order_trans | metis)+

lemma timed_catch [timed_rules]: "timed c m \<Longrightarrow> (\<And>e. timed c (h e)) \<Longrightarrow> timed c (catchE m h)"
  unfolding timed_def catchE_def by (auto split: prod.splits sum.splits) (meson order_trans | metis)+

lemma timed_basic [timed_rules]: "timed c (retE x)" "timed c (throwE e)" "timed c (getsE f)" "timed c (modifyE (terminate s))"
  "timed c (modifyE (\<lambda>a. ap_note ev (a\<lparr>ap_pinned := p, ap_status := s\<rparr>)))"
  by (auto simp: timed_def getsE_def modifyE_def terminate_def ap_note_def)

lemma timed_if [timed_rules]: "timed c m \<Longrightarrow> timed c m' \<Longrightarrow> timed c (if b then m else m')"
  by simp

lemma timed_pair [timed_rules]: "(\<And>x y. timed c (f x y)) \<Longrightarrow> timed c (case p of (x, y) \<Rightarrow> f x y)"
  by (cases p) simp

lemma timed_await:
  assumes "clock_runs E c" "forward c m"
  shows "timed c (awaitD E m)"
  unfolding timed_def
proof (intro allI impI)
  fix a w r b v
  assume run: "awaitD E m (a, w) = (r, b, v)"
  have "c (snd (m w)) \<le> c v" "ap_expiresAt b = ap_expiresAt a"
    using run assms(1) by (auto simp: awaitD_def clock_runs_def link_cancel_def terminate_def ap_note_def
        split: prod.splits if_splits) (metis snd_conv)+
  moreover have "c w \<le> c (snd (m w))" using assms(2) by (simp add: forward_def)
  ultimately show "c w \<le> c v \<and> ap_expiresAt b = ap_expiresAt a" by auto
qed

lemma timed_openRequest: "clock_runs E c \<Longrightarrow> timed c (openRequest E now k f)"
  unfolding openRequest_def by (intro timed_rules timed_await) (simp_all add: clock_runs_def)

lemma timed_poll_slot: "clock_runs E c \<Longrightarrow> timed c (poll_slot E i k)"
  unfolding poll_slot_def by (intro timed_rules timed_await) (simp_all add: clock_runs_def)

lemma timed_rendezvousKeys: "timed c rendezvousKeys"
  unfolding rendezvousKeys_def by (intro timed_rules) (simp add: timed_basic split: option.split)

lemma returns_timed:
  "timed c m \<Longrightarrow> (\<And>x b v. c w \<le> c v \<Longrightarrow> ap_expiresAt b = ap_expiresAt a \<Longrightarrow> Q x (b, v)) \<Longrightarrow> returns m Q (a, w)"
  unfolding returns_def by (auto dest: timedD)

lemma returns_now: "clock_runs E c \<Longrightarrow> Q (c w) (a, w) \<Longrightarrow> returns (ext (dl_now E)) Q (a, w)"
  by (simp add: returns_def clock_runs_def ext_def)

lemma returns_sleep:
  assumes "clock_runs E c" "\<And>b v. c w + 1 \<le> c v \<Longrightarrow> ap_expiresAt b = ap_expiresAt a \<Longrightarrow> Q () (b, v)"
  shows "returns (awaitD E (dl_sleep E ms)) Q (a, w)"
proof -
  have "c w + 1 \<le> c v \<and> ap_expiresAt b = ap_expiresAt a" if "awaitD E (dl_sleep E ms) (a, w) = (r, b, v)" for r b v
  proof -
    have "c w + 1 \<le> c (snd (dl_sleep E ms w))" using assms(1) by (simp add: clock_runs_def)
    moreover have "c (snd (dl_sleep E ms w)) \<le> c v" "ap_expiresAt b = ap_expiresAt a"
      using that assms(1) by (auto simp: awaitD_def clock_runs_def link_cancel_def terminate_def ap_note_def
        split: prod.splits if_splits) (metis snd_conv)+
    ultimately show ?thesis by simp
  qed
  then show ?thesis using assms(2) by (auto simp: returns_def)
qed

lemmas returns_rules = returns_bind returns_throw returns_ret returns_gets returns_if returns_pair returns_option

lemma request_poll_ends:
  assumes "clock_runs E c" "ap_expiresAt a \<le> c w + of_nat m"
  shows "returns (request_poll (Suc m) E interval) (\<lambda>r _. r \<noteq> None) (a, w)"
  using assms(2)
proof (induction m arbitrary: a w interval)
  case 0
  then show ?case unfolding request_poll.simps
    by (intro returns_rules returns_now [OF assms(1)]) (auto simp: returns_def bindE_def modifyE_def)
next
  case (Suc m)
  have opened: "timed c (catchE (bindE (openRequest E now k f) (\<lambda>r. retE (Some r)))
      (\<lambda>err. if err_code err = code then bindE (modifyE (terminate Link_failed)) (\<lambda>_. throwE err) else retE None))" for now k f code
    by (intro timed_rules timed_openRequest [OF assms(1)])
  have "ap_expiresAt a \<le> c w + 1 + of_nat m" using Suc.prems by simp
  then show ?case
    unfolding request_poll.simps(2) [of "Suc m"]
    by (intro returns_rules returns_now [OF assms(1)] returns_timed [OF timed_basic(4) [where c = c]]
        returns_timed [OF timed_rendezvousKeys [where c = c]] returns_timed [OF timed_poll_slot [OF assms(1)]]
        returns_sleep [OF assms(1)] Suc.IH returns_timed [OF opened])
      (linarith | simp)+
qed

lemma returns_failWith: "returns (failWith e) Q s"
  unfolding failWith_def by (rule returns_bind, rule returns_any, rule returns_throw)

lemma confirm_poll_ends:
  assumes "clock_runs E c" "ap_expiresAt a \<le> c w + of_nat m"
  shows "returns (confirm_poll (Suc m) E response d result interval) (\<lambda>r _. r \<noteq> None) (a, w)"
  using assms(2)
proof (induction m arbitrary: a w interval)
  case 0
  then show ?case unfolding confirm_poll.simps
    by (intro returns_rules returns_now [OF assms(1)] returns_failWith) auto
next
  case (Suc m)
  have settled: "returns (bindE k (\<lambda>confirmed. if confirmed then bindE (h confirmed) (\<lambda>_. bindE g (\<lambda>_. retE (Some result)))
      else failWith e)) (\<lambda>r _. r \<noteq> None) s" for k h g e s
    by (rule returns_bind, rule returns_any, rule returns_if, rule returns_bind, rule returns_any, rule returns_bind,
        rule returns_any, rule returns_ret, simp, rule returns_failWith)
  have "ap_expiresAt a \<le> c w + 1 + of_nat m" using Suc.prems by simp
  then show ?case
    unfolding confirm_poll.simps(2) [of "Suc m"]
    by (intro returns_gets returns_throw returns_if returns_pair returns_now [OF assms(1)] returns_failWith settled returns_bind
        returns_timed [OF timed_rendezvousKeys [where c = c]] returns_timed [OF timed_poll_slot [OF assms(1)]]
        returns_sleep [OF assms(1)] Suc.IH)
      (linarith | simp)+
qed

lemma demo_clock: "clock_runs (demo_link b) fst"
  by (auto simp: clock_runs_def demo_link_def forward_def split: prod.splits list.splits)

text \<open>Polling ends at the deadline: when the clock advances by at least a millisecond with
  every sleep and is never turned back, then as many polls as there are milliseconds to the
  deadline are enough for \<open>waitForRequest\<close>, and for the wait of \<open>approve\<close> for the confirmation,
  to return a result or to throw.\<close>

theorem link_polling_ends:
  assumes "clock_runs E c" "ap_expiresAt a \<le> c w + of_nat m"
  shows "fst (waitForRequest (Suc m) E (a, w)) \<noteq> Inr None \<and>
    fst (confirm_poll (Suc m) E response d result interval (a, w)) \<noteq> Inr None"
proof -
  have "returns (waitForRequest (Suc m) E) (\<lambda>r _. r \<noteq> None) (a, w)"
    unfolding waitForRequest_def by (intro returns_rules request_poll_ends [OF assms])
  from returns_not_None [OF this] returns_not_None [OF confirm_poll_ends [OF assms]] show ?thesis ..
qed

theorem link_polling_ends_witness:
  "fst (waitForRequest (Suc 3) (demo_link False) (demo_approver\<lparr>ap_expiresAt := 3\<rparr>, (0, []))) \<noteq> Inr None"
  using link_polling_ends [OF demo_clock, of "demo_approver\<lparr>ap_expiresAt := 3\<rparr>" "(0, [])" 3] by simp

section \<open>The requester\<close>

text \<open>The certificate chain anchors at the account and grants the device key every capability.\<close>

definition authority :: "'w requester_env \<Rightarrow> string \<Rightarrow> jsval \<Rightarrow> jsval \<Rightarrow> bool" where
  "authority R account deviceKey chain \<longleftrightarrow> (\<exists>now w authz w' granted.
     re_verifyAuthority R account ''peerLink.create'' deviceKey chain now w = (Inr authz, w') \<and>
     getp authz ''ok'' = JBool True \<and> getp authz ''grantedCapabilities'' = JArr granted \<and>
     JStr ''peerLink.create'' \<in> set granted \<and> JStr (dl_CAP_DEVICE_SET_PUBLISH (re_link R)) \<in> set granted)"

definition no_confirm :: "link_event list \<Rightarrow> bool" where
  "no_confirm l \<longleftrightarrow> (\<forall>s. ConfirmPut s \<notin> set l)"

text \<open>The trace up to a confirmation: the check, the answer of the application that it has stored the
  delegation, the confirmation.\<close>

definition confirmed :: "'w requester_env \<Rightarrow> string \<Rightarrow> link_event list \<Rightarrow> bool" where
  "confirmed R account l \<longleftrightarrow> (\<exists>l0 bundle keys deviceId inboxId fp stored u u' s. no_confirm l0 \<and>
     l = l0 @ [Authorized account (getp bundle ''certChain''), StatusTold ''persisting'',
               DelegationPersisted (JObj (link_delegation bundle keys deviceId inboxId fp)) (Inr stored), StatusTold ''confirming'', ConfirmPut s] \<and>
     re_persistDelegation R (JObj (link_delegation bundle keys deviceId inboxId fp)) u = (Inr stored, u') \<and>
     authority R account (getp keys ''publicKeyB64'') (getp bundle ''certChain''))"

lemma no_confirm_simps [simp]: "no_confirm []" "no_confirm (l @ l') = (no_confirm l \<and> no_confirm l')"
  "no_confirm (e # l) = ((\<forall>s. e \<noteq> ConfirmPut s) \<and> no_confirm l)"
  by (auto simp: no_confirm_def)

lemma wp_rq_note [wp_rules]: "Q () (l @ [e]) \<Longrightarrow> wpE (rq_note e) Q R l"
  unfolding rq_note_def by (rule wpE_modify)

lemma wp_emitStatus [wp_rules]:
  "Q () (l @ [StatusTold t]) \<Longrightarrow> (\<And>e. R e (l @ [StatusTold t])) \<Longrightarrow> wpE (emitStatus V t) Q R l"
  unfolding emitStatus_def by (intro wp_rules) auto

lemma wp_rq_ask:
  assumes "\<And>x w w'. m w = (Inr x, w') \<Longrightarrow> Q x (l @ [ev (Inr x)])" "\<And>e w w'. m w = (Inl e, w') \<Longrightarrow> R e (l @ [ev (Inl e)])"
  shows "wpE (rq_ask ev m) Q R l"
  using assms by (auto simp: wpE_def rq_ask_def split: prod.split sum.split)

lemma granted_all:
  assumes "find (\<lambda>c. JStr c \<notin> set (case v of JArr gs \<Rightarrow> gs | _ \<Rightarrow> [])) (DEVICE_LINK_LEAF_CAPABILITIES E) = None"
  shows "\<exists>granted. v = JArr granted \<and> JStr ''peerLink.create'' \<in> set granted \<and>
    JStr (dl_CAP_DEVICE_SET_PUBLISH E) \<in> set granted"
  using assms by (cases v) (auto simp: find_None_iff DEVICE_LINK_LEAF_CAPABILITIES_def split: if_splits)

lemma authorityI:
  "re_verifyAuthority R account ''peerLink.create'' deviceKey chain now w = (Inr authz, w') \<Longrightarrow>
   \<not> getp authz ''ok'' \<noteq> JBool True \<Longrightarrow>
   find (\<lambda>c. JStr c \<notin> set (case getp authz ''grantedCapabilities'' of JArr gs \<Rightarrow> gs | _ \<Rightarrow> []))
     (DEVICE_LINK_LEAF_CAPABILITIES (re_link R)) = None \<Longrightarrow> authority R account deviceKey chain"
  using granted_all unfolding authority_def by blast

lemma wp_checkAuthority:
  "wpE (checkAuthority R account deviceKey chain)
     (\<lambda>_ l'. l' = l @ [Authorized account chain] \<and> authority R account deviceKey chain) (\<lambda>_ l'. l' = l) l"
proof -
  have hd: "hd (DEVICE_LINK_LEAF_CAPABILITIES (re_link R)) = ''peerLink.create''"
    by (simp add: DEVICE_LINK_LEAF_CAPABILITIES_def)
  show ?thesis
    unfolding checkAuthority_def Let_def hd
    by (intro wp_core wpE_ext wp_rq_note) (blast intro: authorityI)+
qed

lemma wp_putRequest:
  assumes "no_confirm l"
  shows "wpE (putRequest R psk account keys deviceKeys started) (\<lambda>_. no_confirm) (\<lambda>_. no_confirm) l"
  unfolding putRequest_def Let_def by (intro wp_rules) (auto simp: assms)

lemma wp_response_poll: "wpE (response_poll n R k t i) (\<lambda>_ l'. l' = l) (\<lambda>_ l'. l' = l) l"
proof (induction n arbitrary: i)
  case 0
  show ?case unfolding response_poll.simps by (intro wp_rules refl)
next
  case (Suc n)
  show ?case unfolding response_poll.simps by (intro wp_rules refl Suc.IH)
qed

lemma wp_finishLink:
  assumes "no_confirm l"
  shows "wpE (finishLink R account keys deviceKeys t inboxId request opened)
    (\<lambda>_ l'. no_confirm l' \<or> confirmed R account l') (\<lambda>_ l'. no_confirm l' \<or> confirmed R account l') l"
proof -
  let ?result = "JObj (link_delegation (os_bundle opened) deviceKeys (br_newDeviceId request) inboxId (br_fingerprint request))"
  have "confirmed R account (l @ [Authorized account (getp (os_bundle opened) ''certChain''), StatusTold ''persisting'',
      DelegationPersisted ?result (Inr stored), StatusTold ''confirming'', ConfirmPut s])"
    if "authority R account (getp deviceKeys ''publicKeyB64'') (getp (os_bundle opened) ''certChain'')"
      "re_persistDelegation R ?result u = (Inr stored, u')" for s stored u u'
    unfolding confirmed_def using assms that by blast
  then show ?thesis
    unfolding finishLink_def Let_def
    by (intro wp_rules wpE_conseq [OF wp_checkAuthority] wp_rq_ask) (auto simp: assms)
qed

text \<open>C25. The new device confirms only what it has checked and stored: when a run of the requester
  has published a confirmation, the last things it did before were to verify that the certificate
  chain of the response anchors at the account of the scanned code and grants its own device key
  every launch capability, and then to hand that very chain together with the device key to
  \<open>persistDelegation\<close>, which returned and did not throw.\<close>

theorem confirm_only_checked_and_stored:
  assumes "runDeviceLinkRequester n R crypto records clock persist code ([], w) = (r, l, w')"
    and "ConfirmPut s \<in> set l"
  shows "\<exists>psk account l0 bundle keys deviceId inboxId fp stored u u'. re_parseCode R code = Inr (psk, account) \<and>
    l = l0 @ [Authorized account (getp bundle ''certChain''), StatusTold ''persisting'',
              DelegationPersisted (JObj (link_delegation bundle keys deviceId inboxId fp)) (Inr stored), StatusTold ''confirming'', ConfirmPut s] \<and>
    re_persistDelegation R (JObj (link_delegation bundle keys deviceId inboxId fp)) u = (Inr stored, u') \<and>
    authority R account (getp keys ''publicKeyB64'') (getp bundle ''certChain'')"
proof -
  let ?Q = "\<lambda>l'. no_confirm l' \<or> (\<exists>psk account. re_parseCode R code = Inr (psk, account) \<and> confirmed R account l')"
  have "wpE (runDeviceLinkRequester n R crypto records clock persist code) (\<lambda>_. ?Q) (\<lambda>_. ?Q) []"
    unfolding runDeviceLinkRequester_def
    by (intro wp_rules wpE_conseq [OF wp_putRequest] wpE_conseq [OF wp_response_poll] wpE_conseq [OF wp_finishLink]) auto
  then have "?Q l" using wpE_D_snd [where w = w] assms(1) by fastforce
  then obtain psk account where code: "re_parseCode R code = Inr (psk, account)" and "confirmed R account l"
    using assms(2) by (auto simp: no_confirm_def)
  then obtain l0 "bundle" keys deviceId inboxId fp stored u u' s' where l: "no_confirm l0"
    "l = l0 @ [Authorized account (getp bundle ''certChain''), StatusTold ''persisting'',
       DelegationPersisted (JObj (link_delegation bundle keys deviceId inboxId fp)) (Inr stored), StatusTold ''confirming'', ConfirmPut s']"
    and facts: "re_persistDelegation R (JObj (link_delegation bundle keys deviceId inboxId fp)) u = (Inr stored, u')"
      "authority R account (getp keys ''publicKeyB64'') (getp bundle ''certChain'')"
    unfolding confirmed_def by blast
  have "s' = s" using assms(2) l by (auto simp: no_confirm_def)
  with code l(2) facts show ?thesis by blast
qed

definition demo_requester :: "(rat \<times> bool list) requester_env" where
  "demo_requester = \<lparr>re_link = demo_link True, re_parseCode = \<lambda>c. Inr ([7], ''B''), re_deviceKeyPair = None,
     re_generateDeviceKeyPair = retE (JObj [(''publicKeyB64'', JStr ''C'')]), re_randomBytes = retE [1, 2],
     re_buildBinding = \<lambda>k i t l. retE JNull,
     re_buildRequest = \<lambda>t p a k d b l. retE \<lparr>br_payloadB64 = ''p'', br_thRequestB64 = ''th'', br_ephemeralKeyPair = JNull,
        br_newDeviceId = ''dev'', br_fingerprint = ''fp''\<rparr>,
     re_openResponse = \<lambda>p a k t e v. retE \<lparr>os_bundle = JObj [(''certChain'', JArr [JStr ''cert''])], os_thResponseB64 = ''t'', os_masterSecret = []\<rparr>,
     re_verifyAuthority = \<lambda>a c k ch t. retE (JObj [(''ok'', JBool True),
        (''grantedCapabilities'', JArr [JStr ''peerLink.create'', JStr ''deviceSet.publish''])]),
     re_persistDelegation = \<lambda>v. retE JNull, re_buildConfirm = \<lambda>m t. retE ''c'', re_onStatus = \<lambda>t. retE (), re_pollInterval = 1, re_pollMax = 5,
     re_pollBackoff = 2, re_deadlineMs = 100\<rparr>"

theorem confirm_only_checked_and_stored_witness:
  "\<exists>r l w'. runDeviceLinkRequester 1 demo_requester True True True True (JStr ''code'') ([], (0, [])) = (r, l, w') \<and>
     (\<exists>account bundle keys deviceId inboxId fp stored.
        DelegationPersisted (JObj (link_delegation bundle keys deviceId inboxId fp)) (Inr stored) \<in> set l \<and>
        authority demo_requester account (getp keys ''publicKeyB64'') (getp bundle ''certChain''))"
proof -
  obtain r l w' where run: "runDeviceLinkRequester 1 demo_requester True True True True (JStr ''code'') ([], (0, [])) = (r, l, w')"
    by (metis prod_cases3)
  have "ConfirmPut (JStr ''sealed'') \<in>
      set (fst (snd (runDeviceLinkRequester 1 demo_requester True True True True (JStr ''code'') ([], (0, [])))))"
    by code_simp
  then have "ConfirmPut (JStr ''sealed'') \<in> set l" using run by simp
  from confirm_only_checked_and_stored [OF run this] obtain account l0 "bundle" keys deviceId inboxId fp stored where
    "l = l0 @ [Authorized account (getp bundle ''certChain''), StatusTold ''persisting'',
       DelegationPersisted (JObj (link_delegation bundle keys deviceId inboxId fp)) (Inr stored), StatusTold ''confirming'', ConfirmPut (JStr ''sealed'')]"
    and "authority demo_requester account (getp keys ''publicKeyB64'') (getp bundle ''certChain'')" by blast
  then have "DelegationPersisted (JObj (link_delegation bundle keys deviceId inboxId fp)) (Inr stored) \<in> set l" by simp
  with run \<open>authority demo_requester account (getp keys ''publicKeyB64'') (getp bundle ''certChain'')\<close> show ?thesis by blast
qed

end
