(* ===== verification/Device_Set.thy ===== *)
theory Device_Set
  imports Js_Bytes
begin

text \<open>
  Device sets: an account tells a peer which devices it has by a record that is sealed to the
  peer and signed. \<open>peer-link/peerScopedSeal.js\<close> is the seal, \<open>peer-link/deviceSetPublish.js\<close>
  builds such a record and opens and verifies one.

  The crypto provider, the record classes of \<open>@rezprotocol/core\<close> and the decoding of JSON text
  are the fields of \<open>seal_env\<close>; the provider is taken to have the functions it is asked for.
\<close>

section \<open>Data\<close>

record device_entry =
  de_deviceId :: string
  de_devicePublicKeyB64 :: string
  de_inboxId :: string

record device_set =
  dset_v :: jsval
  dset_purpose :: jsval
  dset_account :: string
  dset_revision :: int
  dset_devices :: "device_entry list"
  dset_issuedAtMs :: rat
  dset_expiresAtMs :: rat
  dset_sigB64 :: string

record prekey_bundle =
  pb_account :: string
  pb_deviceId :: string
  pb_devicePublicKeyB64 :: string
  pb_inboxId :: string
  pb_issuedAtMs :: rat
  pb_expiresAtMs :: rat
  pb_sigB64 :: string
  pb_bundleJson :: jsval

record durable_check =
  dc_ok :: bool
  dc_reason :: string
  dc_signerPublicKeyB64 :: string

record 'w seal_env =
  sl_dhDerive :: "octets \<Rightarrow> octets \<Rightarrow> ('w, octets) io"
  sl_hkdf :: "octets \<Rightarrow> octets \<Rightarrow> nat \<Rightarrow> ('w, octets) io"
  sl_randomBytes :: "nat \<Rightarrow> ('w, octets) io"
  sl_aeadEncrypt :: "octets \<Rightarrow> octets \<Rightarrow> octets \<Rightarrow> octets \<Rightarrow> ('w, octets) io"
  sl_aeadDecrypt :: "octets \<Rightarrow> octets \<Rightarrow> octets \<Rightarrow> octets \<Rightarrow> ('w, octets) io"
  sl_verify :: "octets \<Rightarrow> octets \<Rightarrow> octets \<Rightarrow> ('w, bool) io"
  sl_base64ToBytes :: "jsval \<Rightarrow> octets res"
  sl_bytesToBase64 :: "octets \<Rightarrow> string"
  sl_bytesToHex :: "octets \<Rightarrow> string"
  sl_parseText :: "octets \<Rightarrow> jsval res"
  sl_verifyDurable :: "jsval \<Rightarrow> rat \<Rightarrow> jsval \<Rightarrow> ('w, durable_check) io"
  sl_buildDurable :: "jsval \<Rightarrow> jsval res"
  sl_durableBytes :: "jsval \<Rightarrow> octets"
  sl_setFromJSON :: "jsval \<Rightarrow> device_set res"
  sl_setToJSON :: "device_set \<Rightarrow> jsval"
  sl_setBytes :: "jsval \<Rightarrow> octets"
  sl_bundleFromJSON :: "jsval \<Rightarrow> prekey_bundle res"
  sl_bundleToJSON :: "prekey_bundle \<Rightarrow> jsval"
  sl_bundleBytes :: "jsval \<Rightarrow> octets"
  sl_KIND :: string
  sl_CAP :: string

section \<open>The seal\<close>

definition AEAD_INFO :: octets where
  "AEAD_INFO = utf8_encode ''rez:peer-scoped-seal:aead:v1''"

definition SLOT_INFO :: octets where
  "SLOT_INFO = utf8_encode ''rez:peer-scoped-seal:slot:v1''"

definition SLOT_BYTES :: nat where
  "SLOT_BYTES = 16"

definition NONCE_BYTES :: nat where
  "NONCE_BYTES = 12"

definition requireB64 :: "string \<Rightarrow> string \<Rightarrow> unit res" where
  "requireB64 value label = (if value = [] then Inl (plain_err (''peer-scoped seal requires '' @ label)) else Inr ())"

definition requireAeadKey :: "octets \<Rightarrow> unit res" where
  "requireAeadKey key = (if length key \<noteq> 32 then Inl (plain_err ''peer-scoped seal requires a 32-byte aeadKey'') else Inr ())"

definition derivePeerScopedKey :: "'w seal_env \<Rightarrow> string \<Rightarrow> string \<Rightarrow> ('w, octets \<times> string) io" where
  "derivePeerScopedKey E myIdentityDhPrivateKeyB64 peerIdentityDhPublicKeyB64 =
     bindE (liftE (requireB64 myIdentityDhPrivateKeyB64 ''myIdentityDhPrivateKeyB64'')) (\<lambda>_.
     bindE (liftE (requireB64 peerIdentityDhPublicKeyB64 ''peerIdentityDhPublicKeyB64'')) (\<lambda>_.
     bindE (liftE (sl_base64ToBytes E (JStr myIdentityDhPrivateKeyB64))) (\<lambda>priv.
     bindE (liftE (sl_base64ToBytes E (JStr peerIdentityDhPublicKeyB64))) (\<lambda>pub.
     bindE (sl_dhDerive E priv pub) (\<lambda>shared.
     bindE (requireE (shared \<noteq> []) (plain_err ''derivePeerScopedKey: dhDerive returned no shared secret'')) (\<lambda>_.
     bindE (sl_hkdf E shared AEAD_INFO 32) (\<lambda>aeadKey.
     bindE (sl_hkdf E shared SLOT_INFO SLOT_BYTES) (\<lambda>slotBytes.
     retE (aeadKey, sl_bytesToHex E slotBytes)))))))))"

text \<open>The associated data is a string here, as in both callers.\<close>

definition sealToPeer :: "'w seal_env \<Rightarrow> octets \<Rightarrow> octets \<Rightarrow> string \<Rightarrow> ('w, string \<times> string) io" where
  "sealToPeer E aeadKey plaintextBytes aad =
     bindE (liftE (requireAeadKey aeadKey)) (\<lambda>_.
     bindE (requireE (plaintextBytes \<noteq> []) (plain_err ''sealToPeer requires non-empty plaintextBytes'')) (\<lambda>_.
     bindE (sl_randomBytes E NONCE_BYTES) (\<lambda>nonce.
     bindE (requireE (length nonce = NONCE_BYTES) (plain_err ''sealToPeer: randomBytes returned an invalid nonce'')) (\<lambda>_.
     bindE (sl_aeadEncrypt E aeadKey nonce plaintextBytes (utf8_encode aad)) (\<lambda>ciphertext.
     retE (sl_bytesToBase64 E nonce, sl_bytesToBase64 E ciphertext))))))"

definition openFromPeer :: "'w seal_env \<Rightarrow> octets \<Rightarrow> string \<Rightarrow> string \<Rightarrow> string \<Rightarrow> ('w, octets) io" where
  "openFromPeer E aeadKey nonceB64 ciphertextB64 aad =
     bindE (liftE (requireAeadKey aeadKey)) (\<lambda>_.
     bindE (liftE (requireB64 nonceB64 ''nonceB64'')) (\<lambda>_.
     bindE (liftE (requireB64 ciphertextB64 ''ciphertextB64'')) (\<lambda>_.
     bindE (liftE (sl_base64ToBytes E (JStr nonceB64))) (\<lambda>nonce.
     bindE (liftE (sl_base64ToBytes E (JStr ciphertextB64))) (\<lambda>ciphertext.
     sl_aeadDecrypt E aeadKey nonce ciphertext (utf8_encode aad))))))"

section \<open>Building a record\<close>

definition SEAL_AAD :: string where
  "SEAL_AAD = ''rez:device-set:v1''"

definition DEVICE_SET_MAX_FUTURE_SKEW_MS :: jnum where
  "DEVICE_SET_MAX_FUTURE_SKEW_MS = Fin (5 * 60000)"

definition ds_requireNonEmptyString :: "jsval \<Rightarrow> string \<Rightarrow> string res" where
  "ds_requireNonEmptyString value label =
     (case value of JStr s \<Rightarrow> if s = [] then Inl (plain_err (''device-set publish requires '' @ label)) else Inr s
      | _ \<Rightarrow> Inl (plain_err (''device-set publish requires '' @ label)))"

text \<open>Who signs: the account, or a device with its chain of certificates; a signer is a function
  from bytes to a signature, or absent (null).\<close>

record 'w set_signer =
  ss_accountSign :: "(octets \<Rightarrow> ('w, octets) io) option"
  ss_signerSign :: "(octets \<Rightarrow> ('w, octets) io) option"
  ss_signerPublicKeyB64 :: jsval
  ss_certChain :: jsval

definition wantsDelegated :: "'w set_signer \<Rightarrow> bool" where
  "wantsDelegated S \<longleftrightarrow> ss_signerSign S \<noteq> None \<or>
     (case ss_signerPublicKeyB64 S of JStr s \<Rightarrow> s \<noteq> [] | _ \<Rightarrow> False) \<or>
     (case ss_certChain S of JArr cs \<Rightarrow> cs \<noteq> [] | _ \<Rightarrow> False)"

text \<open>The signing function, its key and its chain.\<close>

definition chooseSigner ::
    "string \<Rightarrow> 'w set_signer \<Rightarrow> ((octets \<Rightarrow> ('w, octets) io) \<times> string \<times> jsval) res" where
  "chooseSigner account S =
     (if wantsDelegated S then
        (case ss_signerSign S of
           None \<Rightarrow> Inl (plain_err ''buildSealedDeviceSetRecord delegated mode requires a signerSign(bytes) function'')
         | Some sign \<Rightarrow>
             bind_r (ds_requireNonEmptyString (ss_signerPublicKeyB64 S) ''signerPublicKeyB64'') (\<lambda>key.
             case ss_certChain S of
               JArr (c # cs) \<Rightarrow> Inr (sign, key, JArr (c # cs))
             | _ \<Rightarrow> Inl (plain_err ''buildSealedDeviceSetRecord delegated mode requires a non-empty certChain'')))
      else
        (case ss_accountSign S of
           None \<Rightarrow> Inl (plain_err ''buildSealedDeviceSetRecord requires an accountSign(bytes) function'')
         | Some sign \<Rightarrow> Inr (sign, account, JArr [])))"

definition finiteNumber :: "jsval \<Rightarrow> rat option" where
  "finiteNumber v = (case v of JNum (Fin t) \<Rightarrow> Some t | _ \<Rightarrow> None)"

definition buildSealedDeviceSetRecord ::
    "'w seal_env \<Rightarrow> 'w set_signer \<Rightarrow> jsval \<Rightarrow> string \<Rightarrow> string \<Rightarrow> device_set option \<Rightarrow> prekey_bundle list \<Rightarrow> jsval \<Rightarrow> jsval
      \<Rightarrow> ('w, jsval \<times> string) io" where
  "buildSealedDeviceSetRecord E S accountPublicKeyB64 myPriv peerPub deviceSet bundles nowMs ttlMs =
     bindE (liftE (ds_requireNonEmptyString accountPublicKeyB64 ''accountPublicKeyB64'')) (\<lambda>account.
     bindE (liftE (chooseSigner account S)) (\<lambda>(sign, signerKey, chain).
     case deviceSet of
       None \<Rightarrow> throwE (plain_err ''buildSealedDeviceSetRecord requires a DeviceSetRecordV1'')
     | Some ds \<Rightarrow>
         bindE (requireE (bundles \<noteq> []) (plain_err ''buildSealedDeviceSetRecord requires at least one DevicePrekeyBundleV1'')) (\<lambda>_.
         case (finiteNumber nowMs, finiteNumber ttlMs) of
           (Some now, Some ttl) \<Rightarrow>
             bindE (requireE (ttl > 0) (plain_err ''buildSealedDeviceSetRecord requires numeric nowMs and positive ttlMs'')) (\<lambda>_.
             bindE (derivePeerScopedKey E myPriv peerPub) (\<lambda>(aeadKey, slotRecordId).
             bindE (sealToPeer E aeadKey (utf8_encode (JSON_stringify (JObj [(''deviceSet'', sl_setToJSON E ds),
               (''prekeyBundles'', JArr (map (sl_bundleToJSON E) bundles))]))) SEAL_AAD) (\<lambda>(nonceB64, ciphertextB64).
             (let payloadB64 = sl_bytesToBase64 E (utf8_encode (JSON_stringify
                    (JObj [(''nonceB64'', JStr nonceB64), (''ciphertextB64'', JStr ciphertextB64)]))) in
              bindE (liftE (sl_buildDurable E (JObj [(''recordKind'', JStr (sl_KIND E)), (''recordId'', JStr slotRecordId),
                (''ownerPublicKeyB64'', JStr account), (''signerPublicKeyB64'', JStr signerKey), (''certChain'', chain),
                (''requiredCapability'', JStr (sl_CAP E)), (''payloadB64'', JStr payloadB64),
                (''issuedAtMs'', JNum (Fin now)), (''expiresAtMs'', JNum (Fin (now + ttl)))]))) (\<lambda>unsigned.
              bindE (sign (sl_durableBytes E unsigned)) (\<lambda>sigBytes.
              bindE (requireE (sigBytes \<noteq> []) (plain_err ''buildSealedDeviceSetRecord: the envelope signer returned no signature'')) (\<lambda>_.
              retE (set_prop ''sigB64'' (JStr (sl_bytesToBase64 E sigBytes)) unsigned, slotRecordId))))))))
         | _ \<Rightarrow> throwE (plain_err ''buildSealedDeviceSetRecord requires numeric nowMs and positive ttlMs''))))"

section \<open>Opening a record\<close>

definition parseJsonObject :: "'w seal_env \<Rightarrow> octets \<Rightarrow> string \<Rightarrow> jsval res" where
  "parseJsonObject E bytes label =
     (case sl_parseText E bytes of
        Inl e \<Rightarrow> Inl (plain_err (''device-set '' @ label @ '' is not valid JSON: '' @ (if err_msg e \<noteq> [] then err_msg e else ''unknown'')))
      | Inr v \<Rightarrow> if is_object v then Inr v else Inl (plain_err (''device-set '' @ label @ '' must be a JSON object'')))"

definition decodeB64 :: "'w seal_env \<Rightarrow> jsval \<Rightarrow> octets res" where
  "decodeB64 E b64 = bind_r (ds_requireNonEmptyString b64 ''payloadB64'') (\<lambda>s. sl_base64ToBytes E (JStr s))"

definition tooFarAhead :: "jnum \<Rightarrow> rat \<Rightarrow> rat \<Rightarrow> bool" where
  "tooFarAhead maxFutureSkewMs issuedAtMs now = (case maxFutureSkewMs of Fin s \<Rightarrow> issuedAtMs > now + s | _ \<Rightarrow> False)"

text \<open>\<open>setByDeviceId\<close>: of two entries with the same id the last one counts.\<close>

definition setByDeviceId :: "device_set \<Rightarrow> string \<Rightarrow> device_entry option" where
  "setByDeviceId ds = map_of (rev (map (\<lambda>d. (de_deviceId d, d)) (dset_devices ds)))"

text \<open>The keys of that map, in the order in which they were first set.\<close>

definition deviceIds :: "device_set \<Rightarrow> string list" where
  "deviceIds ds = rev (remdups (rev (map de_deviceId (dset_devices ds))))"

definition osd_err :: "string \<Rightarrow> js_err" where
  "osd_err msg = plain_err (''openSealedDeviceSetRecord: '' @ msg)"

definition checkBundle ::
    "'w seal_env \<Rightarrow> device_set \<Rightarrow> string \<Rightarrow> rat \<Rightarrow> jnum \<Rightarrow> string list \<Rightarrow> jsval \<Rightarrow> ('w, prekey_bundle) io" where
  "checkBundle E ds account now skew seen rawBundle =
     bindE (liftE (sl_bundleFromJSON E rawBundle)) (\<lambda>b.
     bindE (requireE (pb_deviceId b \<notin> set seen) (osd_err (''duplicate prekey bundle for device ('' @ pb_deviceId b @ '')''))) (\<lambda>_.
     case setByDeviceId ds (pb_deviceId b) of
       None \<Rightarrow> throwE (osd_err (''prekey bundle for a device not in the set ('' @ pb_deviceId b @ '')''))
     | Some entry \<Rightarrow>
         bindE (requireE (pb_devicePublicKeyB64 b = de_devicePublicKeyB64 entry) (osd_err ''prekey bundle device key disagrees with the set'')) (\<lambda>_.
         bindE (requireE (pb_inboxId b = de_inboxId entry) (osd_err ''prekey bundle inbox disagrees with the set'')) (\<lambda>_.
         bindE (requireE (pb_account b = account) (osd_err ''prekey bundle account does not match the peer'')) (\<lambda>_.
         bindE (requireE (\<not> pb_expiresAtMs b \<le> now)
           (osd_err (''prekey bundle is stale (expired) for device ('' @ pb_deviceId b @ '')''))) (\<lambda>_.
         bindE (requireE (\<not> tooFarAhead skew (pb_issuedAtMs b) now)
           (osd_err (''prekey bundle is issued too far in the future for device ('' @ pb_deviceId b @ '')''))) (\<lambda>_.
         bindE (liftE (sl_base64ToBytes E (JStr (pb_devicePublicKeyB64 b)))) (\<lambda>key.
         bindE (liftE (sl_base64ToBytes E (JStr (pb_sigB64 b)))) (\<lambda>sig.
         bindE (sl_verify E key (sl_bundleBytes E (sl_bundleToJSON E b)) sig) (\<lambda>ok.
         bindE (requireE ok (osd_err (''prekey bundle signature failed ('' @ pb_deviceId b @ '')''))) (\<lambda>_.
         retE b)))))))))))"

fun bundle_loop ::
    "'w seal_env \<Rightarrow> device_set \<Rightarrow> string \<Rightarrow> rat \<Rightarrow> jnum \<Rightarrow> string list \<Rightarrow> jsval list \<Rightarrow> ('w, prekey_bundle list) io" where
  "bundle_loop E ds account now skew seen [] = retE []"
| "bundle_loop E ds account now skew seen (raw # raws) =
     bindE (checkBundle E ds account now skew seen raw) (\<lambda>b.
     bindE (bundle_loop E ds account now skew (pb_deviceId b # seen) raws) (\<lambda>bs. retE (b # bs)))"

text \<open>The envelope: owner, signature and authority, slot; the result is the key of the signer and
  the decrypted content.\<close>

definition openEnvelope ::
    "'w seal_env \<Rightarrow> jsval \<Rightarrow> string \<Rightarrow> string \<Rightarrow> string \<Rightarrow> rat \<Rightarrow> jsval \<Rightarrow> ('w, string \<times> jsval) io" where
  "openEnvelope E rcd myPriv peerPub account now revocationState =
     bindE (requireE (js_String (getp rcd ''recordKind'') = sl_KIND E) (osd_err ''record is not a device-set record'')) (\<lambda>_.
     bindE (requireE (js_eq (getp rcd ''v'') (JInt 2)) (osd_err ''record is not a DurableRecordV2'')) (\<lambda>_.
     bindE (requireE (js_String (getp rcd ''ownerPublicKeyB64'') = account) (osd_err ''owner is not the peer account identity'')) (\<lambda>_.
     bindE (sl_verifyDurable E rcd now revocationState) (\<lambda>outer.
     bindE (requireE (dc_ok outer) (osd_err (''durable record verification failed ('' @ dc_reason outer @ '')''))) (\<lambda>_.
     bindE (derivePeerScopedKey E myPriv peerPub) (\<lambda>(aeadKey, slotRecordId).
     bindE (requireE (js_String (getp rcd ''recordId'') = slotRecordId) (osd_err ''recordId does not match the peer-derived slot'')) (\<lambda>_.
     bindE (liftE (decodeB64 E (getp rcd ''payloadB64''))) (\<lambda>payload.
     bindE (liftE (parseJsonObject E payload ''device-set payload'')) (\<lambda>envelope.
     bindE (liftE (ds_requireNonEmptyString (getp envelope ''nonceB64'') ''payload.nonceB64'')) (\<lambda>nonceB64.
     bindE (liftE (ds_requireNonEmptyString (getp envelope ''ciphertextB64'') ''payload.ciphertextB64'')) (\<lambda>ciphertextB64.
     bindE (openFromPeer E aeadKey nonceB64 ciphertextB64 SEAL_AAD) (\<lambda>plaintext.
     bindE (liftE (parseJsonObject E plaintext ''device-set plaintext'')) (\<lambda>inner.
     retE (dc_signerPublicKeyB64 outer, inner))))))))))))))"

text \<open>\<open>Number.isInteger(maxDevices)\<close> and at least 1.\<close>

definition positiveInteger :: "jsval \<Rightarrow> int option" where
  "positiveInteger v = (case v of JNum (Fin q) \<Rightarrow> if of_int \<lfloor>q\<rfloor> = q \<and> \<not> q < 1 then Some \<lfloor>q\<rfloor> else None | _ \<Rightarrow> None)"

text \<open>The set itself: whose it is, who signed it, its size and its age.\<close>

definition checkSet ::
    "'w seal_env \<Rightarrow> device_set \<Rightarrow> string \<Rightarrow> string \<Rightarrow> rat \<Rightarrow> int \<Rightarrow> jnum \<Rightarrow> ('w, unit) io" where
  "checkSet E ds account signerKeyB64 now maxDevices skew =
     bindE (requireE (dset_account ds = account) (osd_err ''device set is not the peer account's'')) (\<lambda>_.
     bindE (liftE (sl_base64ToBytes E (JStr signerKeyB64))) (\<lambda>key.
     bindE (liftE (sl_base64ToBytes E (JStr (dset_sigB64 ds)))) (\<lambda>sig.
     bindE (sl_verify E key (sl_setBytes E (sl_setToJSON E ds)) sig) (\<lambda>ok.
     bindE (requireE ok (osd_err ''device set signature failed'')) (\<lambda>_.
     bindE (requireE (\<not> int (length (dset_devices ds)) > maxDevices)
       (osd_err (''device set exceeds maxDevices ('' @ show_nat (length (dset_devices ds)) @ '' > '' @ js_String (JInt maxDevices) @ '')''))) (\<lambda>_.
     bindE (requireE (\<not> dset_expiresAtMs ds \<le> now) (osd_err ''device set is stale (expired)'')) (\<lambda>_.
     requireE (\<not> tooFarAhead skew (dset_issuedAtMs ds) now) (osd_err ''device set is issued too far in the future''))))))))"

definition missingIds :: "device_set \<Rightarrow> prekey_bundle list \<Rightarrow> string list" where
  "missingIds ds bundles = filter (\<lambda>i. i \<notin> set (map pb_deviceId bundles)) (deviceIds ds)"

definition openSealedDeviceSetRecord ::
    "'w seal_env \<Rightarrow> jsval \<Rightarrow> string \<Rightarrow> string \<Rightarrow> jsval \<Rightarrow> jsval \<Rightarrow> jsval \<Rightarrow> jnum \<Rightarrow> jsval
      \<Rightarrow> ('w, device_set \<times> prekey_bundle list) io" where
  "openSealedDeviceSetRecord E rcd myPriv peerPub peerAccount nowMs maxDevices skew revocationState =
     bindE (requireE (is_object rcd) (plain_err ''openSealedDeviceSetRecord requires a record'')) (\<lambda>_.
     bindE (liftE (ds_requireNonEmptyString peerAccount ''peerAccountPublicKeyB64'')) (\<lambda>account.
     case finiteNumber nowMs of
       None \<Rightarrow> throwE (plain_err ''openSealedDeviceSetRecord requires numeric nowMs'')
     | Some now \<Rightarrow>
         (case positiveInteger maxDevices of
            None \<Rightarrow> throwE (plain_err ''openSealedDeviceSetRecord requires a positive integer maxDevices'')
          | Some maxN \<Rightarrow>
          bindE (openEnvelope E rcd myPriv peerPub account now revocationState) (\<lambda>(signerKey, inner).
          bindE (liftE (sl_setFromJSON E (getp inner ''deviceSet''))) (\<lambda>ds.
          bindE (checkSet E ds account signerKey now maxN skew) (\<lambda>_.
          (let rawBundles = (case getp inner ''prekeyBundles'' of JArr xs \<Rightarrow> xs | _ \<Rightarrow> []) in
           bindE (requireE (\<not> int (length rawBundles) > maxN)
             (osd_err (''prekey bundle array exceeds maxDevices ('' @ show_nat (length rawBundles) @ '' > '' @ js_String (JInt maxN) @ '')''))) (\<lambda>_.
           bindE (bundle_loop E ds account now skew [] rawBundles) (\<lambda>bundles.
           if length (remdups (map pb_deviceId bundles)) \<noteq> length (deviceIds ds) then
             throwE (osd_err (''device set declares devices with no prekey bundle ('' @ join_with '','' (missingIds ds bundles) @ '')''))
           else retE (ds, bundles))))))))))"

end
