(* ===== verification/Account_Identity.thy ===== *)
theory Account_Identity
  imports Device_Set Device_Sessions Js_Hoare
begin

text \<open>
  The account keys of the peer-link service (\<open>peer-link/PeerLinkService.js\<close>) and the account-state
  seal (\<open>peer-link/accountStateSeal.js\<close>): the constructor with its signing modes, the record of
  the account's X3DH signing key and identity-DH key with the adoption of a legacy key, the
  binding of the X3DH key to the account, the verification of a peer's binding, and the sealed and
  signed account-state events.

  The fields the operations read and write are the record \<open>acct_svc\<close>; the storage, the clock and the
  crypto provider are the world. The provider is taken to have the functions it is asked for.
\<close>

section \<open>Data\<close>

record ('w, 'm) acct_env =
  ae_e2ee :: "('w, 'm) e2ee_env"
  ae_seal :: "'w seal_env"
  ae_generateSigningKeyPair :: "('w, key_pair option) io"
  ae_dhGenerateKeyPair :: "('w, key_pair option) io"
  ae_deriveAccountId :: "octets \<Rightarrow> string"
  ae_deviceIdFor :: "string \<Rightarrow> string res"
  ae_verifyAccountAuthority :: "string \<Rightarrow> string \<Rightarrow> string \<Rightarrow> jsval \<Rightarrow> int \<Rightarrow> ('w, durable_check) io"

text \<open>The private and public fields; a key pair of base64 values is (public, private).\<close>

record acct_svc =
  as_ownerAccountId :: jsval
  as_inviteBinding :: jsval
  as_strictTransitions :: bool
  as_deviceId :: jsval
  as_devicePublicKeyB64 :: jsval
  as_deviceSigningKeyPair :: "key_pair option"
  as_accountIdentityDhKeyPair :: "(jsval \<times> jsval) option"
  as_allowLegacy :: bool
  as_adoptedLegacy :: "(jsval \<times> jsval) option"
  as_inviteCertChain :: "jsval list option"
  as_inviteOwnerPublicKeyB64 :: jsval
  as_hasAdminRoot :: bool

type_synonym ('w, 'a) acct_io = "(acct_svc \<times> 'w, 'a) io"

abbreviation b64 :: "('w, 'm) acct_env \<Rightarrow> jsval \<Rightarrow> octets res" where
  "b64 A \<equiv> sl_base64ToBytes (ae_seal A)"

abbreviation toB64 :: "('w, 'm) acct_env \<Rightarrow> octets \<Rightarrow> jsval" where
  "toB64 A b \<equiv> JStr (sl_bytesToBase64 (ae_seal A) b)"

abbreviation sto :: "('w, 'm) acct_env \<Rightarrow> 'w pl_storage" where
  "sto A \<equiv> storage (ae_e2ee A)"

abbreviation ne :: "('w, 'm) acct_env \<Rightarrow> jsval \<Rightarrow> jsval" where
  "ne A \<equiv> nonEmpty (ae_e2ee A)"

section \<open>Construction\<close>

text \<open>The arguments, defaults filled in; of the collaborators only whether they have the functions
  the constructor asks for.\<close>

record svc_args =
  sa_hasPeerLinkStorage :: bool
  sa_hasKeyValueStore :: bool
  sa_hasClock :: bool
  sa_hasStatic :: bool
  sa_hasProvider :: bool
  sa_hasCrypto :: bool
  sa_ownerAccountId :: jsval
  sa_inviteBinding :: jsval
  sa_strictTransitions :: jsval
  sa_deviceKeyPair :: jsval
  sa_deviceId :: jsval
  sa_accountIdentityDhKeyPair :: jsval
  sa_allowLegacy :: jsval
  sa_certChain :: jsval
  sa_hasAdminRoot :: jsval

text \<open>\<open>normalizeBinding\<close> of a binding that is a value, not a function.\<close>

definition normalizeBinding :: "('w, 'm) acct_env \<Rightarrow> jsval \<Rightarrow> jsval" where
  "normalizeBinding A inviteBinding =
     (if \<not> is_plain_object inviteBinding then JNull
      else let mailboxId = ne A (getp inviteBinding ''mailboxId''); capabilityId = ne A (getp inviteBinding ''capabilityId'') in
        if \<not> js_truthy mailboxId \<or> \<not> js_truthy capabilityId then JNull
        else JObj [(''mailboxId'', mailboxId), (''capabilityId'', capabilityId)])"

definition hasKeys :: "jsval \<Rightarrow> bool" where
  "hasKeys kp \<longleftrightarrow> js_truthy (getp kp ''publicKeyB64'') \<and> js_truthy (getp kp ''privateKeyB64'')"

definition deviceSigningKeyPair :: "('w, 'm) acct_env \<Rightarrow> svc_args \<Rightarrow> jsval \<Rightarrow> key_pair option res" where
  "deviceSigningKeyPair A a deviceId =
     (if \<not> hasKeys (sa_deviceKeyPair a) then Inr None
      else if \<not> js_truthy deviceId then Inl (plain_err ''PeerLinkService requires deviceId when deviceKeyPair is supplied'')
      else if \<not> sa_hasCrypto a then Inl (plain_err ''PeerLinkService requires cryptoProvider for per-device sessions'')
      else bind_r (b64 A (getp (sa_deviceKeyPair a) ''publicKeyB64'')) (\<lambda>pub.
           bind_r (b64 A (getp (sa_deviceKeyPair a) ''privateKeyB64'')) (\<lambda>priv.
           Inr (Some \<lparr>kp_public = pub, kp_private = priv\<rparr>))))"

text \<open>The chain of a delegated device and the account key it is anchored at.\<close>

definition inviteChain :: "('w, 'm) acct_env \<Rightarrow> jsval \<Rightarrow> key_pair option \<Rightarrow> (jsval list option \<times> jsval) res" where
  "inviteChain A chain dk =
     (if chain = JNull then Inr (None, JNull)
      else (case chain of
         JArr (c # cs) \<Rightarrow>
           if dk = None then Inl (plain_err ''PeerLinkService accountCapabilityCertChain requires deviceKeyPair + deviceId + cryptoProvider (the chain's grantee signs)'')
           else let chainJson = map cloneJsonValue (c # cs); first = hd chainJson;
                    root = (if is_object first then ne A (getp first ''accountIdentityPublicKeyB64'') else JNull) in
             if \<not> js_truthy root then Inl (plain_err ''PeerLinkService accountCapabilityCertChain root cert must carry accountIdentityPublicKeyB64 (the account anchor)'')
             else Inr (Some chainJson, root)
       | _ \<Rightarrow> Inl (plain_err ''PeerLinkService accountCapabilityCertChain must be a non-empty array of AccountDeviceCapabilityV1'')))"

definition signingMode :: "jsval \<Rightarrow> bool \<Rightarrow> bool res" where
  "signingMode hasAdminRoot chained =
     (if hasAdminRoot \<noteq> JNull \<and> hasAdminRoot \<noteq> JBool True \<and> hasAdminRoot \<noteq> JBool False then
        Inl (plain_err ''PeerLinkService hasAdminRoot must be true, false, or omitted'')
      else if hasAdminRoot = JBool True \<and> chained then
        Inl (plain_err ''PeerLinkService hasAdminRoot=true is incompatible with accountCapabilityCertChain (a primary device signs direct; drop the chain or set hasAdminRoot=false)'')
      else if hasAdminRoot = JBool False \<and> \<not> chained then
        Inl (plain_err ''PeerLinkService hasAdminRoot=false requires accountCapabilityCertChain + deviceKeyPair + deviceId + cryptoProvider (a delegated device signs with its device key under a cert chain)'')
      else Inr (if hasAdminRoot = JNull then \<not> chained else hasAdminRoot = JBool True))"

definition mk_service :: "('w, 'm) acct_env \<Rightarrow> svc_args \<Rightarrow> acct_svc res" where
  "mk_service A a =
     (if \<not> sa_hasPeerLinkStorage a then Inl (plain_err ''PeerLinkService requires storageProvider.getPeerLinkStorage()'')
      else if \<not> sa_hasKeyValueStore a then Inl (plain_err ''PeerLinkService requires storageProvider.getKeyValueStore()'')
      else if \<not> sa_hasClock a then Inl (plain_err ''PeerLinkService requires clock'')
      else if \<not> sa_hasStatic a \<and> \<not> sa_hasProvider a then
        Inl (plain_err ''PeerLinkService requires signer+verifier or getInviteAuthority(accountId)'')
      else
        let deviceId = (if js_truthy (sa_deviceId a) then ne A (sa_deviceId a) else JNull);
            kp = sa_deviceKeyPair a;
            devicePub = (if js_truthy (getp kp ''publicKeyB64'') then ne A (getp kp ''publicKeyB64'') else JNull);
            dh = sa_accountIdentityDhKeyPair a in
        bind_r (deviceSigningKeyPair A a deviceId) (\<lambda>dk.
        if sa_allowLegacy a \<noteq> JBool True \<and> sa_allowLegacy a \<noteq> JBool False then
          Inl (plain_err ''PeerLinkService allowLegacyAccountIdentityDhAdoption must be boolean'')
        else
          bind_r (inviteChain A (sa_certChain a) dk) (\<lambda>(chain, root).
          bind_r (signingMode (sa_hasAdminRoot a) (chain \<noteq> None)) (\<lambda>adminRoot.
          if sa_allowLegacy a = JBool True \<and> \<not> adminRoot then
            Inl (plain_err ''PeerLinkService legacy account identity-DH adoption requires the account admin root'')
          else Inr
            \<lparr>as_ownerAccountId = ne A (sa_ownerAccountId a), as_inviteBinding = normalizeBinding A (sa_inviteBinding a),
             as_strictTransitions = (sa_strictTransitions a = JBool True), as_deviceId = deviceId,
             as_devicePublicKeyB64 = devicePub, as_deviceSigningKeyPair = dk,
             as_accountIdentityDhKeyPair =
               (if hasKeys dh then Some (ne A (getp dh ''publicKeyB64''), ne A (getp dh ''privateKeyB64'')) else None),
             as_allowLegacy = (sa_allowLegacy a = JBool True), as_adoptedLegacy = None,
             as_inviteCertChain = chain, as_inviteOwnerPublicKeyB64 = root, as_hasAdminRoot = adminRoot\<rparr>))))"

text \<open>\<open>hasDeviceSessions\<close>: the session machinery exists exactly with the device signing key.\<close>

definition hasDeviceSessions :: "acct_svc \<Rightarrow> bool" where
  "hasDeviceSessions S \<longleftrightarrow> as_deviceSigningKeyPair S \<noteq> None"

definition requireDeviceSessions :: "acct_svc \<Rightarrow> key_pair res" where
  "requireDeviceSessions S =
     (case as_deviceSigningKeyPair S of
        None \<Rightarrow> Inl (plain_err ''PeerLinkService has no device key (construct with deviceKeyPair for per-device sessions)'')
      | Some kp \<Rightarrow> Inr kp)"

section \<open>The account key record\<close>

definition finiteOrNull :: "jsval \<Rightarrow> jsval" where
  "finiteOrNull v = (if isFinite_num (js_Number v) then JNum (js_Number v) else JNull)"

definition numOrZero :: "jsval \<Rightarrow> jsval" where
  "numOrZero v = (if js_Number v = NaN then JInt 0 else JNum (js_Number v))"

definition normalizeBindingOf :: "('w, 'm) acct_env \<Rightarrow> jsval \<Rightarrow> jsval" where
  "normalizeBindingOf A b =
     JObj ([(''accountId'', ne A (getp b ''accountId'')),
       (''accountIdentityPublicKeyB64'', ne A (getp b ''accountIdentityPublicKeyB64'')),
       (''x3dhIdentityPublicKeyB64'', ne A (getp b ''x3dhIdentityPublicKeyB64'')),
       (''issuedAtMs'', finiteOrNull (getp b ''issuedAtMs'')), (''expiresAtMs'', finiteOrNull (getp b ''expiresAtMs'')),
       (''accountBindingSigB64'', ne A (getp b ''accountBindingSigB64''))]
      @ (if js_truthy (ne A (getp b ''accountBindingSignerPublicKeyB64''))
         then [(''accountBindingSignerPublicKeyB64'', ne A (getp b ''accountBindingSignerPublicKeyB64''))] else []))"

definition normalizeStoredAccountKeyRecord :: "('w, 'm) acct_env \<Rightarrow> jsval \<Rightarrow> jsval" where
  "normalizeStoredAccountKeyRecord A stored =
     (let material = (if is_object stored then (if is_object (getp stored ''x3dhKeyMaterial'') then getp stored ''x3dhKeyMaterial'' else stored)
                      else JNull);
          pub = (if is_object material then ne A (getp material ''publicKeyB64'') else JNull);
          priv = (if is_object material then ne A (getp material ''privateKeyB64'') else JNull);
          dhMaterial = (if is_object (getp stored ''x3dhIdentityDhKeyMaterial'') then getp stored ''x3dhIdentityDhKeyMaterial'' else JNull);
          dhPub = (if is_object dhMaterial then ne A (getp dhMaterial ''publicKeyB64'') else JNull);
          dhPriv = (if is_object dhMaterial then ne A (getp dhMaterial ''privateKeyB64'') else JNull);
          dhSig = (if is_object stored then ne A (getp stored ''identityDhSignatureB64'') else JNull);
          binding = (if is_object (getp stored ''accountBinding'') then normalizeBindingOf A (getp stored ''accountBinding'') else JNull)
      in JObj [(''x3dhKeyMaterial'', JObj [(''publicKeyB64'', pub), (''privateKeyB64'', priv)]),
               (''x3dhIdentityDhKeyMaterial'', JObj [(''publicKeyB64'', dhPub), (''privateKeyB64'', dhPriv)]),
               (''identityDhSignatureB64'', dhSig), (''accountBinding'', binding)])"

text \<open>The parts of a key record.\<close>

abbreviation signPub :: "jsval \<Rightarrow> jsval" where
  "signPub r \<equiv> getp (getp r ''x3dhKeyMaterial'') ''publicKeyB64''"

abbreviation signPriv :: "jsval \<Rightarrow> jsval" where
  "signPriv r \<equiv> getp (getp r ''x3dhKeyMaterial'') ''privateKeyB64''"

abbreviation dhPub :: "jsval \<Rightarrow> jsval" where
  "dhPub r \<equiv> getp (getp r ''x3dhIdentityDhKeyMaterial'') ''publicKeyB64''"

abbreviation dhPriv :: "jsval \<Rightarrow> jsval" where
  "dhPriv r \<equiv> getp (getp r ''x3dhIdentityDhKeyMaterial'') ''privateKeyB64''"

definition hasSigning :: "jsval \<Rightarrow> bool" where
  "hasSigning r \<longleftrightarrow> js_truthy (signPub r) \<and> js_truthy (signPriv r)"

definition storedHasDh :: "jsval \<Rightarrow> bool" where
  "storedHasDh r \<longleftrightarrow> js_truthy (dhPub r) \<and> js_truthy (dhPriv r) \<and> js_truthy (getp r ''identityDhSignatureB64'')"

definition dhMatches :: "jsval \<Rightarrow> (jsval \<times> jsval) option \<Rightarrow> bool" where
  "dhMatches r dh = (case dh of None \<Rightarrow> True | Some (pub, priv) \<Rightarrow> js_eq (dhPub r) pub \<and> js_eq (dhPriv r) priv)"

subsection \<open>Adoption of a legacy key\<close>

text \<open>The loop of \<open>constantTimeBytesEqual\<close> collects the differences.\<close>

fun byte_diff :: "octets \<Rightarrow> octets \<Rightarrow> 8 word \<Rightarrow> 8 word" where
  "byte_diff (a # as) (b # bs) diff = byte_diff as bs (or diff (xor a b))"
| "byte_diff as bs diff = diff"

definition constantTimeBytesEqual :: "octets \<Rightarrow> octets \<Rightarrow> bool" where
  "constantTimeBytesEqual left right = (length left = length right \<and> byte_diff left right 0 = 0)"

definition MIGRATION_INVALID :: string where
  "MIGRATION_INVALID = ''ACCOUNT_IDENTITY_DH_MIGRATION_INVALID''"

definition legacyIdentityDhMigrationError :: "string \<Rightarrow> js_err" where
  "legacyIdentityDhMigrationError reason =
     code_err MIGRATION_INVALID (''PeerLinkService: legacy account identity-DH adoption refused ('' @ reason @ '')'')"

definition x3dhBindingPayload :: "jsval \<Rightarrow> jsval \<Rightarrow> jsval \<Rightarrow> jsval \<Rightarrow> jsval" where
  "x3dhBindingPayload accountId x3dhPub issuedAtMs expiresAtMs =
     JObj [(''kind'', JStr ''x3dh-subkey-binding''), (''accountId'', accountId), (''x3dhIdentityPublicKeyB64'', x3dhPub),
       (''issuedAtMs'', issuedAtMs), (''expiresAtMs'', expiresAtMs)]"

definition signedPayloadBytes :: "('w, 'm) acct_env \<Rightarrow> jsval \<Rightarrow> octets" where
  "signedPayloadBytes A payload = utf8_encode (canonicalJSON (ae_e2ee A) payload)"

text \<open>The stored public and private key correspond when they agree with a fresh probe key; the
  buffers are cleared afterwards, which nothing reads.\<close>

definition probeKeyPair :: "('w, 'm) acct_env \<Rightarrow> jsval \<Rightarrow> jsval \<Rightarrow> ('w, unit) io" where
  "probeKeyPair A pub priv =
     catchE
       (bindE (ae_dhGenerateKeyPair A) (\<lambda>probe.
        case probe of
          None \<Rightarrow> throwE (plain_err ''invalid probe'')
        | Some kp \<Rightarrow>
            bindE (liftE (b64 A priv)) (\<lambda>legacyPriv.
            bindE (sl_dhDerive (ae_seal A) legacyPriv (kp_public kp)) (\<lambda>fromLegacyPrivate.
            bindE (liftE (b64 A pub)) (\<lambda>legacyPub.
            bindE (sl_dhDerive (ae_seal A) (kp_private kp) legacyPub) (\<lambda>fromProbePrivate.
            requireE (constantTimeBytesEqual fromLegacyPrivate fromProbePrivate)
              (legacyIdentityDhMigrationError ''stored X25519 public/private keys do not correspond'')))))))
       (\<lambda>err. throwE (if err_code err = MIGRATION_INVALID then err
                      else legacyIdentityDhMigrationError ''stored X25519 keypair is invalid''))"

definition validateLegacyRecord :: "('w, 'm) acct_env \<Rightarrow> string \<Rightarrow> jsval \<Rightarrow> ('w, unit) io" where
  "validateLegacyRecord A owner rcd =
     (let binding = getp rcd ''accountBinding'' in
      bindE (requireE (is_object binding \<and> js_truthy (signPub rcd) \<and> js_truthy (dhPub rcd) \<and> js_truthy (dhPriv rcd)
          \<and> js_truthy (getp rcd ''identityDhSignatureB64''))
        (legacyIdentityDhMigrationError ''stored identity-DH record is incomplete'')) (\<lambda>_.
      bindE (requireE (js_eq (getp binding ''accountId'') (JStr owner) \<and> js_eq (getp binding ''x3dhIdentityPublicKeyB64'') (signPub rcd))
        (legacyIdentityDhMigrationError ''stored account binding does not match the account'')) (\<lambda>_.
      bindE (liftE (b64 A (getp binding ''accountIdentityPublicKeyB64''))) (\<lambda>account.
      bindE (requireE (ae_deriveAccountId A account = owner)
        (legacyIdentityDhMigrationError ''stored account binding does not match the account'')) (\<lambda>_.
      bindE (requireE (\<not> (js_truthy (getp binding ''accountBindingSignerPublicKeyB64'')
          \<and> \<not> js_eq (getp binding ''accountBindingSignerPublicKeyB64'') (getp binding ''accountIdentityPublicKeyB64'')))
        (legacyIdentityDhMigrationError ''stored account binding was delegated'')) (\<lambda>_.
      bindE (liftE (b64 A (getp binding ''accountBindingSigB64''))) (\<lambda>bindingSig.
      bindE (sl_verify (ae_seal A) account (signedPayloadBytes A (x3dhBindingPayload (JStr owner) (signPub rcd)
          (numOrZero (getp binding ''issuedAtMs'')) (numOrZero (getp binding ''expiresAtMs'')))) bindingSig) (\<lambda>bindingVerified.
      bindE (requireE bindingVerified (legacyIdentityDhMigrationError ''stored account binding signature is invalid'')) (\<lambda>_.
      bindE (liftE (b64 A (signPub rcd))) (\<lambda>signing.
      bindE (liftE (b64 A (dhPub rcd))) (\<lambda>dh.
      bindE (liftE (b64 A (getp rcd ''identityDhSignatureB64''))) (\<lambda>dhSig.
      bindE (sl_verify (ae_seal A) signing dh dhSig) (\<lambda>dhSignatureVerified.
      bindE (requireE dhSignatureVerified (legacyIdentityDhMigrationError ''stored identity-DH signature is invalid'')) (\<lambda>_.
      probeKeyPair A (dhPub rcd) (dhPriv rcd)))))))))))))))"

definition validateLegacyForAdoption :: "('w, 'm) acct_env \<Rightarrow> string \<Rightarrow> jsval \<Rightarrow> ('w, unit) io" where
  "validateLegacyForAdoption A owner rcd =
     catchE (validateLegacyRecord A owner rcd)
       (\<lambda>err. throwE (if err_code err = MIGRATION_INVALID then err
                      else legacyIdentityDhMigrationError ''stored identity-DH record is malformed or unverifiable''))"

text \<open>A stored key that differs from the key the service was given: refused, or validated and
  adopted in place of the given one. (The dash in the message is written in ASCII here.)\<close>

definition adoptLegacy :: "('w, 'm) acct_env \<Rightarrow> string \<Rightarrow> jsval \<Rightarrow> (jsval \<times> jsval) option \<Rightarrow> ('w, unit) acct_io" where
  "adoptLegacy A owner normalized injectedDh =
     (if storedHasDh normalized \<and> injectedDh \<noteq> None \<and> \<not> dhMatches normalized injectedDh then
        bindE (getsE as_allowLegacy) (\<lambda>allow.
        if \<not> allow then
          throwE (code_err ''ACCOUNT_IDENTITY_DH_MISMATCH''
            (''PeerLinkService: persisted account identity-DH key does not match the seed-derived key ''
             @ ''(this account predates seed-derived identity-DH - explicit compatibility-key adoption is required)''))
        else
          bindE (ext (validateLegacyForAdoption A owner normalized)) (\<lambda>_.
          modifyE (\<lambda>S. S\<lparr>as_accountIdentityDhKeyPair := Some (dhPub normalized, dhPriv normalized),
                          as_adoptedLegacy := Some (dhPub normalized, dhPriv normalized)\<rparr>)))
      else retE ())"

subsection \<open>Loading and minting\<close>

text \<open>Keys that are missing are made: the signing pair when there is none, the identity-DH pair from
  the given one or fresh; the public DH key is signed with the signing key.\<close>

definition mintAccountKeys ::
    "('w, 'm) acct_env \<Rightarrow> string \<Rightarrow> jsval \<Rightarrow> jsval \<Rightarrow> (jsval \<times> jsval) option \<Rightarrow> ('w, jsval) io" where
  "mintAccountKeys A owner stored normalized injectedDh =
     bindE (if hasSigning normalized then retE (signPub normalized, signPriv normalized)
            else bindE (ae_generateSigningKeyPair A) (\<lambda>generated.
              case generated of
                None \<Rightarrow> throwE (plain_err ''cryptoProvider.generateSigningKeyPair() returned invalid key pair'')
              | Some kp \<Rightarrow> retE (toB64 A (kp_public kp), toB64 A (kp_private kp)))) (\<lambda>(signingPub, signingPriv).
     bindE (case injectedDh of
              Some (pub, priv) \<Rightarrow> retE (pub, priv)
            | None \<Rightarrow> bindE (ae_dhGenerateKeyPair A) (\<lambda>dhPair.
                case dhPair of
                  None \<Rightarrow> throwE (plain_err ''cryptoProvider.dhGenerateKeyPair() returned invalid key pair'')
                | Some kp \<Rightarrow> retE (toB64 A (kp_public kp), toB64 A (kp_private kp)))) (\<lambda>(dhPublic, dhPrivate).
     bindE (liftE (b64 A signingPriv)) (\<lambda>priv.
     bindE (liftE (b64 A dhPublic)) (\<lambda>msg.
     bindE (signBytes (ae_e2ee A) priv msg) (\<lambda>identityDhSignature.
     (let rcd = JObj [(''x3dhKeyMaterial'', JObj [(''publicKeyB64'', signingPub), (''privateKeyB64'', signingPriv)]),
            (''x3dhIdentityDhKeyMaterial'', JObj [(''publicKeyB64'', dhPublic), (''privateKeyB64'', dhPrivate)]),
            (''identityDhSignatureB64'', toB64 A identityDhSignature),
            (''accountBinding'', if hasSigning normalized \<and> js_truthy stored \<and> js_truthy (getp stored ''accountBinding'')
               then getp stored ''accountBinding'' else JNull)] in
      bindE (keys_putAccountIdentity (sto A) (JStr owner) rcd) (\<lambda>_. retE rcd)))))))"

definition persistMissing :: "jsval \<Rightarrow> bool" where
  "persistMissing stored \<longleftrightarrow> \<not> js_truthy stored \<or> \<not> js_truthy (getp stored ''x3dhKeyMaterial'')
     \<or> \<not> js_truthy (getp stored ''x3dhIdentityDhKeyMaterial'') \<or> \<not> js_truthy (getp stored ''identityDhSignatureB64'')
     \<or> getp stored ''accountBinding'' = JUndef"

definition loadAccountKeyRecord :: "('w, 'm) acct_env \<Rightarrow> jsval \<Rightarrow> ('w, jsval) acct_io" where
  "loadAccountKeyRecord A accountId =
     bindE (liftE (requireId (ae_e2ee A) accountId ''accountId'')) (\<lambda>owner.
     bindE (ext (keys_getAccountIdentity (sto A) (JStr owner))) (\<lambda>stored.
     (let normalized = normalizeStoredAccountKeyRecord A stored in
      bindE (getsE as_accountIdentityDhKeyPair) (\<lambda>injectedDh.
      bindE (adoptLegacy A owner normalized injectedDh) (\<lambda>_.
      bindE (getsE as_accountIdentityDhKeyPair) (\<lambda>effectiveDh.
      if hasSigning normalized \<and> storedHasDh normalized \<and> dhMatches normalized effectiveDh then
        bindE (if persistMissing stored
               then bindE (ext (keys_putAccountIdentity (sto A) (JStr owner) normalized)) (\<lambda>_. retE ())
               else retE ()) (\<lambda>_.
        retE normalized)
      else ext (mintAccountKeys A owner stored normalized injectedDh)))))))"

definition ensureIdentityKeyPair :: "('w, 'm) acct_env \<Rightarrow> jsval \<Rightarrow> ('w, key_pair) acct_io" where
  "ensureIdentityKeyPair A accountId =
     bindE (loadAccountKeyRecord A accountId) (\<lambda>rcd.
     bindE (liftE (b64 A (signPub rcd))) (\<lambda>pub.
     bindE (liftE (b64 A (signPriv rcd))) (\<lambda>priv.
     retE \<lparr>kp_public = pub, kp_private = priv\<rparr>)))"

section \<open>The account binding\<close>

definition primeAccountBindingChallenge :: "('w, 'm) acct_env \<Rightarrow> jsval \<Rightarrow> ('w, jsval) acct_io" where
  "primeAccountBindingChallenge A ownerAccountId =
     bindE (liftE (requireId (ae_e2ee A) ownerAccountId ''ownerAccountId'')) (\<lambda>owner.
     bindE (loadAccountKeyRecord A (JStr owner)) (\<lambda>rcd. retE (signPub rcd)))"

definition upsertAccountBinding :: "('w, 'm) acct_env \<Rightarrow> jsval \<Rightarrow> jsval \<Rightarrow> ('w, jsval) acct_io" where
  "upsertAccountBinding A ownerAccountId accountBinding =
     bindE (liftE (requireId (ae_e2ee A) ownerAccountId ''ownerAccountId'')) (\<lambda>owner.
     bindE (requireE (is_object accountBinding) (plain_err ''accountBinding is required'')) (\<lambda>_.
     bindE (loadAccountKeyRecord A (JStr owner)) (\<lambda>rcd.
     (let rcd' = set_prop ''accountBinding'' (cloneJsonValue accountBinding) rcd in
      bindE (ext (keys_putAccountIdentity (sto A) (JStr owner) rcd')) (\<lambda>_.
      retE (cloneJsonValue (getp rcd' ''accountBinding'')))))))"

definition YEAR_MS :: int where
  "YEAR_MS = 365 * 24 * 60 * 60 * 1000"

definition selfProvisionDelegatedAccountBinding :: "('w, 'm) acct_env \<Rightarrow> jsval \<Rightarrow> jsval \<Rightarrow> ('w, jsval) acct_io" where
  "selfProvisionDelegatedAccountBinding A ownerAccountId ttlMs =
     bindE (getsE (\<lambda>S. S)) (\<lambda>S.
     bindE (requireE (\<not> as_hasAdminRoot S) (plain_err
       ''selfProvisionDelegatedAccountBinding requires a delegated PeerLinkService (hasAdminRoot=false); a primary device provisions its binding with the account key'')) (\<lambda>_.
     bindE (liftE (requireId (ae_e2ee A) ownerAccountId ''ownerAccountId'')) (\<lambda>owner.
     bindE (liftE (b64 A (as_inviteOwnerPublicKeyB64 S))) (\<lambda>anchor.
     bindE (requireE (ae_deriveAccountId A anchor = owner) (plain_err
       ''selfProvisionDelegatedAccountBinding: the account capability chain anchor does not derive the owner accountId'')) (\<lambda>_.
     bindE (primeAccountBindingChallenge A (JStr owner)) (\<lambda>x3dhPub.
     bindE (ext (clock (ae_e2ee A))) (\<lambda>issuedAtMs.
     (let expiresAtMs = issuedAtMs + asPositiveInt ttlMs YEAR_MS;
          payload = x3dhBindingPayload (JStr owner) x3dhPub (JInt issuedAtMs) (JInt expiresAtMs) in
      case as_deviceSigningKeyPair S of
        None \<Rightarrow> throwE (plain_err ''Cannot read properties of null (reading 'privateKey')'')
      | Some kp \<Rightarrow>
          bindE (ext (signBytes (ae_e2ee A) (kp_private kp) (signedPayloadBytes A payload))) (\<lambda>sig.
          upsertAccountBinding A (JStr owner) (JObj [(''accountId'', JStr owner),
            (''accountIdentityPublicKeyB64'', as_inviteOwnerPublicKeyB64 S), (''x3dhIdentityPublicKeyB64'', x3dhPub),
            (''issuedAtMs'', JInt issuedAtMs), (''expiresAtMs'', JInt expiresAtMs), (''accountBindingSigB64'', toB64 A sig),
            (''accountBindingSignerPublicKeyB64'', as_devicePublicKeyB64 S)]))))))))))"

record bound_identity =
  bi_keyPair :: key_pair
  bi_identityDhKeyPair :: key_pair
  bi_identityDhSignature :: octets
  bi_accountBinding :: jsval

abbreviation reauth :: "string \<Rightarrow> js_err" where
  "reauth msg \<equiv> code_err ''REAUTH_REQUIRED'' msg"

text \<open>The checks on the loaded record.\<close>

definition boundFrom :: "('w, 'm) acct_env \<Rightarrow> string \<Rightarrow> jsval \<Rightarrow> ('w, bound_identity) io" where
  "boundFrom A owner rcd =
     (let binding = getp rcd ''accountBinding'' in
      bindE (requireE (is_object binding) (reauth ''peer-link X3DH binding missing'')) (\<lambda>_.
      bindE (requireE (js_eq (getp binding ''accountId'') (JStr owner)) (reauth ''peer-link X3DH binding account mismatch'')) (\<lambda>_.
      bindE (requireE (js_eq (getp binding ''x3dhIdentityPublicKeyB64'') (signPub rcd)) (reauth ''peer-link X3DH binding stale'')) (\<lambda>_.
      bindE (requireE (isFinite_num (js_Number (getp binding ''expiresAtMs''))) (reauth ''peer-link X3DH binding expired'')) (\<lambda>_.
      bindE (clock (ae_e2ee A)) (\<lambda>now.
      bindE (requireE (\<not> num_le (js_Number (getp binding ''expiresAtMs'')) (Fin (of_int now))) (reauth ''peer-link X3DH binding expired'')) (\<lambda>_.
      bindE (liftE (b64 A (signPub rcd))) (\<lambda>pub.
      bindE (liftE (b64 A (signPriv rcd))) (\<lambda>priv.
      bindE (liftE (b64 A (dhPub rcd))) (\<lambda>dhPublic.
      bindE (liftE (b64 A (dhPriv rcd))) (\<lambda>dhPrivate.
      bindE (liftE (b64 A (getp rcd ''identityDhSignatureB64''))) (\<lambda>dhSig.
      retE \<lparr>bi_keyPair = \<lparr>kp_public = pub, kp_private = priv\<rparr>,
            bi_identityDhKeyPair = \<lparr>kp_public = dhPublic, kp_private = dhPrivate\<rparr>,
            bi_identityDhSignature = dhSig, bi_accountBinding = cloneJsonValue binding\<rparr>))))))))))))"

definition requireBoundX3dhIdentity :: "('w, 'm) acct_env \<Rightarrow> jsval \<Rightarrow> ('w, bound_identity) acct_io" where
  "requireBoundX3dhIdentity A accountId =
     bindE (liftE (requireId (ae_e2ee A) accountId ''accountId'')) (\<lambda>owner.
     bindE (loadAccountKeyRecord A (JStr owner)) (\<lambda>rcd.
     bindE (primeAccountBindingChallenge A (JStr owner)) (\<lambda>_.
     ext (boundFrom A owner rcd))))"

section \<open>A peer's binding\<close>

abbreviation inviteInvalid :: "string \<Rightarrow> js_err" where
  "inviteInvalid msg \<equiv> code_err ''INVITE_SIGNATURE_INVALID'' msg"

definition PEERLINK_INVITE_REQUIRED_CAPABILITY :: string where
  "PEERLINK_INVITE_REQUIRED_CAPABILITY = ''peerLink.create''"

text \<open>\<open>base64ToBytes\<close> with every failure turned into the one error.\<close>

definition b64_or_invalid :: "('w, 'm) acct_env \<Rightarrow> jsval \<Rightarrow> octets res" where
  "b64_or_invalid A v = (case b64 A v of Inl e \<Rightarrow> Inl (inviteInvalid ''peer-link invite X3DH binding invalid'') | Inr b \<Rightarrow> Inr b)"

text \<open>The key the binding signature verifies against: the account key, or a delegated signer whose
  chain was accepted.\<close>

definition bindingVerifyKey ::
    "('w, 'm) acct_env \<Rightarrow> jsval \<Rightarrow> octets \<Rightarrow> jsval \<Rightarrow> jsval \<Rightarrow> ('w, octets) io" where
  "bindingVerifyKey A accountKeyB64 accountKey signerB64 certChain =
     (if js_truthy signerB64 \<and> \<not> js_eq signerB64 accountKeyB64 then
        bindE (requireE (case certChain of JArr cs \<Rightarrow> cs \<noteq> [] | _ \<Rightarrow> False)
          (inviteInvalid ''peer-link invite X3DH binding names a delegated signer without a cert chain'')) (\<lambda>_.
        bindE (clock (ae_e2ee A)) (\<lambda>now.
        bindE (ae_verifyAccountAuthority A (js_String accountKeyB64) PEERLINK_INVITE_REQUIRED_CAPABILITY (js_String signerB64) certChain now) (\<lambda>verdict.
        bindE (requireE (dc_ok verdict)
          (inviteInvalid (''peer-link invite X3DH binding delegated signer rejected ('' @ dc_reason verdict @ '')''))) (\<lambda>_.
        liftE (b64_or_invalid A signerB64)))))
      else retE accountKey)"

definition verifyInviteX3dhBinding :: "('w, 'm) acct_env \<Rightarrow> jsval \<Rightarrow> jsval \<Rightarrow> jsval \<Rightarrow> ('w, unit) io" where
  "verifyInviteX3dhBinding A ownerAccountId inviteBinding certChain =
     bindE (liftE (requireId (ae_e2ee A) ownerAccountId ''ownerAccountId'')) (\<lambda>owner.
     (let x3dh = getp inviteBinding ''x3dh'' in
      bindE (requireE (is_object x3dh) (inviteInvalid ''peer-link invite X3DH binding missing'')) (\<lambda>_.
      (let accountKeyB64 = ne A (getp x3dh ''accountIdentityPublicKeyB64''); sigB64 = ne A (getp x3dh ''accountBindingSigB64'');
           expiresAt = js_Number (getp x3dh ''accountBindingExpiresAtMs''); x3dhPub = ne A (getp x3dh ''identitySigningPublicKeyB64'') in
       bindE (requireE (js_truthy accountKeyB64 \<and> js_truthy sigB64 \<and> js_truthy x3dhPub \<and> isFinite_num expiresAt)
         (inviteInvalid ''peer-link invite X3DH binding invalid'')) (\<lambda>_.
       bindE (liftE (b64_or_invalid A accountKeyB64)) (\<lambda>accountKey.
       bindE (liftE (b64_or_invalid A sigB64)) (\<lambda>sig.
       bindE (requireE (ae_deriveAccountId A accountKey = owner) (inviteInvalid ''peer-link invite X3DH binding account mismatch'')) (\<lambda>_.
       bindE (clock (ae_e2ee A)) (\<lambda>now.
       bindE (requireE (\<not> num_le expiresAt (Fin (of_int now))) (inviteInvalid ''peer-link invite X3DH binding expired'')) (\<lambda>_.
       bindE (bindingVerifyKey A accountKeyB64 accountKey (ne A (getp x3dh ''accountBindingSignerPublicKeyB64'')) certChain) (\<lambda>key.
       bindE (sl_verify (ae_seal A) key (signedPayloadBytes A (x3dhBindingPayload (JStr owner) x3dhPub
         (numOrZero (getp x3dh ''accountBindingIssuedAtMs'')) (JNum expiresAt))) sig) (\<lambda>ok.
       requireE ok (inviteInvalid ''peer-link invite X3DH binding invalid'')))))))))))))"

section \<open>Account-state events\<close>

definition ACCOUNT_AEAD_INFO :: octets where
  "ACCOUNT_AEAD_INFO = utf8_encode ''rez:account-state-seal:aead:v1''"

definition as_requireB64 :: "string \<Rightarrow> string \<Rightarrow> unit res" where
  "as_requireB64 value label = (if value = [] then Inl (plain_err (''account-state seal requires '' @ label)) else Inr ())"

definition deriveAccountStateKey :: "'w seal_env \<Rightarrow> string \<Rightarrow> string \<Rightarrow> ('w, octets) io" where
  "deriveAccountStateKey E privB64 pubB64 =
     bindE (liftE (as_requireB64 privB64 ''accountIdentityDhPrivateKeyB64'')) (\<lambda>_.
     bindE (liftE (as_requireB64 pubB64 ''accountIdentityDhPublicKeyB64'')) (\<lambda>_.
     bindE (liftE (sl_base64ToBytes E (JStr privB64))) (\<lambda>priv.
     bindE (liftE (sl_base64ToBytes E (JStr pubB64))) (\<lambda>pub.
     bindE (sl_dhDerive E priv pub) (\<lambda>shared.
     bindE (requireE (shared \<noteq> []) (plain_err ''deriveAccountStateKey: dhDerive returned no shared secret'')) (\<lambda>_.
     sl_hkdf E shared ACCOUNT_AEAD_INFO 32))))))"

definition ACCOUNT_STATE_ENVELOPE_VERSION :: int where
  "ACCOUNT_STATE_ENVELOPE_VERSION = 1"

definition nonEmptyStr :: "jsval \<Rightarrow> bool" where
  "nonEmptyStr v = (case v of JStr s \<Rightarrow> s \<noteq> [] | _ \<Rightarrow> False)"

definition wrapAccountStateEnvelope :: "jsval \<Rightarrow> jsval \<Rightarrow> jsval res" where
  "wrapAccountStateEnvelope nonceB64 ciphertextB64 =
     (if \<not> nonEmptyStr nonceB64 \<or> \<not> nonEmptyStr ciphertextB64 then
        Inl (plain_err ''wrapAccountStateEnvelope requires nonceB64 + ciphertextB64'')
      else Inr (JObj [(''accountState'', JInt ACCOUNT_STATE_ENVELOPE_VERSION), (''nonceB64'', nonceB64), (''ciphertextB64'', ciphertextB64)]))"

definition accountStateAad :: "jsval \<Rightarrow> string" where
  "accountStateAad inboxId =
     ''rez:account-state:v1:inbox:'' @ (if inboxId = JNull \<or> inboxId = JUndef then [] else js_String inboxId)"

definition isAccountStateEnvelope :: "jsval \<Rightarrow> bool" where
  "isAccountStateEnvelope bodyObj \<longleftrightarrow> js_truthy bodyObj
     \<and> js_eq (getp bodyObj ''accountState'') (JInt ACCOUNT_STATE_ENVELOPE_VERSION)
     \<and> nonEmptyStr (getp bodyObj ''nonceB64'') \<and> nonEmptyStr (getp bodyObj ''ciphertextB64'')"

text \<open>\<open>siblingInboxesFromDeviceSet\<close>: one entry, and the loop with the inboxes seen so far; the
  result is (device id, inbox id) for each sibling.\<close>

definition strTrim :: "jsval \<Rightarrow> string" where
  "strTrim v = (case v of JStr s \<Rightarrow> js_trim s | _ \<Rightarrow> [])"

definition siblingEntry :: "jsval \<Rightarrow> string \<times> string" where
  "siblingEntry entry =
     (let bundle = (if is_object entry \<and> js_truthy (getp entry ''bundle'') then getp entry ''bundle'' else entry);
          deviceId = strTrim (getp bundle ''deviceId'')
      in (if deviceId \<noteq> [] then deviceId else strTrim (getp entry ''deviceId''), strTrim (getp bundle ''inboxId'')))"

fun sibling_loop :: "string \<Rightarrow> string \<Rightarrow> string list \<Rightarrow> jsval list \<Rightarrow> (string \<times> string) list" where
  "sibling_loop own ownDev seen [] = []"
| "sibling_loop own ownDev seen (entry # es) =
     (case siblingEntry entry of (deviceId, inboxId) \<Rightarrow>
        if inboxId = [] \<or> deviceId = [] then sibling_loop own ownDev seen es
        else if inboxId = own \<or> (ownDev \<noteq> [] \<and> deviceId = ownDev) then sibling_loop own ownDev seen es
        else if inboxId \<in> set seen then sibling_loop own ownDev seen es
        else (deviceId, inboxId) # sibling_loop own ownDev (inboxId # seen) es)"

definition siblingInboxesFromDeviceSet :: "jsval \<Rightarrow> jsval \<Rightarrow> jsval \<Rightarrow> (string \<times> string) list" where
  "siblingInboxesFromDeviceSet devices ownInboxId ownDeviceId =
     sibling_loop (strTrim ownInboxId) (strTrim ownDeviceId) [] (case devices of JArr es \<Rightarrow> es | _ \<Rightarrow> [])"

subsection \<open>The operations of the service\<close>

definition accountStateAeadKey :: "('w, 'm) acct_env \<Rightarrow> jsval \<Rightarrow> ('w, octets) acct_io" where
  "accountStateAeadKey A accountId =
     bindE (liftE (requireId (ae_e2ee A) accountId ''accountId'')) (\<lambda>owner.
     bindE (requireBoundX3dhIdentity A (JStr owner)) (\<lambda>bound.
     ext (deriveAccountStateKey (ae_seal A) (sl_bytesToBase64 (ae_seal A) (kp_private (bi_identityDhKeyPair bound)))
       (sl_bytesToBase64 (ae_seal A) (kp_public (bi_identityDhKeyPair bound))))))"

definition svc_sealAccountStateEvent :: "('w, 'm) acct_env \<Rightarrow> octets \<Rightarrow> string \<Rightarrow> ('w, string \<times> string) acct_io" where
  "svc_sealAccountStateEvent A plaintextBytes aad =
     bindE (getsE as_ownerAccountId) (\<lambda>owner.
     bindE (accountStateAeadKey A owner) (\<lambda>aeadKey. ext (sealToPeer (ae_seal A) aeadKey plaintextBytes aad)))"

definition svc_openAccountStateEvent :: "('w, 'm) acct_env \<Rightarrow> string \<Rightarrow> string \<Rightarrow> string \<Rightarrow> ('w, octets) acct_io" where
  "svc_openAccountStateEvent A nonceB64 ciphertextB64 aad =
     bindE (getsE as_ownerAccountId) (\<lambda>owner.
     bindE (accountStateAeadKey A owner) (\<lambda>aeadKey. ext (openFromPeer (ae_seal A) aeadKey nonceB64 ciphertextB64 aad)))"

text \<open>The result is (origin device id, its public key, the signature).\<close>

definition signAccountStateEvent :: "('w, 'm) acct_env \<Rightarrow> octets option \<Rightarrow> ('w, jsval \<times> jsval \<times> jsval) acct_io" where
  "signAccountStateEvent A signableBytes =
     bindE (getsE (\<lambda>S. S)) (\<lambda>S.
     case as_deviceSigningKeyPair S of
       None \<Rightarrow> throwE (plain_err ''signAccountStateEvent requires a device key'')
     | Some kp \<Rightarrow>
         bindE (requireE (js_truthy (as_devicePublicKeyB64 S) \<and> js_truthy (as_deviceId S))
           (plain_err ''signAccountStateEvent requires a device key'')) (\<lambda>_.
         bindE (liftE (requireBytes signableBytes ''signAccountStateEvent requires non-empty signableBytes'')) (\<lambda>msg.
         bindE (ext (signBytes (ae_e2ee A) (kp_private kp) msg)) (\<lambda>sig.
         retE (as_deviceId S, as_devicePublicKeyB64 S, toB64 A sig)))))"

definition verifyAccountStateEventSig ::
    "('w, 'm) acct_env \<Rightarrow> octets option \<Rightarrow> jsval \<Rightarrow> jsval \<Rightarrow> jsval \<Rightarrow> ('w, bool) io" where
  "verifyAccountStateEventSig A signableBytes originDeviceId originDevicePublicKeyB64 sigB64 =
     (let pub = strTrim originDevicePublicKeyB64; i = strTrim originDeviceId; s = strTrim sigB64 in
      case signableBytes of
        None \<Rightarrow> retE False
      | Some msg \<Rightarrow>
          if pub = [] \<or> i = [] \<or> s = [] \<or> msg = [] then retE False
          else (case ae_deviceIdFor A pub of
              Inl e \<Rightarrow> retE False
            | Inr expectedId \<Rightarrow>
                if expectedId \<noteq> i then retE False
                else catchE
                  (bindE (liftE (b64 A (JStr pub))) (\<lambda>key.
                   bindE (liftE (b64 A (JStr s))) (\<lambda>sig.
                   sl_verify (ae_seal A) key msg sig)))
                  (\<lambda>_. retE False)))"

end
