(* ===== verification/Device_Ingest.thy ===== *)
theory Device_Ingest
  imports Account_Identity
begin

text \<open>
  The device sets of peers in the peer-link service (\<open>peer-link/PeerLinkService.js\<close>): the wrappers
  around the per-device sessions, the ingestion of a peer's device set with its durable rollback
  floor, the completion of a session a peer device started, the replicated relationships, and the
  authority state of an account.

  Ingestion runs alone for one pair of accounts (\<open>withLock\<close>). The floor is kept in the key-value
  store \<open>K\<close> of the service, the sessions in its peer-link storage.
\<close>

section \<open>Per-device sessions of the service\<close>

text \<open>The signing pair of the device and its identity-DH pair, made and stored when absent.\<close>

definition loadDeviceIdentity :: "('w, 'm) acct_env \<Rightarrow> ('w, key_pair \<times> key_pair) acct_io" where
  "loadDeviceIdentity A =
     bindE (getsE (\<lambda>S. S)) (\<lambda>S.
     bindE (liftE (requireDeviceSessions S)) (\<lambda>signing.
     bindE (ext (keys_getDeviceIdentity (sto A) (as_ownerAccountId S) (as_deviceId S))) (\<lambda>stored.
     (let dh = getp stored ''x3dhIdentityDhKeyMaterial'' in
      if is_object dh \<and> js_truthy (ne A (getp dh ''publicKeyB64'')) \<and> js_truthy (ne A (getp dh ''privateKeyB64'')) then
        bindE (liftE (b64 A (getp dh ''publicKeyB64''))) (\<lambda>pub.
        bindE (liftE (b64 A (getp dh ''privateKeyB64''))) (\<lambda>priv.
        retE (signing, \<lparr>kp_public = pub, kp_private = priv\<rparr>)))
      else
        bindE (ext (ae_dhGenerateKeyPair A)) (\<lambda>dhPair.
        case dhPair of
          None \<Rightarrow> throwE (plain_err ''cryptoProvider.dhGenerateKeyPair() returned invalid key pair'')
        | Some kp \<Rightarrow>
            bindE (ext (keys_putDeviceIdentity (sto A) (as_ownerAccountId S) (as_deviceId S) (JObj
              [(''deviceId'', as_deviceId S), (''devicePublicKeyB64'', as_devicePublicKeyB64 S),
               (''x3dhIdentityDhKeyMaterial'', JObj [(''publicKeyB64'', toB64 A (kp_public kp)), (''privateKeyB64'', toB64 A (kp_private kp))])]))) (\<lambda>_.
            retE (signing, kp)))))))"

definition svc_buildDevicePreKeyBundle :: "('w, 'm) acct_env \<Rightarrow> jsval \<Rightarrow> ('w, jsval \<times> jsval) acct_io" where
  "svc_buildDevicePreKeyBundle A ownerAccountId =
     bindE (loadDeviceIdentity A) (\<lambda>(signing, dh).
     bindE (liftE (requireId (ae_e2ee A) ownerAccountId ''ownerAccountId'')) (\<lambda>owner.
     ext (buildDevicePreKeyBundle (ae_e2ee A) (JStr owner) (Some signing) (Some dh))))"

definition svc_establishInitiator ::
    "('w, 'm) acct_env \<Rightarrow> jsval \<Rightarrow> jsval \<Rightarrow> jsval \<Rightarrow> jsval \<Rightarrow> jsval \<Rightarrow> ('w, jsval \<times> jsval) acct_io" where
  "svc_establishInitiator A ownerAccountId peerAccountId peerLinkId peerDeviceId bundleJson =
     bindE (loadDeviceIdentity A) (\<lambda>(signing, dh).
     bindE (liftE (requireId (ae_e2ee A) ownerAccountId ''ownerAccountId'')) (\<lambda>owner.
     bindE (liftE (requireId (ae_e2ee A) peerAccountId ''peerAccountId'')) (\<lambda>peer.
     ext (establishInitiatorDeviceSession (ae_e2ee A) (JStr owner) (JStr peer) peerLinkId peerDeviceId bundleJson
       (Some signing) (Some dh)))))"

definition svc_establishResponder ::
    "('w, 'm) acct_env \<Rightarrow> jsval \<Rightarrow> jsval \<Rightarrow> jsval \<Rightarrow> jsval \<Rightarrow> jsval \<Rightarrow> jsval \<Rightarrow> ('w, jsval \<times> string) acct_io" where
  "svc_establishResponder A ownerAccountId peerAccountId peerLinkId peerDeviceId preKeyState handshakeData =
     bindE (loadDeviceIdentity A) (\<lambda>(signing, dh).
     bindE (liftE (requireId (ae_e2ee A) ownerAccountId ''ownerAccountId'')) (\<lambda>owner.
     bindE (liftE (requireId (ae_e2ee A) peerAccountId ''peerAccountId'')) (\<lambda>peer.
     ext (establishResponderDeviceSession (ae_e2ee A) (JStr owner) (JStr peer) peerLinkId peerDeviceId
       (Some dh) preKeyState handshakeData))))"

definition encryptDirectMessageForDevice ::
    "('w, 'm) acct_env \<Rightarrow> jsval \<Rightarrow> jsval \<Rightarrow> jsval \<Rightarrow> jsval \<Rightarrow> octets option \<Rightarrow> ('w, octets \<times> jsval) acct_io" where
  "encryptDirectMessageForDevice A ownerAccountId peerAccountId peerLinkId peerDeviceId plaintextBytes =
     bindE (getsE (\<lambda>S. S)) (\<lambda>S.
     bindE (liftE (requireDeviceSessions S)) (\<lambda>_.
     bindE (liftE (requireId (ae_e2ee A) ownerAccountId ''ownerAccountId'')) (\<lambda>owner.
     bindE (liftE (requireId (ae_e2ee A) peerAccountId ''peerAccountId'')) (\<lambda>peer.
     ext (encryptForDevice (ae_e2ee A) (JStr owner) (JStr peer) peerLinkId peerDeviceId plaintextBytes)))))"

definition hasDeviceSession :: "('w, 'm) acct_env \<Rightarrow> jsval \<Rightarrow> jsval \<Rightarrow> ('w, bool) acct_io" where
  "hasDeviceSession A peerAccountId peerDeviceId =
     bindE (getsE (\<lambda>S. S)) (\<lambda>S.
     (let owner = as_ownerAccountId S; peer = strTrim peerAccountId; dev = strTrim peerDeviceId in
      if \<not> hasDeviceSessions S then retE False
      else if \<not> js_truthy owner \<or> peer = [] \<or> dev = [] then retE False
      else
        bindE (ext (peerLinks_getByPair (sto A) owner (JStr peer))) (\<lambda>link.
        if \<not> js_truthy link \<or> \<not> js_truthy (getp link ''peerLinkId'') then retE False
        else bindE (ext (sessions_getByPeerLinkAndDevice (sto A) owner (getp link ''peerLinkId'') (JStr dev))) (\<lambda>sess.
          retE (sess \<noteq> JNull \<and> sess \<noteq> JUndef)))))"

section \<open>What is known of a peer\<close>

record peer_ctx =
  pc_peerLinkId :: jsval
  pc_peerIdentityDhPublicKeyB64 :: jsval
  pc_peerAccountPublicKeyB64 :: jsval

definition requirePeerDeviceSetContext :: "('w, 'm) acct_env \<Rightarrow> jsval \<Rightarrow> jsval \<Rightarrow> ('w, peer_ctx) io" where
  "requirePeerDeviceSetContext A ownerAccountId peerAccountId =
     bindE (liftE (requireId (ae_e2ee A) ownerAccountId ''ownerAccountId'')) (\<lambda>owner.
     bindE (liftE (requireId (ae_e2ee A) peerAccountId ''peerAccountId'')) (\<lambda>peer.
     bindE (peerLinks_getByPair (sto A) (JStr owner) (JStr peer)) (\<lambda>link.
     bindE (requireE (is_object link) (code_err ''PEER_LINK_NOT_FOUND'' (''no peer link for device-set exchange with '' @ peer))) (\<lambda>_.
     (let dh = ne A (getp link ''remoteIdentityDhPublicKeyB64''); account = ne A (getp link ''remoteAccountIdentityPublicKeyB64'') in
      bindE (requireE (js_truthy dh \<and> js_truthy account) (code_err ''PEER_LINK_DEVICE_SET_UNSUPPORTED''
        ''peer link is missing the persisted peer identity material for device-set exchange'')) (\<lambda>_.
      retE \<lparr>pc_peerLinkId = ne A (getp link ''peerLinkId''), pc_peerIdentityDhPublicKeyB64 = dh, pc_peerAccountPublicKeyB64 = account\<rparr>))))))"

definition upsertPeerRelationship ::
    "('w, 'm) acct_env \<Rightarrow> jsval \<Rightarrow> jsval \<Rightarrow> jsval \<Rightarrow> jsval \<Rightarrow> jsval \<Rightarrow> jsval \<Rightarrow> jsval \<Rightarrow> ('w, jsval) io" where
  "upsertPeerRelationship A ownerAccountId peerAccountId peerLinkId peerInboxId remoteAccountKey remoteDhKey nowMs =
     bindE (liftE (requireId (ae_e2ee A) ownerAccountId ''ownerAccountId'')) (\<lambda>owner.
     bindE (liftE (requireId (ae_e2ee A) peerAccountId ''peerAccountId'')) (\<lambda>peer.
     bindE (requireE (js_truthy (ne A peerLinkId) \<and> js_truthy (ne A peerInboxId) \<and> js_truthy (ne A remoteAccountKey) \<and> js_truthy (ne A remoteDhKey))
       (plain_err ''upsertPeerRelationship requires peerLinkId, peerInboxId, remoteAccountIdentityPublicKeyB64, remoteIdentityDhPublicKeyB64'')) (\<lambda>_.
     bindE (peerLinks_getByPair (sto A) (JStr owner) (JStr peer)) (\<lambda>existing.
     if is_object existing then retE existing
     else
       bindE (clock (ae_e2ee A)) (\<lambda>now.
       peerLinks_create (sto A) (JObj
         [(''peerLinkId'', ne A peerLinkId), (''localAccountId'', JStr owner), (''peerAccountId'', JStr peer),
          (''remoteIdentityDhPublicKeyB64'', ne A remoteDhKey), (''remoteAccountIdentityPublicKeyB64'', ne A remoteAccountKey),
          (''state'', JStr ''session_established''), (''activeInviteId'', JNull), (''activeSessionId'', JNull),
          (''peerInboxId'', ne A peerInboxId), (''relationshipReplicated'', JBool True),
          (''lastStateChangeAtMs'', JInt (asPositiveInt nowMs now)), (''lastErrorCode'', JNull), (''lastErrorMessage'', JNull),
          (''version'', JInt 1)]))))))"

text \<open>Where a peer's sealed record is to be fetched: (kind, record id, publisher).\<close>

definition resolvePeerDeviceSetCoordinates :: "('w, 'm) acct_env \<Rightarrow> jsval \<Rightarrow> jsval \<Rightarrow> ('w, string \<times> string \<times> jsval) acct_io" where
  "resolvePeerDeviceSetCoordinates A ownerAccountId peerAccountId =
     bindE (getsE (\<lambda>S. S)) (\<lambda>S.
     bindE (liftE (requireDeviceSessions S)) (\<lambda>_.
     bindE (liftE (requireId (ae_e2ee A) ownerAccountId ''ownerAccountId'')) (\<lambda>owner.
     bindE (liftE (requireId (ae_e2ee A) peerAccountId ''peerAccountId'')) (\<lambda>peer.
     bindE (ext (requirePeerDeviceSetContext A (JStr owner) (JStr peer))) (\<lambda>ctx.
     bindE (requireBoundX3dhIdentity A (JStr owner)) (\<lambda>bound.
     bindE (ext (derivePeerScopedKey (ae_seal A) (sl_bytesToBase64 (ae_seal A) (kp_private (bi_identityDhKeyPair bound)))
       (js_String (pc_peerIdentityDhPublicKeyB64 ctx)))) (\<lambda>(aeadKey, slotRecordId).
     retE (sl_KIND (ae_seal A), slotRecordId, pc_peerAccountPublicKeyB64 ctx))))))))"

section \<open>The rollback floor\<close>

definition deviceSetFloorKey :: "string \<Rightarrow> string \<Rightarrow> string" where
  "deviceSetFloorKey owner peer = ''peer-link:device-set-floor:'' @ owner @ '':'' @ peer"

text \<open>What a revision governs: the account and its devices, independent of the order of the rows.\<close>

definition deviceSetAuthorityBinding :: "('w, 'm) acct_env \<Rightarrow> (string \<Rightarrow> string \<Rightarrow> bool) \<Rightarrow> device_set \<Rightarrow> string" where
  "deviceSetAuthorityBinding A collate ds =
     (let devices = sort_by (\<lambda>a b. collate (de_deviceId a) (de_deviceId b)) (dset_devices ds) in
      sha256Hex (ae_e2ee A) (canonicalJSON (ae_e2ee A) (JObj [(''v'', dset_v ds), (''purpose'', dset_purpose ds),
        (''accountIdentityPublicKeyB64'', JStr (dset_account ds)), (''revision'', JInt (dset_revision ds)),
        (''devices'', JArr (map (\<lambda>d. JObj [(''deviceId'', JStr (de_deviceId d)),
           (''devicePublicKeyB64'', JStr (de_devicePublicKeyB64 d)), (''inboxId'', JStr (de_inboxId d))]) devices))])))"

text \<open>The stored floor: its revision, 0 when there is none, and the binding accepted at it.\<close>

definition floorOf :: "jsval \<Rightarrow> int \<times> string option" where
  "floorOf stored =
     (let rev = (if is_object stored then getp stored ''revision'' else stored) in
      (case positiveInteger rev of None \<Rightarrow> 0 | Some n \<Rightarrow> n,
       if is_object stored then (case getp stored ''binding'' of JStr b \<Rightarrow> Some b | _ \<Rightarrow> None) else None))"

definition loadDeviceSetFloor :: "'w kv_ops \<Rightarrow> string \<Rightarrow> string \<Rightarrow> ('w, int \<times> string option) io" where
  "loadDeviceSetFloor K owner peer = bindE (kv_get K (deviceSetFloorKey owner peer)) (\<lambda>stored. retE (floorOf stored))"

definition saveDeviceSetFloor :: "'w kv_ops \<Rightarrow> string \<Rightarrow> string \<Rightarrow> int \<Rightarrow> string \<Rightarrow> ('w, unit) io" where
  "saveDeviceSetFloor K owner peer revision binding =
     kv_set K (deviceSetFloorKey owner peer)
       (JObj [(''revision'', JInt revision), (''binding'', if binding = [] then JNull else JStr binding)])"

section \<open>Ingestion\<close>

definition staleRevision :: "int \<Rightarrow> int \<Rightarrow> string \<Rightarrow> js_err" where
  "staleRevision revision known peer =
     JsErr ''DEVICE_SET_STALE_REVISION''
       (''ingestPeerDeviceSet: stale device-set revision '' @ js_String (JInt revision) @ '' < known '' @ js_String (JInt known)
        @ '' for peer '' @ peer) [(''revision'', JInt revision), (''knownRevision'', JInt known)]"

definition equivocation :: "int \<Rightarrow> string \<Rightarrow> js_err" where
  "equivocation revision peer =
     JsErr ''DEVICE_SET_REVISION_EQUIVOCATION''
       (''ingestPeerDeviceSet: conflicting device set at revision '' @ js_String (JInt revision) @ '' for peer '' @ peer @ '' (equivocation)'')
       [(''revision'', JInt revision)]"

text \<open>Sessions are established only with devices that have none: (device, handshake data, session id)
  for each new one, and the ids of the devices whose session is kept.\<close>

fun establish_loop ::
    "('w, 'm) acct_env \<Rightarrow> string \<Rightarrow> string \<Rightarrow> jsval \<Rightarrow> prekey_bundle list
      \<Rightarrow> ('w, (string \<times> jsval \<times> jsval) list \<times> string list) acct_io" where
  "establish_loop A owner peer peerLinkId [] = retE ([], [])"
| "establish_loop A owner peer peerLinkId (b # bs) =
     bindE (ext (sessions_getByPeerLinkAndDevice (sto A) (JStr owner) peerLinkId (JStr (pb_deviceId b)))) (\<lambda>existing.
     if existing \<noteq> JNull \<and> existing \<noteq> JUndef then
       bindE (establish_loop A owner peer peerLinkId bs) (\<lambda>(established, reused). retE (established, pb_deviceId b # reused))
     else
       bindE (svc_establishInitiator A (JStr owner) (JStr peer) peerLinkId (JStr (pb_deviceId b)) (pb_bundleJson b)) (\<lambda>(handshakeData, sessionId).
       bindE (establish_loop A owner peer peerLinkId bs) (\<lambda>(established, reused).
       retE ((pb_deviceId b, handshakeData, sessionId) # established, reused))))"

record ingested =
  in_deviceSet :: device_set
  in_bundles :: "prekey_bundle list"
  in_established :: "(string \<times> jsval \<times> jsval) list"
  in_reused :: "string list"

text \<open>The body under the lock.\<close>

definition ingest_locked ::
    "('w, 'm) acct_env \<Rightarrow> 'w kv_ops \<Rightarrow> string \<Rightarrow> string \<Rightarrow> jsval \<Rightarrow> int \<Rightarrow> string \<Rightarrow> device_set \<Rightarrow> prekey_bundle list
      \<Rightarrow> ('w, ingested) acct_io" where
  "ingest_locked A K owner peer peerLinkId passedFloor incomingBinding ds bundles =
     bindE (ext (loadDeviceSetFloor K owner peer)) (\<lambda>(persistedFloor, binding).
     (let known = max persistedFloor passedFloor; bound = (case binding of Some b \<Rightarrow> b \<noteq> [] | None \<Rightarrow> False) in
      bindE (requireE (\<not> (known > 0 \<and> dset_revision ds < known)) (staleRevision (dset_revision ds) known peer)) (\<lambda>_.
      bindE (requireE (\<not> (dset_revision ds = persistedFloor \<and> bound \<and> Some incomingBinding \<noteq> binding))
        (equivocation (dset_revision ds) peer)) (\<lambda>_.
      bindE (establish_loop A owner peer peerLinkId bundles) (\<lambda>(established, reused).
      bindE (if dset_revision ds > persistedFloor then ext (saveDeviceSetFloor K owner peer (dset_revision ds) incomingBinding)
             else if dset_revision ds = persistedFloor \<and> \<not> bound then ext (saveDeviceSetFloor K owner peer (dset_revision ds) incomingBinding)
             else retE ()) (\<lambda>_.
      retE \<lparr>in_deviceSet = ds, in_bundles = bundles, in_established = established, in_reused = reused\<rparr>))))))"

record ingest_args =
  ig_peerAccountId :: jsval
  ig_record :: jsval
  ig_nowMs :: jsval
  ig_maxDevices :: jsval
  ig_minRevision :: jsval
  ig_revocationState :: jsval

definition DEVICE_SET_MAX_DEVICES :: int where
  "DEVICE_SET_MAX_DEVICES = 8"

definition ingestPeerDeviceSet ::
    "('w, 'm) acct_env \<Rightarrow> (string \<Rightarrow> string \<Rightarrow> bool) \<Rightarrow> 'w kv_ops \<Rightarrow> jsval \<Rightarrow> ingest_args \<Rightarrow> ('w, ingested) acct_io" where
  "ingestPeerDeviceSet A collate K ownerAccountId a =
     bindE (getsE (\<lambda>S. S)) (\<lambda>S.
     bindE (liftE (requireDeviceSessions S)) (\<lambda>_.
     bindE (liftE (requireId (ae_e2ee A) ownerAccountId ''ownerAccountId'')) (\<lambda>owner.
     bindE (liftE (requireId (ae_e2ee A) (ig_peerAccountId a) ''peerAccountId'')) (\<lambda>peer.
     bindE (ext (clock (ae_e2ee A))) (\<lambda>now.
     (let at_ms = asPositiveInt (ig_nowMs a) now in
      bindE (ext (requirePeerDeviceSetContext A (JStr owner) (JStr peer))) (\<lambda>ctx.
      bindE (requireBoundX3dhIdentity A (JStr owner)) (\<lambda>bound.
      bindE (ext (openSealedDeviceSetRecord (ae_seal A) (ig_record a)
          (sl_bytesToBase64 (ae_seal A) (kp_private (bi_identityDhKeyPair bound))) (js_String (pc_peerIdentityDhPublicKeyB64 ctx))
          (pc_peerAccountPublicKeyB64 ctx) (JInt at_ms) (ig_maxDevices a) DEVICE_SET_MAX_FUTURE_SKEW_MS (ig_revocationState a)))
        (\<lambda>(ds, bundles).
      ingest_locked A K owner peer (pc_peerLinkId ctx) (case positiveInteger (ig_minRevision a) of None \<Rightarrow> 0 | Some n \<Rightarrow> n)
        (deviceSetAuthorityBinding A collate ds) ds bundles)))))))))"

section \<open>Completing a session a peer device started\<close>

definition selectPreKeyStateFor :: "jsval list \<Rightarrow> jsval \<Rightarrow> jsval option" where
  "selectPreKeyStateFor retainedStates handshakeData =
     (case retainedStates of
        [] \<Rightarrow> None
      | newest # _ \<Rightarrow>
          (case getp handshakeData ''receiverSignedPreKeyPubB64'' of
             JStr named \<Rightarrow> if named \<noteq> [] then find (\<lambda>s. getp s ''signedPreKeyPublic'' = JStr named) retainedStates else Some newest
           | _ \<Rightarrow> Some newest))"

definition ACCOUNT_DEVICE_BUNDLE_PEER_SENTINEL :: string where
  "ACCOUNT_DEVICE_BUNDLE_PEER_SENTINEL = ''@self-device-bundle''"

definition retainedAccountPreKeyStates :: "('w, 'm) acct_env \<Rightarrow> jsval \<Rightarrow> ('w, jsval list) io" where
  "retainedAccountPreKeyStates A ownerAccountId =
     bindE (keys_getDevicePreKey (sto A) ownerAccountId (JStr ACCOUNT_DEVICE_BUNDLE_PEER_SENTINEL)) (\<lambda>stored.
     retE (if \<not> is_object stored then []
           else (case getp stored ''states'' of
               JArr xs \<Rightarrow> filter (\<lambda>s. is_object s \<and> is_string (getp s ''signedPreKeyPublic'')) xs
             | _ \<Rightarrow> if is_string (getp stored ''signedPreKeyPrivate'') then [stored] else [])))"

definition completeDeviceSetResponder ::
    "('w, 'm) acct_env \<Rightarrow> jsval \<Rightarrow> jsval \<Rightarrow> jsval \<Rightarrow> jsval \<Rightarrow> ('w, jsval \<times> string) acct_io" where
  "completeDeviceSetResponder A ownerAccountId peerAccountId peerDeviceId handshakeData =
     bindE (getsE (\<lambda>S. S)) (\<lambda>S.
     bindE (liftE (requireDeviceSessions S)) (\<lambda>_.
     bindE (liftE (requireId (ae_e2ee A) ownerAccountId ''ownerAccountId'')) (\<lambda>owner.
     bindE (liftE (requireId (ae_e2ee A) peerAccountId ''peerAccountId'')) (\<lambda>peer.
     bindE (ext (requirePeerDeviceSetContext A (JStr owner) (JStr peer))) (\<lambda>ctx.
     bindE (ext (keys_getDevicePreKey (sto A) (JStr owner) (JStr peer))) (\<lambda>perPeer.
     bindE (if is_object perPeer then retE (Some perPeer)
            else bindE (ext (retainedAccountPreKeyStates A (JStr owner))) (\<lambda>retained.
              retE (selectPreKeyStateFor retained handshakeData))) (\<lambda>preKeyState.
     case preKeyState of
       Some st \<Rightarrow>
         if is_object st then svc_establishResponder A (JStr owner) (JStr peer) (pc_peerLinkId ctx) peerDeviceId st handshakeData
         else throwE (code_err ''PEER_LINK_DEVICE_PREKEY_MISSING'' (''no retained device pre-key state for peer '' @ peer))
     | None \<Rightarrow> throwE (code_err ''PEER_LINK_DEVICE_PREKEY_MISSING'' (''no retained device pre-key state for peer '' @ peer)))))))))"

end
