(* ===== verification/Device_Set_Props.thy ===== *)
theory Device_Set_Props
  imports Device_Set Js_Hoare
begin

text \<open>
  What a device-set record that was opened is worth, whatever the record holds and however the
  crypto provider behaves, and that what was sealed to a peer opens at the peer.
\<close>

section \<open>Opened sets are authentic\<close>

text \<open>The provider answered that the signature is the key's over the bytes.\<close>

definition verified :: "'w seal_env \<Rightarrow> string \<Rightarrow> octets \<Rightarrow> string \<Rightarrow> bool" where
  "verified E keyB64 msg sigB64 \<longleftrightarrow> (\<exists>key sig w w'. sl_base64ToBytes E (JStr keyB64) = Inr key
     \<and> sl_base64ToBytes E (JStr sigB64) = Inr sig \<and> sl_verify E key msg sig w = (Inr True, w'))"

text \<open>A bundle that belongs to a device of the set, is current and signed by the device.\<close>

definition vouched :: "'w seal_env \<Rightarrow> device_set \<Rightarrow> string \<Rightarrow> rat \<Rightarrow> jnum \<Rightarrow> prekey_bundle \<Rightarrow> bool" where
  "vouched E ds account now skew b \<longleftrightarrow>
     (\<exists>d\<in>set (dset_devices ds). de_deviceId d = pb_deviceId b \<and> de_devicePublicKeyB64 d = pb_devicePublicKeyB64 b
        \<and> de_inboxId d = pb_inboxId b)
     \<and> pb_account b = account \<and> now < pb_expiresAtMs b \<and> \<not> tooFarAhead skew (pb_issuedAtMs b) now
     \<and> verified E (pb_devicePublicKeyB64 b) (sl_bundleBytes E (sl_bundleToJSON E b)) (pb_sigB64 b)"

lemma setByDeviceId_Some: "setByDeviceId ds i = Some d \<Longrightarrow> d \<in> set (dset_devices ds) \<and> de_deviceId d = i"
  unfolding setByDeviceId_def by (drule map_of_SomeD) auto

lemma set_deviceIds [simp]: "set (deviceIds ds) = de_deviceId ` set (dset_devices ds)"
  by (simp add: deviceIds_def)

lemma distinct_deviceIds [simp]: "distinct (deviceIds ds)"
  by (simp add: deviceIds_def)

lemma verified_I:
  "sl_base64ToBytes E (JStr k) = Inr key \<Longrightarrow> sl_base64ToBytes E (JStr s) = Inr sig
    \<Longrightarrow> sl_verify E key msg sig w = (Inr ok, w') \<Longrightarrow> ok \<Longrightarrow> verified E k msg s"
  unfolding verified_def by auto

lemma returns_checkBundle:
  "returns (checkBundle E ds account now skew seen raw)
     (\<lambda>b _. vouched E ds account now skew b \<and> pb_deviceId b \<notin> set seen) w"
  unfolding checkBundle_def
  by (intro returns_steps returns_call) (auto simp: vouched_def dest: setByDeviceId_Some intro: verified_I)

lemma returns_bundle_loop:
  "returns (bundle_loop E ds account now skew seen raws)
     (\<lambda>bs _. (\<forall>b\<in>set bs. vouched E ds account now skew b) \<and> distinct (map pb_deviceId bs)
        \<and> set (map pb_deviceId bs) \<inter> set seen = {}) w"
proof (induction raws arbitrary: seen w)
  case (Cons raw raws)
  show ?case
    by (simp, intro returns_bind returns_conseq [OF returns_checkBundle] returns_conseq [OF Cons.IH] returns_ret) auto
qed (simp add: returns_ret)

lemma returns_checkSet:
  "returns (checkSet E ds account signer now maxN skew)
     (\<lambda>_ _. dset_account ds = account \<and> verified E signer (sl_setBytes E (sl_setToJSON E ds)) (dset_sigB64 ds)
        \<and> int (length (dset_devices ds)) \<le> maxN \<and> now < dset_expiresAtMs ds
        \<and> \<not> tooFarAhead skew (dset_issuedAtMs ds) now) w"
  unfolding checkSet_def
  by (intro returns_steps returns_call) (auto intro: verified_I)

text \<open>The envelope was accepted and names its signer.\<close>

definition signed_for :: "'w seal_env \<Rightarrow> jsval \<Rightarrow> string \<Rightarrow> rat \<Rightarrow> jsval \<Rightarrow> string \<Rightarrow> bool" where
  "signed_for E rcd account now rvk signer \<longleftrightarrow>
     js_String (getp rcd ''ownerPublicKeyB64'') = account
     \<and> (\<exists>outer w w'. sl_verifyDurable E rcd now rvk w = (Inr outer, w') \<and> dc_ok outer \<and> dc_signerPublicKeyB64 outer = signer)"

lemma returns_openEnvelope:
  "returns (openEnvelope E rcd myPriv peerPub account now rvk)
     (\<lambda>(signer, inner) _. signed_for E rcd account now rvk signer) w"
  unfolding openEnvelope_def
  by (intro returns_steps returns_call) (auto simp: signed_for_def)

lemma all_devices_bundled:
  assumes "\<forall>b\<in>set bs. vouched E ds account now skew b" "distinct (map pb_deviceId bs)"
    "length (remdups (map pb_deviceId bs)) = length (deviceIds ds)"
  shows "pb_deviceId ` set bs = de_deviceId ` set (dset_devices ds)"
proof (rule card_subset_eq)
  show "pb_deviceId ` set bs \<subseteq> de_deviceId ` set (dset_devices ds)"
    using assms(1) unfolding vouched_def by (force simp: image_iff)
  show "card (pb_deviceId ` set bs) = card (de_deviceId ` set (dset_devices ds))"
    using assms(2,3) distinct_card [OF distinct_deviceIds, of ds] by (simp add: distinct_remdups_id distinct_card flip: set_map)
qed simp

text \<open>C8. Opening a peer's device-set record returns a set and prekey bundles only when the record is
  owned by the peer's account and its envelope verified, the set names that account and its
  signature verified under the key that signed the envelope, it has at most \<open>maxDevices\<close> devices
  and has not expired, and the bundles are exactly one for each device of the set, each agreeing
  with the set about key and inbox, unexpired and with a signature that verified under the
  device's own key.\<close>
theorem opened_device_set_is_authentic:
  assumes "openSealedDeviceSetRecord E rcd myPriv peerPub (JStr account) (JNum (Fin now)) (JInt maxN) skew rvk w
      = (Inr (ds, bundles), w')"
  shows "dset_account ds = account
    \<and> (\<exists>signer. signed_for E rcd account now rvk signer \<and> verified E signer (sl_setBytes E (sl_setToJSON E ds)) (dset_sigB64 ds))
    \<and> (int (length (dset_devices ds)) \<le> maxN \<and> now < dset_expiresAtMs ds \<and> \<not> tooFarAhead skew (dset_issuedAtMs ds) now)
    \<and> (distinct (map pb_deviceId bundles) \<and> pb_deviceId ` set bundles = de_deviceId ` set (dset_devices ds))
    \<and> (\<forall>b\<in>set bundles. vouched E ds account now skew b)"
proof -
  have "returns (openSealedDeviceSetRecord E rcd myPriv peerPub (JStr account) (JNum (Fin now)) (JInt maxN) skew rvk)
     (\<lambda>(ds, bs) _. dset_account ds = account
        \<and> (\<exists>signer. signed_for E rcd account now rvk signer \<and> verified E signer (sl_setBytes E (sl_setToJSON E ds)) (dset_sigB64 ds))
        \<and> (int (length (dset_devices ds)) \<le> maxN \<and> now < dset_expiresAtMs ds \<and> \<not> tooFarAhead skew (dset_issuedAtMs ds) now)
        \<and> (distinct (map pb_deviceId bs) \<and> pb_deviceId ` set bs = de_deviceId ` set (dset_devices ds))
        \<and> (\<forall>b\<in>set bs. vouched E ds account now skew b)) w"
    unfolding openSealedDeviceSetRecord_def Let_def
    by (intro returns_steps returns_conseq [OF returns_openEnvelope] returns_conseq [OF returns_checkSet]
        returns_conseq [OF returns_bundle_loop])
      (auto simp: ds_requireNonEmptyString_def finiteNumber_def positiveInteger_def all_devices_bundled split: if_splits)
  with assms show ?thesis by (simp add: returns_def)
qed

section \<open>The seal opens\<close>

text \<open>The documented behaviour of the primitives: base64 decodes what it encoded, and
  authenticated decryption under the same key, nonce and associated data gives the plaintext back
  (a ciphertext carries a tag, so it is not empty).\<close>

definition aead_opens :: "'w seal_env \<Rightarrow> bool" where
  "aead_opens E \<longleftrightarrow>
     (\<forall>b. sl_base64ToBytes E (JStr (sl_bytesToBase64 E b)) = Inr b \<and> (b \<noteq> [] \<longrightarrow> sl_bytesToBase64 E b \<noteq> []))
     \<and> (\<forall>key nonce p aad c v v'. sl_aeadEncrypt E key nonce p aad v = (Inr c, v') \<longrightarrow>
          c \<noteq> [] \<and> (\<forall>u. \<exists>u'. sl_aeadDecrypt E key nonce c aad u = (Inr p, u')))"

text \<open>What \<open>sealToPeer\<close> returned, \<open>openFromPeer\<close> opens under the same key and associated data, at any
  later time, and gives exactly the plaintext.\<close>
theorem sealed_to_peer_opens:
  assumes "aead_opens E" "sealToPeer E aeadKey plaintext aad w = (Inr (nonceB64, ciphertextB64), w')"
  shows "\<exists>v'. openFromPeer E aeadKey nonceB64 ciphertextB64 aad v = (Inr plaintext, v')"
proof -
  have "returns (sealToPeer E aeadKey plaintext aad)
     (\<lambda>(n, c) _. length aeadKey = 32 \<and> (\<exists>nonce ct u u'. length nonce = NONCE_BYTES \<and> n = sl_bytesToBase64 E nonce
        \<and> c = sl_bytesToBase64 E ct \<and> sl_aeadEncrypt E aeadKey nonce plaintext (utf8_encode aad) u = (Inr ct, u'))) w"
    unfolding sealToPeer_def by (intro returns_steps returns_call) (auto simp: requireAeadKey_def split: if_splits)
  with assms(2) obtain nonce ct u u' where *: "length aeadKey = 32" "length nonce = NONCE_BYTES"
      "nonceB64 = sl_bytesToBase64 E nonce" "ciphertextB64 = sl_bytesToBase64 E ct"
      "sl_aeadEncrypt E aeadKey nonce plaintext (utf8_encode aad) u = (Inr ct, u')"
    by (auto simp: returns_def)
  moreover from * assms(1) obtain v' where "ct \<noteq> []" "sl_aeadDecrypt E aeadKey nonce ct (utf8_encode aad) v = (Inr plaintext, v')"
    unfolding aead_opens_def by meson
  moreover have "nonce \<noteq> []" using *(2) by (auto simp: NONCE_BYTES_def)
  ultimately show ?thesis using assms(1)
    by (auto simp: openFromPeer_def bindE_def liftE_def requireAeadKey_def requireB64_def aead_opens_def)
qed

section \<open>A concrete provider\<close>

text \<open>Text is its own base64; a secret is 32 zero bytes; a ciphertext is the plaintext with a
  leading byte. The set and the bundle are the ones of one device.\<close>

definition demo_b64 :: "jsval \<Rightarrow> octets res" where
  "demo_b64 v = (case v of JStr s \<Rightarrow> Inr (map (\<lambda>c. word_of_nat (of_char c)) s) | _ \<Rightarrow> Inl (plain_err ''base64''))"

definition demo_set :: device_set where
  "demo_set = \<lparr>dset_v = JInt 1, dset_purpose = JStr ''device-set'', dset_account = ''B'', dset_revision = 3,
     dset_devices = [\<lparr>de_deviceId = ''d1'', de_devicePublicKeyB64 = ''C1'', de_inboxId = ''inbox:1''\<rparr>],
     dset_issuedAtMs = 900, dset_expiresAtMs = 5000, dset_sigB64 = ''s''\<rparr>"

definition demo_bundle :: prekey_bundle where
  "demo_bundle = \<lparr>pb_account = ''B'', pb_deviceId = ''d1'', pb_devicePublicKeyB64 = ''C1'', pb_inboxId = ''inbox:1'',
     pb_issuedAtMs = 900, pb_expiresAtMs = 4000, pb_sigB64 = ''s'', pb_bundleJson = JObj []\<rparr>"

definition demo_seal :: "'w seal_env" where
  "demo_seal = \<lparr>sl_dhDerive = (\<lambda>_ _. retE [1]), sl_hkdf = (\<lambda>_ _ n. retE (replicate n 0)),
     sl_randomBytes = (\<lambda>n. retE (replicate n 7)), sl_aeadEncrypt = (\<lambda>_ _ p _. retE (0 # p)),
     sl_aeadDecrypt = (\<lambda>_ _ c _. retE (tl c)), sl_verify = (\<lambda>_ _ _. retE True), sl_base64ToBytes = demo_b64,
     sl_bytesToBase64 = map (\<lambda>b. char_of (unat b)), sl_bytesToHex = (\<lambda>_. ''slot''),
     sl_parseText = (\<lambda>_. Inr (JObj [(''nonceB64'', JStr ''n''), (''ciphertextB64'', JStr ''xc''), (''prekeyBundles'', JArr [JNull])])),
     sl_verifyDurable = (\<lambda>_ _ _. retE \<lparr>dc_ok = True, dc_reason = [], dc_signerPublicKeyB64 = ''B''\<rparr>),
     sl_buildDurable = Inr, sl_durableBytes = (\<lambda>_. [1]), sl_setFromJSON = (\<lambda>_. Inr demo_set), sl_setToJSON = (\<lambda>_. JNull),
     sl_setBytes = (\<lambda>_. [2]), sl_bundleFromJSON = (\<lambda>_. Inr demo_bundle), sl_bundleToJSON = (\<lambda>_. JNull),
     sl_bundleBytes = (\<lambda>_. [3]), sl_KIND = ''deviceSet'', sl_CAP = ''deviceSet.publish''\<rparr>"

definition demo_record :: jsval where
  "demo_record = JObj [(''recordKind'', JStr ''deviceSet''), (''v'', JInt 2), (''ownerPublicKeyB64'', JStr ''B''),
     (''recordId'', JStr ''slot''), (''payloadB64'', JStr ''p'')]"

theorem opened_device_set_is_authentic_witness:
  "openSealedDeviceSetRecord demo_seal demo_record ''a'' ''b'' (JStr ''B'') (JNum (Fin 1000)) (JInt 8)
      DEVICE_SET_MAX_FUTURE_SKEW_MS JNull () = (Inr (demo_set, [demo_bundle]), ())
   \<and> pb_deviceId ` set [demo_bundle] = de_deviceId ` set (dset_devices demo_set)"
proof -
  have run: "openSealedDeviceSetRecord demo_seal demo_record ''a'' ''b'' (JStr ''B'') (JNum (Fin 1000)) (JInt 8)
      DEVICE_SET_MAX_FUTURE_SKEW_MS JNull () = (Inr (demo_set, [demo_bundle]), ())"
    by code_simp
  from opened_device_set_is_authentic [OF run] run show ?thesis by simp
qed

lemma octet_char: "word_of_nat (of_char (char_of (unat b) :: char)) = (b :: 8 word)"
proof -
  have "unat b < 256" using unsigned_less [of b] by simp
  then show ?thesis by (simp add: of_char_of)
qed

lemma octet_chars: "map ((\<lambda>c. word_of_nat (of_char c)) \<circ> (\<lambda>b. char_of (unat b) :: char)) b = (b :: octets)"
  by (rule map_idI) (simp only: comp_def octet_char)

lemma demo_aead_opens: "aead_opens (demo_seal :: 'w seal_env)"
  by (auto simp: aead_opens_def demo_seal_def demo_b64_def retE_def octet_chars)

theorem sealed_to_peer_opens_witness:
  "\<exists>n c w' v'. sealToPeer demo_seal (replicate 32 0) [5] ''a'' () = (Inr (n, c), w')
     \<and> openFromPeer demo_seal (replicate 32 0) n c ''a'' () = (Inr [5], v')"
proof -
  have run: "sealToPeer demo_seal (replicate 32 0) [5] ''a'' () = (Inr (replicate 12 (CHR 0x07), [CHR 0x00, CHR 0x05]), ())"
    by code_simp
  from sealed_to_peer_opens [OF demo_aead_opens run, of "()"] run show ?thesis by blast
qed

end
