(* ===== verification/Account_Identity_Props.thy ===== *)
theory Account_Identity_Props
  imports Account_Identity Device_Set_Props
begin

text \<open>
  What the account keys are worth: which signing modes a service can be in, that an established
  identity-DH key is never replaced, what a bound identity and a peer's accepted binding prove, and
  that account-state events reach exactly the sibling devices and name their origin.
\<close>

section \<open>Signing modes\<close>

lemma signingMode_iff: "signingMode r chained = Inr b \<Longrightarrow> b = (\<not> chained)"
  by (auto simp: signingMode_def split: if_splits)

lemma inviteChain_cases:
  "inviteChain A chain dk = Inr (c, anchor) \<Longrightarrow> c = None \<or> dk \<noteq> None \<and> js_truthy anchor \<and> c \<noteq> Some []"
  by (auto simp: inviteChain_def Let_def split: if_splits jsval.splits list.splits)

lemma deviceSigningKeyPair_id: "deviceSigningKeyPair A a d = Inr dk \<Longrightarrow> dk = None \<or> js_truthy d"
  by (auto simp: deviceSigningKeyPair_def split: if_splits)

text \<open>The mode contract of the constructor.\<close>

definition mode_ok :: "acct_svc \<Rightarrow> bool" where
  "mode_ok S \<longleftrightarrow> (as_hasAdminRoot S \<longleftrightarrow> as_inviteCertChain S = None)
     \<and> (\<not> as_hasAdminRoot S \<longrightarrow> as_deviceSigningKeyPair S \<noteq> None \<and> js_truthy (as_inviteOwnerPublicKeyB64 S)
          \<and> as_inviteCertChain S \<noteq> Some [])
     \<and> (as_deviceSigningKeyPair S \<noteq> None \<longrightarrow> js_truthy (as_deviceId S))
     \<and> (as_allowLegacy S \<longrightarrow> as_hasAdminRoot S)"

lemma bind_r_Inr_iff: "bind_r m f = Inr y \<longleftrightarrow> (\<exists>x. m = Inr x \<and> f x = Inr y)"
  by (auto dest: bind_r_InrD)

lemma if_Inr_iff: "(if c then Inl e else m) = Inr y \<longleftrightarrow> \<not> c \<and> m = Inr y"
  by simp

lemma mk_service_parts:
  assumes "mk_service A a = Inr S"
  obtains d where "deviceSigningKeyPair A a d = Inr (as_deviceSigningKeyPair S)"
    "inviteChain A (sa_certChain a) (as_deviceSigningKeyPair S) = Inr (as_inviteCertChain S, as_inviteOwnerPublicKeyB64 S)"
    "signingMode (sa_hasAdminRoot a) (as_inviteCertChain S \<noteq> None) = Inr (as_hasAdminRoot S)"
    "as_allowLegacy S \<longrightarrow> as_hasAdminRoot S" "as_deviceId S = d"
proof -
  from assms show ?thesis
    unfolding mk_service_def Let_def bind_r_Inr_iff if_Inr_iff split_beta
    by (elim exE conjE) (rule that, simp_all only: Inr_inject split_beta, auto)
qed

lemma mk_service_mode:
  assumes "mk_service A a = Inr S"
  shows "mode_ok S"
  using assms
proof (rule mk_service_parts)
  fix d
  assume *: "deviceSigningKeyPair A a d = Inr (as_deviceSigningKeyPair S)"
    "inviteChain A (sa_certChain a) (as_deviceSigningKeyPair S) = Inr (as_inviteCertChain S, as_inviteOwnerPublicKeyB64 S)"
    "signingMode (sa_hasAdminRoot a) (as_inviteCertChain S \<noteq> None) = Inr (as_hasAdminRoot S)"
    "as_allowLegacy S \<longrightarrow> as_hasAdminRoot S" "as_deviceId S = d"
  then show "mode_ok S"
    using signingMode_iff [OF *(3)] inviteChain_cases [OF *(2)] deviceSigningKeyPair_id [OF *(1)]
    unfolding mode_ok_def by auto
qed

section \<open>The constant-time comparison\<close>

lemma or_eq_0_iff: "or a b = 0 \<longleftrightarrow> a = 0 \<and> b = (0 :: 8 word)"
  by (auto simp: bit_eq_iff bit_simps)

lemma xor_eq_0_iff: "xor a b = 0 \<longleftrightarrow> a = (b :: 8 word)"
  by (auto simp: bit_eq_iff bit_simps)

lemma byte_diff_zero: "length xs = length ys \<Longrightarrow> byte_diff xs ys d = 0 \<longleftrightarrow> d = 0 \<and> xs = ys"
  by (induction xs ys d rule: byte_diff.induct) (auto simp: or_eq_0_iff xor_eq_0_iff)

lemma constantTimeBytesEqual_iff: "constantTimeBytesEqual a b \<longleftrightarrow> a = b"
  by (auto simp: constantTimeBytesEqual_def byte_diff_zero)

section \<open>Established keys stay\<close>

text \<open>What the validation of a legacy key has shown: the stored binding names the account and its
  X3DH key and is signed by the account key itself; the identity-DH key is signed by the X3DH key;
  the two halves of the identity-DH pair agree with a fresh key.\<close>

definition legacy_proof :: "('w, 'm) acct_env \<Rightarrow> string \<Rightarrow> jsval \<Rightarrow> bool" where
  "legacy_proof A owner r \<longleftrightarrow> (let b = getp r ''accountBinding'' in
     getp b ''accountId'' = JStr owner \<and> getp b ''x3dhIdentityPublicKeyB64'' = signPub r
     \<and> (\<exists>account sig v v'. b64 A (getp b ''accountIdentityPublicKeyB64'') = Inr account \<and> ae_deriveAccountId A account = owner
          \<and> b64 A (getp b ''accountBindingSigB64'') = Inr sig
          \<and> sl_verify (ae_seal A) account (signedPayloadBytes A (x3dhBindingPayload (JStr owner) (signPub r)
              (numOrZero (getp b ''issuedAtMs'')) (numOrZero (getp b ''expiresAtMs'')))) sig v = (Inr True, v'))
     \<and> (\<exists>signing dh sig v v'. b64 A (signPub r) = Inr signing \<and> b64 A (dhPub r) = Inr dh
          \<and> b64 A (getp r ''identityDhSignatureB64'') = Inr sig \<and> sl_verify (ae_seal A) signing dh sig v = (Inr True, v'))
     \<and> (\<exists>(probe :: key_pair) pub priv secret u u' v v'. b64 A (dhPub r) = Inr pub \<and> b64 A (dhPriv r) = Inr priv
          \<and> sl_dhDerive (ae_seal A) priv (kp_public probe) u = (Inr secret, u')
          \<and> sl_dhDerive (ae_seal A) (kp_private probe) pub v = (Inr secret, v')))"

lemma returns_probeKeyPair:
  "returns (probeKeyPair A p q) (\<lambda>_ _. \<exists>(probe :: key_pair) pub priv secret u u' v v'. b64 A p = Inr pub \<and> b64 A q = Inr priv
      \<and> sl_dhDerive (ae_seal A) priv (kp_public probe) u = (Inr secret, u')
      \<and> sl_dhDerive (ae_seal A) (kp_private probe) pub v = (Inr secret, v')) w"
  unfolding probeKeyPair_def
  by (intro returns_rethrow returns_steps returns_call) (auto simp: constantTimeBytesEqual_iff)

lemma returns_validateLegacy: "returns (validateLegacyForAdoption A owner r) (\<lambda>_ _. legacy_proof A owner r) w"
  unfolding validateLegacyForAdoption_def validateLegacyRecord_def Let_def
  by (intro returns_rethrow returns_bind returns_lift returns_require returns_call returns_conseq [OF returns_probeKeyPair])
    (simp add: legacy_proof_def Let_def, blast dest: js_eq_D)

text \<open>A service's identity-DH key after a stored key was met: unchanged, or the adopted one.\<close>

definition adopted :: "('w, 'm) acct_env \<Rightarrow> string \<Rightarrow> jsval \<Rightarrow> acct_svc \<Rightarrow> acct_svc \<Rightarrow> bool" where
  "adopted A owner r S S' \<longleftrightarrow>
     (if dhMatches r (as_accountIdentityDhKeyPair S) then S' = S
      else as_allowLegacy S \<and> legacy_proof A owner r
        \<and> S' = S\<lparr>as_accountIdentityDhKeyPair := Some (dhPub r, dhPriv r), as_adoptedLegacy := Some (dhPub r, dhPriv r)\<rparr>)"

lemma returns_adoptLegacy:
  "storedHasDh r \<Longrightarrow> returns (adoptLegacy A owner r (as_accountIdentityDhKeyPair S)) (\<lambda>_ t. adopted A owner r S (fst t)) (S, w)"
  unfolding adoptLegacy_def
  by (intro returns_if returns_bind returns_gets returns_throw returns_ret returns_within [OF returns_validateLegacy] returns_modify)
    (auto simp: adopted_def dhMatches_def split: option.splits)

text \<open>A load that finds an identity-DH key stored together with its signing key returns exactly the stored
  record in its normal form.\<close>
lemma load_returns_stored:
  assumes "loadAccountKeyRecord A accountId (S, w) = (Inr rcd, (S', w'))"
    and "requireId (ae_e2ee A) accountId ''accountId'' = Inr owner"
    and "keys_getAccountIdentity (sto A) (JStr owner) w = (Inr stored, w1)"
    and "r = normalizeStoredAccountKeyRecord A stored" "hasSigning r" "storedHasDh r"
    and "dhPub r = JStr pub" "dhPriv r = JStr priv"
  shows "rcd = r \<and> adopted A owner r S S'"
proof -
  have adopted_matches: "adopted A owner r S T \<Longrightarrow> dhMatches r (as_accountIdentityDhKeyPair T)" for T
    using assms(7,8) by (auto simp: adopted_def dhMatches_def split: if_splits)
  have "returns (loadAccountKeyRecord A accountId) (\<lambda>x t. x = r \<and> adopted A owner r S (fst t)) (S, w)"
    unfolding loadAccountKeyRecord_def Let_def
  proof (rule returns_bind, rule returns_lift, rule returns_bind, rule returns_ext)
    fix o' st v
    assume "requireId (ae_e2ee A) accountId ''accountId'' = Inr o'" "keys_getAccountIdentity (sto A) (JStr o') w = (Inr st, v)"
    with assms have [simp]: "o' = owner" "st = stored" by auto
    show "returns (bindE (getsE as_accountIdentityDhKeyPair) (\<lambda>injectedDh.
        bindE (adoptLegacy A o' (normalizeStoredAccountKeyRecord A st) injectedDh) (\<lambda>_.
        bindE (getsE as_accountIdentityDhKeyPair) (\<lambda>effectiveDh.
        if hasSigning (normalizeStoredAccountKeyRecord A st) \<and> storedHasDh (normalizeStoredAccountKeyRecord A st)
           \<and> dhMatches (normalizeStoredAccountKeyRecord A st) effectiveDh
        then bindE (if persistMissing st then bindE (ext (keys_putAccountIdentity (sto A) (JStr o') (normalizeStoredAccountKeyRecord A st))) (\<lambda>_. retE ())
               else retE ()) (\<lambda>_. retE (normalizeStoredAccountKeyRecord A st))
        else ext (mintAccountKeys A o' st (normalizeStoredAccountKeyRecord A st) injectedDh)))))
       (\<lambda>x t. x = r \<and> adopted A owner r S (fst t)) (S, v)"
      unfolding \<open>o' = owner\<close> \<open>st = stored\<close> assms(4) [symmetric]
      by (intro returns_bind returns_gets, rule returns_conseq [OF returns_adoptLegacy [OF assms(6)]], clarify,
          intro returns_bind returns_gets returns_if returns_ext returns_ret)
        (use adopted_matches assms(5,6) in auto)
  qed
  with assms(1) show ?thesis by (auto simp: returns_def)
qed

section \<open>Bound identities\<close>

text \<open>The binding of a returned identity names the owner and the returned signing key and is later than
  the clock.\<close>

definition binds_now :: "('w, 'm) acct_env \<Rightarrow> string \<Rightarrow> jsval \<Rightarrow> bound_identity \<Rightarrow> bool" where
  "binds_now A owner binding b \<longleftrightarrow> bi_accountBinding b = cloneJsonValue binding
     \<and> getp binding ''accountId'' = JStr owner
     \<and> b64 A (getp binding ''x3dhIdentityPublicKeyB64'') = Inr (kp_public (bi_keyPair b))
     \<and> (\<exists>now v v' expires. clock (ae_e2ee A) v = (Inr now, v')
          \<and> js_Number (getp binding ''expiresAtMs'') = Fin expires \<and> of_int now < expires)"

lemma later_than: "isFinite_num n \<Longrightarrow> \<not> num_le n (Fin t) \<Longrightarrow> \<exists>e. n = Fin e \<and> t < e"
  by (cases n) (auto simp: num_le_def)

lemma returns_boundFrom: "returns (boundFrom A owner rcd) (\<lambda>b _. binds_now A owner (getp rcd ''accountBinding'') b) w"
  unfolding boundFrom_def Let_def
  by (intro returns_steps returns_call) (auto simp: binds_now_def dest!: js_eq_D later_than)

text \<open>The service acts under its X3DH identity only while that identity is bound to the account: the
  binding it returns names the account and the very signing key that is returned, and it had not
  expired at the time of the clock.\<close>
theorem bound_identity_is_current:
  assumes "requireBoundX3dhIdentity A accountId s = (Inr b, s')"
  shows "\<exists>owner binding. requireId (ae_e2ee A) accountId ''accountId'' = Inr owner \<and> binds_now A owner binding b"
proof -
  have bound: "returns (ext (boundFrom A owner rcd)) (\<lambda>b _. binds_now A owner (getp rcd ''accountBinding'') b) t" for owner rcd t
    by (cases t) (auto intro: returns_within [OF returns_boundFrom])
  have "returns (requireBoundX3dhIdentity A accountId)
     (\<lambda>b _. \<exists>owner binding. requireId (ae_e2ee A) accountId ''accountId'' = Inr owner \<and> binds_now A owner binding b) s"
    unfolding requireBoundX3dhIdentity_def
    by (rule returns_bind, rule returns_lift, rule returns_bind, rule returns_any, rule returns_bind, rule returns_any,
        rule returns_conseq [OF bound]) blast
  with assms show ?thesis by (simp add: returns_def)
qed

section \<open>Accepted bindings of peers\<close>

text \<open>The key that signed: the account key, or a delegated signer with an accepted chain.\<close>

definition binding_signer :: "('w, 'm) acct_env \<Rightarrow> jsval \<Rightarrow> jsval \<Rightarrow> octets \<Rightarrow> octets \<Rightarrow> bool" where
  "binding_signer A x3dh chain account key \<longleftrightarrow> key = account \<or>
     (\<exists>verdict now v v'. ae_verifyAccountAuthority A (js_String (ne A (getp x3dh ''accountIdentityPublicKeyB64'')))
          PEERLINK_INVITE_REQUIRED_CAPABILITY (js_String (ne A (getp x3dh ''accountBindingSignerPublicKeyB64''))) chain now v = (Inr verdict, v')
        \<and> dc_ok verdict \<and> b64 A (ne A (getp x3dh ''accountBindingSignerPublicKeyB64'')) = Inr key)"

lemma b64_or_invalid_D: "b64_or_invalid A v = Inr b \<Longrightarrow> b64 A v = Inr b"
  by (simp add: b64_or_invalid_def split: sum.splits)

lemma returns_bindingVerifyKey:
  "returns (bindingVerifyKey A (ne A (getp x3dh ''accountIdentityPublicKeyB64'')) account
      (ne A (getp x3dh ''accountBindingSignerPublicKeyB64'')) chain) (\<lambda>key _. binding_signer A x3dh chain account key) w"
  unfolding bindingVerifyKey_def
  by (intro returns_steps returns_call) (auto simp: binding_signer_def dest!: b64_or_invalid_D)

definition accepted_binding :: "('w, 'm) acct_env \<Rightarrow> string \<Rightarrow> jsval \<Rightarrow> jsval \<Rightarrow> bool" where
  "accepted_binding A owner x3dh chain \<longleftrightarrow>
     (\<exists>account key sig expires. b64 A (ne A (getp x3dh ''accountIdentityPublicKeyB64'')) = Inr account
        \<and> ae_deriveAccountId A account = owner
        \<and> js_Number (getp x3dh ''accountBindingExpiresAtMs'') = Fin expires
        \<and> (\<exists>u now u'. clock (ae_e2ee A) u = (Inr now, u') \<and> of_int now < expires)
        \<and> binding_signer A x3dh chain account key
        \<and> b64 A (ne A (getp x3dh ''accountBindingSigB64'')) = Inr sig
        \<and> (\<exists>v v'. sl_verify (ae_seal A) key (signedPayloadBytes A (x3dhBindingPayload (JStr owner)
             (ne A (getp x3dh ''identitySigningPublicKeyB64'')) (numOrZero (getp x3dh ''accountBindingIssuedAtMs''))
             (JNum (Fin expires)))) sig v = (Inr True, v')))"

lemma accepted_bindingI:
  assumes "b64_or_invalid A (ne A (getp x3dh ''accountIdentityPublicKeyB64'')) = Inr account" "ae_deriveAccountId A account = owner"
    "isFinite_num (js_Number (getp x3dh ''accountBindingExpiresAtMs''))"
    "clock (ae_e2ee A) u = (Inr now, u')" "\<not> num_le (js_Number (getp x3dh ''accountBindingExpiresAtMs'')) (Fin (of_int now))"
    "binding_signer A x3dh chain account key" "b64_or_invalid A (ne A (getp x3dh ''accountBindingSigB64'')) = Inr sig"
    "sl_verify (ae_seal A) key (signedPayloadBytes A (x3dhBindingPayload (JStr owner)
       (ne A (getp x3dh ''identitySigningPublicKeyB64'')) (numOrZero (getp x3dh ''accountBindingIssuedAtMs''))
       (JNum (js_Number (getp x3dh ''accountBindingExpiresAtMs''))))) sig v = (Inr ok, v')" "ok"
  shows "accepted_binding A owner x3dh chain"
proof -
  obtain e where e: "js_Number (getp x3dh ''accountBindingExpiresAtMs'') = Fin e" "of_int now < e"
    using later_than [OF assms(3,5)] by blast
  show ?thesis unfolding accepted_binding_def
    by (intro exI conjI) (rule b64_or_invalid_D [OF assms(1)] assms(2,4,6) e b64_or_invalid_D [OF assms(7)]
        assms(8) [unfolded e(1)  eqTrueI [OF assms(9)]])+
qed

lemma returns_verifyBinding:
  "returns (verifyInviteX3dhBinding A ownerAccountId inviteBinding chain)
     (\<lambda>_ _. \<exists>owner. requireId (ae_e2ee A) ownerAccountId ''ownerAccountId'' = Inr owner
        \<and> accepted_binding A owner (getp inviteBinding ''x3dh'') chain) w"
  unfolding verifyInviteX3dhBinding_def Let_def
  by (intro returns_bind returns_lift returns_require returns_conseq [OF returns_bindingVerifyKey] returns_call exI conjI,
      assumption, rule accepted_bindingI) (assumption | simp)+

text \<open>The binding of a peer's X3DH key is accepted only if the account key in it derives the account's
  id, the binding lies in the future of the clock, and a signature over exactly the account, the X3DH
  key and the two times verified under the account key or under a signer whose certificate chain was
  accepted for inviting on behalf of that account.\<close>
theorem accepted_binding_is_signed_for_account:
  assumes "verifyInviteX3dhBinding A ownerAccountId inviteBinding chain w = (Inr (), w')"
  shows "\<exists>owner. requireId (ae_e2ee A) ownerAccountId ''ownerAccountId'' = Inr owner
     \<and> accepted_binding A owner (getp inviteBinding ''x3dh'') chain"
  using returns_verifyBinding [of A ownerAccountId inviteBinding chain w] assms by (simp add: returns_def)

section \<open>Account-state events\<close>

text \<open>The entries an event goes to: with an inbox and a device id, not this device, not this inbox.\<close>

definition sibling :: "string \<Rightarrow> string \<Rightarrow> string \<times> string \<Rightarrow> bool" where
  "sibling own ownDev p \<longleftrightarrow> fst p \<noteq> [] \<and> snd p \<noteq> [] \<and> snd p \<noteq> own \<and> (ownDev \<noteq> [] \<longrightarrow> fst p \<noteq> ownDev)"

lemma sibling_loop_Cons:
  "sibling_loop own ownDev seen (e # es) =
     (if sibling own ownDev (siblingEntry e) \<and> snd (siblingEntry e) \<notin> set seen
      then siblingEntry e # sibling_loop own ownDev (snd (siblingEntry e) # seen) es
      else sibling_loop own ownDev seen es)"
  by (auto simp: sibling_def split: prod.split)

declare sibling_loop.simps(2) [simp del]

lemma sibling_loop_sub: "set (sibling_loop own ownDev seen es) \<subseteq> {p \<in> siblingEntry ` set es. sibling own ownDev p}"
  by (induction es arbitrary: seen) (auto simp: sibling_loop_Cons)

lemma sibling_loop_fresh: "p \<in> set (sibling_loop own ownDev seen es) \<Longrightarrow> snd p \<notin> set seen"
  by (induction es arbitrary: seen) (fastforce simp: sibling_loop_Cons split: if_splits)+

lemma sibling_loop_distinct: "distinct (map snd (sibling_loop own ownDev seen es))"
  using sibling_loop_fresh by (induction es arbitrary: seen) (fastforce simp: sibling_loop_Cons)+

lemma sibling_loop_covers:
  "e \<in> set es \<Longrightarrow> sibling own ownDev (siblingEntry e) \<Longrightarrow> snd (siblingEntry e) \<notin> set seen
    \<Longrightarrow> snd (siblingEntry e) \<in> snd ` set (sibling_loop own ownDev seen es)"
proof (induction es arbitrary: seen)
  case (Cons x xs)
  then show ?case by (cases "snd (siblingEntry e) = snd (siblingEntry x)") (auto simp: sibling_loop_Cons)
qed simp

text \<open>An account-state event goes to exactly the inboxes of the sibling devices: every inbox of a listed
  device other than this device's own inbox and device, each once, and no other.\<close>
theorem siblings_exactly_once:
  "distinct (map snd (siblingInboxesFromDeviceSet (JArr es) ownInboxId ownDeviceId))
   \<and> snd ` set (siblingInboxesFromDeviceSet (JArr es) ownInboxId ownDeviceId)
       = {i. \<exists>d. (d, i) \<in> siblingEntry ` set es \<and> sibling (strTrim ownInboxId) (strTrim ownDeviceId) (d, i)}
   \<and> set (siblingInboxesFromDeviceSet (JArr es) ownInboxId ownDeviceId)
       \<subseteq> {p \<in> siblingEntry ` set es. sibling (strTrim ownInboxId) (strTrim ownDeviceId) p}"
proof -
  let ?own = "strTrim ownInboxId" and ?dev = "strTrim ownDeviceId"
  have "snd ` set (sibling_loop ?own ?dev [] es) = {i. \<exists>d. (d, i) \<in> siblingEntry ` set es \<and> sibling ?own ?dev (d, i)}"
  proof (rule set_eqI, rule iffI)
    fix i assume "i \<in> snd ` set (sibling_loop ?own ?dev [] es)"
    then obtain d where "(d, i) \<in> set (sibling_loop ?own ?dev [] es)" by force
    then show "i \<in> {i. \<exists>d. (d, i) \<in> siblingEntry ` set es \<and> sibling ?own ?dev (d, i)}"
      using subsetD [OF sibling_loop_sub] by fastforce
  next
    fix i assume "i \<in> {i. \<exists>d. (d, i) \<in> siblingEntry ` set es \<and> sibling ?own ?dev (d, i)}"
    then obtain d e where "sibling ?own ?dev (d, i)" "e \<in> set es" "(d, i) = siblingEntry e" by auto
    then show "i \<in> snd ` set (sibling_loop ?own ?dev [] es)"
      using sibling_loop_covers [of e es ?own ?dev "[]"] by (metis empty_iff list.set(1) snd_conv)
  qed
  then show ?thesis
    using sibling_loop_sub [of ?own ?dev "[]" es] sibling_loop_distinct
    by (simp add: siblingInboxesFromDeviceSet_def)
qed

lemma wrapped_envelope_recognized: "wrapAccountStateEnvelope n c = Inr e \<Longrightarrow> isAccountStateEnvelope e"
  by (auto simp: wrapAccountStateEnvelope_def isAccountStateEnvelope_def split: if_splits)

lemma verifyAccountStateEventSig_total: "\<exists>b w'. verifyAccountStateEventSig A msg i pub sig w = (Inr b, w')"
  unfolding verifyAccountStateEventSig_def
  by (auto simp: Let_def catchE_def retE_def split: option.splits sum.splits prod.splits)

text \<open>The check of an event's origin never throws, and it says yes only if the claimed device id is the
  one derived from the claimed device key and the provider accepted the signature over the event
  under that key.\<close>
theorem event_origin_is_proved:
  "\<exists>b w'. verifyAccountStateEventSig A msg originDeviceId originKey sigB64 w = (Inr b, w')
     \<and> (b \<longrightarrow> ae_deviceIdFor A (strTrim originKey) = Inr (strTrim originDeviceId)
          \<and> (\<exists>m. msg = Some m \<and> m \<noteq> [] \<and> verified (ae_seal A) (strTrim originKey) m (strTrim sigB64)))"
proof -
  obtain b w' where run: "verifyAccountStateEventSig A msg originDeviceId originKey sigB64 w = (Inr b, w')"
    using verifyAccountStateEventSig_total [of A msg originDeviceId originKey sigB64 w] by blast
  then show ?thesis
    unfolding verifyAccountStateEventSig_def
    by (cases b) (auto simp: Let_def catchE_def bindE_def liftE_def retE_def throwE_def verified_def
        split: option.splits sum.splits prod.splits if_splits)
qed

section \<open>A concrete service\<close>

text \<open>Ids and strings are taken as they are.\<close>

definition demo_acct :: "(idb, nat) acct_env" where
  "demo_acct = \<lparr>ae_e2ee = demo_env\<lparr>nonEmpty := (\<lambda>v. v),
       requireId := (\<lambda>v label. case v of JStr s \<Rightarrow> Inr s | _ \<Rightarrow> Inl (plain_err label))\<rparr>, ae_seal = demo_seal,
     ae_generateSigningKeyPair = retE (Some \<lparr>kp_public = [65], kp_private = [66]\<rparr>),
     ae_dhGenerateKeyPair = retE (Some \<lparr>kp_public = [67], kp_private = [68]\<rparr>),
     ae_deriveAccountId = (\<lambda>_. ''alice''), ae_deviceIdFor = (\<lambda>_. Inr ''d1''),
     ae_verifyAccountAuthority = (\<lambda>_ _ _ _ _. retE \<lparr>dc_ok = True, dc_reason = [], dc_signerPublicKeyB64 = []\<rparr>)\<rparr>"

text \<open>A service constructed with a seed-derived identity-DH key and the permission to adopt.\<close>

definition demo_acct_svc :: acct_svc where
  "demo_acct_svc = \<lparr>as_ownerAccountId = JStr ''alice'', as_inviteBinding = JNull, as_strictTransitions = False,
     as_deviceId = JNull, as_devicePublicKeyB64 = JNull, as_deviceSigningKeyPair = None,
     as_accountIdentityDhKeyPair = Some (JStr ''np'', JStr ''nq''), as_allowLegacy = True, as_adoptedLegacy = None,
     as_inviteCertChain = None, as_inviteOwnerPublicKeyB64 = JNull, as_hasAdminRoot = True\<rparr>"

text \<open>A stored record with another identity-DH key, and the same record without the private half of
  the signing key.\<close>

definition demo_keys :: "jsval \<Rightarrow> jsval" where
  "demo_keys signingPrivate = JObj
     [(''x3dhKeyMaterial'', JObj [(''publicKeyB64'', JStr ''sp''), (''privateKeyB64'', signingPrivate)]),
      (''x3dhIdentityDhKeyMaterial'', JObj [(''publicKeyB64'', JStr ''dp''), (''privateKeyB64'', JStr ''dq'')]),
      (''identityDhSignatureB64'', JStr ''ds''),
      (''accountBinding'', JObj [(''accountId'', JStr ''alice''), (''accountIdentityPublicKeyB64'', JStr ''B''),
        (''x3dhIdentityPublicKeyB64'', JStr ''sp''), (''issuedAtMs'', JInt 5), (''expiresAtMs'', JInt 9000),
        (''accountBindingSigB64'', JStr ''bs'')])]"

definition demo_keys_db :: "jsval \<Rightarrow> idb" where
  "demo_keys_db signingPrivate = snd (keys_putAccountIdentity (sto demo_acct) (JStr ''alice'') (demo_keys signingPrivate) [])"

text \<open>The proviso that the signing pair is complete matters: with the private half missing, the legacy key is
  validated and adopted, and then the record is written anew with the seed-derived key, so that
  the stored key is replaced after all and differs from the one the service has adopted.\<close>

lemma adopted_key_replaced_without_signing_key:
  "case loadAccountKeyRecord demo_acct (JStr ''alice'') (demo_acct_svc, demo_keys_db JNull) of
     (Inr rcd, (S', w')) \<Rightarrow> as_adoptedLegacy S' = Some (JStr ''dp'', JStr ''dq'') \<and> dhPub rcd = JStr ''np''
       \<and> fst (keys_getAccountIdentity (sto demo_acct) (JStr ''alice'') w') = Inr rcd
   | _ \<Rightarrow> False"
  by code_simp

theorem bound_identity_is_current_witness:
  "\<exists>b s' owner binding. requireBoundX3dhIdentity demo_acct (JStr ''alice'') (demo_acct_svc, demo_keys_db (JStr ''sq'')) = (Inr b, s')
     \<and> binds_now demo_acct owner binding b"
proof -
  have "case fst (requireBoundX3dhIdentity demo_acct (JStr ''alice'') (demo_acct_svc, demo_keys_db (JStr ''sq''))) of
      Inl e \<Rightarrow> False | Inr x \<Rightarrow> True" by code_simp
  then obtain b s' where run:
    "requireBoundX3dhIdentity demo_acct (JStr ''alice'') (demo_acct_svc, demo_keys_db (JStr ''sq'')) = (Inr b, s')"
    by (metis prod.collapse sum.case_eq_if sum.collapse(2))
  from bound_identity_is_current [OF run] run show ?thesis by blast
qed

definition demo_invite :: jsval where
  "demo_invite = JObj [(''x3dh'', JObj [(''accountIdentityPublicKeyB64'', JStr ''B''), (''accountBindingSigB64'', JStr ''bs''),
     (''accountBindingExpiresAtMs'', JInt 9000), (''identitySigningPublicKeyB64'', JStr ''sp'')])]"

theorem accepted_binding_is_signed_for_account_witness:
  "verifyInviteX3dhBinding demo_acct (JStr ''alice'') demo_invite JNull [] = (Inr (), [])
     \<and> (\<exists>owner. accepted_binding demo_acct owner (getp demo_invite ''x3dh'') JNull)"
proof -
  have run: "verifyInviteX3dhBinding demo_acct (JStr ''alice'') demo_invite JNull [] = (Inr (), [])" by code_simp
  from accepted_binding_is_signed_for_account [OF run] run show ?thesis by blast
qed

theorem event_origin_is_proved_witness:
  "\<exists>m. Some [1] = Some m \<and> verified (ae_seal demo_acct) ''k'' m ''s''"
proof -
  have run: "verifyAccountStateEventSig demo_acct (Some [1]) (JStr ''d1'') (JStr ''k'') (JStr ''s'') [] = (Inr True, [])"
    "strTrim (JStr ''k'') = ''k''" "strTrim (JStr ''s'') = ''s''"
    by code_simp+
  from event_origin_is_proved [of demo_acct "Some [1]" "JStr ''d1''" "JStr ''k''" "JStr ''s''" "[]"] run
  show ?thesis by auto
qed

end
