(* ===== verification/Device_Ingest_Props.thy ===== *)
theory Device_Ingest_Props
  imports Device_Ingest Account_Identity_Props "HOL-Library.Multiset"
begin

text \<open>
  The rollback floor of device sets: on the browser storage, where the floor and the sessions share
  one store, the accepted revisions of a peer's device set never go back, and two accepted sets of
  one revision have the same devices.
\<close>

section \<open>Operations that leave a part of the world alone\<close>

text \<open>What ingestion calls apart from the key-value store: the peer-link storage, the clock, the random
  ids and the crypto provider. Key material is stored as an object.\<close>

definition undisturbed :: "('w \<Rightarrow> bool) \<Rightarrow> ('w, 'm) acct_env \<Rightarrow> bool" where
  "undisturbed P A \<longleftrightarrow>
     (\<forall>a b. leaves P (peerLinks_getByPair (sto A) a b))
     \<and> (\<forall>a b c. leaves P (sessions_getByPeerLinkAndDevice (sto A) a b c)) \<and> (\<forall>a. leaves P (sessions_put (sto A) a))
     \<and> (\<forall>a. leaves P (keys_getAccountIdentity (sto A) a)) \<and> (\<forall>a ps. leaves P (keys_putAccountIdentity (sto A) a (JObj ps)))
     \<and> (\<forall>a b. leaves P (keys_getDeviceIdentity (sto A) a b)) \<and> (\<forall>a b ps. leaves P (keys_putDeviceIdentity (sto A) a b (JObj ps)))
     \<and> leaves P (clock (ae_e2ee A)) \<and> leaves P (runtimeUuid (ae_e2ee A)) \<and> (\<forall>a b. leaves P (signBytes (ae_e2ee A) a b))
     \<and> (\<forall>a b c d e f. leaves P (processAcceptedInvite (ae_e2ee A) a b c d e f))
     \<and> leaves P (ae_generateSigningKeyPair A) \<and> leaves P (ae_dhGenerateKeyPair A)
     \<and> (\<forall>a b. leaves P (sl_dhDerive (ae_seal A) a b)) \<and> (\<forall>a b c. leaves P (sl_hkdf (ae_seal A) a b c))
     \<and> (\<forall>a b c d. leaves P (sl_aeadDecrypt (ae_seal A) a b c d)) \<and> (\<forall>a b c. leaves P (sl_verify (ae_seal A) a b c))
     \<and> (\<forall>a b c. leaves P (sl_verifyDurable (ae_seal A) a b c))"

lemma undisturbedD:
  assumes "undisturbed P A"
  shows "leaves P (peerLinks_getByPair (sto A) a b)"
    "leaves P (sessions_getByPeerLinkAndDevice (sto A) a b c)" "leaves P (sessions_put (sto A) a)"
    "leaves P (keys_getAccountIdentity (sto A) a)" "leaves P (keys_putAccountIdentity (sto A) a (JObj ps))"
    "leaves P (keys_getDeviceIdentity (sto A) a b)" "leaves P (keys_putDeviceIdentity (sto A) a b (JObj ps))"
    "leaves P (clock (ae_e2ee A))" "leaves P (runtimeUuid (ae_e2ee A))" "leaves P (signBytes (ae_e2ee A) k msg)"
    "leaves P (processAcceptedInvite (ae_e2ee A) m j p kp dh sg)"
    "leaves P (ae_generateSigningKeyPair A)" "leaves P (ae_dhGenerateKeyPair A)"
    "leaves P (sl_dhDerive (ae_seal A) k msg)" "leaves P (sl_hkdf (ae_seal A) k msg n)"
    "leaves P (sl_aeadDecrypt (ae_seal A) k msg s t)" "leaves P (sl_verify (ae_seal A) k msg s)"
    "leaves P (sl_verifyDurable (ae_seal A) a q b)"
  by (use assms in \<open>simp add: undisturbed_def\<close>)+

lemma normalized_object: "\<exists>ps. normalizeStoredAccountKeyRecord A stored = JObj ps"
  by (simp add: normalizeStoredAccountKeyRecord_def Let_def)

lemma leaves_normalized:
  "undisturbed P A \<Longrightarrow> leaves P (keys_putAccountIdentity (sto A) a (normalizeStoredAccountKeyRecord A stored))"
  using normalized_object [of A stored] undisturbedD(5) by auto

text \<open>The interface: a world in which the calls leave \<open>P\<close> alone. Every operation built from them does.\<close>

locale bystander =
  fixes P :: "'w \<Rightarrow> bool" and A :: "('w, 'm) acct_env"
  assumes calm: "undisturbed P A"
begin

lemmas leave_all = leave_rules undisturbedD [OF calm] leaves_normalized [OF calm]

lemma leaves_validateLegacy: "leaves P (validateLegacyForAdoption A owner rcd)"
  unfolding validateLegacyForAdoption_def validateLegacyRecord_def probeKeyPair_def Let_def by (intro leave_all)

lemma leaves_mint: "leaves P (mintAccountKeys A owner stored r dh)"
  unfolding mintAccountKeys_def Let_def by (intro leave_all)

lemma leaves_load: "leaves (\<lambda>s. P (snd s)) (loadAccountKeyRecord A accountId)"
  unfolding loadAccountKeyRecord_def adoptLegacy_def Let_def by (intro leave_all leaves_validateLegacy leaves_mint)

lemma leaves_boundFrom: "leaves P (boundFrom A owner rcd)"
  unfolding boundFrom_def Let_def by (intro leave_all)

lemma leaves_requireBound: "leaves (\<lambda>s. P (snd s)) (requireBoundX3dhIdentity A accountId)"
  unfolding requireBoundX3dhIdentity_def primeAccountBindingChallenge_def by (intro leave_all leaves_load leaves_boundFrom)

lemma leaves_loadDeviceIdentity: "leaves (\<lambda>s. P (snd s)) (loadDeviceIdentity A)"
  unfolding loadDeviceIdentity_def Let_def by (intro leave_all)

lemma leaves_persist: "leaves P (persistDeviceSession (ae_e2ee A) a b c d e)"
  unfolding persistDeviceSession_def Let_def by (intro leave_all)

lemma leaves_establish: "leaves P (establishInitiatorDeviceSession (ae_e2ee A) a b c d e f g)"
  unfolding establishInitiatorDeviceSession_def by (intro leave_all leaves_persist)

lemma leaves_svc_establish: "leaves (\<lambda>s. P (snd s)) (svc_establishInitiator A a b c d e)"
  unfolding svc_establishInitiator_def by (intro leave_all leaves_loadDeviceIdentity leaves_establish)

lemma leaves_establish_loop: "leaves (\<lambda>s. P (snd s)) (establish_loop A owner peer link bs)"
proof (induction bs)
  case (Cons b bs)
  then show ?case by simp (intro leave_all leaves_svc_establish)
qed (simp add: leaves_def)

lemma leaves_context: "leaves P (requirePeerDeviceSetContext A a b)"
  unfolding requirePeerDeviceSetContext_def Let_def by (intro leave_all)

lemma leaves_bundle_loop: "leaves P (bundle_loop (ae_seal A) ds account now skew seen raws)"
proof (induction raws arbitrary: seen)
  case (Cons raw raws)
  then show ?case by (simp add: checkBundle_def) (intro leave_all)
qed (simp add: leaves_def)

lemma leaves_open: "leaves P (openSealedDeviceSetRecord (ae_seal A) rcd a b c d e f g)"
  unfolding openSealedDeviceSetRecord_def openEnvelope_def checkSet_def derivePeerScopedKey_def openFromPeer_def Let_def
  by (intro leave_all leaves_bundle_loop)

end

section \<open>One ingestion\<close>

text \<open>All floors of an owner: what is stored under the floor keys.\<close>

definition floors_are :: "('w \<Rightarrow> bool) \<Rightarrow> ('w \<Rightarrow> string \<Rightarrow> jsval) \<Rightarrow> (string \<Rightarrow> jsval) \<Rightarrow> 'w \<Rightarrow> bool" where
  "floors_are ok view F w \<longleftrightarrow> ok w \<and> (\<forall>k. view w (''peer-link:device-set-floor:'' @ k) = F k)"

definition slot :: "string \<Rightarrow> string \<Rightarrow> string" where
  "slot owner peer = owner @ '':'' @ peer"

lemma floorKey_slot: "deviceSetFloorKey owner peer = ''peer-link:device-set-floor:'' @ slot owner peer"
  by (simp add: deviceSetFloorKey_def slot_def)

text \<open>A floor before and after a set with a revision and a binding was accepted.\<close>

definition floor_step :: "int \<times> string option \<Rightarrow> int \<Rightarrow> string \<Rightarrow> int \<times> string option \<Rightarrow> bool" where
  "floor_step fl r b fl' \<longleftrightarrow> (0 < fst fl \<longrightarrow> fst fl \<le> r) \<and> fst fl' = max (fst fl) r
     \<and> (r = fst fl \<longrightarrow> snd fl = None \<or> snd fl = Some [] \<or> snd fl = Some b)
     \<and> (1 \<le> r \<longrightarrow> snd fl' = Some b)"

definition ingest_post ::
    "('w \<Rightarrow> bool) \<Rightarrow> ('w \<Rightarrow> string \<Rightarrow> jsval) \<Rightarrow> (string \<Rightarrow> jsval) \<Rightarrow> string \<Rightarrow> (device_set \<Rightarrow> string)
      \<Rightarrow> js_err + ingested \<Rightarrow> acct_svc \<times> 'w \<Rightarrow> bool" where
  "ingest_post ok view F k bnd r t = (case r of
      Inl e \<Rightarrow> floors_are ok view F (snd t)
    | Inr x \<Rightarrow> (\<exists>v. floors_are ok view (F(k := v)) (snd t)
        \<and> floor_step (floorOf (F k)) (dset_revision (in_deviceSet x)) (bnd (in_deviceSet x)) (floorOf v)))"

lemma floorOf_saved:
  "floorOf (JObj [(''revision'', JInt r), (''binding'', JStr b)]) = (if 1 \<le> r then r else 0, Some b)"
  by (simp add: floorOf_def positiveInteger_def)

lemma floorOf_nonneg: "0 \<le> fst (floorOf v)"
  by (auto simp: floorOf_def positiveInteger_def Let_def split: option.splits jsval.splits jnum.splits if_splits)

text \<open>A history of ingestions of one account; the sets that were accepted, each with its peer.\<close>

fun ingest_all ::
    "('w, 'm) acct_env \<Rightarrow> (string \<Rightarrow> string \<Rightarrow> bool) \<Rightarrow> 'w kv_ops \<Rightarrow> jsval \<Rightarrow> ingest_args list \<Rightarrow> acct_svc \<times> 'w
      \<Rightarrow> (string \<times> ingested) list" where
  "ingest_all A collate K ownerId [] s = []"
| "ingest_all A collate K ownerId (a # as) s =
     (case ingestPeerDeviceSet A collate K ownerId a s of
        (Inl e, s') \<Rightarrow> ingest_all A collate K ownerId as s'
      | (Inr x, s') \<Rightarrow>
          (case requireId (ae_e2ee A) (ig_peerAccountId a) ''peerAccountId'' of
             Inl e \<Rightarrow> ingest_all A collate K ownerId as s'
           | Inr peer \<Rightarrow> (peer, x) # ingest_all A collate K ownerId as s'))"

abbreviation rev_of :: "ingested \<Rightarrow> int" where
  "rev_of x \<equiv> dset_revision (in_deviceSet x)"

text \<open>A set accepted over a floor: not below it, and at it only with the same binding.\<close>

definition above :: "int \<times> string option \<Rightarrow> int \<Rightarrow> string \<Rightarrow> bool" where
  "above fl r b \<longleftrightarrow> (1 \<le> fst fl \<longrightarrow> fst fl \<le> r \<and> (\<forall>c. r = fst fl \<longrightarrow> snd fl = Some c \<longrightarrow> c \<noteq> [] \<longrightarrow> b = c))"

lemma above_first: "floor_step fl r b fl' \<Longrightarrow> above fl r b"
  by (auto simp: floor_step_def above_def)

lemma above_later:
  assumes "floor_step fl r b fl'" "above fl' r2 b2" "0 \<le> fst fl" "b \<noteq> []"
  shows "above fl r2 b2"
proof (cases "1 \<le> fst fl")
  case True
  then have r: "fst fl \<le> r" "fst fl' = r" using assms(1) by (auto simp: floor_step_def)
  then show ?thesis using assms True by (auto simp: floor_step_def above_def)
qed (simp add: above_def)

lemma slot_inject [simp]: "slot owner p = slot owner q \<longleftrightarrow> p = q"
  by (simp add: slot_def)

locale floor_store = kv_store K view ok
  for K :: "'w kv_ops" and view :: "'w \<Rightarrow> string \<Rightarrow> jsval" and ok :: "'w \<Rightarrow> bool" +
  fixes A :: "('w, 'm) acct_env"
  assumes apart: "undisturbed (floors_are ok view F) A"
begin

lemma bystander: "bystander (floors_are ok view F) A"
  by unfold_locales (rule apart)

lemma load_floor: "floors_are ok view F w \<Longrightarrow> loadDeviceSetFloor K owner peer w = (Inr (floorOf (F (slot owner peer))), w)"
  by (simp add: loadDeviceSetFloor_def floorKey_slot floors_are_def bindE_def get_law)

lemma save_floor:
  assumes "floors_are ok view F w"
  obtains w' where "saveDeviceSetFloor K owner peer r b w = (Inr (), w')"
    "floors_are ok view (F(slot owner peer := JObj [(''revision'', JInt r), (''binding'', if b = [] then JNull else JStr b)])) w'"
proof -
  have ok: "ok w" using assms by (simp add: floors_are_def)
  have "json_clean (JObj [(''revision'', JInt r), (''binding'', if b = [] then JNull else JStr b)])" by simp
  from set_run [OF ok this] obtain w' where "saveDeviceSetFloor K owner peer r b w = (Inr (), w')" "ok w'"
    "view w' = (view w)(deviceSetFloorKey owner peer := JObj [(''revision'', JInt r), (''binding'', if b = [] then JNull else JStr b)])"
    unfolding saveDeviceSetFloor_def by blast
  with assms show ?thesis by (intro that) (auto simp: floors_are_def floorKey_slot)
qed

lemma ingest_locked_post:
  assumes "floors_are ok view F w" "bnd ds \<noteq> []"
  shows "runs (ingest_locked A K owner peer link passed (bnd ds) ds bs) (ingest_post ok view F (slot owner peer) bnd) (S, w)"
proof -
  obtain n b where f: "floorOf (F (slot owner peer)) = (n, b)" by (cases "floorOf (F (slot owner peer))")
  have n: "0 \<le> n" using floorOf_nonneg [of "F (slot owner peer)"] f by simp
  let ?P = "floors_are ok view F" and ?Q = "ingest_post ok view F (slot owner peer) bnd"
  let ?bound = "case b of Some b \<Rightarrow> b \<noteq> [] | None \<Rightarrow> False" and ?r = "dset_revision ds"
  let ?out = "\<lambda>e u. \<lparr>in_deviceSet = ds, in_bundles = bs, in_established = e, in_reused = u\<rparr>"
  have same: "?Q (Inr (?out e u)) (T, v)" if "?P v" "?r = n" "?bound" "b = Some (bnd ds)" for e u T v
    using that f by (auto simp: ingest_post_def floor_step_def intro!: exI [of _ "F (slot owner peer)"])
  have below: "?Q (Inr (?out e u)) (T, v)" if "?P v" "?r < n" "\<not> 0 < n" for e u T v
    using that f n by (auto simp: ingest_post_def floor_step_def intro!: exI [of _ "F (slot owner peer)"])
  have saved: "runs (bindE (ext (saveDeviceSetFloor K owner peer ?r (bnd ds))) (\<lambda>_. retE (?out e u))) ?Q (T, v)"
    if P: "?P v" and r: "n < ?r \<or> ?r = n \<and> \<not> ?bound" for e u T v
  proof -
    obtain v' where sv: "saveDeviceSetFloor K owner peer ?r (bnd ds) v = (Inr (), v')"
      "floors_are ok view (F(slot owner peer := JObj [(''revision'', JInt ?r), (''binding'', if bnd ds = [] then JNull else JStr (bnd ds))])) v'"
      by (rule save_floor [OF P])
    have "floor_step (n, b) ?r (bnd ds) (if 1 \<le> ?r then ?r else 0, Some (bnd ds))"
      using r n by (cases b) (auto simp: floor_step_def)
    with sv f assms(2) show ?thesis
      by (auto simp: runs_def bindE_def ext_def ingest_post_def floorOf_saved simp del: fun_upd_apply
          intro!: exI [of _ "JObj [(''revision'', JInt ?r), (''binding'', JStr (bnd ds))]"])
  qed
  have after: "runs (bindE (if ?r > n then ext (saveDeviceSetFloor K owner peer ?r (bnd ds))
             else if ?r = n \<and> \<not> ?bound then ext (saveDeviceSetFloor K owner peer ?r (bnd ds))
             else retE ()) (\<lambda>_. retE (?out e u))) ?Q (T, v)"
    if "?P v" "\<not> (max n passed > 0 \<and> ?r < max n passed)" "\<not> (?r = n \<and> ?bound \<and> Some (bnd ds) \<noteq> b)" for e u T v
  proof (cases "n < ?r \<or> ?r = n \<and> \<not> ?bound")
    case True
    then show ?thesis using saved [OF that(1) True] by auto
  next
    case False
    have "?Q (Inr (?out e u)) (T, v)"
    proof (cases "?r = n")
      case True
      with False that(3) have "?bound" "b = Some (bnd ds)" by auto
      then show ?thesis by (rule same [OF that(1) True])
    next
      case r: False
      with False that(2) have "?r < n" "\<not> 0 < n" by auto
      then show ?thesis by (rule below [OF that(1)])
    qed
    then have "runs (retE (?out e u)) ?Q (T, v)" by (rule runs_ret)
    with False show ?thesis by (auto simp: runs_def bindE_def)
  qed
  have load: "ext (loadDeviceSetFloor K owner peer) (S, w) = (Inr (n, b), (S, w))"
    using f by (simp add: ext_def load_floor [OF assms(1)])
  have err: "?Q (Inl e) t" if "?P (snd t)" for e t
    using that by (simp add: ingest_post_def)
  note loop = runs_past [OF bystander.leaves_establish_loop [OF bystander [where F = F]], where s = "(S, w)"]
  show ?thesis
    unfolding ingest_locked_def Let_def
  proof (rule runs_step, rule load, unfold prod.case, rule runs_require, rule runs_require, rule loop)
    show "?P (snd (S, w))" by (simp add: assms(1))
    show "?Q (Inl e) t" if "?P (snd t)" for e t by (rule err [OF that])
  qed (use assms(1) after in \<open>auto intro!: err split: prod.split\<close>)
qed

lemma ingest_post_run:
  assumes "floors_are ok view F w" "\<And>ds. deviceSetAuthorityBinding A collate ds \<noteq> []"
    and "requireId (ae_e2ee A) ownerId ''ownerAccountId'' = Inr owner"
    and "requireId (ae_e2ee A) (ig_peerAccountId a) ''peerAccountId'' = Inr peer"
  shows "runs (ingestPeerDeviceSet A collate K ownerId a)
     (ingest_post ok view F (slot owner peer) (deviceSetAuthorityBinding A collate)) (S, w)"
proof -
  let ?P = "\<lambda>s :: acct_svc \<times> 'w. floors_are ok view F (snd s)" and ?bnd = "deviceSetAuthorityBinding A collate"
  let ?Q = "ingest_post ok view F (slot owner peer) ?bnd"
  note bys = bystander [where F = F]
  have err: "?Q (Inl e) t" if "?P t" for e t
    using that by (simp add: ingest_post_def)
  have locked: "runs (ingest_locked A K owner peer link n (?bnd ds) ds bs) ?Q t" if "?P t" for link n ds bs t
    using that ingest_locked_post [of F "snd t" ?bnd ds owner peer link n bs "fst t"] assms(2) by simp
  have pre: "leaves ?P (ext (clock (ae_e2ee A)))" "leaves ?P (ext (requirePeerDeviceSetContext A x y))"
    "leaves ?P (requireBoundX3dhIdentity A x)" "leaves ?P (ext (openSealedDeviceSetRecord (ae_seal A) r a' b c d e f g))"
    "leaves ?P (getsE h :: (_, acct_svc) io)" "leaves ?P (liftE q :: (_, 'z) io)" for x y r a' b c d e f g h q
    using bystander.leaves_requireBound [OF bys] leaves_ext [OF undisturbedD(8) [OF apart]]
      leaves_ext [OF bystander.leaves_context [OF bys]] leaves_ext [OF bystander.leaves_open [OF bys]] leaves_gets leaves_basic(3)
    by (fast+)
  show ?thesis
    unfolding ingestPeerDeviceSet_def Let_def assms(3,4) liftE_Inr
    apply (rule runs_past [OF pre(5)], simp add: assms(1), erule err)
    apply (rule runs_past [OF pre(6)], assumption, erule err)
    apply (rule runs_step, rule retE_run, rule runs_step, rule retE_run)
    apply (rule runs_past [OF pre(1)], assumption, erule err)
    apply (rule runs_past [OF pre(2)], assumption, erule err)
    apply (rule runs_past [OF pre(3)], assumption, erule err)
    apply (rule runs_past [OF pre(4)], assumption, erule err)
    by (auto split: prod.split intro: locked)
qed

lemma ingest_refused:
  assumes "requireId (ae_e2ee A) (ig_peerAccountId a) ''peerAccountId'' = Inl e"
  obtains e' where "ingestPeerDeviceSet A collate K ownerId a s = (Inl e', s)"
  using assms
  by (cases s; cases "requireDeviceSessions (fst s)"; cases "requireId (ae_e2ee A) ownerId ''ownerAccountId''")
    (auto simp: ingestPeerDeviceSet_def bindE_def getsE_def)

text \<open>One step of a history.\<close>

lemma ingest_step:
  assumes F: "floors_are ok view F w" and bnd: "\<And>ds. deviceSetAuthorityBinding A collate ds \<noteq> []"
    and owner: "requireId (ae_e2ee A) ownerId ''ownerAccountId'' = Inr owner"
  obtains (refused) S' w' where "floors_are ok view F w'"
      "ingest_all A collate K ownerId (a # as) (S, w) = ingest_all A collate K ownerId as (S', w')"
    | (accepted) peer x v S' w' where "floors_are ok view (F(slot owner peer := v)) w'"
      "floor_step (floorOf (F (slot owner peer))) (rev_of x) (deviceSetAuthorityBinding A collate (in_deviceSet x)) (floorOf v)"
      "ingest_all A collate K ownerId (a # as) (S, w) = (peer, x) # ingest_all A collate K ownerId as (S', w')"
proof (cases "requireId (ae_e2ee A) (ig_peerAccountId a) ''peerAccountId''")
  case (Inl e)
  then obtain e' where "ingestPeerDeviceSet A collate K ownerId a (S, w) = (Inl e', (S, w))"
    by (rule ingest_refused)
  then show ?thesis by (intro refused [OF F]) simp
next
  case (Inr peer)
  obtain r S' w' where run: "ingestPeerDeviceSet A collate K ownerId a (S, w) = (r, (S', w'))"
    by (metis prod_cases3)
  have post: "ingest_post ok view F (slot owner peer) (deviceSetAuthorityBinding A collate) r (S', w')"
    using ingest_post_run [OF F bnd owner Inr] run by (simp add: runs_def)
  show ?thesis
  proof (cases r)
    case (Inl e)
    with post run show ?thesis by (intro refused [of w' S']) (simp_all add: ingest_post_def)
  next
    case (Inr x)
    with post obtain v where "floors_are ok view (F(slot owner peer := v)) w'"
      "floor_step (floorOf (F (slot owner peer))) (rev_of x) (deviceSetAuthorityBinding A collate (in_deviceSet x)) (floorOf v)"
      by (auto simp: ingest_post_def)
    then show ?thesis using run Inr \<open>requireId (ae_e2ee A) (ig_peerAccountId a) ''peerAccountId'' = Inr peer\<close>
      by (intro accepted) simp_all
  qed
qed

lemma accepted_above_floor:
  assumes "floors_are ok view F w" and bnd: "\<And>ds. deviceSetAuthorityBinding A collate ds \<noteq> []"
    and owner: "requireId (ae_e2ee A) ownerId ''ownerAccountId'' = Inr owner"
    and "(p, y) \<in> set (ingest_all A collate K ownerId as (S, w))"
  shows "above (floorOf (F (slot owner p))) (rev_of y) (deviceSetAuthorityBinding A collate (in_deviceSet y))"
  using assms(1,4)
proof (induction as arbitrary: F S w)
  case (Cons a as)
  show ?case
  proof (cases rule: ingest_step [OF Cons.prems(1) bnd owner, of a as S, case_names refused accepted])
    case (refused S' w')
    show ?thesis by (rule Cons.IH [OF refused(1)]) (use Cons.prems(2) refused(2) in \<open>simp only:\<close>)
  next
    case (accepted peer x v S' w')
    from Cons.prems(2) consider "p = peer" "y = x" | "(p, y) \<in> set (ingest_all A collate K ownerId as (S', w'))"
      unfolding accepted(3) by auto
    then show ?thesis
    proof cases
      case 1
      with accepted(2) show ?thesis by (auto intro: above_first)
    next
      case 2
      from Cons.IH [OF accepted(1) 2] accepted(2) show ?thesis
        by (cases "p = peer") (auto intro: above_later [OF _ _ floorOf_nonneg bnd])
    qed
  qed
qed simp

lemma accepted_history:
  assumes "floors_are ok view F w" and bnd: "\<And>ds. deviceSetAuthorityBinding A collate ds \<noteq> []"
    and owner: "requireId (ae_e2ee A) ownerId ''ownerAccountId'' = Inr owner"
  shows "sorted_wrt (\<lambda>(p, x) (q, y). p = q \<longrightarrow> 1 \<le> rev_of x \<longrightarrow> rev_of x \<le> rev_of y
      \<and> (rev_of x = rev_of y \<longrightarrow> deviceSetAuthorityBinding A collate (in_deviceSet x) = deviceSetAuthorityBinding A collate (in_deviceSet y)))
    (ingest_all A collate K ownerId as (S, w))"
  using assms(1)
proof (induction as arbitrary: F S w)
  case (Cons a as)
  show ?case
  proof (cases rule: ingest_step [OF Cons.prems bnd owner, of a as S, case_names refused accepted])
    case (refused S' w')
    show ?thesis unfolding refused(2) by (rule Cons.IH [OF refused(1)])
  next
    case (accepted peer x v S' w')
    have "rev_of x \<le> rev_of y \<and> (rev_of x = rev_of y \<longrightarrow>
        deviceSetAuthorityBinding A collate (in_deviceSet x) = deviceSetAuthorityBinding A collate (in_deviceSet y))"
      if "(peer, y) \<in> set (ingest_all A collate K ownerId as (S', w'))" "1 \<le> rev_of x" for y
      using accepted_above_floor [OF accepted(1) bnd owner that(1)] accepted(2) bnd that(2)
        floorOf_nonneg [of "F (slot owner peer)"]
      by (auto simp: above_def floor_step_def)
    with Cons.IH [OF accepted(1)] show ?thesis unfolding accepted(3) by auto
  qed
qed simp

end

section \<open>The browser storage\<close>

text \<open>In the browser the floors and the peer-link records share one store; they do not share keys.\<close>

lemma leaves_lift_bind: "(\<And>x. r = Inr x \<Longrightarrow> leaves P (f x)) \<Longrightarrow> leaves P (bindE (liftE r) f)"
  by (cases r) (auto simp: leaves_def bindE_def)

definition other_key :: "string \<Rightarrow> bool" where
  "other_key k \<longleftrightarrow> (\<forall>x. k \<noteq> ''peer-link:device-set-floor:'' @ x)"

lemma storage_keys_other:
  "ss_recordKey a b = Inr k \<Longrightarrow> other_key k" "ss_indexKey a b = Inr k \<Longrightarrow> other_key k"
  "ss_deviceIndexKey a b c = Inr k \<Longrightarrow> other_key k" "km_identityKey a = Inr k \<Longrightarrow> other_key k"
  "km_deviceIdentityKey a b = Inr k \<Longrightarrow> other_key k"
  by (auto simp: ss_recordKey_def ss_indexKey_def ss_deviceIndexKey_def km_identityKey_def km_deviceIdentityKey_def
      other_key_def dest!: bind_r_InrD)

context kv_store
begin

lemma leaves_get: "leaves (floors_are inv view F) (kv_get K k)"
  by (auto simp: leaves_def floors_are_def get_law)

lemma leaves_set:
  assumes "other_key k" "json_clean v" "v \<noteq> JNull"
  shows "leaves (floors_are inv view F) (kv_set K k v)"
  unfolding leaves_def
proof (intro allI impI)
  fix w assume F: "floors_are inv view F w"
  then have "inv w" by (simp add: floors_are_def)
  from set_run [OF this assms(2,3)] obtain w' where "kv_set K k v w = (Inr (), w')" "inv w'" "view w' = (view w)(k := v)" .
  with F assms(1) show "floors_are inv view F (snd (kv_set K k v w))" by (auto simp: floors_are_def other_key_def)
qed

lemmas leave_store = leaves_lift_bind leave_rules leaves_get leaves_set

lemma leaves_reads:
  "leaves (floors_are inv view F) (pl_getByPair K a b)" "leaves (floors_are inv view F) (ss_getByPeerLinkAndDevice K a b c)"
  "leaves (floors_are inv view F) (km_get K key)"
  unfolding pl_getByPair_def pl_getById_def ss_getByPeerLinkAndDevice_def ss_getById_def km_get_def by (intro leave_store)+

lemma leaves_km_put: "(\<And>k. key = Inr k \<Longrightarrow> other_key k) \<Longrightarrow> leaves (floors_are inv view F) (km_put K key (JObj ps))"
  using cloneJsonValue_object [of "JObj ps"] unfolding km_put_def Let_def by (intro leave_store) auto

lemma leaves_ss_put: "leaves (floors_are inv view F) (ss_put K rcd)"
proof (cases "is_plain_object rcd")
  case True
  then show ?thesis
    using ss_next_facts [OF True] unfolding ss_put_def Let_def ss_next_def [symmetric]
    by (intro leave_store) (auto intro: storage_keys_other)
qed (simp add: ss_put_def assertRecord_def leaves_def bindE_def)

end

text \<open>The clock, the random ids and the crypto provider do not touch the database.\<close>

definition crypto_apart :: "('w, 'm) acct_env \<Rightarrow> bool" where
  "crypto_apart A \<longleftrightarrow> (\<forall>w. snd (clock (ae_e2ee A) w) = w) \<and> (\<forall>w. snd (runtimeUuid (ae_e2ee A) w) = w)
     \<and> (\<forall>k m w. snd (signBytes (ae_e2ee A) k m w) = w)
     \<and> (\<forall>a b c d e f w. snd (processAcceptedInvite (ae_e2ee A) a b c d e f w) = w)
     \<and> (\<forall>w. snd (ae_generateSigningKeyPair A w) = w) \<and> (\<forall>w. snd (ae_dhGenerateKeyPair A w) = w)
     \<and> (\<forall>a b w. snd (sl_dhDerive (ae_seal A) a b w) = w) \<and> (\<forall>a b c w. snd (sl_hkdf (ae_seal A) a b c w) = w)
     \<and> (\<forall>a b c d w. snd (sl_aeadDecrypt (ae_seal A) a b c d w) = w) \<and> (\<forall>a b c w. snd (sl_verify (ae_seal A) a b c w) = w)
     \<and> (\<forall>a b c w. snd (sl_verifyDurable (ae_seal A) a b c w) = w)"

lemma storage_ops:
  "peerLinks_getByPair (getPeerLinkStorage c o1) = pl_getByPair (absenceNormalizingStore (idb_kv (owner_part o1)))"
  "sessions_getByPeerLinkAndDevice (getPeerLinkStorage c o1) = ss_getByPeerLinkAndDevice (absenceNormalizingStore (idb_kv (owner_part o1)))"
  "sessions_put (getPeerLinkStorage c o1) = ss_put (absenceNormalizingStore (idb_kv (owner_part o1)))"
  "keys_getAccountIdentity (getPeerLinkStorage c o1) = getAccountIdentity (absenceNormalizingStore (idb_kv (owner_part o1)))"
  "keys_putAccountIdentity (getPeerLinkStorage c o1) = putAccountIdentity (absenceNormalizingStore (idb_kv (owner_part o1)))"
  "keys_getDeviceIdentity (getPeerLinkStorage c o1) = getDeviceIdentity (absenceNormalizingStore (idb_kv (owner_part o1)))"
  "keys_putDeviceIdentity (getPeerLinkStorage c o1) = putDeviceIdentity (absenceNormalizingStore (idb_kv (owner_part o1)))"
  by (simp_all add: getPeerLinkStorage_def createKeyValueBackedPeerLinkStorage_def getKeyValueStore_def Let_def)

lemma browser_floors_apart:
  assumes "sto A = getPeerLinkStorage c o1" "crypto_apart A"
  shows "undisturbed (floors_are idb_inv (idb_view (owner_part o1)) F) A"
  unfolding undisturbed_def assms(1) storage_ops
    getAccountIdentity_def putAccountIdentity_def getDeviceIdentity_def putDeviceIdentity_def
  using assms(2) unfolding crypto_apart_def
  by (intro conjI allI idbh.nrm.leaves_reads idbh.nrm.leaves_ss_put idbh.nrm.leaves_km_put)
    (simp_all add: leaves_def storage_keys_other)

lemma browser_floor_store:
  assumes "sto A = getPeerLinkStorage c o1" "crypto_apart A"
  shows "floor_store (getKeyValueStore o1) (idb_view (owner_part o1)) idb_inv A"
  unfolding floor_store_def floor_store_axioms_def getKeyValueStore_def
  by (intro conjI idb.kv_store_axioms allI browser_floors_apart [OF assms])

text \<open>What the hash stands for: the JSON value of an account, a revision and an ordered list of devices.\<close>

definition authority_payload :: "jsval \<Rightarrow> jsval \<Rightarrow> string \<Rightarrow> int \<Rightarrow> device_entry list \<Rightarrow> jsval" where
  "authority_payload v purpose account revision devices = JObj [(''v'', v), (''purpose'', purpose),
     (''accountIdentityPublicKeyB64'', JStr account), (''revision'', JInt revision),
     (''devices'', JArr (map (\<lambda>d. JObj [(''deviceId'', JStr (de_deviceId d)),
        (''devicePublicKeyB64'', JStr (de_devicePublicKeyB64 d)), (''inboxId'', JStr (de_inboxId d))]) devices))]"

text \<open>SHA-256 of canonical JSON has no collisions on such values, and is never empty.\<close>

definition collision_free :: "('w, 'm) e2ee_env \<Rightarrow> bool" where
  "collision_free E \<longleftrightarrow> (\<forall>s. sha256Hex E s \<noteq> []) \<and>
     (\<forall>v p a r ds v' p' a' r' ds'. sha256Hex E (canonicalJSON E (authority_payload v p a r ds))
        = sha256Hex E (canonicalJSON E (authority_payload v' p' a' r' ds')) \<longrightarrow> a = a' \<and> ds = ds')"

lemma collision_freeD:
  assumes "collision_free E"
    "sha256Hex E (canonicalJSON E (authority_payload v p a r ds)) = sha256Hex E (canonicalJSON E (authority_payload v' p' a' r' ds'))"
  shows "a = a'" "ds = ds'"
  using assms unfolding collision_free_def by blast+

lemma collision_free_nonempty: "collision_free E \<Longrightarrow> sha256Hex E s \<noteq> []"
  unfolding collision_free_def by (elim conjE) (erule spec)

lemma mset_insert_by: "mset (insert_by le x xs) = add_mset x (mset xs)"
  by (induction xs) auto

lemma mset_sort_by [simp]: "mset (sort_by le xs) = mset xs"
  by (induction xs) (simp_all add: sort_by_def mset_insert_by)

lemma same_binding:
  assumes "collision_free (ae_e2ee A)" "deviceSetAuthorityBinding A collate x = deviceSetAuthorityBinding A collate y"
  shows "dset_account x = dset_account y \<and> mset (dset_devices x) = mset (dset_devices y)"
proof -
  let ?sorted = "\<lambda>z. sort_by (\<lambda>a b. collate (de_deviceId a) (de_deviceId b)) (dset_devices z)"
  let ?hash = "\<lambda>z. sha256Hex (ae_e2ee A) (canonicalJSON (ae_e2ee A)
    (authority_payload (dset_v z) (dset_purpose z) (dset_account z) (dset_revision z) (?sorted z)))"
  have "?hash x = ?hash y" using assms(2) by (simp only: deviceSetAuthorityBinding_def Let_def authority_payload_def)
  note eq = collision_freeD [OF assms(1) this]
  from arg_cong [OF eq(2), of mset] eq(1) show ?thesis by simp
qed

text \<open>C5. On the browser storage, over any history of ingestions of device sets of any peers, with any of
  them refused or failing, the sets accepted from one peer at a revision of 1 or more never go back:
  a later one has no lower revision, and one with the same revision names the same account and the
  same devices, each with the same device key and inbox. So no two different memberships are ever
  accepted at one revision. This holds for each peer separately and from any state of the database, so
  also across restarts. It rests on SHA-256 over canonical JSON having no collisions.\<close>
theorem device_sets_never_roll_back:
  assumes "sto A = getPeerLinkStorage c o1" "crypto_apart A" "collision_free (ae_e2ee A)"
    and "requireId (ae_e2ee A) ownerId ''ownerAccountId'' = Inr owner" "idb_inv db"
  shows "sorted_wrt (\<lambda>(p, x) (q, y). p = q \<longrightarrow> 1 \<le> rev_of x \<longrightarrow> rev_of x \<le> rev_of y
      \<and> (rev_of x = rev_of y \<longrightarrow> dset_account (in_deviceSet x) = dset_account (in_deviceSet y)
           \<and> mset (dset_devices (in_deviceSet x)) = mset (dset_devices (in_deviceSet y))))
    (ingest_all A collate (getKeyValueStore o1) ownerId as (S, db))"
proof -
  have floors: "floors_are idb_inv (idb_view (owner_part o1)) (\<lambda>k. idb_view (owner_part o1) db (''peer-link:device-set-floor:'' @ k)) db"
    using assms(5) by (simp add: floors_are_def)
  have "deviceSetAuthorityBinding A collate ds \<noteq> []" for ds
    by (simp add: deviceSetAuthorityBinding_def Let_def collision_free_nonempty [OF assms(3)])
  from floor_store.accepted_history [OF browser_floor_store [OF assms(1,2)] floors this assms(4)] show ?thesis
    by (rule sorted_wrt_mono_rel [rotated]) (clarsimp dest!: same_binding [OF assms(3)])
qed

section \<open>A concrete history\<close>

text \<open>An account with keys and a device, linked to a peer.\<close>

definition demo_device_svc :: acct_svc where
  "demo_device_svc = demo_acct_svc\<lparr>as_accountIdentityDhKeyPair := None, as_deviceId := JStr ''dA'', as_devicePublicKeyB64 := JStr ''CA'',
     as_deviceSigningKeyPair := Some \<lparr>kp_public = [1], kp_private = [2]\<rparr>\<rparr>"

definition demo_link_db :: idb where
  "demo_link_db = snd (peerLinks_create (sto demo_acct) (JObj [(''peerLinkId'', JStr ''link-1''), (''localAccountId'', JStr ''alice''),
     (''peerAccountId'', JStr ''bob''), (''state'', JStr ''session_established''), (''remoteIdentityDhPublicKeyB64'', JStr ''bd''),
     (''remoteAccountIdentityPublicKeyB64'', JStr ''B'')]) (demo_keys_db (JStr ''sq'')))"

definition demo_ingest :: ingest_args where
  "demo_ingest = \<lparr>ig_peerAccountId = JStr ''bob'', ig_record = demo_record, ig_nowMs = JUndef, ig_maxDevices = JInt 8,
     ig_minRevision = JInt 0, ig_revocationState = JNull\<rparr>"

text \<open>A hash and a JSON text that keep all of the payload: every string is written with a marker before each
  character and an end mark, so that a text reads back in one way.\<close>

fun marked :: "string \<Rightarrow> string" where
  "marked [] = ''.''"
| "marked (c # cs) = CHR ''+'' # c # marked cs"

definition markedDevice :: "jsval \<Rightarrow> string" where
  "markedDevice d = marked (js_String (getp d ''deviceId'')) @ marked (js_String (getp d ''devicePublicKeyB64'')) @ marked (js_String (getp d ''inboxId''))"

definition markedPayload :: "jsval \<Rightarrow> string" where
  "markedPayload v = marked (js_String (getp v ''accountIdentityPublicKeyB64''))
     @ concat (map markedDevice (case getp v ''devices'' of JArr ds \<Rightarrow> ds | _ \<Rightarrow> []))"

lemma marked_unique: "marked s @ x = marked t @ y \<longleftrightarrow> s = t \<and> x = y"
proof (induction s arbitrary: t)
  case Nil
  then show ?case by (cases t) auto
next
  case (Cons c cs)
  then show ?case by (cases t) auto
qed

lemma marked_nonempty [simp]: "marked s \<noteq> []" "marked s @ x \<noteq> []"
  by (cases s; simp)+

definition demo_hashing :: "(idb, nat) acct_env" where
  "demo_hashing = demo_acct\<lparr>ae_e2ee := (ae_e2ee demo_acct)\<lparr>sha256Hex := (\<lambda>s. CHR ''h'' # s), canonicalJSON := markedPayload\<rparr>\<rparr>"

lemma marked_devices:
  "concat (map (markedDevice \<circ> (\<lambda>d. JObj [(''deviceId'', JStr (de_deviceId d)),
        (''devicePublicKeyB64'', JStr (de_devicePublicKeyB64 d)), (''inboxId'', JStr (de_inboxId d))])) ds)
   = concat (map (markedDevice \<circ> (\<lambda>d. JObj [(''deviceId'', JStr (de_deviceId d)),
        (''devicePublicKeyB64'', JStr (de_devicePublicKeyB64 d)), (''inboxId'', JStr (de_inboxId d))])) es) \<Longrightarrow> ds = (es :: device_entry list)"
proof (induction ds arbitrary: es)
  case Nil
  then show ?case by (cases es) (auto simp: markedDevice_def)
next
  case (Cons d ds)
  then show ?case by (cases es) (auto simp: markedDevice_def marked_unique intro!: device_entry.equality)
qed

lemma demo_collision_free: "collision_free (ae_e2ee demo_hashing)"
proof -
  have "a = a' \<and> ds = ds'" if "markedPayload (authority_payload v p a r ds) = markedPayload (authority_payload v' p' a' r' ds')"
    for v p a r ds v' p' a' r' ds'
    using that by (simp add: markedPayload_def authority_payload_def marked_unique marked_devices)
  then show ?thesis by (auto simp: collision_free_def demo_hashing_def)
qed

lemma demo_apart:
  "sto demo_acct = getPeerLinkStorage (\<lambda>_ _. True) (Some ''alice'')" "crypto_apart demo_acct"
  "sto demo_hashing = getPeerLinkStorage (\<lambda>_ _. True) (Some ''alice'')" "crypto_apart demo_hashing"
  by (simp_all add: demo_hashing_def demo_acct_def demo_env_def sample_env_def crypto_apart_def demo_seal_def)

interpretation demo_floors: floor_store "getKeyValueStore (Some ''alice'')" "idb_view (owner_part (Some ''alice''))" idb_inv demo_acct
  by (rule browser_floor_store [OF demo_apart(1,2)])

interpretation demo_calm: bystander "floors_are idb_inv (idb_view (owner_part (Some ''alice''))) F" demo_acct for F
  by unfold_locales (rule demo_floors.apart)

theorem device_sets_never_roll_back_witness:
  "sorted_wrt (\<lambda>(p, x) (q, y). p = q \<longrightarrow> 1 \<le> rev_of x \<longrightarrow> rev_of x \<le> rev_of y
      \<and> (rev_of x = rev_of y \<longrightarrow> dset_account (in_deviceSet x) = dset_account (in_deviceSet y)
           \<and> mset (dset_devices (in_deviceSet x)) = mset (dset_devices (in_deviceSet y))))
    (ingest_all demo_hashing (\<lambda>_ _. True) (getKeyValueStore (Some ''alice'')) (JStr ''alice'')
      [demo_ingest, demo_ingest\<lparr>ig_minRevision := JInt 5\<rparr>, demo_ingest] (demo_device_svc, demo_link_db))"
proof -
  have "requireId (ae_e2ee demo_hashing) (JStr ''alice'') ''ownerAccountId'' = Inr ''alice''"
    by (simp add: demo_hashing_def demo_acct_def)
  moreover have "idb_inv demo_link_db" by code_simp
  ultimately show ?thesis by (rule device_sets_never_roll_back [OF demo_apart(3,4) demo_collision_free])
qed

text \<open>On an empty database a set at revision 3 is accepted; after that revision 2 is refused.\<close>

lemma demo_floor_rises:
  "case ingest_locked demo_acct (getKeyValueStore (Some ''alice'')) ''alice'' ''bob'' (JStr ''l'') 0 ''b'' demo_set [] (demo_device_svc, []) of
     (Inr x, s) \<Rightarrow> (case fst (ingest_locked demo_acct (getKeyValueStore (Some ''alice'')) ''alice'' ''bob'' (JStr ''l'') 0 ''b2''
         (demo_set\<lparr>dset_revision := 2\<rparr>) [] s) of Inl e \<Rightarrow> err_code e = ''DEVICE_SET_STALE_REVISION'' | Inr y \<Rightarrow> False)
   | _ \<Rightarrow> False"
  by code_simp

end
