(* ===== verification/Invite_Ledger.thy ===== *)
theory Invite_Ledger
  imports Device_Ingest
begin

text \<open>
  The invites a peer-link service has issued (\<open>peer-link/PeerLinkService.js\<close>): the stored record of
  an invite, its two keys, and the ledger of the accounts that were honoured on it. Two operations
  spend an invite, the handshake responder (\<open>claimInvite\<close>, the body that
  \<open>handleIncomingHandshakePacket\<close> runs under the lock of the invite) and \<open>authorizeInviteJoin\<close>. Each
  runs alone for one invite (\<open>withLock\<close>), so each is one step here.

  \<open>hs_env\<close> adds to the account environment what invites and handshakes use besides: the key-value
  store of the service, \<open>Date.now\<close>, the collaborators it was given, and the functions of
  \<open>@rezprotocol/core\<close> that sign, verify and encode envelopes and records.
\<close>

section \<open>The environment\<close>

text \<open>What \<open>getInviteAuthority\<close> answers: a signer with its reference, and a verifier.\<close>

record 'w authority =
  au_signerRef :: jsval
  au_sign :: "octets \<Rightarrow> ('w, octets) io"
  au_verify :: "jsval \<Rightarrow> octets \<Rightarrow> octets \<Rightarrow> ('w, bool) io"

record ('w, 'm) hs_env =
  hs_acct :: "('w, 'm) acct_env"
  hs_kv :: "'w kv_ops"
  hs_dateNow :: "('w, int) io"
  hs_verifyEnvelope :: "jsval \<Rightarrow> jsval \<Rightarrow> ('w, bool) io"
  hs_signEnvelope :: "jsval \<Rightarrow> octets \<Rightarrow> ('w, string) io"
  hs_ackFromBytes :: "octets \<Rightarrow> jsval res"
  hs_ackPayload :: "jsval \<Rightarrow> jsval"
  hs_ackToBytes :: "jsval \<Rightarrow> octets res"
  hs_rejectFromBytes :: "octets \<Rightarrow> jsval res"
  hs_rejectPayload :: "jsval \<Rightarrow> jsval"
  hs_rejectToBytes :: "jsval \<Rightarrow> octets res"
  hs_handshakePacket :: "jsval \<Rightarrow> string \<Rightarrow> octets res"
  hs_prepareInviteBinding :: "'m \<Rightarrow> string \<Rightarrow> key_pair \<Rightarrow> key_pair \<Rightarrow> jsval \<Rightarrow> jsval \<Rightarrow> ('w, jsval \<times> jsval) io"
  hs_processAcceptedInvite :: "'m \<Rightarrow> jsval \<Rightarrow> string \<Rightarrow> key_pair \<Rightarrow> key_pair \<Rightarrow> octets \<Rightarrow> ('w, jsval \<times> 'm) io"
  hs_INVITE_KIND :: string
  hs_buildDurableV1 :: "jsval \<Rightarrow> jsval res"
  hs_durableV1Bytes :: "jsval \<Rightarrow> octets"
  hs_buildDurableV2 :: "jsval \<Rightarrow> jsval res"
  hs_durableV2Bytes :: "jsval \<Rightarrow> octets"
  hs_sha256Bytes :: "octets \<Rightarrow> string"
  hs_getInviteAuthority :: "(string \<Rightarrow> ('w, 'w authority option) io) option"
  hs_ownAuthority :: "'w authority"
  hs_signPostBearerCap :: "(int \<Rightarrow> ('w, jsval) io) option"

abbreviation hs_e2ee :: "('w, 'm) hs_env \<Rightarrow> ('w, 'm) e2ee_env" where
  "hs_e2ee H \<equiv> ae_e2ee (hs_acct H)"

abbreviation hne :: "('w, 'm) hs_env \<Rightarrow> jsval \<Rightarrow> jsval" where
  "hne H \<equiv> nonEmpty (hs_e2ee H)"

abbreviation hid :: "('w, 'm) hs_env \<Rightarrow> jsval \<Rightarrow> string \<Rightarrow> string res" where
  "hid H \<equiv> requireId (hs_e2ee H)"

abbreviation hsto :: "('w, 'm) hs_env \<Rightarrow> 'w pl_storage" where
  "hsto H \<equiv> storage (hs_e2ee H)"

section \<open>Keys and records\<close>

definition PEER_LINK_INVITE_PREFIX :: string where
  "PEER_LINK_INVITE_PREFIX = ''app:peer-links:invites/''"

definition PEER_LINK_INVITE_HASH_PREFIX :: string where
  "PEER_LINK_INVITE_HASH_PREFIX = ''app:peer-links:inviteHash/''"

definition inviteKey :: "('w, 'm) hs_env \<Rightarrow> jsval \<Rightarrow> jsval \<Rightarrow> string res" where
  "inviteKey H ownerAccountId inviteId =
     bind_r (hid H ownerAccountId ''ownerAccountId'') (\<lambda>owner.
     bind_r (hid H inviteId ''inviteId'') (\<lambda>i. Inr (PEER_LINK_INVITE_PREFIX @ owner @ ''/'' @ i)))"

definition inviteHashKey :: "('w, 'm) hs_env \<Rightarrow> jsval \<Rightarrow> jsval \<Rightarrow> string res" where
  "inviteHashKey H ownerAccountId tokenHash =
     bind_r (hid H ownerAccountId ''ownerAccountId'') (\<lambda>owner.
     bind_r (hid H tokenHash ''tokenHash'') (\<lambda>h. Inr (PEER_LINK_INVITE_HASH_PREFIX @ owner @ ''/'' @ h)))"

text \<open>The acceptors a stored record lists: its non-empty strings, nothing when it is no array.\<close>

fun acceptorsIn :: "jsval \<Rightarrow> jsval list" where
  "acceptorsIn (JArr xs) = filter (\<lambda>a. case a of JStr s \<Rightarrow> s \<noteq> [] | _ \<Rightarrow> False) xs"
| "acceptorsIn v = []"

declare acceptorsIn.simps(1) [simp del]

text \<open>The record without its four ids is no invite; the three readings of the clock are fall-backs.\<close>

definition inviteComplete :: "('w, 'm) hs_env \<Rightarrow> jsval \<Rightarrow> bool" where
  "inviteComplete H input \<longleftrightarrow> is_plain_object input
     \<and> js_truthy (hne H (getp input ''inviteId'')) \<and> js_truthy (hne H (getp input ''ownerAccountId''))
     \<and> js_truthy (hne H (getp input ''tokenHash'')) \<and> js_truthy (hne H (getp input ''kind''))"

definition inviteRecordOf :: "('w, 'm) hs_env \<Rightarrow> int \<Rightarrow> int \<Rightarrow> int \<Rightarrow> jsval \<Rightarrow> jsval" where
  "inviteRecordOf H t1 t2 t3 input = JObj
     [(''inviteId'', hne H (getp input ''inviteId'')), (''ownerAccountId'', hne H (getp input ''ownerAccountId'')),
      (''tokenHash'', hne H (getp input ''tokenHash'')), (''kind'', hne H (getp input ''kind'')),
      (''status'', js_or (hne H (getp input ''status'')) (JStr ''active'')),
      (''createdAtMs'', JInt (asPositiveInt (getp input ''createdAtMs'') t1)),
      (''updatedAtMs'', JInt (asPositiveInt (getp input ''updatedAtMs'') (asPositiveInt (getp input ''createdAtMs'') t2))),
      (''expiresAtMs'', JInt (asPositiveInt (getp input ''expiresAtMs'') t3)),
      (''maxUses'', JInt (asPositiveInt (getp input ''maxUses'') 1)),
      (''acceptedAcceptors'', JArr (acceptorsIn (getp input ''acceptedAcceptors''))),
      (''peerLinkId'', hne H (getp input ''peerLinkId'')), (''groupId'', hne H (getp input ''groupId'')),
      (''envelope'', if is_plain_object (getp input ''envelope'') then getp input ''envelope'' else JNull),
      (''signatureB64'', hne H (getp input ''signatureB64''))]"

definition normalizeInviteRecord :: "('w, 'm) hs_env \<Rightarrow> jsval \<Rightarrow> ('w, jsval) io" where
  "normalizeInviteRecord H input =
     (if \<not> inviteComplete H input then retE JNull
      else
        bindE (hs_dateNow H) (\<lambda>t1.
        bindE (hs_dateNow H) (\<lambda>t2.
        bindE (hs_dateNow H) (\<lambda>t3. retE (inviteRecordOf H t1 t2 t3 input)))))"

definition saveInviteRecord :: "('w, 'm) hs_env \<Rightarrow> jsval \<Rightarrow> ('w, jsval) io" where
  "saveInviteRecord H rcd =
     bindE (normalizeInviteRecord H rcd) (\<lambda>normalized.
     bindE (requireE (js_truthy normalized) (plain_err ''invalid peer-link invite record'')) (\<lambda>_.
     bindE (liftE (inviteKey H (getp normalized ''ownerAccountId'') (getp normalized ''inviteId''))) (\<lambda>key.
     bindE (kv_set (hs_kv H) key normalized) (\<lambda>_.
     bindE (liftE (inviteHashKey H (getp normalized ''ownerAccountId'') (getp normalized ''tokenHash''))) (\<lambda>hashKey.
     bindE (kv_set (hs_kv H) hashKey (getp normalized ''inviteId'')) (\<lambda>_.
     retE (cloneJsonValue normalized)))))))"

definition getInviteRecord :: "('w, 'm) hs_env \<Rightarrow> jsval \<Rightarrow> jsval \<Rightarrow> ('w, jsval) io" where
  "getInviteRecord H ownerAccountId inviteId =
     bindE (liftE (inviteKey H ownerAccountId inviteId)) (\<lambda>key.
     bindE (kv_get (hs_kv H) key) (\<lambda>stored. normalizeInviteRecord H stored))"

definition getInviteRecordByHash :: "('w, 'm) hs_env \<Rightarrow> jsval \<Rightarrow> jsval \<Rightarrow> ('w, jsval) io" where
  "getInviteRecordByHash H ownerAccountId tokenHash =
     bindE (liftE (inviteHashKey H ownerAccountId tokenHash)) (\<lambda>key.
     bindE (kv_get (hs_kv H) key) (\<lambda>inviteId.
     case inviteId of
       JStr s \<Rightarrow> if s = [] then retE JNull else getInviteRecord H ownerAccountId (JStr s)
     | _ \<Rightarrow> retE JNull))"

definition verifyInviteKind :: "('w, 'm) hs_env \<Rightarrow> jsval \<Rightarrow> jsval res" where
  "verifyInviteKind H envelope =
     (let kind = js_or (hne H (getp envelope ''kind'')) (JStr ''direct'') in
      if \<not> js_eq kind (JStr ''direct'') \<and> \<not> js_eq kind (JStr ''group'')
      then Inl (code_err ''PEER_LINK_KIND_UNSUPPORTED'' (''unsupported peer-link invite kind: '' @ js_String kind))
      else Inr kind)"

text \<open>The envelope of an invite that is still active, with its signature.\<close>

definition getStoredInviteEnvelope :: "('w, 'm) hs_env \<Rightarrow> jsval \<Rightarrow> jsval \<Rightarrow> ('w, (jsval \<times> jsval) option) io" where
  "getStoredInviteEnvelope H ownerAccountId inviteId =
     (let owner = js_trim (str_or_empty ownerAccountId); i = js_trim (str_or_empty inviteId) in
      if owner = [] \<or> i = [] then retE None
      else
        bindE (getInviteRecord H (JStr owner) (JStr i)) (\<lambda>rcd.
        if \<not> js_truthy rcd \<or> \<not> js_eq (getp rcd ''status'') (JStr ''active'') then retE None
        else if \<not> js_truthy (getp rcd ''envelope'') then retE None
        else retE (Some (getp rcd ''envelope'', js_or (getp rcd ''signatureB64'') JNull))))"

definition postCapKey :: "string \<Rightarrow> string \<Rightarrow> string" where
  "postCapKey ownerAccountId peerLinkId = ''peer-link:post-cap:'' @ ownerAccountId @ '':'' @ peerLinkId"

definition getPostCapForPeerLink :: "('w, 'm) hs_env \<Rightarrow> jsval \<Rightarrow> jsval \<Rightarrow> ('w, jsval) io" where
  "getPostCapForPeerLink H ownerAccountId peerLinkId =
     (if trimmed ownerAccountId = [] then retE JNull
      else if trimmed peerLinkId = [] then retE JNull
      else
        bindE (kv_get (hs_kv H) (postCapKey (trimmed ownerAccountId) (trimmed peerLinkId))) (\<lambda>stored.
        retE (if is_object stored then stored else JNull)))"

section \<open>Spending an invite\<close>

text \<open>\<open>Proceed exhausted alreadyAccepted\<close>.\<close>

datatype invite_verdict =
    Reject string
  | Proceed bool bool

definition isUsedUp :: "jsval \<Rightarrow> nat \<Rightarrow> bool" where
  "isUsedUp fresh used \<longleftrightarrow> num_le (js_Number (getp fresh ''maxUses'')) (Fin (of_nat used))"

definition isExpired :: "jsval \<Rightarrow> jnum \<Rightarrow> bool" where
  "isExpired fresh at_ms \<longleftrightarrow> num_le (js_Number (getp fresh ''expiresAtMs'')) at_ms"

text \<open>One more acceptor on the record.\<close>

definition consumeSlot :: "('w, 'm) hs_env \<Rightarrow> jsval \<Rightarrow> string \<Rightarrow> jnum \<Rightarrow> ('w, jsval) io" where
  "consumeSlot H fresh account at_ms = saveInviteRecord H (spread fresh
     [(''acceptedAcceptors'', JArr (acceptorsIn (getp fresh ''acceptedAcceptors'') @ [JStr account])), (''updatedAtMs'', JNum at_ms)])"

definition claimInvite :: "('w, 'm) hs_env \<Rightarrow> string \<Rightarrow> string \<Rightarrow> string \<Rightarrow> ('w, invite_verdict) io" where
  "claimInvite H owner inviteId peerAccountId =
     bindE (getInviteRecord H (JStr owner) (JStr inviteId)) (\<lambda>fresh.
     if \<not> js_truthy fresh then retE (Proceed True False)
     else
       bindE (clock (hs_e2ee H)) (\<lambda>now.
       (let accepted = acceptorsIn (getp fresh ''acceptedAcceptors'') in
        if isExpired fresh (Fin (of_int now)) then retE (Reject ''INVITE_EXPIRED'')
        else if JStr peerAccountId \<in> set accepted then retE (Proceed (isUsedUp fresh (length accepted)) True)
        else if isUsedUp fresh (length accepted) then retE (Reject ''INVITE_USED_UP'')
        else
          bindE (consumeSlot H fresh peerAccountId (Fin (of_int now))) (\<lambda>_.
          retE (Proceed (isUsedUp fresh (Suc (length accepted))) False)))))"

text \<open>Whether the joiner is admitted, and the reason.\<close>

definition authorizeInviteJoin ::
    "('w, 'm) hs_env \<Rightarrow> jsval \<Rightarrow> jsval \<Rightarrow> jsval \<Rightarrow> jsval \<Rightarrow> ('w, bool \<times> string) io" where
  "authorizeInviteJoin H ownerAccountId inviteId joinerAccountId nowMs =
     bindE (liftE (hid H ownerAccountId ''ownerAccountId'')) (\<lambda>owner.
     bindE (liftE (hid H inviteId ''inviteId'')) (\<lambda>i.
     bindE (liftE (hid H joinerAccountId ''joinerAccountId'')) (\<lambda>joiner.
     bindE (if isFinite_num (js_Number nowMs) then retE (js_Number nowMs)
            else bindE (clock (hs_e2ee H)) (\<lambda>now. retE (Fin (of_int now)))) (\<lambda>at_ms.
     bindE (getInviteRecord H (JStr owner) (JStr i)) (\<lambda>fresh.
     (let accepted = acceptorsIn (getp fresh ''acceptedAcceptors'') in
      if \<not> js_truthy fresh \<or> \<not> js_eq (getp fresh ''status'') (JStr ''active'') then retE (False, ''INVITE_NOT_FOUND'')
      else if isExpired fresh at_ms then retE (False, ''INVITE_EXPIRED'')
      else if JStr joiner \<in> set accepted then retE (True, ''ALREADY_ACCEPTED'')
      else if isUsedUp fresh (length accepted) then retE (False, ''INVITE_USED_UP'')
      else bindE (consumeSlot H fresh joiner at_ms) (\<lambda>_. retE (True, ''CONSUMED''))))))))"

end
