(* ===== verification/PeerLink_Handshake.thy ===== *)
theory PeerLink_Handshake
  imports Invite_Ledger PeerLink_Messaging
begin

text \<open>
  The handshakes of \<open>peer-link/PeerLinkService.js\<close> after an invite was accepted: the responder
  \<open>handleIncomingHandshakePacket\<close>, the signed acknowledgement and refusal it answers with, and their
  handling by the acceptor; the expiry of a handshake that is not acknowledged, and the two queries
  \<open>getPeerLink\<close> and \<open>listPeerLinks\<close>.

  The state is the account part of the service beside its message part (the counters and the world).
\<close>

type_synonym ('w, 'a) hs_io = "(acct_svc \<times> 'w svc, 'a) io"

definition onAcct :: "('w, 'a) acct_io \<Rightarrow> ('w, 'a) hs_io" where
  "onAcct m = (\<lambda>(S, s). case m (S, sv_store s) of (r, (S', w')) \<Rightarrow> (r, (S', s\<lparr>sv_store := w'\<rparr>)))"

abbreviation onWorld :: "('w, 'a) io \<Rightarrow> ('w, 'a) hs_io" where
  "onWorld m \<equiv> ext (onStore m)"

text \<open>\<open>this.#commitSession(args)\<close> of a caller that does not look at its progress.\<close>

definition commitPlain :: "('w, 'm) hs_env \<Rightarrow> bool \<Rightarrow> 'm commit_args \<Rightarrow> ('w, commit_result) hs_io" where
  "commitPlain H strict a = (\<lambda>(S, s). case commitSession (hs_e2ee H) strict a (s, progress0) of (r, (s', p)) \<Rightarrow> (r, (S, s')))"

definition checkPeerLinkTransition :: "jsval \<Rightarrow> jsval \<Rightarrow> ('w, transition_check) hs_io" where
  "checkPeerLinkTransition fromState toState =
     bindE (getsE as_strictTransitions) (\<lambda>strict. assertTransition fromState toState (\<lambda>_. retE ()) strict)"

section \<open>Expiry of a handshake\<close>

definition HANDSHAKE_ACK_TIMEOUT_MS :: int where
  "HANDSHAKE_ACK_TIMEOUT_MS = 5 * 60 * 1000"

fun sub_num :: "int \<Rightarrow> jnum \<Rightarrow> jnum" where
  "sub_num a (Fin q) = Fin (of_int a - q)"
| "sub_num a NaN = NaN"
| "sub_num a PInf = NInf"
| "sub_num a NInf = PInf"

definition expireHandshakeIfStale :: "('w, 'm) hs_env \<Rightarrow> jsval \<Rightarrow> ('w, jsval) io" where
  "expireHandshakeIfStale H rcd =
     (if \<not> js_truthy rcd \<or> getp rcd ''state'' \<noteq> JStr ''handshake_sent'' then retE rcd
      else
        bindE (clock (hs_e2ee H)) (\<lambda>t.
        (let elapsed = sub_num t (js_Number (js_or (getp rcd ''lastStateChangeAtMs'') (JInt 0))) in
         if num_less elapsed (Fin (of_int HANDSHAKE_ACK_TIMEOUT_MS)) then retE rcd
         else
           bindE (clock (hs_e2ee H)) (\<lambda>nowMs.
           catchE
             (bindE (peerLinks_update (hsto H) (spread rcd
                 [(''state'', JStr ''failed''), (''lastStateChangeAtMs'', JInt nowMs), (''lastErrorCode'', JStr ''HANDSHAKE_ACK_TIMEOUT''),
                  (''lastErrorMessage'', JStr ''Handshake timed out - connection could not be established'')]) (getp rcd ''version'')) (\<lambda>updated.
              bindE (appendPeerLinkEvent (hs_e2ee H) (getp rcd ''localAccountId'') (getp rcd ''peerLinkId'') (JStr ''handshake_expired'')
                (JStr ''Handshake timed out'') (JObj [(''elapsedMs'', JNum elapsed), (''peerAccountId'', getp rcd ''peerAccountId'')]) (JInt nowMs)) (\<lambda>_.
              retE updated)))
             (\<lambda>_.
              bindE (peerLinks_getById (hsto H) (getp rcd ''localAccountId'') (getp rcd ''peerLinkId'')) (\<lambda>fresh.
              retE (js_or fresh rcd)))))))"

definition getPeerLink :: "('w, 'm) hs_env \<Rightarrow> jsval \<Rightarrow> jsval \<Rightarrow> ('w, jsval) io" where
  "getPeerLink H ownerAccountId peerLinkId =
     bindE (liftE (hid H ownerAccountId ''ownerAccountId'')) (\<lambda>owner.
     bindE (liftE (hid H peerLinkId ''peerLinkId'')) (\<lambda>i.
     bindE (peerLinks_getById (hsto H) (JStr owner) (JStr i)) (\<lambda>rcd.
     if \<not> js_truthy rcd then retE JNull
     else bindE (expireHandshakeIfStale H rcd) (\<lambda>rcd'. buildSnapshot (hs_e2ee H) rcd'))))"

definition updatedAt :: "jsval \<Rightarrow> jnum" where
  "updatedAt v = js_Number (js_or (getp v ''updatedAtMs'') (JInt 0))"

text \<open>The newest first.\<close>

definition listPeerLinks :: "('w, 'm) hs_env \<Rightarrow> jsval \<Rightarrow> ('w, jsval list) io" where
  "listPeerLinks H ownerAccountId =
     bindE (liftE (hid H ownerAccountId ''ownerAccountId'')) (\<lambda>owner.
     bindE (peerLinks_listByOwner (hsto H) (JStr owner)) (\<lambda>rows.
     bindE (mapE (\<lambda>row. bindE (expireHandshakeIfStale H row) (buildSnapshot (hs_e2ee H))) rows) (\<lambda>snapshots.
     retE (sort_by (\<lambda>l r. \<not> num_less (updatedAt l) (updatedAt r)) (filter js_truthy snapshots)))))"

section \<open>The responder: authentication\<close>

definition hasOwn :: "jsval \<Rightarrow> string \<Rightarrow> bool" where
  "hasOwn v k \<longleftrightarrow> (case v of JObj ps \<Rightarrow> map_of ps k \<noteq> None | _ \<Rightarrow> False)"

definition signatureInvalid :: "string \<Rightarrow> js_err" where
  "signatureInvalid msg = code_err ''HANDSHAKE_SIGNATURE_INVALID'' msg"

definition authFailed :: "string \<Rightarrow> js_err" where
  "authFailed msg = code_err ''HANDSHAKE_AUTH_FAILED'' msg"

text \<open>The handshake and the signature of a packet; nothing when the packet is none.\<close>

definition handshakeOf :: "('w, 'm) hs_env \<Rightarrow> octets option \<Rightarrow> (jsval \<times> string) option res" where
  "handshakeOf H packetBytes =
     bind_r (requireBytes packetBytes ''packetBytes must be a non-empty Uint8Array'') (\<lambda>bytes.
     bind_r (sl_parseText (ae_seal (hs_acct H)) bytes) (\<lambda>packet.
     if \<not> is_plain_object packet \<or> hasOwn packet ''__proto__'' \<or> hasOwn packet ''constructor'' \<or> hasOwn packet ''prototype'' then Inr None
     else if \<not> js_eq (getp packet ''e2ee'') (JInt 1) \<or> \<not> js_eq (getp packet ''type'') (JStr ''x3dh.handshake.v2'')
             \<or> \<not> is_object (getp packet ''handshake'') then Inr None
     else (case getp packet ''signatureB64'' of
         JStr sig \<Rightarrow> if sig = [] then Inl (signatureInvalid ''Handshake packet missing signatureB64'')
                     else Inr (Some (cloneJsonValue (getp packet ''handshake''), sig))
       | _ \<Rightarrow> Inl (signatureInvalid ''Handshake packet missing signatureB64''))))"

text \<open>The binding of the sender in the form in which an invite carries it.\<close>

definition senderInviteBinding :: "('w, 'm) hs_env \<Rightarrow> jsval \<Rightarrow> jsval" where
  "senderInviteBinding H b = JObj [(''x3dh'', JObj
     ([(''accountIdentityPublicKeyB64'', hne H (getp b ''accountIdentityPublicKeyB64'')),
       (''accountBindingSigB64'', hne H (getp b ''accountBindingSigB64'')),
       (''identitySigningPublicKeyB64'', hne H (getp b ''x3dhIdentityPublicKeyB64'')),
       (''accountBindingExpiresAtMs'', JNum (js_Number (getp b ''expiresAtMs''))),
       (''accountBindingIssuedAtMs'', JNum (js_Number (getp b ''issuedAtMs'')))]
      @ (if js_truthy (hne H (getp b ''accountBindingSignerPublicKeyB64''))
         then [(''accountBindingSignerPublicKeyB64'', hne H (getp b ''accountBindingSignerPublicKeyB64''))] else [])))]"

definition chainOrNull :: "jsval \<Rightarrow> jsval" where
  "chainOrNull v = (case v of JArr (c # cs) \<Rightarrow> v | _ \<Rightarrow> JNull)"

text \<open>The invite a handshake answers and the account that proved to have sent it.\<close>

definition authenticateHandshake :: "('w, 'm) hs_env \<Rightarrow> jsval \<Rightarrow> string \<Rightarrow> ('w, string \<times> string) io" where
  "authenticateHandshake H handshakeData sig =
     bindE (hs_verifyEnvelope H handshakeData (JStr sig)) (\<lambda>envelopeVerified.
     bindE (requireE envelopeVerified (signatureInvalid ''Handshake envelope signature did not verify'')) (\<lambda>_.
     bindE (liftE (hid H (getp handshakeData ''inviteId'') ''inviteId'')) (\<lambda>inviteId.
     (let senderBinding = getp handshakeData ''senderAccountBinding'' in
      bindE (requireE (is_object senderBinding) (authFailed ''Handshake missing senderAccountBinding - cannot authenticate acceptor identity'')) (\<lambda>_.
      bindE (requireE (js_eq (hne H (getp senderBinding ''x3dhIdentityPublicKeyB64'')) (hne H (getp handshakeData ''senderIdentitySigningPubKeyB64'')))
        (authFailed ''Handshake account binding does not cover the X3DH identity that signed the envelope'')) (\<lambda>_.
      bindE (liftE (b64 (hs_acct H) (hne H (getp senderBinding ''accountIdentityPublicKeyB64'')))) (\<lambda>accountKey.
      (let peerAccountId = ae_deriveAccountId (hs_acct H) accountKey in
       bindE (verifyInviteX3dhBinding (hs_acct H) (JStr peerAccountId) (senderInviteBinding H senderBinding)
         (chainOrNull (getp senderBinding ''certChain''))) (\<lambda>_.
       retE (inviteId, peerAccountId)))))))))) "

section \<open>The responder: session\<close>

definition establishAsResponder :: "('w, 'm) hs_env \<Rightarrow> jsval \<Rightarrow> jsval \<Rightarrow> jsval \<Rightarrow> jsval \<Rightarrow> ('w, 'm) acct_io" where
  "establishAsResponder H ownerAccountId preKeyState handshakeData peerId =
     bindE (liftE (hid H ownerAccountId ''ownerAccountId'')) (\<lambda>owner.
     bindE (liftE (hid H peerId ''peerId'')) (\<lambda>remote.
     bindE (liftE (scm (hs_e2ee H) JUndef)) (\<lambda>m.
     bindE (requireBoundX3dhIdentity (hs_acct H) (JStr owner)) (\<lambda>bound.
     bindE (ext (completeInviteHandshake (hs_e2ee H) m preKeyState (kp_private (bi_identityDhKeyPair bound)) handshakeData (JStr remote)))
       (\<lambda>(secret, m'). retE m')))))"

datatype handshake_outcome =
    NoHandshake
  | Rejected (ho_reason: string) (ho_ackNonce: jsval) (ho_acceptorInboxId: jsval) (ho_peerAccountId: string)
  | Accepted (ho_snapshot: jsval) (ho_event: jsval) (ho_ackNonce: jsval) (ho_remoteDisplayName: jsval) (ho_localDisplayName: jsval)

text \<open>The link the session is to belong to: a new one, or the one of the pair with what the handshake
  tells of the peer's keys.\<close>

definition responderLink ::
    "('w, 'm) hs_env \<Rightarrow> string \<Rightarrow> string \<Rightarrow> string \<Rightarrow> jsval \<Rightarrow> jsval \<Rightarrow> int \<Rightarrow> ('w, jsval) io" where
  "responderLink H owner inviteId peerAccountId handshakeData existing nowMs =
     (let dh = hne H (getp handshakeData ''senderIdentityDhPubKeyB64'');
          account = hne H (getp (getp handshakeData ''senderAccountBinding'') ''accountIdentityPublicKeyB64'') in
      if \<not> js_truthy existing then
        bindE (stableId (hs_e2ee H) ''pl'') (\<lambda>peerLinkId.
        peerLinks_create (hsto H) (JObj
          [(''peerLinkId'', JStr peerLinkId), (''localAccountId'', JStr owner), (''peerAccountId'', JStr peerAccountId),
           (''remoteIdentityDhPublicKeyB64'', dh), (''remoteAccountIdentityPublicKeyB64'', account),
           (''state'', JStr ''handshake_received''), (''activeInviteId'', JStr inviteId), (''activeSessionId'', JNull),
           (''peerInboxId'', js_or (hne H (getp handshakeData ''senderInboxId'')) JNull), (''lastStateChangeAtMs'', JInt nowMs),
           (''lastErrorCode'', JNull), (''lastErrorMessage'', JNull), (''version'', JInt 1)]))
      else if js_truthy dh \<and> \<not> js_eq (getp existing ''remoteIdentityDhPublicKeyB64'') dh
           \<or> js_truthy account \<and> \<not> js_eq (getp existing ''remoteAccountIdentityPublicKeyB64'') account then
        retE (spread existing
          [(''remoteIdentityDhPublicKeyB64'', js_or dh (getp existing ''remoteIdentityDhPublicKeyB64'')),
           (''remoteAccountIdentityPublicKeyB64'', js_or account (getp existing ''remoteAccountIdentityPublicKeyB64''))])
      else retE existing)"

definition responderCommit ::
    "('w, 'm) hs_env \<Rightarrow> string \<Rightarrow> string \<Rightarrow> string \<Rightarrow> jsval \<Rightarrow> jsval \<Rightarrow> 'm \<Rightarrow> jsval \<Rightarrow> int \<Rightarrow> 'm commit_args" where
  "responderCommit H owner inviteId peerAccountId handshakeData link m existingSession nowMs =
     \<lparr>ca_ownerAccountId = JStr owner, ca_peerLinkRecord = link, ca_peerAccountId = JStr peerAccountId,
      ca_secureChannelManager = Some m, ca_sessionStatus = JStr ''active'', ca_peerLinkState = JStr SESSION_ESTABLISHED,
      ca_existingSession = existingSession, ca_resetSessionCreatedAt = False,
      ca_peerInboxId = js_or (hne H (getp link ''peerInboxId'')) (js_or (hne H (getp handshakeData ''senderInboxId'')) JNull),
      ca_eventType = JStr ''handshake_received'', ca_eventSummary = JStr ''Handshake received and session established'',
      ca_eventDetails = JObj [(''inviteId'', JStr inviteId)], ca_atMs = JInt nowMs\<rparr>"

definition attemptRecord :: "string \<Rightarrow> jsval \<Rightarrow> string \<Rightarrow> string \<Rightarrow> string \<Rightarrow> string \<Rightarrow> jsval \<Rightarrow> int \<Rightarrow> jsval" where
  "attemptRecord attemptId peerLinkId owner direction status inviteId sessionId nowMs = JObj
     [(''handshakeAttemptId'', JStr attemptId), (''peerLinkId'', peerLinkId), (''ownerAccountId'', JStr owner),
      (''direction'', JStr direction), (''status'', JStr status), (''inviteId'', JStr inviteId), (''sessionId'', sessionId),
      (''packetMessageId'', JNull), (''lastTriedAtMs'', JInt nowMs), (''retryCount'', JInt 0), (''lastErrorCode'', JNull),
      (''lastErrorMessage'', JNull), (''version'', JInt 1)]"

definition no_property :: "js_err" where
  "no_property = plain_err ''Cannot read properties of null''"

text \<open>The session with an account that was let in, unless the handshake is a replay on a link that has
  its session.\<close>

definition respond ::
    "('w, 'm) hs_env \<Rightarrow> string \<Rightarrow> string \<Rightarrow> string \<Rightarrow> jsval \<Rightarrow> jsval \<Rightarrow> jsval \<Rightarrow> bool \<Rightarrow> bool \<Rightarrow> ('w, handshake_outcome) hs_io" where
  "respond H owner inviteId peerAccountId handshakeData remoteDisplayName localDisplayName exhausted alreadyAccepted =
     (let ackNonce = js_or (hne H (getp handshakeData ''ackNonce'')) JNull in
      bindE (onWorld (keys_getInvitePreKey (hsto H) (JStr owner) (JStr inviteId))) (\<lambda>preKeyState.
      bindE (requireE (is_object preKeyState) (code_err ''PEER_LINK_PREKEY_MISSING'' ''peer-link invite pre-key not found'')) (\<lambda>_.
      bindE (onWorld (clock (hs_e2ee H))) (\<lambda>nowMs.
      bindE (onWorld (peerLinks_getByPair (hsto H) (JStr owner) (JStr peerAccountId))) (\<lambda>existing.
      if alreadyAccepted \<and> js_truthy existing \<and> getp existing ''state'' = JStr ''session_established'' then
        bindE (onWorld (buildSnapshot (hs_e2ee H) existing)) (\<lambda>snapshot.
        retE (Accepted snapshot JNull ackNonce remoteDisplayName localDisplayName))
      else
        bindE (onWorld (responderLink H owner inviteId peerAccountId handshakeData existing nowMs)) (\<lambda>link.
        bindE (onAcct (establishAsResponder H (JStr owner) preKeyState handshakeData (JStr peerAccountId))) (\<lambda>m.
        bindE (onWorld (sessions_getByPeerLinkId (hsto H) (JStr owner) (getp link ''peerLinkId''))) (\<lambda>existingSession.
        bindE (getsE as_strictTransitions) (\<lambda>strict.
        bindE (commitPlain H strict (responderCommit H owner inviteId peerAccountId handshakeData link m existingSession nowMs)) (\<lambda>commit.
        bindE (onWorld (stableId (hs_e2ee H) ''hs'')) (\<lambda>attemptId.
        bindE (requireE (cr_sessionRecord commit \<noteq> JNull) no_property) (\<lambda>_.
        bindE (onWorld (handshakeAttempts_create (hsto H) (attemptRecord attemptId (getp (cr_peerLinkRecord commit) ''peerLinkId'') owner
          ''responder'' ''completed'' inviteId (getp (cr_sessionRecord commit) ''sessionId'') nowMs))) (\<lambda>_.
        bindE (if exhausted then bindE (onWorld (keys_deleteInvitePreKey (hsto H) (JStr owner) (JStr inviteId))) (\<lambda>_. retE ()) else retE ()) (\<lambda>_.
        retE (Accepted (cr_snapshot commit) (cr_event commit) ackNonce remoteDisplayName localDisplayName)))))))))))))))"

definition displayNameOf :: "jsval \<Rightarrow> jsval" where
  "displayNameOf v = (if is_string v then v else JStr [])"

definition handleIncomingHandshakePacket ::
    "('w, 'm) hs_env \<Rightarrow> jsval \<Rightarrow> octets option \<Rightarrow> ('w, handshake_outcome) hs_io" where
  "handleIncomingHandshakePacket H ownerAccountId packetBytes =
     bindE (liftE (hid H ownerAccountId ''ownerAccountId'')) (\<lambda>owner.
     bindE (liftE (handshakeOf H packetBytes)) (\<lambda>parsed.
     case parsed of
       None \<Rightarrow> retE NoHandshake
     | Some (handshakeData, sig) \<Rightarrow>
         bindE (onWorld (authenticateHandshake H handshakeData sig)) (\<lambda>(inviteId, peerAccountId).
         bindE (onWorld (getInviteRecord H (JStr owner) (JStr inviteId))) (\<lambda>inviteRecord.
         (let remoteDisplayName = displayNameOf (getp handshakeData ''senderDisplayName'');
              localDisplayName = (if js_truthy inviteRecord \<and> js_truthy (getp inviteRecord ''envelope'')
                then displayNameOf (getp (getp inviteRecord ''envelope'') ''creatorDisplayName'') else JStr []) in
          bindE (if js_truthy inviteRecord then onWorld (claimInvite H owner inviteId peerAccountId) else retE (Proceed True False)) (\<lambda>verdict.
          case verdict of
            Reject reason \<Rightarrow> retE (Rejected reason (js_or (hne H (getp handshakeData ''ackNonce'')) JNull)
              (js_or (hne H (getp handshakeData ''senderInboxId'')) JNull) peerAccountId)
          | Proceed exhausted alreadyAccepted \<Rightarrow>
              respond H owner inviteId peerAccountId handshakeData remoteDisplayName localDisplayName exhausted alreadyAccepted))))))"

section \<open>Acknowledgement and refusal\<close>

definition createSignedHandshakeAck :: "('w, 'm) hs_env \<Rightarrow> jsval \<Rightarrow> jsval \<Rightarrow> jsval \<Rightarrow> jsval \<Rightarrow> ('w, octets) acct_io" where
  "createSignedHandshakeAck H ownerAccountId ownerInboxId ownerDisplayName ackNonce =
     bindE (liftE (hid H ownerAccountId ''ownerAccountId'')) (\<lambda>owner.
     bindE (requireE (nonEmptyStr ackNonce) (plain_err ''createSignedHandshakeAck requires ackNonce string'')) (\<lambda>_.
     bindE (requireBoundX3dhIdentity (hs_acct H) (JStr owner)) (\<lambda>bound.
     bindE (ext (clock (hs_e2ee H))) (\<lambda>now.
     (let ackPayload = [(''senderIdentitySigningPubKeyB64'', toB64 (hs_acct H) (kp_public (bi_keyPair bound))), (''senderAccountId'', JStr owner),
            (''senderInboxId'', if nonEmptyStr ownerInboxId then ownerInboxId else JNull),
            (''senderDisplayName'', displayNameOf ownerDisplayName), (''ackNonce'', ackNonce), (''createdAtMs'', JInt now)] in
      bindE (ext (hs_signEnvelope H (JObj ackPayload) (kp_private (bi_keyPair bound)))) (\<lambda>signatureB64.
      liftE (hs_ackToBytes H (JObj (ackPayload @ [(''signatureB64'', JStr signatureB64)])))))))))"

definition createSignedHandshakeReject :: "('w, 'm) hs_env \<Rightarrow> jsval \<Rightarrow> jsval \<Rightarrow> jsval \<Rightarrow> ('w, octets) acct_io" where
  "createSignedHandshakeReject H ownerAccountId reason ackNonce =
     bindE (liftE (hid H ownerAccountId ''ownerAccountId'')) (\<lambda>owner.
     bindE (requireE (nonEmptyStr reason) (plain_err ''createSignedHandshakeReject requires reason string'')) (\<lambda>_.
     bindE (requireE (nonEmptyStr ackNonce) (plain_err ''createSignedHandshakeReject requires ackNonce string'')) (\<lambda>_.
     bindE (requireBoundX3dhIdentity (hs_acct H) (JStr owner)) (\<lambda>bound.
     bindE (ext (clock (hs_e2ee H))) (\<lambda>now.
     (let rejectPayload = [(''senderIdentitySigningPubKeyB64'', toB64 (hs_acct H) (kp_public (bi_keyPair bound))), (''senderAccountId'', JStr owner),
            (''reason'', reason), (''ackNonce'', ackNonce), (''createdAtMs'', JInt now)] in
      bindE (ext (hs_signEnvelope H (JObj rejectPayload) (kp_private (bi_keyPair bound)))) (\<lambda>signatureB64.
      liftE (hs_rejectToBytes H (JObj (rejectPayload @ [(''signatureB64'', JStr signatureB64)]))))))))))"

definition nonceKey :: "string \<Rightarrow> jsval \<Rightarrow> string" where
  "nonceKey owner peerLinkId = ''peer-link:ack-nonce:'' @ owner @ '':'' @ js_String peerLinkId"

text \<open>The checks that an acknowledgement and a refusal share: the link they are for awaits one, they
  carry the key on record, the signature verifies, and the nonce is the one that was sent, which is
  then used up. \<open>None\<close> when one of them fails.\<close>

definition answeredLink :: "('w, 'm) hs_env \<Rightarrow> string \<Rightarrow> jsval \<Rightarrow> jsval \<Rightarrow> ('w, jsval option) io" where
  "answeredLink H owner message payload =
     bindE (peerLinks_getByPair (hsto H) (JStr owner) (getp message ''senderAccountId'')) (\<lambda>link.
     if \<not> js_truthy link then retE None
     else if getp link ''state'' \<noteq> JStr ''handshake_sent'' \<and> getp link ''state'' \<noteq> JStr ''accept_committed'' then retE None
     else
       (let expected = hne H (getp link ''remoteIdentitySigningPublicKeyB64'') in
        if \<not> js_truthy expected \<or> \<not> js_eq expected (getp message ''senderIdentitySigningPubKeyB64'') then retE None
        else
          bindE (hs_verifyEnvelope H payload (getp message ''signatureB64'')) (\<lambda>sigOk.
          if \<not> sigOk then retE None
          else
            bindE (kv_get (hs_kv H) (nonceKey owner (getp link ''peerLinkId''))) (\<lambda>storedNonce.
            if js_truthy storedNonce then
              (if js_String (getp message ''ackNonce'') \<noteq> js_String storedNonce then retE None
               else bindE (kv_delete (hs_kv H) (nonceKey owner (getp link ''peerLinkId''))) (\<lambda>_. retE (Some link)))
            else retE (Some link)))))"

text \<open>An answer that was taken: the snapshot, the event, the display name when there is one.\<close>

record answer =
  an_snapshot :: jsval
  an_event :: jsval
  an_remoteDisplayName :: jsval

definition ackCommit :: "string \<Rightarrow> jsval \<Rightarrow> jsval \<Rightarrow> jsval \<Rightarrow> int \<Rightarrow> 'm commit_args" where
  "ackCommit owner link remote existingSession nowMs =
     \<lparr>ca_ownerAccountId = JStr owner, ca_peerLinkRecord = link, ca_peerAccountId = remote, ca_secureChannelManager = None,
      ca_sessionStatus = JStr ''active'', ca_peerLinkState = JStr SESSION_ESTABLISHED, ca_existingSession = existingSession,
      ca_resetSessionCreatedAt = False, ca_peerInboxId = getp link ''peerInboxId'',
      ca_eventType = JStr ''handshake_ack_received'', ca_eventSummary = JStr ''Handshake acknowledged - session established'',
      ca_eventDetails = JUndef, ca_atMs = JInt nowMs\<rparr>"

definition handleIncomingHandshakeAck ::
    "('w, 'm) hs_env \<Rightarrow> jsval \<Rightarrow> octets option \<Rightarrow> ('w, answer option) hs_io" where
  "handleIncomingHandshakeAck H ownerAccountId ackPacketBytes =
     bindE (liftE (hid H ownerAccountId ''ownerAccountId'')) (\<lambda>owner.
     case requireBytes ackPacketBytes [] of
       Inl e \<Rightarrow> retE None
     | Inr bytes \<Rightarrow>
         (case hs_ackFromBytes H bytes of
            Inl e \<Rightarrow> retE None
          | Inr ack \<Rightarrow>
              bindE (onWorld (answeredLink H owner ack (hs_ackPayload H ack))) (\<lambda>answered.
              case answered of
                None \<Rightarrow> retE None
              | Some link \<Rightarrow>
                  (let remote = getp ack ''senderAccountId'' in
                   bindE (onWorld (clock (hs_e2ee H))) (\<lambda>nowMs.
                   bindE (onWorld (sessions_getByPeerLinkId (hsto H) (JStr owner) (getp link ''peerLinkId''))) (\<lambda>existingSession.
                   bindE (getsE as_strictTransitions) (\<lambda>strict.
                   catchE
                     (bindE (commitPlain H strict (ackCommit owner link remote existingSession nowMs)) (\<lambda>commit.
                      retE (Some \<lparr>an_snapshot = cr_snapshot commit, an_event = cr_event commit,
                        an_remoteDisplayName = displayNameOf (getp ack ''senderDisplayName'')\<rparr>)))
                     (\<lambda>_.
                      bindE (onWorld (peerLinks_getByPair (hsto H) (JStr owner) remote)) (\<lambda>fresh.
                      if js_truthy fresh \<and> getp fresh ''state'' = JStr ''session_established'' then
                        bindE (onWorld (buildSnapshot (hs_e2ee H) fresh)) (\<lambda>snapshot.
                        retE (Some \<lparr>an_snapshot = snapshot, an_event = JNull, an_remoteDisplayName = JUndef\<rparr>))
                      else throwE (plain_err (''Peer link version conflict for '' @ js_String (getp link ''peerLinkId''))))))))))))"

text \<open>The attempts that had not ended are marked as rejected.\<close>

fun reject_attempts :: "('w, 'm) hs_env \<Rightarrow> jsval \<Rightarrow> int \<Rightarrow> jsval list \<Rightarrow> ('w, unit) io" where
  "reject_attempts H reason nowMs [] = retE ()"
| "reject_attempts H reason nowMs (attempt # attempts) =
     (if getp attempt ''status'' = JStr ''completed'' \<or> getp attempt ''status'' = JStr ''rejected'' then reject_attempts H reason nowMs attempts
      else
        bindE (handshakeAttempts_update (hsto H) (spread attempt
          [(''status'', JStr ''rejected''), (''lastTriedAtMs'', JInt nowMs), (''lastErrorCode'', reason),
           (''lastErrorMessage'', JStr ''handshake rejected by inviter'')]) (getp attempt ''version'')) (\<lambda>_.
        reject_attempts H reason nowMs attempts))"

text \<open>A refusal that was taken: the snapshot, the event, the reason.\<close>

definition rollBack :: "('w, 'm) hs_env \<Rightarrow> string \<Rightarrow> jsval \<Rightarrow> jsval \<Rightarrow> jsval \<Rightarrow> ('w, jsval \<times> jsval \<times> jsval) hs_io" where
  "rollBack H owner link remote reason =
     bindE (onWorld (clock (hs_e2ee H))) (\<lambda>nowMs.
     bindE (onWorld (sessions_getByPeerLinkId (hsto H) (JStr owner) (getp link ''peerLinkId''))) (\<lambda>session.
     bindE (if js_truthy session \<and> js_truthy (getp session ''sessionId'')
            then bindE (onWorld (sessions_delete (hsto H) (JStr owner) (getp session ''sessionId''))) (\<lambda>_. retE ()) else retE ()) (\<lambda>_.
     bindE (onWorld (kv_delete (hs_kv H) (postCapKey owner (js_String (getp link ''peerLinkId''))))) (\<lambda>_.
     bindE (onWorld (handshakeAttempts_listByPeerLinkId (hsto H) (JStr owner) (getp link ''peerLinkId''))) (\<lambda>attempts.
     bindE (onWorld (reject_attempts H reason nowMs attempts)) (\<lambda>_.
     bindE (checkPeerLinkTransition (getp link ''state'') (JStr REJECTED)) (\<lambda>_.
     bindE (onWorld (peerLinks_update (hsto H) (spread link
       [(''state'', JStr REJECTED), (''activeSessionId'', JNull), (''lastStateChangeAtMs'', JInt nowMs), (''lastErrorCode'', reason),
        (''lastErrorMessage'', JStr ''handshake rejected by inviter'')]) (getp link ''version''))) (\<lambda>rejectedRecord.
     bindE (onWorld (appendPeerLinkEvent (hs_e2ee H) (JStr owner) (getp rejectedRecord ''peerLinkId'') (JStr ''handshake_rejected'')
       (JStr ''Handshake rejected by inviter - peer link rolled back'')
       (JObj [(''peerAccountId'', remote), (''reason'', reason)]) (JInt nowMs))) (\<lambda>eventRecord.
     bindE (onWorld (buildSnapshot (hs_e2ee H) rejectedRecord)) (\<lambda>snapshot.
     retE (snapshot, eventRecord, reason)))))))))))"

definition handleHandshakeReject ::
    "('w, 'm) hs_env \<Rightarrow> jsval \<Rightarrow> octets option \<Rightarrow> ('w, (jsval \<times> jsval \<times> jsval) option) hs_io" where
  "handleHandshakeReject H ownerAccountId rejectPacketBytes =
     bindE (liftE (hid H ownerAccountId ''ownerAccountId'')) (\<lambda>owner.
     case requireBytes rejectPacketBytes [] of
       Inl e \<Rightarrow> retE None
     | Inr bytes \<Rightarrow>
         (case hs_rejectFromBytes H bytes of
            Inl e \<Rightarrow> retE None
          | Inr reject \<Rightarrow>
              bindE (onWorld (answeredLink H owner reject (hs_rejectPayload H reject))) (\<lambda>answered.
              case answered of
                None \<Rightarrow> retE None
              | Some link \<Rightarrow>
                  bindE (rollBack H owner link (getp reject ''senderAccountId'') (js_or (hne H (getp reject ''reason'')) (JStr ''INVITE_REJECTED'')))
                    (\<lambda>out. retE (Some out)))))"

end
