(* ===== verification/Invites.thy ===== *)
theory Invites
  imports PeerLink_Handshake
begin

text \<open>
  Issuing and accepting invites (\<open>peer-link/PeerLinkService.js\<close>) and the canonical form of what an
  invite signs (\<open>peer-link/inviteCodeV1.js\<close>). The callback \<open>sendHandshake\<close> of \<open>acceptInvite\<close> may do
  anything to the service, for instance deliver the acknowledgement before it returns.
\<close>

section \<open>The canonical payload\<close>

fun stableNormalize :: "jsval \<Rightarrow> jsval" where
  "stableNormalize (JArr xs) = JArr (map stableNormalize xs)"
| "stableNormalize (JObj ps) = JObj (sort_key fst (map (\<lambda>(k, v). (k, stableNormalize v)) ps))"
| "stableNormalize v = v"

definition canonicalPayloadBytesV1 :: "jsval \<Rightarrow> octets" where
  "canonicalPayloadBytesV1 v = utf8_encode (JSON_stringify (stableNormalize v))"

section \<open>Issuing\<close>

definition resolveAuthority :: "('w, 'm) hs_env \<Rightarrow> string \<Rightarrow> ('w, 'w authority) io" where
  "resolveAuthority H accountId =
     (case hs_getInviteAuthority H of
        Some getAuthority \<Rightarrow> bindE (getAuthority accountId) (\<lambda>authority.
          case authority of None \<Rightarrow> throwE (plain_err ''getInviteAuthority must return { signer, verifier }'') | Some a \<Rightarrow> retE a)
      | None \<Rightarrow> retE (hs_ownAuthority H))"

record invite_args =
  iv_creatorDisplayName :: jsval
  iv_kind :: jsval
  iv_groupId :: jsval
  iv_groupCreatedBy :: jsval
  iv_groupSalt :: jsval
  iv_title :: jsval
  iv_maxUses :: jsval
  iv_expiresAtMs :: jsval
  iv_peerInboxId :: jsval

record issued =
  is_inviteId :: string
  is_expiresAtMs :: int
  is_maxUses :: int
  is_createdAtMs :: int
  is_publisherPublicKeyB64 :: jsval
  is_durableRecord :: jsval

definition WEEK_MS :: int where
  "WEEK_MS = 7 * 24 * 60 * 60 * 1000"

text \<open>A delegated inviter signs with its device key; its chain has to anchor to the account.\<close>

definition delegatedAnchor :: "('w, 'm) hs_env \<Rightarrow> acct_svc \<Rightarrow> string \<Rightarrow> unit res" where
  "delegatedAnchor H S owner =
     (case b64 (hs_acct H) (as_inviteOwnerPublicKeyB64 S) of
        Inl e \<Rightarrow> Inl (inviteInvalid (''createInvite delegated cert chain anchor is not a valid public key: ''
                   @ (if err_msg e = [] then ''unknown'' else err_msg e)))
      | Inr key \<Rightarrow> if ae_deriveAccountId (hs_acct H) key = owner then Inr ()
                   else Inl (inviteInvalid ''createInvite delegated cert chain does not anchor to the inviter account''))"

definition bindingTarget :: "('w, 'm) hs_env \<Rightarrow> acct_svc \<Rightarrow> jsval \<Rightarrow> jsval" where
  "bindingTarget H S peerInboxId =
     js_or (js_or (hne H peerInboxId) (hne H (if js_truthy (as_inviteBinding S) then getp (as_inviteBinding S) ''capabilityId'' else as_inviteBinding S)))
       (hne H (if js_truthy (as_inviteBinding S) then getp (as_inviteBinding S) ''mailboxId'' else as_inviteBinding S))"

text \<open>The text of a group's field: only for a group, trimmed, null when blank.\<close>

definition groupText :: "bool \<Rightarrow> jsval \<Rightarrow> jsval" where
  "groupText isGroup v = (if isGroup \<and> trimmed v \<noteq> [] then JStr (trimmed v) else JNull)"

definition inviteEnvelope ::
    "('w, 'm) hs_env \<Rightarrow> acct_svc \<Rightarrow> invite_args \<Rightarrow> string \<Rightarrow> string \<Rightarrow> int \<Rightarrow> int \<Rightarrow> jsval \<Rightarrow> jsval \<Rightarrow> bool \<Rightarrow> jsval \<Rightarrow> jsval" where
  "inviteEnvelope H S a owner inviteId nowMs expires binding postCap delegated signerRef =
     (let isGroup = js_eq (iv_kind a) (JStr ''group'') in
      JObj ([(''inviteId'', JStr inviteId), (''kind'', JStr (if isGroup then ''group'' else ''direct'')),
        (''groupId'', groupText isGroup (iv_groupId a)),
        (''groupCreatedBy'', if isGroup then js_or (hne H (iv_groupCreatedBy a)) (JStr owner) else JNull),
        (''groupSalt'', if isGroup then hne H (iv_groupSalt a) else JNull),
        (''title'', groupText isGroup (iv_title a)), (''creatorAccountId'', JStr owner),
        (''creatorDisplayName'', hne H (iv_creatorDisplayName a)), (''createdAtMs'', JInt nowMs), (''expiresAtMs'', JInt expires),
        (''maxUses'', JInt (asPositiveInt (iv_maxUses a) 1)), (''binding'', binding), (''postCap'', postCap), (''signerRef'', signerRef)]
        @ (if delegated then [(''certChain'', case as_inviteCertChain S of Some cs \<Rightarrow> JArr cs | None \<Rightarrow> JNull)] else [])))"

text \<open>The device that signs for the account; a delegated service was constructed with its key.\<close>

definition deviceSign :: "('w, 'm) hs_env \<Rightarrow> acct_svc \<Rightarrow> octets \<Rightarrow> ('w, octets) io" where
  "deviceSign H S msg =
     (case as_deviceSigningKeyPair S of
        Some kp \<Rightarrow> signBytes (hs_e2ee H) (kp_private kp) msg
      | None \<Rightarrow> throwE no_property)"

definition inviteDurableRecord ::
    "('w, 'm) hs_env \<Rightarrow> acct_svc \<Rightarrow> 'w authority option \<Rightarrow> string \<Rightarrow> jsval \<Rightarrow> jsval \<Rightarrow> int \<Rightarrow> int \<Rightarrow> ('w, jsval) io" where
  "inviteDurableRecord H S authority inviteId publisher payloadB64 nowMs expires =
     (case authority of
        None \<Rightarrow>
          bindE (liftE (hs_buildDurableV2 H (JObj
            [(''recordKind'', JStr (hs_INVITE_KIND H)), (''recordId'', JStr inviteId), (''ownerPublicKeyB64'', publisher),
             (''signerPublicKeyB64'', as_devicePublicKeyB64 S),
             (''certChain'', case as_inviteCertChain S of Some cs \<Rightarrow> JArr cs | None \<Rightarrow> JNull),
             (''requiredCapability'', JStr PEERLINK_INVITE_REQUIRED_CAPABILITY), (''payloadB64'', payloadB64),
             (''issuedAtMs'', JInt nowMs), (''expiresAtMs'', JInt expires)]))) (\<lambda>rcd.
          bindE (deviceSign H S (hs_durableV2Bytes H rcd)) (\<lambda>sig.
          retE (set_prop ''sigB64'' (toB64 (hs_acct H) sig) rcd)))
      | Some au \<Rightarrow>
          bindE (liftE (hs_buildDurableV1 H (JObj
            [(''recordKind'', JStr (hs_INVITE_KIND H)), (''recordId'', JStr inviteId), (''publisherPublicKeyB64'', publisher),
             (''payloadB64'', payloadB64), (''issuedAtMs'', JInt nowMs), (''expiresAtMs'', JInt expires)]))) (\<lambda>rcd.
          bindE (au_sign au (hs_durableV1Bytes H rcd)) (\<lambda>sig.
          retE (set_prop ''sigB64'' (toB64 (hs_acct H) sig) rcd))))"

text \<open>The reply binding, with the signer of a delegated account binding surfaced in it.\<close>

definition surfaceSigner :: "('w, 'm) hs_env \<Rightarrow> bool \<Rightarrow> jsval \<Rightarrow> jsval \<Rightarrow> jsval" where
  "surfaceSigner H delegated accountBinding binding =
     (if delegated \<and> is_object accountBinding \<and> js_truthy (hne H (getp accountBinding ''accountBindingSignerPublicKeyB64''))
      then set_prop ''x3dh'' (set_prop ''accountBindingSignerPublicKeyB64'' (hne H (getp accountBinding ''accountBindingSignerPublicKeyB64''))
             (getp binding ''x3dh'')) binding
      else binding)"

definition createInvite :: "('w, 'm) hs_env \<Rightarrow> jsval \<Rightarrow> invite_args \<Rightarrow> ('w, issued) acct_io" where
  "createInvite H ownerAccountId a =
     bindE (getsE (\<lambda>S. S)) (\<lambda>S.
     bindE (liftE (hid H ownerAccountId ''ownerAccountId'')) (\<lambda>owner.
     bindE (ext (clock (hs_e2ee H))) (\<lambda>nowMs.
     (let delegated = \<not> as_hasAdminRoot S in
      bindE (if delegated then bindE (liftE (delegatedAnchor H S owner)) (\<lambda>_. retE None)
             else bindE (ext (resolveAuthority H owner)) (\<lambda>au. retE (Some au))) (\<lambda>authority.
      bindE (ext (stableId (hs_e2ee H) ''plinv'')) (\<lambda>inviteId.
      (let expires = (if iv_expiresAtMs a = JNull \<or> iv_expiresAtMs a = JUndef then nowMs + WEEK_MS
                      else asPositiveInt (iv_expiresAtMs a) (nowMs + WEEK_MS));
           target = bindingTarget H S (iv_peerInboxId a); isGroup = js_eq (iv_kind a) (JStr ''group'') in
       bindE (liftE (scm (hs_e2ee H) JUndef)) (\<lambda>m.
       bindE (requireBoundX3dhIdentity (hs_acct H) (JStr owner)) (\<lambda>bound.
       bindE (requireE (js_truthy target) (code_err ''INVITE_BINDING_REQUIRED''
         ''createInvite requires a reply binding: configure PeerLinkService inviteBinding (capabilityId/mailboxId) or pass peerInboxId'')) (\<lambda>_.
       bindE (ext (hs_prepareInviteBinding H m owner (bi_keyPair bound) (bi_identityDhKeyPair bound) (bi_accountBinding bound)
         (spread (as_inviteBinding S) [(''mailboxId'', target), (''capabilityId'', target)]))) (\<lambda>(binding0, preKeyState).
       bindE (case hs_signPostBearerCap H of None \<Rightarrow> retE JNull | Some sign \<Rightarrow> ext (sign expires)) (\<lambda>postCap.
       (let signerRef = (case authority of
              None \<Rightarrow> JObj [(''accountId'', JStr owner), (''keyId'', JStr ''invite-ed25519-delegated-v1''), (''alg'', JStr ''ed25519''),
                            (''signerPublicKeyB64'', as_devicePublicKeyB64 S)]
            | Some au \<Rightarrow> au_signerRef au);
            envelope = inviteEnvelope H S a owner inviteId nowMs expires (surfaceSigner H delegated (bi_accountBinding bound) binding0)
              postCap delegated signerRef;
            payload = canonicalPayloadBytesV1 envelope in
        bindE (case authority of None \<Rightarrow> ext (deviceSign H S payload) | Some au \<Rightarrow> ext (au_sign au payload)) (\<lambda>signatureBytes.
        (let signatureB64 = toB64 (hs_acct H) signatureBytes;
             publisher = (case authority of None \<Rightarrow> as_inviteOwnerPublicKeyB64 S | Some au \<Rightarrow> getp (au_signerRef au) ''signerPublicKeyB64'') in
         bindE (ext (saveInviteRecord H (JObj
           [(''inviteId'', JStr inviteId), (''ownerAccountId'', JStr owner), (''tokenHash'', JStr (hs_sha256Bytes H payload)),
            (''kind'', JStr (if isGroup then ''group'' else ''direct'')), (''groupId'', groupText isGroup (iv_groupId a)), (''status'', JStr ''active''),
            (''createdAtMs'', JInt nowMs), (''updatedAtMs'', JInt nowMs), (''expiresAtMs'', JInt expires),
            (''maxUses'', JInt (asPositiveInt (iv_maxUses a) 1)), (''acceptedAcceptors'', JArr []), (''peerLinkId'', JNull),
            (''envelope'', envelope), (''signatureB64'', signatureB64)]))) (\<lambda>_.
         bindE (ext (keys_putInvitePreKey (hsto H) (JStr owner) (JStr inviteId) preKeyState)) (\<lambda>_.
         bindE (ext (inviteDurableRecord H S authority inviteId publisher
           (toB64 (hs_acct H) (utf8_encode (JSON_stringify (JObj [(''envelope'', envelope), (''signatureB64'', signatureB64)])))) nowMs expires)) (\<lambda>durableRecord.
         retE \<lparr>is_inviteId = inviteId, is_expiresAtMs = expires, is_maxUses = asPositiveInt (iv_maxUses a) 1, is_createdAtMs = nowMs,
               is_publisherPublicKeyB64 = publisher, is_durableRecord = durableRecord\<rparr>))))))))))))))))))"

section \<open>Accepting: verification\<close>

record ('w, 'm) accept_args =
  ac_envelope :: jsval
  ac_signatureB64 :: jsval
  ac_acceptorAccountId :: jsval
  ac_acceptorDisplayName :: jsval
  ac_sendHandshake :: "(string \<Rightarrow> octets \<Rightarrow> string \<Rightarrow> ('w, jsval) hs_io) option"
  ac_senderInboxId :: jsval
  ac_forceReestablish :: bool

definition inviteFormat :: "string \<Rightarrow> js_err" where
  "inviteFormat msg = code_err ''INVITE_INVALID_FORMAT'' msg"

text \<open>A field of the X3DH part of the reply binding; null when there is none.\<close>

definition x3dhField :: "jsval \<Rightarrow> string \<Rightarrow> jsval" where
  "x3dhField envelope f =
     (let x3dh = getp (getp envelope ''binding'') ''x3dh'' in
      if js_truthy (getp envelope ''binding'') \<and> js_truthy x3dh then getp x3dh f else JNull)"

text \<open>A delegated envelope: signed by the device key it names, for the account that the anchor derives,
  with a chain that grants inviting to exactly that device.\<close>

definition delegatedVerified ::
    "('w, 'm) hs_env \<Rightarrow> jsval \<Rightarrow> string \<Rightarrow> octets \<Rightarrow> octets \<Rightarrow> jsval \<Rightarrow> int \<Rightarrow> ('w, bool) io" where
  "delegatedVerified H envelope inviter payload sig chain nowMs =
     (let ref = (if is_object (getp envelope ''signerRef'') then getp envelope ''signerRef'' else JNull);
          signer = (if js_truthy ref then hne H (getp ref ''signerPublicKeyB64'') else JNull);
          account = (if js_truthy ref then hne H (getp ref ''accountId'') else JNull);
          anchor = (if is_object (getp (getp envelope ''binding'') ''x3dh'') then hne H (x3dhField envelope ''accountIdentityPublicKeyB64'') else JNull) in
      if \<not> (js_truthy signer \<and> js_truthy anchor \<and> js_eq account (JStr inviter)) then retE False
      else if \<not> (case b64 (hs_acct H) anchor of Inl e \<Rightarrow> False | Inr key \<Rightarrow> ae_deriveAccountId (hs_acct H) key = inviter) then retE False
      else
        bindE (catchE (bindE (liftE (b64 (hs_acct H) signer)) (\<lambda>key. sl_verify (ae_seal (hs_acct H)) key payload sig)) (\<lambda>_. retE False)) (\<lambda>signed.
        if \<not> signed then retE False
        else
          bindE (ae_verifyAccountAuthority (hs_acct H) (js_String anchor) PEERLINK_INVITE_REQUIRED_CAPABILITY (js_String signer) chain nowMs) (\<lambda>verdict.
          retE (dc_ok verdict))))"

definition envelopeVerified :: "('w, 'm) hs_env \<Rightarrow> jsval \<Rightarrow> string \<Rightarrow> octets \<Rightarrow> octets \<Rightarrow> int \<Rightarrow> ('w, bool) io" where
  "envelopeVerified H envelope inviter payload sig nowMs =
     (case chainOrNull (getp envelope ''certChain'') of
        JArr cs \<Rightarrow> delegatedVerified H envelope inviter payload sig (JArr cs) nowMs
      | _ \<Rightarrow> bindE (resolveAuthority H inviter) (\<lambda>au. au_verify au (getp envelope ''signerRef'') payload sig))"

text \<open>Everything that is checked before the first write: the inviter, and the time of the call.\<close>

definition checkedInvite :: "('w, 'm) hs_env \<Rightarrow> jsval \<Rightarrow> jsval \<Rightarrow> ('w, string \<times> int) io" where
  "checkedInvite H envelope signatureB64 =
     bindE (requireE (is_object envelope) (inviteFormat ''acceptInvite requires envelope object'')) (\<lambda>_.
     bindE (requireE (nonEmptyStr signatureB64) (inviteFormat ''acceptInvite requires signatureB64 string'')) (\<lambda>_.
     bindE (liftE (b64 (hs_acct H) signatureB64)) (\<lambda>sig.
     bindE (liftE (verifyInviteKind H envelope)) (\<lambda>_.
     bindE (liftE (hid H (getp envelope ''creatorAccountId'') ''creatorAccountId'')) (\<lambda>inviter.
     bindE (clock (hs_e2ee H)) (\<lambda>nowMs.
     bindE (envelopeVerified H envelope inviter (canonicalPayloadBytesV1 envelope) sig nowMs) (\<lambda>verified.
     bindE (requireE verified (inviteInvalid ''peer-link invite signature invalid'')) (\<lambda>_.
     bindE (requireE (\<not> nowMs \<ge> asPositiveInt (getp envelope ''expiresAtMs'') nowMs) (code_err ''INVITE_EXPIRED'' ''peer-link invite expired'')) (\<lambda>_.
     bindE (verifyInviteX3dhBinding (hs_acct H) (JStr inviter) (getp envelope ''binding'') (chainOrNull (getp envelope ''certChain''))) (\<lambda>_.
     retE (inviter, nowMs)))))))))))"

section \<open>Accepting: the link\<close>

text \<open>A link that an invite drives again: dead, without a session, or forced.\<close>

definition isReattempt :: "jsval \<Rightarrow> bool \<Rightarrow> bool" where
  "isReattempt existing force \<longleftrightarrow> js_truthy existing \<and>
     (getp existing ''state'' = JStr ''rejected'' \<or> getp existing ''state'' = JStr ''failed''
      \<or> getp existing ''state'' = JStr ''session_established'' \<and> \<not> js_truthy (getp existing ''activeSessionId'')
      \<or> force \<and> getp existing ''state'' \<noteq> JStr ''invite_issued'')"

definition acceptedLink ::
    "('w, 'm) hs_env \<Rightarrow> jsval \<Rightarrow> string \<Rightarrow> string \<Rightarrow> jsval \<Rightarrow> bool \<Rightarrow> jsval \<Rightarrow> int \<Rightarrow> ('w, string \<times> jsval) io" where
  "acceptedLink H envelope acceptor inviter existing reattempt peerLinkId nowMs =
     (let signing = hne H (x3dhField envelope ''identitySigningPublicKeyB64'') in
      bindE (requireE (js_truthy signing) (inviteInvalid ''invite envelope missing x3dh.identitySigningPublicKeyB64'')) (\<lambda>_.
      bindE (liftE (hid H (getp envelope ''inviteId'') ''inviteId'')) (\<lambda>inviteId.
      (let fresh = [(''remoteIdentitySigningPublicKeyB64'', signing),
             (''remoteIdentityDhPublicKeyB64'', hne H (x3dhField envelope ''identityDhPublicKeyB64'')),
             (''remoteAccountIdentityPublicKeyB64'', hne H (x3dhField envelope ''accountIdentityPublicKeyB64'')),
             (''state'', JStr ''accept_committed''), (''activeInviteId'', JStr inviteId), (''activeSessionId'', JNull),
             (''peerInboxId'', if is_object (getp envelope ''binding'') then hne H (getp (getp envelope ''binding'') ''capabilityId'') else JNull),
             (''lastStateChangeAtMs'', JInt nowMs), (''lastErrorCode'', JNull), (''lastErrorMessage'', JNull)] in
       bindE (if reattempt then peerLinks_update (hsto H) (spread existing fresh) (getp existing ''version'')
              else peerLinks_create (hsto H) (JObj ([(''peerLinkId'', peerLinkId), (''localAccountId'', JStr acceptor), (''peerAccountId'', JStr inviter)]
                @ fresh @ [(''version'', JInt 1)]))) (\<lambda>link.
       retE (inviteId, link))))))"

text \<open>The peer-link id on the local record of the invite, if the inviter lives on the same node.\<close>

definition backLink :: "('w, 'm) hs_env \<Rightarrow> jsval \<Rightarrow> jsval \<Rightarrow> int \<Rightarrow> ('w, unit) io" where
  "backLink H localInvite peerLinkId nowMs =
     (if \<not> js_truthy localInvite then retE ()
      else
        bindE (getInviteRecord H (getp localInvite ''ownerAccountId'') (getp localInvite ''inviteId'')) (\<lambda>fresh.
        if \<not> js_truthy fresh then retE ()
        else bindE (saveInviteRecord H (spread fresh [(''peerLinkId'', peerLinkId), (''updatedAtMs'', JInt nowMs)])) (\<lambda>_. retE ())))"

definition acceptCommit :: "jsval \<Rightarrow> string \<Rightarrow> string \<Rightarrow> jsval \<Rightarrow> 'm \<Rightarrow> jsval \<Rightarrow> bool \<Rightarrow> int \<Rightarrow> 'm commit_args" where
  "acceptCommit envelope acceptor inviter link m existingSession reattempt nowMs =
     \<lparr>ca_ownerAccountId = JStr acceptor, ca_peerLinkRecord = link, ca_peerAccountId = JStr inviter, ca_secureChannelManager = Some m,
      ca_sessionStatus = JStr ''pending_remote_confirm'', ca_peerLinkState = JStr ACCEPT_COMMITTED, ca_existingSession = existingSession,
      ca_resetSessionCreatedAt = reattempt, ca_peerInboxId = JUndef, ca_eventType = JStr ''handshake_pending'',
      ca_eventSummary = JStr ''Handshake state created'', ca_eventDetails = JObj [(''inviteId'', getp envelope ''inviteId'')],
      ca_atMs = JInt nowMs\<rparr>"

section \<open>Accepting: the handshake\<close>

text \<open>The variables that the send and the handler of its failure share: the attempt, the link, the event.\<close>

record locals =
  lo_attempt :: jsval
  lo_link :: jsval
  lo_event :: jsval

type_synonym ('w, 'a) send_io = "(locals \<times> (acct_svc \<times> 'w svc), 'a) io"

definition sessionIdOf :: "jsval \<Rightarrow> jsval res" where
  "sessionIdOf sessionRecord = (if sessionRecord = JNull then Inl no_property else Inr (getp sessionRecord ''sessionId''))"

text \<open>A write of the link that goes through the check of its transition, then the event.\<close>

definition moveLink ::
    "('w, 'm) hs_env \<Rightarrow> string \<Rightarrow> jsval \<Rightarrow> jsval \<Rightarrow> string \<Rightarrow> jsval \<Rightarrow> jsval \<Rightarrow> string \<Rightarrow> string \<Rightarrow> (jsval \<Rightarrow> jsval) \<Rightarrow> int \<Rightarrow> ('w, unit) send_io" where
  "moveLink H acceptor peerLinkId current to_state errorCode errorMessage eventType summary details nowMs =
     bindE (ext (checkPeerLinkTransition (getp current ''state'') (JStr to_state))) (\<lambda>_.
     bindE (ext (onWorld (peerLinks_update (hsto H) (spread current
       [(''state'', JStr to_state), (''lastStateChangeAtMs'', JInt nowMs), (''lastErrorCode'', errorCode), (''lastErrorMessage'', errorMessage)])
       (getp current ''version'')))) (\<lambda>link.
     bindE (modifyE (\<lambda>l. l\<lparr>lo_link := link\<rparr>)) (\<lambda>_.
     bindE (ext (onWorld (appendPeerLinkEvent (hs_e2ee H) (JStr acceptor) peerLinkId (JStr eventType) (JStr summary) (details link) (JInt nowMs)))) (\<lambda>event.
     modifyE (\<lambda>l. l\<lparr>lo_event := event\<rparr>)))))"

text \<open>The body of the \<open>try\<close>: send, look whether the acknowledgement has come meanwhile, else record that the
  handshake is sent.\<close>

definition sendAndRecord ::
    "('w, 'm) hs_env \<Rightarrow> (string \<Rightarrow> octets \<Rightarrow> string \<Rightarrow> ('w, jsval) hs_io) \<Rightarrow> string \<Rightarrow> string \<Rightarrow> jsval \<Rightarrow> jsval \<Rightarrow> octets \<Rightarrow> int
      \<Rightarrow> ('w, unit) send_io" where
  "sendAndRecord H send acceptor inviter peerLinkId sessionRecord packet nowMs =
     bindE (getsE (\<lambda>l. l)) (\<lambda>l0.
     bindE (liftE (hid H (getp (lo_link l0) ''peerInboxId'') ''deliverInboxId'')) (\<lambda>deliverInboxId.
     bindE (ext (send deliverInboxId packet inviter)) (\<lambda>sendResult.
     bindE (ext (onWorld (peerLinks_getById (hsto H) (JStr acceptor) peerLinkId))) (\<lambda>fresh.
     if js_truthy fresh \<and> getp fresh ''state'' = JStr ''session_established'' then modifyE (\<lambda>l. l\<lparr>lo_link := fresh\<rparr>)
     else
       bindE (liftE (sessionIdOf sessionRecord)) (\<lambda>sessionId.
       bindE (ext (onWorld (handshakeAttempts_update (hsto H) (spread (lo_attempt l0)
         [(''status'', JStr ''sent''),
          (''packetMessageId'', if js_truthy sendResult \<and> js_truthy (getp sendResult ''packetId'') then JStr (js_String (getp sendResult ''packetId'')) else JNull),
          (''sessionId'', sessionId), (''lastTriedAtMs'', JInt nowMs), (''lastErrorCode'', JNull), (''lastErrorMessage'', JNull)])
         (getp (lo_attempt l0) ''version'')))) (\<lambda>attempt.
       bindE (modifyE (\<lambda>l. l\<lparr>lo_attempt := attempt\<rparr>)) (\<lambda>_.
       moveLink H acceptor peerLinkId (js_or fresh (lo_link l0)) HANDSHAKE_SENT JNull JNull ''handshake_sent'' ''Handshake sent''
         (\<lambda>link. JObj [(''handshakeAttemptId'', getp attempt ''handshakeAttemptId''), (''sessionId'', sessionId),
                       (''deliverInboxId'', getp link ''peerInboxId'')]) nowMs)))))))"

text \<open>The handler: unless the acknowledgement has come, the attempt is marked (best effort) and the link degraded.\<close>

definition errField :: "('w, 'm) hs_env \<Rightarrow> string \<Rightarrow> string \<Rightarrow> jsval" where
  "errField H v fallback = js_or (hne H (if v = [] then JUndef else JStr v)) (JStr fallback)"

definition sendFailed ::
    "('w, 'm) hs_env \<Rightarrow> string \<Rightarrow> jsval \<Rightarrow> jsval \<Rightarrow> int \<Rightarrow> js_err \<Rightarrow> ('w, unit) send_io" where
  "sendFailed H acceptor peerLinkId sessionRecord nowMs err =
     bindE (ext (onWorld (peerLinks_getById (hsto H) (JStr acceptor) peerLinkId))) (\<lambda>fresh.
     if js_truthy fresh \<and> getp fresh ''state'' = JStr ''session_established'' then modifyE (\<lambda>l. l\<lparr>lo_link := fresh\<rparr>)
     else
       (let errorCode = errField H (err_code err) ''HANDSHAKE_SEND_FAILED''; errorMessage = errField H (err_msg err) ''handshake send failed'' in
        bindE (getsE (\<lambda>l. l)) (\<lambda>l0.
        bindE (catchE
          (bindE (liftE (sessionIdOf sessionRecord)) (\<lambda>sessionId.
           bindE (ext (onWorld (handshakeAttempts_update (hsto H) (spread (lo_attempt l0)
             [(''status'', JStr ''failed''), (''sessionId'', sessionId), (''lastTriedAtMs'', JInt nowMs),
              (''retryCount'', JNum (case js_Number (js_or (getp (lo_attempt l0) ''retryCount'') (JInt 0)) of Fin q \<Rightarrow> Fin (q + 1) | n \<Rightarrow> n)),
              (''lastErrorCode'', errorCode), (''lastErrorMessage'', errorMessage)])
             (getp (lo_attempt l0) ''version'')))) (\<lambda>attempt.
           modifyE (\<lambda>l. l\<lparr>lo_attempt := attempt\<rparr>))))
          (\<lambda>_. retE ())) (\<lambda>_.
        bindE (getsE (\<lambda>l. l)) (\<lambda>l1.
        moveLink H acceptor peerLinkId (js_or fresh (lo_link l1)) DEGRADED errorCode errorMessage ''handshake_failed'' ''Handshake send failed''
          (\<lambda>link. JObj [(''handshakeAttemptId'', getp (lo_attempt l1) ''handshakeAttemptId''), (''errorCode'', errorCode),
                        (''errorMessage'', errorMessage)]) nowMs)))))"

text \<open>The signed handshake of the acceptor; its nonce is stored before it is sent.\<close>

definition handshakeToSend ::
    "('w, 'm) hs_env \<Rightarrow> ('w, 'm) accept_args \<Rightarrow> string \<Rightarrow> string \<Rightarrow> jsval \<Rightarrow> key_pair \<Rightarrow> jsval \<Rightarrow> int \<Rightarrow> ('w, octets) acct_io" where
  "handshakeToSend H a acceptor inviteId peerLinkId keyPair handshakeData0 nowMs =
     bindE (loadAccountKeyRecord (hs_acct H) (JStr acceptor)) (\<lambda>keyRecord.
     bindE (requireE (is_object (getp keyRecord ''accountBinding''))
       (reauth ''Acceptor account binding is required for handshake authentication'')) (\<lambda>_.
     bindE (ext (runtimeUuid (hs_e2ee H))) (\<lambda>ackNonce.
     bindE (getsE as_inviteBinding) (\<lambda>own.
     (let handshakeData = spread handshakeData0
            [(''inviteId'', JStr inviteId), (''senderDisplayName'', displayNameOf (ac_acceptorDisplayName a)),
             (''senderInboxId'', js_or (js_or (hne H (ac_senderInboxId a))
                (hne H (if js_truthy own \<and> js_truthy (getp own ''capabilityId'') then getp own ''capabilityId'' else JNull))) JNull),
             (''senderAccountBinding'', cloneJsonValue (getp keyRecord ''accountBinding'')), (''ackNonce'', JStr ackNonce),
             (''createdAtMs'', JInt nowMs)] in
      bindE (ext (hs_signEnvelope H handshakeData (kp_private keyPair))) (\<lambda>sig.
      bindE (liftE (hs_handshakePacket H handshakeData sig)) (\<lambda>packet.
      bindE (ext (kv_set (hs_kv H) (nonceKey acceptor peerLinkId) (JStr ackNonce))) (\<lambda>_.
      retE packet))))))))"

definition sendHandshakeOf ::
    "('w, 'm) hs_env \<Rightarrow> ('w, 'm) accept_args \<Rightarrow> string \<Rightarrow> string \<Rightarrow> string \<Rightarrow> jsval \<Rightarrow> key_pair \<Rightarrow> jsval \<Rightarrow> jsval \<Rightarrow> int \<Rightarrow> locals
      \<Rightarrow> ('w, locals) hs_io" where
  "sendHandshakeOf H a acceptor inviter inviteId peerLinkId keyPair handshakeData0 sessionRecord nowMs l0 =
     (case ac_sendHandshake a of
        None \<Rightarrow> retE l0
      | Some send \<Rightarrow>
          bindE (onAcct (handshakeToSend H a acceptor inviteId peerLinkId keyPair handshakeData0 nowMs)) (\<lambda>packet. \<lambda>s.
            (case catchE (sendAndRecord H send acceptor inviter peerLinkId sessionRecord packet nowMs)
                    (sendFailed H acceptor peerLinkId sessionRecord nowMs) (l0, s) of
               (Inl e, (l, s')) \<Rightarrow> (Inl e, s')
             | (Inr x, (l, s')) \<Rightarrow> (Inr l, s'))))"

section \<open>Accepting\<close>

definition acceptNew ::
    "('w, 'm) hs_env \<Rightarrow> ('w, 'm) accept_args \<Rightarrow> string \<Rightarrow> string \<Rightarrow> jsval \<Rightarrow> int \<Rightarrow> ('w, jsval \<times> jsval) hs_io" where
  "acceptNew H a acceptor inviter existing nowMs =
     (let envelope = ac_envelope a; reattempt = isReattempt existing (ac_forceReestablish a) in
      bindE (onWorld (getInviteRecordByHash H (JStr inviter) (JStr (hs_sha256Bytes H (canonicalPayloadBytesV1 envelope))))) (\<lambda>localInvite.
      bindE (if reattempt then retE (getp existing ''peerLinkId'') else bindE (onWorld (stableId (hs_e2ee H) ''pl'')) (\<lambda>i. retE (JStr i))) (\<lambda>peerLinkId.
      bindE (onWorld (acceptedLink H envelope acceptor inviter existing reattempt peerLinkId nowMs)) (\<lambda>(inviteId, link).
      bindE (if is_object (getp envelope ''postCap'') then onWorld (kv_set (hs_kv H) (postCapKey acceptor (js_String peerLinkId)) (getp envelope ''postCap''))
             else retE ()) (\<lambda>_.
      bindE (onWorld (stableId (hs_e2ee H) ''hs'')) (\<lambda>attemptId.
      bindE (onWorld (handshakeAttempts_create (hsto H) (attemptRecord attemptId peerLinkId acceptor ''initiator'' ''pending'' inviteId JNull nowMs))) (\<lambda>attempt.
      bindE (onWorld (backLink H localInvite peerLinkId nowMs)) (\<lambda>_.
      bindE (onWorld (appendPeerLinkEvent (hs_e2ee H) (JStr acceptor) peerLinkId (JStr ''invite_accepted'') (JStr ''Peer link acceptance committed'')
        (JObj [(''inviteId'', getp envelope ''inviteId''), (''acceptorAccountId'', JStr acceptor),
               (''acceptorDisplayName'', hne H (ac_acceptorDisplayName a)), (''handshakeAttemptId'', getp attempt ''handshakeAttemptId'')])
        (JInt nowMs))) (\<lambda>_.
      bindE (liftE (scm (hs_e2ee H) JUndef)) (\<lambda>m.
      bindE (onAcct (requireBoundX3dhIdentity (hs_acct H) (JStr acceptor))) (\<lambda>bound.
      bindE (onWorld (hs_processAcceptedInvite H m (getp envelope ''binding'') inviter (bi_keyPair bound) (bi_identityDhKeyPair bound)
        (bi_identityDhSignature bound))) (\<lambda>(handshakeData0, m').
      bindE (if reattempt then onWorld (sessions_getByPeerLinkId (hsto H) (JStr acceptor) peerLinkId) else retE JNull) (\<lambda>existingSession.
      bindE (getsE as_strictTransitions) (\<lambda>strict.
      bindE (commitPlain H strict (acceptCommit envelope acceptor inviter link m' existingSession reattempt nowMs)) (\<lambda>commit.
      bindE (sendHandshakeOf H a acceptor inviter inviteId peerLinkId (bi_keyPair bound) handshakeData0 (cr_sessionRecord commit) nowMs
        \<lparr>lo_attempt = attempt, lo_link = cr_peerLinkRecord commit, lo_event = cr_event commit\<rparr>) (\<lambda>l.
      bindE (onWorld (buildSnapshot (hs_e2ee H) (lo_link l))) (\<lambda>snapshot.
      retE (snapshot, lo_event l))))))))))))))))))"

definition acceptInvite :: "('w, 'm) hs_env \<Rightarrow> ('w, 'm) accept_args \<Rightarrow> ('w, jsval \<times> jsval) hs_io" where
  "acceptInvite H a =
     bindE (liftE (hid H (ac_acceptorAccountId a) ''acceptorAccountId'')) (\<lambda>acceptor.
     bindE (onWorld (checkedInvite H (ac_envelope a) (ac_signatureB64 a))) (\<lambda>(inviter, nowMs).
     bindE (onWorld (peerLinks_getByPair (hsto H) (JStr acceptor) (JStr inviter))) (\<lambda>existing.
     if js_truthy existing \<and> \<not> isReattempt existing (ac_forceReestablish a) then
       bindE (onWorld (appendPeerLinkEvent (hs_e2ee H) (JStr acceptor) (getp existing ''peerLinkId'') (JStr ''invite_accept_idempotent'')
         (JStr ''Peer link already exists'')
         (JObj [(''inviteId'', getp (ac_envelope a) ''inviteId''), (''acceptorAccountId'', JStr acceptor)]) (JInt nowMs))) (\<lambda>event.
       bindE (onWorld (buildSnapshot (hs_e2ee H) existing)) (\<lambda>snapshot.
       retE (snapshot, event)))
     else acceptNew H a acceptor inviter existing nowMs)))"

end
