(* ===== verification/Authority_Records.thy ===== *)
theory Authority_Records
  imports Invites
begin

text \<open>
  What an account publishes about itself (\<open>peer-link/PeerLinkService.js\<close>): who signs for it, the prekey
  bundle of this device with the window of prekeys it keeps, the device set sealed to a peer, and the
  authority state (the revoked certificates), which only the account's root key may sign.

  \<open>pub_env\<close> adds to the environment of invites the record class of the authority state, the constants of
  the records and the collation of \<open>localeCompare\<close>.
\<close>

section \<open>The environment\<close>

text \<open>An \<open>AccountAuthorityStateV1\<close>: the fields the service reads, and its JSON form.\<close>

record authority_state =
  at_account :: jsval
  at_signer :: jsval
  at_epoch :: jsval
  at_sigB64 :: jsval
  at_json :: jsval

record ('w, 'm) pub_env =
  pe_hs :: "('w, 'm) hs_env"
  pe_collate :: "string \<Rightarrow> string \<Rightarrow> bool"
  pe_stateNew :: "jsval \<Rightarrow> authority_state res"
  pe_stateBytes :: "jsval \<Rightarrow> octets"
  pe_revocationState :: "authority_state \<Rightarrow> jsval"
  pe_STATE_V :: jsval
  pe_STATE_PURPOSE :: jsval
  pe_STATE_KIND :: string
  pe_SET_V :: jsval
  pe_SET_PURPOSE :: jsval
  pe_BUNDLE_V :: jsval
  pe_BUNDLE_PURPOSE :: jsval

abbreviation pa :: "('w, 'm) pub_env \<Rightarrow> ('w, 'm) acct_env" where
  "pa E \<equiv> hs_acct (pe_hs E)"

abbreviation pseal :: "('w, 'm) pub_env \<Rightarrow> 'w seal_env" where
  "pseal E \<equiv> ae_seal (pa E)"

definition DEVICE_SET_TTL_MS :: int where
  "DEVICE_SET_TTL_MS = 30 * 24 * 60 * 60 * 1000"

text \<open>\<open>asPositiveInt(nowMs, this.clock())\<close>: the clock is read in any case.\<close>

definition timeOr :: "('w, 'm) pub_env \<Rightarrow> jsval \<Rightarrow> ('w, int) acct_io" where
  "timeOr E nowMs = bindE (ext (clock (ae_e2ee (pa E)))) (\<lambda>now. retE (asPositiveInt nowMs now))"

section \<open>Who signs for the account\<close>

record 'w account_signer =
  sg_account :: jsval
  sg_sign :: "octets \<Rightarrow> ('w, octets) io"

definition resolveAccountIdentitySigner :: "('w, 'm) pub_env \<Rightarrow> jsval \<Rightarrow> ('w, 'w account_signer) acct_io" where
  "resolveAccountIdentitySigner E ownerAccountId =
     bindE (liftE (hid (pe_hs E) ownerAccountId ''ownerAccountId'')) (\<lambda>owner.
     bindE (ext (resolveAuthority (pe_hs E) owner)) (\<lambda>authority.
     (let ref = au_signerRef authority;
          account = ne (pa E) (if js_truthy ref then getp ref ''signerPublicKeyB64'' else ref) in
      bindE (requireE (js_truthy account) (plain_err ''account identity signer must expose signerPublicKeyB64 to publish a device set'')) (\<lambda>_.
      bindE (liftE (b64 (pa E) account)) (\<lambda>key.
      bindE (requireE (ae_deriveAccountId (pa E) key = owner)
        (plain_err ''account identity signer public key does not derive the owner accountId'')) (\<lambda>_.
      bindE (requireBoundX3dhIdentity (pa E) (JStr owner)) (\<lambda>bound.
      bindE (requireE (js_truthy (bi_accountBinding bound) \<and> js_eq (getp (bi_accountBinding bound) ''accountIdentityPublicKeyB64'') account)
        (plain_err ''account identity signer public key disagrees with the account binding'')) (\<lambda>_.
      retE \<lparr>sg_account = account, sg_sign = au_sign authority\<rparr>))))))))"

definition resolveDelegatedAccountIdentitySigner :: "('w, 'm) pub_env \<Rightarrow> jsval \<Rightarrow> ('w, 'w account_signer) acct_io" where
  "resolveDelegatedAccountIdentitySigner E ownerAccountId =
     bindE (getsE (\<lambda>S. S)) (\<lambda>S.
     bindE (liftE (hid (pe_hs E) ownerAccountId ''ownerAccountId'')) (\<lambda>owner.
     bindE (requireE (\<not> as_hasAdminRoot S)
       (plain_err ''_resolveDelegatedAccountIdentitySigner requires a delegated PeerLinkService (hasAdminRoot=false)'')) (\<lambda>_.
     bindE (liftE (b64 (pa E) (as_inviteOwnerPublicKeyB64 S))) (\<lambda>key.
     bindE (requireE (ae_deriveAccountId (pa E) key = owner)
       (plain_err ''device-set delegated signer: the account capability chain anchor does not derive the owner accountId'')) (\<lambda>_.
     bindE (requireBoundX3dhIdentity (pa E) (JStr owner)) (\<lambda>bound.
     bindE (requireE (js_truthy (bi_accountBinding bound)
         \<and> js_eq (getp (bi_accountBinding bound) ''accountIdentityPublicKeyB64'') (as_inviteOwnerPublicKeyB64 S))
       (plain_err ''device-set delegated signer: the chain anchor disagrees with the account binding'')) (\<lambda>_.
     retE \<lparr>sg_account = as_inviteOwnerPublicKeyB64 S, sg_sign = deviceSign (pe_hs E) S\<rparr>)))))))"

text \<open>\<open>accountAuthoritySigner()\<close>: the mode, the key, the device and the chain that go with the signature.\<close>

record 'w event_signer =
  es_mode :: string
  es_signerPublicKeyB64 :: jsval
  es_senderDeviceId :: jsval
  es_certChain :: jsval
  es_sign :: "octets \<Rightarrow> ('w, octets) io"

definition accountAuthoritySigner :: "('w, 'm) pub_env \<Rightarrow> ('w, 'w event_signer) acct_io" where
  "accountAuthoritySigner E =
     bindE (getsE (\<lambda>S. S)) (\<lambda>S.
     if \<not> as_hasAdminRoot S then
       bindE (requireE (as_deviceSigningKeyPair S \<noteq> None \<and> js_truthy (as_devicePublicKeyB64 S) \<and> js_truthy (as_deviceId S))
         (plain_err ''accountAuthoritySigner: delegated mode requires the device signing key'')) (\<lambda>_.
       retE \<lparr>es_mode = ''delegated'', es_signerPublicKeyB64 = as_devicePublicKeyB64 S, es_senderDeviceId = as_deviceId S,
             es_certChain = (case as_inviteCertChain S of Some cs \<Rightarrow> json_clone (JArr cs) | None \<Rightarrow> JNull),
             es_sign = deviceSign (pe_hs E) S\<rparr>)
     else
       bindE (resolveAccountIdentitySigner E (as_ownerAccountId S)) (\<lambda>signer.
       retE \<lparr>es_mode = ''direct'', es_signerPublicKeyB64 = sg_account signer,
             es_senderDeviceId = (case as_deviceId S of JStr d \<Rightarrow> if d \<noteq> [] then JStr d else JNull | _ \<Rightarrow> JNull),
             es_certChain = JNull, es_sign = sg_sign signer\<rparr>))"

section \<open>Bundles and sets of this account\<close>

definition sigField :: "('w, 'm) pub_env \<Rightarrow> octets \<Rightarrow> string \<times> jsval" where
  "sigField E sig = (''sig'', JObj [(''alg'', JStr ''ed25519''), (''sigB64'', toB64 (pa E) sig)])"

definition buildOwnDeviceBundle :: "('w, 'm) pub_env \<Rightarrow> string \<Rightarrow> jsval \<Rightarrow> jsval \<Rightarrow> int \<Rightarrow> ('w, prekey_bundle \<times> jsval) acct_io" where
  "buildOwnDeviceBundle E owner accountPublicKeyB64 inboxId nowMs =
     bindE (getsE (\<lambda>S. S)) (\<lambda>S.
     (let deviceId = ne (pa E) (as_deviceId S); devicePublicKeyB64 = ne (pa E) (as_devicePublicKeyB64 S) in
      bindE (requireE (js_truthy deviceId \<and> js_truthy devicePublicKeyB64)
        (plain_err ''PeerLinkService requires a device key to build a device bundle'')) (\<lambda>_.
      bindE (svc_buildDevicePreKeyBundle (pa E) (JStr owner)) (\<lambda>(bundleJson, preKeyState).
      (let bundleBody = [(''v'', pe_BUNDLE_V E), (''purpose'', pe_BUNDLE_PURPOSE E), (''accountIdentityPublicKeyB64'', accountPublicKeyB64),
             (''devicePublicKeyB64'', devicePublicKeyB64), (''deviceId'', deviceId), (''inboxId'', inboxId), (''prekeyVersion'', JInt 1),
             (''bundleJson'', bundleJson), (''issuedAtMs'', JInt nowMs), (''expiresAtMs'', JInt (nowMs + DEVICE_SET_TTL_MS))] in
       bindE (ext (deviceSign (pe_hs E) S (sl_bundleBytes (pseal E) (JObj bundleBody)))) (\<lambda>bundleSig.
       bindE (liftE (sl_bundleFromJSON (pseal E) (JObj (bundleBody @ [sigField E bundleSig])))) (\<lambda>prekeyBundleRecord.
       retE (prekeyBundleRecord, preKeyState))))))))"

text \<open>The body of a device set, its signature and the record.\<close>

definition signDeviceSet :: "('w, 'm) pub_env \<Rightarrow> jsval \<Rightarrow> (octets \<Rightarrow> ('w, octets) io) \<Rightarrow> int \<Rightarrow> int \<Rightarrow> jsval \<Rightarrow> ('w, device_set) io" where
  "signDeviceSet E accountPublicKeyB64 setSign nowMs revision devices =
     (let setBody = [(''v'', pe_SET_V E), (''purpose'', pe_SET_PURPOSE E), (''accountIdentityPublicKeyB64'', accountPublicKeyB64),
            (''revision'', JInt revision), (''devices'', devices), (''issuedAtMs'', JInt nowMs),
            (''expiresAtMs'', JInt (nowMs + DEVICE_SET_TTL_MS))] in
      bindE (setSign (sl_setBytes (pseal E) (JObj setBody))) (\<lambda>setSig.
      liftE (sl_setFromJSON (pseal E) (JObj (setBody @ [sigField E setSig])))))"

definition buildLocalDeviceSetMaterial ::
    "('w, 'm) pub_env \<Rightarrow> string \<Rightarrow> 'w account_signer \<Rightarrow> int \<Rightarrow> int \<Rightarrow> ('w, device_set \<times> prekey_bundle \<times> jsval) acct_io" where
  "buildLocalDeviceSetMaterial E owner signer nowMs revision =
     bindE (getsE (\<lambda>S. S)) (\<lambda>S.
     bindE (liftE (requireDeviceSessions S)) (\<lambda>_.
     (let inboxId = ne (pa E) (if js_truthy (as_inviteBinding S) then getp (as_inviteBinding S) ''mailboxId'' else as_inviteBinding S);
          deviceId = ne (pa E) (as_deviceId S); devicePublicKeyB64 = ne (pa E) (as_devicePublicKeyB64 S) in
      bindE (requireE (js_truthy inboxId)
        (plain_err ''PeerLinkService requires inviteBinding.mailboxId to publish a device set (this device's inbox)'')) (\<lambda>_.
      bindE (requireE (js_truthy deviceId \<and> js_truthy devicePublicKeyB64)
        (plain_err ''PeerLinkService requires a device key to publish a device set'')) (\<lambda>_.
      bindE (ext (signDeviceSet E (sg_account signer) (sg_sign signer) nowMs revision (JArr [JObj
        [(''deviceId'', deviceId), (''devicePublicKeyB64'', devicePublicKeyB64), (''inboxId'', inboxId)]]))) (\<lambda>deviceSet.
      bindE (buildOwnDeviceBundle E owner (sg_account signer) inboxId nowMs) (\<lambda>(bundle, preKeyState).
      retE (deviceSet, bundle, preKeyState))))))))"

text \<open>The loop over the aggregated set: an entry is a bundle or an object that holds one.\<close>

fun collectBundles :: "('w, 'm) pub_env \<Rightarrow> jsval \<Rightarrow> jsval list \<Rightarrow> prekey_bundle list res" where
  "collectBundles E account [] = Inr []"
| "collectBundles E account (entry # entries) =
     (case sl_bundleFromJSON (pseal E) (if is_object entry \<and> js_truthy (getp entry ''bundle'') then getp entry ''bundle'' else entry) of
        Inl e \<Rightarrow> Inl (plain_err (''device-set aggregate: an account device bundle is invalid: '' @ (if err_msg e \<noteq> [] then err_msg e else ''unknown'')))
      | Inr bundle \<Rightarrow>
          if JStr (pb_account bundle) \<noteq> account then Inl (plain_err ''device-set aggregate: a bundle does not belong to the publishing account'')
          else bind_r (collectBundles E account entries) (\<lambda>bundles. Inr (bundle # bundles)))"

definition deviceRow :: "prekey_bundle \<Rightarrow> jsval" where
  "deviceRow b = JObj [(''deviceId'', JStr (pb_deviceId b)), (''devicePublicKeyB64'', JStr (pb_devicePublicKeyB64 b)), (''inboxId'', JStr (pb_inboxId b))]"

text \<open>Both lists are sorted by the id of the device; the rows are those of the bundles.\<close>

definition buildAggregatedDeviceSetMaterial ::
    "('w, 'm) pub_env \<Rightarrow> 'w account_signer \<Rightarrow> int \<Rightarrow> int \<Rightarrow> jsval list \<Rightarrow> ('w, device_set \<times> prekey_bundle list) io" where
  "buildAggregatedDeviceSetMaterial E signer nowMs revision accountDeviceSet =
     bindE (liftE (collectBundles E (sg_account signer) accountDeviceSet)) (\<lambda>bundles.
     bindE (requireE (bundles \<noteq> []) (plain_err ''device-set aggregate: the account device set is empty'')) (\<lambda>_.
     (let ordered = sort_by (\<lambda>a b. pe_collate E (pb_deviceId a) (pb_deviceId b)) bundles in
      bindE (signDeviceSet E (sg_account signer) (sg_sign signer) nowMs revision (JArr (map deviceRow ordered))) (\<lambda>deviceSet.
      retE (deviceSet, ordered)))))"

section \<open>The window of prekeys\<close>

definition ACCOUNT_DEVICE_BUNDLE_PREKEY_RETENTION :: nat where
  "ACCOUNT_DEVICE_BUNDLE_PREKEY_RETENTION = 3"

text \<open>The new state first, then the retained ones with another public key, cut to the window.\<close>

definition retainedWindow :: "jsval \<Rightarrow> jsval list \<Rightarrow> jsval list" where
  "retainedWindow preKeyState retained =
     take ACCOUNT_DEVICE_BUNDLE_PREKEY_RETENTION (preKeyState
       # filter (\<lambda>s. \<not> js_eq (getp s ''signedPreKeyPublic'') (getp preKeyState ''signedPreKeyPublic'')) retained)"

definition retainAccountPreKey :: "('w, 'm) acct_env \<Rightarrow> jsval \<Rightarrow> jsval \<Rightarrow> ('w, unit) io" where
  "retainAccountPreKey A owner preKeyState =
     bindE (retainedAccountPreKeyStates A owner) (\<lambda>retained.
     bindE (keys_putDevicePreKey (sto A) owner (JStr ACCOUNT_DEVICE_BUNDLE_PEER_SENTINEL)
       (JObj [(''v'', JInt 2), (''states'', JArr (retainedWindow preKeyState retained))])) (\<lambda>_.
     retE ()))"

definition buildAndRetainAccountDeviceBundle :: "('w, 'm) pub_env \<Rightarrow> jsval \<Rightarrow> jsval \<Rightarrow> jsval \<Rightarrow> ('w, prekey_bundle) acct_io" where
  "buildAndRetainAccountDeviceBundle E ownerAccountId nowMs inboxIdOverride =
     bindE (getsE (\<lambda>S. S)) (\<lambda>S.
     bindE (liftE (requireDeviceSessions S)) (\<lambda>_.
     bindE (liftE (hid (pe_hs E) ownerAccountId ''ownerAccountId'')) (\<lambda>owner.
     bindE (timeOr E nowMs) (\<lambda>at_ms.
     (let inboxId = (if inboxIdOverride \<noteq> JNull \<and> inboxIdOverride \<noteq> JUndef then ne (pa E) inboxIdOverride
                     else ne (pa E) (if js_truthy (as_inviteBinding S) then getp (as_inviteBinding S) ''mailboxId'' else as_inviteBinding S)) in
      bindE (requireE (js_truthy inboxId)
        (plain_err ''buildAndRetainAccountDeviceBundle requires inviteBinding.mailboxId (this device's inbox)'')) (\<lambda>_.
      bindE (requireBoundX3dhIdentity (pa E) (JStr owner)) (\<lambda>bound.
      (let account = ne (pa E) (if js_truthy (bi_accountBinding bound) then getp (bi_accountBinding bound) ''accountIdentityPublicKeyB64''
                                else bi_accountBinding bound) in
       bindE (requireE (js_truthy account) (plain_err ''buildAndRetainAccountDeviceBundle requires a bound account identity'')) (\<lambda>_.
       bindE (buildOwnDeviceBundle E owner account inboxId at_ms) (\<lambda>(bundle, preKeyState).
       bindE (ext (retainAccountPreKey (pa E) (JStr owner) preKeyState)) (\<lambda>_.
       retE bundle)))))))))))"

section \<open>The device set for a peer\<close>

record published =
  pu_record :: jsval
  pu_slotRecordId :: string
  pu_recordKind :: jsval
  pu_recordId :: jsval
  pu_publisherPublicKeyB64 :: jsval

text \<open>The set and its bundles: all devices of the account, or this one alone, whose prekey is then retained
  for the peer.\<close>

definition deviceSetMaterial ::
    "('w, 'm) pub_env \<Rightarrow> string \<Rightarrow> string \<Rightarrow> 'w account_signer \<Rightarrow> int \<Rightarrow> int \<Rightarrow> jsval \<Rightarrow> ('w, device_set \<times> prekey_bundle list) acct_io" where
  "deviceSetMaterial E owner peer signer at_ms revision accountDeviceSet =
     (case accountDeviceSet of
        JArr (e # es) \<Rightarrow> ext (buildAggregatedDeviceSetMaterial E signer at_ms revision (e # es))
      | _ \<Rightarrow>
        bindE (buildLocalDeviceSetMaterial E owner signer at_ms revision) (\<lambda>(deviceSet, bundle, preKeyState).
        bindE (ext (keys_putDevicePreKey (sto (pa E)) (JStr owner) (JStr peer) preKeyState)) (\<lambda>_.
        retE (deviceSet, [bundle]))))"

definition setSigner :: "acct_svc \<Rightarrow> 'w account_signer \<Rightarrow> 'w set_signer" where
  "setSigner S signer =
     (if as_hasAdminRoot S
      then \<lparr>ss_accountSign = Some (sg_sign signer), ss_signerSign = None, ss_signerPublicKeyB64 = JNull, ss_certChain = JNull\<rparr>
      else \<lparr>ss_accountSign = None, ss_signerSign = Some (sg_sign signer), ss_signerPublicKeyB64 = as_devicePublicKeyB64 S,
            ss_certChain = (case as_inviteCertChain S of Some cs \<Rightarrow> JArr cs | None \<Rightarrow> JNull)\<rparr>)"

definition buildDeviceSetRecordForPeer ::
    "('w, 'm) pub_env \<Rightarrow> jsval \<Rightarrow> jsval \<Rightarrow> jsval \<Rightarrow> jsval \<Rightarrow> jsval \<Rightarrow> ('w, published) acct_io" where
  "buildDeviceSetRecordForPeer E ownerAccountId peerAccountId nowMs revision accountDeviceSet =
     bindE (getsE (\<lambda>S. S)) (\<lambda>S.
     bindE (liftE (requireDeviceSessions S)) (\<lambda>_.
     bindE (liftE (hid (pe_hs E) ownerAccountId ''ownerAccountId'')) (\<lambda>owner.
     bindE (liftE (hid (pe_hs E) peerAccountId ''peerAccountId'')) (\<lambda>peer.
     bindE (timeOr E nowMs) (\<lambda>at_ms.
     case positiveInteger revision of
       None \<Rightarrow> throwE (plain_err ''buildDeviceSetRecordForPeer requires a positive integer revision'')
     | Some rev_no \<Rightarrow>
       bindE (ext (requirePeerDeviceSetContext (pa E) (JStr owner) (JStr peer))) (\<lambda>ctx.
       bindE (if as_hasAdminRoot S then resolveAccountIdentitySigner E (JStr owner)
              else resolveDelegatedAccountIdentitySigner E (JStr owner)) (\<lambda>signer.
       bindE (requireBoundX3dhIdentity (pa E) (JStr owner)) (\<lambda>bound.
       bindE (deviceSetMaterial E owner peer signer at_ms rev_no accountDeviceSet) (\<lambda>(deviceSet, bundles).
       bindE (ext (buildSealedDeviceSetRecord (pseal E) (setSigner S signer) (sg_account signer)
         (sl_bytesToBase64 (pseal E) (kp_private (bi_identityDhKeyPair bound))) (js_String (pc_peerIdentityDhPublicKeyB64 ctx))
         (Some deviceSet) bundles (JInt at_ms) (JInt DEVICE_SET_TTL_MS))) (\<lambda>(rcd, slotRecordId).
       retE \<lparr>pu_record = rcd, pu_slotRecordId = slotRecordId, pu_recordKind = getp rcd ''recordKind'',
             pu_recordId = getp rcd ''recordId'', pu_publisherPublicKeyB64 = getp rcd ''ownerPublicKeyB64''\<rparr>))))))))))"

section \<open>The authority state\<close>

text \<open>\<open>Number.isFinite(Number(v)) && Number(v) >= 0 ? Number(v) : 0\<close>.\<close>

definition cutoffOf :: "jsval \<Rightarrow> jsval" where
  "cutoffOf v = (case js_Number v of Fin q \<Rightarrow> if q \<ge> 0 then JNum (Fin q) else JInt 0 | _ \<Rightarrow> JInt 0)"

text \<open>\<open>[...new Set(ids)].sort()\<close>: strings by code units, \<open>undefined\<close> last.\<close>

definition sortedIds :: "jsval list \<Rightarrow> jsval list" where
  "sortedIds ids = sort_by (\<lambda>a b. b = JUndef \<or> a \<noteq> JUndef \<and> js_String a \<le> js_String b) (foldl (\<lambda>acc x. set_add x acc) [] ids)"

definition requires_root :: js_err where
  "requires_root = code_err ''AUTHORITY_STATE_REQUIRES_ROOT'' (''buildAccountAuthorityStateRecord requires the account root key: the authority state is''
     @ '' root-signed only, so a delegated device cannot author it (it may publish one the'' @ '' primary signed)'')"

definition stateRecord :: "('w, 'm) pub_env \<Rightarrow> 'w account_signer \<Rightarrow> jsval \<Rightarrow> jsval list \<Rightarrow> jsval \<Rightarrow> int \<Rightarrow> jnum \<Rightarrow> ('w, jsval) io" where
  "stateRecord E signer epoch revokedCertIds cutoff at_ms ttlMs =
     (let account = sg_account signer;
          stateBody = [(''v'', pe_STATE_V E), (''purpose'', pe_STATE_PURPOSE E), (''accountIdentityPublicKeyB64'', account), (''epoch'', epoch),
            (''revokedCertIds'', JArr (sortedIds revokedCertIds)), (''minValidIssuedAtMs'', cutoff), (''issuedAtMs'', JInt at_ms),
            (''signerPublicKeyB64'', account)] in
      bindE (sg_sign signer (pe_stateBytes E (JObj stateBody))) (\<lambda>stateSig.
      bindE (liftE (pe_stateNew E (JObj (stateBody @ [sigField E stateSig])))) (\<lambda>st.
      bindE (liftE (hs_buildDurableV2 (pe_hs E) (JObj
        [(''recordKind'', JStr (pe_STATE_KIND E)), (''recordId'', JStr ''v1''), (''ownerPublicKeyB64'', account), (''signerPublicKeyB64'', account),
         (''certChain'', JArr []), (''requiredCapability'', JNull),
         (''payloadB64'', toB64 (pa E) (utf8_encode (canonicalJSON (ae_e2ee (pa E)) (at_json st)))),
         (''issuedAtMs'', JInt at_ms), (''expiresAtMs'', JNum (num_add (Fin (of_int at_ms)) ttlMs))]))) (\<lambda>skeleton.
      bindE (sg_sign signer (hs_durableV2Bytes (pe_hs E) skeleton)) (\<lambda>envSig.
      retE (set_prop ''sigB64'' (toB64 (pa E) envSig) skeleton))))))"

definition buildAccountAuthorityStateRecord ::
    "('w, 'm) pub_env \<Rightarrow> jsval \<Rightarrow> jsval \<Rightarrow> jsval \<Rightarrow> jsval \<Rightarrow> jsval \<Rightarrow> jnum \<Rightarrow> ('w, jsval \<times> jsval) acct_io" where
  "buildAccountAuthorityStateRecord E ownerAccountId epoch revokedCertIds minValidIssuedAtMs nowMs ttlMs =
     bindE (getsE (\<lambda>S. S)) (\<lambda>S.
     bindE (liftE (hid (pe_hs E) ownerAccountId ''ownerAccountId'')) (\<lambda>owner.
     bindE (requireE (js_isInteger epoch \<and> \<not> num_less (js_Number epoch) (Fin 0))
       (plain_err ''buildAccountAuthorityStateRecord requires a non-negative integer epoch'')) (\<lambda>_.
     case revokedCertIds of
       JArr ids \<Rightarrow>
         bindE (timeOr E nowMs) (\<lambda>at_ms.
         bindE (requireE (as_hasAdminRoot S) requires_root) (\<lambda>_.
         bindE (resolveAccountIdentitySigner E (JStr owner)) (\<lambda>signer.
         bindE (ext (stateRecord E signer epoch ids (cutoffOf minValidIssuedAtMs) at_ms ttlMs)) (\<lambda>rcd.
         retE (rcd, sg_account signer)))))
     | _ \<Rightarrow> throwE (plain_err ''buildAccountAuthorityStateRecord requires an array revokedCertIds''))))"

text \<open>Coordinates are (kind, record id, publisher).\<close>

definition resolvePeerAuthorityStateCoordinates :: "('w, 'm) pub_env \<Rightarrow> jsval \<Rightarrow> jsval \<Rightarrow> ('w, string \<times> string \<times> jsval) acct_io" where
  "resolvePeerAuthorityStateCoordinates E ownerAccountId peerAccountId =
     bindE (liftE (hid (pe_hs E) ownerAccountId ''ownerAccountId'')) (\<lambda>owner.
     bindE (liftE (hid (pe_hs E) peerAccountId ''peerAccountId'')) (\<lambda>peer.
     bindE (ext (requirePeerDeviceSetContext (pa E) (JStr owner) (JStr peer))) (\<lambda>ctx.
     retE (pe_STATE_KIND E, ''v1'', pc_peerAccountPublicKeyB64 ctx))))"

text \<open>The account key of this account, from its binding.\<close>

definition ownAccountKey :: "('w, 'm) pub_env \<Rightarrow> string \<Rightarrow> string \<Rightarrow> ('w, jsval) acct_io" where
  "ownAccountKey E owner caller =
     bindE (requireBoundX3dhIdentity (pa E) (JStr owner)) (\<lambda>bound.
     (let account = ne (pa E) (if js_truthy (bi_accountBinding bound) then getp (bi_accountBinding bound) ''accountIdentityPublicKeyB64''
                               else bi_accountBinding bound) in
      bindE (requireE (js_truthy account) (plain_err (caller @ '' requires a bound account identity''))) (\<lambda>_. retE account)))"

definition ownAuthorityStateCoordinates :: "('w, 'm) pub_env \<Rightarrow> jsval \<Rightarrow> ('w, string \<times> string \<times> jsval) acct_io" where
  "ownAuthorityStateCoordinates E ownerAccountId =
     bindE (liftE (hid (pe_hs E) ownerAccountId ''ownerAccountId'')) (\<lambda>owner.
     bindE (ownAccountKey E owner ''ownAuthorityStateCoordinates'') (\<lambda>account.
     retE (pe_STATE_KIND E, ''v1'', account)))"

abbreviation state_err :: "string \<Rightarrow> js_err" where
  "state_err msg \<equiv> plain_err (''openAuthorityStateRecord: '' @ msg)"

definition openAuthorityStateRecordAgainst ::
    "('w, 'm) pub_env \<Rightarrow> jsval \<Rightarrow> jsval \<Rightarrow> int \<Rightarrow> ('w, authority_state \<times> jsval \<times> jsval) io" where
  "openAuthorityStateRecordAgainst E account rcd nowMs =
     bindE (requireE (js_String (getp rcd ''recordKind'') = pe_STATE_KIND E) (state_err ''record is not an authority-state record'')) (\<lambda>_.
     bindE (requireE (js_eq (JStr (js_String (getp rcd ''ownerPublicKeyB64''))) account) (state_err ''owner is not the expected account identity'')) (\<lambda>_.
     bindE (sl_verifyDurable (pseal E) rcd (of_int nowMs) JUndef) (\<lambda>verdict.
     bindE (requireE (dc_ok verdict) (state_err (''durable record verification failed ('' @ dc_reason verdict @ '')''))) (\<lambda>_.
     case bind_r (b64 (pa E) (JStr (str_or_empty (getp rcd ''payloadB64'')))) (sl_parseText (pseal E)) of
       Inl e \<Rightarrow> throwE (state_err ''payload is not valid JSON'')
     | Inr stateJson \<Rightarrow>
       bindE (liftE (pe_stateNew E stateJson)) (\<lambda>st.
       bindE (requireE (js_eq (at_account st) account) (state_err ''authority state is not the expected account's'')) (\<lambda>_.
       bindE (requireE (js_eq (at_signer st) (JStr (js_String (getp rcd ''signerPublicKeyB64''))))
         (state_err ''authority state signer disagrees with the envelope signer'')) (\<lambda>_.
       bindE (liftE (b64 (pa E) (at_signer st))) (\<lambda>key.
       bindE (liftE (b64 (pa E) (at_sigB64 st))) (\<lambda>sig.
       bindE (sl_verify (pseal E) key (pe_stateBytes E (at_json st)) sig) (\<lambda>setOk.
       bindE (requireE setOk (state_err ''authority state signature failed'')) (\<lambda>_.
       retE (st, pe_revocationState E st, at_epoch st))))))))))))"

definition openPeerAuthorityStateRecord ::
    "('w, 'm) pub_env \<Rightarrow> jsval \<Rightarrow> jsval \<Rightarrow> jsval \<Rightarrow> jsval \<Rightarrow> ('w, authority_state \<times> jsval \<times> jsval) acct_io" where
  "openPeerAuthorityStateRecord E ownerAccountId peerAccountId rcd nowMs =
     bindE (liftE (hid (pe_hs E) ownerAccountId ''ownerAccountId'')) (\<lambda>owner.
     bindE (liftE (hid (pe_hs E) peerAccountId ''peerAccountId'')) (\<lambda>peer.
     bindE (requireE (is_object rcd) (plain_err ''openPeerAuthorityStateRecord requires a record'')) (\<lambda>_.
     bindE (timeOr E nowMs) (\<lambda>at_ms.
     bindE (ext (requirePeerDeviceSetContext (pa E) (JStr owner) (JStr peer))) (\<lambda>ctx.
     ext (openAuthorityStateRecordAgainst E (pc_peerAccountPublicKeyB64 ctx) rcd at_ms))))))"

definition openOwnAuthorityStateRecord ::
    "('w, 'm) pub_env \<Rightarrow> jsval \<Rightarrow> jsval \<Rightarrow> jsval \<Rightarrow> ('w, authority_state \<times> jsval \<times> jsval) acct_io" where
  "openOwnAuthorityStateRecord E ownerAccountId rcd nowMs =
     bindE (liftE (hid (pe_hs E) ownerAccountId ''ownerAccountId'')) (\<lambda>owner.
     bindE (requireE (is_object rcd) (plain_err ''openOwnAuthorityStateRecord requires a record'')) (\<lambda>_.
     bindE (timeOr E nowMs) (\<lambda>at_ms.
     bindE (ownAccountKey E owner ''openOwnAuthorityStateRecord'') (\<lambda>account.
     ext (openAuthorityStateRecordAgainst E account rcd at_ms)))))"

end
