(* ===== verification/Invite_Ledger_Props.thy ===== *)
theory Invite_Ledger_Props
  imports Invite_Ledger Device_Ingest_Props
begin

text \<open>
  An invite is honoured for at most \<open>maxUses\<close> accounts, whatever sequence of handshakes and joins
  spends it. The locale \<open>invite_ledger\<close> states what the ledger uses of its store, of the clocks and
  of \<open>nonEmpty\<close>; it is interpreted on the browser storage beside a clock.
\<close>

section \<open>A store beside a clock\<close>

text \<open>The operations of a store, in a world that has a further part.\<close>

definition onFirst :: "('w, 'a) io \<Rightarrow> ('w \<times> 't, 'a) io" where
  "onFirst m = (\<lambda>(w, t). case m w of (r, w') \<Rightarrow> (r, (w', t)))"

definition besides :: "'w kv_ops \<Rightarrow> ('w \<times> 't) kv_ops" where
  "besides K = \<lparr>kv_get = (\<lambda>k. onFirst (kv_get K k)), kv_set = (\<lambda>k v. onFirst (kv_set K k v)),
     kv_delete = (\<lambda>k. onFirst (kv_delete K k)), kv_keys = (\<lambda>p. onFirst (kv_keys K p))\<rparr>"

lemma onFirst_run [simp]: "m w = (r, w') \<Longrightarrow> onFirst m (w, t) = (r, (w', t))"
  by (simp add: onFirst_def)

context kv_store
begin

lemma store_besides: "kv_store (besides K) (\<lambda>w. view (fst w)) (\<lambda>w. inv (fst w))"
proof
  fix w :: "'w \<times> 't" and k v p
  assume ok: "inv (fst w)"
  obtain db t where w: "w = (db, t)" by (cases w)
  show "kv_get (besides K) k w = (Inr (view (fst w) k), w)"
    using ok w by (simp add: besides_def get_law)
  show "\<exists>w'. kv_delete (besides K) k w = (Inr (view (fst w) k \<noteq> JUndef), w') \<and> inv (fst w') \<and> view (fst w') = (view (fst w))(k := JUndef)"
    by (rule delete_run [of db k]) (use ok w in \<open>auto simp: besides_def\<close>)
  show "\<exists>ks. kv_keys (besides K) p w = (Inr ks, w) \<and> distinct ks \<and> set ks = {k. prefix p k \<and> view (fst w) k \<noteq> JUndef}"
    by (rule keys_run [of db p]) (use ok w in \<open>auto simp: besides_def\<close>)
  show "view (fst w) k \<noteq> JUndef \<Longrightarrow> json_clean (view (fst w) k) \<and> view (fst w) k \<noteq> JNull"
    by (rule view_clean [OF ok])
  assume "json_clean v" "v \<noteq> JNull"
  then show "\<exists>w'. kv_set (besides K) k v w = (Inr (), w') \<and> inv (fst w') \<and> view (fst w') = (view (fst w))(k := v)"
    by (rule set_run [of db v k, rotated]) (use ok w in \<open>auto simp: besides_def\<close>)
qed

end

interpretation aside: kv_store "besides (idb_kv (kv_partition o1))" "\<lambda>w. idb_view (kv_partition o1) (fst w)" "\<lambda>w. idb_inv (fst w)"
  for o1
  by (rule idb.store_besides)

section \<open>Records\<close>

lemma asPositiveInt_JInt [simp]: "asPositiveInt (JInt n) d = (if 1 \<le> n then n else d)"
  by (simp add: asPositiveInt_def)

lemma asPositiveInt_pos: "1 \<le> d \<Longrightarrow> 1 \<le> asPositiveInt v d"
  by (simp add: asPositiveInt_def Let_def)

lemma getp_clean: "json_clean r \<Longrightarrow> getp r k \<noteq> JUndef \<Longrightarrow> json_clean (getp r k)"
  by (cases r) (auto simp: list_all_iff split: option.splits dest!: map_of_SomeD)

lemma acceptorsIn_idem [simp]: "acceptorsIn (JArr (acceptorsIn v)) = acceptorsIn v"
  by (cases v) (auto simp: acceptorsIn.simps(1))

lemma acceptorsIn_clean: "list_all json_clean (acceptorsIn v)"
  by (cases v) (auto simp: acceptorsIn.simps(1) list_all_iff split: jsval.splits)

lemma acceptorsIn_append: "acceptorsIn (JArr (acceptorsIn v @ [JStr a])) = acceptorsIn v @ (if a = [] then [] else [JStr a])"
  by (cases v) (auto simp: acceptorsIn.simps(1))

lemma acceptors_named:
  assumes "acceptorsIn v = map JStr as"
  shows "acceptorsIn (JArr (map JStr as)) = map JStr as"
    and "a \<noteq> [] \<Longrightarrow> acceptorsIn (JArr (map JStr as @ [JStr a])) = map JStr (as @ [a])"
  using acceptorsIn_idem [of v] acceptorsIn_append [of v a] unfolding assms by simp_all

text \<open>\<open>nonEmpty\<close> answers a string or null, and keeps what it has answered.\<close>

definition nonEmpty_ok :: "('w, 'm) e2ee_env \<Rightarrow> bool" where
  "nonEmpty_ok E \<longleftrightarrow> (\<forall>v. nonEmpty E v = JNull \<or> is_string (nonEmpty E v)) \<and> (\<forall>v. nonEmpty E (nonEmpty E v) = nonEmpty E v)"

text \<open>An id that the checks keep as it is.\<close>

definition plain_id :: "('w, 'm) e2ee_env \<Rightarrow> string \<Rightarrow> bool" where
  "plain_id E s \<longleftrightarrow> s \<noteq> [] \<and> nonEmpty E (JStr s) = JStr s \<and> (\<forall>l. requireId E (JStr s) l = Inr s)"

text \<open>The record of an invite with a number of uses and the accounts honoured so far.\<close>

definition invite_of :: "('w, 'm) hs_env \<Rightarrow> string \<Rightarrow> string \<Rightarrow> int \<Rightarrow> string list \<Rightarrow> jsval \<Rightarrow> bool" where
  "invite_of H owner i m as R \<longleftrightarrow> inviteComplete H R \<and> getp R ''ownerAccountId'' = JStr owner \<and> getp R ''inviteId'' = JStr i
     \<and> asPositiveInt (getp R ''maxUses'') 1 = m \<and> acceptorsIn (getp R ''acceptedAcceptors'') = map JStr as"

lemma invite_of_pos: "invite_of H owner i m as R \<Longrightarrow> 1 \<le> m"
  using asPositiveInt_pos [of 1 "getp R ''maxUses''"] by (simp add: invite_of_def)

lemma recordOf_clean:
  assumes "nonEmpty_ok (hs_e2ee H)" "is_plain_object (getp R ''envelope'') \<Longrightarrow> json_clean (getp R ''envelope'')"
  shows "json_clean (inviteRecordOf H t1 t2 t3 R)"
proof -
  have ne: "json_clean (hne H v)" for v
    using assms(1) by (cases "hne H v") (auto simp: nonEmpty_ok_def dest!: spec [of _ v])
  then show ?thesis using assms(2) by (auto simp: inviteRecordOf_def js_or_def acceptorsIn_clean)
qed

lemma recordOf_invite:
  assumes "nonEmpty_ok (hs_e2ee H)" "plain_id (hs_e2ee H) owner" "plain_id (hs_e2ee H) i" "invite_of H owner i m as R"
  shows "invite_of H owner i m as (inviteRecordOf H t1 t2 t3 R)"
  using assms invite_of_pos [OF assms(4)]
  by (simp add: invite_of_def inviteRecordOf_def inviteComplete_def nonEmpty_ok_def plain_id_def acceptors_named(1) [of "getp R ''acceptedAcceptors''"])

lemma invite_of_consumed:
  assumes "invite_of H owner i m as R" "a \<noteq> []"
  shows "invite_of H owner i m (as @ [a]) (spread R [(''acceptedAcceptors'', JArr (acceptorsIn (getp R ''acceptedAcceptors'') @ [JStr a])), (''updatedAtMs'', v)])"
  using assms by (auto simp: invite_of_def inviteComplete_def getp_spread acceptors_named(2))

section \<open>The ledger over a store\<close>

definition invite_key :: "string \<Rightarrow> string \<Rightarrow> string" where
  "invite_key owner i = PEER_LINK_INVITE_PREFIX @ owner @ ''/'' @ i"

lemma inviteKey_plain:
  "plain_id (hs_e2ee H) owner \<Longrightarrow> plain_id (hs_e2ee H) i \<Longrightarrow> inviteKey H (JStr owner) (JStr i) = Inr (invite_key owner i)"
  by (simp add: inviteKey_def plain_id_def invite_key_def)

lemma hashKey_other: "inviteHashKey H a b = Inr k \<Longrightarrow> k \<noteq> invite_key owner i"
  by (auto simp: inviteHashKey_def invite_key_def PEER_LINK_INVITE_PREFIX_def PEER_LINK_INVITE_HASH_PREFIX_def dest!: bind_r_InrD)

text \<open>A reading of a clock: it returns, and the store stays as it is.\<close>

definition reads_time :: "('w \<Rightarrow> bool) \<Rightarrow> ('w \<Rightarrow> string \<Rightarrow> jsval) \<Rightarrow> ('w, int) io \<Rightarrow> bool" where
  "reads_time ok view c \<longleftrightarrow> (\<forall>w. ok w \<longrightarrow> (\<exists>t w'. c w = (Inr t, w') \<and> ok w' \<and> view w' = view w))"

lemma reads_time_run:
  assumes "reads_time ok view c" "ok w"
  obtains t w' where "c w = (Inr t, w')" "ok w'" "view w' = view w"
  using assms unfolding reads_time_def by blast

text \<open>A history of one invite: a handshake of an authenticated account, or the join of an account with the
  time given. The accounts that were honoured, in order.\<close>

datatype spend = Handshake string | Join string jsval

fun spender :: "spend \<Rightarrow> string" where
  "spender (Handshake a) = a"
| "spender (Join a nowMs) = a"

fun honoured :: "('w, 'm) hs_env \<Rightarrow> string \<Rightarrow> string \<Rightarrow> spend list \<Rightarrow> 'w \<Rightarrow> string list" where
  "honoured H owner i [] w = []"
| "honoured H owner i (Handshake a # xs) w =
     (case claimInvite H owner i a w of (r, w') \<Rightarrow>
        (case r of Inr (Proceed e b) \<Rightarrow> [a] | _ \<Rightarrow> []) @ honoured H owner i xs w')"
| "honoured H owner i (Join a nowMs # xs) w =
     (case authorizeInviteJoin H (JStr owner) (JStr i) (JStr a) nowMs w of (r, w') \<Rightarrow>
        (case r of Inr (True, reason) \<Rightarrow> [a] | _ \<Rightarrow> []) @ honoured H owner i xs w')"

locale invite_ledger = kv_store K view ok
  for K :: "'w kv_ops" and view :: "'w \<Rightarrow> string \<Rightarrow> jsval" and ok :: "'w \<Rightarrow> bool" +
  fixes H :: "('w, 'm) hs_env"
  assumes kv: "hs_kv H = K"
    and date_now: "reads_time ok view (hs_dateNow H)"
    and clock_now: "reads_time ok view (clock (hs_e2ee H))"
    and ne_ok: "nonEmpty_ok (hs_e2ee H)"
begin

definition stored :: "string \<Rightarrow> string \<Rightarrow> int \<Rightarrow> string list \<Rightarrow> 'w \<Rightarrow> bool" where
  "stored owner i m as w \<longleftrightarrow> ok w \<and> plain_id (hs_e2ee H) owner \<and> plain_id (hs_e2ee H) i
     \<and> invite_of H owner i m as (view w (invite_key owner i))"

lemma normalize_run:
  assumes "ok w" "inviteComplete H R"
  obtains t1 t2 t3 w' where "normalizeInviteRecord H R w = (Inr (inviteRecordOf H t1 t2 t3 R), w')" "ok w'" "view w' = view w"
proof -
  obtain t1 w1 where 1: "hs_dateNow H w = (Inr t1, w1)" "ok w1" "view w1 = view w" by (rule reads_time_run [OF date_now assms(1)])
  obtain t2 w2 where 2: "hs_dateNow H w1 = (Inr t2, w2)" "ok w2" "view w2 = view w1" by (rule reads_time_run [OF date_now 1(2)])
  obtain t3 w3 where 3: "hs_dateNow H w2 = (Inr t3, w3)" "ok w3" "view w3 = view w2" by (rule reads_time_run [OF date_now 2(2)])
  show ?thesis
    by (rule that [of t1 t2 t3 w3]) (use 1 2 3 assms(2) in \<open>simp_all add: normalizeInviteRecord_def bindE_def\<close>)
qed

lemma get_invite_run:
  assumes "stored owner i m as w"
  obtains t1 t2 t3 w' where "getInviteRecord H (JStr owner) (JStr i) w = (Inr (inviteRecordOf H t1 t2 t3 (view w (invite_key owner i))), w')"
    "stored owner i m as w'" "view w' = view w"
proof -
  from assms have "ok w" "inviteComplete H (view w (invite_key owner i))" by (auto simp: stored_def invite_of_def)
  from normalize_run [OF this] obtain t1 t2 t3 w' where
    "normalizeInviteRecord H (view w (invite_key owner i)) w = (Inr (inviteRecordOf H t1 t2 t3 (view w (invite_key owner i))), w')"
    "ok w'" "view w' = view w" .
  with assms show ?thesis by (intro that [of t1 t2 t3 w']) (auto simp: stored_def getInviteRecord_def inviteKey_plain bindE_def kv get_law)
qed

lemma save_invite:
  assumes "ok w" "plain_id (hs_e2ee H) owner" "plain_id (hs_e2ee H) i" "invite_of H owner i m as R"
    and env: "is_plain_object (getp R ''envelope'') \<Longrightarrow> json_clean (getp R ''envelope'')"
  shows "runs (saveInviteRecord H R) (\<lambda>r. stored owner i m as) w"
proof -
  from assms(4) have "inviteComplete H R" by (simp add: invite_of_def)
  from normalize_run [OF assms(1) this] obtain t1 t2 t3 w1 where
    n: "normalizeInviteRecord H R w = (Inr (inviteRecordOf H t1 t2 t3 R), w1)" and w1: "ok w1" "view w1 = view w" .
  let ?R = "inviteRecordOf H t1 t2 t3 R"
  have R: "invite_of H owner i m as ?R" by (rule recordOf_invite [OF ne_ok assms(2-4)])
  have obj: "?R \<noteq> JNull" "js_truthy ?R" by (simp_all add: inviteRecordOf_def)
  obtain w2 where w2: "kv_set K (invite_key owner i) ?R w1 = (Inr (), w2)" "ok w2" "view w2 = (view w1)(invite_key owner i := ?R)"
    by (rule set_run [OF w1(1) recordOf_clean [OF ne_ok env] obj(1)])
  have st: "stored owner i m as w2" using w2 R assms(2,3) by (simp add: stored_def)
  have hash: "runs (bindE (liftE (inviteHashKey H (getp ?R ''ownerAccountId'') (getp ?R ''tokenHash''))) (\<lambda>k.
      bindE (kv_set K k (JStr i)) (\<lambda>_. retE (cloneJsonValue ?R)))) (\<lambda>r. stored owner i m as) w2"
  proof (rule runs_lift)
    fix k assume k: "inviteHashKey H (getp ?R ''ownerAccountId'') (getp ?R ''tokenHash'') = Inr k"
    obtain w3 where "kv_set K k (JStr i) w2 = (Inr (), w3)" "ok w3" "view w3 = (view w2)(k := JStr i)"
      by (rule set_run [OF w2(2), of "JStr i" k]) auto
    then show "runs (bindE (kv_set K k (JStr i)) (\<lambda>_. retE (cloneJsonValue ?R))) (\<lambda>r. stored owner i m as) w2"
      using st hashKey_other [OF k, of owner i] by (auto simp: runs_def bindE_def stored_def)
  qed (rule st)
  have ids: "getp ?R ''ownerAccountId'' = JStr owner" "getp ?R ''inviteId'' = JStr i" using R by (simp_all add: invite_of_def)
  have "saveInviteRecord H R w = bindE (liftE (inviteHashKey H (getp ?R ''ownerAccountId'') (getp ?R ''tokenHash''))) (\<lambda>k.
      bindE (kv_set K k (JStr i)) (\<lambda>_. retE (cloneJsonValue ?R))) w2"
    using n w2(1) obj(2) inviteKey_plain [OF assms(2,3)] unfolding saveInviteRecord_def kv
    by (simp add: bindE_step ids)
  with hash show ?thesis by (simp add: runs_def)
qed

text \<open>One more account on the ledger, or none, and who is honoured is on it.\<close>

definition ledger_step :: "string \<Rightarrow> string \<Rightarrow> int \<Rightarrow> string list \<Rightarrow> string \<Rightarrow> bool \<Rightarrow> 'w \<Rightarrow> bool" where
  "ledger_step owner i m as a honour w \<longleftrightarrow> (\<exists>as'. stored owner i m as' w \<and> (as' = as \<or> as' = as @ [a] \<and> int (length as) < m)
     \<and> (honour \<longrightarrow> a \<in> set as'))"

lemma consume:
  assumes "stored owner i m as w" "a \<noteq> []" "fresh = inviteRecordOf H t1 t2 t3 (view w (invite_key owner i))"
  shows "runs (consumeSlot H fresh a now) (\<lambda>r. stored owner i m (as @ [a])) w"
proof -
  have s: "ok w" "plain_id (hs_e2ee H) owner" "plain_id (hs_e2ee H) i" "invite_of H owner i m as (view w (invite_key owner i))"
    using assms(1) by (simp_all add: stored_def)
  have f: "invite_of H owner i m as fresh" unfolding assms(3) by (rule recordOf_invite [OF ne_ok s(2-4)])
  have "json_clean (view w (invite_key owner i))"
    using view_clean [OF s(1)] s(4) by (cases "view w (invite_key owner i) = JUndef") (auto simp: invite_of_def)
  then have "json_clean (getp fresh ''envelope'')"
    by (auto simp: assms(3) inviteRecordOf_def intro: getp_clean)
  moreover have "is_plain_object fresh" by (simp add: assms(3) inviteRecordOf_def)
  ultimately show ?thesis unfolding consumeSlot_def
    by (intro save_invite [OF s(1-3) invite_of_consumed [OF f assms(2)]]) (simp add: getp_spread)
qed

lemma used_up:
  assumes "stored owner i m as w"
  shows "isUsedUp (inviteRecordOf H t1 t2 t3 (view w (invite_key owner i))) n \<longleftrightarrow> m \<le> int n"
    "acceptorsIn (getp (inviteRecordOf H t1 t2 t3 (view w (invite_key owner i))) ''acceptedAcceptors'') = map JStr as"
proof -
  have s: "plain_id (hs_e2ee H) owner" "plain_id (hs_e2ee H) i" "invite_of H owner i m as (view w (invite_key owner i))"
    using assms(1) by (simp_all add: stored_def)
  have "(of_int m :: rat) \<le> of_nat n \<longleftrightarrow> m \<le> int n" by (metis of_int_le_iff of_int_of_nat_eq)
  then show "isUsedUp (inviteRecordOf H t1 t2 t3 (view w (invite_key owner i))) n \<longleftrightarrow> m \<le> int n"
    using s(3) by (auto simp: isUsedUp_def inviteRecordOf_def invite_of_def num_le_def)
  show "acceptorsIn (getp (inviteRecordOf H t1 t2 t3 (view w (invite_key owner i))) ''acceptedAcceptors'') = map JStr as"
    using recordOf_invite [OF ne_ok s] by (simp add: invite_of_def)
qed

lemma claim_step:
  assumes "stored owner i m as w" "a \<noteq> []"
  shows "runs (claimInvite H owner i a) (\<lambda>r. ledger_step owner i m as a (\<exists>e b. r = Inr (Proceed e b))) w"
proof -
  obtain t1 t2 t3 w1 where get: "getInviteRecord H (JStr owner) (JStr i) w = (Inr (inviteRecordOf H t1 t2 t3 (view w (invite_key owner i))), w1)"
    and s1: "stored owner i m as w1" and v1: "view w1 = view w" by (rule get_invite_run [OF assms(1)])
  let ?fresh = "inviteRecordOf H t1 t2 t3 (view w (invite_key owner i))"
  obtain now w2 where clk: "clock (hs_e2ee H) w1 = (Inr now, w2)" and "ok w2" and v2: "view w2 = view w1"
    using reads_time_run [OF clock_now] s1 by (metis stored_def)
  then have s2: "stored owner i m as w2" using s1 by (simp add: stored_def)
  have truthy: "js_truthy ?fresh" by (simp add: inviteRecordOf_def)
  have same: "ledger_step owner i m as a honour w2" if "honour \<Longrightarrow> a \<in> set as" for honour
    using that s2 by (auto simp: ledger_step_def)
  have spend: "runs (bindE (consumeSlot H ?fresh a (Fin (of_int now))) (\<lambda>_. retE x))
      (\<lambda>r. ledger_step owner i m as a (\<exists>e b. r = Inr (Proceed e b))) w2" if "int (length as) < m" for x
  proof (rule runs_bind, rule runs_conseq, rule consume [OF s2 assms(2)])
    show "?fresh = inviteRecordOf H t1 t2 t3 (view w2 (invite_key owner i))" by (simp add: v1 v2)
  qed (use that in \<open>auto simp: ledger_step_def runs_def split: sum.split\<close>)
  show ?thesis
    unfolding claimInvite_def
    by (rule runs_step, rule get, simp only: truthy not_True_eq_False if_False, rule runs_step, rule clk)
      (use used_up [OF assms(1)] same spend in \<open>auto simp: Let_def image_iff runs_ret\<close>)
qed

lemma join_step:
  assumes "stored owner i m as w" "plain_id (hs_e2ee H) a"
  shows "runs (authorizeInviteJoin H (JStr owner) (JStr i) (JStr a) nowMs)
      (\<lambda>r. ledger_step owner i m as a (\<exists>b. r = Inr (True, b))) w"
proof -
  have ids: "hid H (JStr owner) l = Inr owner" "hid H (JStr i) l = Inr i" "hid H (JStr a) l = Inr a" "a \<noteq> []" for l
    using assms by (simp_all add: stored_def plain_id_def)
  let ?time = "if isFinite_num (js_Number nowMs) then retE (js_Number nowMs)
      else bindE (clock (hs_e2ee H)) (\<lambda>now. retE (Fin (of_int now)))"
  obtain now w0 where time: "?time w = (Inr now, w0)" and s0: "stored owner i m as w0"
  proof (cases "isFinite_num (js_Number nowMs)")
    case True
    then show ?thesis using assms(1) by (intro that) auto
  next
    case False
    obtain t w0 where "clock (hs_e2ee H) w = (Inr t, w0)" "ok w0" "view w0 = view w"
      using reads_time_run [OF clock_now] assms(1) by (metis stored_def)
    then show ?thesis using False assms(1) by (intro that [of "Fin (of_int t)" w0]) (auto simp: bindE_def stored_def)
  qed
  obtain t1 t2 t3 w1 where get: "getInviteRecord H (JStr owner) (JStr i) w0 = (Inr (inviteRecordOf H t1 t2 t3 (view w0 (invite_key owner i))), w1)"
    and s1: "stored owner i m as w1" and v1: "view w1 = view w0" by (rule get_invite_run [OF s0])
  let ?fresh = "inviteRecordOf H t1 t2 t3 (view w0 (invite_key owner i))"
  have same: "ledger_step owner i m as a honour w1" if "honour \<Longrightarrow> a \<in> set as" for honour
    using that s1 by (auto simp: ledger_step_def)
  have spend: "runs (bindE (consumeSlot H ?fresh a now) (\<lambda>_. retE x))
      (\<lambda>r. ledger_step owner i m as a (\<exists>b. r = Inr (True, b))) w1" if "int (length as) < m" for x
  proof (rule runs_bind, rule runs_conseq, rule consume [OF s1 ids(4)])
    show "?fresh = inviteRecordOf H t1 t2 t3 (view w1 (invite_key owner i))" by (simp add: v1)
  qed (use that in \<open>auto simp: ledger_step_def runs_def split: sum.split\<close>)
  show ?thesis
    unfolding authorizeInviteJoin_def ids liftE_Inr bindE_retE
    by (rule runs_step, rule time, rule runs_step, rule get)
      (use used_up [OF s0] same spend in \<open>auto simp: Let_def image_iff runs_ret\<close>)
qed

lemma honoured_Cons:
  assumes "stored owner i m as w" "plain_id (hs_e2ee H) (spender x)"
  obtains ys w' as' where "honoured H owner i (x # xs) w = ys @ honoured H owner i xs w'" "stored owner i m as' w'"
    "set ys \<subseteq> set as'" "as' = as \<or> (\<exists>a. as' = as @ [a]) \<and> int (length as) < m"
proof (cases x)
  case (Handshake a)
  obtain r w' where run: "claimInvite H owner i a w = (r, w')" by (cases "claimInvite H owner i a w")
  from claim_step [OF assms(1), of a] assms(2) Handshake run
  have "ledger_step owner i m as a (\<exists>e b. r = Inr (Proceed e b)) w'" by (simp add: runs_def plain_id_def)
  then obtain as' where "stored owner i m as' w'" "as' = as \<or> as' = as @ [a] \<and> int (length as) < m"
    "(\<exists>e b. r = Inr (Proceed e b)) \<longrightarrow> a \<in> set as'" by (auto simp: ledger_step_def)
  then show ?thesis using run Handshake
    by (intro that [of "case r of Inr (Proceed e b) \<Rightarrow> [a] | _ \<Rightarrow> []" w' as'])
      (auto split: sum.splits invite_verdict.splits)
next
  case (Join a now)
  obtain r w' where run: "authorizeInviteJoin H (JStr owner) (JStr i) (JStr a) now w = (r, w')"
    by (cases "authorizeInviteJoin H (JStr owner) (JStr i) (JStr a) now w")
  from join_step [OF assms(1), of a now] assms(2) Join run
  have "ledger_step owner i m as a (\<exists>b. r = Inr (True, b)) w'" by (simp add: runs_def)
  then obtain as' where "stored owner i m as' w'" "as' = as \<or> as' = as @ [a] \<and> int (length as) < m"
    "(\<exists>b. r = Inr (True, b)) \<longrightarrow> a \<in> set as'" by (auto simp: ledger_step_def)
  then show ?thesis using run Join
    by (intro that [of "case r of Inr (True, b) \<Rightarrow> [a] | _ \<Rightarrow> []" w' as']) (auto split: sum.splits prod.splits bool.splits)
qed

lemma honoured_on_ledger:
  assumes "stored owner i m as w" "\<forall>x\<in>set xs. plain_id (hs_e2ee H) (spender x)" "int (length as) \<le> m"
  shows "\<exists>as'. set as \<union> set (honoured H owner i xs w) \<subseteq> set as' \<and> int (length as') \<le> m"
  using assms
proof (induction xs arbitrary: as w)
  case (Cons x xs)
  have x: "plain_id (hs_e2ee H) (spender x)" using Cons.prems(2) by simp
  obtain ys w' as1 where step: "honoured H owner i (x # xs) w = ys @ honoured H owner i xs w'" "stored owner i m as1 w'"
    "set ys \<subseteq> set as1" "as1 = as \<or> (\<exists>a. as1 = as @ [a]) \<and> int (length as) < m"
    by (rule honoured_Cons [OF Cons.prems(1) x])
  have "int (length as1) \<le> m" "set as \<subseteq> set as1" using step(4) Cons.prems(3) by auto
  moreover obtain as' where "set as1 \<union> set (honoured H owner i xs w') \<subseteq> set as'" "int (length as') \<le> m"
    using Cons.IH [OF step(2)] Cons.prems(2) calculation(1) by auto
  ultimately show ?case unfolding step(1) using step(3) by (intro exI [of _ as']) auto
qed auto

lemma honoured_bound:
  assumes "stored owner i m as w" "\<forall>x\<in>set xs. plain_id (hs_e2ee H) (spender x)" "int (length as) \<le> m"
  shows "card (set as \<union> set (honoured H owner i xs w)) \<le> nat m"
proof -
  obtain as' where "set as \<union> set (honoured H owner i xs w) \<subseteq> set as'" "int (length as') \<le> m"
    using honoured_on_ledger [OF assms] by blast
  then have "card (set as \<union> set (honoured H owner i xs w)) \<le> length as'"
    by (meson List.finite_set card_length card_mono le_trans)
  with \<open>int (length as') \<le> m\<close> show ?thesis by linarith
qed

end

section \<open>The browser storage\<close>

text \<open>A clock beside the database: it returns, whatever it reads, and does not touch the database.\<close>

definition keeps_db :: "(idb \<times> 't, int) io \<Rightarrow> bool" where
  "keeps_db c \<longleftrightarrow> (\<forall>db t. \<exists>n t'. c (db, t) = (Inr n, (db, t')))"

lemma browser_ledger:
  assumes "hs_kv H = besides (getKeyValueStore o1)" "keeps_db (hs_dateNow H)" "keeps_db (clock (hs_e2ee H))" "nonEmpty_ok (hs_e2ee H)"
  shows "invite_ledger (besides (getKeyValueStore o1)) (\<lambda>w. idb_view (owner_part o1) (fst w)) (\<lambda>w. idb_inv (fst w)) H"
  unfolding invite_ledger_def invite_ledger_axioms_def getKeyValueStore_def
  using assms by (auto simp: getKeyValueStore_def reads_time_def keeps_db_def aside.kv_store_axioms) metis+

text \<open>C2. An invite is honoured for at most \<open>maxUses\<close> distinct accounts: over every sequence of handshakes and
  of group joins on it, by any accounts and at any times, the accounts that were let in, together with
  those already on its record, number no more than its uses. The record lives in the browser storage,
  so the bound holds across restarts; repeated handshakes of one account count once.\<close>
theorem invite_honoured_at_most_maxUses:
  assumes "hs_kv H = besides (getKeyValueStore o1)" "keeps_db (hs_dateNow H)" "keeps_db (clock (hs_e2ee H))"
    and "nonEmpty_ok (hs_e2ee H)" "plain_id (hs_e2ee H) owner" "plain_id (hs_e2ee H) i"
    and "\<forall>x\<in>set xs. plain_id (hs_e2ee H) (spender x)" "idb_inv db"
    and "invite_of H owner i m as (idb_view (owner_part o1) db (invite_key owner i))" "int (length as) \<le> m"
  shows "card (set as \<union> set (honoured H owner i xs (db, t))) \<le> nat m"
proof -
  note L = browser_ledger [OF assms(1-4)]
  show ?thesis
    by (rule invite_ledger.honoured_bound [OF L _ assms(7,10)]) (use assms in \<open>simp add: invite_ledger.stored_def [OF L]\<close>)
qed

section \<open>Expiry\<close>

text \<open>A stored invite has a positive expiry, so it is not expired at time 0.\<close>

lemma returns_normalize:
  assumes "\<And>w n w'. hs_dateNow H w = (Inr n, w') \<Longrightarrow> 0 < n"
  shows "returns (normalizeInviteRecord H R) (\<lambda>r _. \<not> isExpired r (Fin 0)) w"
proof -
  have "\<not> isExpired (inviteRecordOf H t1 t2 t3 R) (Fin 0)" if "0 < t3" for t1 t2 t3
    using that asPositiveInt_pos [of t3 "getp R ''expiresAtMs''"]
    by (auto simp: isExpired_def inviteRecordOf_def num_le_def)
  moreover have "\<not> isExpired JNull (Fin 0)" by (simp add: isExpired_def num_le_def)
  ultimately show ?thesis unfolding normalizeInviteRecord_def
    by (intro returns_if returns_ret returns_bind returns_call) (auto dest: assms)
qed

text \<open>C37. A join that names no time is never refused as expired, however long ago the invite ended and
  whatever the clock of the service says: the default \<open>nowMs = null\<close> is converted to the number 0,
  which is finite, so the service's clock is not consulted.\<close>
theorem join_without_time_never_expires:
  assumes "\<And>w n w'. hs_dateNow H w = (Inr n, w') \<Longrightarrow> 0 < n"
    and "authorizeInviteJoin H ownerAccountId inviteId joinerAccountId JNull w = (Inr (ok, reason), w')"
  shows "reason \<noteq> ''INVITE_EXPIRED''"
proof -
  have "returns (authorizeInviteJoin H ownerAccountId inviteId joinerAccountId JNull) (\<lambda>p _. snd p \<noteq> ''INVITE_EXPIRED'') w"
    unfolding authorizeInviteJoin_def getInviteRecord_def Let_def
    by (simp, intro returns_steps returns_call [where m = "kv_get K k" for K k] returns_conseq [OF returns_normalize [OF assms(1)]])
      (auto intro!: returns_steps returns_any [where m = "consumeSlot H f a t" for f a t])
  with assms(2) show ?thesis by (auto simp: returns_def)
qed

section \<open>A concrete invite\<close>

text \<open>A clock beside the database that ticks at each reading, and an invite for one use until time 100.\<close>

definition tick :: "(idb \<times> int, int) io" where
  "tick = (\<lambda>(db, t). (Inr t, (db, t + 1)))"

definition demo_hs :: "(idb \<times> int, nat) hs_env" where
  "demo_hs = \<lparr>hs_acct = \<lparr>ae_e2ee = (sample_env (createKeyValueBackedPeerLinkStorage (\<lambda>_ _. True) (besides (getKeyValueStore (Some ''alice'')))))
        \<lparr>clock := tick, nonEmpty := (\<lambda>v. case v of JStr s \<Rightarrow> if s = [] then JNull else JStr s | _ \<Rightarrow> JNull),
         requireId := (\<lambda>v label. case v of JStr s \<Rightarrow> if s = [] then Inl (plain_err label) else Inr s | _ \<Rightarrow> Inl (plain_err label))\<rparr>,
       ae_seal = demo_seal, ae_generateSigningKeyPair = retE (Some \<lparr>kp_public = [65], kp_private = [66]\<rparr>),
       ae_dhGenerateKeyPair = retE (Some \<lparr>kp_public = [67], kp_private = [68]\<rparr>),
       ae_deriveAccountId = (\<lambda>k. if k = [] then ''bob'' else ''alice''), ae_deviceIdFor = (\<lambda>_. Inr ''d1''),
       ae_verifyAccountAuthority = (\<lambda>_ _ _ _ _. retE \<lparr>dc_ok = True, dc_reason = [], dc_signerPublicKeyB64 = []\<rparr>)\<rparr>,
     hs_kv = besides (getKeyValueStore (Some ''alice'')), hs_dateNow = tick,
     hs_verifyEnvelope = (\<lambda>h sg. retE (sg = JStr ''good'')), hs_signEnvelope = (\<lambda>h k. retE ''good''),
     hs_ackFromBytes = (\<lambda>b. Inr (JObj [])), hs_ackPayload = (\<lambda>a. a), hs_ackToBytes = (\<lambda>j. Inr [1]),
     hs_rejectFromBytes = (\<lambda>b. Inr (JObj [])), hs_rejectPayload = (\<lambda>a. a), hs_rejectToBytes = (\<lambda>j. Inr [2]),
     hs_handshakePacket = (\<lambda>h sg. Inr [3]), hs_prepareInviteBinding = (\<lambda>m a k d b e. retE (JObj [], JObj [])),
     hs_processAcceptedInvite = (\<lambda>m b p k d sg. retE (JObj [], Suc m)), hs_INVITE_KIND = ''invite'', hs_buildDurableV1 = Inr,
     hs_durableV1Bytes = (\<lambda>j. [6]), hs_buildDurableV2 = Inr, hs_durableV2Bytes = (\<lambda>j. [7]),
     hs_sha256Bytes = (\<lambda>b. ''h''),
     hs_getInviteAuthority = None,
     hs_ownAuthority = \<lparr>au_signerRef = JObj [], au_sign = (\<lambda>b. retE [5]), au_verify = (\<lambda>r b s. retE True)\<rparr>,
     hs_signPostBearerCap = None\<rparr>"

definition demo_ledger_invite :: jsval where
  "demo_ledger_invite = JObj [(''inviteId'', JStr ''i1''), (''ownerAccountId'', JStr ''alice''), (''tokenHash'', JStr ''h''), (''kind'', JStr ''direct''),
     (''expiresAtMs'', JInt 100), (''maxUses'', JInt 1), (''envelope'', JObj [(''creatorDisplayName'', JStr ''Alice'')])]"

definition demo_invite_db :: idb where
  "demo_invite_db = fst (snd (saveInviteRecord demo_hs demo_ledger_invite ([], 1)))"

lemma demo_hs_laws:
  "hs_kv demo_hs = besides (getKeyValueStore (Some ''alice''))" "keeps_db (hs_dateNow demo_hs)" "keeps_db (clock (hs_e2ee demo_hs))"
  "nonEmpty_ok (hs_e2ee demo_hs)" "s \<noteq> [] \<Longrightarrow> plain_id (hs_e2ee demo_hs) s"
  by (auto simp: demo_hs_def tick_def keeps_db_def nonEmpty_ok_def plain_id_def split: jsval.split)

interpretation demo_ledger: invite_ledger "besides (getKeyValueStore (Some ''alice''))"
  "\<lambda>w. idb_view (owner_part (Some ''alice'')) (fst w)" "\<lambda>w. idb_inv (fst w)" demo_hs
  by (rule browser_ledger [OF demo_hs_laws(1-4)])

theorem invite_honoured_at_most_maxUses_witness:
  "card (set [] \<union> set (honoured demo_hs ''alice'' ''i1'' [Handshake ''bob'', Join ''carol'' (JInt 5), Handshake ''bob''] (demo_invite_db, 1))) \<le> nat 1"
proof -
  have db: "idb_inv demo_invite_db"
    "invite_of demo_hs ''alice'' ''i1'' 1 [] (idb_view (owner_part (Some ''alice'')) demo_invite_db (invite_key ''alice'' ''i1''))"
    by code_simp+
  show ?thesis
    by (rule invite_honoured_at_most_maxUses [OF demo_hs_laws(1-4) _ _ _ db]) (auto intro: demo_hs_laws(5))
qed

text \<open>The first account is honoured, also when it repeats its handshake, the second is refused.\<close>

lemma demo_invite_single_use:
  "honoured demo_hs ''alice'' ''i1'' [Handshake ''bob'', Join ''carol'' (JInt 5), Handshake ''bob''] (demo_invite_db, 1) = [''bob'', ''bob'']"
  by code_simp

text \<open>At time 500 a handshake is refused as expired, a join without a time is admitted.\<close>

theorem join_without_time_never_expires_witness:
  "fst (claimInvite demo_hs ''alice'' ''i1'' ''bob'' (demo_invite_db, 500)) = Inr (Reject ''INVITE_EXPIRED'')
   \<and> (\<exists>w. authorizeInviteJoin (demo_hs\<lparr>hs_dateNow := retE 500\<rparr>) (JStr ''alice'') (JStr ''i1'') (JStr ''carol'') JNull (demo_invite_db, 500) = (Inr (True, ''CONSUMED''), w)
        \<and> ''CONSUMED'' \<noteq> ''INVITE_EXPIRED'')"
proof -
  have "fst (claimInvite demo_hs ''alice'' ''i1'' ''bob'' (demo_invite_db, 500)) = Inr (Reject ''INVITE_EXPIRED'')"
    by code_simp
  moreover obtain w where w: "authorizeInviteJoin (demo_hs\<lparr>hs_dateNow := retE 500\<rparr>) (JStr ''alice'') (JStr ''i1'') (JStr ''carol'') JNull
      (demo_invite_db, 500) = (Inr (True, ''CONSUMED''), w)"
  proof -
    have "fst (authorizeInviteJoin (demo_hs\<lparr>hs_dateNow := retE 500\<rparr>) (JStr ''alice'') (JStr ''i1'') (JStr ''carol'') JNull
      (demo_invite_db, 500)) = Inr (True, ''CONSUMED'')" by code_simp
    then show ?thesis by (metis prod.collapse that)
  qed
  moreover have "''CONSUMED'' \<noteq> ''INVITE_EXPIRED''"
    by (rule join_without_time_never_expires [OF _ w]) simp
  ultimately show ?thesis by blast
qed

end
