(* ===== verification/PeerLink_Handshake_Props.thy ===== *)
theory PeerLink_Handshake_Props
  imports PeerLink_Handshake Invite_Ledger_Props
begin

text \<open>
  What handshakes, acknowledgements and refusals need before they change anything: a condition on the
  store that the reading operations leave alone is kept by a handler unless the message was
  authenticated. Since the condition is arbitrary this says that nothing but reads took place.
\<close>

section \<open>Operations of the service over its store\<close>

lemma runs_onWorld:
  assumes "runs m Q (sv_store s)" "\<And>r w. Q r w \<Longrightarrow> Q' r (S, s\<lparr>sv_store := w\<rparr>)"
  shows "runs (onWorld m) Q' (S, s)"
  using assms by (auto simp: runs_def ext_def onStore_def split: prod.splits)

lemma runs_if: "(c \<Longrightarrow> runs m Q s) \<Longrightarrow> (\<not> c \<Longrightarrow> runs m' Q s) \<Longrightarrow> runs (if c then m else m') Q s"
  by simp

text \<open>A call after which a condition on the state still holds, then the rest with what it returned.\<close>

lemma runs_kept:
  assumes "leaves P m" "P s" "\<And>e t. P t \<Longrightarrow> m s = (Inl e, t) \<Longrightarrow> Q (Inl e) t"
    and "\<And>x t. P t \<Longrightarrow> m s = (Inr x, t) \<Longrightarrow> runs (f x) Q t"
  shows "runs (bindE m f) Q s"
  by (rule runs_bind) (use assms leavesD [OF assms(1,2)] in \<open>auto simp: runs_def split: sum.split\<close>)

section \<open>Acknowledgements and refusals\<close>

text \<open>The proof an acknowledgement or a refusal carries: for a link that awaits it, under the key that was
  recorded when the invite was accepted, with the nonce of the handshake when there is one.\<close>

definition answer_proved :: "('w, 'm) hs_env \<Rightarrow> string \<Rightarrow> jsval \<Rightarrow> jsval \<Rightarrow> bool" where
  "answer_proved H owner message payload \<longleftrightarrow> (\<exists>link nonce u u' v v' x x'.
     peerLinks_getByPair (hsto H) (JStr owner) (getp message ''senderAccountId'') u = (Inr link, u')
     \<and> getp link ''state'' \<in> {JStr ''handshake_sent'', JStr ''accept_committed''}
     \<and> js_truthy (hne H (getp link ''remoteIdentitySigningPublicKeyB64''))
     \<and> hne H (getp link ''remoteIdentitySigningPublicKeyB64'') = getp message ''senderIdentitySigningPubKeyB64''
     \<and> hs_verifyEnvelope H payload (getp message ''signatureB64'') v = (Inr True, v')
     \<and> kv_get (hs_kv H) (nonceKey owner (getp link ''peerLinkId'')) x = (Inr nonce, x')
     \<and> (js_truthy nonce \<longrightarrow> js_String (getp message ''ackNonce'') = js_String nonce))"

lemma answer_provedI:
  assumes "peerLinks_getByPair (hsto H) (JStr owner) (getp message ''senderAccountId'') u = (Inr link, u')"
    and "\<not> (getp link ''state'' \<noteq> JStr ''handshake_sent'' \<and> getp link ''state'' \<noteq> JStr ''accept_committed'')"
    and "\<not> (\<not> js_truthy (hne H (getp link ''remoteIdentitySigningPublicKeyB64''))
       \<or> \<not> js_eq (hne H (getp link ''remoteIdentitySigningPublicKeyB64'')) (getp message ''senderIdentitySigningPubKeyB64''))"
    and "hs_verifyEnvelope H payload (getp message ''signatureB64'') v = (Inr sigOk, v')" "sigOk"
    and "kv_get (hs_kv H) (nonceKey owner (getp link ''peerLinkId'')) x = (Inr nonce, x')"
    and "js_truthy nonce \<Longrightarrow> js_String (getp message ''ackNonce'') = js_String nonce"
  shows "answer_proved H owner message payload"
proof -
  have "getp link ''state'' \<in> {JStr ''handshake_sent'', JStr ''accept_committed''}"
    "hne H (getp link ''remoteIdentitySigningPublicKeyB64'') = getp message ''senderIdentitySigningPubKeyB64''"
    "js_truthy (hne H (getp link ''remoteIdentitySigningPublicKeyB64''))"
    using assms(2,3) by (blast dest: js_eq_D)+
  moreover have "js_truthy nonce \<longrightarrow> js_String (getp message ''ackNonce'') = js_String nonce" using assms(7) by blast
  ultimately show ?thesis unfolding answer_proved_def using assms(1,4,6) assms(5) by (metis (full_types))
qed

text \<open>The operations that only read, as far as the condition \<open>P\<close> is concerned.\<close>

definition only_reads :: "('w \<Rightarrow> bool) \<Rightarrow> ('w, 'm) hs_env \<Rightarrow> bool" where
  "only_reads P H \<longleftrightarrow> (\<forall>a b. leaves P (peerLinks_getByPair (hsto H) a b)) \<and> (\<forall>a b. leaves P (hs_verifyEnvelope H a b))
     \<and> (\<forall>k. leaves P (kv_get (hs_kv H) k)) \<and> leaves P (clock (hs_e2ee H)) \<and> leaves P (hs_dateNow H)
     \<and> (\<forall>a b c. leaves P (sl_verify (ae_seal (hs_acct H)) a b c))
     \<and> (\<forall>a b c d e. leaves P (ae_verifyAccountAuthority (hs_acct H) a b c d e))
     \<and> (\<forall>a b. leaves P (keys_getInvitePreKey (hsto H) a b)) \<and> (\<forall>a b. leaves P (sessions_getByPeerLinkId (hsto H) a b))
     \<and> (\<forall>a b c. leaves P (events_listByPeerLinkId (hsto H) a b c))"

lemma only_readsD:
  assumes "only_reads P H"
  shows "leaves P (peerLinks_getByPair (hsto H) a b)" "leaves P (hs_verifyEnvelope H a b)" "leaves P (kv_get (hs_kv H) k)"
    "leaves P (clock (hs_e2ee H))" "leaves P (hs_dateNow H)" "leaves P (sl_verify (ae_seal (hs_acct H)) k1 m1 s1)"
    "leaves P (ae_verifyAccountAuthority (hs_acct H) c1 c2 c3 c4 c5)" "leaves P (keys_getInvitePreKey (hsto H) a b)"
    "leaves P (sessions_getByPeerLinkId (hsto H) a b)" "leaves P (events_listByPeerLinkId (hsto H) a b c)"
  using assms by (simp_all add: only_reads_def)

lemma answeredLink_runs:
  assumes "only_reads P H" "P w"
  shows "runs (answeredLink H owner message payload)
    (\<lambda>r w'. P w' \<and> (\<forall>link. r \<noteq> Inr (Some link)) \<or> answer_proved H owner message payload) w"
  unfolding answeredLink_def Let_def
  by (intro runs_kept [OF only_readsD(1) [OF assms(1)] assms(2)] runs_if runs_ret
      runs_kept [OF only_readsD(2) [OF assms(1)]] runs_kept [OF only_readsD(3) [OF assms(1)]])
    (auto simp: runs_def intro: answer_provedI)

text \<open>What a handler leaves behind when it took no answer: the account part and the counters as they were, a
  store on which the condition still holds, and no result.\<close>

definition untouched :: "('w \<Rightarrow> bool) \<Rightarrow> acct_svc \<times> 'w svc \<Rightarrow> js_err + 'a option \<Rightarrow> acct_svc \<times> 'w svc \<Rightarrow> bool" where
  "untouched P s r s' \<longleftrightarrow> (\<exists>w. s' = (fst s, (snd s)\<lparr>sv_store := w\<rparr>) \<and> P w) \<and> (\<forall>x. r \<noteq> Inr (Some x))"

lemma untouched_start: "P (sv_store s) \<Longrightarrow> (\<forall>x. r \<noteq> Inr (Some x)) \<Longrightarrow> untouched P (S, s) r (S, s)"
  by (auto simp: untouched_def intro!: exI [of _ "sv_store s"])

lemma no_answer:
  assumes "P (sv_store s)"
  shows "untouched P (S, s) (Inr None) (S, s) \<or> X" "untouched P (S, s) (Inl e) (S, s) \<or> X"
  using assms by (simp_all add: untouched_start)

lemma runs_answered:
  assumes "only_reads P H" "P (sv_store s)"
  shows "runs (bindE (onWorld (answeredLink H owner message payload)) (\<lambda>answered.
      case answered of None \<Rightarrow> retE None | Some link \<Rightarrow> f link))
    (\<lambda>r t. untouched P (S, s) r t \<or> answer_proved H owner message payload) (S, s)"
  by (rule runs_bind, rule runs_onWorld [OF answeredLink_runs [OF assms]])
    (auto simp: untouched_def runs_def split: sum.split option.split)

definition ack_proved :: "('w, 'm) hs_env \<Rightarrow> jsval \<Rightarrow> octets option \<Rightarrow> bool" where
  "ack_proved H ownerAccountId bytes \<longleftrightarrow> (\<exists>owner b ack. hid H ownerAccountId ''ownerAccountId'' = Inr owner \<and> bytes = Some b
     \<and> hs_ackFromBytes H b = Inr ack \<and> answer_proved H owner ack (hs_ackPayload H ack))"

definition reject_proved :: "('w, 'm) hs_env \<Rightarrow> jsval \<Rightarrow> octets option \<Rightarrow> bool" where
  "reject_proved H ownerAccountId bytes \<longleftrightarrow> (\<exists>owner b reject. hid H ownerAccountId ''ownerAccountId'' = Inr owner \<and> bytes = Some b
     \<and> hs_rejectFromBytes H b = Inr reject \<and> answer_proved H owner reject (hs_rejectPayload H reject))"

lemma requireBytes_Some: "requireBytes b msg = Inr xs \<Longrightarrow> b = Some xs"
  by (simp add: requireBytes_def split: option.splits list.splits)

lemma runs_sum: "(\<And>e. x = Inl e \<Longrightarrow> runs (f e) Q s) \<Longrightarrow> (\<And>y. x = Inr y \<Longrightarrow> runs (g y) Q s)
    \<Longrightarrow> runs (case x of Inl e \<Rightarrow> f e | Inr y \<Rightarrow> g y) Q s"
  by (cases x) simp_all

lemma ack_runs:
  assumes "only_reads P H" "P (sv_store s)"
  shows "runs (handleIncomingHandshakeAck H ownerAccountId bytes)
    (\<lambda>r t. untouched P (S, s) r t \<or> ack_proved H ownerAccountId bytes) (S, s)"
  unfolding handleIncomingHandshakeAck_def
  by (intro runs_lift runs_sum runs_ret no_answer assms(2) runs_conseq [OF runs_answered [OF assms]])
    (auto simp: ack_proved_def dest: requireBytes_Some)

lemma reject_runs:
  assumes "only_reads P H" "P (sv_store s)"
  shows "runs (handleHandshakeReject H ownerAccountId bytes)
    (\<lambda>r t. untouched P (S, s) r t \<or> reject_proved H ownerAccountId bytes) (S, s)"
  unfolding handleHandshakeReject_def
  by (intro runs_lift runs_sum runs_ret no_answer assms(2) runs_conseq [OF runs_answered [OF assms]])
    (auto simp: reject_proved_def dest: requireBytes_Some)

text \<open>C6. An acknowledgement or a refusal of a handshake that is not proved changes nothing: whatever
  condition on the store the reading operations leave alone still holds afterwards, the counters are
  as before, and the handler answers null or throws. Proved means: it decodes, the link with its
  sender awaits an answer (so an established session is never torn down), it carries the signing key
  recorded for the link, the signature over its contents verified, and its nonce is the stored one if
  one is stored.\<close>
theorem handshake_answers_need_proof:
  assumes "only_reads P H" "P (sv_store s)"
    and "handleIncomingHandshakeAck H ownerAccountId bytes (S, s) = (r, t)"
    and "handleHandshakeReject H ownerAccountId bytes (S, s) = (r', t')"
  shows "(untouched P (S, s) r t \<or> ack_proved H ownerAccountId bytes)
    \<and> (untouched P (S, s) r' t' \<or> reject_proved H ownerAccountId bytes)"
  using ack_runs [OF assms(1,2), of ownerAccountId bytes S] reject_runs [OF assms(1,2), of ownerAccountId bytes S] assms(3,4)
  unfolding runs_def by blast

section \<open>The responder\<close>

lemma runs_leaves_returns:
  assumes "leaves P m" "P s" "returns m Q s"
  shows "runs m (\<lambda>r t. P t \<and> (\<forall>x. r = Inr x \<longrightarrow> Q x t)) s"
  using assms leavesD [OF assms(1,2)] by (auto simp: runs_def returns_def)

lemma leaves_verifyBinding: "only_reads P H \<Longrightarrow> leaves P (verifyInviteX3dhBinding (hs_acct H) a b c)"
  unfolding verifyInviteX3dhBinding_def bindingVerifyKey_def Let_def by (intro leave_rules only_readsD)

lemma leaves_authenticate: "only_reads P H \<Longrightarrow> leaves P (authenticateHandshake H handshakeData sig)"
  unfolding authenticateHandshake_def Let_def by (intro leave_rules only_readsD leaves_verifyBinding)

text \<open>The proof a handshake carries: its envelope verified, the key that signed it is the one the sender's
  binding names, and the binding was accepted for the account that its key derives.\<close>

definition sender_proved :: "('w, 'm) hs_env \<Rightarrow> jsval \<Rightarrow> string \<Rightarrow> string \<Rightarrow> bool" where
  "sender_proved H handshakeData sig peer \<longleftrightarrow> (\<exists>accountKey account v v'. (let binding = getp handshakeData ''senderAccountBinding'' in
     hs_verifyEnvelope H handshakeData (JStr sig) v = (Inr True, v')
     \<and> hne H (getp binding ''x3dhIdentityPublicKeyB64'') = hne H (getp handshakeData ''senderIdentitySigningPubKeyB64'')
     \<and> b64 (hs_acct H) (hne H (getp binding ''accountIdentityPublicKeyB64'')) = Inr accountKey
     \<and> ae_deriveAccountId (hs_acct H) accountKey = peer \<and> hid H (JStr peer) ''ownerAccountId'' = Inr account
     \<and> accepted_binding (hs_acct H) account (getp (senderInviteBinding H binding) ''x3dh'') (chainOrNull (getp binding ''certChain''))))"

lemma sender_provedI:
  assumes "hs_verifyEnvelope H handshakeData (JStr sig) v = (Inr ok, v')" "ok"
    and "js_eq (hne H (getp (getp handshakeData ''senderAccountBinding'') ''x3dhIdentityPublicKeyB64''))
       (hne H (getp handshakeData ''senderIdentitySigningPubKeyB64''))"
    and "b64 (hs_acct H) (hne H (getp (getp handshakeData ''senderAccountBinding'') ''accountIdentityPublicKeyB64'')) = Inr accountKey"
    and "\<exists>owner. hid H (JStr (ae_deriveAccountId (hs_acct H) accountKey)) ''ownerAccountId'' = Inr owner
      \<and> accepted_binding (hs_acct H) owner (getp (senderInviteBinding H (getp handshakeData ''senderAccountBinding'')) ''x3dh'')
          (chainOrNull (getp (getp handshakeData ''senderAccountBinding'') ''certChain''))"
  shows "sender_proved H handshakeData sig (ae_deriveAccountId (hs_acct H) accountKey)"
  unfolding sender_proved_def Let_def using assms(1,2,4,5) js_eq_D [OF assms(3)] by (metis (full_types))

lemma returns_authenticate:
  "returns (authenticateHandshake H handshakeData sig) (\<lambda>x _. sender_proved H handshakeData sig (snd x)
      \<and> hid H (getp handshakeData ''inviteId'') ''inviteId'' = Inr (fst x)) w"
  unfolding authenticateHandshake_def Let_def
  by (intro returns_bind returns_lift returns_require returns_ret returns_call [where m = "hs_verifyEnvelope H h g" for h g]
      returns_conseq [OF returns_verifyBinding]) (auto intro: sender_provedI)

text \<open>What a packet that is no handshake, or none that is proved, leaves behind.\<close>

definition ignored :: "('w \<Rightarrow> bool) \<Rightarrow> acct_svc \<times> 'w svc \<Rightarrow> js_err + handshake_outcome \<Rightarrow> acct_svc \<times> 'w svc \<Rightarrow> bool" where
  "ignored P s r s' \<longleftrightarrow> (\<exists>w. s' = (fst s, (snd s)\<lparr>sv_store := w\<rparr>) \<and> P w) \<and> (r = Inr NoHandshake \<or> (\<exists>e. r = Inl e))"

lemma ignored_start:
  assumes "P (sv_store s)"
  shows "ignored P (S, s) (Inr NoHandshake) (S, s) \<or> X" "ignored P (S, s) (Inl e) (S, s) \<or> X"
  using assms by (auto simp: ignored_def intro!: exI [of _ "sv_store s"])

definition handshake_proved :: "('w, 'm) hs_env \<Rightarrow> octets option \<Rightarrow> bool" where
  "handshake_proved H bytes \<longleftrightarrow> (\<exists>handshakeData sig peer. handshakeOf H bytes = Inr (Some (handshakeData, sig))
     \<and> sender_proved H handshakeData sig peer)"

lemma runs_optpair: "(x = None \<Longrightarrow> runs m Q s) \<Longrightarrow> (\<And>a b. x = Some (a, b) \<Longrightarrow> runs (f a b) Q s)
    \<Longrightarrow> runs (case x of None \<Rightarrow> m | Some (a, b) \<Rightarrow> f a b) Q s"
  by (cases x) auto

lemma runs_authenticated:
  assumes "only_reads P H" "P (sv_store s)" "handshakeOf H bytes = Inr (Some (handshakeData, sig))"
  shows "runs (bindE (onWorld (authenticateHandshake H handshakeData sig)) f)
    (\<lambda>r t. ignored P (S, s) r t \<or> handshake_proved H bytes) (S, s)"
  by (rule runs_bind, rule runs_onWorld [OF runs_leaves_returns [OF leaves_authenticate [OF assms(1)] assms(2) returns_authenticate]])
    (use assms(3) in \<open>auto simp: ignored_def handshake_proved_def runs_def split: sum.split\<close>)

lemma responder_runs:
  assumes "only_reads P H" "P (sv_store s)"
  shows "runs (handleIncomingHandshakePacket H ownerAccountId bytes)
    (\<lambda>r t. ignored P (S, s) r t \<or> handshake_proved H bytes) (S, s)"
  unfolding handleIncomingHandshakePacket_def
  by (intro runs_lift runs_optpair runs_ret ignored_start assms(2) runs_authenticated [OF assms]) simp_all

text \<open>C7. The responder acts only on a handshake that proves who sent it. Unless the packet decodes to a
  handshake whose envelope signature verified, whose signing key is the one named by the sender's
  account binding, and whose binding was accepted for the account its key derives, nothing but reads
  takes place and the handler answers null or throws.\<close>
theorem responder_acts_only_on_proof:
  assumes "only_reads P H" "P (sv_store s)" "handleIncomingHandshakePacket H ownerAccountId bytes (S, s) = (r, t)"
  shows "ignored P (S, s) r t \<or> handshake_proved H bytes"
  using responder_runs [OF assms(1,2), of ownerAccountId bytes S] assms(3) unfolding runs_def by blast

section \<open>Replayed handshakes\<close>

definition established_with :: "('w, 'm) hs_env \<Rightarrow> string \<Rightarrow> string \<Rightarrow> 'w \<Rightarrow> bool" where
  "established_with H owner peer w \<longleftrightarrow> (\<exists>link w'. peerLinks_getByPair (hsto H) (JStr owner) (JStr peer) w = (Inr link, w')
     \<and> js_truthy link \<and> getp link ''state'' = JStr ''session_established'')"

definition on_ledger :: "('w, 'm) hs_env \<Rightarrow> string \<Rightarrow> string \<Rightarrow> string \<Rightarrow> 'w \<Rightarrow> bool" where
  "on_ledger H owner i peer w \<longleftrightarrow> (\<exists>k R w'. inviteKey H (JStr owner) (JStr i) = Inr k \<and> kv_get (hs_kv H) k w = (Inr R, w')
     \<and> inviteComplete H R \<and> JStr peer \<in> set (acceptorsIn (getp R ''acceptedAcceptors'')))"

lemma leaves_normalize: "only_reads P H \<Longrightarrow> leaves P (normalizeInviteRecord H R)"
  unfolding normalizeInviteRecord_def by (intro leave_rules only_readsD)

lemma returns_recordOf:
  "returns (normalizeInviteRecord H R) (\<lambda>x _. inviteComplete H R \<longrightarrow> (\<exists>t1 t2 t3. x = inviteRecordOf H t1 t2 t3 R)) w"
  unfolding normalizeInviteRecord_def by (intro returns_steps returns_any [where m = "hs_dateNow H"]) auto

lemma recordOf_acceptors:
  "js_truthy (inviteRecordOf H t1 t2 t3 R)"
  "acceptorsIn (getp (inviteRecordOf H t1 t2 t3 R) ''acceptedAcceptors'') = acceptorsIn (getp R ''acceptedAcceptors'')"
  by (simp_all add: inviteRecordOf_def)

text \<open>A condition under which the account of a handshake is on the record of its invite, and the link
  with it established.\<close>

locale replayed =
  fixes P :: "'w \<Rightarrow> bool" and H :: "('w, 'm) hs_env" and owner i peer :: string
  assumes reads: "only_reads P H"
    and known: "P w \<Longrightarrow> on_ledger H owner i peer w"
    and live: "P w \<Longrightarrow> established_with H owner peer w"
begin

lemma get_known:
  assumes "P w"
  shows "runs (getInviteRecord H (JStr owner) (JStr i)) (\<lambda>r w'. P w'
     \<and> (\<forall>x. r = Inr x \<longrightarrow> js_truthy x \<and> JStr peer \<in> set (acceptorsIn (getp x ''acceptedAcceptors'')))) w"
proof -
  obtain k R w1 where k: "inviteKey H (JStr owner) (JStr i) = Inr k" "kv_get (hs_kv H) k w = (Inr R, w1)"
    and R: "inviteComplete H R" "JStr peer \<in> set (acceptorsIn (getp R ''acceptedAcceptors''))"
    using known [OF assms] by (auto simp: on_ledger_def)
  have "P w1" by (rule leavesD [OF only_readsD(3) [OF reads] assms k(2)])
  from runs_leaves_returns [OF leaves_normalize [OF reads] this returns_recordOf]
  have norm: "runs (normalizeInviteRecord H R) (\<lambda>r w'. P w'
     \<and> (\<forall>x. r = Inr x \<longrightarrow> js_truthy x \<and> JStr peer \<in> set (acceptorsIn (getp x ''acceptedAcceptors'')))) w1"
    by (rule runs_conseq) (use R in \<open>auto simp: recordOf_acceptors\<close>)
  show ?thesis unfolding getInviteRecord_def k(1) liftE_Inr bindE_retE
    by (rule runs_step, rule k(2), rule norm)
qed

lemma claim_known:
  assumes "P w"
  shows "runs (claimInvite H owner i peer) (\<lambda>r w'. P w' \<and> (\<forall>e b. r = Inr (Proceed e b) \<longrightarrow> b)) w"
  unfolding claimInvite_def
proof (rule runs_bind, rule runs_conseq [OF get_known [OF assms]])
  let ?Q = "\<lambda>r w'. P w' \<and> (\<forall>e b. r = Inr (Proceed e b) \<longrightarrow> b)"
  fix r w' assume got: "P w' \<and> (\<forall>x. r = Inr x \<longrightarrow> js_truthy x \<and> JStr peer \<in> set (acceptorsIn (getp x ''acceptedAcceptors'')))"
  have "runs (if \<not> js_truthy fresh then retE (Proceed True False) else bindE (clock (hs_e2ee H)) (\<lambda>now.
      let accepted = acceptorsIn (getp fresh ''acceptedAcceptors'') in
      if isExpired fresh (Fin (of_int now)) then retE (Reject ''INVITE_EXPIRED'')
      else if JStr peer \<in> set accepted then retE (Proceed (isUsedUp fresh (length accepted)) True)
      else if isUsedUp fresh (length accepted) then retE (Reject ''INVITE_USED_UP'')
      else bindE (consumeSlot H fresh peer (Fin (of_int now))) (\<lambda>_. retE (Proceed (isUsedUp fresh (Suc (length accepted))) False)))) ?Q w'"
    if "js_truthy fresh" "JStr peer \<in> set (acceptorsIn (getp fresh ''acceptedAcceptors''))" for fresh
    unfolding Let_def by (intro runs_if runs_past [OF only_readsD(4) [OF reads]]) (use that got in \<open>auto simp: runs_ret\<close>)
  with got show "case r of Inl e \<Rightarrow> ?Q (Inl e) w' | Inr x \<Rightarrow> runs (if \<not> js_truthy x then retE (Proceed True False)
      else bindE (clock (hs_e2ee H)) (\<lambda>now.
      let accepted = acceptorsIn (getp x ''acceptedAcceptors'') in
      if isExpired x (Fin (of_int now)) then retE (Reject ''INVITE_EXPIRED'')
      else if JStr peer \<in> set accepted then retE (Proceed (isUsedUp x (length accepted)) True)
      else if isUsedUp x (length accepted) then retE (Reject ''INVITE_USED_UP'')
      else bindE (consumeSlot H x peer (Fin (of_int now))) (\<lambda>_. retE (Proceed (isUsedUp x (Suc (length accepted))) False)))) ?Q w'"
    by (cases r) auto
qed

abbreviation same_service :: "acct_svc \<Rightarrow> 'w svc \<Rightarrow> acct_svc \<times> 'w svc \<Rightarrow> bool" where
  "same_service S s t \<equiv> \<exists>w. t = (S, s\<lparr>sv_store := w\<rparr>) \<and> P w"

lemma leaves_same: "leaves P m \<Longrightarrow> leaves (same_service S s) (onWorld m)"
  by (fastforce simp: leaves_def ext_def onStore_def split: prod.splits dest: spec)

lemma leaves_snapshot: "leaves P (buildSnapshot (hs_e2ee H) link)"
  unfolding buildSnapshot_def by (intro leave_rules only_readsD [OF reads])

lemma respond_known:
  assumes "P w"
  shows "runs (respond H owner i peer handshakeData n1 n2 exhausted True) (\<lambda>r. same_service S s) (S, s\<lparr>sv_store := w\<rparr>)"
proof -
  have start: "same_service S s (S, s\<lparr>sv_store := w\<rparr>)" using assms by auto
  have link: "js_truthy existing \<and> getp existing ''state'' = JStr ''session_established''"
    if "onWorld (peerLinks_getByPair (hsto H) (JStr owner) (JStr peer)) t = (Inr existing, t')" "same_service S s t" for existing t t'
    using that live by (fastforce simp: established_with_def ext_def onStore_def split: prod.splits)
  show ?thesis unfolding respond_def Let_def
    by (intro runs_past [OF leaves_same [OF only_readsD(8) [OF reads]] start] runs_require
        runs_past [OF leaves_same [OF only_readsD(4) [OF reads]]] runs_kept [OF leaves_same [OF only_readsD(1) [OF reads]]] runs_if
        runs_past [OF leaves_same [OF leaves_snapshot]] runs_ret) (auto dest: link)
qed

lemma handler_known:
  assumes "P (sv_store s)" "handshakeOf H bytes = Inr (Some (handshakeData, sig))" "hid H ownerAccountId ''ownerAccountId'' = Inr owner"
    and i: "\<And>j. hid H (getp handshakeData ''inviteId'') ''inviteId'' = Inr j \<Longrightarrow> j = i"
    and peer: "\<And>p. sender_proved H handshakeData sig p \<Longrightarrow> p = peer"
  shows "runs (handleIncomingHandshakePacket H ownerAccountId bytes) (\<lambda>r. same_service S s) (S, s)"
proof -
  have start: "same_service S s (S, s)" using assms(1) by (auto intro!: exI [of _ "sv_store s"])
  have claim: "runs (onWorld (claimInvite H owner i peer))
      (\<lambda>r t. same_service S s t \<and> (\<forall>e b. r = Inr (Proceed e b) \<longrightarrow> b)) (S, s\<lparr>sv_store := w\<rparr>)" if "P w" for w
    by (rule runs_onWorld [OF claim_known]) (use that in simp, simp, blast)
  have verdict: "runs (case v of Reject reason \<Rightarrow> retE (f reason) | Proceed e b \<Rightarrow> respond H owner i peer handshakeData n1 n2 e b)
      (\<lambda>r. same_service S s) (S, s\<lparr>sv_store := w\<rparr>)" if "P w" "\<forall>e b. v = Proceed e b \<longrightarrow> b" for v f n1 n2 w
    using that respond_known by (cases v) (auto intro!: runs_ret)
  have rest: "runs (bindE (onWorld (getInviteRecord H (JStr owner) (JStr i))) (\<lambda>rcd.
      bindE (if js_truthy rcd then onWorld (claimInvite H owner i peer) else retE (Proceed True False)) (\<lambda>v.
      case v of Reject reason \<Rightarrow> retE (f reason) | Proceed e b \<Rightarrow> respond H owner i peer handshakeData n1 (n2 rcd) e b)))
      (\<lambda>r. same_service S s) (S, s\<lparr>sv_store := w\<rparr>)" if "P w" for w f n1 n2
  proof (rule runs_bind, rule runs_onWorld [OF get_known])
    show "P (sv_store (s\<lparr>sv_store := w\<rparr>))" using that by simp
    fix r w' assume got: "P w' \<and> (\<forall>x. r = Inr x \<longrightarrow> js_truthy x \<and> JStr peer \<in> set (acceptorsIn (getp x ''acceptedAcceptors'')))"
    have "runs (bindE (onWorld (claimInvite H owner i peer)) (\<lambda>v. case v of Reject reason \<Rightarrow> retE (f reason)
        | Proceed e b \<Rightarrow> respond H owner i peer handshakeData n1 (n2 rcd) e b)) (\<lambda>r. same_service S s) (S, s\<lparr>sv_store := w'\<rparr>)" for rcd
      by (rule runs_bind, rule runs_conseq [OF claim]) (use got in \<open>auto split: sum.split intro!: verdict\<close>)
    then show "case r of Inl e \<Rightarrow> same_service S s (S, s\<lparr>sv_store := w, sv_store := w'\<rparr>)
      | Inr rcd \<Rightarrow> runs (bindE (if js_truthy rcd then onWorld (claimInvite H owner i peer) else retE (Proceed True False)) (\<lambda>v.
          case v of Reject reason \<Rightarrow> retE (f reason) | Proceed e b \<Rightarrow> respond H owner i peer handshakeData n1 (n2 rcd) e b))
          (\<lambda>r. same_service S s) (S, s\<lparr>sv_store := w, sv_store := w'\<rparr>)"
      using got by (cases r) auto
  qed
  show ?thesis
    unfolding handleIncomingHandshakePacket_def assms(2,3) liftE_Inr bindE_retE option.case prod.case Let_def
    by (rule runs_bind, rule runs_onWorld [OF runs_leaves_returns [OF leaves_authenticate [OF reads] assms(1) returns_authenticate]])
      (auto split: sum.split dest!: i peer intro!: rest)
qed

end

section \<open>The browser storage\<close>

lemma leaves_mapE: "(\<And>x. leaves P (f x)) \<Longrightarrow> leaves P (mapE f xs)"
  by (induction xs) (auto intro!: leave_rules)

lemma leaves_queries:
  assumes "\<And>k. leaves P (kv_get N k)"
  shows "leaves P (pl_getByPair N a b)" "leaves P (ss_getByPeerLinkId N a b)" "leaves P (km_get N key)" "leaves P (ev_listByPeerLinkId N a b c)"
  unfolding pl_getByPair_def pl_getById_def ss_getByPeerLinkId_def ss_getById_def km_get_def ev_listByPeerLinkId_def Let_def
  by (intro leave_rules leaves_mapE assms)+

text \<open>A service in the browser: links, invites and nonces are in one database, which the clocks and the
  crypto provider do not touch.\<close>

definition in_browser :: "(idb \<times> 't, 'm) hs_env \<Rightarrow> (string \<Rightarrow> string \<Rightarrow> bool) \<Rightarrow> string option \<Rightarrow> bool" where
  "in_browser H c o1 \<longleftrightarrow> hsto H = createKeyValueBackedPeerLinkStorage c (besides (getKeyValueStore o1))
     \<and> hs_kv H = besides (getKeyValueStore o1)
     \<and> (\<forall>db. leaves (\<lambda>w. fst w = db) (clock (hs_e2ee H)) \<and> leaves (\<lambda>w. fst w = db) (hs_dateNow H)
         \<and> (\<forall>a b. leaves (\<lambda>w. fst w = db) (hs_verifyEnvelope H a b))
         \<and> (\<forall>a b d. leaves (\<lambda>w. fst w = db) (sl_verify (ae_seal (hs_acct H)) a b d))
         \<and> (\<forall>a b d e f. leaves (\<lambda>w. fst w = db) (ae_verifyAccountAuthority (hs_acct H) a b d e f)))"

lemma browser_get: "leaves (\<lambda>w. fst w = db) (kv_get (besides (getKeyValueStore o1)) k)"
  by (auto simp: leaves_def besides_def onFirst_def getKeyValueStore_def idb_kv_def idb_get_def bindE_def)

lemma browser_get_normalized: "leaves (\<lambda>w. fst w = db) (kv_get (absenceNormalizingStore (besides (getKeyValueStore o1))) k)"
  unfolding absenceNormalizingStore_def by simp (intro leave_rules browser_get)

lemma browser_only_reads: "in_browser H c o1 \<Longrightarrow> only_reads (\<lambda>w. fst w = db) H"
  unfolding in_browser_def only_reads_def createKeyValueBackedPeerLinkStorage_def Let_def
  by (auto simp: getInvitePreKey_def intro: leaves_queries browser_get_normalized browser_get)

text \<open>C3. A handshake that is delivered again does not disturb a session: in the browser, when the account it
  proves is on the record of its invite and the link with that account is established, handling the
  packet leaves the database exactly as it was (no ratchet is reset, nothing is written), whatever
  its outcome.\<close>
theorem replayed_handshake_keeps_session:
  assumes "in_browser H c o1" "handshakeOf H bytes = Inr (Some (handshakeData, sig))"
    and "hid H ownerAccountId ''ownerAccountId'' = Inr owner" "hid H (getp handshakeData ''inviteId'') ''inviteId'' = Inr i"
    and "b64 (hs_acct H) (hne H (getp (getp handshakeData ''senderAccountBinding'') ''accountIdentityPublicKeyB64'')) = Inr accountKey"
    and "\<And>t. on_ledger H owner i (ae_deriveAccountId (hs_acct H) accountKey) (db, t)"
    and "\<And>t. established_with H owner (ae_deriveAccountId (hs_acct H) accountKey) (db, t)"
    and "fst (sv_store s) = db" "handleIncomingHandshakePacket H ownerAccountId bytes (S, s) = (r, s')"
  shows "\<exists>t. s' = (S, s\<lparr>sv_store := (db, t)\<rparr>)"
proof -
  let ?peer = "ae_deriveAccountId (hs_acct H) accountKey"
  have R: "replayed (\<lambda>w. fst w = db) H owner i ?peer"
    by unfold_locales (use assms(6,7) browser_only_reads [OF assms(1)] in auto)
  have "p = ?peer" if "sender_proved H handshakeData sig p" for p
    using that assms(5) by (auto simp: sender_proved_def Let_def)
  with replayed.handler_known [OF R assms(8,2,3)] assms(4)
  have "runs (handleIncomingHandshakePacket H ownerAccountId bytes) (\<lambda>r t. \<exists>w. t = (S, s\<lparr>sv_store := w\<rparr>) \<and> fst w = db) (S, s)" by auto
  with assms(9) show ?thesis unfolding runs_def by fastforce
qed

section \<open>A concrete service\<close>

text \<open>A packet in which \<open>bob\<close> answers the invite \<open>i1\<close> of \<open>alice\<close>, and a service that decodes every packet to it.\<close>

definition demo_handshake :: jsval where
  "demo_handshake = JObj [(''inviteId'', JStr ''i1''), (''senderIdentitySigningPubKeyB64'', JStr ''k''), (''ackNonce'', JStr ''n''),
     (''senderInboxId'', JStr ''box''), (''senderAccountBinding'', JObj [(''x3dhIdentityPublicKeyB64'', JStr ''k''),
        (''accountIdentityPublicKeyB64'', JStr ''B''), (''accountBindingSigB64'', JStr ''s''), (''expiresAtMs'', JInt 9000), (''issuedAtMs'', JInt 1)])]"

definition demo_packet :: jsval where
  "demo_packet = JObj [(''e2ee'', JInt 1), (''type'', JStr ''x3dh.handshake.v2''), (''signatureB64'', JStr ''good''), (''handshake'', demo_handshake)]"

definition demo_responder :: "(idb \<times> int, nat) hs_env" where
  "demo_responder = demo_hs\<lparr>hs_acct := (hs_acct demo_hs)\<lparr>ae_seal := demo_seal\<lparr>sl_parseText := (\<lambda>b. Inr demo_packet)\<rparr>,
     ae_deriveAccountId := (\<lambda>k. ''bob'')\<rparr>\<rparr>"

definition demo_svc :: "idb \<Rightarrow> (idb \<times> int) svc" where
  "demo_svc db = \<lparr>sv_store = (db, 1), decryptFailureCounts = [], anyPeerMissCounts = [], anyPeerLastSuccessAt = []\<rparr>"

text \<open>A database with the link to \<open>bob\<close> established and \<open>bob\<close> on the record of the invite.\<close>

definition demo_live_db :: idb where
  "demo_live_db = fst (snd (saveInviteRecord demo_hs (spread demo_ledger_invite [(''acceptedAcceptors'', JArr [JStr ''bob''])])
     (snd (peerLinks_create (hsto demo_hs) (JObj [(''peerLinkId'', JStr ''l1''), (''localAccountId'', JStr ''alice''),
       (''peerAccountId'', JStr ''bob''), (''state'', JStr ''session_established'')]) ([], 1)))))"

lemma demo_in_browser: "in_browser demo_responder (\<lambda>_ _. True) (Some ''alice'')" "in_browser demo_hs (\<lambda>_ _. True) (Some ''alice'')"
  by (auto simp: in_browser_def demo_responder_def demo_hs_def sample_env_def demo_seal_def tick_def leaves_def)

theorem handshake_answers_need_proof_witness:
  "\<exists>r t r' t'. handleIncomingHandshakeAck demo_hs (JStr ''alice'') (Some [1]) (demo_device_svc, demo_svc []) = (r, t)
     \<and> handleHandshakeReject demo_hs (JStr ''alice'') (Some [1]) (demo_device_svc, demo_svc []) = (r', t')
     \<and> (untouched (\<lambda>w. fst w = []) (demo_device_svc, demo_svc []) r t \<or> ack_proved demo_hs (JStr ''alice'') (Some [1]))
     \<and> (untouched (\<lambda>w. fst w = []) (demo_device_svc, demo_svc []) r' t' \<or> reject_proved demo_hs (JStr ''alice'') (Some [1]))"
proof -
  obtain r t where ack: "handleIncomingHandshakeAck demo_hs (JStr ''alice'') (Some [1]) (demo_device_svc, demo_svc []) = (r, t)"
    by (cases "handleIncomingHandshakeAck demo_hs (JStr ''alice'') (Some [1]) (demo_device_svc, demo_svc [])")
  obtain r' t' where reject: "handleHandshakeReject demo_hs (JStr ''alice'') (Some [1]) (demo_device_svc, demo_svc []) = (r', t')"
    by (cases "handleHandshakeReject demo_hs (JStr ''alice'') (Some [1]) (demo_device_svc, demo_svc [])")
  have "fst (sv_store (demo_svc [])) = []" by (simp add: demo_svc_def)
  from handshake_answers_need_proof [OF browser_only_reads [OF demo_in_browser(2)] this ack reject] ack reject
  show ?thesis by blast
qed

theorem responder_acts_only_on_proof_witness:
  "\<exists>r t. handleIncomingHandshakePacket demo_hs (JStr ''alice'') (Some [1]) (demo_device_svc, demo_svc []) = (r, t)
     \<and> (ignored (\<lambda>w. fst w = []) (demo_device_svc, demo_svc []) r t \<or> handshake_proved demo_hs (Some [1]))"
proof -
  obtain r t where run: "handleIncomingHandshakePacket demo_hs (JStr ''alice'') (Some [1]) (demo_device_svc, demo_svc []) = (r, t)"
    by (cases "handleIncomingHandshakePacket demo_hs (JStr ''alice'') (Some [1]) (demo_device_svc, demo_svc [])")
  have "fst (sv_store (demo_svc [])) = []" by (simp add: demo_svc_def)
  from responder_acts_only_on_proof [OF browser_only_reads [OF demo_in_browser(2)] this run] run show ?thesis by blast
qed

lemma demo_handshake_runs:
  "handshakeOf demo_responder (Some [1]) = Inr (Some (demo_handshake, ''good''))"
  "hid demo_responder (JStr ''alice'') ''ownerAccountId'' = Inr ''alice''"
  "hid demo_responder (getp demo_handshake ''inviteId'') ''inviteId'' = Inr ''i1''"
  "ae_deriveAccountId (hs_acct demo_responder) key = ''bob''"
  by code_simp+

lemma demo_handshake_key:
  "b64 (hs_acct demo_responder) (hne demo_responder (getp (getp demo_handshake ''senderAccountBinding'') ''accountIdentityPublicKeyB64'')) = Inr [66]"
  by code_simp

lemma demo_ledger_read:
  "kv_get (hs_kv demo_responder) (invite_key ''alice'' ''i1'') (demo_live_db, t)
     = (Inr (idb_view (owner_part (Some ''alice'')) demo_live_db (invite_key ''alice'' ''i1'')), (demo_live_db, t))"
proof -
  have "idb_inv demo_live_db" by code_simp
  then show ?thesis
    using aside.get_law [of "(demo_live_db, t)" "js_trim ''alice''"] by (simp add: demo_responder_def demo_hs_def getKeyValueStore_def)
qed

lemma demo_live:
  "on_ledger demo_responder ''alice'' ''i1'' ''bob'' (demo_live_db, t)" "established_with demo_responder ''alice'' ''bob'' (demo_live_db, t)"
proof -
  have "inviteComplete demo_responder (idb_view (owner_part (Some ''alice'')) demo_live_db (invite_key ''alice'' ''i1''))
    \<and> JStr ''bob'' \<in> set (acceptorsIn (getp (idb_view (owner_part (Some ''alice'')) demo_live_db (invite_key ''alice'' ''i1'')) ''acceptedAcceptors''))"
    "inviteKey demo_responder (JStr ''alice'') (JStr ''i1'') = Inr (invite_key ''alice'' ''i1'')"
    by code_simp+
  then show "on_ledger demo_responder ''alice'' ''i1'' ''bob'' (demo_live_db, t)"
    unfolding on_ledger_def using demo_ledger_read by blast
  have "case fst (peerLinks_getByPair (hsto demo_responder) (JStr ''alice'') (JStr ''bob'') (demo_live_db, t)) of
      Inl e \<Rightarrow> False | Inr link \<Rightarrow> js_truthy link \<and> getp link ''state'' = JStr ''session_established''" by code_simp
  then show "established_with demo_responder ''alice'' ''bob'' (demo_live_db, t)"
    unfolding established_with_def by (cases "peerLinks_getByPair (hsto demo_responder) (JStr ''alice'') (JStr ''bob'') (demo_live_db, t)")
      (auto split: sum.splits)
qed

interpretation demo_replay: replayed "\<lambda>w. fst w = demo_live_db" demo_responder "''alice''" "''i1''" "''bob''"
  by unfold_locales (use browser_only_reads [OF demo_in_browser(1)] demo_live in auto)

theorem replayed_handshake_keeps_session_witness:
  "\<exists>t. snd (handleIncomingHandshakePacket demo_responder (JStr ''alice'') (Some [1]) (demo_device_svc, demo_svc demo_live_db))
     = (demo_device_svc, (demo_svc demo_live_db)\<lparr>sv_store := (demo_live_db, t)\<rparr>)"
proof -
  obtain r s' where run: "handleIncomingHandshakePacket demo_responder (JStr ''alice'') (Some [1]) (demo_device_svc, demo_svc demo_live_db) = (r, s')"
    by (cases "handleIncomingHandshakePacket demo_responder (JStr ''alice'') (Some [1]) (demo_device_svc, demo_svc demo_live_db)")
  have "\<exists>t. s' = (demo_device_svc, (demo_svc demo_live_db)\<lparr>sv_store := (demo_live_db, t)\<rparr>)"
    by (rule replayed_handshake_keeps_session [OF demo_in_browser(1) demo_handshake_runs(1-3) demo_handshake_key _ _ _ run])
      (simp_all add: demo_handshake_runs(4) demo_live demo_svc_def)
  with run show ?thesis by simp
qed

end
