(* ===== verification/Invites_Props.thy ===== *)
theory Invites_Props
  imports Invites PeerLink_Handshake_Props "HOL-Library.Multiset"
begin

text \<open>
  An invite is verified completely before anything is written, and what its signature covers does not
  depend on the order in which an object lists its properties.
\<close>

section \<open>The canonical payload\<close>

text \<open>Two values that differ in the order of properties only, at any depth; property names are unique.\<close>

inductive same_data :: "jsval \<Rightarrow> jsval \<Rightarrow> bool" where
  same: "same_data v v"
| elements: "list_all2 same_data xs ys \<Longrightarrow> same_data (JArr xs) (JArr ys)"
| members: "map fst ps = map fst qs \<Longrightarrow> list_all2 same_data (map snd ps) (map snd qs) \<Longrightarrow> same_data (JObj ps) (JObj qs)"
| reorder: "distinct (map fst ps) \<Longrightarrow> mset ps = mset qs \<Longrightarrow> same_data (JObj ps) (JObj qs)"
| chain: "same_data a b \<Longrightarrow> same_data b c \<Longrightarrow> same_data a c"

lemma sort_key_unique:
  fixes xs ys :: "(string \<times> 'a) list"
  assumes "mset xs = mset ys" "distinct (map fst xs)"
  shows "sort_key fst xs = sort_key fst ys"
  by (rule sort_key_inj_key_eq) (use assms in \<open>auto simp: distinct_map\<close>)

lemma stableNormalize_same: "same_data a b \<Longrightarrow> stableNormalize a = stableNormalize b"
proof (induction rule: same_data.induct)
  case (elements xs ys)
  then show ?case by (auto simp: list_all2_conv_all_nth intro: nth_equalityI)
next
  case (members ps qs)
  then have "map (stableNormalize \<circ> snd) ps = map (stableNormalize \<circ> snd) qs"
    by (auto simp: list_all2_conv_all_nth intro: nth_equalityI)
  with members have "zip (map fst ps) (map (stableNormalize \<circ> snd) ps) = zip (map fst qs) (map (stableNormalize \<circ> snd) qs)" by simp
  then show ?case by (simp add: zip_map_map zip_same_conv_map case_prod_unfold comp_def)
next
  case (reorder ps qs)
  have "mset (map (\<lambda>(k, v). (k, stableNormalize v)) ps) = mset (map (\<lambda>(k, v). (k, stableNormalize v)) qs)"
    using reorder(2) by simp
  moreover have "distinct (map fst (map (\<lambda>(k, v). (k, stableNormalize v)) ps))"
    using reorder(1) by (simp add: comp_def case_prod_unfold)
  ultimately show ?case by (simp only: stableNormalize.simps sort_key_unique)
qed auto

text \<open>C21. What an invite signs does not depend on the order of properties: two envelopes with the same data,
  their objects' properties listed in any order at any depth, have the same canonical bytes.\<close>
theorem canonical_payload_ignores_order: "same_data a b \<Longrightarrow> canonicalPayloadBytesV1 a = canonicalPayloadBytesV1 b"
  by (simp add: canonicalPayloadBytesV1_def stableNormalize_same)

theorem canonical_payload_ignores_order_witness:
  "canonicalPayloadBytesV1 (JObj [(''b'', JNull), (''a'', JObj [(''y'', JInt 1), (''x'', JInt 2)])])
     = canonicalPayloadBytesV1 (JObj [(''a'', JObj [(''x'', JInt 2), (''y'', JInt 1)]), (''b'', JNull)])"
proof (rule canonical_payload_ignores_order, rule same_data.chain)
  show "same_data (JObj [(''b'', JNull), (''a'', JObj [(''y'', JInt 1), (''x'', JInt 2)])])
      (JObj [(''a'', JObj [(''y'', JInt 1), (''x'', JInt 2)]), (''b'', JNull)])"
    by (rule same_data.reorder) simp_all
  show "same_data (JObj [(''a'', JObj [(''y'', JInt 1), (''x'', JInt 2)]), (''b'', JNull)])
      (JObj [(''a'', JObj [(''x'', JInt 2), (''y'', JInt 1)]), (''b'', JNull)])"
    by (rule same_data.members) (auto intro: same_data.intros)
qed

section \<open>Verification before the first write\<close>

text \<open>Who signed an envelope: the authority that was resolved for the inviter, or a device whose chain grants
  it to invite for the account that the anchor of the binding derives.\<close>

definition delegated_signed :: "('w, 'm) hs_env \<Rightarrow> jsval \<Rightarrow> string \<Rightarrow> octets \<Rightarrow> octets \<Rightarrow> jsval \<Rightarrow> int \<Rightarrow> bool" where
  "delegated_signed H envelope inviter payload sig certs nowMs \<longleftrightarrow> (\<exists>signer anchor anchorKey signerKey verdict v v' x x'.
     signer = hne H (getp (getp envelope ''signerRef'') ''signerPublicKeyB64'')
     \<and> anchor = hne H (x3dhField envelope ''accountIdentityPublicKeyB64'')
     \<and> b64 (hs_acct H) anchor = Inr anchorKey \<and> ae_deriveAccountId (hs_acct H) anchorKey = inviter
     \<and> b64 (hs_acct H) signer = Inr signerKey \<and> sl_verify (ae_seal (hs_acct H)) signerKey payload sig v = (Inr True, v')
     \<and> ae_verifyAccountAuthority (hs_acct H) (js_String anchor) PEERLINK_INVITE_REQUIRED_CAPABILITY (js_String signer) certs nowMs x
         = (Inr verdict, x') \<and> dc_ok verdict)"

lemma returns_catch_False:
  "returns m (\<lambda>b _. b \<longrightarrow> X) s \<Longrightarrow> returns (catchE m (\<lambda>_. retE False)) (\<lambda>b _. b \<longrightarrow> X) s"
  by (auto simp: returns_def catchE_def split: prod.splits sum.splits)

lemma returns_delegated:
  "returns (delegatedVerified H envelope inviter payload sig certs nowMs) (\<lambda>b _. b \<longrightarrow> delegated_signed H envelope inviter payload sig certs nowMs) w"
proof -
  let ?signer = "hne H (getp (getp envelope ''signerRef'') ''signerPublicKeyB64'')"
  have verify: "returns (catchE (bindE (liftE (b64 (hs_acct H) signer)) (\<lambda>key. sl_verify (ae_seal (hs_acct H)) key payload sig)) (\<lambda>_. retE False))
      (\<lambda>b _. b \<longrightarrow> (\<exists>key v v'. b64 (hs_acct H) signer = Inr key \<and> sl_verify (ae_seal (hs_acct H)) key payload sig v = (Inr True, v'))) w" for signer w
    by (intro returns_catch_False returns_bind returns_lift returns_call [where m = "sl_verify E k p g" for E k p g]) (metis (full_types))
  show ?thesis
    unfolding delegatedVerified_def Let_def delegated_signed_def
    by (intro returns_if returns_ret returns_bind returns_conseq [OF verify]
        returns_call [where m = "ae_verifyAccountAuthority A a c p ch n" for A a c p ch n])
      (auto split: sum.splits if_splits)
qed

definition envelope_signed :: "('w, 'm) hs_env \<Rightarrow> jsval \<Rightarrow> string \<Rightarrow> octets \<Rightarrow> octets \<Rightarrow> int \<Rightarrow> bool" where
  "envelope_signed H envelope inviter payload sig nowMs \<longleftrightarrow>
     (case chainOrNull (getp envelope ''certChain'') of
        JArr cs \<Rightarrow> delegated_signed H envelope inviter payload sig (JArr cs) nowMs
      | _ \<Rightarrow> \<exists>au u u' v v'. resolveAuthority H inviter u = (Inr au, u') \<and> au_verify au (getp envelope ''signerRef'') payload sig v = (Inr True, v'))"

lemma returns_envelope:
  "returns (envelopeVerified H envelope inviter payload sig nowMs) (\<lambda>b _. b \<longrightarrow> envelope_signed H envelope inviter payload sig nowMs) w"
proof -
  have direct: "returns (bindE (resolveAuthority H inviter) (\<lambda>au. au_verify au (getp envelope ''signerRef'') payload sig))
      (\<lambda>b _. b \<longrightarrow> (\<exists>au u u' v v'. resolveAuthority H inviter u = (Inr au, u') \<and> au_verify au (getp envelope ''signerRef'') payload sig v = (Inr True, v'))) w"
    by (intro returns_bind returns_call) (metis (full_types))
  show ?thesis
    unfolding envelopeVerified_def envelope_signed_def
    by (cases "chainOrNull (getp envelope ''certChain'')") (simp_all only: jsval.case returns_delegated direct)
qed

text \<open>An invite that may be accepted by a call made in the world \<open>w\<close>: signed, with a binding accepted for its
  inviter, and not over at the time that the clock answers in that world.\<close>

definition invite_proved :: "('w, 'm) hs_env \<Rightarrow> 'w \<Rightarrow> jsval \<Rightarrow> jsval \<Rightarrow> bool" where
  "invite_proved H w envelope signatureB64 \<longleftrightarrow> (\<exists>inviter account sig nowMs w'.
     clock (hs_e2ee H) w = (Inr nowMs, w')
     \<and> hid H (getp envelope ''creatorAccountId'') ''creatorAccountId'' = Inr inviter \<and> b64 (hs_acct H) signatureB64 = Inr sig
     \<and> envelope_signed H envelope inviter (canonicalPayloadBytesV1 envelope) sig nowMs
     \<and> nowMs < asPositiveInt (getp envelope ''expiresAtMs'') nowMs
     \<and> hid H (JStr inviter) ''ownerAccountId'' = Inr account
     \<and> accepted_binding (hs_acct H) account (getp (getp envelope ''binding'') ''x3dh'') (chainOrNull (getp envelope ''certChain'')))"

lemma returns_checked:
  "returns (checkedInvite H envelope signatureB64) (\<lambda>x _. invite_proved H w envelope signatureB64) w"
  unfolding checkedInvite_def invite_proved_def
  by (intro returns_bind returns_lift returns_require returns_ret returns_call [where m = "clock E" for E]
      returns_conseq [OF returns_envelope] returns_conseq [OF returns_verifyBinding]) (fastforce simp: not_le)

definition authority_reads :: "('w \<Rightarrow> bool) \<Rightarrow> ('w, 'm) hs_env \<Rightarrow> bool" where
  "authority_reads P H \<longleftrightarrow> (\<forall>a. leaves P (resolveAuthority H a))
     \<and> (\<forall>a au w w'. resolveAuthority H a w = (Inr au, w') \<longrightarrow> (\<forall>r b g. leaves P (au_verify au r b g)))"

lemma leaves_bind_dep:
  "leaves P m \<Longrightarrow> (\<And>x s s'. m s = (Inr x, s') \<Longrightarrow> leaves P (f x)) \<Longrightarrow> leaves P (bindE m f)"
  by (fastforce simp: leaves_def bindE_def split: prod.splits sum.splits)

lemma leaves_envelope:
  assumes "only_reads P H" "authority_reads P H"
  shows "leaves P (envelopeVerified H envelope inviter payload sig nowMs)"
proof -
  have "leaves P (bindE (resolveAuthority H inviter) (\<lambda>au. au_verify au (getp envelope ''signerRef'') payload sig))"
    using assms(2) unfolding authority_reads_def by (blast intro: leaves_bind_dep)
  moreover have "leaves P (delegatedVerified H envelope inviter payload sig cs nowMs)" for cs
    unfolding delegatedVerified_def Let_def by (intro leave_rules only_readsD [OF assms(1)])
  ultimately show ?thesis unfolding envelopeVerified_def by (auto split: jsval.split)
qed

lemma leaves_checked:
  assumes "only_reads P H" "authority_reads P H"
  shows "leaves P (checkedInvite H envelope signatureB64)"
  unfolding checkedInvite_def by (intro leave_rules only_readsD [OF assms(1)] leaves_envelope assms leaves_verifyBinding)

text \<open>C4. An invite is verified before anything is written: unless its envelope was signed by the authority
  resolved for the inviter, or by a device whose certificate chain grants inviting for the account
  that the binding's key derives, the signature covering the canonical bytes of the whole envelope,
  and the invite ends after the time the clock answered in this very call, and its X3DH binding was
  accepted for the inviter, \<open>acceptInvite\<close> throws and nothing but reads took place. So a forged recovery invite cannot tear down a live session.\<close>
theorem accept_verifies_before_writing:
  assumes "only_reads P H" "authority_reads P H" "P (sv_store s)" "acceptInvite H a (S, s) = (r, t)"
  shows "(\<exists>w e. t = (S, s\<lparr>sv_store := w\<rparr>) \<and> P w \<and> r = Inl e) \<or> invite_proved H (sv_store s) (ac_envelope a) (ac_signatureB64 a)"
proof -
  let ?Q = "\<lambda>r t. (\<exists>w e. t = (S, s\<lparr>sv_store := w\<rparr>) \<and> P w \<and> r = Inl e) \<or> invite_proved H (sv_store s) (ac_envelope a) (ac_signatureB64 a)"
  have checked: "runs (bindE (onWorld (checkedInvite H (ac_envelope a) (ac_signatureB64 a))) f) ?Q (S, s)" for f :: "_ \<Rightarrow> ('a, jsval \<times> jsval) hs_io"
    by (rule runs_bind, rule runs_onWorld [OF runs_leaves_returns [OF leaves_checked [OF assms(1,2)] assms(3) returns_checked]])
      (auto simp: runs_def split: sum.split)
  have "runs (acceptInvite H a) ?Q (S, s)"
    unfolding acceptInvite_def
    by (rule runs_lift, rule checked) (use assms(3) in \<open>auto intro!: exI [of _ "sv_store s"]\<close>)
  with assms(4) show ?thesis unfolding runs_def by blast
qed

section \<open>Issued invites\<close>

text \<open>An envelope of an account, and the signature on its canonical bytes: by the authority of the account,
  or, for a delegated inviter, by its device key under a chain that anchors to the account.\<close>

definition signed_by_inviter :: "('w, 'm) hs_env \<Rightarrow> acct_svc \<Rightarrow> string \<Rightarrow> jsval \<Rightarrow> octets \<Rightarrow> bool" where
  "signed_by_inviter H S owner envelope sig \<longleftrightarrow> getp envelope ''creatorAccountId'' = JStr owner \<and>
     (if as_hasAdminRoot S
      then \<exists>au u u' v v'. resolveAuthority H owner u = (Inr au, u') \<and> getp envelope ''signerRef'' = au_signerRef au
        \<and> au_sign au (canonicalPayloadBytesV1 envelope) v = (Inr sig, v')
      else delegatedAnchor H S owner = Inr () \<and> getp (getp envelope ''signerRef'') ''signerPublicKeyB64'' = as_devicePublicKeyB64 S
        \<and> getp (getp envelope ''signerRef'') ''accountId'' = JStr owner
        \<and> (\<exists>v v'. deviceSign H S (canonicalPayloadBytesV1 envelope) v = (Inr sig, v')))"

text \<open>The record of an issued invite: the signed envelope, its hash, its bounds, and nobody let in yet.\<close>

definition issued_as :: "('w, 'm) hs_env \<Rightarrow> acct_svc \<Rightarrow> string \<Rightarrow> issued \<Rightarrow> jsval \<Rightarrow> bool" where
  "issued_as H S owner x rcd \<longleftrightarrow> (\<exists>envelope sig. signed_by_inviter H S owner envelope sig
     \<and> getp rcd ''envelope'' = envelope \<and> getp rcd ''signatureB64'' = toB64 (hs_acct H) sig
     \<and> getp rcd ''tokenHash'' = JStr (hs_sha256Bytes H (canonicalPayloadBytesV1 envelope))
     \<and> getp rcd ''ownerAccountId'' = JStr owner \<and> getp rcd ''inviteId'' = JStr (is_inviteId x) \<and> getp envelope ''inviteId'' = JStr (is_inviteId x)
     \<and> getp rcd ''maxUses'' = JInt (is_maxUses x) \<and> getp envelope ''maxUses'' = JInt (is_maxUses x)
     \<and> getp rcd ''expiresAtMs'' = JInt (is_expiresAtMs x) \<and> getp envelope ''expiresAtMs'' = JInt (is_expiresAtMs x)
     \<and> getp rcd ''acceptedAcceptors'' = JArr [])"

lemma envelope_fields:
  "getp (inviteEnvelope H S a owner inviteId nowMs expires binding postCap delegated signerRef) ''creatorAccountId'' = JStr owner"
  "getp (inviteEnvelope H S a owner inviteId nowMs expires binding postCap delegated signerRef) ''inviteId'' = JStr inviteId"
  "getp (inviteEnvelope H S a owner inviteId nowMs expires binding postCap delegated signerRef) ''maxUses'' = JInt (asPositiveInt (iv_maxUses a) 1)"
  "getp (inviteEnvelope H S a owner inviteId nowMs expires binding postCap delegated signerRef) ''expiresAtMs'' = JInt expires"
  "getp (inviteEnvelope H S a owner inviteId nowMs expires binding postCap delegated signerRef) ''signerRef'' = signerRef"
  by (simp_all add: inviteEnvelope_def Let_def)

text \<open>Who signs was settled at the start.\<close>

definition signs_for :: "('w, 'm) hs_env \<Rightarrow> acct_svc \<Rightarrow> string \<Rightarrow> 'w authority option \<Rightarrow> bool" where
  "signs_for H S owner authority \<longleftrightarrow> (case authority of
      None \<Rightarrow> \<not> as_hasAdminRoot S \<and> delegatedAnchor H S owner = Inr ()
    | Some au \<Rightarrow> as_hasAdminRoot S \<and> (\<exists>u u'. resolveAuthority H owner u = (Inr au, u')))"

lemma returns_authority:
  "returns (if \<not> as_hasAdminRoot S then bindE (liftE (delegatedAnchor H S owner)) (\<lambda>_. retE None)
     else bindE (ext (resolveAuthority H owner)) (\<lambda>au. retE (Some au))) (\<lambda>authority _. signs_for H S owner authority) s"
  by (cases s) (auto simp: signs_for_def intro!: returns_steps returns_ext, blast)

lemma returns_signature:
  assumes "signs_for H S owner authority" "getp envelope ''creatorAccountId'' = JStr owner"
    and "getp envelope ''signerRef'' = (case authority of None \<Rightarrow> JObj [(''accountId'', JStr owner), (''keyId'', k), (''alg'', g),
        (''signerPublicKeyB64'', as_devicePublicKeyB64 S)] | Some au \<Rightarrow> au_signerRef au)"
  shows "returns (case authority of None \<Rightarrow> ext (deviceSign H S (canonicalPayloadBytesV1 envelope)) | Some au \<Rightarrow> ext (au_sign au (canonicalPayloadBytesV1 envelope)))
     (\<lambda>sig _. signed_by_inviter H S owner envelope sig) s"
proof (cases s)
  case (Pair T w)
  show ?thesis unfolding Pair
    by (rule returns_option) (use assms in \<open>auto simp: signs_for_def signed_by_inviter_def intro!: returns_ext\<close>)
qed

lemma returns_world: "(\<And>x T u v. m u = (Inr x, v) \<Longrightarrow> Q x (T, v)) \<Longrightarrow> returns (ext m) Q s"
  by (cases s) (auto intro: returns_ext)

lemma returns_createInvite:
  "returns (createInvite H ownerAccountId a) (\<lambda>x _. \<exists>owner rcd y u u'. hid H ownerAccountId ''ownerAccountId'' = Inr owner
     \<and> saveInviteRecord H rcd u = (Inr y, u') \<and> issued_as H S owner x rcd) (S, w)"
  unfolding createInvite_def Let_def
  by (rule returns_bind, rule returns_gets, rule returns_bind, rule returns_lift, rule returns_bind, rule returns_any,
      rule returns_bind, rule returns_conseq [OF returns_authority], rule returns_bind, rule returns_any, rule returns_bind, rule returns_any,
      rule returns_bind, rule returns_any, rule returns_bind, rule returns_any, rule returns_bind, rule returns_any, rule returns_pair,
      rule returns_bind, rule returns_any, rule returns_bind, rule returns_conseq, rule returns_signature, assumption,
      rule envelope_fields(1), rule envelope_fields(5), rule returns_bind, rule returns_world, rule returns_bind, rule returns_any,
      rule returns_bind, rule returns_any, rule returns_ret, intro exI conjI, assumption, assumption)
    (auto simp: issued_as_def envelope_fields)


section \<open>Concrete runs\<close>

definition demo_accept :: "(idb \<times> int, nat) accept_args" where
  "demo_accept = \<lparr>ac_envelope = JObj [(''creatorAccountId'', JStr ''bob'')], ac_signatureB64 = JStr ''sig'', ac_acceptorAccountId = JStr ''alice'',
     ac_acceptorDisplayName = JNull, ac_sendHandshake = None, ac_senderInboxId = JNull, ac_forceReestablish = True\<rparr>"

theorem accept_verifies_before_writing_witness:
  "\<exists>r t. acceptInvite demo_hs demo_accept (demo_device_svc, demo_svc demo_live_db) = (r, t)
     \<and> ((\<exists>w e. t = (demo_device_svc, (demo_svc demo_live_db)\<lparr>sv_store := w\<rparr>) \<and> fst w = demo_live_db \<and> r = Inl e)
        \<or> invite_proved demo_hs (sv_store (demo_svc demo_live_db)) (ac_envelope demo_accept) (ac_signatureB64 demo_accept))"
proof -
  obtain r t where run: "acceptInvite demo_hs demo_accept (demo_device_svc, demo_svc demo_live_db) = (r, t)"
    by (cases "acceptInvite demo_hs demo_accept (demo_device_svc, demo_svc demo_live_db)")
  have reads: "authority_reads (\<lambda>w. fst w = demo_live_db) demo_hs"
    by (auto simp: authority_reads_def resolveAuthority_def demo_hs_def leaves_def)
  have "fst (sv_store (demo_svc demo_live_db)) = demo_live_db" by (simp add: demo_svc_def)
  from accept_verifies_before_writing [OF browser_only_reads [OF demo_in_browser(2)] reads this run] run show ?thesis by blast
qed

text \<open>A service over a store that answers every read with the keys of the account, and takes every write.\<close>

definition demo_account :: jsval where
  "demo_account = JObj
     [(''x3dhKeyMaterial'', JObj [(''publicKeyB64'', JStr ''sp''), (''privateKeyB64'', JStr ''sq'')]),
      (''x3dhIdentityDhKeyMaterial'', JObj [(''publicKeyB64'', JStr ''dp''), (''privateKeyB64'', JStr ''dq'')]),
      (''identityDhSignatureB64'', JStr ''ds''),
      (''accountBinding'', JObj [(''accountId'', JStr ''alice''), (''x3dhIdentityPublicKeyB64'', JStr ''sp''), (''expiresAtMs'', JInt 9000),
         (''issuedAtMs'', JInt 1), (''accountIdentityPublicKeyB64'', JStr ''A''), (''accountBindingSigB64'', JStr ''g'')])]"

definition demo_constant_store :: "unit kv_ops" where
  "demo_constant_store = \<lparr>kv_get = (\<lambda>k. retE demo_account), kv_set = (\<lambda>k v. retE ()), kv_delete = (\<lambda>k. retE True), kv_keys = (\<lambda>p. retE [])\<rparr>"

definition demo_issuer :: "(unit, nat) hs_env" where
  "demo_issuer = \<lparr>hs_acct = \<lparr>ae_e2ee = (sample_env (createKeyValueBackedPeerLinkStorage (\<lambda>_ _. True) demo_constant_store))
        \<lparr>nonEmpty := (\<lambda>v. case v of JStr s \<Rightarrow> if s = [] then JNull else JStr s | _ \<Rightarrow> JNull),
         requireId := (\<lambda>v label. case v of JStr s \<Rightarrow> Inr s | _ \<Rightarrow> Inl (plain_err label)), sha256Hex := (\<lambda>s. ''abc'')\<rparr>,
       ae_seal = demo_seal, ae_generateSigningKeyPair = retE None, ae_dhGenerateKeyPair = retE None,
       ae_deriveAccountId = (\<lambda>k. ''alice''), ae_deviceIdFor = (\<lambda>_. Inr ''d1''),
       ae_verifyAccountAuthority = (\<lambda>_ _ _ _ _. retE \<lparr>dc_ok = True, dc_reason = [], dc_signerPublicKeyB64 = []\<rparr>)\<rparr>,
     hs_kv = demo_constant_store, hs_dateNow = retE 5,
     hs_verifyEnvelope = (\<lambda>h sg. retE True), hs_signEnvelope = (\<lambda>h k. retE ''good''),
     hs_ackFromBytes = (\<lambda>b. Inr (JObj [])), hs_ackPayload = (\<lambda>a. a), hs_ackToBytes = (\<lambda>j. Inr [1]),
     hs_rejectFromBytes = (\<lambda>b. Inr (JObj [])), hs_rejectPayload = (\<lambda>a. a), hs_rejectToBytes = (\<lambda>j. Inr [2]),
     hs_handshakePacket = (\<lambda>h sg. Inr [3]), hs_prepareInviteBinding = (\<lambda>m a k d b e. retE (JObj [], JObj [])),
     hs_processAcceptedInvite = (\<lambda>m b p k d sg. retE (JObj [], Suc m)), hs_INVITE_KIND = ''invite'', hs_buildDurableV1 = Inr,
     hs_durableV1Bytes = (\<lambda>j. [6]), hs_buildDurableV2 = Inr, hs_durableV2Bytes = (\<lambda>j. [7]), hs_sha256Bytes = (\<lambda>b. ''h''),
     hs_getInviteAuthority = None,
     hs_ownAuthority = \<lparr>au_signerRef = JObj [], au_sign = (\<lambda>b. retE [5]), au_verify = (\<lambda>r b s. retE True)\<rparr>,
     hs_signPostBearerCap = None\<rparr>"

definition demo_issue_args :: invite_args where
  "demo_issue_args = \<lparr>iv_creatorDisplayName = JStr ''Alice'', iv_kind = JStr ''direct'', iv_groupId = JNull, iv_groupCreatedBy = JNull,
     iv_groupSalt = JNull, iv_title = JNull, iv_maxUses = JInt 2, iv_expiresAtMs = JNull, iv_peerInboxId = JStr ''box''\<rparr>"

lemma demo_issuer_fields:
  "clock (hs_e2ee demo_issuer) = retE 1000" "runtimeUuid (hs_e2ee demo_issuer) = retE ''u1''" "sha256Hex (hs_e2ee demo_issuer) s = ''abc''"
  "hid demo_issuer (JStr s) l = Inr s" "hne demo_issuer (JStr s) = (if s = [] then JNull else JStr s)" "newManager (hs_e2ee demo_issuer) = 0"
  "hs_kv demo_issuer = demo_constant_store" "hs_dateNow demo_issuer = retE 5"
  "hs_getInviteAuthority demo_issuer = None" "hs_ownAuthority demo_issuer = \<lparr>au_signerRef = JObj [], au_sign = (\<lambda>b. retE [5]), au_verify = (\<lambda>r b s. retE True)\<rparr>"
  "hs_prepareInviteBinding demo_issuer m a k d b e = retE (JObj [], JObj [])" "hs_signPostBearerCap demo_issuer = None"
  "hs_sha256Bytes demo_issuer x = ''h''" "hs_buildDurableV1 demo_issuer = Inr" "as_hasAdminRoot demo_device_svc"
  by (simp_all add: demo_issuer_def sample_env_def demo_device_svc_def demo_acct_svc_def)

text \<open>The keys of the issuer, as its store answers them, and the identity that they are bound to.\<close>

definition demo_issuer_record :: jsval where
  "demo_issuer_record = normalizeStoredAccountKeyRecord (hs_acct demo_issuer) demo_account"

lemma demo_issuer_stored:
  "keys_getAccountIdentity (sto (hs_acct demo_issuer)) (JStr ''alice'') () = (Inr demo_account, ())"
  "hasSigning demo_issuer_record" "storedHasDh demo_issuer_record" "\<not> persistMissing demo_account"
  by code_simp+

lemma demo_issuer_loads:
  "loadAccountKeyRecord (hs_acct demo_issuer) (JStr ''alice'') (demo_device_svc, ()) = (Inr demo_issuer_record, (demo_device_svc, ()))"
  using demo_issuer_stored(2-4)
  by (simp add: loadAccountKeyRecord_def adoptLegacy_def bindE_def ext_def getsE_def demo_issuer_stored(1) demo_device_svc_def
      demo_issuer_fields(4) dhMatches_def Let_def flip: demo_issuer_record_def)

lemma demo_issuer_binds:
  "case boundFrom (hs_acct demo_issuer) ''alice'' demo_issuer_record () of
     (Inr b, u) \<Rightarrow> js_truthy (bi_accountBinding b) \<and> js_eq (getp (bi_accountBinding b) ''accountIdentityPublicKeyB64'') (JStr ''A'')
   | _ \<Rightarrow> False"
  by code_simp

lemma demo_issuer_bound:
  obtains b where "requireBoundX3dhIdentity (hs_acct demo_issuer) (JStr ''alice'') (demo_device_svc, ()) = (Inr b, (demo_device_svc, ()))"
    "js_truthy (bi_accountBinding b)" "getp (bi_accountBinding b) ''accountIdentityPublicKeyB64'' = JStr ''A''"
proof -
  obtain b where b: "boundFrom (hs_acct demo_issuer) ''alice'' demo_issuer_record () = (Inr b, ())" "js_truthy (bi_accountBinding b)"
    "getp (bi_accountBinding b) ''accountIdentityPublicKeyB64'' = JStr ''A''"
    using demo_issuer_binds by (auto dest!: js_eq_D split: prod.splits sum.splits)
  moreover have "requireBoundX3dhIdentity (hs_acct demo_issuer) (JStr ''alice'') (demo_device_svc, ()) = (Inr b, (demo_device_svc, ()))"
    by (simp add: requireBoundX3dhIdentity_def primeAccountBindingChallenge_def bindE_def ext_def demo_issuer_loads demo_issuer_fields(4) b(1))
  ultimately show thesis using that by blast
qed

lemma demo_issuer_saves:
  assumes "i \<noteq> []"
  shows "\<exists>y. saveInviteRecord demo_issuer (JObj ([(''inviteId'', JStr i), (''ownerAccountId'', JStr ''alice''), (''tokenHash'', JStr ''h''),
    (''kind'', JStr ''direct'')] @ ps)) () = (Inr y, ())"
  using assms by (simp add: saveInviteRecord_def normalizeInviteRecord_def inviteComplete_def inviteRecordOf_def inviteKey_def inviteHashKey_def
      demo_issuer_fields demo_constant_store_def bindE_def)

lemma demo_issuer_prekey:
  "\<exists>y. keys_putInvitePreKey (hsto demo_issuer) (JStr ''alice'') (JStr ''plinv_abc'') (JObj []) () = (Inr y, ())"
proof -
  have "case fst (keys_putInvitePreKey (hsto demo_issuer) (JStr ''alice'') (JStr ''plinv_abc'') (JObj []) ()) of Inl e \<Rightarrow> False | Inr y \<Rightarrow> True"
    by code_simp
  then show ?thesis by (cases "keys_putInvitePreKey (hsto demo_issuer) (JStr ''alice'') (JStr ''plinv_abc'') (JObj []) ()") (auto split: sum.splits)
qed


text \<open>The back-link of \<open>acceptInvite\<close> reads the record of the invite and writes it again outside the lock of the
  invite: a handshake that is let in between is forgotten, and a second account is let in on an
  invite for one use.\<close>

lemma backlink_can_undo_a_claim:
  "case getInviteRecord demo_hs (JStr ''alice'') (JStr ''i1'') (demo_invite_db, 1) of
     (Inr stale, w1) \<Rightarrow>
       (case claimInvite demo_hs ''alice'' ''i1'' ''bob'' w1 of
          (Inr (Proceed e1 b1), w2) \<Rightarrow>
            (case saveInviteRecord demo_hs (spread stale [(''peerLinkId'', JStr ''l1''), (''updatedAtMs'', JInt 5)]) w2 of
               (r, w3) \<Rightarrow> fst (claimInvite demo_hs ''alice'' ''i1'' ''carol'' w3) = Inr (Proceed True False))
        | _ \<Rightarrow> False)
   | _ \<Rightarrow> False"
  by code_simp

end
