(* ===== verification/Account_Keys_Props.thy ===== *)
theory Account_Keys_Props
  imports PeerLink_Handshake_Props
begin

text \<open>
  The key material of an account in the browser storage: what a read and a write of a record do, and
  that loading the keys of an account never replaces an identity-DH key that is already established.
\<close>

section \<open>Key material in a key-value store\<close>

context kv_store
begin

lemma km_get_run: "inv w \<Longrightarrow> km_get K (Inr k) w = (Inr (view w k), w)"
  by (simp add: km_get_def bindE_def get_law clone_view)

lemma km_put_run:
  assumes "inv w" "json_clean v" "v \<noteq> JNull"
  obtains w' where "km_put K (Inr k) v w = (Inr v, w')" "inv w'" "view w' = (view w)(k := v)"
proof -
  have "v \<noteq> JUndef" "cloneJsonValue v = v" using assms(2) by (auto simp: cloneJsonValue_def json_clone_clean)
  then show thesis using set_run [OF assms, of k thesis] that
    by (auto simp: km_put_def bindE_def Let_def)
qed

text \<open>A write stores the JSON form of the material.\<close>

lemma km_put_object:
  assumes "inv w"
  obtains w' where "km_put K (Inr k) (JObj ps) w = (Inr (json_clone (JObj ps)), w')" "inv w'" "view w' = (view w)(k := json_clone (JObj ps))"
proof -
  have "json_clean (json_clone (JObj ps))" "json_clone (JObj ps) \<noteq> JNull" by (rule json_clean_clone, simp)
  from set_run [OF assms this, of k] obtain w' where
    "kv_set K k (json_clone (JObj ps)) w = (Inr (), w')" "inv w'" "view w' = (view w)(k := json_clone (JObj ps))" by blast
  then show thesis using that by (simp add: km_put_def cloneJsonValue_def bindE_def Let_def)
qed

end

section \<open>Established keys stay\<close>

text \<open>A record whose identity-DH pair is the given one.\<close>

definition holds_dh :: "string \<Rightarrow> string \<Rightarrow> jsval \<Rightarrow> bool" where
  "holds_dh pub priv stored \<longleftrightarrow> dhPub stored = JStr pub \<and> dhPriv stored = JStr priv"

lemma normalized_dh:
  assumes "holds_dh pub priv stored" "ne A (JStr pub) = JStr pub" "ne A (JStr priv) = JStr priv"
  shows "holds_dh pub priv (normalizeStoredAccountKeyRecord A stored)"
    "holds_dh pub priv (json_clone (normalizeStoredAccountKeyRecord A stored))"
proof -
  have "is_object (getp stored ''x3dhIdentityDhKeyMaterial'')"
    using assms(1) by (cases "getp stored ''x3dhIdentityDhKeyMaterial''") (auto simp: holds_dh_def)
  then show "holds_dh pub priv (normalizeStoredAccountKeyRecord A stored)"
    "holds_dh pub priv (json_clone (normalizeStoredAccountKeyRecord A stored))"
    using assms by (auto simp: holds_dh_def normalizeStoredAccountKeyRecord_def Let_def)
qed

lemma crypto_leaves:
  assumes "crypto_apart A"
  shows "leaves P (ae_dhGenerateKeyPair A)" "leaves P (sl_dhDerive (ae_seal A) a b)" "leaves P (sl_verify (ae_seal A) a b d)"
  using assms by (simp_all add: crypto_apart_def leaves_def)

lemma leaves_adopt:
  assumes "crypto_apart A"
  shows "leaves (\<lambda>s. P (snd s)) (adoptLegacy A owner rcd dh)"
  unfolding adoptLegacy_def validateLegacyForAdoption_def validateLegacyRecord_def probeKeyPair_def Let_def
  by (intro leave_rules crypto_leaves [OF assms])

text \<open>The slot of an account in the browser storage.\<close>

definition keeps_dh :: "string option \<Rightarrow> string \<Rightarrow> string \<Rightarrow> string \<Rightarrow> idb \<Rightarrow> bool" where
  "keeps_dh o1 k pub priv w \<longleftrightarrow> idb_inv w \<and> holds_dh pub priv (idb_view (owner_part o1) w k)"

lemma load_keeps_dh:
  assumes A: "sto A = getPeerLinkStorage c o1" "crypto_apart A"
    and owner: "requireId (ae_e2ee A) accountId ''accountId'' = Inr owner" "km_identityKey (JStr owner) = Inr k"
    and w: "keeps_dh o1 k pub priv w" and ne: "ne A (JStr pub) = JStr pub" "ne A (JStr priv) = JStr priv"
    and r: "r = normalizeStoredAccountKeyRecord A (idb_view (owner_part o1) w k)" "hasSigning r" "storedHasDh r"
  shows "runs (loadAccountKeyRecord A accountId) (\<lambda>_ t. keeps_dh o1 k pub priv (snd t)) (S, w)"
proof -
  let ?P = "\<lambda>s :: acct_svc \<times> idb. keeps_dh o1 k pub priv (snd s)" and ?v = "idb_view (owner_part o1) w k"
  note ops = storage_ops(4,5) [of c o1, folded A(1), unfolded getAccountIdentity_def [abs_def] putAccountIdentity_def [abs_def]]
  have dh: "holds_dh pub priv r" "holds_dh pub priv (json_clone r)"
    using normalized_dh [OF _ ne, of ?v] w unfolding r(1) keeps_dh_def by blast+
  have read: "ext (keys_getAccountIdentity (sto A) (JStr owner)) (S, w) = (Inr ?v, (S, w))"
    using w by (simp add: ops owner(2) ext_def keeps_dh_def idbh.nrm.km_get_run)
  have persist: "runs (bindE (if q then bindE (ext (keys_putAccountIdentity (sto A) (JStr owner) r)) (\<lambda>_. retE ()) else retE ())
      (\<lambda>_. retE r)) (\<lambda>_. ?P) t" if P: "?P t" for t q
  proof (cases q)
    case True
    obtain ps where ps: "r = JObj ps" using normalized_object [of A ?v] r(1) by blast
    obtain w' where "km_put (absenceNormalizingStore (idb_kv (owner_part o1))) (Inr k) r (snd t) = (Inr (json_clone r), w')" "idb_inv w'"
      "idb_view (owner_part o1) w' = (idb_view (owner_part o1) (snd t))(k := json_clone r)"
      using idbh.nrm.km_put_object [where w = "snd t" and k = k and ps = ps] P unfolding ps keeps_dh_def by blast
    then show ?thesis
      using dh(2) True by (cases t) (simp add: runs_def bindE_def ext_def ops owner(2) keeps_dh_def)
  qed (use P in \<open>auto simp: runs_def bindE_def\<close>)
  have matches: "dhMatches r (as_accountIdentityDhKeyPair T)" if "adopted A owner r S T" for T
    using that dh(1) by (auto simp: adopted_def dhMatches_def holds_dh_def split: if_splits)
  have rest: "runs (bindE (getsE as_accountIdentityDhKeyPair) (\<lambda>effectiveDh.
      if hasSigning r \<and> storedHasDh r \<and> dhMatches r effectiveDh
      then bindE (if q then bindE (ext (keys_putAccountIdentity (sto A) (JStr owner) r)) (\<lambda>_. retE ()) else retE ()) (\<lambda>_. retE r)
      else ext (mintAccountKeys A owner stored r dh))) (\<lambda>_. ?P) t"
    if "?P t" "adoptLegacy A owner r (as_accountIdentityDhKeyPair S) (S, w) = (Inr x, t)" for t x q dh stored
  proof -
    have "adopted A owner r S (fst t)" using returns_adoptLegacy [OF r(3), of A owner S w] that(2) by (simp add: returns_def)
    from matches [OF this] have "getsE as_accountIdentityDhKeyPair t = (Inr (as_accountIdentityDhKeyPair (fst t)), t)"
      "hasSigning r \<and> storedHasDh r \<and> dhMatches r (as_accountIdentityDhKeyPair (fst t))"
      using r(2,3) by (cases t; simp add: getsE_def)+
    then show ?thesis by (intro runs_step) (assumption, simp only: simp_thms if_True persist [OF that(1)])
  qed
  have gets: "getsE as_accountIdentityDhKeyPair (S, w) = (Inr (as_accountIdentityDhKeyPair S), (S, w))" by (simp add: getsE_def)
  show ?thesis
    unfolding loadAccountKeyRecord_def Let_def owner(1) liftE_Inr
  proof (rule runs_step, rule retE_run, rule runs_step, rule read, unfold r(1) [symmetric], rule runs_step, rule gets,
      rule runs_kept [OF leaves_adopt [OF A(2), where P = "keeps_dh o1 k pub priv"]])
    show "?P (S, w)" using w by simp
  qed (use rest in blast)+
qed

text \<open>C10. On the browser storage, loading the account keys never replaces an identity-DH key that is stored
  together with its signing key: whatever the load does and whether it returns or throws, the record
  of the account holds the same identity-DH pair afterwards. A load that returns gives exactly the
  stored record, and if the service was constructed with a different identity-DH key it has been
  configured to adopt the stored one and the stored one is proved to be the account's (bound by the
  account key, signed by the X3DH key, its two halves corresponding), and the service uses the stored
  key from then on.\<close>
theorem established_identity_dh_never_replaced:
  assumes "sto A = getPeerLinkStorage c o1" "crypto_apart A" "idb_inv w"
    and "requireId (ae_e2ee A) accountId ''accountId'' = Inr owner"
    and "keys_getAccountIdentity (sto A) (JStr owner) w = (Inr stored, w1)"
    and "dhPub stored = JStr pub" "dhPriv stored = JStr priv" "ne A (JStr pub) = JStr pub" "ne A (JStr priv) = JStr priv"
    and "r = normalizeStoredAccountKeyRecord A stored" "hasSigning r" "storedHasDh r"
    and "loadAccountKeyRecord A accountId (S, w) = (res, (S', w'))"
  shows "(\<exists>stored'. keys_getAccountIdentity (sto A) (JStr owner) w' = (Inr stored', w') \<and> dhPub stored' = JStr pub \<and> dhPriv stored' = JStr priv)
    \<and> (\<forall>rcd. res = Inr rcd \<longrightarrow> rcd = r \<and> adopted A owner r S S')"
proof -
  have get: "keys_getAccountIdentity (sto A) a = km_get (absenceNormalizingStore (idb_kv (owner_part o1))) (km_identityKey a)" for a
    by (simp add: assms(1) storage_ops(4) getAccountIdentity_def)
  obtain k where k: "km_identityKey (JStr owner) = Inr k"
    using assms(5) by (cases "km_identityKey (JStr owner)") (auto simp: get km_get_def bindE_def)
  have stored: "stored = idb_view (owner_part o1) w k"
    using assms(5) by (auto simp: get k idbh.nrm.km_get_run [OF assms(3)])
  have w: "keeps_dh o1 k pub priv w" using assms(3,6,7) by (simp add: keeps_dh_def holds_dh_def stored)
  have w': "keeps_dh o1 k pub priv w'"
    using load_keeps_dh [OF assms(1,2,4) k w assms(8,9) assms(10) [unfolded stored] assms(11,12), of S] assms(13) by (simp add: runs_def)
  then have "keys_getAccountIdentity (sto A) (JStr owner) w' = (Inr (idb_view (owner_part o1) w' k), w')"
    by (simp add: get k keeps_dh_def idbh.nrm.km_get_run)
  moreover have "rcd = r \<and> adopted A owner r S S'" if "res = Inr rcd" for rcd
  proof -
    have "dhPub r = JStr pub" "dhPriv r = JStr priv"
      using normalized_dh(1) [OF _ assms(8,9), of stored] assms(6,7) unfolding assms(10) holds_dh_def by blast+
    from load_returns_stored [OF assms(13) [unfolded that] assms(4,5,10-12) this] show ?thesis .
  qed
  ultimately show ?thesis using w' by (auto simp: keeps_dh_def holds_dh_def)
qed

theorem established_identity_dh_never_replaced_witness:
  "\<exists>rcd S' w'. loadAccountKeyRecord demo_acct (JStr ''alice'') (demo_acct_svc, demo_keys_db (JStr ''sq'')) = (Inr rcd, (S', w'))
     \<and> dhPub rcd = JStr ''dp'' \<and> as_accountIdentityDhKeyPair S' = Some (JStr ''dp'', JStr ''dq'')
     \<and> (\<exists>stored. keys_getAccountIdentity (sto demo_acct) (JStr ''alice'') w' = (Inr stored, w') \<and> dhPub stored = JStr ''dp'')"
proof -
  let ?r = "normalizeStoredAccountKeyRecord demo_acct (demo_keys (JStr ''sq''))"
  have "case fst (loadAccountKeyRecord demo_acct (JStr ''alice'') (demo_acct_svc, demo_keys_db (JStr ''sq''))) of
      Inl e \<Rightarrow> False | Inr x \<Rightarrow> True" by code_simp
  then obtain rcd S' w' where run:
    "loadAccountKeyRecord demo_acct (JStr ''alice'') (demo_acct_svc, demo_keys_db (JStr ''sq'')) = (Inr rcd, (S', w'))"
    by (metis prod.collapse sum.case_eq_if sum.collapse(2))
  have facts: "idb_inv (demo_keys_db (JStr ''sq''))" "requireId (ae_e2ee demo_acct) (JStr ''alice'') ''accountId'' = Inr ''alice''"
    "keys_getAccountIdentity (sto demo_acct) (JStr ''alice'') (demo_keys_db (JStr ''sq''))
       = (Inr (demo_keys (JStr ''sq'')), demo_keys_db (JStr ''sq''))"
    "dhPub (demo_keys (JStr ''sq'')) = JStr ''dp''" "dhPriv (demo_keys (JStr ''sq'')) = JStr ''dq''"
    "ne demo_acct (JStr ''dp'') = JStr ''dp''" "ne demo_acct (JStr ''dq'') = JStr ''dq''"
    "hasSigning ?r" "storedHasDh ?r" "\<not> dhMatches ?r (as_accountIdentityDhKeyPair demo_acct_svc)"
    "dhPub ?r = JStr ''dp''" "dhPriv ?r = JStr ''dq''"
    by code_simp+
  from established_identity_dh_never_replaced [OF demo_apart(1,2) facts(1-7) refl facts(8,9) run] facts(10-12) run
  show ?thesis by (auto simp: adopted_def)
qed

end
