(* ===== verification/Authority_Records_Props.thy ===== *)
theory Authority_Records_Props
  imports Authority_Records Invites_Props Account_Keys_Props
begin

text \<open>
  Properties of the published records: an authority state is opened only if it is the account's own and
  both of its signatures verified; only a service with the account's root key authors one, and it signs
  it as the account; the prekeys of the last publications stay answerable on the browser storage.
\<close>

section \<open>Opening an authority state\<close>

definition state_verified :: "('w, 'm) pub_env \<Rightarrow> jsval \<Rightarrow> jsval \<Rightarrow> authority_state \<Rightarrow> bool" where
  "state_verified E account rcd st \<longleftrightarrow>
     js_String (getp rcd ''recordKind'') = pe_STATE_KIND E \<and> JStr (js_String (getp rcd ''ownerPublicKeyB64'')) = account
     \<and> at_account st = account \<and> at_signer st = JStr (js_String (getp rcd ''signerPublicKeyB64''))
     \<and> (\<exists>verdict now u u'. sl_verifyDurable (pseal E) rcd now JUndef u = (Inr verdict, u') \<and> dc_ok verdict)
     \<and> (\<exists>key sig u u'. b64 (pa E) (at_signer st) = Inr key \<and> b64 (pa E) (at_sigB64 st) = Inr sig
          \<and> sl_verify (pseal E) key (pe_stateBytes E (at_json st)) sig u = (Inr True, u'))"

lemma returns_sum: "(\<And>y. x = Inl y \<Longrightarrow> returns (f y) Q s) \<Longrightarrow> (\<And>y. x = Inr y \<Longrightarrow> returns (g y) Q s)
    \<Longrightarrow> returns (case x of Inl y \<Rightarrow> f y | Inr y \<Rightarrow> g y) Q s"
  by (cases x) simp_all

lemma returns_array: "(\<And>xs. v = JArr xs \<Longrightarrow> returns (f xs) Q s) \<Longrightarrow> returns m Q s
    \<Longrightarrow> returns (case v of JArr xs \<Rightarrow> f xs | _ \<Rightarrow> m) Q s"
  by (cases v) simp_all

lemma returns_openAgainst:
  "returns (openAuthorityStateRecordAgainst E account rcd now)
    (\<lambda>(st, revoked, epoch) _. state_verified E account rcd st \<and> revoked = pe_revocationState E st \<and> epoch = at_epoch st) w"
  unfolding openAuthorityStateRecordAgainst_def
  by (intro returns_bind returns_require returns_sum returns_throw returns_lift returns_ret
      returns_call [where m = "sl_verifyDurable a b c d" for a b c d] returns_call [where m = "sl_verify a b c d" for a b c d])
    (fastforce simp: state_verified_def dest: js_eq_D)+

text \<open>C23. The revocations of a peer are taken only from a verified record: when
  \<open>openPeerAuthorityStateRecord\<close> returns, the record is an authority state owned by the account key on
  record for the peer, its envelope was verified, the state in it names that account and the envelope's
  signer, and the signature over the state verified under that key; the revocation state and the epoch
  are those of the verified state.\<close>
theorem opened_authority_state_is_verified:
  assumes "openPeerAuthorityStateRecord E ownerAccountId peerAccountId rcd nowMs s = (Inr (st, revoked, epoch), s')"
  shows "\<exists>owner peer ctx u u'. hid (pe_hs E) ownerAccountId ''ownerAccountId'' = Inr owner
    \<and> hid (pe_hs E) peerAccountId ''peerAccountId'' = Inr peer
    \<and> requirePeerDeviceSetContext (pa E) (JStr owner) (JStr peer) u = (Inr ctx, u')
    \<and> state_verified E (pc_peerAccountPublicKeyB64 ctx) rcd st \<and> revoked = pe_revocationState E st \<and> epoch = at_epoch st"
proof -
  have "returns (ext (openAuthorityStateRecordAgainst E account rcd now))
      (\<lambda>(st, revoked, epoch) _. state_verified E account rcd st \<and> revoked = pe_revocationState E st \<and> epoch = at_epoch st) t"
    for account now t
    by (cases t) (auto intro: returns_within [OF returns_openAgainst])
  note opened = returns_conseq [OF this]
  have "returns (openPeerAuthorityStateRecord E ownerAccountId peerAccountId rcd nowMs)
      (\<lambda>(st, revoked, epoch) _. \<exists>owner peer ctx u u'. hid (pe_hs E) ownerAccountId ''ownerAccountId'' = Inr owner
        \<and> hid (pe_hs E) peerAccountId ''peerAccountId'' = Inr peer
        \<and> requirePeerDeviceSetContext (pa E) (JStr owner) (JStr peer) u = (Inr ctx, u')
        \<and> state_verified E (pc_peerAccountPublicKeyB64 ctx) rcd st \<and> revoked = pe_revocationState E st \<and> epoch = at_epoch st) s"
    unfolding openPeerAuthorityStateRecord_def
    apply (rule returns_bind, rule returns_lift, rule returns_bind, rule returns_lift, rule returns_bind, rule returns_require,
        rule returns_bind, rule returns_any, rule returns_bind)
    subgoal for owner peer x t
      by (cases t) (auto intro!: returns_ext opened)
    done
  with assms show ?thesis by (auto simp: returns_def)
qed

section \<open>Authoring an authority state\<close>

text \<open>The key that an authority names as its own.\<close>

definition signer_key :: "('w, 'm) pub_env \<Rightarrow> 'w authority \<Rightarrow> jsval" where
  "signer_key E authority = (let ref = au_signerRef authority in
     ne (pa E) (if js_truthy ref then getp ref ''signerPublicKeyB64'' else ref))"

text \<open>One authority, resolved for the account, does both: its own key is the account key, derives the account
  and is the one in the account binding, and its signing function is the one that is used.\<close>

definition account_signs :: "('w, 'm) pub_env \<Rightarrow> string \<Rightarrow> 'w account_signer \<Rightarrow> bool" where
  "account_signs E owner signer \<longleftrightarrow> (\<exists>authority key u u'. resolveAuthority (pe_hs E) owner u = (Inr authority, u')
     \<and> sg_account signer = signer_key E authority \<and> sg_sign signer = au_sign authority
     \<and> b64 (pa E) (signer_key E authority) = Inr key \<and> ae_deriveAccountId (pa E) key = owner
     \<and> (\<exists>bound v v'. requireBoundX3dhIdentity (pa E) (JStr owner) v = (Inr bound, v')
          \<and> getp (bi_accountBinding bound) ''accountIdentityPublicKeyB64'' = signer_key E authority))"

lemma returns_ext_call: "(\<And>x u v. m u = (Inr x, v) \<Longrightarrow> Q x) \<Longrightarrow> returns (ext m) (\<lambda>x _. Q x) s"
  by (cases s) (auto intro!: returns_ext)

lemma returns_resolveSigner:
  "returns (resolveAccountIdentitySigner E ownerAccountId)
    (\<lambda>signer _. \<exists>owner. hid (pe_hs E) ownerAccountId ''ownerAccountId'' = Inr owner \<and> account_signs E owner signer) s"
  unfolding resolveAccountIdentitySigner_def Let_def signer_key_def [unfolded Let_def, symmetric]
  apply (rule returns_bind, rule returns_lift, rule returns_bind)
  subgoal for owner
  proof (cases s)
    case (Pair S w)
    assume "hid (pe_hs E) ownerAccountId ''ownerAccountId'' = Inr owner"
    then show ?thesis unfolding Pair
      by (auto intro!: returns_ext returns_bind returns_require returns_lift returns_ret
          returns_call [where m = "requireBoundX3dhIdentity a b" for a b] simp: account_signs_def dest!: js_eq_D) blast
  qed
  done

text \<open>The body of the record: owner and signer are the account, and there is no chain.\<close>

definition root_signed :: "('w, 'm) pub_env \<Rightarrow> 'w account_signer \<Rightarrow> jsval \<Rightarrow> bool" where
  "root_signed E signer rcd \<longleftrightarrow> (\<exists>body skeleton sig u u'. hs_buildDurableV2 (pe_hs E) (JObj body) = Inr skeleton
     \<and> map_of body ''recordKind'' = Some (JStr (pe_STATE_KIND E))
     \<and> map_of body ''ownerPublicKeyB64'' = Some (sg_account signer) \<and> map_of body ''signerPublicKeyB64'' = Some (sg_account signer)
     \<and> map_of body ''certChain'' = Some (JArr []) \<and> map_of body ''requiredCapability'' = Some JNull
     \<and> sg_sign signer (hs_durableV2Bytes (pe_hs E) skeleton) u = (Inr sig, u') \<and> rcd = set_prop ''sigB64'' (toB64 (pa E) sig) skeleton)"

lemma returns_stateRecord: "returns (stateRecord E signer epoch ids cutoff at_ms ttl) (\<lambda>rcd _. root_signed E signer rcd) w"
proof -
  have "root_signed E signer (set_prop ''sigB64'' (toB64 (pa E) sig) skeleton)"
    if "hs_buildDurableV2 (pe_hs E) (JObj [(''recordKind'', JStr (pe_STATE_KIND E)), (''recordId'', JStr ''v1''),
        (''ownerPublicKeyB64'', sg_account signer), (''signerPublicKeyB64'', sg_account signer), (''certChain'', JArr []),
        (''requiredCapability'', JNull), (''payloadB64'', p), (''issuedAtMs'', a), (''expiresAtMs'', e)]) = Inr skeleton"
      "sg_sign signer (hs_durableV2Bytes (pe_hs E) skeleton) u = (Inr sig, u')" for p a e skeleton sig u u'
    unfolding root_signed_def by (rule exI, rule exI [of _ skeleton], rule exI [of _ sig], rule exI [of _ u], rule exI [of _ u'],
      intro conjI, rule that(1)) (simp_all add: that(2))
  then show ?thesis unfolding stateRecord_def Let_def
    by (intro returns_bind returns_lift returns_ret returns_any [where m = "sg_sign a (pe_stateBytes b c)" for a b c]
        returns_call [where m = "sg_sign a (hs_durableV2Bytes b c)" for a b c]) blast
qed

text \<open>C22. Only the account itself authors its authority state: when \<open>buildAccountAuthorityStateRecord\<close>
  returns, the service has the root key, and one authority, resolved for the account, signed the record:
  the key that this authority names as its own derives the account and is the key of the account
  binding, and that key is owner and signer of the record, which carries no chain and no delegated
  capability. (The comment above the method still describes a delegated mode.) A delegated device, which could otherwise sign a state without its own
  revocation, never gets that far.\<close>
theorem authority_state_is_root_signed:
  assumes "buildAccountAuthorityStateRecord E ownerAccountId epoch revokedCertIds cutoff nowMs ttlMs (S, w) = (Inr (rcd, account), s')"
  shows "as_hasAdminRoot S \<and> (\<exists>owner owner' signer. hid (pe_hs E) ownerAccountId ''ownerAccountId'' = Inr owner
    \<and> hid (pe_hs E) (JStr owner) ''ownerAccountId'' = Inr owner'
    \<and> account_signs E owner' signer \<and> sg_account signer = account \<and> root_signed E signer rcd)"
proof -
  have signed: "returns (ext (stateRecord E signer e ids c a t)) (\<lambda>rcd _. root_signed E signer rcd) u" for signer e ids c a t u
    by (cases u) (auto intro: returns_within [OF returns_stateRecord])
  let ?Q = "\<lambda>(rcd, account) _. as_hasAdminRoot S \<and> (\<exists>owner owner' signer. hid (pe_hs E) ownerAccountId ''ownerAccountId'' = Inr owner
        \<and> hid (pe_hs E) (JStr owner) ''ownerAccountId'' = Inr owner'
        \<and> account_signs E owner' signer \<and> sg_account signer = account \<and> root_signed E signer rcd)"
  have author: "returns (bindE (resolveAccountIdentitySigner E (JStr owner)) (\<lambda>signer.
      bindE (ext (stateRecord E signer epoch ids c a ttlMs)) (\<lambda>rcd. retE (rcd, sg_account signer)))) ?Q u"
    if "as_hasAdminRoot S" "hid (pe_hs E) ownerAccountId ''ownerAccountId'' = Inr owner" for owner ids c a u
    by (rule returns_bind, rule returns_conseq [OF returns_resolveSigner], rule returns_bind, rule returns_conseq [OF signed], rule returns_ret)
      (use that in blast)
  have "returns (buildAccountAuthorityStateRecord E ownerAccountId epoch revokedCertIds cutoff nowMs ttlMs) ?Q (S, w)"
    unfolding buildAccountAuthorityStateRecord_def
    apply (rule returns_bind, rule returns_gets, rule returns_bind, rule returns_lift, rule returns_bind, rule returns_require)
    apply (rule returns_array [OF _ returns_throw])
    apply (rule returns_bind, rule returns_any, rule returns_bind, rule returns_require, rule author)
     apply assumption+
    done
  with assms show ?thesis by (auto simp: returns_def)
qed

text \<open>In delegated mode no signature is asked for: the call throws, having at most read the clock.\<close>

lemma delegated_only_reads_clock:
  assumes "\<not> as_hasAdminRoot S"
  shows "runs (buildAccountAuthorityStateRecord E ownerAccountId epoch revokedCertIds cutoff nowMs ttlMs)
    (\<lambda>r (S', w'). (\<exists>e. r = Inl e) \<and> S' = S \<and> (w' = w \<or> w' = snd (clock (ae_e2ee (pa E)) w))) (S, w)"
  using assms unfolding runs_def
  by (auto simp: buildAccountAuthorityStateRecord_def bindE_def getsE_def timeOr_def ext_def liftE_def requireE_def
      split: prod.splits sum.splits jsval.splits if_splits)

section \<open>The window of prekeys\<close>

text \<open>What the stored value holds.\<close>

definition statesIn :: "jsval \<Rightarrow> jsval list" where
  "statesIn stored = (if \<not> is_object stored then []
     else (case getp stored ''states'' of
         JArr xs \<Rightarrow> filter (\<lambda>s. is_object s \<and> is_string (getp s ''signedPreKeyPublic'')) xs
       | _ \<Rightarrow> if is_string (getp stored ''signedPreKeyPrivate'') then [stored] else []))"

lemma statesIn_clean: "json_clean v \<Longrightarrow> s \<in> set (statesIn v) \<Longrightarrow> json_clean s"
  using getp_clean [of v "''states''"]
  by (cases "getp v ''states''") (auto simp: statesIn_def list_all_iff split: if_splits)

definition prekey_state :: "jsval \<Rightarrow> bool" where
  "prekey_state p \<longleftrightarrow> is_object p \<and> json_clean p \<and> (\<exists>c cs. getp p ''signedPreKeyPublic'' = JStr (c # cs))"

lemma prekey_stateD: "prekey_state p \<Longrightarrow> is_object p \<and> json_clean p \<and> is_string (getp p ''signedPreKeyPublic'')"
  by (auto simp: prekey_state_def)

abbreviation pub_of :: "jsval \<Rightarrow> jsval" where
  "pub_of s \<equiv> getp s ''signedPreKeyPublic''"

lemma statesIn_window: "statesIn (JObj [(''v'', v), (''states'', JArr xs)]) = filter (\<lambda>s. is_object s \<and> is_string (pub_of s)) xs"
  by (simp add: statesIn_def)

text \<open>The newest states form the front of the window.\<close>

definition window_holds :: "jsval list \<Rightarrow> jsval list \<Rightarrow> bool" where
  "window_holds ps kept \<longleftrightarrow> (\<exists>rest. kept = take ACCOUNT_DEVICE_BUNDLE_PREKEY_RETENTION ps @ rest)"

lemma window_step:
  assumes "window_holds ps kept" "prekey_state p" "list_all prekey_state ps" "pub_of p \<notin> pub_of ` set ps"
  shows "window_holds (p # ps) (filter (\<lambda>s. is_object s \<and> is_string (pub_of s)) (retainedWindow p kept))"
proof -
  let ?n = ACCOUNT_DEVICE_BUNDLE_PREKEY_RETENTION and ?ok = "\<lambda>s. is_object s \<and> is_string (pub_of s)"
    and ?other = "\<lambda>s. \<not> js_eq (pub_of s) (pub_of p)"
  obtain rest where kept: "kept = take ?n ps @ rest" using assms(1) by (auto simp: window_holds_def)
  have in_ps: "s \<in> set (take ?n ps) \<Longrightarrow> prekey_state s \<and> pub_of s \<noteq> pub_of p" for s
    using bspec [OF assms(3) [unfolded list_all_iff], of s] assms(4) imageI [of s "set ps" pub_of] in_set_takeD [of s ?n ps]
    by (cases "pub_of s = pub_of p") simp_all
  have keep: "filter ?other (take ?n ps) = take ?n ps"
    by (rule filter_True) (use in_ps in \<open>auto dest: js_eq_D\<close>)
  have ok: "filter ?ok (take ?n (p # ps)) = take ?n (p # ps)"
  proof (rule filter_True, rule ballI)
    fix s assume "s \<in> set (take ?n (p # ps))"
    then have "s \<in> set (p # ps)" by (rule in_set_takeD)
    then have "prekey_state s" using assms(2,3) by (auto simp: list_all_iff)
    then show "?ok s" using prekey_stateD by blast
  qed
  have "retainedWindow p kept = take ?n (p # take ?n ps @ filter ?other rest)"
    by (simp add: retainedWindow_def kept keep)
  also have "\<dots> = take ?n (p # ps) @ take (2 - min (length ps) 3) (filter ?other rest)"
    by (simp add: ACCOUNT_DEVICE_BUNDLE_PREKEY_RETENTION_def min_def)
  finally show ?thesis unfolding window_holds_def by (simp only: filter_append ok) blast
qed

text \<open>A handshake that names the key of a state finds that state in the window.\<close>

lemma window_select:
  assumes "window_holds ps kept" "i < length ps" "i < ACCOUNT_DEVICE_BUNDLE_PREKEY_RETENTION"
    and "distinct (map pub_of ps)" "prekey_state (ps ! i)" "getp handshakeData ''receiverSignedPreKeyPubB64'' = pub_of (ps ! i)"
  shows "selectPreKeyStateFor kept handshakeData = Some (ps ! i)"
proof -
  obtain rest where kept: "kept = take ACCOUNT_DEVICE_BUNDLE_PREKEY_RETENTION ps @ rest" using assms(1) by (auto simp: window_holds_def)
  obtain c cs where key: "pub_of (ps ! i) = JStr (c # cs)" using assms(5) by (auto simp: prekey_state_def)
  have at_i: "i < length kept" "kept ! i = ps ! i" using assms(2,3) by (simp_all add: kept nth_append)
  have first: "pub_of (kept ! j) \<noteq> pub_of (ps ! i)" if "j < i" for j
    using that assms(2-4) by (auto simp: kept nth_append distinct_conv_nth)
  have "find (\<lambda>s. pub_of s = JStr (c # cs)) kept = Some (ps ! i)"
    using at_i first by (auto simp: find_Some_iff key intro!: exI [of _ i])
  then show ?thesis using at_i(1) by (cases kept) (auto simp: selectPreKeyStateFor_def assms(6) key)
qed

section \<open>The window on a store\<close>

context kv_store
begin

text \<open>One publication: the slot holds the window over what it held before.\<close>

lemma retain_run:
  assumes "keys_getDevicePreKey (sto A) = getDevicePreKey K" "keys_putDevicePreKey (sto A) = putDevicePreKey K"
    and "km_devicePreKey owner (JStr ACCOUNT_DEVICE_BUNDLE_PEER_SENTINEL) = Inr k" "inv w" "prekey_state p"
  obtains w' where "retainAccountPreKey A owner p w = (Inr (), w')" "inv w'"
    "statesIn (view w' k) = filter (\<lambda>s. is_object s \<and> is_string (pub_of s)) (retainedWindow p (statesIn (view w k)))"
proof -
  let ?v = "JObj [(''v'', JInt 2), (''states'', JArr (retainedWindow p (statesIn (view w k))))]"
  have read: "retainedAccountPreKeyStates A owner w = (Inr (statesIn (view w k)), w)"
    by (simp add: retainedAccountPreKeyStates_def assms(1) getDevicePreKey_def assms(3) bindE_def km_get_run [OF assms(4)] statesIn_def)
  have old: "json_clean s" if "s \<in> set (statesIn (view w k))" for s
    using that statesIn_clean [of "view w k" s] view_clean [OF assms(4), of k] by (cases "view w k = JUndef") (auto simp: statesIn_def)
  have "json_clean ?v"
    using old assms(5) by (auto simp: list_all_iff retainedWindow_def prekey_state_def dest!: in_set_takeD)
  from km_put_run [OF assms(4) this, of k] obtain w' where "km_put K (Inr k) ?v w = (Inr ?v, w')" "inv w'" "view w' = (view w)(k := ?v)"
    by blast
  then show thesis using that [of w']
    by (simp add: retainAccountPreKey_def bindE_def read assms(2) putDevicePreKey_def assms(3) statesIn_window)
qed

end

text \<open>The publications of a device, oldest first; each has run to its end.\<close>

fun retain_all :: "('w, 'm) acct_env \<Rightarrow> jsval \<Rightarrow> jsval list \<Rightarrow> 'w \<Rightarrow> 'w" where
  "retain_all A owner [] w = w"
| "retain_all A owner (p # ps) w = retain_all A owner ps (snd (retainAccountPreKey A owner p w))"

context kv_store
begin

lemma retain_all_window:
  assumes "keys_getDevicePreKey (sto A) = getDevicePreKey K" "keys_putDevicePreKey (sto A) = putDevicePreKey K"
    and "km_devicePreKey owner (JStr ACCOUNT_DEVICE_BUNDLE_PEER_SENTINEL) = Inr k"
  shows "inv w \<Longrightarrow> window_holds before (statesIn (view w k)) \<Longrightarrow> list_all prekey_state (before @ ps) \<Longrightarrow> distinct (map pub_of (before @ ps))
    \<Longrightarrow> inv (retain_all A owner ps w) \<and> window_holds (rev ps @ before) (statesIn (view (retain_all A owner ps w) k))"
proof (induction ps arbitrary: before w)
  case (Cons p ps)
  have p: "prekey_state p" using Cons.prems(3) by simp
  obtain w' where w': "retainAccountPreKey A owner p w = (Inr (), w')" "inv w'"
      "statesIn (view w' k) = filter (\<lambda>s. is_object s \<and> is_string (pub_of s)) (retainedWindow p (statesIn (view w k)))"
    using retain_run [OF assms Cons.prems(1) p] by blast
  have "window_holds (p # before) (statesIn (view w' k))"
    unfolding w'(3) by (rule window_step [OF Cons.prems(2) p]) (use Cons.prems(3,4) in auto)
  from Cons.IH [OF w'(2) this] Cons.prems(3,4) show ?case by (auto simp: w'(1))
qed simp

end

text \<open>C24. A peer that starts a session with a prekey this device has published is answered although the
  device has published again since: on the browser storage, whatever it held before, after any sequence of publications with different
  keys, a handshake that names the key of one of the last three finds its private state.\<close>
theorem published_prekeys_stay_answerable:
  assumes "sto A = getPeerLinkStorage c o1" "idb_inv db"
    and "km_devicePreKey owner (JStr ACCOUNT_DEVICE_BUNDLE_PEER_SENTINEL) = Inr k"
    and "list_all prekey_state ps" "distinct (map (\<lambda>p. getp p ''signedPreKeyPublic'') ps)"
    and "i < length ps" "i < ACCOUNT_DEVICE_BUNDLE_PREKEY_RETENTION"
    and "getp handshakeData ''receiverSignedPreKeyPubB64'' = getp (rev ps ! i) ''signedPreKeyPublic''"
  shows "\<exists>retained. retainedAccountPreKeyStates A owner (retain_all A owner ps db) = (Inr retained, retain_all A owner ps db)
    \<and> selectPreKeyStateFor retained handshakeData = Some (rev ps ! i)"
proof -
  let ?N = "absenceNormalizingStore (idb_kv (owner_part o1))" and ?w = "retain_all A owner ps db"
  have ops: "keys_getDevicePreKey (sto A) = getDevicePreKey ?N" "keys_putDevicePreKey (sto A) = putDevicePreKey ?N"
    by (simp_all add: assms(1) getPeerLinkStorage_def createKeyValueBackedPeerLinkStorage_def getKeyValueStore_def Let_def)
  have "window_holds [] (statesIn (idb_view (owner_part o1) db k))" by (simp add: window_holds_def)
  from idbh.nrm.retain_all_window [OF ops assms(3,2) this, of ps] assms(4,5)
  have w: "idb_inv ?w" "window_holds (rev ps) (statesIn (idb_view (owner_part o1) ?w k))" by simp_all
  have "retainedAccountPreKeyStates A owner ?w = (Inr (statesIn (idb_view (owner_part o1) ?w k)), ?w)"
    by (simp add: retainedAccountPreKeyStates_def ops(1) getDevicePreKey_def assms(3) bindE_def idbh.nrm.km_get_run [OF w(1)] statesIn_def)
  moreover have "selectPreKeyStateFor (statesIn (idb_view (owner_part o1) ?w k)) handshakeData = Some (rev ps ! i)"
    by (rule window_select [OF w(2) _ assms(7) _ _ assms(8)]) (use assms(4-6) in \<open>simp_all add: list_all_length rev_nth flip: rev_map\<close>)
  ultimately show ?thesis by blast
qed

section \<open>Concrete services\<close>

definition demo_state :: "jsval \<Rightarrow> authority_state" where
  "demo_state j = \<lparr>at_account = getp j ''accountIdentityPublicKeyB64'', at_signer = getp j ''signerPublicKeyB64'', at_epoch = getp j ''epoch'',
     at_sigB64 = getp (getp j ''sig'') ''sigB64'', at_json = j\<rparr>"

definition demo_pub :: "('w, nat) hs_env \<Rightarrow> ('w, nat) pub_env" where
  "demo_pub H = \<lparr>pe_hs = H, pe_collate = (\<lambda>a b. a \<le> b), pe_stateNew = (\<lambda>j. Inr (demo_state j)), pe_stateBytes = (\<lambda>j. [4]),
     pe_revocationState = at_json, pe_STATE_V = JInt 1, pe_STATE_PURPOSE = JStr ''state'', pe_STATE_KIND = ''authority'',
     pe_SET_V = JInt 1, pe_SET_PURPOSE = JStr ''set'', pe_BUNDLE_V = JInt 1, pe_BUNDLE_PURPOSE = JStr ''bundle''\<rparr>"

text \<open>A service that decodes every payload to a state of \<open>bob\<close>, linked to \<open>bob\<close>, and the record it opens.\<close>

definition demo_opener :: "(idb \<times> int, nat) pub_env" where
  "demo_opener = demo_pub (demo_hs\<lparr>hs_acct := (hs_acct demo_hs)\<lparr>ae_seal := demo_seal\<lparr>sl_parseText := (\<lambda>b. Inr (JObj
     [(''accountIdentityPublicKeyB64'', JStr ''B''), (''signerPublicKeyB64'', JStr ''B''), (''epoch'', JInt 3),
      (''sig'', JObj [(''sigB64'', JStr ''g'')])]))\<rparr>\<rparr>\<rparr>)"

definition demo_peer_db :: "idb \<times> int" where
  "demo_peer_db = snd (peerLinks_create (hsto demo_hs) (JObj [(''peerLinkId'', JStr ''l1''), (''localAccountId'', JStr ''alice''),
     (''peerAccountId'', JStr ''bob''), (''state'', JStr ''session_established''), (''remoteIdentityDhPublicKeyB64'', JStr ''bd''),
     (''remoteAccountIdentityPublicKeyB64'', JStr ''B'')]) ([], 1))"

definition demo_state_record :: jsval where
  "demo_state_record = JObj [(''recordKind'', JStr ''authority''), (''ownerPublicKeyB64'', JStr ''B''), (''signerPublicKeyB64'', JStr ''B''),
     (''payloadB64'', JStr ''p'')]"

theorem opened_authority_state_is_verified_witness:
  "\<exists>st ctx u u'. requirePeerDeviceSetContext (pa demo_opener) (JStr ''alice'') (JStr ''bob'') u = (Inr ctx, u')
    \<and> state_verified demo_opener (pc_peerAccountPublicKeyB64 ctx) demo_state_record st \<and> at_epoch st = JInt 3"
proof -
  have "case fst (openPeerAuthorityStateRecord demo_opener (JStr ''alice'') (JStr ''bob'') demo_state_record JUndef (demo_device_svc, demo_peer_db)) of
      Inl e \<Rightarrow> False | Inr (st, revoked, epoch) \<Rightarrow> epoch = JInt 3"
    by code_simp
  then obtain st revoked s' where run: "openPeerAuthorityStateRecord demo_opener (JStr ''alice'') (JStr ''bob'') demo_state_record JUndef
      (demo_device_svc, demo_peer_db) = (Inr (st, revoked, JInt 3), s')"
    by (cases "openPeerAuthorityStateRecord demo_opener (JStr ''alice'') (JStr ''bob'') demo_state_record JUndef (demo_device_svc, demo_peer_db)")
      (auto split: sum.splits)
  have ids: "hid (pe_hs demo_opener) (JStr ''alice'') l = Inr ''alice''" "hid (pe_hs demo_opener) (JStr ''bob'') l = Inr ''bob''" for l
    by (simp_all add: demo_opener_def demo_pub_def demo_hs_def sample_env_def)
  from opened_authority_state_is_verified [OF run] show ?thesis unfolding ids by (metis sum.inject(2))
qed

definition demo_author :: "(unit, nat) pub_env" where
  "demo_author = demo_pub (demo_issuer\<lparr>hs_ownAuthority := \<lparr>au_signerRef = JObj [(''signerPublicKeyB64'', JStr ''A'')], au_sign = (\<lambda>b. retE [5]),
     au_verify = (\<lambda>r b s. retE True)\<rparr>\<rparr>)"

lemma demo_author_fields:
  "hid (pe_hs demo_author) (JStr s) l = Inr s" "hne (pe_hs demo_author) (JStr s) = (if s = [] then JNull else JStr s)"
  "resolveAuthority (pe_hs demo_author) owner = retE \<lparr>au_signerRef = JObj [(''signerPublicKeyB64'', JStr ''A'')], au_sign = (\<lambda>b. retE [5]),
     au_verify = (\<lambda>r b s. retE True)\<rparr>"
  "ae_deriveAccountId (pa demo_author) key = ''alice''" "hs_buildDurableV2 (pe_hs demo_author) = Inr" "pe_stateNew demo_author j = Inr (demo_state j)"
  "clock (ae_e2ee (pa demo_author)) = retE 1000"
  by (simp_all add: demo_author_def demo_pub_def demo_issuer_def resolveAuthority_def sample_env_def)

lemma demo_author_account: "pa demo_author = hs_acct demo_issuer"
  by (simp add: demo_author_def demo_pub_def)

lemma demo_author_key: "case b64 (pa demo_author) (JStr ''A'') of Inr k \<Rightarrow> True | Inl e \<Rightarrow> False"
  by code_simp

lemma demo_author_resolves:
  obtains signer t where "resolveAccountIdentitySigner demo_author (JStr ''alice'') (demo_device_svc, ()) = (Inr signer, t)"
    "sg_sign signer = (\<lambda>b. retE [5])"
proof -
  obtain b where b: "requireBoundX3dhIdentity (pa demo_author) (JStr ''alice'') (demo_device_svc, ()) = (Inr b, (demo_device_svc, ()))"
    "js_truthy (bi_accountBinding b)" "getp (bi_accountBinding b) ''accountIdentityPublicKeyB64'' = JStr ''A''"
    unfolding demo_author_account by (rule demo_issuer_bound)
  obtain k where k: "b64 (pa demo_author) (JStr ''A'') = Inr k" using demo_author_key by (auto split: sum.splits)
  show thesis
    by (rule that [of "\<lparr>sg_account = JStr ''A'', sg_sign = (\<lambda>b. retE [5])\<rparr>" "(demo_device_svc, ())"])
      (simp_all add: resolveAccountIdentitySigner_def demo_author_fields bindE_def ext_def Let_def b k)
qed

theorem authority_state_is_root_signed_witness:
  "as_hasAdminRoot demo_device_svc \<and> (\<exists>owner signer rcd. account_signs demo_author owner signer \<and> root_signed demo_author signer rcd)"
proof -
  obtain signer t where signer: "resolveAccountIdentitySigner demo_author (JStr ''alice'') (demo_device_svc, ()) = (Inr signer, t)"
    "sg_sign signer = (\<lambda>b. retE [5])" by (rule demo_author_resolves)
  have "\<exists>rcd account s'. buildAccountAuthorityStateRecord demo_author (JStr ''alice'') (JInt 3) (JArr [JStr ''c1'']) (JInt 0) JUndef
      (Fin 100) (demo_device_svc, ()) = (Inr (rcd, account), s')"
    by (cases t) (simp add: buildAccountAuthorityStateRecord_def stateRecord_def timeOr_def demo_author_fields demo_issuer_fields(15)
      bindE_def getsE_def ext_def Let_def signer)
  then obtain rcd account s' where "buildAccountAuthorityStateRecord demo_author (JStr ''alice'') (JInt 3) (JArr [JStr ''c1'']) (JInt 0) JUndef
      (Fin 100) (demo_device_svc, ()) = (Inr (rcd, account), s')" by blast
  from authority_state_is_root_signed [OF this] show ?thesis by blast
qed

definition demo_prekey :: "string \<Rightarrow> jsval" where
  "demo_prekey k = JObj [(''signedPreKeyPublic'', JStr k), (''signedPreKeyPrivate'', JStr ''s'')]"

theorem published_prekeys_stay_answerable_witness:
  "\<exists>retained w. retainedAccountPreKeyStates demo_acct (JStr ''alice'') w = (Inr retained, w)
    \<and> selectPreKeyStateFor retained (JObj [(''receiverSignedPreKeyPubB64'', JStr ''k2'')]) = Some (demo_prekey ''k2'')"
proof -
  have "km_devicePreKey (JStr ''alice'') (JStr ACCOUNT_DEVICE_BUNDLE_PEER_SENTINEL)
      = Inr ''peer-link:keys:device-prekey:alice::@self-device-bundle''"
    by code_simp
  from published_prekeys_stay_answerable [OF demo_apart(1) _ this, of "[]" "map demo_prekey [''k1'', ''k2'', ''k3'', ''k4'']" 2
      "JObj [(''receiverSignedPreKeyPubB64'', JStr ''k2'')]"]
  show ?thesis
    by (auto simp: idb_inv_def prekey_state_def demo_prekey_def ACCOUNT_DEVICE_BUNDLE_PREKEY_RETENTION_def)
qed

end
