(* ===== verification/File_Transfer.thy ===== *)
theory File_Transfer
  imports Js_Hoare Js_Bytes Kv_Store
begin

text \<open>
  File transfer (\<open>src/filetransfer/FileTransferService.js\<close>): a file is sent as a manifest followed by
  its chunks, and put together again by the receiver. The records of a manifest, a chunk and a
  transfer session, the chunker and the hash are those of \<open>@rezprotocol/core\<close>: their fields and
  functions are in the environment. The index of a chunk is a natural number. The two private maps
  of the service are association lists; the calls into the application are logged in the order in
  which they are made, and each may throw.
\<close>

section \<open>State and environment\<close>

datatype 'm ft_event =
    Deposit jsval jsval octets
  | Progress string rat string
  | Received string 'm octets jsval jsval

record ('m, 'c, 's) ft_svc =
  ft_sessions :: "(string \<times> 's) list"
  ft_chunkBuffers :: "(string \<times> 'c option list) list"
  ft_log :: "'m ft_event list"

record ('w, 'm, 'c, 's) ft_env =
  ft_kvStore :: "'w kv_ops"
  ft_onSendDeposit :: "jsval \<Rightarrow> jsval \<Rightarrow> octets \<Rightarrow> ('w, unit) io"
  ft_onProgress :: "(string \<Rightarrow> rat \<Rightarrow> string \<Rightarrow> ('w, unit) io) option"
  ft_onFileReceived :: "string \<Rightarrow> 'm \<Rightarrow> octets \<Rightarrow> jsval \<Rightarrow> jsval \<Rightarrow> ('w, unit) io"
  ft_logError :: "string \<Rightarrow> ('w, unit) io"
  ft_now :: "('w, int) io"
  ft_chunk :: "octets \<Rightarrow> jsval \<Rightarrow> jsval \<Rightarrow> jsval \<Rightarrow> ('w, 'm \<times> 'c list) io"
  ft_reassemble :: "'m \<Rightarrow> 'c option list option \<Rightarrow> octets res"
  ft_base64ToBytes :: "jsval \<Rightarrow> octets res"
  ft_bytesToBase64 :: "octets \<Rightarrow> string"
  ft_hashHex :: "octets \<Rightarrow> string"
  mf_fromJSON :: "jsval \<Rightarrow> 'm res"
  mf_toBytes :: "'m \<Rightarrow> octets res"
  mf_transferId :: "'m \<Rightarrow> string"
  mf_fileHashHex :: "'m \<Rightarrow> string"
  mf_chunkCount :: "'m \<Rightarrow> nat"
  mf_chunkHashesHex :: "'m \<Rightarrow> string list"
  ch_fromJSON :: "jsval \<Rightarrow> 'c res"
  ch_toBytes :: "'c \<Rightarrow> octets res"
  ch_transferId :: "'c \<Rightarrow> string"
  ch_chunkIndex :: "'c \<Rightarrow> nat"
  ch_dataB64 :: "'c \<Rightarrow> string"
  se_new :: "string \<Rightarrow> 'm \<Rightarrow> bool list \<Rightarrow> string \<Rightarrow> int \<Rightarrow> int \<Rightarrow> 's res"
  se_manifest :: "'s \<Rightarrow> 'm"
  se_transferId :: "'s \<Rightarrow> string"
  se_receivedChunks :: "'s \<Rightarrow> bool list"
  se_createdAtMs :: "'s \<Rightarrow> int"
  se_progress :: "'s \<Rightarrow> rat"
  se_state :: "'s \<Rightarrow> string"
  se_isComplete :: "'s \<Rightarrow> bool"
  se_markChunkReceived :: "'s \<Rightarrow> nat \<Rightarrow> 's res"
  se_toJSON :: "'s \<Rightarrow> jsval"

type_synonym ('w, 'm, 'c, 's, 'a) ft_io = "(('m, 'c, 's) ft_svc \<times> 'w, 'a) io"

text \<open>\<open>new FileTransferService(...)\<close>: the callbacks that are not functions are \<open>None\<close>.\<close>

definition new_FileTransferService :: "bool \<Rightarrow> bool \<Rightarrow> bool \<Rightarrow> ('m, 'c, 's) ft_svc res" where
  "new_FileTransferService hasKvStore hasOnSendDeposit hasOnFileReceived =
     (if \<not> hasKvStore then Inl (plain_err ''FileTransferService requires kvStore'')
      else if \<not> hasOnSendDeposit then Inl (plain_err ''FileTransferService requires onSendDeposit function'')
      else if \<not> hasOnFileReceived then Inl (plain_err ''FileTransferService requires onFileReceived function'')
      else Inr \<lparr>ft_sessions = [], ft_chunkBuffers = [], ft_log = []\<rparr>)"

section \<open>Calls into the application\<close>

definition told :: "'m ft_event \<Rightarrow> ('w, unit) io \<Rightarrow> ('w, 'm, 'c, 's, unit) ft_io" where
  "told ev call = bindE (modifyE (\<lambda>f. f\<lparr>ft_log := ft_log f @ [ev]\<rparr>)) (\<lambda>_. ext call)"

definition deposit :: "('w, 'm, 'c, 's) ft_env \<Rightarrow> jsval \<Rightarrow> jsval \<Rightarrow> octets \<Rightarrow> ('w, 'm, 'c, 's, unit) ft_io" where
  "deposit E peerAccountId contextId plaintextBodyBytes =
     told (Deposit peerAccountId contextId plaintextBodyBytes) (ft_onSendDeposit E peerAccountId contextId plaintextBodyBytes)"

definition tellProgress :: "('w, 'm, 'c, 's) ft_env \<Rightarrow> string \<Rightarrow> rat \<Rightarrow> string \<Rightarrow> ('w, 'm, 'c, 's, unit) ft_io" where
  "tellProgress E transferId p state =
     (case ft_onProgress E of None \<Rightarrow> retE () | Some f \<Rightarrow> told (Progress transferId p state) (f transferId p state))"

definition setSession :: "string \<Rightarrow> 's \<Rightarrow> ('w, 'm, 'c, 's, unit) ft_io" where
  "setSession transferId session = modifyE (\<lambda>f. f\<lparr>ft_sessions := AList.update transferId session (ft_sessions f)\<rparr>)"

definition setBuffer :: "string \<Rightarrow> 'c option list \<Rightarrow> ('w, 'm, 'c, 's, unit) ft_io" where
  "setBuffer transferId buffer = modifyE (\<lambda>f. f\<lparr>ft_chunkBuffers := AList.update transferId buffer (ft_chunkBuffers f)\<rparr>)"

text \<open>\<open>kvStore.set("xfer:" + id, JSON.stringify(session.toJSON()))\<close>.\<close>

definition persistSession :: "('w, 'm, 'c, 's) ft_env \<Rightarrow> string \<Rightarrow> 's \<Rightarrow> ('w, 'm, 'c, 's, unit) ft_io" where
  "persistSession E transferId session =
     ext (kv_set (ft_kvStore E) (''xfer:'' @ transferId) (JStr (JSON_stringify (se_toJSON E session))))"

definition storeFile :: "('w, 'm, 'c, 's) ft_env \<Rightarrow> 'm \<Rightarrow> octets \<Rightarrow> ('w, 'm, 'c, 's, unit) ft_io" where
  "storeFile E manifest fileBytes =
     ext (kv_set (ft_kvStore E) (''file:'' @ mf_fileHashHex E manifest) (JStr (ft_bytesToBase64 E fileBytes)))"

section \<open>Sending\<close>

text \<open>The loop over the chunks, from index \<open>i\<close> of \<open>n\<close>.\<close>

fun sendChunks :: "('w, 'm, 'c, 's) ft_env \<Rightarrow> jsval \<Rightarrow> jsval \<Rightarrow> string \<Rightarrow> nat \<Rightarrow> nat \<Rightarrow> 'c list \<Rightarrow> ('w, 'm, 'c, 's, unit) ft_io" where
  "sendChunks E peerAccountId contextId transferId n i [] = retE ()"
| "sendChunks E peerAccountId contextId transferId n i (chunk # chunks) =
     bindE (liftE (ch_toBytes E chunk)) (\<lambda>bytes.
     bindE (deposit E peerAccountId contextId bytes) (\<lambda>_.
     bindE (tellProgress E transferId (of_nat (i + 1) / of_nat n) (if i + 1 = n then ''complete'' else ''sending'')) (\<lambda>_.
     sendChunks E peerAccountId contextId transferId n (i + 1) chunks)))"

definition nonempty_string :: "jsval \<Rightarrow> bool" where
  "nonempty_string v \<longleftrightarrow> is_string v \<and> v \<noteq> JStr []"

definition sendFile :: "('w, 'm, 'c, 's) ft_env \<Rightarrow> octets option \<Rightarrow> jsval \<Rightarrow> jsval \<Rightarrow> jsval \<Rightarrow> jsval \<Rightarrow> jsval
    \<Rightarrow> ('w, 'm, 'c, 's, string \<times> 'm) ft_io" where
  "sendFile E fileBytes fileName mimeType peerAccountId contextId txt =
     (case fileBytes of
        None \<Rightarrow> throwE (plain_err ''sendFile requires non-empty fileBytes'')
      | Some bytes \<Rightarrow>
        bindE (requireE (bytes \<noteq> []) (plain_err ''sendFile requires non-empty fileBytes'')) (\<lambda>_.
        bindE (requireE (nonempty_string peerAccountId) (plain_err ''sendFile requires peerAccountId'')) (\<lambda>_.
        bindE (requireE (nonempty_string contextId) (plain_err ''sendFile requires contextId'')) (\<lambda>_.
        bindE (ext (ft_chunk E bytes fileName mimeType (if is_string txt then txt else JStr []))) (\<lambda>(manifest, chunks).
        bindE (liftE (mf_toBytes E manifest)) (\<lambda>manifestBytes.
        bindE (deposit E peerAccountId contextId manifestBytes) (\<lambda>_.
        bindE (sendChunks E peerAccountId contextId (mf_transferId E manifest) (length chunks) 0 chunks) (\<lambda>_.
        bindE (storeFile E manifest bytes) (\<lambda>_.
        retE (mf_transferId E manifest, manifest))))))))))"

section \<open>Receiving\<close>

definition handleManifest :: "('w, 'm, 'c, 's) ft_env \<Rightarrow> 'm \<Rightarrow> ('w, 'm, 'c, 's, bool) ft_io" where
  "handleManifest E manifest =
     (let transferId = mf_transferId E manifest; chunkCount = mf_chunkCount E manifest in
      bindE (ext (ft_now E)) (\<lambda>now.
      bindE (liftE (se_new E transferId manifest (replicate chunkCount False) ''pending'' now now)) (\<lambda>session.
      bindE (setSession transferId session) (\<lambda>_.
      bindE (setBuffer transferId (replicate chunkCount None)) (\<lambda>_.
      bindE (persistSession E transferId session) (\<lambda>_.
      bindE (tellProgress E transferId 0 ''pending'') (\<lambda>_.
      retE True)))))))"

text \<open>The reassembly, and what follows when it fails: the session is kept as failed.\<close>

definition failTransfer :: "('w, 'm, 'c, 's) ft_env \<Rightarrow> string \<Rightarrow> 's \<Rightarrow> ('w, 'm, 'c, 's, unit) ft_io" where
  "failTransfer E transferId session =
     bindE (ext (ft_logError E (''FileTransferService: reassembly failed for '' @ transferId))) (\<lambda>_.
     bindE (ext (ft_now E)) (\<lambda>now.
     bindE (liftE (se_new E (se_transferId E session) (se_manifest E session) (se_receivedChunks E session) ''failed''
       (se_createdAtMs E session) now)) (\<lambda>failed.
     bindE (setSession transferId failed) (\<lambda>_.
     persistSession E transferId failed))))"

definition completeTransfer :: "('w, 'm, 'c, 's) ft_env \<Rightarrow> string \<Rightarrow> 's \<Rightarrow> jsval \<Rightarrow> jsval
    \<Rightarrow> ('w, 'm, 'c, 's, unit) ft_io" where
  "completeTransfer E transferId session senderAccountId contextId =
     (let manifest = se_manifest E session in
      bindE (getsE (\<lambda>f. map_of (ft_chunkBuffers f) transferId)) (\<lambda>buffer.
      case ft_reassemble E manifest buffer of
        Inl e \<Rightarrow> failTransfer E transferId session
      | Inr fileBytes \<Rightarrow>
        bindE (storeFile E manifest fileBytes) (\<lambda>_.
        bindE (modifyE (\<lambda>f. f\<lparr>ft_chunkBuffers := AList.delete transferId (ft_chunkBuffers f)\<rparr>)) (\<lambda>_.
        bindE (ext (kv_delete (ft_kvStore E) (''xfer:'' @ transferId))) (\<lambda>_.
        told (Received transferId manifest fileBytes senderAccountId contextId)
          (ft_onFileReceived E transferId manifest fileBytes senderAccountId contextId))))))"

text \<open>\<open>buffer[i] = chunk\<close>: an index past the end extends the array with holes.\<close>

definition buffer_set :: "nat \<Rightarrow> 'c \<Rightarrow> 'c option list \<Rightarrow> 'c option list" where
  "buffer_set i chunk buffer =
     (if i < length buffer then buffer[i := Some chunk]
      else buffer @ replicate (i - length buffer) None @ [Some chunk])"

definition chunkMatches :: "('w, 'm, 'c, 's) ft_env \<Rightarrow> 'm \<Rightarrow> nat \<Rightarrow> octets \<Rightarrow> bool" where
  "chunkMatches E manifest i rawBytes \<longleftrightarrow>
     i < length (mf_chunkHashesHex E manifest) \<and> ft_hashHex E rawBytes = mf_chunkHashesHex E manifest ! i"

text \<open>\<open>#chunkBuffers.get(id)\<close> is undefined when there is no buffer, and the assignment to its element
  then throws.\<close>

definition no_buffer :: "nat \<Rightarrow> js_err" where
  "no_buffer i = code_err ''TypeError'' (''Cannot set properties of undefined (setting '' @ show_nat i @ '')'')"

text \<open>The second half of \<open>#handleChunk\<close>, for a chunk whose hash is the announced one.\<close>

definition acceptChunk :: "('w, 'm, 'c, 's) ft_env \<Rightarrow> 's \<Rightarrow> 'c \<Rightarrow> jsval \<Rightarrow> jsval \<Rightarrow> ('w, 'm, 'c, 's, bool) ft_io" where
  "acceptChunk E session chunk senderAccountId contextId =
     (let transferId = ch_transferId E chunk; i = ch_chunkIndex E chunk in
      bindE (getsE (\<lambda>f. map_of (ft_chunkBuffers f) transferId)) (\<lambda>b. case b of
        None \<Rightarrow> throwE (no_buffer i)
      | Some buffer \<Rightarrow>
        bindE (setBuffer transferId (buffer_set i chunk buffer)) (\<lambda>_.
        bindE (liftE (se_markChunkReceived E session i)) (\<lambda>updated.
        bindE (setSession transferId updated) (\<lambda>_.
        bindE (persistSession E transferId updated) (\<lambda>_.
        bindE (tellProgress E transferId (se_progress E updated) (se_state E updated)) (\<lambda>_.
        bindE (if se_isComplete E updated
          then completeTransfer E transferId updated senderAccountId contextId
          else retE ()) (\<lambda>_.
        retE True))))))))"

definition handleChunk :: "('w, 'm, 'c, 's) ft_env \<Rightarrow> 'c \<Rightarrow> jsval \<Rightarrow> jsval \<Rightarrow> ('w, 'm, 'c, 's, bool) ft_io" where
  "handleChunk E chunk senderAccountId contextId =
     (let transferId = ch_transferId E chunk; i = ch_chunkIndex E chunk in
      bindE (getsE (\<lambda>f. map_of (ft_sessions f) transferId)) (\<lambda>s. case s of
        None \<Rightarrow> bindE (ext (ft_logError E (''FileTransferService: chunk for unknown transfer '' @ transferId))) (\<lambda>_. retE True)
      | Some session \<Rightarrow>
        bindE (liftE (ft_base64ToBytes E (JStr (ch_dataB64 E chunk)))) (\<lambda>rawBytes.
        if \<not> chunkMatches E (se_manifest E session) i rawBytes
        then bindE (ext (ft_logError E (''FileTransferService: chunk '' @ show_nat i @ '' hash mismatch for '' @ transferId)))
          (\<lambda>_. retE True)
        else acceptChunk E session chunk senderAccountId contextId)))"

text \<open>A payload is a constructed record or a decoded object.\<close>

datatype ('m, 'c) ft_payload = AManifest 'm | AChunk 'c | Decoded jsval

fun handleIncomingPayload :: "('w, 'm, 'c, 's) ft_env \<Rightarrow> ('m, 'c) ft_payload \<Rightarrow> jsval \<Rightarrow> jsval \<Rightarrow> ('w, 'm, 'c, 's, bool) ft_io" where
  "handleIncomingPayload E (AManifest manifest) senderAccountId contextId = handleManifest E manifest"
| "handleIncomingPayload E (AChunk chunk) senderAccountId contextId = handleChunk E chunk senderAccountId contextId"
| "handleIncomingPayload E (Decoded payload) senderAccountId contextId =
     (let kind = getp payload ''kind'' in
      if \<not> is_object payload \<or> \<not> is_string kind then retE False
      else if kind = JStr ''rez.file.manifest.v1'' then bindE (liftE (mf_fromJSON E payload)) (handleManifest E)
      else if kind = JStr ''rez.file.chunk.v1''
      then bindE (liftE (ch_fromJSON E payload)) (\<lambda>chunk. handleChunk E chunk senderAccountId contextId)
      else retE False)"

section \<open>Queries\<close>

definition getFile :: "('w, 'm, 'c, 's) ft_env \<Rightarrow> string \<Rightarrow> ('w, 'm, 'c, 's, octets option) ft_io" where
  "getFile E fileHashHex =
     bindE (ext (kv_get (ft_kvStore E) (''file:'' @ fileHashHex))) (\<lambda>b64.
     if b64 = JUndef \<or> b64 = JNull then retE None
     else bindE (liftE (ft_base64ToBytes E b64)) (\<lambda>bytes. retE (Some bytes)))"

definition getTransferSession :: "string \<Rightarrow> ('m, 'c, 's) ft_svc \<Rightarrow> 's option" where
  "getTransferSession transferId f = map_of (ft_sessions f) transferId"

end
