(* ===== verification/File_Transfer_Props.thy ===== *)
theory File_Transfer_Props
  imports File_Transfer
begin

text \<open>
  Properties of the file transfer: whatever payloads arrive in whatever order, a file is handed to the
  application only when it was put together from chunks that all have the hashes of its manifest; a
  file that was cut into chunks is delivered whole for every order of arrival of its chunks; a chunk
  that arrives once more after the delivery throws.
\<close>

section \<open>What is delivered was verified\<close>

text \<open>What is relied on of the session record of the core: it keeps the manifest it is made with.\<close>

definition session_keeps_manifest :: "('w, 'm, 'c, 's) ft_env \<Rightarrow> bool" where
  "session_keeps_manifest E \<longleftrightarrow>
     (\<forall>t m r st a b s. se_new E t m r st a b = Inr s \<longrightarrow> se_manifest E s = m)
     \<and> (\<forall>s i s'. se_markChunkReceived E s i = Inr s' \<longrightarrow> se_manifest E s' = se_manifest E s)"

lemma keeps_manifest:
  assumes "session_keeps_manifest E"
  shows "se_new E t m r st a b = Inr s \<Longrightarrow> se_manifest E s = m"
    and "se_markChunkReceived E s i = Inr s' \<Longrightarrow> se_manifest E s' = se_manifest E s"
  using assms by (auto simp: session_keeps_manifest_def)

text \<open>Every chunk in the buffer has the hash that the manifest announces for its place.\<close>

definition buffer_verified :: "('w, 'm, 'c, 's) ft_env \<Rightarrow> 'm \<Rightarrow> 'c option list \<Rightarrow> bool" where
  "buffer_verified E manifest buffer \<longleftrightarrow> (\<forall>i<length buffer. \<forall>chunk. buffer ! i = Some chunk \<longrightarrow>
     ch_chunkIndex E chunk = i \<and> (\<exists>raw. ft_base64ToBytes E (JStr (ch_dataB64 E chunk)) = Inr raw \<and> chunkMatches E manifest i raw))"

definition delivery_verified :: "('w, 'm, 'c, 's) ft_env \<Rightarrow> 'm ft_event \<Rightarrow> bool" where
  "delivery_verified E ev \<longleftrightarrow> (case ev of
     Received transferId manifest fileBytes sender context \<Rightarrow>
       (\<exists>buffer. buffer_verified E manifest buffer \<and> ft_reassemble E manifest (Some buffer) = Inr fileBytes)
   | _ \<Rightarrow> True)"

lemma delivery_verified_simps [simp]:
  "delivery_verified E (Deposit p c b)" "delivery_verified E (Progress t q st)"
  "delivery_verified E (Received t m b p c) \<longleftrightarrow>
     (\<exists>buffer. buffer_verified E m buffer \<and> ft_reassemble E m (Some buffer) = Inr b)"
  by (simp_all add: delivery_verified_def)

definition transfers_ok :: "('w, 'm, 'c, 's) ft_env \<Rightarrow> ('m, 'c, 's) ft_svc \<Rightarrow> bool" where
  "transfers_ok E f \<longleftrightarrow>
     (\<forall>t buffer. map_of (ft_chunkBuffers f) t = Some buffer \<longrightarrow>
        (\<exists>session. map_of (ft_sessions f) t = Some session \<and> buffer_verified E (se_manifest E session) buffer))
     \<and> (\<forall>ev\<in>set (ft_log f). delivery_verified E ev)"

lemma transfers_okD:
  assumes "transfers_ok E f" "map_of (ft_chunkBuffers f) t = Some buffer"
  obtains session where "map_of (ft_sessions f) t = Some session" "buffer_verified E (se_manifest E session) buffer"
  using assms unfolding transfers_ok_def by blast

lemma transfers_ok_log: "transfers_ok E f \<Longrightarrow> delivery_verified E ev \<Longrightarrow> transfers_ok E (f\<lparr>ft_log := ft_log f @ [ev]\<rparr>)"
  by (auto simp: transfers_ok_def)

lemma transfers_ok_delete: "transfers_ok E f \<Longrightarrow> transfers_ok E (f\<lparr>ft_chunkBuffers := AList.delete t (ft_chunkBuffers f)\<rparr>)"
  by (auto simp: transfers_ok_def AList.delete_conv split: if_splits)

text \<open>A session with the same manifest, or a fresh one with an empty buffer.\<close>

lemma transfers_ok_session:
  assumes "transfers_ok E f" "map_of (ft_sessions f) t = Some s" "se_manifest E s' = se_manifest E s"
  shows "transfers_ok E (f\<lparr>ft_sessions := AList.update t s' (ft_sessions f)\<rparr>)"
  using assms by (fastforce simp: transfers_ok_def update_conv)

lemma transfers_ok_buffer:
  assumes "transfers_ok E f" "map_of (ft_sessions f) t = Some s" "buffer_verified E (se_manifest E s) b"
  shows "transfers_ok E (f\<lparr>ft_chunkBuffers := AList.update t b (ft_chunkBuffers f)\<rparr>)"
  using assms by (auto simp: transfers_ok_def update_conv)

lemma buffer_verified_empty: "buffer_verified E m (replicate n None)"
  by (simp add: buffer_verified_def)

lemma buffer_set_nth:
  "i < length (buffer_set j c b) \<Longrightarrow> buffer_set j c b ! i = Some d \<Longrightarrow> i = j \<and> d = c \<or> i < length b \<and> b ! i = Some d"
  by (auto simp: buffer_set_def nth_append nth_list_update nth_Cons' split: if_splits)

lemma buffer_verified_set:
  assumes "buffer_verified E m b" "ft_base64ToBytes E (JStr (ch_dataB64 E c)) = Inr raw" "chunkMatches E m (ch_chunkIndex E c) raw"
  shows "buffer_verified E m (buffer_set (ch_chunkIndex E c) c b)"
  using assms unfolding buffer_verified_def by (blast dest: buffer_set_nth)

text \<open>A new manifest replaces both entries at once.\<close>

lemma transfers_ok_manifest:
  assumes "transfers_ok E f"
  shows "transfers_ok E (f\<lparr>ft_sessions := AList.update t s (ft_sessions f),
    ft_chunkBuffers := AList.update t (replicate n None) (ft_chunkBuffers f)\<rparr>)"
  using assms by (auto simp: transfers_ok_def update_conv buffer_verified_empty)

section \<open>Preservation\<close>

abbreviation keeps :: "('w, 'm, 'c, 's) ft_env \<Rightarrow> ('w, 'm, 'c, 's, 'a) ft_io \<Rightarrow> ('m, 'c, 's) ft_svc \<Rightarrow> bool" where
  "keeps E m f \<equiv> wpE m (\<lambda>_. transfers_ok E) (\<lambda>_. transfers_ok E) f"

lemma wpE_lift: "(\<And>x. r = Inr x \<Longrightarrow> Q x p) \<Longrightarrow> (\<And>e. r = Inl e \<Longrightarrow> R e p) \<Longrightarrow> wpE (liftE r) Q R p"
  by (cases r) (auto simp: wpE_def)

lemma told_wp: "transfers_ok E f \<Longrightarrow> delivery_verified E ev \<Longrightarrow>
    (\<And>g. transfers_ok E g \<Longrightarrow> ft_sessions g = ft_sessions f \<Longrightarrow> ft_chunkBuffers g = ft_chunkBuffers f \<Longrightarrow> Q () g)
    \<Longrightarrow> wpE (told ev call) Q (\<lambda>_. transfers_ok E) f"
  unfolding told_def by (intro wpE_bind wpE_modify wpE_ext_any) (simp_all add: transfers_ok_log)

lemma progress_wp: "transfers_ok E f \<Longrightarrow>
    (\<And>g. transfers_ok E g \<Longrightarrow> ft_sessions g = ft_sessions f \<Longrightarrow> ft_chunkBuffers g = ft_chunkBuffers f \<Longrightarrow> Q () g)
    \<Longrightarrow> wpE (tellProgress E t q st) Q (\<lambda>_. transfers_ok E) f"
  unfolding tellProgress_def by (intro wpE_option wpE_ret told_wp) auto

lemma persist_wp: "Q () f \<Longrightarrow> transfers_ok E f \<Longrightarrow> wpE (persistSession E t s) Q (\<lambda>_. transfers_ok E) f"
  and store_wp: "Q () f \<Longrightarrow> transfers_ok E f \<Longrightarrow> wpE (storeFile E m b) Q (\<lambda>_. transfers_ok E) f"
  unfolding persistSession_def storeFile_def by (intro wpE_ext_any; simp)+

lemma set_wp: "Q () (f\<lparr>ft_sessions := AList.update t s (ft_sessions f)\<rparr>) \<Longrightarrow> wpE (setSession t s) Q R f"
  "Q () (f\<lparr>ft_chunkBuffers := AList.update t b (ft_chunkBuffers f)\<rparr>) \<Longrightarrow> wpE (setBuffer t b) Q R f"
  unfolding setSession_def setBuffer_def by (intro wpE_modify; simp)+

lemma handleManifest_keeps: "transfers_ok E f \<Longrightarrow> keeps E (handleManifest E m) f"
  unfolding handleManifest_def Let_def
  by (intro wpE_bind wpE_ext_any wpE_lift set_wp persist_wp progress_wp wpE_ret)
    (auto dest: transfers_ok_manifest)

lemma failTransfer_keeps:
  assumes "session_keeps_manifest E" "transfers_ok E f" "map_of (ft_sessions f) t = Some s"
  shows "keeps E (failTransfer E t s) f"
  unfolding failTransfer_def
  by (intro wpE_bind wpE_ext_any wpE_lift set_wp persist_wp)
    (auto intro: transfers_ok_session [OF assms(2,3)] keeps_manifest [OF assms(1)] assms)

lemma completeTransfer_keeps:
  assumes "session_keeps_manifest E" "transfers_ok E f" "map_of (ft_sessions f) t = Some s"
    and "map_of (ft_chunkBuffers f) t = Some b"
  shows "keeps E (completeTransfer E t s p c) f"
proof -
  have "buffer_verified E (se_manifest E s) b" using assms(2-4) by (auto elim: transfers_okD)
  then show ?thesis
    unfolding completeTransfer_def Let_def
    by (intro wpE_bind wpE_gets wpE_sum store_wp wpE_modify wpE_ext_any told_wp failTransfer_keeps)
      (use assms transfers_ok_delete [OF assms(2)] in auto)
qed

text \<open>Between the two assignments of a chunk: the transfer has this session and a buffer.\<close>

definition transfer_open :: "('w, 'm, 'c, 's) ft_env \<Rightarrow> string \<Rightarrow> 's \<Rightarrow> ('m, 'c, 's) ft_svc \<Rightarrow> bool" where
  "transfer_open E t s f \<longleftrightarrow> transfers_ok E f \<and> map_of (ft_sessions f) t = Some s \<and> (\<exists>b. map_of (ft_chunkBuffers f) t = Some b)"

lemma buffer_wp:
  assumes "transfers_ok E f" "map_of (ft_sessions f) t = Some s" "map_of (ft_chunkBuffers f) t = Some b"
    and "ft_base64ToBytes E (JStr (ch_dataB64 E c)) = Inr raw" "chunkMatches E (se_manifest E s) (ch_chunkIndex E c) raw"
    and "\<And>g. transfer_open E t s g \<Longrightarrow> Q () g"
  shows "wpE (setBuffer t (buffer_set (ch_chunkIndex E c) c b)) Q R f"
proof -
  have "buffer_verified E (se_manifest E s) b" using assms(1-3) by (auto elim: transfers_okD)
  then have "transfers_ok E (f\<lparr>ft_chunkBuffers := AList.update t (buffer_set (ch_chunkIndex E c) c b) (ft_chunkBuffers f)\<rparr>)"
    by (intro transfers_ok_buffer [OF assms(1,2)] buffer_verified_set [OF _ assms(4,5)])
  then show ?thesis by (intro set_wp assms(6)) (simp add: transfer_open_def assms(2) update_conv)
qed

lemma mark_wp:
  assumes "session_keeps_manifest E" "transfer_open E t s f" "se_markChunkReceived E s i = Inr s'"
    and "\<And>g. transfer_open E t s' g \<Longrightarrow> Q () g"
  shows "wpE (setSession t s') Q R f"
  using assms(2) by (intro set_wp assms(4))
    (simp add: transfer_open_def transfers_ok_session keeps_manifest(2) [OF assms(1,3)] update_conv)

lemma settle_wp:
  assumes "session_keeps_manifest E" "transfer_open E t s f"
  shows "keeps E (bindE (persistSession E t s) (\<lambda>_. bindE (tellProgress E t q st) (\<lambda>_.
    bindE (if done then completeTransfer E t s p x else retE ()) (\<lambda>_. retE True)))) f"
proof -
  obtain b where "map_of (ft_chunkBuffers f) t = Some b" using assms(2) by (auto simp: transfer_open_def)
  then show ?thesis using assms(2) unfolding transfer_open_def
    by (intro wpE_bind persist_wp progress_wp wpE_if wpE_ret wpE_conseq [OF completeTransfer_keeps [OF assms(1), where b = b]]) auto
qed

lemma acceptChunk_keeps:
  assumes "session_keeps_manifest E" "transfers_ok E f" "map_of (ft_sessions f) (ch_transferId E c) = Some s"
    and "ft_base64ToBytes E (JStr (ch_dataB64 E c)) = Inr raw" "chunkMatches E (se_manifest E s) (ch_chunkIndex E c) raw"
  shows "keeps E (acceptChunk E s c p x) f"
  unfolding acceptChunk_def Let_def
  apply (rule wpE_bind, rule wpE_gets, rule wpE_option, rule wpE_throw, rule assms(2))
  apply (rule wpE_bind, rule buffer_wp [OF assms(2,3) _ assms(4,5)], assumption)
  apply (rule wpE_bind, rule wpE_lift)
   apply (rule wpE_bind, rule mark_wp [OF assms(1)], assumption, assumption, rule settle_wp [OF assms(1)], assumption)
  apply (simp add: transfer_open_def)
  done

lemma handleChunk_keeps:
  assumes "session_keeps_manifest E" "transfers_ok E f"
  shows "keeps E (handleChunk E c p x) f"
  unfolding handleChunk_def Let_def
  by (intro wpE_bind wpE_gets wpE_option wpE_ext_any wpE_ret wpE_lift wpE_if)
    (use assms in \<open>auto intro: acceptChunk_keeps\<close>)

lemma handleIncomingPayload_keeps:
  assumes "session_keeps_manifest E" "transfers_ok E f"
  shows "keeps E (handleIncomingPayload E pl p x) f"
proof (cases pl)
  case (AManifest m)
  then show ?thesis using assms by (simp add: handleManifest_keeps)
next
  case (AChunk c)
  then show ?thesis using assms by (simp add: handleChunk_keeps)
next
  case (Decoded v)
  then show ?thesis unfolding Decoded handleIncomingPayload.simps Let_def
    by (intro wpE_if wpE_bind wpE_lift wpE_ret handleManifest_keeps handleChunk_keeps assms)
qed

section \<open>Histories\<close>

text \<open>Payloads handled one after the other, each with its sender and context, whether a call returns or throws.\<close>

fun ft_run :: "('w, 'm, 'c, 's) ft_env \<Rightarrow> (('m, 'c) ft_payload \<times> jsval \<times> jsval) list
    \<Rightarrow> ('m, 'c, 's) ft_svc \<times> 'w \<Rightarrow> ('m, 'c, 's) ft_svc \<times> 'w" where
  "ft_run E [] s = s"
| "ft_run E ((pl, p, x) # ps) s = ft_run E ps (snd (handleIncomingPayload E pl p x s))"

lemma ft_run_ok: "session_keeps_manifest E \<Longrightarrow> transfers_ok E f \<Longrightarrow> transfers_ok E (fst (ft_run E ps (f, w)))"
proof (induction ps arbitrary: f w)
  case (Cons a ps)
  obtain pl p x where a: "a = (pl, p, x)" by (cases a)
  from wpE_D_snd [OF handleIncomingPayload_keeps [OF Cons.prems]] Cons.IH [OF Cons.prems(1)]
  show ?case unfolding a ft_run.simps by (metis prod.collapse)
qed simp

text \<open>C29. Whatever payloads arrive, in whatever order, from whomever, and whatever the storage and the
  callbacks do: a file that is handed to the application was put together from a buffer in which every
  chunk stands at its own index and has the hash that the manifest announces for that index.\<close>
theorem received_files_verified:
  assumes "session_keeps_manifest E" "new_FileTransferService kv dep rcv = Inr f"
    and "Received transferId manifest fileBytes sender context \<in> set (ft_log (fst (ft_run E ps (f, w))))"
  shows "\<exists>buffer. buffer_verified E manifest buffer \<and> ft_reassemble E manifest (Some buffer) = Inr fileBytes"
proof -
  have "transfers_ok E f" using assms(2) by (auto simp: new_FileTransferService_def transfers_ok_def split: if_splits)
  from ft_run_ok [OF assms(1) this, of ps w] assms(3) show ?thesis
    unfolding transfers_ok_def by fastforce
qed

section \<open>A file arrives whole\<close>

text \<open>What the chunker promises of a file that it has cut.\<close>

definition cut :: "('w, 'm, 'c, 's) ft_env \<Rightarrow> octets \<Rightarrow> 'm \<Rightarrow> 'c list \<Rightarrow> bool" where
  "cut E fileBytes m cs \<longleftrightarrow> cs \<noteq> [] \<and> mf_chunkCount E m = length cs
     \<and> ft_reassemble E m (Some (map Some cs)) = Inr fileBytes
     \<and> (\<forall>i<length cs. ch_transferId E (cs ! i) = mf_transferId E m \<and> ch_chunkIndex E (cs ! i) = i
         \<and> (\<exists>raw. ft_base64ToBytes E (JStr (ch_dataB64 E (cs ! i))) = Inr raw \<and> chunkMatches E m i raw))"

text \<open>What the session record promises: its fields, the mark of a chunk, completeness.\<close>

definition session_laws :: "('w, 'm, 'c, 's) ft_env \<Rightarrow> bool" where
  "session_laws E \<longleftrightarrow>
     (\<forall>m r a. length r = mf_chunkCount E m \<longrightarrow> (\<exists>s. se_new E (mf_transferId E m) m r ''pending'' a a = Inr s
        \<and> se_manifest E s = m \<and> se_receivedChunks E s = r))
     \<and> (\<forall>s i. i < length (se_receivedChunks E s) \<longrightarrow> (\<exists>s'. se_markChunkReceived E s i = Inr s'
        \<and> se_manifest E s' = se_manifest E s \<and> se_receivedChunks E s' = (se_receivedChunks E s)[i := True]))
     \<and> (\<forall>s. se_isComplete E s \<longleftrightarrow> list_all id (se_receivedChunks E s))"

lemma session_lawsD:
  assumes "session_laws E"
  shows "length r = mf_chunkCount E m \<Longrightarrow> \<exists>s. se_new E (mf_transferId E m) m r ''pending'' a a = Inr s
      \<and> se_manifest E s = m \<and> se_receivedChunks E s = r"
    and "i < length (se_receivedChunks E s) \<Longrightarrow> \<exists>s'. se_markChunkReceived E s i = Inr s'
      \<and> se_manifest E s' = se_manifest E s \<and> se_receivedChunks E s' = (se_receivedChunks E s)[i := True]"
    and "se_isComplete E s \<longleftrightarrow> list_all id (se_receivedChunks E s)"
  using assms by (auto simp: session_laws_def)

text \<open>No call into the storage or the application throws.\<close>

definition answers :: "('w, 'a) io \<Rightarrow> bool" where
  "answers m \<longleftrightarrow> (\<forall>w. \<exists>x w'. m w = (Inr x, w'))"

definition quiet_host :: "('w, 'm, 'c, 's) ft_env \<Rightarrow> bool" where
  "quiet_host E \<longleftrightarrow> (\<forall>k v. answers (kv_set (ft_kvStore E) k v)) \<and> (\<forall>k. answers (kv_delete (ft_kvStore E) k))
     \<and> answers (ft_now E) \<and> (\<forall>f t q st. ft_onProgress E = Some f \<longrightarrow> answers (f t q st))
     \<and> (\<forall>t m b p x. answers (ft_onFileReceived E t m b p x))"

abbreviation returning :: "('w, 'm, 'c, 's, 'a) ft_io \<Rightarrow> ('a \<Rightarrow> ('m, 'c, 's) ft_svc \<Rightarrow> bool) \<Rightarrow> ('m, 'c, 's) ft_svc \<Rightarrow> bool" where
  "returning m Q \<equiv> wpE m Q (\<lambda>_ _. False)"

lemma returning_snd: "returning m (\<lambda>_. Q) f \<Longrightarrow> Q (fst (snd (m (f, w))))"
  by (rule wpE_D_snd, erule wpE_conseq) simp_all

lemma ext_returning: "answers m \<Longrightarrow> (\<And>x. Q x f) \<Longrightarrow> returning (ext m) Q f"
  by (rule wpE_ext) (simp_all add: answers_def, metis Inl_Inr_False fst_conv)

lemma told_returning: "answers call \<Longrightarrow> Q () (f\<lparr>ft_log := ft_log f @ [ev]\<rparr>) \<Longrightarrow> returning (told ev call) Q f"
  unfolding told_def by (intro wpE_bind wpE_modify ext_returning) auto

text \<open>The deliveries among the calls.\<close>

fun is_received :: "'m ft_event \<Rightarrow> bool" where
  "is_received (Received t m b p x) = True"
| "is_received ev = False"

abbreviation deliveries :: "('m, 'c, 's) ft_svc \<Rightarrow> 'm ft_event list" where
  "deliveries f \<equiv> filter is_received (ft_log f)"

lemma progress_returning:
  assumes "quiet_host E" "Q () f" "Q () (f\<lparr>ft_log := ft_log f @ [Progress t q st]\<rparr>)"
  shows "returning (tellProgress E t q st) Q f"
  unfolding tellProgress_def using assms by (intro wpE_option wpE_ret told_returning) (auto simp: quiet_host_def)

lemma persist_returning: "quiet_host E \<Longrightarrow> Q () f \<Longrightarrow> returning (persistSession E t s) Q f"
  and store_returning: "quiet_host E \<Longrightarrow> Q () f \<Longrightarrow> returning (storeFile E m b) Q f"
  unfolding persistSession_def storeFile_def by (intro ext_returning; simp add: quiet_host_def)+

text \<open>The chunks with the indices in \<open>D\<close> have arrived.\<close>

definition arrived :: "'c list \<Rightarrow> nat set \<Rightarrow> 'c option list" where
  "arrived cs D = map (\<lambda>i. if i \<in> D then Some (cs ! i) else None) [0..<length cs]"

definition receiving :: "('w, 'm, 'c, 's) ft_env \<Rightarrow> 'm \<Rightarrow> 'c list \<Rightarrow> 'm ft_event list \<Rightarrow> nat set \<Rightarrow> ('m, 'c, 's) ft_svc \<Rightarrow> bool" where
  "receiving E m cs past D f \<longleftrightarrow> (\<exists>s. map_of (ft_sessions f) (mf_transferId E m) = Some s \<and> se_manifest E s = m
       \<and> se_receivedChunks E s = map (\<lambda>i. i \<in> D) [0..<length cs])
     \<and> map_of (ft_chunkBuffers f) (mf_transferId E m) = Some (arrived cs D) \<and> deliveries f = past"

definition delivered :: "('w, 'm, 'c, 's) ft_env \<Rightarrow> 'm \<Rightarrow> 'm ft_event list \<Rightarrow> ('m, 'c, 's) ft_svc \<Rightarrow> bool" where
  "delivered E m past f \<longleftrightarrow> (\<exists>s. map_of (ft_sessions f) (mf_transferId E m) = Some s \<and> se_manifest E s = m)
     \<and> map_of (ft_chunkBuffers f) (mf_transferId E m) = None \<and> deliveries f = past"

lemma arrived_insert: "i < length cs \<Longrightarrow> buffer_set i (cs ! i) (arrived cs D) = arrived cs (insert i D)"
  by (auto simp: arrived_def buffer_set_def intro!: nth_equalityI simp: nth_list_update)

lemma marked_insert: "i < n \<Longrightarrow> (map (\<lambda>i. i \<in> D) [0..<n])[i := True] = map (\<lambda>j. j \<in> insert i D) [0..<n]"
  by (auto intro!: nth_equalityI simp: nth_list_update split: if_splits)

lemma arrived_all: "{..<length cs} \<subseteq> D \<Longrightarrow> arrived cs D = map Some cs"
  by (auto simp: arrived_def intro!: nth_equalityI)

lemma marked_all: "list_all id (map (\<lambda>i. i \<in> D) [0..<n]) \<longleftrightarrow> {..<n} \<subseteq> D"
  by (auto simp: list_all_iff)

lemma receiving_log: "\<not> is_received ev \<Longrightarrow> receiving E m cs past D (f\<lparr>ft_log := ft_log f @ [ev]\<rparr>) = receiving E m cs past D f"
  by (simp add: receiving_def)

lemma manifest_returning:
  assumes "session_laws E" "quiet_host E" "cut E fileBytes m cs"
  shows "returning (handleManifest E m) (\<lambda>_. receiving E m cs (deliveries f) {}) f"
proof -
  have n: "mf_chunkCount E m = length cs" using assms(3) by (simp add: cut_def)
  let ?f = "\<lambda>s. f\<lparr>ft_sessions := AList.update (mf_transferId E m) s (ft_sessions f),
      ft_chunkBuffers := AList.update (mf_transferId E m) (replicate (length cs) None) (ft_chunkBuffers f)\<rparr>"
  have *: "receiving E m cs (deliveries f) {} (?f s)"
    if "se_manifest E s = m" "se_receivedChunks E s = replicate (length cs) False" for s
    using that by (simp add: receiving_def arrived_def update_conv map_replicate_const)
  have new: "\<exists>s. se_new E (mf_transferId E m) m (replicate (length cs) False) ''pending'' a a = Inr s
      \<and> se_manifest E s = m \<and> se_receivedChunks E s = replicate (length cs) False" for a
    by (rule session_lawsD(1) [OF assms(1)]) (simp add: n)
  show ?thesis
    unfolding handleManifest_def Let_def n
  proof (rule wpE_bind, rule ext_returning)
    show "answers (ft_now E)" using assms(2) by (simp add: quiet_host_def)
    fix now
    obtain s where s: "se_new E (mf_transferId E m) m (replicate (length cs) False) ''pending'' now now = Inr s"
        "se_manifest E s = m" "se_receivedChunks E s = replicate (length cs) False"
      using new by blast
    show "returning (bindE (liftE (se_new E (mf_transferId E m) m (replicate (length cs) False) ''pending'' now now))
        (\<lambda>session. bindE (setSession (mf_transferId E m) session) (\<lambda>_.
          bindE (setBuffer (mf_transferId E m) (replicate (length cs) None)) (\<lambda>_.
          bindE (persistSession E (mf_transferId E m) session) (\<lambda>_.
          bindE (tellProgress E (mf_transferId E m) 0 ''pending'') (\<lambda>_. retE True))))))
        (\<lambda>_. receiving E m cs (deliveries f) {}) f"
      unfolding s(1) liftE_Inr bindE_retE
      by (intro wpE_bind set_wp persist_returning progress_returning wpE_ret assms(2))
        (use * [OF s(2,3)] in \<open>simp_all add: receiving_def\<close>)
  qed
qed

text \<open>The last chunk completes the transfer.\<close>

lemma complete_returning:
  assumes "quiet_host E" "cut E fileBytes m cs" "receiving E m cs past D f" "{..<length cs} \<subseteq> D"
    and "map_of (ft_sessions f) (mf_transferId E m) = Some s"
  shows "returning (completeTransfer E (mf_transferId E m) s p x)
    (\<lambda>_. delivered E m (past @ [Received (mf_transferId E m) m fileBytes p x])) f"
proof -
  have [simp]: "se_manifest E s = m" "map_of (ft_chunkBuffers f) (mf_transferId E m) = Some (map Some cs)" "deliveries f = past"
    using assms(3,5) arrived_all [OF assms(4)] by (auto simp: receiving_def)
  have [simp]: "ft_reassemble E m (Some (map Some cs)) = Inr fileBytes" using assms(2) by (simp add: cut_def)
  show ?thesis unfolding completeTransfer_def Let_def
    by (rule wpE_bind, rule wpE_gets, simp) (intro wpE_bind store_returning wpE_modify ext_returning told_returning assms(1);
      use assms(1,5) in \<open>simp add: quiet_host_def delivered_def delete_conv'\<close>)
qed

text \<open>After a chunk: either more are missing, or the file was delivered.\<close>

definition after_chunk :: "('w, 'm, 'c, 's) ft_env \<Rightarrow> octets \<Rightarrow> 'm \<Rightarrow> 'c list \<Rightarrow> 'm ft_event list \<Rightarrow> nat set \<Rightarrow> jsval \<Rightarrow> jsval
    \<Rightarrow> ('m, 'c, 's) ft_svc \<Rightarrow> bool" where
  "after_chunk E fileBytes m cs past D p x f \<longleftrightarrow>
     (if {..<length cs} \<subseteq> D then delivered E m (past @ [Received (mf_transferId E m) m fileBytes p x]) f
      else receiving E m cs past D f)"

lemma settle_returning:
  assumes "session_laws E" "quiet_host E" "cut E fileBytes m cs" "receiving E m cs past D f"
    and "map_of (ft_sessions f) (mf_transferId E m) = Some s"
  shows "returning (bindE (persistSession E (mf_transferId E m) s) (\<lambda>_. bindE (tellProgress E (mf_transferId E m) q st) (\<lambda>_.
    bindE (if se_isComplete E s then completeTransfer E (mf_transferId E m) s p x else retE ()) (\<lambda>_. retE True))))
    (\<lambda>_. after_chunk E fileBytes m cs past D p x) f"
proof -
  have all: "se_isComplete E s \<longleftrightarrow> {..<length cs} \<subseteq> D"
    using assms(4,5) by (auto simp: receiving_def session_lawsD(3) [OF assms(1)] marked_all)
  have rest: "returning (bindE (if se_isComplete E s then completeTransfer E (mf_transferId E m) s p x else retE ()) (\<lambda>_. retE True))
      (\<lambda>_. after_chunk E fileBytes m cs past D p x) g"
    if g: "receiving E m cs past D g" "map_of (ft_sessions g) (mf_transferId E m) = Some s" for g
    by (intro wpE_bind wpE_if wpE_ret wpE_conseq [OF complete_returning [OF assms(2,3) g(1) _ g(2)]])
      (use g all in \<open>auto simp: after_chunk_def intro: wpE_ret\<close>)
  show ?thesis
    by (rule wpE_bind, rule persist_returning [OF assms(2)], rule wpE_bind, rule progress_returning [OF assms(2)]; rule rest)
      (use assms(4,5) in \<open>simp_all add: receiving_log\<close>)
qed

lemma chunk_returning:
  assumes "session_laws E" "quiet_host E" "cut E fileBytes m cs" "receiving E m cs past D f" "i < length cs"
  shows "returning (handleChunk E (cs ! i) p x) (\<lambda>_. after_chunk E fileBytes m cs past (insert i D) p x) f"
proof -
  have ids: "ch_transferId E (cs ! i) = mf_transferId E m" "ch_chunkIndex E (cs ! i) = i"
    using assms(3,5) by (auto simp: cut_def)
  obtain raw where raw: "ft_base64ToBytes E (JStr (ch_dataB64 E (cs ! i))) = Inr raw" "chunkMatches E m i raw"
    using assms(3,5) by (auto simp: cut_def)
  obtain s where s: "map_of (ft_sessions f) (mf_transferId E m) = Some s" "se_manifest E s = m"
      "se_receivedChunks E s = map (\<lambda>i. i \<in> D) [0..<length cs]"
    and b: "map_of (ft_chunkBuffers f) (mf_transferId E m) = Some (arrived cs D)" and past: "deliveries f = past"
    using assms(4) by (auto simp: receiving_def)
  obtain s' where s': "se_markChunkReceived E s i = Inr s'" "se_manifest E s' = m"
      "se_receivedChunks E s' = map (\<lambda>j. j \<in> insert i D) [0..<length cs]"
    using session_lawsD(2) [OF assms(1), of i s] s assms(5) by (auto simp: marked_insert)
  let ?g = "f\<lparr>ft_chunkBuffers := AList.update (mf_transferId E m) (arrived cs (insert i D)) (ft_chunkBuffers f),
      ft_sessions := AList.update (mf_transferId E m) s' (ft_sessions f)\<rparr>"
  have "receiving E m cs past (insert i D) ?g" "map_of (ft_sessions ?g) (mf_transferId E m) = Some s'"
    using s' past by (simp_all add: receiving_def update_conv)
  note settle = settle_returning [OF assms(1-3) this]
  have "returning (acceptChunk E s (cs ! i) p x) (\<lambda>_. after_chunk E fileBytes m cs past (insert i D) p x) f"
    unfolding acceptChunk_def Let_def ids
    by (rule wpE_bind, rule wpE_gets)
      (simp only: b s'(1) option.case arrived_insert [OF assms(5)] liftE_Inr bindE_retE,
       rule wpE_bind, rule set_wp, rule wpE_bind, rule set_wp, insert settle, simp)
  then show ?thesis unfolding handleChunk_def Let_def ids
    by (intro wpE_bind wpE_gets) (simp add: s raw)
qed

text \<open>The rest of the arrivals, each an index with its sender and context.\<close>

abbreviation chunk_at :: "'c list \<Rightarrow> nat \<times> jsval \<times> jsval \<Rightarrow> ('m, 'c) ft_payload \<times> jsval \<times> jsval" where
  "chunk_at cs \<equiv> \<lambda>(i, p, x). (AChunk (cs ! i), p, x)"

lemma arrivals_deliver:
  assumes "session_laws E" "quiet_host E" "cut E fileBytes m cs"
  shows "receiving E m cs past D f \<Longrightarrow> distinct (map fst as) \<Longrightarrow> fst ` set as = {..<length cs} - D \<Longrightarrow> as \<noteq> []
    \<Longrightarrow> delivered E m (past @ [Received (mf_transferId E m) m fileBytes (fst (snd (last as))) (snd (snd (last as)))])
      (fst (ft_run E (map (chunk_at cs) as) (f, w)))"
proof (induction as arbitrary: D f w)
  case (Cons a as)
  obtain i p x where a: "a = (i, p, x)" by (cases a)
  have i: "i < length cs" using Cons.prems(3) by (auto simp: a)
  have rest: "fst ` set as = {..<length cs} - insert i D" using Cons.prems(2,3) by (force simp: a)
  obtain g v where run: "snd (handleChunk E (cs ! i) p x (f, w)) = (g, v)" by fastforce
  then have "after_chunk E fileBytes m cs past (insert i D) p x g"
    using returning_snd [OF chunk_returning [OF assms Cons.prems(1) i], of p x w] by simp
  moreover have "{..<length cs} \<subseteq> insert i D \<longleftrightarrow> as = []" using rest by (metis Diff_eq_empty_iff image_is_empty set_empty)
  ultimately show ?case using Cons.IH [of "insert i D" g v] Cons.prems(2) rest
    by (cases "as = []") (simp_all add: a run after_chunk_def)
qed simp

lemma transfer_delivers:
  assumes "session_laws E" "quiet_host E" "cut E fileBytes m cs" "distinct (map fst as)" "fst ` set as = {..<length cs}"
  shows "delivered E m (deliveries f @ [Received (mf_transferId E m) m fileBytes (fst (snd (last as))) (snd (snd (last as)))])
    (fst (ft_run E ((AManifest m, p, x) # map (chunk_at cs) as) (f, w)))"
proof -
  obtain g v where run: "snd (handleManifest E m (f, w)) = (g, v)" by fastforce
  have "receiving E m cs (deliveries f) {} g" using returning_snd [OF manifest_returning [OF assms(1-3)], of f w] run by simp
  moreover have "as \<noteq> []" using assms(3,5) by (auto simp: cut_def)
  ultimately show ?thesis using arrivals_deliver [OF assms(1-3), of _ "{}" g as v] assms(4,5) by (simp add: run)
qed

text \<open>C30. A file that the chunker has cut is delivered whole: after its manifest, with its chunks in
  any order, from any senders and among whatever other transfers the service has open, exactly one file
  is handed to the application, with the bytes that were cut; the sender named is that of the last chunk.\<close>
theorem file_arrives_in_any_order:
  assumes "session_laws E" "quiet_host E" "cut E fileBytes m cs"
    and "distinct (map fst as)" "fst ` set as = {..<length cs}"
    and "ft_run E ((AManifest m, p, x) # map (\<lambda>(i, p, x). (AChunk (cs ! i), p, x)) as) (f, w) = (g, v)"
  shows "filter is_received (ft_log g) = filter is_received (ft_log f)
    @ [Received (mf_transferId E m) m fileBytes (fst (snd (last as))) (snd (snd (last as)))]"
  using transfer_delivers [OF assms(1-5), of f p x w] assms(6) by (simp add: delivered_def)

text \<open>C38. A chunk that is delivered a second time, after the file was handed over, throws a type error:
  the session outlives the buffer of its chunks, and the assignment finds no buffer.\<close>
theorem duplicate_chunk_after_delivery_throws:
  assumes "session_laws E" "quiet_host E" "cut E fileBytes m cs"
    and "distinct (map fst as)" "fst ` set as = {..<length cs}" "i < length cs"
    and "ft_run E ((AManifest m, p, x) # map (\<lambda>(i, p, x). (AChunk (cs ! i), p, x)) as) (f, w) = (g, v)"
  shows "handleIncomingPayload E (AChunk (cs ! i)) q y (g, v) = (Inl (no_buffer i), (g, v))"
proof -
  obtain s where "map_of (ft_sessions g) (mf_transferId E m) = Some s" "se_manifest E s = m"
      "map_of (ft_chunkBuffers g) (mf_transferId E m) = None"
    using transfer_delivers [OF assms(1-5), of f p x w] assms(7) by (auto simp: delivered_def)
  moreover obtain raw where "ft_base64ToBytes E (JStr (ch_dataB64 E (cs ! i))) = Inr raw" "chunkMatches E m i raw"
      "ch_transferId E (cs ! i) = mf_transferId E m" "ch_chunkIndex E (cs ! i) = i"
    using assms(3,6) by (auto simp: cut_def)
  ultimately show ?thesis by (simp add: handleChunk_def acceptChunk_def getsE_def bindE_def Let_def)
qed

section \<open>Sending\<close>

fun deposit_of :: "'m ft_event \<Rightarrow> octets option" where
  "deposit_of (Deposit p x b) = Some b"
| "deposit_of ev = None"

abbreviation sent :: "('m, 'c, 's) ft_svc \<Rightarrow> octets list" where
  "sent f \<equiv> List.map_filter deposit_of (ft_log f)"

lemma sent_append [simp]: "List.map_filter deposit_of (xs @ ys) = List.map_filter deposit_of xs @ List.map_filter deposit_of ys"
  by (simp add: List.map_filter_def)

lemma sent_one [simp]: "List.map_filter deposit_of [Deposit p x b] = [b]" "List.map_filter deposit_of [Progress t q st] = []"
  by (simp_all add: List.map_filter_def)

lemma deposit_wp: "(\<And>g. sent g = sent f @ [b] \<Longrightarrow> Q () g) \<Longrightarrow> (\<And>e g. sent g = sent f @ [b] \<Longrightarrow> R e g) \<Longrightarrow> wpE (deposit E p x b) Q R f"
  unfolding deposit_def told_def by (intro wpE_bind wpE_modify wpE_ext_any) simp_all

lemma progress_sent_wp: "(\<And>g. sent g = sent f \<Longrightarrow> Q () g) \<Longrightarrow> (\<And>e g. sent g = sent f \<Longrightarrow> R e g) \<Longrightarrow> wpE (tellProgress E t q st) Q R f"
  unfolding tellProgress_def told_def by (intro wpE_option wpE_ret wpE_bind wpE_modify wpE_ext_any) simp_all

lemma sendChunks_wp:
  "map (ch_toBytes E) cs = map Inr bs \<Longrightarrow>
    wpE (sendChunks E p x t n i cs) (\<lambda>_ g. sent g = sent f @ bs) (\<lambda>_ g. \<exists>k. sent g = sent f @ take k bs) f"
proof (induction cs arbitrary: i f bs)
  case (Cons c cs)
  then obtain b bs' where bs: "bs = b # bs'" "ch_toBytes E c = Inr b" "map (ch_toBytes E) cs = map Inr bs'" by (cases bs) auto
  have "wpE (sendChunks E p x t n (i + 1) cs) (\<lambda>_ g. sent g = sent f @ bs) (\<lambda>_ g. \<exists>k. sent g = sent f @ take k bs) g"
    if "sent g = sent f @ [b]" for g
    by (rule wpE_conseq [OF Cons.IH [OF bs(3)]]) (use that in \<open>auto simp: bs(1) intro: exI [of _ "Suc _"]\<close>)
  moreover have "\<exists>k. sent f @ [b] = sent f @ take k bs" by (intro exI [of _ 1]) (simp add: bs(1))
  ultimately show ?case
    unfolding sendChunks.simps bs(2) liftE_Inr bindE_retE by (intro wpE_bind deposit_wp progress_sent_wp) auto
qed (simp add: wpE_ret)

text \<open>Once the file is cut: the manifest, the chunks, the file itself.\<close>

definition sending :: "('w, 'm, 'c, 's) ft_env \<Rightarrow> jsval \<Rightarrow> jsval \<Rightarrow> octets \<Rightarrow> 'm \<Rightarrow> 'c list \<Rightarrow> ('w, 'm, 'c, 's, string \<times> 'm) ft_io" where
  "sending E peerAccountId contextId bytes manifest chunks =
     bindE (liftE (mf_toBytes E manifest)) (\<lambda>manifestBytes.
     bindE (deposit E peerAccountId contextId manifestBytes) (\<lambda>_.
     bindE (sendChunks E peerAccountId contextId (mf_transferId E manifest) (length chunks) 0 chunks) (\<lambda>_.
     bindE (storeFile E manifest bytes) (\<lambda>_. retE (mf_transferId E manifest, manifest)))))"

lemma sendFile_sending:
  assumes "bytes \<noteq> []" "nonempty_string p" "nonempty_string x"
    and "ft_chunk E bytes nm ty (if is_string txt then txt else JStr []) w = (Inr (m, cs), w')"
  shows "sendFile E (Some bytes) nm ty p x txt (f, w) = sending E p x bytes m cs (f, w')"
  using assms by (simp add: sendFile_def sending_def ext_def bindE_def)

lemma sending_wp:
  assumes "mf_toBytes E m = Inr b" "map (ch_toBytes E) cs = map Inr bs"
  shows "wpE (sending E p x bytes m cs) (\<lambda>_ g. sent g = sent f @ b # bs) (\<lambda>_ g. \<exists>k. sent g = sent f @ take k (b # bs)) f"
proof -
  have "wpE (bindE (sendChunks E p x (mf_transferId E m) (length cs) 0 cs) (\<lambda>_.
      bindE (storeFile E m bytes) (\<lambda>_. retE (mf_transferId E m, m))))
      (\<lambda>_ g. sent g = sent f @ b # bs) (\<lambda>_ g. \<exists>k. sent g = sent f @ take k (b # bs)) g"
    if "sent g = sent f @ [b]" for g
    unfolding storeFile_def
    by (rule wpE_bind, rule wpE_conseq [OF sendChunks_wp [OF assms(2)]], (intro wpE_bind wpE_ext_any wpE_ret))
      (use that in \<open>auto intro: exI [of _ "Suc (length bs)"] exI [of _ "Suc _"]\<close>)
  note rest = this
  have first: "\<exists>k. sent g = sent f @ take k (b # bs)" if "sent g = sent f @ [b]" for g :: "('b, 'c, 'd) ft_svc"
    by (intro exI [of _ 1]) (simp add: that)
  show ?thesis unfolding sending_def assms(1) liftE_Inr bindE_retE
    by (rule wpE_bind, rule deposit_wp, erule rest, erule first)
qed

text \<open>The store of the file is the last step, and the browser keeps it.\<close>

lemma sending_ends:
  assumes "sending E p x bytes m cs s = (Inr r, t)"
  obtains g w v where "storeFile E m bytes (g, w) = (Inr (), (g, v))" "t = (g, v)"
proof -
  obtain a where a: "storeFile E m bytes a = (Inr (), t)"
    using assms unfolding sending_def bindE_def by (auto split: prod.splits sum.splits)
  obtain g w h v where "a = (g, w)" "t = (h, v)" by (cases a; cases t)
  with a have "h = g" by (auto simp: storeFile_def ext_def split: prod.splits)
  with a show thesis using that \<open>a = (g, w)\<close> \<open>t = (h, v)\<close> by simp
qed

lemma idb_get_set:
  "kv_set (getKeyValueStore owner) k (JStr b) w = (Inr (), v) \<Longrightarrow> kv_get (getKeyValueStore owner) k v = (Inr (JStr b), v)"
  by (auto simp: getKeyValueStore_def idb_kv_def idb_put_def idb_get_def idb_cloneJson_def bindE_def update_conv Let_def)

text \<open>C31. What \<open>sendFile\<close> hands to the application is the manifest and then the chunks in their order:
  a call that throws on the way has deposited a prefix of them, a call that returns has deposited all of
  them, once each, and has stored the file: on the browser storage \<open>getFile\<close> answers its bytes.\<close>
theorem sendFile_sends_in_order_and_keeps_the_file:
  assumes "ft_kvStore E = getKeyValueStore owner" "\<And>b. ft_base64ToBytes E (JStr (ft_bytesToBase64 E b)) = Inr b"
    and "bytes \<noteq> []" "nonempty_string p" "nonempty_string x"
    and "ft_chunk E bytes nm ty (if is_string txt then txt else JStr []) w = (Inr (m, cs), w')"
    and "mf_toBytes E m = Inr b" "map (ch_toBytes E) cs = map Inr bs"
    and "sendFile E (Some bytes) nm ty p x txt (f, w) = (r, (g, v))"
  shows "case r of
      Inl e \<Rightarrow> \<exists>k. List.map_filter deposit_of (ft_log g) = List.map_filter deposit_of (ft_log f) @ take k (b # bs)
    | Inr result \<Rightarrow> List.map_filter deposit_of (ft_log g) = List.map_filter deposit_of (ft_log f) @ b # bs
        \<and> getFile E (mf_fileHashHex E m) (g, v) = (Inr (Some bytes), (g, v))"
proof -
  have run: "sending E p x bytes m cs (f, w') = (r, (g, v))" using sendFile_sending [OF assms(3-6)] assms(9) by simp
  have wp: "wpE (sending E p x bytes m cs) (\<lambda>_ g. sent g = sent f @ b # bs) (\<lambda>_ g. \<exists>k. sent g = sent f @ take k (b # bs)) f"
    by (rule sending_wp [OF assms(7,8)])
  show ?thesis
  proof (cases r)
    case (Inl e)
    with wpE_D_Inl [OF wp] run show ?thesis by simp
  next
    case (Inr result)
    then obtain u where "storeFile E m bytes (g, u) = (Inr (), (g, v))" using sending_ends run by (metis prod.inject)
    then have "kv_get (ft_kvStore E) (''file:'' @ mf_fileHashHex E m) v = (Inr (JStr (ft_bytesToBase64 E bytes)), v)"
      unfolding assms(1) storeFile_def by (intro idb_get_set) (auto simp: ext_def split: prod.splits)
    with wpE_D_Inr [OF wp, of w'] run Inr show ?thesis by (simp add: getFile_def ext_def bindE_def assms(2))
  qed
qed

section \<open>A concrete transfer\<close>

text \<open>A chunker with one byte per chunk and the bytes themselves as hash, over the browser storage.\<close>

definition latin :: "octets \<Rightarrow> string" where
  "latin b = map (\<lambda>x. char_of (unat x)) b"

fun unlatin :: "jsval \<Rightarrow> octets res" where
  "unlatin (JStr s) = Inr (map (\<lambda>c. word_of_nat (of_char c)) s)"
| "unlatin v = Inl (plain_err ''not a string'')"

lemma unlatin_latin: "unlatin (JStr (latin b)) = Inr b"
proof -
  have "word_of_nat (unat x mod 256) = x" for x :: "8 word"
    using unsigned_less [of x, where ?'a = nat] by simp
  then show ?thesis by (simp add: latin_def comp_def)
qed

fun glue :: "(string \<times> nat \<times> string) option list \<Rightarrow> octets res" where
  "glue [] = Inr []"
| "glue (None # cs) = Inl (plain_err ''missing chunk'')"
| "glue (Some (t, i, d) # cs) = bind_r (unlatin (JStr d)) (\<lambda>b. bind_r (glue cs) (\<lambda>bs. Inr (b @ bs)))"

definition demo_chunks :: "octets \<Rightarrow> (string \<times> nat \<times> string) list" where
  "demo_chunks bytes = map (\<lambda>(i, b). (''t'', i, latin [b])) (enumerate 0 bytes)"

definition demo_manifest :: "octets \<Rightarrow> string \<times> string list" where
  "demo_manifest bytes = (''t'', map (\<lambda>b. latin [b]) bytes)"

definition demo_ft :: "(idb, string \<times> string list, string \<times> nat \<times> string, (string \<times> string list) \<times> bool list \<times> string) ft_env" where
  "demo_ft = \<lparr>ft_kvStore = getKeyValueStore None, ft_onSendDeposit = \<lambda>_ _ _. retE (), ft_onProgress = None,
     ft_onFileReceived = \<lambda>_ _ _ _ _. retE (), ft_logError = \<lambda>_. retE (), ft_now = retE 0,
     ft_chunk = \<lambda>bytes _ _ _. retE (demo_manifest bytes, demo_chunks bytes),
     ft_reassemble = \<lambda>m b. case b of None \<Rightarrow> Inl (plain_err ''no buffer'') | Some cs \<Rightarrow> glue cs,
     ft_base64ToBytes = unlatin, ft_bytesToBase64 = latin, ft_hashHex = latin,
     mf_fromJSON = \<lambda>_. Inl (plain_err ''not a manifest''), mf_toBytes = \<lambda>m. Inr [0],
     mf_transferId = fst, mf_fileHashHex = \<lambda>m. concat (snd m), mf_chunkCount = \<lambda>m. length (snd m), mf_chunkHashesHex = snd,
     ch_fromJSON = \<lambda>_. Inl (plain_err ''not a chunk''), ch_toBytes = \<lambda>c. unlatin (JStr (snd (snd c))),
     ch_transferId = fst, ch_chunkIndex = \<lambda>c. fst (snd c), ch_dataB64 = \<lambda>c. snd (snd c),
     se_new = \<lambda>t m r st a b. Inr (m, r, st), se_manifest = fst, se_transferId = \<lambda>s. fst (fst s),
     se_receivedChunks = \<lambda>s. fst (snd s), se_createdAtMs = \<lambda>_. 0, se_progress = \<lambda>_. 0, se_state = \<lambda>s. snd (snd s),
     se_isComplete = \<lambda>s. list_all id (fst (snd s)),
     se_markChunkReceived = \<lambda>(m, r, st) i. if i < length r then Inr (m, r[i := True], ''receiving'') else Inl (plain_err ''index''),
     se_toJSON = \<lambda>_. JNull\<rparr>"

definition demo_fts :: "(string \<times> string list, string \<times> nat \<times> string, (string \<times> string list) \<times> bool list \<times> string) ft_svc" where
  "demo_fts = \<lparr>ft_sessions = [], ft_chunkBuffers = [], ft_log = []\<rparr>"

lemma demo_session_laws: "session_laws demo_ft" "session_keeps_manifest demo_ft"
  by (auto simp: session_laws_def session_keeps_manifest_def demo_ft_def split: if_splits)

lemma demo_quiet: "quiet_host demo_ft"
  by (auto simp: quiet_host_def answers_def demo_ft_def getKeyValueStore_def idb_kv_def idb_put_def idb_get_def idb_del_def
      bindE_def Let_def)

lemma demo_cut: "cut demo_ft [7, 8] (demo_manifest [7, 8]) (demo_chunks [7, 8])"
  by (auto simp: cut_def demo_ft_def demo_manifest_def demo_chunks_def chunkMatches_def unlatin_latin bind_r_def less_Suc_eq
      simp del: unlatin.simps)

theorem received_files_verified_witness:
  "\<exists>buffer. buffer_verified demo_ft (demo_manifest [7]) buffer \<and> ft_reassemble demo_ft (demo_manifest [7]) (Some buffer) = Inr [7]"
proof (rule received_files_verified [OF demo_session_laws(2)])
  show "new_FileTransferService True True True = Inr demo_fts" by (simp add: new_FileTransferService_def demo_fts_def)
  show "Received ''t'' (demo_manifest [7]) [7] (JStr ''bob'') JUndef
      \<in> set (ft_log (fst (ft_run demo_ft [(AManifest (demo_manifest [7]), JStr ''bob'', JUndef),
        (AChunk (''t'', 0, latin [7]), JStr ''bob'', JUndef)] (demo_fts, []))))"
    by code_simp
qed

theorem file_arrives_in_any_order_witness:
  "filter is_received (ft_log (fst (ft_run demo_ft ((AManifest (demo_manifest [7, 8]), JNull, JNull)
      # map (\<lambda>(i, p, x). (AChunk (demo_chunks [7, 8] ! i), p, x)) [(1, JNull, JNull), (0, JStr ''bob'', JUndef)]) (demo_fts, []))))
    = [Received ''t'' (demo_manifest [7, 8]) [7, 8] (JStr ''bob'') JUndef]"
proof -
  obtain g v where run: "ft_run demo_ft ((AManifest (demo_manifest [7, 8]), JNull, JNull)
      # map (\<lambda>(i, p, x). (AChunk (demo_chunks [7, 8] ! i), p, x)) [(1, JNull, JNull), (0, JStr ''bob'', JUndef)]) (demo_fts, []) = (g, v)"
    by fastforce
  have "mf_transferId demo_ft (demo_manifest [7, 8]) = ''t''" by (simp add: demo_ft_def demo_manifest_def)
  with file_arrives_in_any_order [OF demo_session_laws(1) demo_quiet demo_cut _ _ run] show ?thesis
    unfolding run by (auto simp: demo_chunks_def demo_fts_def lessThan_Suc insert_commute)
qed

theorem duplicate_chunk_after_delivery_throws_witness:
  "\<exists>g v. ft_run demo_ft ((AManifest (demo_manifest [7, 8]), JNull, JNull)
      # map (\<lambda>(i, p, x). (AChunk (demo_chunks [7, 8] ! i), p, x)) [(1, JNull, JNull), (0, JNull, JNull)]) (demo_fts, []) = (g, v)
    \<and> handleIncomingPayload demo_ft (AChunk (demo_chunks [7, 8] ! 1)) JNull JNull (g, v) = (Inl (no_buffer 1), (g, v))"
proof -
  obtain g v where run: "ft_run demo_ft ((AManifest (demo_manifest [7, 8]), JNull, JNull)
      # map (\<lambda>(i, p, x). (AChunk (demo_chunks [7, 8] ! i), p, x)) [(1, JNull, JNull), (0, JNull, JNull)]) (demo_fts, []) = (g, v)"
    by fastforce
  from duplicate_chunk_after_delivery_throws [OF demo_session_laws(1) demo_quiet demo_cut _ _ _ run, of 1 JNull JNull] run
  show ?thesis by (auto simp: demo_chunks_def lessThan_Suc insert_commute)
qed

theorem sendFile_sends_in_order_and_keeps_the_file_witness:
  "\<exists>r g v. sendFile demo_ft (Some [7, 8]) JNull JNull (JStr ''bob'') (JStr ''chat'') JNull (demo_fts, []) = (r, (g, v))
    \<and> (case r of
      Inl e \<Rightarrow> \<exists>k. List.map_filter deposit_of (ft_log g) = List.map_filter deposit_of (ft_log demo_fts) @ take k ([0] # [[7], [8]])
    | Inr result \<Rightarrow> List.map_filter deposit_of (ft_log g) = List.map_filter deposit_of (ft_log demo_fts) @ [0] # [[7], [8]]
        \<and> getFile demo_ft (mf_fileHashHex demo_ft (demo_manifest [7, 8])) (g, v) = (Inr (Some [7, 8]), (g, v)))"
proof -
  obtain r g v where run: "sendFile demo_ft (Some [7, 8]) JNull JNull (JStr ''bob'') (JStr ''chat'') JNull (demo_fts, []) = (r, (g, v))"
    by (metis prod.collapse)
  have "ft_chunk demo_ft [7, 8] JNull JNull (if is_string JNull then JNull else JStr []) [] = (Inr (demo_manifest [7, 8], demo_chunks [7, 8]), [])"
    "ft_kvStore demo_ft = getKeyValueStore None" "mf_toBytes demo_ft (demo_manifest [7, 8]) = Inr [0]"
    "\<And>b. ft_base64ToBytes demo_ft (JStr (ft_bytesToBase64 demo_ft b)) = Inr b"
    "map (ch_toBytes demo_ft) (demo_chunks [7, 8]) = map Inr [[7], [8]]"
    by (simp_all add: demo_ft_def demo_chunks_def unlatin_latin del: unlatin.simps)
  from sendFile_sends_in_order_and_keeps_the_file [OF this(2,4) _ _ _ this(1,3,5) run] run
  show ?thesis by (auto simp: nonempty_string_def)
qed

end
