(* ===== verification/Event_Bus.thy ===== *)
theory Event_Bus
  imports Js_Prelude
begin

text \<open>
  The event bus (\<open>src/events/TypedEventBus.js\<close>). A listener is a function of the application, named by a
  number, or the wrapper that \<open>once\<close> makes around one: every call of \<open>once\<close> makes a new function, so a
  wrapper carries a serial number, and the event that its \<open>off\<close> closes over. The table of the bus is an
  association list, a \<open>Set\<close> of listeners a list in insertion order. Listeners are called synchronously
  and may use the bus themselves: the behaviour of a function is the sequence of calls that it makes on
  the bus before it returns or throws. The bus logs the calls of listeners with their depth. A listener
  that emits without end exhausts the stack: \<open>emit\<close> takes the number of nested emissions that the stack
  still holds, and the emission that no longer fits throws the \<open>RangeError\<close> into the listener that made
  it, where the nearest \<open>catch\<close> of an enclosing emission takes it and goes on with its loop.
\<close>

datatype listener = Fn nat | Wrapper nat string nat

record 'p bus =
  bus_handlers :: "(string \<times> listener list) list"
  bus_serial :: nat
  bus_calls :: "(nat \<times> listener \<times> 'p) list"

definition new_TypedEventBus :: "'p bus" where
  "new_TypedEventBus = \<lparr>bus_handlers = [], bus_serial = 0, bus_calls = []\<rparr>"

abbreviation handlers_of :: "'p bus \<Rightarrow> string \<Rightarrow> listener list option" where
  "handlers_of b eventName \<equiv> map_of (bus_handlers b) eventName"

section \<open>Subscription\<close>

text \<open>\<open>on(eventName, handler)\<close>; a handler that is no function is \<open>None\<close>. The function it returns is
  \<open>bus_off\<close> of the same arguments.\<close>

definition bus_on :: "jsval \<Rightarrow> listener option \<Rightarrow> 'p bus \<Rightarrow> 'p bus res" where
  "bus_on eventName handler b =
     (case eventName of
        JStr (c # cs) \<Rightarrow> (case handler of
            None \<Rightarrow> Inl (plain_err ''on() requires handler function'')
          | Some l \<Rightarrow> Inr (b\<lparr>bus_handlers := AList.update (c # cs)
              (set_add l (case handlers_of b (c # cs) of None \<Rightarrow> [] | Some ls \<Rightarrow> ls)) (bus_handlers b)\<rparr>))
      | _ \<Rightarrow> Inl (plain_err ''on() requires eventName string''))"

definition bus_off :: "string \<Rightarrow> listener \<Rightarrow> 'p bus \<Rightarrow> 'p bus" where
  "bus_off eventName handler b =
     (case handlers_of b eventName of
        None \<Rightarrow> b
      | Some ls \<Rightarrow> (let ls' = removeAll handler ls in
          b\<lparr>bus_handlers := (if ls' = [] then AList.delete eventName (bus_handlers b)
             else AList.update eventName ls' (bus_handlers b))\<rparr>))"

definition bus_once :: "jsval \<Rightarrow> nat option \<Rightarrow> 'p bus \<Rightarrow> 'p bus res" where
  "bus_once eventName handler b =
     (case handler of
        None \<Rightarrow> Inl (plain_err ''once() requires handler function'')
      | Some h \<Rightarrow> bus_on eventName (Some (Wrapper (bus_serial b) (js_String eventName) h)) (b\<lparr>bus_serial := Suc (bus_serial b)\<rparr>))"

text \<open>\<open>removeAllListeners(eventName)\<close>, without a name or with an empty one for all events.\<close>

definition removeAllListeners :: "string \<Rightarrow> 'p bus \<Rightarrow> 'p bus" where
  "removeAllListeners eventName b =
     b\<lparr>bus_handlers := (if eventName \<noteq> [] then AList.delete eventName (bus_handlers b) else [])\<rparr>"

definition listenerCount :: "string \<Rightarrow> 'p bus \<Rightarrow> nat" where
  "listenerCount eventName b = (case handlers_of b eventName of None \<Rightarrow> 0 | Some ls \<Rightarrow> length ls)"

section \<open>Emission\<close>

text \<open>What a function does to the bus when it is called, in order, and whether it throws at the end.\<close>

datatype 'p action =
    DoOn jsval "listener option"
  | DoOnce jsval "nat option"
  | DoOff string listener
  | DoEmit string 'p
  | DoRemoveAll string

type_synonym 'p behaviour = "nat \<Rightarrow> 'p \<Rightarrow> 'p action list \<times> bool"

text \<open>An emission, and an action: the bus afterwards, and whether it ended with an exception.\<close>

type_synonym 'p emitter = "string \<Rightarrow> 'p \<Rightarrow> 'p bus \<Rightarrow> 'p bus \<times> bool"

fun runAction :: "'p emitter \<Rightarrow> 'p action \<Rightarrow> 'p bus \<Rightarrow> 'p bus \<times> bool" where
  "runAction em (DoOn ev l) b = (case bus_on ev l b of Inl e \<Rightarrow> (b, True) | Inr b' \<Rightarrow> (b', False))"
| "runAction em (DoOnce ev h) b = (case bus_once ev h b of Inl e \<Rightarrow> (b, True) | Inr b' \<Rightarrow> (b', False))"
| "runAction em (DoOff ev l) b = (bus_off ev l b, False)"
| "runAction em (DoEmit ev p) b = em ev p b"
| "runAction em (DoRemoveAll ev) b = (removeAllListeners ev b, False)"

fun runActions :: "'p emitter \<Rightarrow> 'p action list \<Rightarrow> bool \<Rightarrow> 'p bus \<Rightarrow> 'p bus \<times> bool" where
  "runActions em [] throws b = (b, throws)"
| "runActions em (a # as) throws b =
     (case runAction em a b of (b', threw) \<Rightarrow> if threw then (b', True) else runActions em as throws b')"

text \<open>\<open>fn(payload)\<close>: a wrapper first takes itself off, then calls its function.\<close>

fun callListener :: "'p emitter \<Rightarrow> nat \<Rightarrow> 'p behaviour \<Rightarrow> listener \<Rightarrow> 'p \<Rightarrow> 'p bus \<Rightarrow> 'p bus \<times> bool" where
  "callListener em n B (Fn h) payload b =
     (let (as, throws) = B h payload in
      runActions em as throws (b\<lparr>bus_calls := bus_calls b @ [(n, Fn h, payload)]\<rparr>))"
| "callListener em n B (Wrapper k ev h) payload b =
     (let (as, throws) = B h payload; b' = bus_off ev (Wrapper k ev h) b in
      runActions em as throws (b'\<lparr>bus_calls := bus_calls b' @ [(n, Wrapper k ev h, payload)]\<rparr>))"

text \<open>The loop over the copy of the set; the \<open>catch\<close> ignores what a listener throws.\<close>

fun deliver :: "'p emitter \<Rightarrow> nat \<Rightarrow> 'p behaviour \<Rightarrow> listener list \<Rightarrow> 'p \<Rightarrow> 'p bus \<Rightarrow> 'p bus" where
  "deliver em n B [] payload b = b"
| "deliver em n B (l # ls) payload b =
     (case callListener em n B l payload b of (b', threw) \<Rightarrow> deliver em n B ls payload b')"

fun emit :: "nat \<Rightarrow> 'p behaviour \<Rightarrow> 'p emitter" where
  "emit 0 B eventName payload b = (b, True)"
| "emit (Suc n) B eventName payload b =
     (case handlers_of b eventName of
        None \<Rightarrow> (b, False)
      | Some ls \<Rightarrow> if ls = [] then (b, False) else (deliver (emit n B) n B ls payload b, False))"

section \<open>The table\<close>

text \<open>No event has an empty set, no set a listener twice, and no event two sets.\<close>

definition bus_ok :: "'p bus \<Rightarrow> bool" where
  "bus_ok b \<longleftrightarrow> distinct (map fst (bus_handlers b)) \<and> (\<forall>ev ls. handlers_of b ev = Some ls \<longrightarrow> ls \<noteq> [] \<and> distinct ls)"

lemma bus_ok_update: "bus_ok b \<Longrightarrow> ls \<noteq> [] \<Longrightarrow> distinct ls \<Longrightarrow> bus_ok (b\<lparr>bus_handlers := AList.update ev ls (bus_handlers b)\<rparr>)"
  by (auto simp: bus_ok_def distinct_update update_conv)

lemma bus_ok_delete: "bus_ok b \<Longrightarrow> bus_ok (b\<lparr>bus_handlers := AList.delete ev (bus_handlers b)\<rparr>)"
  by (auto simp: bus_ok_def distinct_delete delete_conv split: if_splits)

lemma bus_ok_irrelevant [simp]: "bus_ok (b\<lparr>bus_serial := k\<rparr>) = bus_ok b" "bus_ok (b\<lparr>bus_calls := c\<rparr>) = bus_ok b"
  by (simp_all add: bus_ok_def)

lemma bus_okD: "bus_ok b \<Longrightarrow> handlers_of b ev = Some ls \<Longrightarrow> ls \<noteq> [] \<and> distinct ls"
  by (simp add: bus_ok_def)

lemma bus_on_ok: "bus_ok b \<Longrightarrow> bus_on ev l b = Inr b' \<Longrightarrow> bus_ok b'"
  by (auto simp: bus_on_def dest: bus_okD intro!: bus_ok_update split: jsval.splits list.splits option.splits)

lemma bus_off_ok: "bus_ok b \<Longrightarrow> bus_ok (bus_off ev l b)"
  by (auto simp: bus_off_def Let_def distinct_removeAll dest: bus_okD intro!: bus_ok_update bus_ok_delete split: option.split)

lemma bus_once_ok: "bus_ok b \<Longrightarrow> bus_once ev h b = Inr b' \<Longrightarrow> bus_ok b'"
  by (auto simp: bus_once_def elim!: bus_on_ok [rotated] split: option.splits)

lemma removeAllListeners_ok: "bus_ok b \<Longrightarrow> bus_ok (removeAllListeners ev b)"
  by (simp add: removeAllListeners_def bus_ok_delete) (simp add: bus_ok_def)

text \<open>A condition on the bus that every use of it keeps is kept by a call of a listener and by an emission.\<close>

definition kept_by :: "('p bus \<Rightarrow> bool) \<Rightarrow> 'p emitter \<Rightarrow> bool" where
  "kept_by P em \<longleftrightarrow> (\<forall>ev p b. P b \<longrightarrow> P (fst (em ev p b)))"

lemma runActions_ok:
  assumes "kept_by bus_ok em"
  shows "bus_ok b \<Longrightarrow> bus_ok (fst (runActions em as t b))"
proof (induction as arbitrary: b)
  case (Cons a as)
  have "bus_ok (fst (runAction em a b))"
    using Cons.prems assms
    by (cases a) (auto simp: kept_by_def bus_off_ok removeAllListeners_ok dest: bus_on_ok bus_once_ok split: sum.splits)
  then show ?case using Cons.IH by (auto split: prod.splits)
qed simp

lemma deliver_ok:
  assumes "kept_by bus_ok em"
  shows "bus_ok b \<Longrightarrow> bus_ok (deliver em n B ls p b)"
proof (induction ls arbitrary: b)
  case (Cons l ls)
  have "bus_ok (fst (callListener em n B l p b))"
    using Cons.prems by (cases l) (auto intro!: runActions_ok [OF assms] simp: Let_def bus_off_ok split: prod.splits)
  then show ?case using Cons.IH by (auto split: prod.splits)
qed simp

text \<open>Whatever the listeners do to the bus while they are called, and however emissions nest, the table
  keeps its form: no event is listed twice or with an empty set of listeners, and no listener twice for
  an event.\<close>
theorem emission_keeps_table: "kept_by bus_ok (emit n B)"
proof (induction n)
  case (Suc n)
  then show ?case unfolding kept_by_def by (auto intro: deliver_ok [OF Suc] split: option.splits)
qed (simp add: kept_by_def)

section \<open>Who is called\<close>

text \<open>The calls that the emission at depth \<open>n\<close> makes itself; those of nested emissions are below.\<close>

definition calls_at :: "nat \<Rightarrow> 'p bus \<Rightarrow> (nat \<times> listener \<times> 'p) list" where
  "calls_at n b = filter (\<lambda>(k, l, p). k \<ge> n) (bus_calls b)"

lemma bus_calls_keep [simp]: "bus_calls (bus_off ev l b) = bus_calls b" "bus_calls (removeAllListeners ev b) = bus_calls b"
  "bus_on v h b = Inr b' \<Longrightarrow> bus_calls b' = bus_calls b" "bus_once v k b = Inr b' \<Longrightarrow> bus_calls b' = bus_calls b"
  by (auto simp: bus_off_def removeAllListeners_def bus_on_def bus_once_def Let_def
      split: option.splits jsval.splits list.splits)

definition silent_at :: "nat \<Rightarrow> 'p emitter \<Rightarrow> bool" where
  "silent_at n em \<longleftrightarrow> (\<forall>ev p b. calls_at n (fst (em ev p b)) = calls_at n b)"

lemma runActions_silent:
  assumes "silent_at n em"
  shows "calls_at n (fst (runActions em as t b)) = calls_at n b"
proof (induction as arbitrary: b)
  case (Cons a as)
  have "calls_at n (fst (runAction em a b)) = calls_at n b"
    using assms by (cases a) (auto simp: silent_at_def calls_at_def split: sum.splits)
  then show ?case using Cons.IH by (auto split: prod.splits)
qed simp

lemma callListener_calls:
  assumes "silent_at n em"
  shows "calls_at n (fst (callListener em k B l p b)) = calls_at n b @ (if k \<ge> n then [(k, l, p)] else [])"
  by (cases l) (auto simp: runActions_silent [OF assms, unfolded calls_at_def] calls_at_def Let_def split: prod.splits)

lemma deliver_calls:
  assumes "silent_at n em"
  shows "calls_at n (deliver em k B ls p b) = calls_at n b @ (if k \<ge> n then map (\<lambda>l. (k, l, p)) ls else [])"
proof (induction ls arbitrary: b)
  case (Cons l ls)
  then show ?case using callListener_calls [OF assms, of k B l p b] by (auto split: prod.splits)
qed simp

lemma emit_silent: "n \<le> k \<Longrightarrow> silent_at k (emit n B)"
proof (induction n)
  case (Suc n)
  then have "silent_at k (emit n B)" by simp
  then show ?case using Suc.prems unfolding silent_at_def [of k "emit (Suc n) B"]
    by (auto simp: deliver_calls split: option.splits)
qed (simp add: silent_at_def)

text \<open>C32. An emission calls exactly the listeners that were registered for the event when it started, each
  once and in the order of their registration, and returns, whatever they do: throwing, taking
  themselves or others off, adding listeners, clearing the table or emitting again, and however deep
  the stack is. Also when nested emissions exhaust the stack, the emissions around them go on with
  their own listeners.\<close>
theorem emit_calls_registered_listeners:
  "calls_at n (fst (emit (Suc n) B eventName payload b)) = calls_at n b
     @ map (\<lambda>l. (n, l, payload)) (case handlers_of b eventName of None \<Rightarrow> [] | Some ls \<Rightarrow> ls)
   \<and> \<not> snd (emit (Suc n) B eventName payload b)"
  by (auto simp: deliver_calls [OF emit_silent [OF order_refl]] split: option.splits)

section \<open>Listeners for one call\<close>

text \<open>The log of calls only grows.\<close>

definition grows :: "'p emitter \<Rightarrow> bool" where
  "grows em \<longleftrightarrow> (\<forall>ev p b. prefix (bus_calls b) (bus_calls (fst (em ev p b))))"

lemma runActions_grows:
  assumes "grows em"
  shows "prefix (bus_calls b) (bus_calls (fst (runActions em as t b)))"
proof (induction as arbitrary: b)
  case (Cons a as)
  have "prefix (bus_calls b) (bus_calls (fst (runAction em a b)))"
    using assms by (cases a) (auto simp: grows_def split: sum.splits)
  then show ?case using Cons.IH by (auto split: prod.splits intro: prefix_order.trans)
qed simp

lemma callListener_grows:
  assumes "grows em"
  shows "prefix (bus_calls b @ [(k, l, p)]) (bus_calls (fst (callListener em k B l p b)))"
  by (cases l) (auto simp: Let_def split: prod.splits intro: prefix_order.trans [OF _ runActions_grows [OF assms]])

lemma deliver_grows:
  assumes "grows em"
  shows "prefix (bus_calls b) (bus_calls (deliver em k B ls p b))"
proof (induction ls arbitrary: b)
  case (Cons l ls)
  have "prefix (bus_calls b) (bus_calls (fst (callListener em k B l p b)))"
    using callListener_grows [OF assms] by (rule append_prefixD)
  then show ?case using Cons.IH by (auto split: prod.splits intro: prefix_order.trans)
qed simp

lemma emit_grows: "grows (emit n B)"
proof (induction n)
  case (Suc n)
  then show ?case unfolding grows_def [of "emit (Suc n) B"] by (auto intro: deliver_grows split: option.splits)
qed (simp add: grows_def)

lemma emit_new_calls:
  assumes "handlers_of b ev = Some ls"
  shows "\<exists>new. bus_calls (fst (emit (Suc n) B ev p b)) = bus_calls b @ new \<and> (\<lambda>l. (n, l, p)) ` set ls \<subseteq> set new"
proof -
  obtain new where new: "bus_calls (fst (emit (Suc n) B ev p b)) = bus_calls b @ new"
    using emit_grows [of "Suc n" B] unfolding grows_def prefix_def by blast
  have "calls_at n (fst (emit (Suc n) B ev p b)) = calls_at n b @ map (\<lambda>l. (n, l, p)) ls"
    using assms by (auto simp: deliver_calls [OF emit_silent [OF order_refl]])
  then have "filter (\<lambda>(k, l, p). k \<ge> n) new = map (\<lambda>l. (n, l, p)) ls" unfolding calls_at_def new by simp
  from arg_cong [OF this, of set] new show ?thesis by auto
qed

text \<open>C40. A listener added with \<open>once\<close> may be called twice: on any bus and with any other listeners, when the
  first listener of an event emits the event again, the wrapper of a \<open>once\<close> listener of that event is
  called by the inner emission, which takes it off, and, as the outer emission goes over its copy of the
  set, a second time by the outer one.\<close>
theorem once_listener_called_twice:
  assumes "handlers_of b ev = Some (Fn h # ls)" "Wrapper k ev f \<in> set ls" "B h payload = (DoEmit ev q # as, t)"
  shows "\<exists>new. bus_calls (fst (emit (Suc (Suc n)) B ev payload b)) = bus_calls b @ new
    \<and> (n, Wrapper k ev f, q) \<in> set new \<and> (Suc n, Wrapper k ev f, payload) \<in> set new"
proof -
  let ?b = "b\<lparr>bus_calls := bus_calls b @ [(Suc n, Fn h, payload)]\<rparr>" and ?em = "emit (Suc n) B"
  let ?inner = "fst (?em ev q ?b)" and ?outer = "fst (emit (Suc (Suc n)) B ev payload b)"
  have "\<not> snd (?em ev q ?b)" using assms(1) by simp
  then have "callListener ?em (Suc n) B (Fn h) payload b = runActions ?em as t ?inner"
    using assms(3) by (simp add: split_beta Let_def del: emit.simps)
  then have "?outer = deliver ?em (Suc n) B ls payload (fst (runActions ?em as t ?inner))"
    using assms(1) by (simp add: emit.simps(2) [of "Suc n"] split_beta del: emit.simps callListener.simps)
  then have "prefix (bus_calls ?inner) (bus_calls ?outer)"
    using prefix_order.trans [OF runActions_grows [OF emit_grows] deliver_grows [OF emit_grows]] by (simp del: emit.simps)
  moreover have "handlers_of ?b ev = Some (Fn h # ls)" using assms(1) by simp
  from emit_new_calls [OF this, of n B q] obtain u where
    u: "bus_calls ?inner = bus_calls ?b @ u" "(\<lambda>l. (n, l, q)) ` set (Fn h # ls) \<subseteq> set u" by blast
  moreover from emit_new_calls [OF assms(1), of "Suc n" B payload] obtain v where
    v: "bus_calls ?outer = bus_calls b @ v" "(\<lambda>l. (Suc n, l, payload)) ` set (Fn h # ls) \<subseteq> set v" by blast
  ultimately have "set u \<subseteq> set v" by (auto simp: prefix_def simp del: emit.simps)
  then show ?thesis using u(2) v assms(2) by (intro exI [of _ v]) auto
qed

text \<open>A function that emits the event once more, with payload 1, when it is called with 0.\<close>

definition re_emitter :: "nat behaviour" where
  "re_emitter h payload = (if h = 0 \<and> payload = 0 then ([DoEmit ''e'' 1], False) else ([], False))"

theorem once_listener_called_twice_witness:
  "\<exists>b new. bind_r (bus_on (JStr ''e'') (Some (Fn 0)) new_TypedEventBus) (bus_once (JStr ''e'') (Some 1)) = Inr b
    \<and> bus_calls (fst (emit 2 re_emitter ''e'' 0 b)) = new
    \<and> (0, Wrapper 0 ''e'' 1, 1) \<in> set new \<and> (1, Wrapper 0 ''e'' 1, 0) \<in> set new"
proof -
  let ?b = "new_TypedEventBus\<lparr>bus_handlers := [(''e'', [Fn 0, Wrapper 0 ''e'' 1])], bus_serial := 1\<rparr> :: nat bus"
  have "bind_r (bus_on (JStr ''e'') (Some (Fn 0)) new_TypedEventBus) (bus_once (JStr ''e'') (Some 1)) = Inr ?b"
    by (simp add: bus_on_def bus_once_def new_TypedEventBus_def set_add_def)
  moreover have "bus_calls ?b = []" by (simp add: new_TypedEventBus_def)
  ultimately show ?thesis
    using once_listener_called_twice [of ?b "''e''" 0 "[Wrapper 0 ''e'' 1]" 0 1 re_emitter 0 1 "[]" False 0]
    by (simp add: re_emitter_def numeral_2_eq_2 del: emit.simps)
qed

end
