(* ===== verification/Metrics.thy ===== *)
theory Metrics
  imports Js_Prelude
begin

text \<open>
  Counters and histograms (\<open>src/observability/MetricsCollector.js\<close>). A hook is named by a number; the calls
  of the hooks are logged, and what a hook throws is ignored. Hooks that change the set of hooks while
  they are called are not modelled.
\<close>

record hist =
  h_count :: nat
  h_sum :: rat
  h_min :: jnum
  h_max :: jnum

datatype metric = CounterMetric string jnum jnum | HistogramMetric string rat nat

record metrics =
  mx_counters :: "(string \<times> jnum) list"
  mx_histograms :: "(string \<times> hist) list"
  mx_hooks :: "nat list"
  mx_notified :: "(nat \<times> metric) list"

definition new_MetricsCollector :: metrics where
  "new_MetricsCollector = \<lparr>mx_counters = [], mx_histograms = [], mx_hooks = [], mx_notified = []\<rparr>"

definition mx_notify :: "metric \<Rightarrow> metrics \<Rightarrow> metrics" where
  "mx_notify metric c = c\<lparr>mx_notified := mx_notified c @ map (\<lambda>h. (h, metric)) (mx_hooks c)\<rparr>"

text \<open>\<open>this.#counters.get(name) || 0\<close>: a counter that became \<open>NaN\<close> starts over.\<close>

definition increment :: "string \<Rightarrow> jnum \<Rightarrow> metrics \<Rightarrow> metrics" where
  "increment name v c =
     (let current = (case map_of (mx_counters c) name of
            None \<Rightarrow> Fin 0
          | Some n \<Rightarrow> if js_truthy (JNum n) then n else Fin 0);
          total = num_add current v
      in mx_notify (CounterMetric name total v) (c\<lparr>mx_counters := AList.update name total (mx_counters c)\<rparr>))"

text \<open>A value that is no finite number is ignored.\<close>

fun mx_record :: "string \<Rightarrow> jsval \<Rightarrow> metrics \<Rightarrow> metrics" where
  "mx_record name (JNum (Fin v)) c =
     (let hist = (case map_of (mx_histograms c) name of
            None \<Rightarrow> \<lparr>h_count = 0, h_sum = 0, h_min = PInf, h_max = NInf\<rparr>
          | Some h \<Rightarrow> h);
          hist' = \<lparr>h_count = h_count hist + 1, h_sum = h_sum hist + v,
             h_min = (if num_less (Fin v) (h_min hist) then Fin v else h_min hist),
             h_max = (if num_less (h_max hist) (Fin v) then Fin v else h_max hist)\<rparr>
      in mx_notify (HistogramMetric name v (h_count hist')) (c\<lparr>mx_histograms := AList.update name hist' (mx_histograms c)\<rparr>))"
| "mx_record name v c = c"

record hist_snapshot =
  hs_count :: nat
  hs_sum :: rat
  hs_min :: jnum
  hs_max :: jnum
  hs_avg :: rat

definition hist_view :: "hist \<Rightarrow> hist_snapshot" where
  "hist_view v = \<lparr>hs_count = h_count v, hs_sum = h_sum v,
     hs_min = (if h_min v = PInf then Fin 0 else h_min v),
     hs_max = (if h_max v = NInf then Fin 0 else h_max v),
     hs_avg = (if h_count v > 0 then h_sum v / of_nat (h_count v) else 0)\<rparr>"

definition mx_snapshot :: "metrics \<Rightarrow> (string \<times> jnum) list \<times> (string \<times> hist_snapshot) list" where
  "mx_snapshot c = (mx_counters c, map (\<lambda>(k, v). (k, hist_view v)) (mx_histograms c))"

definition mx_reset :: "metrics \<Rightarrow> metrics" where
  "mx_reset c = c\<lparr>mx_counters := [], mx_histograms := []\<rparr>"

definition onMetric :: "nat option \<Rightarrow> metrics \<Rightarrow> metrics res" where
  "onMetric handler c =
     (case handler of
        None \<Rightarrow> Inl (plain_err ''handler required'')
      | Some h \<Rightarrow> Inr (c\<lparr>mx_hooks := set_add h (mx_hooks c)\<rparr>))"

definition offMetric :: "nat \<Rightarrow> metrics \<Rightarrow> metrics" where
  "offMetric h c = c\<lparr>mx_hooks := removeAll h (mx_hooks c)\<rparr>"

section \<open>A histogram summarises what was recorded\<close>

text \<open>The finite values recorded under a name, in a sequence of recordings.\<close>

fun finite_values :: "string \<Rightarrow> (string \<times> jsval) list \<Rightarrow> rat list" where
  "finite_values name [] = []"
| "finite_values name ((n, JNum (Fin v)) # rs) = (if n = name then v # finite_values name rs else finite_values name rs)"
| "finite_values name (r # rs) = finite_values name rs"

text \<open>The summary of a list of values, by the definitions of the words.\<close>

definition summary :: "rat list \<Rightarrow> hist_snapshot" where
  "summary vs = \<lparr>hs_count = length vs, hs_sum = sum_list vs, hs_min = Fin (Min (set vs)), hs_max = Fin (Max (set vs)),
     hs_avg = sum_list vs / of_nat (length vs)\<rparr>"

definition hist_of :: "rat list \<Rightarrow> hist" where
  "hist_of vs = \<lparr>h_count = length vs, h_sum = sum_list vs, h_min = Fin (Min (set vs)), h_max = Fin (Max (set vs))\<rparr>"

definition recorded :: "(string \<times> jsval) list \<Rightarrow> metrics \<Rightarrow> metrics" where
  "recorded rs c = fold (\<lambda>(n, v). mx_record n v) rs c"

lemma finite_values_append: "finite_values name (rs @ rs') = finite_values name rs @ finite_values name rs'"
  by (induction name rs rule: finite_values.induct) auto

text \<open>One more value extends the summary.\<close>

lemma record_extends:
  assumes "map_of (mx_histograms c) name = (if vs = [] then None else Some (hist_of vs))"
  shows "map_of (mx_histograms (mx_record name (JNum (Fin v)) c)) name = Some (hist_of (vs @ [v]))"
proof (cases "vs = []")
  case False
  define least where "least = Min (set vs)"
  define greatest where "greatest = Max (set vs)"
  have "hist_of (vs @ [v]) = \<lparr>h_count = length vs + 1, h_sum = sum_list vs + v, h_min = Fin (min v least), h_max = Fin (max v greatest)\<rparr>"
    using False by (simp add: hist_of_def least_def greatest_def)
  moreover have "hist_of vs = \<lparr>h_count = length vs, h_sum = sum_list vs, h_min = Fin least, h_max = Fin greatest\<rparr>"
    by (simp add: hist_of_def least_def greatest_def)
  ultimately show ?thesis using assms False by (auto simp: mx_notify_def Let_def update_conv min_def max_def)
qed (use assms in \<open>simp add: mx_notify_def Let_def update_conv hist_of_def\<close>)

lemma record_other: "n \<noteq> name \<Longrightarrow> map_of (mx_histograms (mx_record n v c)) name = map_of (mx_histograms c) name"
  by (cases "(n, v, c)" rule: mx_record.cases) (auto simp: mx_notify_def Let_def update_conv)

lemma recorded_hist:
  assumes "mx_histograms c = []"
  shows "map_of (mx_histograms (recorded rs c)) name
    = (if finite_values name rs = [] then None else Some (hist_of (finite_values name rs)))"
proof (induction rs rule: rev_induct)
  case (snoc r rs)
  obtain n v where r: "r = (n, v)" by (cases r)
  show ?case
  proof (cases "n = name \<and> (\<exists>q. v = JNum (Fin q))")
    case True
    then obtain q where "n = name" "v = JNum (Fin q)" by blast
    with record_extends [OF snoc.IH] show ?thesis by (simp add: r recorded_def finite_values_append del: mx_record.simps)
  next
    case False
    then have "finite_values name [r] = []" by (cases "(name, [r])" rule: finite_values.cases) (auto simp: r)
    moreover have "map_of (mx_histograms (mx_record n v d)) name = map_of (mx_histograms d) name" for d
      using False by (cases "n = name"; cases "(n, v, d)" rule: mx_record.cases) (auto simp: record_other simp del: mx_record.simps(1))
    ultimately show ?thesis using snoc.IH by (simp add: r recorded_def finite_values_append)
  qed
qed (simp add: recorded_def assms)

text \<open>The snapshot of a histogram is the summary of the finite values recorded under its name since
  the last reset: their number, sum, least and greatest value and mean; there is no histogram for a name
  without one, and what is no finite number leaves no trace.\<close>
theorem snapshot_summarises_recordings:
  "map_of (snd (mx_snapshot (recorded rs (mx_reset c)))) name
    = (if finite_values name rs = [] then None else Some (summary (finite_values name rs)))"
proof -
  have "map_of (map (\<lambda>(k, v). (k, hist_view v)) hs) name = map_option hist_view (map_of hs name)" for hs
    by (induction hs) auto
  moreover have "vs \<noteq> [] \<Longrightarrow> hist_view (hist_of vs) = summary vs" for vs
    by (simp add: hist_view_def hist_of_def summary_def)
  ultimately show ?thesis by (simp add: mx_snapshot_def recorded_hist mx_reset_def)
qed

end
