(* ===== verification/Spec2Isabelle.thy ===== *)
theory Spec2Isabelle
  imports PeerLink_Messaging Inbox_Claims_Props Tcp_Transport_Props Connection Auth_Props
    Uplink_Pool_Props Uplink_Frames Device_Link_Props Device_Ingest_Props
    Authority_Records_Props File_Transfer_Props Event_Bus Metrics
begin

text \<open>
  A verification development of the Rez SDK (the JavaScript library under \<open>src/src\<close>), by which an
  application connects to relay nodes, authenticates, claims inboxes and exchanges end-to-end
  encrypted messages with the devices of its peers.

  \<^bold>\<open>Parts of the program and how they interact.\<close> A transport carries frames to a node
  (\<open>transport/TcpTransport.js\<close>). The connection machine (\<open>connection/ConnectionStateMachine.js\<close>)
  opens it, lets the authentication machine (\<open>auth/AuthStateMachine.js\<close>) run its handshake over
  it, and reconnects with a back-off; the uplink pool (\<open>pool/UplinkPool.js\<close>) does the same over
  several nodes, with warm spares, failover and a duplicate filter. The handshake consults and raises the contract floor of the
  relay (\<open>relay/RelayContractFloorStore.js\<close>, \<open>relay/DowngradePolicy.js\<close>). The inboxes that the
  client owns are kept by \<open>inbox/InboxClaimStore.js\<close>. Peer links, their sessions, handshakes and
  events are stored by \<open>peer-link/createKeyValueBackedPeerLinkStorage.js\<close> over a key-value store
  such as \<open>storage/IndexedDbStorageProvider.js\<close>, and used by \<open>peer-link/DevicePeerSessions.js\<close>
  (one session per device) and \<open>peer-link/PeerLinkService.js\<close> (messages), whose lifecycle is
  checked by \<open>peer-link/PeerLinkStateMachine.js\<close>. A new device joins an account by the device-link
  ceremony between \<open>device-link/DeviceLinkApprover.js\<close> and \<open>device-link/DeviceLinkRequester.js\<close>.
  An account tells its peers which devices it has by sealed, signed records
  (\<open>peer-link/deviceSetPublish.js\<close>, \<open>peer-link/peerScopedSeal.js\<close>); \<open>PeerLinkService\<close> opens them under
  the account's bound identity, guards against rollback and starts a session with each new device.
  A peer link starts from an invite: \<open>PeerLinkService\<close> issues and signs one, the other side accepts it
  with a handshake, and the issuer answers the handshake with an ack or a rejection; a ledger in the
  invite's record counts the accounts that it has let in. Files are sent over these messages in
  chunks (\<open>filetransfer/FileTransferService.js\<close>). Events of the client go over the event bus
  (\<open>events/TypedEventBus.js\<close>), numbers to the metrics (\<open>observability/MetricsCollector.js\<close>).

  \<^bold>\<open>Theories.\<close>
  \<^item> \<open>Js_Prelude\<close>, \<open>Js_Bytes\<close>: the values of the language, conversions, the JSON clone and printer,
    errors, the effect monad \<open>('w, 'a) io\<close> (a world in, a result or an exception and a world out),
    UTF-8, 32-bit big-endian integers, and the lemma collections the other theories use.
  \<^item> \<open>Kv_Store\<close>: the key-value interface as the locales \<open>kv_store\<close> and \<open>kv_host\<close>, and the IndexedDB
    provider, which interprets them.
  \<^item> \<open>PeerLink_Storage\<close>: the five stores of the peer-link storage, one definition per operation.
    \<open>PeerLink_Storage_Laws\<close> proves their laws over any \<open>kv_store\<close> (the locale \<open>versioned_store\<close> for
    the two compare-and-set stores), \<open>PeerLink_Event_Log\<close> the refinement of an append-only log and
    the paging, \<open>PeerLink_Storage_Props\<close> the properties on the browser storage.
  \<^item> \<open>PeerLink_StateMachine\<close>: the transition table and its reachability.
  \<^item> \<open>E2ee_Env\<close>: the environment of the message services and its trace of storage effects;
    \<open>Device_Sessions\<close>: the per-device sessions; \<open>PeerLink_Messaging\<close>: the commit of an advanced
    ratchet with its recovery, encryption and decryption of direct messages.
  \<^item> \<open>Relay_Floor\<close>: the floor store and the policy, over the locale \<open>floor_medium\<close>.
  \<^item> \<open>Auth\<close>, \<open>Auth_Props\<close>: the handshake in both modes.
  \<^item> \<open>Inbox_Claims\<close>, \<open>Inbox_Claims_Props\<close>: the claim store, over the locales \<open>atomic_kv\<close> (a store
    whose writes may fail) and \<open>claim_host\<close>.
  \<^item> \<open>Tcp_Transport\<close>, \<open>Tcp_Transport_Props\<close>: framing, request correlation and the codec.
  \<^item> \<open>Connection\<close>: the connection machine as a step relation, over the locale \<open>backoff\<close>.

  \<^item> \<open>Js_Hoare\<close>: weakest preconditions for operations of an object over a world.
  \<^item> \<open>Uplink_Pool\<close>, \<open>Uplink_Pool_Props\<close>, \<open>Uplink_Frames\<close>: the uplink pool, its invariant over every
    sequence of operations, and the size estimate of its duplicate filter.
  \<^item> \<open>Device_Link\<close>, \<open>Device_Link_Props\<close>: the two halves of the device-link ceremony.
  \<^item> \<open>Device_Set\<close>, \<open>Device_Set_Props\<close>: the seal to a peer and the device-set record.
  \<^item> \<open>Account_Identity\<close>, \<open>Account_Identity_Props\<close>: construction of the peer-link service, its account
    keys, bindings and account-state events.
  \<^item> \<open>Account_Keys_Props\<close>: the account's keys on the browser storage, whose identity key is kept.
  \<^item> \<open>Device_Ingest\<close>, \<open>Device_Ingest_Props\<close>: device sets of peers in the service; the locale \<open>bystander\<close>
    (a world whose calls leave a condition alone) and \<open>floor_store\<close> (a key-value store that holds the
    rollback floors), interpreted on the browser storage.
  \<^item> \<open>Invite_Ledger\<close>, \<open>Invite_Ledger_Props\<close>: the record of an invite and its ledger, with claim, join,
    consumption and revocation, over the locale \<open>invite_ledger\<close>, interpreted on the browser storage
    beside a clock.
  \<^item> \<open>PeerLink_Handshake\<close>, \<open>PeerLink_Handshake_Props\<close>: the responder to a handshake, the ack and the
    rejection, expiry and the queries; the locale \<open>replayed\<close> for a handshake that was seen before.
  \<^item> \<open>Invites\<close>, \<open>Invites_Props\<close>: issuing and accepting an invite, and the canonical payload that is
    signed.
  \<^item> \<open>Authority_Records\<close>, \<open>Authority_Records_Props\<close>: who signs for the account, its prekey bundles with their
    window, the device set built for a peer, and the authority state.
  \<^item> \<open>File_Transfer\<close>, \<open>File_Transfer_Props\<close>: sending and receiving files in chunks.
  \<^item> \<open>Event_Bus\<close>, \<open>Metrics\<close>: the event bus with listeners that use it while they are called, counters and
    histograms.

  \<^bold>\<open>Correspondence.\<close> A class is a record of its private fields, or, where it only reads, a record of
  the functions it is given. A method is a definition of the same name (prefixed where two classes
  share one), in the order of the source, with every guard, early return and thrown error as a
  branch. Where the code awaits, the sequential theories use \<open>bindE\<close>; the connection machine, whose
  calls interleave, is split at its awaits into a step relation. A \<open>Map\<close> is an association list in
  insertion order. Effects on the outside (bytes written, promises settled, events emitted,
  session writes) are logs in the state, so that theorems speak about their order. Where a theorem
  depends on the answer of a call (a verification, a journal, a registration, a stored delegation),
  the log holds the answer, taken from the same call that the code makes.

  \<^bold>\<open>What is shown.\<close> The message layer never returns a plaintext or releases a ciphertext whose
  ratchet step is not durable, whatever the storage does. Device sessions are bound to
  authenticated device keys and do not interfere. The storage refuses lost updates, refines an
  event log, pages completely, and separates accounts. The handshake signs only for a node that
  has proved its key, keeps claimants anonymous and is stopped by an enforced floor, which is
  exactly the maximum of what was observed. The claim store keeps memory and disk in step through
  failed writes. The transport reassembles frames from any chunking and settles each request
  exactly once. The connection machine announces its states without gaps and backs off within
  its bounds. A ready uplink pool has a ready active uplink. The device-link ceremony releases a
  delegation only after the journal has taken its entry and the home has answered with a commit that
  names the device, and confirms only what was checked and what the store has answered to have kept. A device set is
  accepted only if every signature in it verified and each device has its bundle, and never goes
  back; an established identity key is never replaced in the storage by a load of the account's keys, and bindings are accepted only when signed
  for the account. An invite lets in at most as many accounts as its issuer allowed, in any order of
  claims, joins and replays. Accepting an invite, answering a handshake and taking an ack or a
  rejection write only after the signatures have been verified, and a handshake that is replayed
  leaves the sessions as they are. An authority state is authored with the account's root key only,
  and opened only if it verified; a prekey stays answerable for the next two publications. A received file consists of chunks that all have the hashes of its
  manifest, and arrives whole for any order of its chunks. An emission of the event bus calls the
  listeners that were registered when it started, whatever they do, and the snapshot of a histogram is
  the summary of what was recorded.

  \<^bold>\<open>Bounds and fuel.\<close> The polling loops of the device-link ceremony take the number of polls as fuel
  and answer \<open>None\<close> when it is used up; \<open>link_polling_ends\<close> shows that the milliseconds to the
  deadline are enough. An emission of the event bus takes the depth of
  the stack, counted in nested emissions: one that no longer fits throws into the listener that called
  it, as a stack overflow does, and the emission around it goes on, so that every emission has a
  result and the theorems hold for any depth. The frame loop of \<open>onData\<close> terminates because each round consumes a header; the retry of a session write is
  bounded by the constant of the code. Lengths are words of 32 bits on the wire and 8-bit bytes.

  \<^bold>\<open>Parameters.\<close> \<open>@rezprotocol/core\<close> (keys, signatures, canonical JSON, the ratchet, X3DH, safe JSON
  parsing) is not part of the repository: its functions are fields of the environment records and
  arbitrary, except where a locale names what is used of them (\<open>claim_host\<close>) or a theorem does (no two
  authority payloads in question with the same hash, for the equality of device sets).

  \<^bold>\<open>Conventions that differ from the language.\<close> Strings hold code units up to 255; finite numbers
  are exact rationals; an em dash in an error message is a hyphen; objects are compared by
  contents, which the code does only for primitives. A local identifier takes its time from the
  injected clock, where \<open>PeerLinkService.js:124\<close> reads \<open>Date.now()\<close>. A \<open>put\<close> of the browser storage
  that has succeeded is durable at once, where the code resolves at the success of the request and
  before the transaction commits.

  \<^bold>\<open>Not modelled.\<close> The WebSocket transport, the client facade and the capabilities, which forward requests; browser
  crypto, key files, defaults and re-exports, which are calls into other libraries. Interleavings
  of two calls of the same sequential service at an await are modelled only for the connection
  machine, for \<open>cancel()\<close> of the device-link approver and, as arbitrary steps, for the transport;
  what \<open>withLock\<close> guards is one atomic step. What a listener of the connection machine does while it is
  called is a step after the one that calls it, except for the listeners of the scheduled reconnect, which are called
  between the count and the timer.
\<close>

end
